(* ===== verification/Prelude.thy ===== *)
theory Prelude
  imports Main "HOL-Library.AList" "HOL-Library.Char_ord" "HOL-Library.List_Lexorder"
begin

text \<open>
  Shared vocabulary of the development: the result type of fallible code, Go's string-keyed
  maps as association lists, the functions of Go's \<open>strings\<close> package that the sources use, and
  the lemma collections the component theories add to.
\<close>

named_theorems go_simps "evaluation rules for the Go library functions"
named_theorems codec_simps "encoders, decoders and their round trips"
named_theorems store_defs "definitions of the store's statements"

section \<open>Results\<close>

text \<open>
  An operation of the store fails with the sentinel \<open>ErrNotFound\<close> or with whatever the SQL
  driver reports (a constraint violation, a busy or broken database), kept as a message.
\<close>

datatype err = ErrNotFound | ErrSql string

text \<open>Instants are nanoseconds since the Unix epoch; Go's zero time is the start of year 1.\<close>

type_synonym time = int

definition zero_time :: time where
  "zero_time = - 62135596800000000000"

definition IsZero :: "time \<Rightarrow> bool" where
  "IsZero t \<longleftrightarrow> t = zero_time"

definition second :: int where
  "second = 1000000000"

definition int64_ok :: "int \<Rightarrow> bool" where
  "int64_ok i \<longleftrightarrow> - (2 ^ 63) \<le> i \<and> i < 2 ^ 63"

lemma int64_ok_code [go_simps]:
  "int64_ok i \<longleftrightarrow> - 9223372036854775808 \<le> i \<and> i < 9223372036854775808"
  by (simp add: int64_ok_def)

lemma int64_ok_0 [simp]: "int64_ok 0"
  by (simp add: int64_ok_def)

definition is_ok :: "'e + 'a \<Rightarrow> bool" where
  "is_ok r \<longleftrightarrow> (case r of Inl _ \<Rightarrow> False | Inr _ \<Rightarrow> True)"

lemma is_ok_simps [simp]: "is_ok (Inr x)" "\<not> is_ok (Inl e)"
  by (simp_all add: is_ok_def)

lemma is_ok_iff: "is_ok r \<longleftrightarrow> (\<exists>x. r = Inr x)"
  by (cases r) (auto simp: is_ok_def)

text \<open>Go's \<open>nz(v, d)\<close>, present in several packages: the default for an empty string.\<close>

definition nz :: "string \<Rightarrow> string \<Rightarrow> string" where
  "nz v d = (if v = [] then d else v)"

section \<open>Polling loops\<close>

text \<open>
  The loops that run a pass on every tick: what happens, in order, is a tick, the stop of the loop, or
  a step of the rest of the world. \<open>body i\<close> is the pass of tick \<open>i\<close>; \<open>None\<close> is a panic.
\<close>

datatype 'w loop_event = Ticked | Stopped | Elsewhere "'w \<Rightarrow> 'w"

fun loop_run :: "(nat \<Rightarrow> 'w \<Rightarrow> 'w option) \<Rightarrow> nat \<Rightarrow> 'w loop_event list \<Rightarrow> 'w \<Rightarrow> 'w option" where
  "loop_run body i [] w = Some w"
| "loop_run body i (Stopped # es) w = Some w"
| "loop_run body i (Ticked # es) w = (case body i w of None \<Rightarrow> None | Some w \<Rightarrow> loop_run body (Suc i) es w)"
| "loop_run body i (Elsewhere f # es) w = loop_run body i es (f w)"

text \<open>Ticks alone: what the first pass establishes and every later pass keeps holds after each.\<close>

lemma loop_run_ticks:
  assumes "\<And>i w. P w \<Longrightarrow> \<exists>w'. body i w = Some w' \<and> P w'"
  shows "P w \<Longrightarrow> \<exists>w'. loop_run body i (replicate n Ticked) w = Some w' \<and> P w'"
proof (induction n arbitrary: i w)
  case 0
  then show ?case by simp
next
  case (Suc n)
  from assms [OF Suc.prems, of i] obtain w1 where "body i w = Some w1" "P w1" by blast
  with Suc.IH [of w1 "Suc i"] show ?case by simp
qed

section \<open>Go maps\<close>

text \<open>
  A Go map is an association list with distinct keys; \<open>nil\<close> and the empty map are the same
  empty list (no branch of the sources tells them apart in its result). \<open>gget m k\<close> is the
  index expression \<open>m[k]\<close>, whose value for a missing key is the empty string.
\<close>

type_synonym strmap = "(string \<times> string) list"

definition gget :: "strmap \<Rightarrow> string \<Rightarrow> string" where
  "gget m k = (case map_of m k of None \<Rightarrow> [] | Some v \<Rightarrow> v)"

definition ghas :: "(string \<times> 'a) list \<Rightarrow> string \<Rightarrow> bool" where
  "ghas m k \<longleftrightarrow> map_of m k \<noteq> None"

definition gset :: "(string \<times> 'a) list \<Rightarrow> string \<Rightarrow> 'a \<Rightarrow> (string \<times> 'a) list" where
  "gset m k v = AList.update k v m"

definition map_ok :: "(string \<times> 'a) list \<Rightarrow> bool" where
  "map_ok m \<longleftrightarrow> distinct (map fst m)"

text \<open>The loop \<open>for k, v := range src { dst[k] = v }\<close>.\<close>

definition gcopy :: "(string \<times> 'a) list \<Rightarrow> (string \<times> 'a) list \<Rightarrow> (string \<times> 'a) list" where
  "gcopy dst src = fold (\<lambda>(k, v) m. gset m k v) src dst"

lemma map_ok_Nil [simp]: "map_ok []"
  by (simp add: map_ok_def)

lemma map_of_gset [simp]: "map_of (gset m k v) = (map_of m)(k \<mapsto> v)"
  by (simp add: gset_def update_conv')

lemma map_ok_gset [simp]: "map_ok m \<Longrightarrow> map_ok (gset m k v)"
  by (simp add: map_ok_def gset_def distinct_update)

lemma gget_gset [simp]: "gget (gset m k v) k' = (if k' = k then v else gget m k')"
  by (simp add: gget_def)

lemma gcopy_simps [simp]:
  "gcopy dst [] = dst"
  "gcopy dst ((k, v) # src) = gcopy (gset dst k v) src"
  by (simp_all add: gcopy_def)

lemma map_ok_gcopy [simp]: "map_ok dst \<Longrightarrow> map_ok (gcopy dst src)"
proof (induction src arbitrary: dst)
  case Nil
  then show ?case by simp
next
  case (Cons kv src)
  then show ?case by (cases kv) simp
qed

lemma map_of_gcopy:
  "map_ok src \<Longrightarrow> map_of (gcopy dst src) = map_of dst ++ map_of src"
proof (induction src arbitrary: dst)
  case Nil
  then show ?case by simp
next
  case (Cons kv src)
  obtain k v where kv: "kv = (k, v)" by (cases kv)
  from Cons.prems kv have src: "map_ok src" and k: "map_of src k = None"
    by (auto simp: map_ok_def map_of_eq_None_iff)
  have "map_of (gcopy dst (kv # src)) = (map_of dst)(k \<mapsto> v) ++ map_of src"
    using Cons.IH [OF src, of "gset dst k v"] kv by (simp add: fun_upd_def)
  also have "\<dots> = map_of dst ++ map_of (kv # src)"
    using k unfolding kv by (auto simp: fun_eq_iff map_add_def split: option.splits)
  finally show ?case .
qed

lemma gget_gcopy:
  "map_ok src \<Longrightarrow> gget (gcopy dst src) k = (if ghas src k then gget src k else gget dst k)"
  by (auto simp: gget_def ghas_def map_of_gcopy map_add_def split: option.splits)

lemma gset_fresh: "map_of m k = None \<Longrightarrow> gset m k v = m @ [(k, v)]"
  unfolding gset_def
proof (induction m)
  case Nil
  then show ?case by simp
next
  case (Cons kv m)
  then show ?case by (cases kv) (simp split: if_splits)
qed

lemma gcopy_append_fresh:
  "map_ok (dst @ src) \<Longrightarrow> gcopy dst src = dst @ src"
proof (induction src arbitrary: dst)
  case Nil
  then show ?case by simp
next
  case (Cons kv src)
  obtain k v where kv: "kv = (k, v)" by (cases kv)
  with Cons.prems have "map_of dst k = None"
    by (auto simp: map_ok_def map_of_eq_None_iff)
  then have "gset dst k v = dst @ [(k, v)]" by (rule gset_fresh)
  with Cons kv show ?case by simp
qed

lemma gcopy_Nil_id: "map_ok src \<Longrightarrow> gcopy [] src = src"
  using gcopy_append_fresh [of "[]" src] by simp

section \<open>Strings\<close>

definition HasPrefix :: "string \<Rightarrow> string \<Rightarrow> bool" where
  "HasPrefix s p \<longleftrightarrow> take (length p) s = p"

definition TrimPrefix :: "string \<Rightarrow> string \<Rightarrow> string" where
  "TrimPrefix s p = (if HasPrefix s p then drop (length p) s else s)"

definition HasSuffix :: "string \<Rightarrow> string \<Rightarrow> bool" where
  "HasSuffix s p \<longleftrightarrow> length p \<le> length s \<and> drop (length s - length p) s = p"

definition TrimSuffix :: "string \<Rightarrow> string \<Rightarrow> string" where
  "TrimSuffix s p = (if HasSuffix s p then take (length s - length p) s else s)"

text \<open>\<open>strings.Split\<close> on a one-character separator: always at least one part.\<close>

fun Split :: "string \<Rightarrow> char \<Rightarrow> string list" where
  "Split [] c = [[]]"
| "Split (x # xs) c =
     (if x = c then [] # Split xs c
      else (case Split xs c of [] \<Rightarrow> [[x]] | p # ps \<Rightarrow> (x # p) # ps))"

text \<open>\<open>strings.ToLower\<close> and \<open>strings.TrimSpace\<close> on ASCII text.\<close>

definition lower_char :: "char \<Rightarrow> char" where
  "lower_char c = (let n = of_char c :: nat in if 65 \<le> n \<and> n \<le> 90 then char_of (n + 32) else c)"

definition ToLower :: "string \<Rightarrow> string" where
  "ToLower s = map lower_char s"

definition is_space :: "char \<Rightarrow> bool" where
  "is_space c \<longleftrightarrow> (let n = of_char c :: nat in n = 32 \<or> (9 \<le> n \<and> n \<le> 13))"

definition TrimSpace :: "string \<Rightarrow> string" where
  "TrimSpace s = rev (dropWhile is_space (rev (dropWhile is_space s)))"

lemma HasPrefix_append [simp]: "HasPrefix (p @ s) p"
  by (simp add: HasPrefix_def)

lemma TrimPrefix_append [simp]: "TrimPrefix (p @ s) p = s"
  by (simp add: TrimPrefix_def)

lemma HasSuffix_append [simp]: "HasSuffix (s @ p) p"
  by (simp add: HasSuffix_def)

lemma TrimSuffix_append [simp]: "TrimSuffix (s @ p) p = s"
  by (simp add: TrimSuffix_def)

lemma HasSuffix_iff: "HasSuffix s p \<longleftrightarrow> (\<exists>q. s = q @ p)"
  by (metis HasSuffix_append HasSuffix_def append_take_drop_id)

lemma HasPrefix_iff: "HasPrefix s p \<longleftrightarrow> (\<exists>q. s = p @ q)"
  by (metis HasPrefix_append HasPrefix_def append_take_drop_id)

lemma Split_nonempty [simp]: "Split s c \<noteq> []"
  by (cases s) (auto split: list.splits)

lemma Split_no_sep: "c \<notin> set s \<Longrightarrow> Split s c = [s]"
  by (induction s) auto

lemma Split_append_sep: "c \<notin> set s \<Longrightarrow> Split (s @ c # t) c = s # Split t c"
  by (induction s) auto

end
