(* ===== verification/Json.thy ===== *)
theory Json
  imports Prelude Complex_Main
begin

text \<open>
  JSON documents and the part of Go's \<open>encoding/json\<close> the sources rely on. A decoder takes the
  document and the value already in the destination, because \<open>json.Unmarshal\<close> writes INTO its
  target: members that are absent leave the old value, objects merge into maps, array elements
  are decoded over the elements already there, and \<open>null\<close> leaves a scalar alone. It returns the
  new value and whether no type mismatch was met; like Go's decoder it goes on after a mismatch.

  Numbers written without fraction or exponent are \<open>JInt\<close>, the others \<open>JDec\<close>. The RFC 3339 text
  of an instant is kept as a leaf of its own, \<open>JTime\<close>. Object members keep their order.
\<close>

datatype json =
    JNull
  | JBool bool
  | JInt int
  | JDec rat
  | JStr string
  | JTime time
  | JArr "json list"
  | JObj "(string \<times> json) list"

type_synonym 'a dec = "json \<Rightarrow> 'a \<Rightarrow> 'a \<times> bool"

section \<open>Decoders\<close>

definition dec_string :: "string dec" where
  "dec_string j old = (case j of JStr s \<Rightarrow> (s, True) | JNull \<Rightarrow> (old, True) | _ \<Rightarrow> (old, False))"

definition dec_int :: "int dec" where
  "dec_int j old =
     (case j of JInt i \<Rightarrow> (if int64_ok i then (i, True) else (old, False))
      | JNull \<Rightarrow> (old, True) | _ \<Rightarrow> (old, False))"

definition dec_bool :: "bool dec" where
  "dec_bool j old = (case j of JBool b \<Rightarrow> (b, True) | JNull \<Rightarrow> (old, True) | _ \<Rightarrow> (old, False))"

definition dec_time :: "time dec" where
  "dec_time j old = (case j of JTime t \<Rightarrow> (t, True) | JNull \<Rightarrow> (old, True) | _ \<Rightarrow> (old, False))"

text \<open>Slices: element \<open>i\<close> is decoded over the old element \<open>i\<close> where there is one.\<close>

fun dec_elems :: "'a dec \<Rightarrow> 'a \<Rightarrow> json list \<Rightarrow> 'a list \<Rightarrow> 'a list \<times> bool" where
  "dec_elems d z [] old = ([], True)"
| "dec_elems d z (j # js) old =
     (let (x, b) = d j (case old of [] \<Rightarrow> z | x' # _ \<Rightarrow> x');
          (xs, b') = dec_elems d z js (case old of [] \<Rightarrow> [] | _ # xs' \<Rightarrow> xs')
      in (x # xs, b \<and> b'))"

definition dec_list :: "'a dec \<Rightarrow> 'a \<Rightarrow> 'a list dec" where
  "dec_list d z j old =
     (case j of JArr js \<Rightarrow> dec_elems d z js old | JNull \<Rightarrow> ([], True) | _ \<Rightarrow> (old, False))"

text \<open>Maps: every member is decoded over a zero value and stored, old keys stay.\<close>

fun dec_entries :: "'a dec \<Rightarrow> 'a \<Rightarrow> (string \<times> json) list \<Rightarrow> (string \<times> 'a) list \<Rightarrow> (string \<times> 'a) list \<times> bool" where
  "dec_entries d z [] m = (m, True)"
| "dec_entries d z ((k, j) # kvs) m =
     (let (x, b) = d j z; (m', b') = dec_entries d z kvs (gset m k x) in (m', b \<and> b'))"

definition dec_map :: "'a dec \<Rightarrow> 'a \<Rightarrow> (string \<times> 'a) list dec" where
  "dec_map d z j old =
     (case j of JObj kvs \<Rightarrow> dec_entries d z kvs old | JNull \<Rightarrow> ([], True) | _ \<Rightarrow> (old, False))"

text \<open>A value of type \<open>interface{}\<close> takes the document itself.\<close>

definition dec_any :: "json dec" where
  "dec_any j old = (j, True)"

text \<open>
  Structs: a member goes to the field of that tag, an exact match before a match up to case;
  members no field claims are ignored.
\<close>

type_synonym 'r fields = "(string \<times> 'r dec) list"

definition fld :: "'a dec \<Rightarrow> ('r \<Rightarrow> 'a) \<Rightarrow> ('a \<Rightarrow> 'r \<Rightarrow> 'r) \<Rightarrow> 'r dec" where
  "fld d get upd j r = (let (x, b) = d j (get r) in (upd x r, b))"

definition find_field :: "'r fields \<Rightarrow> string \<Rightarrow> 'r dec option" where
  "find_field fs k =
     (case map_of fs k of Some d \<Rightarrow> Some d
      | None \<Rightarrow> map_option snd (find (\<lambda>(n, _). ToLower n = ToLower k) fs))"

fun dec_members :: "'r fields \<Rightarrow> (string \<times> json) list \<Rightarrow> 'r \<Rightarrow> 'r \<times> bool" where
  "dec_members fs [] r = (r, True)"
| "dec_members fs ((k, v) # kvs) r =
     (case find_field fs k of
        None \<Rightarrow> dec_members fs kvs r
      | Some d \<Rightarrow> (let (r', b) = d v r; (r'', b') = dec_members fs kvs r' in (r'', b \<and> b')))"

definition dec_struct :: "'r fields \<Rightarrow> 'r dec" where
  "dec_struct fs j old =
     (case j of JObj kvs \<Rightarrow> dec_members fs kvs old | JNull \<Rightarrow> (old, True) | _ \<Rightarrow> (old, False))"

section \<open>Encoders\<close>

definition mem :: "string \<Rightarrow> json \<Rightarrow> (string \<times> json) list" where
  "mem k j = [(k, j)]"

text \<open>A member tagged \<open>omitempty\<close>: left out when the value is the empty one.\<close>

definition omitmem :: "bool \<Rightarrow> string \<Rightarrow> json \<Rightarrow> (string \<times> json) list" where
  "omitmem e k j = (if e then [] else [(k, j)])"

definition enc_list :: "('a \<Rightarrow> json) \<Rightarrow> 'a list \<Rightarrow> json" where
  "enc_list enc xs = (if xs = [] then JNull else JArr (map enc xs))"

definition enc_map :: "('a \<Rightarrow> json) \<Rightarrow> (string \<times> 'a) list \<Rightarrow> json" where
  "enc_map enc m = JObj (map (\<lambda>(k, v). (k, enc v)) m)"

definition enc_any :: "json \<Rightarrow> json" where
  "enc_any j = j"

lemma omitmem_True [simp]: "omitmem True k j = []"
  by (simp add: omitmem_def)

section \<open>Round trips of the leaves\<close>

lemma dec_string_JStr [simp]: "dec_string (JStr s) old = (s, True)"
  by (simp add: dec_string_def)

lemma dec_int_JInt [simp]: "int64_ok i \<Longrightarrow> dec_int (JInt i) old = (i, True)"
  by (simp add: dec_int_def)

lemma dec_bool_JBool [simp]: "dec_bool (JBool b) old = (b, True)"
  by (simp add: dec_bool_def)

lemma dec_time_JTime [simp]: "dec_time (JTime t) old = (t, True)"
  by (simp add: dec_time_def)

lemma dec_any_simp [simp]: "dec_any j old = (j, True)"
  by (simp add: dec_any_def)

text \<open>
  How a decoder walks over encoded members: a written member sets its field, and an omitted one
  may be treated as written when setting the field would change nothing.
\<close>

lemma find_field_exact [codec_simps]: "map_of fs k = Some d \<Longrightarrow> find_field fs k = Some d"
  by (simp add: find_field_def)

lemma dec_members_mem [codec_simps]:
  "find_field fs k = Some (fld d g u) \<Longrightarrow> d v (g r) = (x, True) \<Longrightarrow>
   dec_members fs (mem k v @ rest) r = dec_members fs rest (u x r)"
  by (simp add: mem_def fld_def)

lemma dec_members_omitmem [codec_simps]:
  "find_field fs k = Some (fld d g u) \<Longrightarrow> d v (g r) = (x, True) \<Longrightarrow> (e \<Longrightarrow> u x r = r) \<Longrightarrow>
   dec_members fs (omitmem e k v @ rest) r = dec_members fs rest (u x r)"
  by (auto simp: omitmem_def fld_def)

lemma dec_members_mem_last [codec_simps]:
  "find_field fs k = Some (fld d g u) \<Longrightarrow> d v (g r) = (x, True) \<Longrightarrow>
   dec_members fs (mem k v) r = (u x r, True)"
  using dec_members_mem [of fs k d g u v r x "[]"] by simp

lemma dec_members_omitmem_last [codec_simps]:
  "find_field fs k = Some (fld d g u) \<Longrightarrow> d v (g r) = (x, True) \<Longrightarrow> (e \<Longrightarrow> u x r = r) \<Longrightarrow>
   dec_members fs (omitmem e k v) r = (u x r, True)"
  using dec_members_omitmem [of fs k d g u v r x e "[]"] by simp

lemma dec_struct_JObj [codec_simps]: "dec_struct fs (JObj kvs) r = dec_members fs kvs r"
  by (simp add: dec_struct_def)

section \<open>The codec interface\<close>

text \<open>
  What the store, the handlers and the client rely on: encoding a well-formed value and decoding
  it into a fresh destination gives the value back, without error. Slices and maps of a codec's
  values are codecs again.
\<close>

locale codec =
  fixes enc :: "'a \<Rightarrow> json"
    and dec :: "'a dec"
    and zero :: "'a"
    and wf :: "'a \<Rightarrow> bool"
  assumes roundtrip: "wf x \<Longrightarrow> dec (enc x) zero = (x, True)"
begin

lemma enc_inject: "wf x \<Longrightarrow> wf y \<Longrightarrow> enc x = enc y \<Longrightarrow> x = y"
  by (metis roundtrip prod.inject)

lemma list_elems_roundtrip: "list_all wf xs \<Longrightarrow> dec_elems dec zero (map enc xs) [] = (xs, True)"
  by (induction xs) (simp_all add: roundtrip)

lemma list_roundtrip: "list_all wf xs \<Longrightarrow> dec_list dec zero (enc_list enc xs) [] = (xs, True)"
  by (simp add: dec_list_def enc_list_def list_elems_roundtrip)

lemma entries_roundtrip:
  "list_all (\<lambda>(k, v). wf v) m \<Longrightarrow> dec_entries dec zero (map (\<lambda>(k, v). (k, enc v)) m) old = (gcopy old m, True)"
proof (induction m arbitrary: old)
  case Nil
  then show ?case by simp
next
  case (Cons kv m)
  obtain k v where "kv = (k, v)" by (cases kv)
  with Cons show ?case by (simp add: roundtrip)
qed

lemma map_roundtrip:
  "map_ok m \<Longrightarrow> list_all (\<lambda>(k, v). wf v) m \<Longrightarrow> dec_map dec zero (enc_map enc m) [] = (m, True)"
  by (simp add: dec_map_def enc_map_def entries_roundtrip gcopy_Nil_id)

end

interpretation string_codec: codec JStr dec_string "[]" "\<lambda>_. True"
  by unfold_locales simp

interpretation any_codec: codec enc_any dec_any JNull "\<lambda>_. True"
  by unfold_locales (simp add: enc_any_def)

lemma strlist_roundtrip [simp]: "dec_list dec_string [] (enc_list JStr xs) [] = (xs, True)"
  by (rule string_codec.list_roundtrip) (simp add: list_all_iff)

lemma strmap_roundtrip [simp]: "map_ok m \<Longrightarrow> dec_map dec_string [] (enc_map JStr m) [] = (m, True)"
  by (rule string_codec.map_roundtrip) (simp_all add: list_all_iff)

lemma anymap_roundtrip [simp]: "map_ok m \<Longrightarrow> dec_map dec_any JNull (enc_map enc_any m) [] = (m, True)"
  by (rule any_codec.map_roundtrip) (simp_all add: list_all_iff)

text \<open>Decoding a map over an old one keeps the old keys: the merge the admission path meets.\<close>

lemma strmap_merge: "dec_map dec_string [] (enc_map JStr m) old = (gcopy old m, True)"
  using string_codec.entries_roundtrip [of m old] by (simp add: dec_map_def enc_map_def list_all_iff)

section \<open>What a decoder preserves\<close>

text \<open>
  A decoder keeps the well-formedness of its destination, whatever the document is: ints stay in
  range, maps keep distinct keys, also where the document has a type mismatch.
\<close>

named_theorems dec_wf "decoders keep well-formedness"

lemma fst_fld [simp]: "fst (fld d get upd j r) = upd (fst (d j (get r))) r"
  by (simp add: fld_def split: prod.splits)

lemma dec_int_wf [dec_wf]: "int64_ok i \<Longrightarrow> int64_ok (fst (dec_int j i))"
  by (auto simp: dec_int_def split: json.splits)

lemma dec_elems_wf:
  "(\<And>j x. good x \<Longrightarrow> good (fst (d j x))) \<Longrightarrow> good z \<Longrightarrow> list_all good old \<Longrightarrow>
   list_all good (fst (dec_elems d z js old))"
  by (induction d z js old rule: dec_elems.induct) (auto split: prod.splits list.splits, (metis fst_conv)+)

lemma dec_list_wf [dec_wf]:
  "(\<And>j x. good x \<Longrightarrow> good (fst (d j x))) \<Longrightarrow> good z \<Longrightarrow> list_all good old \<Longrightarrow>
   list_all good (fst (dec_list d z j old))"
  by (auto simp: dec_list_def intro: dec_elems_wf split: json.splits)

lemma fst_dec_entries_Cons [simp]:
  "fst (dec_entries d z ((k, j) # kvs) m) = fst (dec_entries d z kvs (gset m k (fst (d j z))))"
  by (simp split: prod.splits)

lemma dec_entries_map_ok: "map_ok m \<Longrightarrow> map_ok (fst (dec_entries d z kvs m))"
proof (induction kvs arbitrary: m)
  case Nil
  then show ?case by simp
next
  case (Cons kv kvs)
  then show ?case by (cases kv) (simp del: dec_entries.simps)
qed

lemma dec_map_map_ok [dec_wf]: "map_ok m \<Longrightarrow> map_ok (fst (dec_map d z j m))"
  by (auto simp: dec_map_def intro: dec_entries_map_ok split: json.splits)

lemma gset_values: "list_all (\<lambda>(k, v). good v) m \<Longrightarrow> good x \<Longrightarrow> list_all (\<lambda>(k, v). good v) (gset m k x)"
  by (induction m) (auto simp: gset_def)

lemma dec_entries_values:
  "(\<And>j x. good x \<Longrightarrow> good (fst (d j x))) \<Longrightarrow> good z \<Longrightarrow> list_all (\<lambda>(k, v). good v) m \<Longrightarrow>
   list_all (\<lambda>(k, v). good v) (fst (dec_entries d z kvs m))"
proof (induction kvs arbitrary: m)
  case Nil
  then show ?case by simp
next
  case (Cons kv kvs)
  then show ?case by (cases kv) (simp add: gset_values del: dec_entries.simps)
qed

lemma dec_map_values [dec_wf]:
  "(\<And>j x. good x \<Longrightarrow> good (fst (d j x))) \<Longrightarrow> good z \<Longrightarrow> list_all (\<lambda>(k, v). good v) m \<Longrightarrow>
   list_all (\<lambda>(k, v). good v) (fst (dec_map d z j m))"
  by (auto simp: dec_map_def intro: dec_entries_values split: json.splits)

lemma dec_members_pres:
  assumes "\<And>k d j r. (k, d) \<in> set fs \<Longrightarrow> good r \<Longrightarrow> good (fst (d j r))"
  shows "good r \<Longrightarrow> good (fst (dec_members fs kvs r))"
proof (induction kvs arbitrary: r)
  case Nil
  then show ?case by simp
next
  case (Cons kv kvs)
  obtain k v where kv: "kv = (k, v)" by (cases kv)
  show ?case
  proof (cases "find_field fs k")
    case None
    with Cons kv show ?thesis by simp
  next
    case (Some d)
    then obtain k' where "(k', d) \<in> set fs"
      by (auto simp: find_field_def find_Some_iff dest!: map_of_SomeD split: option.splits) (metis nth_mem)
    then have "good (fst (d v r))" using assms Cons.prems by blast
    with Cons.IH Some kv show ?thesis by (auto split: prod.splits) (metis fst_conv)
  qed
qed

lemma dec_struct_pres:
  "(\<And>k d j r. (k, d) \<in> set fs \<Longrightarrow> good r \<Longrightarrow> good (fst (d j r))) \<Longrightarrow> good old \<Longrightarrow>
   good (fst (dec_struct fs j old))"
  by (auto simp: dec_struct_def intro: dec_members_pres split: json.splits)

end
