(* ===== verification/Sql.thy ===== *)
theory Sql
  imports Json
begin

text \<open>
  The SQL statements of internal/store, on tables as lists of rows in insertion (rowid) order.
  Whether the driver executes a statement or reports an error is not in the sources: it is the
  parameter \<open>drv\<close>, which maps the label of a statement to the driver's error, if any. A statement
  that fails leaves the table as it was. \<open>ORDER BY c ASC\<close> is a stable sort by the column.
\<close>

type_synonym driver = "string \<Rightarrow> string option"

definition no_faults :: driver where
  "no_faults = (\<lambda>_. None)"

lemma no_faults_simp [simp]: "no_faults q = None"
  by (simp add: no_faults_def)

text \<open>The statements issued by a call nested in another one carry its label as a prefix.\<close>

definition at_site :: "string \<Rightarrow> driver \<Rightarrow> driver" where
  "at_site site drv = (\<lambda>q. drv (site @ q))"

lemma at_site_no_faults [simp]: "at_site site no_faults = no_faults"
  by (simp add: at_site_def no_faults_def)

section \<open>Statements\<close>

definition sql_first :: "('r \<Rightarrow> bool) \<Rightarrow> 'r list \<Rightarrow> 'r option" where
  "sql_first p T = (case filter p T of [] \<Rightarrow> None | r # _ \<Rightarrow> Some r)"

definition sql_order :: "('r \<Rightarrow> time) \<Rightarrow> 'r list \<Rightarrow> 'r list" where
  "sql_order c T = sort_key c T"

definition sql_has :: "('r \<Rightarrow> bool) \<Rightarrow> 'r list \<Rightarrow> bool" where
  "sql_has p T = list_ex p T"

definition sql_update :: "('r \<Rightarrow> bool) \<Rightarrow> ('r \<Rightarrow> 'r) \<Rightarrow> 'r list \<Rightarrow> 'r list" where
  "sql_update p f T = map (\<lambda>r. if p r then f r else r) T"

definition sql_delete :: "('r \<Rightarrow> bool) \<Rightarrow> 'r list \<Rightarrow> 'r list" where
  "sql_delete p T = filter (\<lambda>r. \<not> p r) T"

text \<open>\<open>INSERT \<dots> ON CONFLICT(key) DO UPDATE SET\<close>: \<open>merge\<close> takes the excluded row and the old one.\<close>

definition sql_upsert :: "('r \<Rightarrow> 'k) \<Rightarrow> ('r \<Rightarrow> 'r \<Rightarrow> 'r) \<Rightarrow> 'r \<Rightarrow> 'r list \<Rightarrow> 'r list" where
  "sql_upsert key merge new T =
     (if sql_has (\<lambda>r. key r = key new) T
      then sql_update (\<lambda>r. key r = key new) (merge new) T
      else T @ [new])"

section \<open>Calls of the driver\<close>

definition constraint_failed :: err where
  "constraint_failed = ErrSql ''UNIQUE constraint failed''"

definition sql_exec :: "driver \<Rightarrow> string \<Rightarrow> 'a \<Rightarrow> err + 'a" where
  "sql_exec drv q x = (case drv q of Some e \<Rightarrow> Inl (ErrSql e) | None \<Rightarrow> Inr x)"

text \<open>A plain \<open>INSERT\<close> fails on a row of the same primary key.\<close>

definition sql_insert :: "driver \<Rightarrow> string \<Rightarrow> ('r \<Rightarrow> 'k) \<Rightarrow> 'r \<Rightarrow> 'r list \<Rightarrow> err + 'r list" where
  "sql_insert drv q key new T =
     (case drv q of Some e \<Rightarrow> Inl (ErrSql e)
      | None \<Rightarrow> if sql_has (\<lambda>r. key r = key new) T then Inl constraint_failed else Inr (T @ [new]))"

text \<open>\<open>QueryRow\<close> and \<open>Scan\<close>, with \<open>sql.ErrNoRows\<close> turned into \<open>ErrNotFound\<close>.\<close>

definition query_row :: "driver \<Rightarrow> string \<Rightarrow> ('r \<Rightarrow> bool) \<Rightarrow> 'r list \<Rightarrow> ('r \<Rightarrow> 'o) \<Rightarrow> err + 'o" where
  "query_row drv q p T f =
     (case drv q of Some e \<Rightarrow> Inl (ErrSql e)
      | None \<Rightarrow> (case sql_first p T of None \<Rightarrow> Inl ErrNotFound | Some r \<Rightarrow> Inr (f r)))"

text \<open>\<open>Query\<close> and the loop over \<open>rows.Next\<close>.\<close>

definition query_rows :: "driver \<Rightarrow> string \<Rightarrow> 'r list \<Rightarrow> ('r \<Rightarrow> 'o) \<Rightarrow> err + 'o list" where
  "query_rows drv q T f = (case drv q of Some e \<Rightarrow> Inl (ErrSql e) | None \<Rightarrow> Inr (map f T))"

text \<open>\<open>Exec\<close> of an \<open>UPDATE\<close> or \<open>DELETE\<close> followed by the check of \<open>RowsAffected\<close>.\<close>

definition exec_affecting :: "driver \<Rightarrow> string \<Rightarrow> ('r \<Rightarrow> bool) \<Rightarrow> 'r list \<Rightarrow> 'a \<Rightarrow> err + 'a" where
  "exec_affecting drv q p T x =
     (case drv q of Some e \<Rightarrow> Inl (ErrSql e)
      | None \<Rightarrow> if length (filter p T) = 0 then Inl ErrNotFound else Inr x)"

definition map_result :: "('a \<Rightarrow> 'b) \<Rightarrow> err + 'a \<Rightarrow> err + 'b" where
  "map_result f r = (case r of Inl e \<Rightarrow> Inl e | Inr x \<Rightarrow> Inr (f x))"

text \<open>\<open>_ = json.Unmarshal(column, dst)\<close>: the error is dropped.\<close>

definition unmarshal :: "'a dec \<Rightarrow> json \<Rightarrow> 'a \<Rightarrow> 'a" where
  "unmarshal d j dst = fst (d j dst)"

section \<open>Lookup after each statement\<close>

named_theorems sql_simps "lookup by key after a statement"

lemma map_result_simps [simp]:
  "map_result f (Inl e) = Inl e" "map_result f (Inr x) = Inr (f x)"
  by (simp_all add: map_result_def)

lemma map_result_Inr_iff: "map_result f r = Inr y \<longleftrightarrow> (\<exists>x. r = Inr x \<and> y = f x)"
  by (cases r) auto

lemma map_result_Inl_iff: "map_result f r = Inl e \<longleftrightarrow> r = Inl e"
  by (cases r) auto

lemma sql_first_Nil [simp]: "sql_first p [] = None"
  by (simp add: sql_first_def)

lemma sql_first_Cons [simp]: "sql_first p (r # T) = (if p r then Some r else sql_first p T)"
  by (simp add: sql_first_def)

lemma sql_first_append:
  "sql_first p (T @ U) = (case sql_first p T of None \<Rightarrow> sql_first p U | Some r \<Rightarrow> Some r)"
  by (induction T) auto

lemma sql_first_None_iff: "sql_first p T = None \<longleftrightarrow> (\<forall>r \<in> set T. \<not> p r)"
  by (induction T) auto

lemma sql_first_SomeD: "sql_first p T = Some r \<Longrightarrow> r \<in> set T \<and> p r"
  by (induction T) (auto split: if_splits)

lemma sql_has_iff: "sql_has p T \<longleftrightarrow> sql_first p T \<noteq> None"
  by (auto simp: sql_has_def list_ex_iff sql_first_None_iff)

lemma affected_iff: "length (filter p T) = 0 \<longleftrightarrow> sql_first p T = None"
  by (simp add: filter_empty_conv sql_first_None_iff)

lemma sql_first_update [sql_simps]:
  assumes "\<And>r. key r = k' \<Longrightarrow> key (f r) = k'"
  shows "sql_first (\<lambda>r. key r = k) (sql_update (\<lambda>r. key r = k') f T) =
     (if k = k' then map_option f (sql_first (\<lambda>r. key r = k) T) else sql_first (\<lambda>r. key r = k) T)"
  using assms by (induction T) (auto simp: sql_update_def)

lemma sql_first_delete [sql_simps]:
  "sql_first (\<lambda>r. key r = k) (sql_delete (\<lambda>r. key r = k') T) =
     (if k = k' then None else sql_first (\<lambda>r. key r = k) T)"
  by (induction T) (auto simp: sql_delete_def)

lemma sql_first_upsert [sql_simps]:
  assumes "\<And>r. key r = key new \<Longrightarrow> key (merge new r) = key new"
  shows "sql_first (\<lambda>r. key r = k) (sql_upsert key merge new T) =
     (if k = key new
      then Some (case sql_first (\<lambda>r. key r = key new) T of None \<Rightarrow> new | Some r \<Rightarrow> merge new r)
      else sql_first (\<lambda>r. key r = k) T)"
proof -
  have upd: "sql_first (\<lambda>r. key r = k) (sql_update (\<lambda>r. key r = key new) (merge new) T) =
     (if k = key new then map_option (merge new) (sql_first (\<lambda>r. key r = k) T)
      else sql_first (\<lambda>r. key r = k) T)"
    by (rule sql_first_update) (rule assms)
  show ?thesis
    using upd by (auto simp: sql_upsert_def sql_has_iff sql_first_append split: option.splits)
qed

section \<open>Primary keys\<close>

definition keys_ok :: "('r \<Rightarrow> 'k) \<Rightarrow> 'r list \<Rightarrow> bool" where
  "keys_ok key T \<longleftrightarrow> distinct (map key T)"

named_theorems keys_intros "every statement keeps primary keys distinct"

lemma keys_ok_Nil [simp]: "keys_ok key []"
  by (simp add: keys_ok_def)

lemma keys_ok_snoc [keys_intros]:
  "keys_ok key T \<Longrightarrow> sql_first (\<lambda>r. key r = key new) T = None \<Longrightarrow> keys_ok key (T @ [new])"
  by (auto simp: keys_ok_def sql_first_None_iff)

lemma keys_ok_update [keys_intros]:
  "keys_ok key T \<Longrightarrow> (\<And>r. p r \<Longrightarrow> key (f r) = key r) \<Longrightarrow> keys_ok key (sql_update p f T)"
proof -
  assume ok: "keys_ok key T" and same: "\<And>r. p r \<Longrightarrow> key (f r) = key r"
  have "map key (sql_update p f T) = map key T"
    by (simp add: sql_update_def same)
  with ok show ?thesis by (simp add: keys_ok_def)
qed

lemma keys_ok_delete [keys_intros]: "keys_ok key T \<Longrightarrow> keys_ok key (sql_delete p T)"
  by (auto simp: keys_ok_def sql_delete_def distinct_map inj_on_def)

lemma keys_ok_upsert [keys_intros]:
  "keys_ok key T \<Longrightarrow> (\<And>r. key r = key new \<Longrightarrow> key (merge new r) = key r) \<Longrightarrow>
   keys_ok key (sql_upsert key merge new T)"
  by (auto simp: sql_upsert_def sql_has_iff intro: keys_ok_snoc keys_ok_update)

lemma sql_insert_Inr:
  "sql_insert drv q key new T = Inr T' \<longleftrightarrow>
     drv q = None \<and> sql_first (\<lambda>r. key r = key new) T = None \<and> T' = T @ [new]"
  by (auto simp: sql_insert_def sql_has_iff split: option.splits)

lemma sql_exec_Inr: "sql_exec drv q x = Inr y \<longleftrightarrow> drv q = None \<and> y = x"
  by (auto simp: sql_exec_def split: option.splits)

lemma query_row_Inr:
  "query_row drv q p T f = Inr x \<longleftrightarrow> drv q = None \<and> (\<exists>r. sql_first p T = Some r \<and> x = f r)"
  by (auto simp: query_row_def split: option.splits)

lemma query_row_NotFound:
  "query_row drv q p T f = Inl ErrNotFound \<longleftrightarrow> drv q = None \<and> sql_first p T = None"
  by (auto simp: query_row_def split: option.splits)

lemma query_rows_Inr: "query_rows drv q T f = Inr xs \<longleftrightarrow> drv q = None \<and> xs = map f T"
  by (auto simp: query_rows_def split: option.splits)

lemma exec_affecting_Inr:
  "exec_affecting drv q p T x = Inr y \<longleftrightarrow> drv q = None \<and> sql_first p T \<noteq> None \<and> y = x"
  by (auto simp: exec_affecting_def affected_iff simp del: length_0_conv split: option.splits)

lemma exec_affecting_NotFound:
  "exec_affecting drv q p T x = Inl ErrNotFound \<longleftrightarrow> drv q = None \<and> sql_first p T = None"
  by (auto simp: exec_affecting_def affected_iff simp del: length_0_conv split: option.splits)

lemmas sql_results =
  sql_insert_Inr sql_exec_Inr query_row_Inr query_row_NotFound query_rows_Inr
  exec_affecting_Inr exec_affecting_NotFound map_result_Inr_iff map_result_Inl_iff

lemma query_row_no_faults [simp]:
  "query_row no_faults q p T f = (case sql_first p T of None \<Rightarrow> Inl ErrNotFound | Some r \<Rightarrow> Inr (f r))"
  by (simp add: query_row_def)

lemma query_rows_no_faults [simp]: "query_rows no_faults q T f = Inr (map f T)"
  by (simp add: query_rows_def)

lemma sql_exec_no_faults [simp]: "sql_exec no_faults q x = Inr x"
  by (simp add: sql_exec_def)

lemma exec_affecting_no_faults [simp]:
  "exec_affecting no_faults q p T x = (if sql_first p T = None then Inl ErrNotFound else Inr x)"
  by (simp add: exec_affecting_def affected_iff del: length_0_conv)

lemma sql_insert_no_faults [simp]:
  "sql_insert no_faults q key new T =
     (if sql_first (\<lambda>r. key r = key new) T = None then Inr (T @ [new]) else Inl constraint_failed)"
  by (simp add: sql_insert_def sql_has_iff)

lemma sql_order_set [simp]: "set (sql_order c T) = set T"
  by (simp add: sql_order_def)

lemma sql_order_sorted: "sorted (map c (sql_order c T))"
  by (simp add: sql_order_def)

lemma unmarshal_roundtrip [simp]: "d j z = (x, True) \<Longrightarrow> unmarshal d j z = x"
  by (simp add: unmarshal_def)

end
