(* ===== verification/Object_Store.thy ===== *)
theory Object_Store
  imports Sql
begin

text \<open>
  The contracts the REST handlers and the controllers rely on when they use internal/store:
  a keyed store of objects with get and put (upsert), its extension by delete, and the extension of that by a status
  subresource that a put never overwrites (\<open>status\<close> is what is observed of it, \<open>view\<close> what is
  observed of a written status, \<open>stamped\<close> the status with the store's time in it). \<open>stored old o\<close> is the object read back after
  putting \<open>o\<close> over the object \<open>old\<close> (if any). Every table of the store interprets one of them.
\<close>

text \<open>A column holds the encoding of a well-formed value.\<close>

definition json_col :: "('a \<Rightarrow> json) \<Rightarrow> ('a \<Rightarrow> bool) \<Rightarrow> json \<Rightarrow> bool" where
  "json_col enc good j \<longleftrightarrow> (\<exists>x. good x \<and> j = enc x)"

lemma json_colI [intro]: "good x \<Longrightarrow> json_col enc good (enc x)"
  by (auto simp: json_col_def)

definition old_of :: "err + 'o \<Rightarrow> 'o option" where
  "old_of r = (case r of Inl _ \<Rightarrow> None | Inr x \<Rightarrow> Some x)"

lemma old_of_simps [simp]: "old_of (Inl e) = None" "old_of (Inr x) = Some x"
  by (simp_all add: old_of_def)

locale put_store =
  fixes get :: "'s \<Rightarrow> 'k \<Rightarrow> err + 'o"
    and put :: "'o \<Rightarrow> 's \<Rightarrow> err + 's"
    and key :: "'o \<Rightarrow> 'k"
    and stored :: "'o option \<Rightarrow> 'o \<Rightarrow> 'o"
    and inv :: "'s \<Rightarrow> bool"
    and wf :: "'o \<Rightarrow> bool"
  assumes get_error: "get s k = Inl e \<Longrightarrow> e = ErrNotFound"
    and put_succeeds: "inv s \<Longrightarrow> wf x \<Longrightarrow> is_ok (put x s)"
    and put_get: "inv s \<Longrightarrow> wf x \<Longrightarrow> put x s = Inr s' \<Longrightarrow>
      get s' k = (if k = key x then Inr (stored (old_of (get s k)) x) else get s k)"
    and put_inv: "inv s \<Longrightarrow> wf x \<Longrightarrow> put x s = Inr s' \<Longrightarrow> inv s'"
begin

lemma put_then_get: "inv s \<Longrightarrow> wf x \<Longrightarrow> put x s = Inr s' \<Longrightarrow>
    get s' (key x) = Inr (stored (old_of (get s (key x))) x)"
  by (simp add: put_get)

lemma put_frame: "inv s \<Longrightarrow> wf x \<Longrightarrow> put x s = Inr s' \<Longrightarrow> k \<noteq> key x \<Longrightarrow> get s' k = get s k"
  by (simp add: put_get)

lemma put_put:
  assumes "inv s" "wf x" "put x s = Inr s1" "wf y" "key y = key x" "put y s1 = Inr s2"
  shows "get s2 k = (if k = key x then Inr (stored (Some (stored (old_of (get s k)) x)) y) else get s k)"
  using assms put_inv [OF assms(1-3)] put_get [OF _ assms(4) assms(6)] put_get [OF assms(1-3)] by simp

lemma put_total:
  assumes "inv s" "wf x"
  obtains s' where "put x s = Inr s'" "inv s'"
    "\<And>k. get s' k = (if k = key x then Inr (stored (old_of (get s k)) x) else get s k)"
  using put_succeeds [OF assms] put_inv [OF assms] put_get [OF assms] that by (auto simp: is_ok_iff)

end

locale object_store = put_store get put key stored inv wf
  for get :: "'s \<Rightarrow> 'k \<Rightarrow> err + 'o" and put key stored inv wf +
  fixes del :: "'k \<Rightarrow> 's \<Rightarrow> err + 's"
  assumes del_missing: "get s k = Inl ErrNotFound \<Longrightarrow> del k s = Inl ErrNotFound"
    and del_present: "get s k = Inr x \<Longrightarrow> is_ok (del k s)"
    and del_get: "inv s \<Longrightarrow> del k s = Inr s' \<Longrightarrow>
      get s' k' = (if k' = k then Inl ErrNotFound else get s k')"
    and del_inv: "inv s \<Longrightarrow> del k s = Inr s' \<Longrightarrow> inv s'"
begin

lemma put_then_del:
  assumes "inv s" "wf x" "put x s = Inr s'"
  shows "\<exists>s''. del (key x) s' = Inr s'' \<and> inv s'' \<and>
    (\<forall>k. get s'' k = (if k = key x then Inl ErrNotFound else get s k))"
proof -
  from assms have inv': "inv s'" by (rule put_inv)
  have "is_ok (del (key x) s')"
    by (rule del_present) (rule put_then_get [OF assms])
  then obtain s'' where del: "del (key x) s' = Inr s''" by (auto simp: is_ok_iff)
  moreover have "inv s''" by (rule del_inv [OF inv' del])
  moreover have "\<forall>k. get s'' k = (if k = key x then Inl ErrNotFound else get s k)"
    using del_get [OF inv' del] put_frame [OF assms] by auto
  ultimately show ?thesis by blast
qed

lemma del_del: "inv s \<Longrightarrow> del k s = Inr s' \<Longrightarrow> del k s' = Inl ErrNotFound"
  by (rule del_missing) (simp add: del_get)

lemma del_ok_iff: "is_ok (del k s) \<longleftrightarrow> is_ok (get s k)"
proof (cases "get s k")
  case (Inl e)
  then have "get s k = Inl ErrNotFound" using get_error by blast
  with Inl show ?thesis by (simp add: del_missing)
next
  case (Inr x)
  then show ?thesis by (simp add: del_present)
qed

end

locale status_store = object_store get put key stored inv wf del
  for get :: "'s \<Rightarrow> 'k \<Rightarrow> err + 'o" and put key stored inv wf del +
  fixes upd :: "'k \<Rightarrow> 't \<Rightarrow> 's \<Rightarrow> err + 's"
    and status :: "'o \<Rightarrow> 'v"
    and view :: "'t \<Rightarrow> 'v"
    and with_status :: "'t \<Rightarrow> 'o \<Rightarrow> 'o"
    and wf_status :: "'t \<Rightarrow> bool"
    and stamped :: "'t \<Rightarrow> 't"
  assumes put_keeps_status: "status (stored (Some old) x) = status old"
    and status_with_status: "status (with_status t x) = view t"
    and upd_missing: "get s k = Inl ErrNotFound \<Longrightarrow> upd k t s = Inl ErrNotFound"
    and upd_present: "get s k = Inr x \<Longrightarrow> is_ok (upd k t s)"
    and upd_get: "inv s \<Longrightarrow> wf_status t \<Longrightarrow> upd k t s = Inr s' \<Longrightarrow>
      get s' k' = (if k' = k then map_result (with_status (stamped t)) (get s k) else get s k')"
    and upd_inv: "inv s \<Longrightarrow> wf_status t \<Longrightarrow> upd k t s = Inr s' \<Longrightarrow> inv s'"
begin

text \<open>A status written through the subresource survives a later put of the object.\<close>

lemma upd_then_put:
  assumes "inv s" "wf_status t" "upd k t s = Inr s1" "wf x" "key x = k" "put x s1 = Inr s2"
  shows "\<exists>y. get s2 k = Inr y \<and> status y = view (stamped t)"
proof -
  from assms have inv1: "inv s1" using upd_inv by blast
  obtain old where old: "get s k = Inr old"
  proof (cases "get s k")
    case (Inl e)
    with get_error have "get s k = Inl ErrNotFound" by blast
    with assms(3) upd_missing show ?thesis by simp
  next
    case (Inr x)
    then show ?thesis by (rule that)
  qed
  have "get s1 k = Inr (with_status (stamped t) old)"
    using upd_get [OF assms(1-3)] old by simp
  then have "get s2 k = Inr (stored (Some (with_status (stamped t) old)) x)"
    using put_then_get [OF inv1 assms(4) assms(6)] assms(5) by simp
  then show ?thesis by (simp add: put_keeps_status status_with_status)
qed

lemma upd_frame: "inv s \<Longrightarrow> wf_status t \<Longrightarrow> upd k t s = Inr s' \<Longrightarrow> k' \<noteq> k \<Longrightarrow> get s' k' = get s k'"
  by (simp add: upd_get)

end

end
