(* ===== verification/Api_Core.thy ===== *)
theory Api_Core
  imports Json
begin

text \<open>
  The object kinds of internal/api/types.go up to Node: one record per Go struct with its fields
  in order, its zero value, the well-formedness of its ints and maps, and the encoder and decoder
  that \<open>encoding/json\<close> derives from the struct tags (\<open>omitempty\<close> members left out, structs never
  empty). Each type's round trip is an instance of the codec interface.
\<close>

definition PhasePending :: string where "PhasePending = ''Pending''"
definition PhaseScheduled :: string where "PhaseScheduled = ''Scheduled''"
definition PhaseRunning :: string where "PhaseRunning = ''Running''"
definition PhaseSucceeded :: string where "PhaseSucceeded = ''Succeeded''"
definition PhaseFailed :: string where "PhaseFailed = ''Failed''"

definition ServiceTypeClusterIP :: string where "ServiceTypeClusterIP = ''ClusterIP''"

lemmas phase_defs = PhasePending_def PhaseScheduled_def PhaseRunning_def PhaseSucceeded_def PhaseFailed_def

record ContainerPort =
  cp_name :: string
  cp_containerPort :: int
  cp_protocol :: string

definition zero_ContainerPort :: ContainerPort where
  "zero_ContainerPort = \<lparr>cp_name = [], cp_containerPort = 0, cp_protocol = []\<rparr>"

definition wf_ContainerPort :: "ContainerPort \<Rightarrow> bool" where
  "wf_ContainerPort x \<longleftrightarrow> int64_ok (cp_containerPort x)"

definition enc_ContainerPort :: "ContainerPort \<Rightarrow> json" where
  "enc_ContainerPort x = JObj (concat [
     omitmem (cp_name x = []) ''name'' (JStr (cp_name x)),
     mem ''containerPort'' (JInt (cp_containerPort x)),
     omitmem (cp_protocol x = []) ''protocol'' (JStr (cp_protocol x))])"

definition dec_ContainerPort :: "ContainerPort dec" where
  "dec_ContainerPort = dec_struct [
     (''name'', fld dec_string cp_name (\<lambda>v r. r\<lparr>cp_name := v\<rparr>)),
     (''containerPort'', fld dec_int cp_containerPort (\<lambda>v r. r\<lparr>cp_containerPort := v\<rparr>)),
     (''protocol'', fld dec_string cp_protocol (\<lambda>v r. r\<lparr>cp_protocol := v\<rparr>))]"

lemma ContainerPort_roundtrip [simp]: "wf_ContainerPort x \<Longrightarrow> dec_ContainerPort (enc_ContainerPort x) zero_ContainerPort = (x, True)"
  by (cases x) (simp add: wf_ContainerPort_def enc_ContainerPort_def dec_ContainerPort_def zero_ContainerPort_def codec_simps)

interpretation ContainerPort_codec: codec enc_ContainerPort dec_ContainerPort zero_ContainerPort wf_ContainerPort
  by unfold_locales simp

lemmas ContainerPort_list_roundtrip [simp] = ContainerPort_codec.list_roundtrip

lemma zero_ContainerPort_wf [simp]: "wf_ContainerPort zero_ContainerPort"
  by (simp add: wf_ContainerPort_def zero_ContainerPort_def)

lemma dec_ContainerPort_wf [dec_wf]: "wf_ContainerPort x \<Longrightarrow> wf_ContainerPort (fst (dec_ContainerPort j x))"
  unfolding dec_ContainerPort_def by (rule dec_struct_pres) (auto simp: wf_ContainerPort_def intro: dec_wf)

lemmas dec_ContainerPort_list_wf [dec_wf] = dec_list_wf [of wf_ContainerPort dec_ContainerPort zero_ContainerPort, OF dec_ContainerPort_wf zero_ContainerPort_wf]

record ResourceRequirements =
  rr_requests :: strmap
  rr_limits :: strmap

definition zero_ResourceRequirements :: ResourceRequirements where
  "zero_ResourceRequirements = \<lparr>rr_requests = [], rr_limits = []\<rparr>"

definition wf_ResourceRequirements :: "ResourceRequirements \<Rightarrow> bool" where
  "wf_ResourceRequirements x \<longleftrightarrow> map_ok (rr_requests x) \<and> map_ok (rr_limits x)"

definition enc_ResourceRequirements :: "ResourceRequirements \<Rightarrow> json" where
  "enc_ResourceRequirements x = JObj (concat [
     omitmem (rr_requests x = []) ''requests'' (enc_map JStr (rr_requests x)),
     omitmem (rr_limits x = []) ''limits'' (enc_map JStr (rr_limits x))])"

definition dec_ResourceRequirements :: "ResourceRequirements dec" where
  "dec_ResourceRequirements = dec_struct [
     (''requests'', fld (dec_map dec_string []) rr_requests (\<lambda>v r. r\<lparr>rr_requests := v\<rparr>)),
     (''limits'', fld (dec_map dec_string []) rr_limits (\<lambda>v r. r\<lparr>rr_limits := v\<rparr>))]"

lemma ResourceRequirements_roundtrip [simp]: "wf_ResourceRequirements x \<Longrightarrow> dec_ResourceRequirements (enc_ResourceRequirements x) zero_ResourceRequirements = (x, True)"
  by (cases x) (simp add: wf_ResourceRequirements_def enc_ResourceRequirements_def dec_ResourceRequirements_def zero_ResourceRequirements_def codec_simps)

interpretation ResourceRequirements_codec: codec enc_ResourceRequirements dec_ResourceRequirements zero_ResourceRequirements wf_ResourceRequirements
  by unfold_locales simp

lemmas ResourceRequirements_list_roundtrip [simp] = ResourceRequirements_codec.list_roundtrip

lemma zero_ResourceRequirements_wf [simp]: "wf_ResourceRequirements zero_ResourceRequirements"
  by (simp add: wf_ResourceRequirements_def zero_ResourceRequirements_def)

lemma dec_ResourceRequirements_wf [dec_wf]: "wf_ResourceRequirements x \<Longrightarrow> wf_ResourceRequirements (fst (dec_ResourceRequirements j x))"
  unfolding dec_ResourceRequirements_def by (rule dec_struct_pres) (auto simp: wf_ResourceRequirements_def intro: dec_wf)

record Container =
  c_name :: string
  c_image :: string
  c_command :: "string list"
  c_args :: "string list"
  c_ports :: "ContainerPort list"
  c_resources :: ResourceRequirements

definition zero_Container :: Container where
  "zero_Container = \<lparr>c_name = [], c_image = [], c_command = [], c_args = [], c_ports = [], c_resources = zero_ResourceRequirements\<rparr>"

definition wf_Container :: "Container \<Rightarrow> bool" where
  "wf_Container x \<longleftrightarrow> list_all wf_ContainerPort (c_ports x) \<and> wf_ResourceRequirements (c_resources x)"

definition enc_Container :: "Container \<Rightarrow> json" where
  "enc_Container x = JObj (concat [
     mem ''name'' (JStr (c_name x)),
     mem ''image'' (JStr (c_image x)),
     omitmem (c_command x = []) ''command'' (enc_list JStr (c_command x)),
     omitmem (c_args x = []) ''args'' (enc_list JStr (c_args x)),
     omitmem (c_ports x = []) ''ports'' (enc_list enc_ContainerPort (c_ports x)),
     mem ''resources'' (enc_ResourceRequirements (c_resources x))])"

definition dec_Container :: "Container dec" where
  "dec_Container = dec_struct [
     (''name'', fld dec_string c_name (\<lambda>v r. r\<lparr>c_name := v\<rparr>)),
     (''image'', fld dec_string c_image (\<lambda>v r. r\<lparr>c_image := v\<rparr>)),
     (''command'', fld (dec_list dec_string []) c_command (\<lambda>v r. r\<lparr>c_command := v\<rparr>)),
     (''args'', fld (dec_list dec_string []) c_args (\<lambda>v r. r\<lparr>c_args := v\<rparr>)),
     (''ports'', fld (dec_list dec_ContainerPort zero_ContainerPort) c_ports (\<lambda>v r. r\<lparr>c_ports := v\<rparr>)),
     (''resources'', fld dec_ResourceRequirements c_resources (\<lambda>v r. r\<lparr>c_resources := v\<rparr>))]"

lemma Container_roundtrip [simp]: "wf_Container x \<Longrightarrow> dec_Container (enc_Container x) zero_Container = (x, True)"
  by (cases x) (simp add: wf_Container_def enc_Container_def dec_Container_def zero_Container_def codec_simps)

interpretation Container_codec: codec enc_Container dec_Container zero_Container wf_Container
  by unfold_locales simp

lemmas Container_list_roundtrip [simp] = Container_codec.list_roundtrip

lemma zero_Container_wf [simp]: "wf_Container zero_Container"
  by (simp add: wf_Container_def zero_Container_def)

lemma dec_Container_wf [dec_wf]: "wf_Container x \<Longrightarrow> wf_Container (fst (dec_Container j x))"
  unfolding dec_Container_def by (rule dec_struct_pres) (auto simp: wf_Container_def intro: dec_wf)

lemmas dec_Container_list_wf [dec_wf] = dec_list_wf [of wf_Container dec_Container zero_Container, OF dec_Container_wf zero_Container_wf]

record PodSpec =
  podspec_containers :: "Container list"

definition zero_PodSpec :: PodSpec where
  "zero_PodSpec = \<lparr>podspec_containers = []\<rparr>"

definition wf_PodSpec :: "PodSpec \<Rightarrow> bool" where
  "wf_PodSpec x \<longleftrightarrow> list_all wf_Container (podspec_containers x)"

definition enc_PodSpec :: "PodSpec \<Rightarrow> json" where
  "enc_PodSpec x = JObj (concat [
     mem ''containers'' (enc_list enc_Container (podspec_containers x))])"

definition dec_PodSpec :: "PodSpec dec" where
  "dec_PodSpec = dec_struct [
     (''containers'', fld (dec_list dec_Container zero_Container) podspec_containers (\<lambda>v r. r\<lparr>podspec_containers := v\<rparr>))]"

lemma PodSpec_roundtrip [simp]: "wf_PodSpec x \<Longrightarrow> dec_PodSpec (enc_PodSpec x) zero_PodSpec = (x, True)"
  by (cases x) (simp add: wf_PodSpec_def enc_PodSpec_def dec_PodSpec_def zero_PodSpec_def codec_simps)

interpretation PodSpec_codec: codec enc_PodSpec dec_PodSpec zero_PodSpec wf_PodSpec
  by unfold_locales simp

lemmas PodSpec_list_roundtrip [simp] = PodSpec_codec.list_roundtrip

lemma zero_PodSpec_wf [simp]: "wf_PodSpec zero_PodSpec"
  by (simp add: wf_PodSpec_def zero_PodSpec_def)

lemma dec_PodSpec_wf [dec_wf]: "wf_PodSpec x \<Longrightarrow> wf_PodSpec (fst (dec_PodSpec j x))"
  unfolding dec_PodSpec_def by (rule dec_struct_pres) (auto simp: wf_PodSpec_def intro: dec_wf)

record PodStatus =
  ps_phase :: string
  ps_nodeName :: string
  ps_containerID :: string
  ps_message :: string
  ps_podIP :: string
  ps_hostPort :: int
  ps_lastUpdated :: time

definition zero_PodStatus :: PodStatus where
  "zero_PodStatus = \<lparr>ps_phase = [], ps_nodeName = [], ps_containerID = [], ps_message = [], ps_podIP = [], ps_hostPort = 0, ps_lastUpdated = zero_time\<rparr>"

definition wf_PodStatus :: "PodStatus \<Rightarrow> bool" where
  "wf_PodStatus x \<longleftrightarrow> int64_ok (ps_hostPort x)"

definition enc_PodStatus :: "PodStatus \<Rightarrow> json" where
  "enc_PodStatus x = JObj (concat [
     mem ''phase'' (JStr (ps_phase x)),
     omitmem (ps_nodeName x = []) ''nodeName'' (JStr (ps_nodeName x)),
     omitmem (ps_containerID x = []) ''containerId'' (JStr (ps_containerID x)),
     omitmem (ps_message x = []) ''message'' (JStr (ps_message x)),
     omitmem (ps_podIP x = []) ''podIP'' (JStr (ps_podIP x)),
     omitmem (ps_hostPort x = 0) ''hostPort'' (JInt (ps_hostPort x)),
     mem ''lastUpdated'' (JTime (ps_lastUpdated x))])"

definition dec_PodStatus :: "PodStatus dec" where
  "dec_PodStatus = dec_struct [
     (''phase'', fld dec_string ps_phase (\<lambda>v r. r\<lparr>ps_phase := v\<rparr>)),
     (''nodeName'', fld dec_string ps_nodeName (\<lambda>v r. r\<lparr>ps_nodeName := v\<rparr>)),
     (''containerId'', fld dec_string ps_containerID (\<lambda>v r. r\<lparr>ps_containerID := v\<rparr>)),
     (''message'', fld dec_string ps_message (\<lambda>v r. r\<lparr>ps_message := v\<rparr>)),
     (''podIP'', fld dec_string ps_podIP (\<lambda>v r. r\<lparr>ps_podIP := v\<rparr>)),
     (''hostPort'', fld dec_int ps_hostPort (\<lambda>v r. r\<lparr>ps_hostPort := v\<rparr>)),
     (''lastUpdated'', fld dec_time ps_lastUpdated (\<lambda>v r. r\<lparr>ps_lastUpdated := v\<rparr>))]"

lemma PodStatus_roundtrip [simp]: "wf_PodStatus x \<Longrightarrow> dec_PodStatus (enc_PodStatus x) zero_PodStatus = (x, True)"
  by (cases x) (simp add: wf_PodStatus_def enc_PodStatus_def dec_PodStatus_def zero_PodStatus_def codec_simps)

interpretation PodStatus_codec: codec enc_PodStatus dec_PodStatus zero_PodStatus wf_PodStatus
  by unfold_locales simp

lemmas PodStatus_list_roundtrip [simp] = PodStatus_codec.list_roundtrip

lemma zero_PodStatus_wf [simp]: "wf_PodStatus zero_PodStatus"
  by (simp add: wf_PodStatus_def zero_PodStatus_def)

lemma dec_PodStatus_wf [dec_wf]: "wf_PodStatus x \<Longrightarrow> wf_PodStatus (fst (dec_PodStatus j x))"
  unfolding dec_PodStatus_def by (rule dec_struct_pres) (auto simp: wf_PodStatus_def intro: dec_wf)

record Metadata =
  md_name :: string
  md_namespace :: string
  md_labels :: strmap

definition zero_Metadata :: Metadata where
  "zero_Metadata = \<lparr>md_name = [], md_namespace = [], md_labels = []\<rparr>"

definition wf_Metadata :: "Metadata \<Rightarrow> bool" where
  "wf_Metadata x \<longleftrightarrow> map_ok (md_labels x)"

definition enc_Metadata :: "Metadata \<Rightarrow> json" where
  "enc_Metadata x = JObj (concat [
     mem ''name'' (JStr (md_name x)),
     omitmem (md_namespace x = []) ''namespace'' (JStr (md_namespace x)),
     omitmem (md_labels x = []) ''labels'' (enc_map JStr (md_labels x))])"

definition dec_Metadata :: "Metadata dec" where
  "dec_Metadata = dec_struct [
     (''name'', fld dec_string md_name (\<lambda>v r. r\<lparr>md_name := v\<rparr>)),
     (''namespace'', fld dec_string md_namespace (\<lambda>v r. r\<lparr>md_namespace := v\<rparr>)),
     (''labels'', fld (dec_map dec_string []) md_labels (\<lambda>v r. r\<lparr>md_labels := v\<rparr>))]"

lemma Metadata_roundtrip [simp]: "wf_Metadata x \<Longrightarrow> dec_Metadata (enc_Metadata x) zero_Metadata = (x, True)"
  by (cases x) (simp add: wf_Metadata_def enc_Metadata_def dec_Metadata_def zero_Metadata_def codec_simps)

interpretation Metadata_codec: codec enc_Metadata dec_Metadata zero_Metadata wf_Metadata
  by unfold_locales simp

lemmas Metadata_list_roundtrip [simp] = Metadata_codec.list_roundtrip

lemma zero_Metadata_wf [simp]: "wf_Metadata zero_Metadata"
  by (simp add: wf_Metadata_def zero_Metadata_def)

lemma dec_Metadata_wf [dec_wf]: "wf_Metadata x \<Longrightarrow> wf_Metadata (fst (dec_Metadata j x))"
  unfolding dec_Metadata_def by (rule dec_struct_pres) (auto simp: wf_Metadata_def intro: dec_wf)

record Pod =
  pod_apiVersion :: string
  pod_kind :: string
  pod_metadata :: Metadata
  pod_spec :: PodSpec
  pod_status :: PodStatus

definition zero_Pod :: Pod where
  "zero_Pod = \<lparr>pod_apiVersion = [], pod_kind = [], pod_metadata = zero_Metadata, pod_spec = zero_PodSpec, pod_status = zero_PodStatus\<rparr>"

definition wf_Pod :: "Pod \<Rightarrow> bool" where
  "wf_Pod x \<longleftrightarrow> wf_Metadata (pod_metadata x) \<and> wf_PodSpec (pod_spec x) \<and> wf_PodStatus (pod_status x)"

definition enc_Pod :: "Pod \<Rightarrow> json" where
  "enc_Pod x = JObj (concat [
     omitmem (pod_apiVersion x = []) ''apiVersion'' (JStr (pod_apiVersion x)),
     omitmem (pod_kind x = []) ''kind'' (JStr (pod_kind x)),
     mem ''metadata'' (enc_Metadata (pod_metadata x)),
     mem ''spec'' (enc_PodSpec (pod_spec x)),
     mem ''status'' (enc_PodStatus (pod_status x))])"

definition dec_Pod :: "Pod dec" where
  "dec_Pod = dec_struct [
     (''apiVersion'', fld dec_string pod_apiVersion (\<lambda>v r. r\<lparr>pod_apiVersion := v\<rparr>)),
     (''kind'', fld dec_string pod_kind (\<lambda>v r. r\<lparr>pod_kind := v\<rparr>)),
     (''metadata'', fld dec_Metadata pod_metadata (\<lambda>v r. r\<lparr>pod_metadata := v\<rparr>)),
     (''spec'', fld dec_PodSpec pod_spec (\<lambda>v r. r\<lparr>pod_spec := v\<rparr>)),
     (''status'', fld dec_PodStatus pod_status (\<lambda>v r. r\<lparr>pod_status := v\<rparr>))]"

lemma Pod_roundtrip [simp]: "wf_Pod x \<Longrightarrow> dec_Pod (enc_Pod x) zero_Pod = (x, True)"
  by (cases x) (simp add: wf_Pod_def enc_Pod_def dec_Pod_def zero_Pod_def codec_simps)

interpretation Pod_codec: codec enc_Pod dec_Pod zero_Pod wf_Pod
  by unfold_locales simp

lemmas Pod_list_roundtrip [simp] = Pod_codec.list_roundtrip

lemma zero_Pod_wf [simp]: "wf_Pod zero_Pod"
  by (simp add: wf_Pod_def zero_Pod_def)

lemma dec_Pod_wf [dec_wf]: "wf_Pod x \<Longrightarrow> wf_Pod (fst (dec_Pod j x))"
  unfolding dec_Pod_def by (rule dec_struct_pres) (auto simp: wf_Pod_def intro: dec_wf)

record PodTemplate =
  tmpl_metadata :: Metadata
  tmpl_spec :: PodSpec

definition zero_PodTemplate :: PodTemplate where
  "zero_PodTemplate = \<lparr>tmpl_metadata = zero_Metadata, tmpl_spec = zero_PodSpec\<rparr>"

definition wf_PodTemplate :: "PodTemplate \<Rightarrow> bool" where
  "wf_PodTemplate x \<longleftrightarrow> wf_Metadata (tmpl_metadata x) \<and> wf_PodSpec (tmpl_spec x)"

definition enc_PodTemplate :: "PodTemplate \<Rightarrow> json" where
  "enc_PodTemplate x = JObj (concat [
     mem ''metadata'' (enc_Metadata (tmpl_metadata x)),
     mem ''spec'' (enc_PodSpec (tmpl_spec x))])"

definition dec_PodTemplate :: "PodTemplate dec" where
  "dec_PodTemplate = dec_struct [
     (''metadata'', fld dec_Metadata tmpl_metadata (\<lambda>v r. r\<lparr>tmpl_metadata := v\<rparr>)),
     (''spec'', fld dec_PodSpec tmpl_spec (\<lambda>v r. r\<lparr>tmpl_spec := v\<rparr>))]"

lemma PodTemplate_roundtrip [simp]: "wf_PodTemplate x \<Longrightarrow> dec_PodTemplate (enc_PodTemplate x) zero_PodTemplate = (x, True)"
  by (cases x) (simp add: wf_PodTemplate_def enc_PodTemplate_def dec_PodTemplate_def zero_PodTemplate_def codec_simps)

interpretation PodTemplate_codec: codec enc_PodTemplate dec_PodTemplate zero_PodTemplate wf_PodTemplate
  by unfold_locales simp

lemmas PodTemplate_list_roundtrip [simp] = PodTemplate_codec.list_roundtrip

lemma zero_PodTemplate_wf [simp]: "wf_PodTemplate zero_PodTemplate"
  by (simp add: wf_PodTemplate_def zero_PodTemplate_def)

lemma dec_PodTemplate_wf [dec_wf]: "wf_PodTemplate x \<Longrightarrow> wf_PodTemplate (fst (dec_PodTemplate j x))"
  unfolding dec_PodTemplate_def by (rule dec_struct_pres) (auto simp: wf_PodTemplate_def intro: dec_wf)

record ReplicaSetSpec =
  rsspec_replicas :: int
  rsspec_selector :: strmap
  rsspec_template :: PodTemplate

definition zero_ReplicaSetSpec :: ReplicaSetSpec where
  "zero_ReplicaSetSpec = \<lparr>rsspec_replicas = 0, rsspec_selector = [], rsspec_template = zero_PodTemplate\<rparr>"

definition wf_ReplicaSetSpec :: "ReplicaSetSpec \<Rightarrow> bool" where
  "wf_ReplicaSetSpec x \<longleftrightarrow> int64_ok (rsspec_replicas x) \<and> map_ok (rsspec_selector x) \<and> wf_PodTemplate (rsspec_template x)"

definition enc_ReplicaSetSpec :: "ReplicaSetSpec \<Rightarrow> json" where
  "enc_ReplicaSetSpec x = JObj (concat [
     mem ''replicas'' (JInt (rsspec_replicas x)),
     omitmem (rsspec_selector x = []) ''selector'' (enc_map JStr (rsspec_selector x)),
     mem ''template'' (enc_PodTemplate (rsspec_template x))])"

definition dec_ReplicaSetSpec :: "ReplicaSetSpec dec" where
  "dec_ReplicaSetSpec = dec_struct [
     (''replicas'', fld dec_int rsspec_replicas (\<lambda>v r. r\<lparr>rsspec_replicas := v\<rparr>)),
     (''selector'', fld (dec_map dec_string []) rsspec_selector (\<lambda>v r. r\<lparr>rsspec_selector := v\<rparr>)),
     (''template'', fld dec_PodTemplate rsspec_template (\<lambda>v r. r\<lparr>rsspec_template := v\<rparr>))]"

lemma ReplicaSetSpec_roundtrip [simp]: "wf_ReplicaSetSpec x \<Longrightarrow> dec_ReplicaSetSpec (enc_ReplicaSetSpec x) zero_ReplicaSetSpec = (x, True)"
  by (cases x) (simp add: wf_ReplicaSetSpec_def enc_ReplicaSetSpec_def dec_ReplicaSetSpec_def zero_ReplicaSetSpec_def codec_simps)

interpretation ReplicaSetSpec_codec: codec enc_ReplicaSetSpec dec_ReplicaSetSpec zero_ReplicaSetSpec wf_ReplicaSetSpec
  by unfold_locales simp

lemmas ReplicaSetSpec_list_roundtrip [simp] = ReplicaSetSpec_codec.list_roundtrip

lemma zero_ReplicaSetSpec_wf [simp]: "wf_ReplicaSetSpec zero_ReplicaSetSpec"
  by (simp add: wf_ReplicaSetSpec_def zero_ReplicaSetSpec_def)

lemma dec_ReplicaSetSpec_wf [dec_wf]: "wf_ReplicaSetSpec x \<Longrightarrow> wf_ReplicaSetSpec (fst (dec_ReplicaSetSpec j x))"
  unfolding dec_ReplicaSetSpec_def by (rule dec_struct_pres) (auto simp: wf_ReplicaSetSpec_def intro: dec_wf)

record ReplicaSetStatus =
  rsstatus_replicas :: int
  rsstatus_readyReplicas :: int
  rsstatus_lastUpdated :: time

definition zero_ReplicaSetStatus :: ReplicaSetStatus where
  "zero_ReplicaSetStatus = \<lparr>rsstatus_replicas = 0, rsstatus_readyReplicas = 0, rsstatus_lastUpdated = zero_time\<rparr>"

definition wf_ReplicaSetStatus :: "ReplicaSetStatus \<Rightarrow> bool" where
  "wf_ReplicaSetStatus x \<longleftrightarrow> int64_ok (rsstatus_replicas x) \<and> int64_ok (rsstatus_readyReplicas x)"

definition enc_ReplicaSetStatus :: "ReplicaSetStatus \<Rightarrow> json" where
  "enc_ReplicaSetStatus x = JObj (concat [
     mem ''replicas'' (JInt (rsstatus_replicas x)),
     mem ''readyReplicas'' (JInt (rsstatus_readyReplicas x)),
     mem ''lastUpdated'' (JTime (rsstatus_lastUpdated x))])"

definition dec_ReplicaSetStatus :: "ReplicaSetStatus dec" where
  "dec_ReplicaSetStatus = dec_struct [
     (''replicas'', fld dec_int rsstatus_replicas (\<lambda>v r. r\<lparr>rsstatus_replicas := v\<rparr>)),
     (''readyReplicas'', fld dec_int rsstatus_readyReplicas (\<lambda>v r. r\<lparr>rsstatus_readyReplicas := v\<rparr>)),
     (''lastUpdated'', fld dec_time rsstatus_lastUpdated (\<lambda>v r. r\<lparr>rsstatus_lastUpdated := v\<rparr>))]"

lemma ReplicaSetStatus_roundtrip [simp]: "wf_ReplicaSetStatus x \<Longrightarrow> dec_ReplicaSetStatus (enc_ReplicaSetStatus x) zero_ReplicaSetStatus = (x, True)"
  by (cases x) (simp add: wf_ReplicaSetStatus_def enc_ReplicaSetStatus_def dec_ReplicaSetStatus_def zero_ReplicaSetStatus_def codec_simps)

interpretation ReplicaSetStatus_codec: codec enc_ReplicaSetStatus dec_ReplicaSetStatus zero_ReplicaSetStatus wf_ReplicaSetStatus
  by unfold_locales simp

lemmas ReplicaSetStatus_list_roundtrip [simp] = ReplicaSetStatus_codec.list_roundtrip

lemma zero_ReplicaSetStatus_wf [simp]: "wf_ReplicaSetStatus zero_ReplicaSetStatus"
  by (simp add: wf_ReplicaSetStatus_def zero_ReplicaSetStatus_def)

lemma dec_ReplicaSetStatus_wf [dec_wf]: "wf_ReplicaSetStatus x \<Longrightarrow> wf_ReplicaSetStatus (fst (dec_ReplicaSetStatus j x))"
  unfolding dec_ReplicaSetStatus_def by (rule dec_struct_pres) (auto simp: wf_ReplicaSetStatus_def intro: dec_wf)

record ReplicaSet =
  rs_apiVersion :: string
  rs_kind :: string
  rs_metadata :: Metadata
  rs_spec :: ReplicaSetSpec
  rs_status :: ReplicaSetStatus

definition zero_ReplicaSet :: ReplicaSet where
  "zero_ReplicaSet = \<lparr>rs_apiVersion = [], rs_kind = [], rs_metadata = zero_Metadata, rs_spec = zero_ReplicaSetSpec, rs_status = zero_ReplicaSetStatus\<rparr>"

definition wf_ReplicaSet :: "ReplicaSet \<Rightarrow> bool" where
  "wf_ReplicaSet x \<longleftrightarrow> wf_Metadata (rs_metadata x) \<and> wf_ReplicaSetSpec (rs_spec x) \<and> wf_ReplicaSetStatus (rs_status x)"

definition enc_ReplicaSet :: "ReplicaSet \<Rightarrow> json" where
  "enc_ReplicaSet x = JObj (concat [
     omitmem (rs_apiVersion x = []) ''apiVersion'' (JStr (rs_apiVersion x)),
     omitmem (rs_kind x = []) ''kind'' (JStr (rs_kind x)),
     mem ''metadata'' (enc_Metadata (rs_metadata x)),
     mem ''spec'' (enc_ReplicaSetSpec (rs_spec x)),
     mem ''status'' (enc_ReplicaSetStatus (rs_status x))])"

definition dec_ReplicaSet :: "ReplicaSet dec" where
  "dec_ReplicaSet = dec_struct [
     (''apiVersion'', fld dec_string rs_apiVersion (\<lambda>v r. r\<lparr>rs_apiVersion := v\<rparr>)),
     (''kind'', fld dec_string rs_kind (\<lambda>v r. r\<lparr>rs_kind := v\<rparr>)),
     (''metadata'', fld dec_Metadata rs_metadata (\<lambda>v r. r\<lparr>rs_metadata := v\<rparr>)),
     (''spec'', fld dec_ReplicaSetSpec rs_spec (\<lambda>v r. r\<lparr>rs_spec := v\<rparr>)),
     (''status'', fld dec_ReplicaSetStatus rs_status (\<lambda>v r. r\<lparr>rs_status := v\<rparr>))]"

lemma ReplicaSet_roundtrip [simp]: "wf_ReplicaSet x \<Longrightarrow> dec_ReplicaSet (enc_ReplicaSet x) zero_ReplicaSet = (x, True)"
  by (cases x) (simp add: wf_ReplicaSet_def enc_ReplicaSet_def dec_ReplicaSet_def zero_ReplicaSet_def codec_simps)

interpretation ReplicaSet_codec: codec enc_ReplicaSet dec_ReplicaSet zero_ReplicaSet wf_ReplicaSet
  by unfold_locales simp

lemmas ReplicaSet_list_roundtrip [simp] = ReplicaSet_codec.list_roundtrip

lemma zero_ReplicaSet_wf [simp]: "wf_ReplicaSet zero_ReplicaSet"
  by (simp add: wf_ReplicaSet_def zero_ReplicaSet_def)

lemma dec_ReplicaSet_wf [dec_wf]: "wf_ReplicaSet x \<Longrightarrow> wf_ReplicaSet (fst (dec_ReplicaSet j x))"
  unfolding dec_ReplicaSet_def by (rule dec_struct_pres) (auto simp: wf_ReplicaSet_def intro: dec_wf)

record DeploymentSpec =
  depspec_replicas :: int
  depspec_selector :: strmap
  depspec_template :: PodTemplate
  depspec_strategy :: string

definition zero_DeploymentSpec :: DeploymentSpec where
  "zero_DeploymentSpec = \<lparr>depspec_replicas = 0, depspec_selector = [], depspec_template = zero_PodTemplate, depspec_strategy = []\<rparr>"

definition wf_DeploymentSpec :: "DeploymentSpec \<Rightarrow> bool" where
  "wf_DeploymentSpec x \<longleftrightarrow> int64_ok (depspec_replicas x) \<and> map_ok (depspec_selector x) \<and> wf_PodTemplate (depspec_template x)"

definition enc_DeploymentSpec :: "DeploymentSpec \<Rightarrow> json" where
  "enc_DeploymentSpec x = JObj (concat [
     mem ''replicas'' (JInt (depspec_replicas x)),
     omitmem (depspec_selector x = []) ''selector'' (enc_map JStr (depspec_selector x)),
     mem ''template'' (enc_PodTemplate (depspec_template x)),
     omitmem (depspec_strategy x = []) ''strategy'' (JStr (depspec_strategy x))])"

definition dec_DeploymentSpec :: "DeploymentSpec dec" where
  "dec_DeploymentSpec = dec_struct [
     (''replicas'', fld dec_int depspec_replicas (\<lambda>v r. r\<lparr>depspec_replicas := v\<rparr>)),
     (''selector'', fld (dec_map dec_string []) depspec_selector (\<lambda>v r. r\<lparr>depspec_selector := v\<rparr>)),
     (''template'', fld dec_PodTemplate depspec_template (\<lambda>v r. r\<lparr>depspec_template := v\<rparr>)),
     (''strategy'', fld dec_string depspec_strategy (\<lambda>v r. r\<lparr>depspec_strategy := v\<rparr>))]"

lemma DeploymentSpec_roundtrip [simp]: "wf_DeploymentSpec x \<Longrightarrow> dec_DeploymentSpec (enc_DeploymentSpec x) zero_DeploymentSpec = (x, True)"
  by (cases x) (simp add: wf_DeploymentSpec_def enc_DeploymentSpec_def dec_DeploymentSpec_def zero_DeploymentSpec_def codec_simps)

interpretation DeploymentSpec_codec: codec enc_DeploymentSpec dec_DeploymentSpec zero_DeploymentSpec wf_DeploymentSpec
  by unfold_locales simp

lemmas DeploymentSpec_list_roundtrip [simp] = DeploymentSpec_codec.list_roundtrip

lemma zero_DeploymentSpec_wf [simp]: "wf_DeploymentSpec zero_DeploymentSpec"
  by (simp add: wf_DeploymentSpec_def zero_DeploymentSpec_def)

lemma dec_DeploymentSpec_wf [dec_wf]: "wf_DeploymentSpec x \<Longrightarrow> wf_DeploymentSpec (fst (dec_DeploymentSpec j x))"
  unfolding dec_DeploymentSpec_def by (rule dec_struct_pres) (auto simp: wf_DeploymentSpec_def intro: dec_wf)

record DeploymentStatus =
  depstatus_replicas :: int
  depstatus_readyReplicas :: int
  depstatus_lastUpdated :: time

definition zero_DeploymentStatus :: DeploymentStatus where
  "zero_DeploymentStatus = \<lparr>depstatus_replicas = 0, depstatus_readyReplicas = 0, depstatus_lastUpdated = zero_time\<rparr>"

definition wf_DeploymentStatus :: "DeploymentStatus \<Rightarrow> bool" where
  "wf_DeploymentStatus x \<longleftrightarrow> int64_ok (depstatus_replicas x) \<and> int64_ok (depstatus_readyReplicas x)"

definition enc_DeploymentStatus :: "DeploymentStatus \<Rightarrow> json" where
  "enc_DeploymentStatus x = JObj (concat [
     mem ''replicas'' (JInt (depstatus_replicas x)),
     mem ''readyReplicas'' (JInt (depstatus_readyReplicas x)),
     mem ''lastUpdated'' (JTime (depstatus_lastUpdated x))])"

definition dec_DeploymentStatus :: "DeploymentStatus dec" where
  "dec_DeploymentStatus = dec_struct [
     (''replicas'', fld dec_int depstatus_replicas (\<lambda>v r. r\<lparr>depstatus_replicas := v\<rparr>)),
     (''readyReplicas'', fld dec_int depstatus_readyReplicas (\<lambda>v r. r\<lparr>depstatus_readyReplicas := v\<rparr>)),
     (''lastUpdated'', fld dec_time depstatus_lastUpdated (\<lambda>v r. r\<lparr>depstatus_lastUpdated := v\<rparr>))]"

lemma DeploymentStatus_roundtrip [simp]: "wf_DeploymentStatus x \<Longrightarrow> dec_DeploymentStatus (enc_DeploymentStatus x) zero_DeploymentStatus = (x, True)"
  by (cases x) (simp add: wf_DeploymentStatus_def enc_DeploymentStatus_def dec_DeploymentStatus_def zero_DeploymentStatus_def codec_simps)

interpretation DeploymentStatus_codec: codec enc_DeploymentStatus dec_DeploymentStatus zero_DeploymentStatus wf_DeploymentStatus
  by unfold_locales simp

lemmas DeploymentStatus_list_roundtrip [simp] = DeploymentStatus_codec.list_roundtrip

lemma zero_DeploymentStatus_wf [simp]: "wf_DeploymentStatus zero_DeploymentStatus"
  by (simp add: wf_DeploymentStatus_def zero_DeploymentStatus_def)

lemma dec_DeploymentStatus_wf [dec_wf]: "wf_DeploymentStatus x \<Longrightarrow> wf_DeploymentStatus (fst (dec_DeploymentStatus j x))"
  unfolding dec_DeploymentStatus_def by (rule dec_struct_pres) (auto simp: wf_DeploymentStatus_def intro: dec_wf)

record Deployment =
  dep_apiVersion :: string
  dep_kind :: string
  dep_metadata :: Metadata
  dep_spec :: DeploymentSpec
  dep_status :: DeploymentStatus

definition zero_Deployment :: Deployment where
  "zero_Deployment = \<lparr>dep_apiVersion = [], dep_kind = [], dep_metadata = zero_Metadata, dep_spec = zero_DeploymentSpec, dep_status = zero_DeploymentStatus\<rparr>"

definition wf_Deployment :: "Deployment \<Rightarrow> bool" where
  "wf_Deployment x \<longleftrightarrow> wf_Metadata (dep_metadata x) \<and> wf_DeploymentSpec (dep_spec x) \<and> wf_DeploymentStatus (dep_status x)"

definition enc_Deployment :: "Deployment \<Rightarrow> json" where
  "enc_Deployment x = JObj (concat [
     omitmem (dep_apiVersion x = []) ''apiVersion'' (JStr (dep_apiVersion x)),
     omitmem (dep_kind x = []) ''kind'' (JStr (dep_kind x)),
     mem ''metadata'' (enc_Metadata (dep_metadata x)),
     mem ''spec'' (enc_DeploymentSpec (dep_spec x)),
     mem ''status'' (enc_DeploymentStatus (dep_status x))])"

definition dec_Deployment :: "Deployment dec" where
  "dec_Deployment = dec_struct [
     (''apiVersion'', fld dec_string dep_apiVersion (\<lambda>v r. r\<lparr>dep_apiVersion := v\<rparr>)),
     (''kind'', fld dec_string dep_kind (\<lambda>v r. r\<lparr>dep_kind := v\<rparr>)),
     (''metadata'', fld dec_Metadata dep_metadata (\<lambda>v r. r\<lparr>dep_metadata := v\<rparr>)),
     (''spec'', fld dec_DeploymentSpec dep_spec (\<lambda>v r. r\<lparr>dep_spec := v\<rparr>)),
     (''status'', fld dec_DeploymentStatus dep_status (\<lambda>v r. r\<lparr>dep_status := v\<rparr>))]"

lemma Deployment_roundtrip [simp]: "wf_Deployment x \<Longrightarrow> dec_Deployment (enc_Deployment x) zero_Deployment = (x, True)"
  by (cases x) (simp add: wf_Deployment_def enc_Deployment_def dec_Deployment_def zero_Deployment_def codec_simps)

interpretation Deployment_codec: codec enc_Deployment dec_Deployment zero_Deployment wf_Deployment
  by unfold_locales simp

lemmas Deployment_list_roundtrip [simp] = Deployment_codec.list_roundtrip

lemma zero_Deployment_wf [simp]: "wf_Deployment zero_Deployment"
  by (simp add: wf_Deployment_def zero_Deployment_def)

lemma dec_Deployment_wf [dec_wf]: "wf_Deployment x \<Longrightarrow> wf_Deployment (fst (dec_Deployment j x))"
  unfolding dec_Deployment_def by (rule dec_struct_pres) (auto simp: wf_Deployment_def intro: dec_wf)

record ServicePort =
  sp_name :: string
  sp_port :: int
  sp_targetPort :: int
  sp_protocol :: string

definition zero_ServicePort :: ServicePort where
  "zero_ServicePort = \<lparr>sp_name = [], sp_port = 0, sp_targetPort = 0, sp_protocol = []\<rparr>"

definition wf_ServicePort :: "ServicePort \<Rightarrow> bool" where
  "wf_ServicePort x \<longleftrightarrow> int64_ok (sp_port x) \<and> int64_ok (sp_targetPort x)"

definition enc_ServicePort :: "ServicePort \<Rightarrow> json" where
  "enc_ServicePort x = JObj (concat [
     omitmem (sp_name x = []) ''name'' (JStr (sp_name x)),
     mem ''port'' (JInt (sp_port x)),
     omitmem (sp_targetPort x = 0) ''targetPort'' (JInt (sp_targetPort x)),
     omitmem (sp_protocol x = []) ''protocol'' (JStr (sp_protocol x))])"

definition dec_ServicePort :: "ServicePort dec" where
  "dec_ServicePort = dec_struct [
     (''name'', fld dec_string sp_name (\<lambda>v r. r\<lparr>sp_name := v\<rparr>)),
     (''port'', fld dec_int sp_port (\<lambda>v r. r\<lparr>sp_port := v\<rparr>)),
     (''targetPort'', fld dec_int sp_targetPort (\<lambda>v r. r\<lparr>sp_targetPort := v\<rparr>)),
     (''protocol'', fld dec_string sp_protocol (\<lambda>v r. r\<lparr>sp_protocol := v\<rparr>))]"

lemma ServicePort_roundtrip [simp]: "wf_ServicePort x \<Longrightarrow> dec_ServicePort (enc_ServicePort x) zero_ServicePort = (x, True)"
  by (cases x) (simp add: wf_ServicePort_def enc_ServicePort_def dec_ServicePort_def zero_ServicePort_def codec_simps)

interpretation ServicePort_codec: codec enc_ServicePort dec_ServicePort zero_ServicePort wf_ServicePort
  by unfold_locales simp

lemmas ServicePort_list_roundtrip [simp] = ServicePort_codec.list_roundtrip

lemma zero_ServicePort_wf [simp]: "wf_ServicePort zero_ServicePort"
  by (simp add: wf_ServicePort_def zero_ServicePort_def)

lemma dec_ServicePort_wf [dec_wf]: "wf_ServicePort x \<Longrightarrow> wf_ServicePort (fst (dec_ServicePort j x))"
  unfolding dec_ServicePort_def by (rule dec_struct_pres) (auto simp: wf_ServicePort_def intro: dec_wf)

lemmas dec_ServicePort_list_wf [dec_wf] = dec_list_wf [of wf_ServicePort dec_ServicePort zero_ServicePort, OF dec_ServicePort_wf zero_ServicePort_wf]

record ServiceSpec =
  svcspec_selector :: strmap
  svcspec_ports :: "ServicePort list"
  svcspec_type :: string
  svcspec_clusterIP :: string

definition zero_ServiceSpec :: ServiceSpec where
  "zero_ServiceSpec = \<lparr>svcspec_selector = [], svcspec_ports = [], svcspec_type = [], svcspec_clusterIP = []\<rparr>"

definition wf_ServiceSpec :: "ServiceSpec \<Rightarrow> bool" where
  "wf_ServiceSpec x \<longleftrightarrow> map_ok (svcspec_selector x) \<and> list_all wf_ServicePort (svcspec_ports x)"

definition enc_ServiceSpec :: "ServiceSpec \<Rightarrow> json" where
  "enc_ServiceSpec x = JObj (concat [
     omitmem (svcspec_selector x = []) ''selector'' (enc_map JStr (svcspec_selector x)),
     mem ''ports'' (enc_list enc_ServicePort (svcspec_ports x)),
     omitmem (svcspec_type x = []) ''type'' (JStr (svcspec_type x)),
     omitmem (svcspec_clusterIP x = []) ''clusterIP'' (JStr (svcspec_clusterIP x))])"

definition dec_ServiceSpec :: "ServiceSpec dec" where
  "dec_ServiceSpec = dec_struct [
     (''selector'', fld (dec_map dec_string []) svcspec_selector (\<lambda>v r. r\<lparr>svcspec_selector := v\<rparr>)),
     (''ports'', fld (dec_list dec_ServicePort zero_ServicePort) svcspec_ports (\<lambda>v r. r\<lparr>svcspec_ports := v\<rparr>)),
     (''type'', fld dec_string svcspec_type (\<lambda>v r. r\<lparr>svcspec_type := v\<rparr>)),
     (''clusterIP'', fld dec_string svcspec_clusterIP (\<lambda>v r. r\<lparr>svcspec_clusterIP := v\<rparr>))]"

lemma ServiceSpec_roundtrip [simp]: "wf_ServiceSpec x \<Longrightarrow> dec_ServiceSpec (enc_ServiceSpec x) zero_ServiceSpec = (x, True)"
  by (cases x) (simp add: wf_ServiceSpec_def enc_ServiceSpec_def dec_ServiceSpec_def zero_ServiceSpec_def codec_simps)

interpretation ServiceSpec_codec: codec enc_ServiceSpec dec_ServiceSpec zero_ServiceSpec wf_ServiceSpec
  by unfold_locales simp

lemmas ServiceSpec_list_roundtrip [simp] = ServiceSpec_codec.list_roundtrip

lemma zero_ServiceSpec_wf [simp]: "wf_ServiceSpec zero_ServiceSpec"
  by (simp add: wf_ServiceSpec_def zero_ServiceSpec_def)

lemma dec_ServiceSpec_wf [dec_wf]: "wf_ServiceSpec x \<Longrightarrow> wf_ServiceSpec (fst (dec_ServiceSpec j x))"
  unfolding dec_ServiceSpec_def by (rule dec_struct_pres) (auto simp: wf_ServiceSpec_def intro: dec_wf)

record ServiceStatus =
  svcstatus_lastUpdated :: time

definition zero_ServiceStatus :: ServiceStatus where
  "zero_ServiceStatus = \<lparr>svcstatus_lastUpdated = zero_time\<rparr>"

definition wf_ServiceStatus :: "ServiceStatus \<Rightarrow> bool" where
  "wf_ServiceStatus x \<longleftrightarrow> True"

definition enc_ServiceStatus :: "ServiceStatus \<Rightarrow> json" where
  "enc_ServiceStatus x = JObj (concat [
     mem ''lastUpdated'' (JTime (svcstatus_lastUpdated x))])"

definition dec_ServiceStatus :: "ServiceStatus dec" where
  "dec_ServiceStatus = dec_struct [
     (''lastUpdated'', fld dec_time svcstatus_lastUpdated (\<lambda>v r. r\<lparr>svcstatus_lastUpdated := v\<rparr>))]"

lemma ServiceStatus_roundtrip [simp]: "wf_ServiceStatus x \<Longrightarrow> dec_ServiceStatus (enc_ServiceStatus x) zero_ServiceStatus = (x, True)"
  by (cases x) (simp add: wf_ServiceStatus_def enc_ServiceStatus_def dec_ServiceStatus_def zero_ServiceStatus_def codec_simps)

interpretation ServiceStatus_codec: codec enc_ServiceStatus dec_ServiceStatus zero_ServiceStatus wf_ServiceStatus
  by unfold_locales simp

lemmas ServiceStatus_list_roundtrip [simp] = ServiceStatus_codec.list_roundtrip

lemma zero_ServiceStatus_wf [simp]: "wf_ServiceStatus zero_ServiceStatus"
  by (simp add: wf_ServiceStatus_def zero_ServiceStatus_def)

lemma dec_ServiceStatus_wf [dec_wf]: "wf_ServiceStatus x \<Longrightarrow> wf_ServiceStatus (fst (dec_ServiceStatus j x))"
  unfolding dec_ServiceStatus_def by (rule dec_struct_pres) (auto simp: wf_ServiceStatus_def intro: dec_wf)

record Service =
  svc_apiVersion :: string
  svc_kind :: string
  svc_metadata :: Metadata
  svc_spec :: ServiceSpec
  svc_status :: ServiceStatus

definition zero_Service :: Service where
  "zero_Service = \<lparr>svc_apiVersion = [], svc_kind = [], svc_metadata = zero_Metadata, svc_spec = zero_ServiceSpec, svc_status = zero_ServiceStatus\<rparr>"

definition wf_Service :: "Service \<Rightarrow> bool" where
  "wf_Service x \<longleftrightarrow> wf_Metadata (svc_metadata x) \<and> wf_ServiceSpec (svc_spec x) \<and> wf_ServiceStatus (svc_status x)"

definition enc_Service :: "Service \<Rightarrow> json" where
  "enc_Service x = JObj (concat [
     omitmem (svc_apiVersion x = []) ''apiVersion'' (JStr (svc_apiVersion x)),
     omitmem (svc_kind x = []) ''kind'' (JStr (svc_kind x)),
     mem ''metadata'' (enc_Metadata (svc_metadata x)),
     mem ''spec'' (enc_ServiceSpec (svc_spec x)),
     mem ''status'' (enc_ServiceStatus (svc_status x))])"

definition dec_Service :: "Service dec" where
  "dec_Service = dec_struct [
     (''apiVersion'', fld dec_string svc_apiVersion (\<lambda>v r. r\<lparr>svc_apiVersion := v\<rparr>)),
     (''kind'', fld dec_string svc_kind (\<lambda>v r. r\<lparr>svc_kind := v\<rparr>)),
     (''metadata'', fld dec_Metadata svc_metadata (\<lambda>v r. r\<lparr>svc_metadata := v\<rparr>)),
     (''spec'', fld dec_ServiceSpec svc_spec (\<lambda>v r. r\<lparr>svc_spec := v\<rparr>)),
     (''status'', fld dec_ServiceStatus svc_status (\<lambda>v r. r\<lparr>svc_status := v\<rparr>))]"

lemma Service_roundtrip [simp]: "wf_Service x \<Longrightarrow> dec_Service (enc_Service x) zero_Service = (x, True)"
  by (cases x) (simp add: wf_Service_def enc_Service_def dec_Service_def zero_Service_def codec_simps)

interpretation Service_codec: codec enc_Service dec_Service zero_Service wf_Service
  by unfold_locales simp

lemmas Service_list_roundtrip [simp] = Service_codec.list_roundtrip

lemma zero_Service_wf [simp]: "wf_Service zero_Service"
  by (simp add: wf_Service_def zero_Service_def)

lemma dec_Service_wf [dec_wf]: "wf_Service x \<Longrightarrow> wf_Service (fst (dec_Service j x))"
  unfolding dec_Service_def by (rule dec_struct_pres) (auto simp: wf_Service_def intro: dec_wf)

record EndpointAddress =
  ea_IP :: string
  ea_port :: int
  ea_nodeName :: string
  ea_podName :: string

definition zero_EndpointAddress :: EndpointAddress where
  "zero_EndpointAddress = \<lparr>ea_IP = [], ea_port = 0, ea_nodeName = [], ea_podName = []\<rparr>"

definition wf_EndpointAddress :: "EndpointAddress \<Rightarrow> bool" where
  "wf_EndpointAddress x \<longleftrightarrow> int64_ok (ea_port x)"

definition enc_EndpointAddress :: "EndpointAddress \<Rightarrow> json" where
  "enc_EndpointAddress x = JObj (concat [
     mem ''ip'' (JStr (ea_IP x)),
     mem ''port'' (JInt (ea_port x)),
     omitmem (ea_nodeName x = []) ''nodeName'' (JStr (ea_nodeName x)),
     omitmem (ea_podName x = []) ''podName'' (JStr (ea_podName x))])"

definition dec_EndpointAddress :: "EndpointAddress dec" where
  "dec_EndpointAddress = dec_struct [
     (''ip'', fld dec_string ea_IP (\<lambda>v r. r\<lparr>ea_IP := v\<rparr>)),
     (''port'', fld dec_int ea_port (\<lambda>v r. r\<lparr>ea_port := v\<rparr>)),
     (''nodeName'', fld dec_string ea_nodeName (\<lambda>v r. r\<lparr>ea_nodeName := v\<rparr>)),
     (''podName'', fld dec_string ea_podName (\<lambda>v r. r\<lparr>ea_podName := v\<rparr>))]"

lemma EndpointAddress_roundtrip [simp]: "wf_EndpointAddress x \<Longrightarrow> dec_EndpointAddress (enc_EndpointAddress x) zero_EndpointAddress = (x, True)"
  by (cases x) (simp add: wf_EndpointAddress_def enc_EndpointAddress_def dec_EndpointAddress_def zero_EndpointAddress_def codec_simps)

interpretation EndpointAddress_codec: codec enc_EndpointAddress dec_EndpointAddress zero_EndpointAddress wf_EndpointAddress
  by unfold_locales simp

lemmas EndpointAddress_list_roundtrip [simp] = EndpointAddress_codec.list_roundtrip

lemma zero_EndpointAddress_wf [simp]: "wf_EndpointAddress zero_EndpointAddress"
  by (simp add: wf_EndpointAddress_def zero_EndpointAddress_def)

lemma dec_EndpointAddress_wf [dec_wf]: "wf_EndpointAddress x \<Longrightarrow> wf_EndpointAddress (fst (dec_EndpointAddress j x))"
  unfolding dec_EndpointAddress_def by (rule dec_struct_pres) (auto simp: wf_EndpointAddress_def intro: dec_wf)

lemmas dec_EndpointAddress_list_wf [dec_wf] = dec_list_wf [of wf_EndpointAddress dec_EndpointAddress zero_EndpointAddress, OF dec_EndpointAddress_wf zero_EndpointAddress_wf]

record Endpoints =
  ep_apiVersion :: string
  ep_kind :: string
  ep_metadata :: Metadata
  ep_subsets :: "EndpointAddress list"
  ep_lastUpdated :: time

definition zero_Endpoints :: Endpoints where
  "zero_Endpoints = \<lparr>ep_apiVersion = [], ep_kind = [], ep_metadata = zero_Metadata, ep_subsets = [], ep_lastUpdated = zero_time\<rparr>"

definition wf_Endpoints :: "Endpoints \<Rightarrow> bool" where
  "wf_Endpoints x \<longleftrightarrow> wf_Metadata (ep_metadata x) \<and> list_all wf_EndpointAddress (ep_subsets x)"

definition enc_Endpoints :: "Endpoints \<Rightarrow> json" where
  "enc_Endpoints x = JObj (concat [
     omitmem (ep_apiVersion x = []) ''apiVersion'' (JStr (ep_apiVersion x)),
     omitmem (ep_kind x = []) ''kind'' (JStr (ep_kind x)),
     mem ''metadata'' (enc_Metadata (ep_metadata x)),
     mem ''subsets'' (enc_list enc_EndpointAddress (ep_subsets x)),
     mem ''lastUpdated'' (JTime (ep_lastUpdated x))])"

definition dec_Endpoints :: "Endpoints dec" where
  "dec_Endpoints = dec_struct [
     (''apiVersion'', fld dec_string ep_apiVersion (\<lambda>v r. r\<lparr>ep_apiVersion := v\<rparr>)),
     (''kind'', fld dec_string ep_kind (\<lambda>v r. r\<lparr>ep_kind := v\<rparr>)),
     (''metadata'', fld dec_Metadata ep_metadata (\<lambda>v r. r\<lparr>ep_metadata := v\<rparr>)),
     (''subsets'', fld (dec_list dec_EndpointAddress zero_EndpointAddress) ep_subsets (\<lambda>v r. r\<lparr>ep_subsets := v\<rparr>)),
     (''lastUpdated'', fld dec_time ep_lastUpdated (\<lambda>v r. r\<lparr>ep_lastUpdated := v\<rparr>))]"

lemma Endpoints_roundtrip [simp]: "wf_Endpoints x \<Longrightarrow> dec_Endpoints (enc_Endpoints x) zero_Endpoints = (x, True)"
  by (cases x) (simp add: wf_Endpoints_def enc_Endpoints_def dec_Endpoints_def zero_Endpoints_def codec_simps)

interpretation Endpoints_codec: codec enc_Endpoints dec_Endpoints zero_Endpoints wf_Endpoints
  by unfold_locales simp

lemmas Endpoints_list_roundtrip [simp] = Endpoints_codec.list_roundtrip

lemma zero_Endpoints_wf [simp]: "wf_Endpoints zero_Endpoints"
  by (simp add: wf_Endpoints_def zero_Endpoints_def)

lemma dec_Endpoints_wf [dec_wf]: "wf_Endpoints x \<Longrightarrow> wf_Endpoints (fst (dec_Endpoints j x))"
  unfolding dec_Endpoints_def by (rule dec_struct_pres) (auto simp: wf_Endpoints_def intro: dec_wf)

record NodeStatus =
  ns_ready :: bool
  ns_lastHeartbeat :: time
  ns_podCount :: int
  ns_address :: string

definition zero_NodeStatus :: NodeStatus where
  "zero_NodeStatus = \<lparr>ns_ready = False, ns_lastHeartbeat = zero_time, ns_podCount = 0, ns_address = []\<rparr>"

definition wf_NodeStatus :: "NodeStatus \<Rightarrow> bool" where
  "wf_NodeStatus x \<longleftrightarrow> int64_ok (ns_podCount x)"

definition enc_NodeStatus :: "NodeStatus \<Rightarrow> json" where
  "enc_NodeStatus x = JObj (concat [
     mem ''ready'' (JBool (ns_ready x)),
     mem ''lastHeartbeat'' (JTime (ns_lastHeartbeat x)),
     mem ''podCount'' (JInt (ns_podCount x)),
     omitmem (ns_address x = []) ''address'' (JStr (ns_address x))])"

definition dec_NodeStatus :: "NodeStatus dec" where
  "dec_NodeStatus = dec_struct [
     (''ready'', fld dec_bool ns_ready (\<lambda>v r. r\<lparr>ns_ready := v\<rparr>)),
     (''lastHeartbeat'', fld dec_time ns_lastHeartbeat (\<lambda>v r. r\<lparr>ns_lastHeartbeat := v\<rparr>)),
     (''podCount'', fld dec_int ns_podCount (\<lambda>v r. r\<lparr>ns_podCount := v\<rparr>)),
     (''address'', fld dec_string ns_address (\<lambda>v r. r\<lparr>ns_address := v\<rparr>))]"

lemma NodeStatus_roundtrip [simp]: "wf_NodeStatus x \<Longrightarrow> dec_NodeStatus (enc_NodeStatus x) zero_NodeStatus = (x, True)"
  by (cases x) (simp add: wf_NodeStatus_def enc_NodeStatus_def dec_NodeStatus_def zero_NodeStatus_def codec_simps)

interpretation NodeStatus_codec: codec enc_NodeStatus dec_NodeStatus zero_NodeStatus wf_NodeStatus
  by unfold_locales simp

lemmas NodeStatus_list_roundtrip [simp] = NodeStatus_codec.list_roundtrip

lemma zero_NodeStatus_wf [simp]: "wf_NodeStatus zero_NodeStatus"
  by (simp add: wf_NodeStatus_def zero_NodeStatus_def)

lemma dec_NodeStatus_wf [dec_wf]: "wf_NodeStatus x \<Longrightarrow> wf_NodeStatus (fst (dec_NodeStatus j x))"
  unfolding dec_NodeStatus_def by (rule dec_struct_pres) (auto simp: wf_NodeStatus_def intro: dec_wf)

record Node =
  node_apiVersion :: string
  node_kind :: string
  node_metadata :: Metadata
  node_status :: NodeStatus

definition zero_Node :: Node where
  "zero_Node = \<lparr>node_apiVersion = [], node_kind = [], node_metadata = zero_Metadata, node_status = zero_NodeStatus\<rparr>"

definition wf_Node :: "Node \<Rightarrow> bool" where
  "wf_Node x \<longleftrightarrow> wf_Metadata (node_metadata x) \<and> wf_NodeStatus (node_status x)"

definition enc_Node :: "Node \<Rightarrow> json" where
  "enc_Node x = JObj (concat [
     omitmem (node_apiVersion x = []) ''apiVersion'' (JStr (node_apiVersion x)),
     omitmem (node_kind x = []) ''kind'' (JStr (node_kind x)),
     mem ''metadata'' (enc_Metadata (node_metadata x)),
     mem ''status'' (enc_NodeStatus (node_status x))])"

definition dec_Node :: "Node dec" where
  "dec_Node = dec_struct [
     (''apiVersion'', fld dec_string node_apiVersion (\<lambda>v r. r\<lparr>node_apiVersion := v\<rparr>)),
     (''kind'', fld dec_string node_kind (\<lambda>v r. r\<lparr>node_kind := v\<rparr>)),
     (''metadata'', fld dec_Metadata node_metadata (\<lambda>v r. r\<lparr>node_metadata := v\<rparr>)),
     (''status'', fld dec_NodeStatus node_status (\<lambda>v r. r\<lparr>node_status := v\<rparr>))]"

lemma Node_roundtrip [simp]: "wf_Node x \<Longrightarrow> dec_Node (enc_Node x) zero_Node = (x, True)"
  by (cases x) (simp add: wf_Node_def enc_Node_def dec_Node_def zero_Node_def codec_simps)

interpretation Node_codec: codec enc_Node dec_Node zero_Node wf_Node
  by unfold_locales simp

lemmas Node_list_roundtrip [simp] = Node_codec.list_roundtrip

lemma zero_Node_wf [simp]: "wf_Node zero_Node"
  by (simp add: wf_Node_def zero_Node_def)

lemma dec_Node_wf [dec_wf]: "wf_Node x \<Longrightarrow> wf_Node (fst (dec_Node j x))"
  unfolding dec_Node_def by (rule dec_struct_pres) (auto simp: wf_Node_def intro: dec_wf)

end
