(* ===== verification/Api_Ext.thy ===== *)
theory Api_Ext
  imports Api_Core
begin

text \<open>
  The object kinds of internal/api/types.go from CustomResourceDefinition on (CRDs, RBAC,
  admission, autoscaling, network policy, federation, users), in the style of Api_Core. A
  \<open>json.RawMessage\<close> is an optional document: \<open>None\<close> is the nil message, and an explicit
  \<open>null\<close> is \<open>Some JNull\<close>, since its decoder keeps the text it is given.
\<close>

definition dec_raw :: "json option dec" where
  "dec_raw j old = (Some j, True)"

definition enc_raw :: "json option \<Rightarrow> json" where
  "enc_raw r = (case r of None \<Rightarrow> JNull | Some j \<Rightarrow> j)"

lemma dec_raw_simp [simp]: "dec_raw j old = (Some j, True)"
  by (simp add: dec_raw_def)

lemma enc_raw_simps [simp]: "enc_raw (Some j) = j" "enc_raw None = JNull"
  by (simp_all add: enc_raw_def)

definition WebhookTypeMutating :: string where "WebhookTypeMutating = ''Mutating''"
definition WebhookTypeValidating :: string where "WebhookTypeValidating = ''Validating''"

record CRDSchemaProperty =
  csp_type :: string
  csp_description :: string

definition zero_CRDSchemaProperty :: CRDSchemaProperty where
  "zero_CRDSchemaProperty = \<lparr>csp_type = [], csp_description = []\<rparr>"

definition wf_CRDSchemaProperty :: "CRDSchemaProperty \<Rightarrow> bool" where
  "wf_CRDSchemaProperty x \<longleftrightarrow> True"

definition enc_CRDSchemaProperty :: "CRDSchemaProperty \<Rightarrow> json" where
  "enc_CRDSchemaProperty x = JObj (concat [
     omitmem (csp_type x = []) ''type'' (JStr (csp_type x)),
     omitmem (csp_description x = []) ''description'' (JStr (csp_description x))])"

definition dec_CRDSchemaProperty :: "CRDSchemaProperty dec" where
  "dec_CRDSchemaProperty = dec_struct [
     (''type'', fld dec_string csp_type (\<lambda>v r. r\<lparr>csp_type := v\<rparr>)),
     (''description'', fld dec_string csp_description (\<lambda>v r. r\<lparr>csp_description := v\<rparr>))]"

lemma CRDSchemaProperty_roundtrip [simp]: "wf_CRDSchemaProperty x \<Longrightarrow> dec_CRDSchemaProperty (enc_CRDSchemaProperty x) zero_CRDSchemaProperty = (x, True)"
  by (cases x) (simp add: wf_CRDSchemaProperty_def enc_CRDSchemaProperty_def dec_CRDSchemaProperty_def zero_CRDSchemaProperty_def codec_simps)

interpretation CRDSchemaProperty_codec: codec enc_CRDSchemaProperty dec_CRDSchemaProperty zero_CRDSchemaProperty wf_CRDSchemaProperty
  by unfold_locales simp

lemmas CRDSchemaProperty_list_roundtrip [simp] = CRDSchemaProperty_codec.list_roundtrip

lemmas CRDSchemaProperty_map_roundtrip [simp] = CRDSchemaProperty_codec.map_roundtrip

lemma zero_CRDSchemaProperty_wf [simp]: "wf_CRDSchemaProperty zero_CRDSchemaProperty"
  by (simp add: wf_CRDSchemaProperty_def zero_CRDSchemaProperty_def)

lemma dec_CRDSchemaProperty_wf [dec_wf]: "wf_CRDSchemaProperty x \<Longrightarrow> wf_CRDSchemaProperty (fst (dec_CRDSchemaProperty j x))"
  unfolding dec_CRDSchemaProperty_def by (rule dec_struct_pres) (auto simp: wf_CRDSchemaProperty_def intro: dec_wf)

lemmas dec_CRDSchemaProperty_map_wf [dec_wf] = dec_map_values [of wf_CRDSchemaProperty dec_CRDSchemaProperty zero_CRDSchemaProperty, OF dec_CRDSchemaProperty_wf zero_CRDSchemaProperty_wf]

record CRDSchema =
  cs_required :: "string list"
  cs_properties :: "(string \<times> CRDSchemaProperty) list"

definition zero_CRDSchema :: CRDSchema where
  "zero_CRDSchema = \<lparr>cs_required = [], cs_properties = []\<rparr>"

definition wf_CRDSchema :: "CRDSchema \<Rightarrow> bool" where
  "wf_CRDSchema x \<longleftrightarrow> map_ok (cs_properties x) \<and> list_all (\<lambda>(k, v). wf_CRDSchemaProperty v) (cs_properties x)"

definition enc_CRDSchema :: "CRDSchema \<Rightarrow> json" where
  "enc_CRDSchema x = JObj (concat [
     omitmem (cs_required x = []) ''required'' (enc_list JStr (cs_required x)),
     omitmem (cs_properties x = []) ''properties'' (enc_map enc_CRDSchemaProperty (cs_properties x))])"

definition dec_CRDSchema :: "CRDSchema dec" where
  "dec_CRDSchema = dec_struct [
     (''required'', fld (dec_list dec_string []) cs_required (\<lambda>v r. r\<lparr>cs_required := v\<rparr>)),
     (''properties'', fld (dec_map dec_CRDSchemaProperty zero_CRDSchemaProperty) cs_properties (\<lambda>v r. r\<lparr>cs_properties := v\<rparr>))]"

lemma CRDSchema_roundtrip [simp]: "wf_CRDSchema x \<Longrightarrow> dec_CRDSchema (enc_CRDSchema x) zero_CRDSchema = (x, True)"
  by (cases x) (simp add: wf_CRDSchema_def enc_CRDSchema_def dec_CRDSchema_def zero_CRDSchema_def codec_simps)

interpretation CRDSchema_codec: codec enc_CRDSchema dec_CRDSchema zero_CRDSchema wf_CRDSchema
  by unfold_locales simp

lemmas CRDSchema_list_roundtrip [simp] = CRDSchema_codec.list_roundtrip

lemma zero_CRDSchema_wf [simp]: "wf_CRDSchema zero_CRDSchema"
  by (simp add: wf_CRDSchema_def zero_CRDSchema_def)

lemma dec_CRDSchema_wf [dec_wf]: "wf_CRDSchema x \<Longrightarrow> wf_CRDSchema (fst (dec_CRDSchema j x))"
  unfolding dec_CRDSchema_def by (rule dec_struct_pres) (auto simp: wf_CRDSchema_def intro: dec_wf)

record CRDNames =
  cn_kind :: string
  cn_plural :: string
  cn_singular :: string

definition zero_CRDNames :: CRDNames where
  "zero_CRDNames = \<lparr>cn_kind = [], cn_plural = [], cn_singular = []\<rparr>"

definition wf_CRDNames :: "CRDNames \<Rightarrow> bool" where
  "wf_CRDNames x \<longleftrightarrow> True"

definition enc_CRDNames :: "CRDNames \<Rightarrow> json" where
  "enc_CRDNames x = JObj (concat [
     mem ''kind'' (JStr (cn_kind x)),
     mem ''plural'' (JStr (cn_plural x)),
     omitmem (cn_singular x = []) ''singular'' (JStr (cn_singular x))])"

definition dec_CRDNames :: "CRDNames dec" where
  "dec_CRDNames = dec_struct [
     (''kind'', fld dec_string cn_kind (\<lambda>v r. r\<lparr>cn_kind := v\<rparr>)),
     (''plural'', fld dec_string cn_plural (\<lambda>v r. r\<lparr>cn_plural := v\<rparr>)),
     (''singular'', fld dec_string cn_singular (\<lambda>v r. r\<lparr>cn_singular := v\<rparr>))]"

lemma CRDNames_roundtrip [simp]: "wf_CRDNames x \<Longrightarrow> dec_CRDNames (enc_CRDNames x) zero_CRDNames = (x, True)"
  by (cases x) (simp add: wf_CRDNames_def enc_CRDNames_def dec_CRDNames_def zero_CRDNames_def codec_simps)

interpretation CRDNames_codec: codec enc_CRDNames dec_CRDNames zero_CRDNames wf_CRDNames
  by unfold_locales simp

lemmas CRDNames_list_roundtrip [simp] = CRDNames_codec.list_roundtrip

lemma zero_CRDNames_wf [simp]: "wf_CRDNames zero_CRDNames"
  by (simp add: wf_CRDNames_def zero_CRDNames_def)

lemma dec_CRDNames_wf [dec_wf]: "wf_CRDNames x \<Longrightarrow> wf_CRDNames (fst (dec_CRDNames j x))"
  unfolding dec_CRDNames_def by (rule dec_struct_pres) (auto simp: wf_CRDNames_def intro: dec_wf)

record CRDSpec =
  crdspec_group :: string
  crdspec_version :: string
  crdspec_names :: CRDNames
  crdspec_schema :: CRDSchema
  crdspec_scope :: string

definition zero_CRDSpec :: CRDSpec where
  "zero_CRDSpec = \<lparr>crdspec_group = [], crdspec_version = [], crdspec_names = zero_CRDNames, crdspec_schema = zero_CRDSchema, crdspec_scope = []\<rparr>"

definition wf_CRDSpec :: "CRDSpec \<Rightarrow> bool" where
  "wf_CRDSpec x \<longleftrightarrow> wf_CRDNames (crdspec_names x) \<and> wf_CRDSchema (crdspec_schema x)"

definition enc_CRDSpec :: "CRDSpec \<Rightarrow> json" where
  "enc_CRDSpec x = JObj (concat [
     mem ''group'' (JStr (crdspec_group x)),
     mem ''version'' (JStr (crdspec_version x)),
     mem ''names'' (enc_CRDNames (crdspec_names x)),
     mem ''schema'' (enc_CRDSchema (crdspec_schema x)),
     omitmem (crdspec_scope x = []) ''scope'' (JStr (crdspec_scope x))])"

definition dec_CRDSpec :: "CRDSpec dec" where
  "dec_CRDSpec = dec_struct [
     (''group'', fld dec_string crdspec_group (\<lambda>v r. r\<lparr>crdspec_group := v\<rparr>)),
     (''version'', fld dec_string crdspec_version (\<lambda>v r. r\<lparr>crdspec_version := v\<rparr>)),
     (''names'', fld dec_CRDNames crdspec_names (\<lambda>v r. r\<lparr>crdspec_names := v\<rparr>)),
     (''schema'', fld dec_CRDSchema crdspec_schema (\<lambda>v r. r\<lparr>crdspec_schema := v\<rparr>)),
     (''scope'', fld dec_string crdspec_scope (\<lambda>v r. r\<lparr>crdspec_scope := v\<rparr>))]"

lemma CRDSpec_roundtrip [simp]: "wf_CRDSpec x \<Longrightarrow> dec_CRDSpec (enc_CRDSpec x) zero_CRDSpec = (x, True)"
  by (cases x) (simp add: wf_CRDSpec_def enc_CRDSpec_def dec_CRDSpec_def zero_CRDSpec_def codec_simps)

interpretation CRDSpec_codec: codec enc_CRDSpec dec_CRDSpec zero_CRDSpec wf_CRDSpec
  by unfold_locales simp

lemmas CRDSpec_list_roundtrip [simp] = CRDSpec_codec.list_roundtrip

lemma zero_CRDSpec_wf [simp]: "wf_CRDSpec zero_CRDSpec"
  by (simp add: wf_CRDSpec_def zero_CRDSpec_def)

lemma dec_CRDSpec_wf [dec_wf]: "wf_CRDSpec x \<Longrightarrow> wf_CRDSpec (fst (dec_CRDSpec j x))"
  unfolding dec_CRDSpec_def by (rule dec_struct_pres) (auto simp: wf_CRDSpec_def intro: dec_wf)

record CRD =
  crd_apiVersion :: string
  crd_kind :: string
  crd_metadata :: Metadata
  crd_spec :: CRDSpec

definition zero_CRD :: CRD where
  "zero_CRD = \<lparr>crd_apiVersion = [], crd_kind = [], crd_metadata = zero_Metadata, crd_spec = zero_CRDSpec\<rparr>"

definition wf_CRD :: "CRD \<Rightarrow> bool" where
  "wf_CRD x \<longleftrightarrow> wf_Metadata (crd_metadata x) \<and> wf_CRDSpec (crd_spec x)"

definition enc_CRD :: "CRD \<Rightarrow> json" where
  "enc_CRD x = JObj (concat [
     omitmem (crd_apiVersion x = []) ''apiVersion'' (JStr (crd_apiVersion x)),
     omitmem (crd_kind x = []) ''kind'' (JStr (crd_kind x)),
     mem ''metadata'' (enc_Metadata (crd_metadata x)),
     mem ''spec'' (enc_CRDSpec (crd_spec x))])"

definition dec_CRD :: "CRD dec" where
  "dec_CRD = dec_struct [
     (''apiVersion'', fld dec_string crd_apiVersion (\<lambda>v r. r\<lparr>crd_apiVersion := v\<rparr>)),
     (''kind'', fld dec_string crd_kind (\<lambda>v r. r\<lparr>crd_kind := v\<rparr>)),
     (''metadata'', fld dec_Metadata crd_metadata (\<lambda>v r. r\<lparr>crd_metadata := v\<rparr>)),
     (''spec'', fld dec_CRDSpec crd_spec (\<lambda>v r. r\<lparr>crd_spec := v\<rparr>))]"

lemma CRD_roundtrip [simp]: "wf_CRD x \<Longrightarrow> dec_CRD (enc_CRD x) zero_CRD = (x, True)"
  by (cases x) (simp add: wf_CRD_def enc_CRD_def dec_CRD_def zero_CRD_def codec_simps)

interpretation CRD_codec: codec enc_CRD dec_CRD zero_CRD wf_CRD
  by unfold_locales simp

lemmas CRD_list_roundtrip [simp] = CRD_codec.list_roundtrip

lemma zero_CRD_wf [simp]: "wf_CRD zero_CRD"
  by (simp add: wf_CRD_def zero_CRD_def)

lemma dec_CRD_wf [dec_wf]: "wf_CRD x \<Longrightarrow> wf_CRD (fst (dec_CRD j x))"
  unfolding dec_CRD_def by (rule dec_struct_pres) (auto simp: wf_CRD_def intro: dec_wf)

record CustomResource =
  cr_apiVersion :: string
  cr_kind :: string
  cr_metadata :: Metadata
  cr_spec :: "(string \<times> json) list"
  cr_status :: "(string \<times> json) list"

definition zero_CustomResource :: CustomResource where
  "zero_CustomResource = \<lparr>cr_apiVersion = [], cr_kind = [], cr_metadata = zero_Metadata, cr_spec = [], cr_status = []\<rparr>"

definition wf_CustomResource :: "CustomResource \<Rightarrow> bool" where
  "wf_CustomResource x \<longleftrightarrow> wf_Metadata (cr_metadata x) \<and> map_ok (cr_spec x) \<and> map_ok (cr_status x)"

definition enc_CustomResource :: "CustomResource \<Rightarrow> json" where
  "enc_CustomResource x = JObj (concat [
     omitmem (cr_apiVersion x = []) ''apiVersion'' (JStr (cr_apiVersion x)),
     omitmem (cr_kind x = []) ''kind'' (JStr (cr_kind x)),
     mem ''metadata'' (enc_Metadata (cr_metadata x)),
     omitmem (cr_spec x = []) ''spec'' (enc_map enc_any (cr_spec x)),
     omitmem (cr_status x = []) ''status'' (enc_map enc_any (cr_status x))])"

definition dec_CustomResource :: "CustomResource dec" where
  "dec_CustomResource = dec_struct [
     (''apiVersion'', fld dec_string cr_apiVersion (\<lambda>v r. r\<lparr>cr_apiVersion := v\<rparr>)),
     (''kind'', fld dec_string cr_kind (\<lambda>v r. r\<lparr>cr_kind := v\<rparr>)),
     (''metadata'', fld dec_Metadata cr_metadata (\<lambda>v r. r\<lparr>cr_metadata := v\<rparr>)),
     (''spec'', fld (dec_map dec_any JNull) cr_spec (\<lambda>v r. r\<lparr>cr_spec := v\<rparr>)),
     (''status'', fld (dec_map dec_any JNull) cr_status (\<lambda>v r. r\<lparr>cr_status := v\<rparr>))]"

lemma CustomResource_roundtrip [simp]: "wf_CustomResource x \<Longrightarrow> dec_CustomResource (enc_CustomResource x) zero_CustomResource = (x, True)"
  by (cases x) (simp add: wf_CustomResource_def enc_CustomResource_def dec_CustomResource_def zero_CustomResource_def codec_simps)

interpretation CustomResource_codec: codec enc_CustomResource dec_CustomResource zero_CustomResource wf_CustomResource
  by unfold_locales simp

lemmas CustomResource_list_roundtrip [simp] = CustomResource_codec.list_roundtrip

lemma zero_CustomResource_wf [simp]: "wf_CustomResource zero_CustomResource"
  by (simp add: wf_CustomResource_def zero_CustomResource_def)

lemma dec_CustomResource_wf [dec_wf]: "wf_CustomResource x \<Longrightarrow> wf_CustomResource (fst (dec_CustomResource j x))"
  unfolding dec_CustomResource_def by (rule dec_struct_pres) (auto simp: wf_CustomResource_def intro: dec_wf)

record PolicyRule =
  pr_apiGroups :: "string list"
  pr_resources :: "string list"
  pr_verbs :: "string list"

definition zero_PolicyRule :: PolicyRule where
  "zero_PolicyRule = \<lparr>pr_apiGroups = [], pr_resources = [], pr_verbs = []\<rparr>"

definition wf_PolicyRule :: "PolicyRule \<Rightarrow> bool" where
  "wf_PolicyRule x \<longleftrightarrow> True"

definition enc_PolicyRule :: "PolicyRule \<Rightarrow> json" where
  "enc_PolicyRule x = JObj (concat [
     omitmem (pr_apiGroups x = []) ''apiGroups'' (enc_list JStr (pr_apiGroups x)),
     omitmem (pr_resources x = []) ''resources'' (enc_list JStr (pr_resources x)),
     omitmem (pr_verbs x = []) ''verbs'' (enc_list JStr (pr_verbs x))])"

definition dec_PolicyRule :: "PolicyRule dec" where
  "dec_PolicyRule = dec_struct [
     (''apiGroups'', fld (dec_list dec_string []) pr_apiGroups (\<lambda>v r. r\<lparr>pr_apiGroups := v\<rparr>)),
     (''resources'', fld (dec_list dec_string []) pr_resources (\<lambda>v r. r\<lparr>pr_resources := v\<rparr>)),
     (''verbs'', fld (dec_list dec_string []) pr_verbs (\<lambda>v r. r\<lparr>pr_verbs := v\<rparr>))]"

lemma PolicyRule_roundtrip [simp]: "wf_PolicyRule x \<Longrightarrow> dec_PolicyRule (enc_PolicyRule x) zero_PolicyRule = (x, True)"
  by (cases x) (simp add: wf_PolicyRule_def enc_PolicyRule_def dec_PolicyRule_def zero_PolicyRule_def codec_simps)

interpretation PolicyRule_codec: codec enc_PolicyRule dec_PolicyRule zero_PolicyRule wf_PolicyRule
  by unfold_locales simp

lemmas PolicyRule_list_roundtrip [simp] = PolicyRule_codec.list_roundtrip

lemma zero_PolicyRule_wf [simp]: "wf_PolicyRule zero_PolicyRule"
  by (simp add: wf_PolicyRule_def zero_PolicyRule_def)

lemma dec_PolicyRule_wf [dec_wf]: "wf_PolicyRule x \<Longrightarrow> wf_PolicyRule (fst (dec_PolicyRule j x))"
  unfolding dec_PolicyRule_def by (rule dec_struct_pres) (auto simp: wf_PolicyRule_def intro: dec_wf)

lemmas dec_PolicyRule_list_wf [dec_wf] = dec_list_wf [of wf_PolicyRule dec_PolicyRule zero_PolicyRule, OF dec_PolicyRule_wf zero_PolicyRule_wf]

record Role =
  role_apiVersion :: string
  role_kind :: string
  role_metadata :: Metadata
  role_rules :: "PolicyRule list"

definition zero_Role :: Role where
  "zero_Role = \<lparr>role_apiVersion = [], role_kind = [], role_metadata = zero_Metadata, role_rules = []\<rparr>"

definition wf_Role :: "Role \<Rightarrow> bool" where
  "wf_Role x \<longleftrightarrow> wf_Metadata (role_metadata x) \<and> list_all wf_PolicyRule (role_rules x)"

definition enc_Role :: "Role \<Rightarrow> json" where
  "enc_Role x = JObj (concat [
     omitmem (role_apiVersion x = []) ''apiVersion'' (JStr (role_apiVersion x)),
     omitmem (role_kind x = []) ''kind'' (JStr (role_kind x)),
     mem ''metadata'' (enc_Metadata (role_metadata x)),
     mem ''rules'' (enc_list enc_PolicyRule (role_rules x))])"

definition dec_Role :: "Role dec" where
  "dec_Role = dec_struct [
     (''apiVersion'', fld dec_string role_apiVersion (\<lambda>v r. r\<lparr>role_apiVersion := v\<rparr>)),
     (''kind'', fld dec_string role_kind (\<lambda>v r. r\<lparr>role_kind := v\<rparr>)),
     (''metadata'', fld dec_Metadata role_metadata (\<lambda>v r. r\<lparr>role_metadata := v\<rparr>)),
     (''rules'', fld (dec_list dec_PolicyRule zero_PolicyRule) role_rules (\<lambda>v r. r\<lparr>role_rules := v\<rparr>))]"

lemma Role_roundtrip [simp]: "wf_Role x \<Longrightarrow> dec_Role (enc_Role x) zero_Role = (x, True)"
  by (cases x) (simp add: wf_Role_def enc_Role_def dec_Role_def zero_Role_def codec_simps)

interpretation Role_codec: codec enc_Role dec_Role zero_Role wf_Role
  by unfold_locales simp

lemmas Role_list_roundtrip [simp] = Role_codec.list_roundtrip

lemma zero_Role_wf [simp]: "wf_Role zero_Role"
  by (simp add: wf_Role_def zero_Role_def)

lemma dec_Role_wf [dec_wf]: "wf_Role x \<Longrightarrow> wf_Role (fst (dec_Role j x))"
  unfolding dec_Role_def by (rule dec_struct_pres) (auto simp: wf_Role_def intro: dec_wf)

record RoleRef =
  ref_kind :: string
  ref_name :: string

definition zero_RoleRef :: RoleRef where
  "zero_RoleRef = \<lparr>ref_kind = [], ref_name = []\<rparr>"

definition wf_RoleRef :: "RoleRef \<Rightarrow> bool" where
  "wf_RoleRef x \<longleftrightarrow> True"

definition enc_RoleRef :: "RoleRef \<Rightarrow> json" where
  "enc_RoleRef x = JObj (concat [
     mem ''kind'' (JStr (ref_kind x)),
     mem ''name'' (JStr (ref_name x))])"

definition dec_RoleRef :: "RoleRef dec" where
  "dec_RoleRef = dec_struct [
     (''kind'', fld dec_string ref_kind (\<lambda>v r. r\<lparr>ref_kind := v\<rparr>)),
     (''name'', fld dec_string ref_name (\<lambda>v r. r\<lparr>ref_name := v\<rparr>))]"

lemma RoleRef_roundtrip [simp]: "wf_RoleRef x \<Longrightarrow> dec_RoleRef (enc_RoleRef x) zero_RoleRef = (x, True)"
  by (cases x) (simp add: wf_RoleRef_def enc_RoleRef_def dec_RoleRef_def zero_RoleRef_def codec_simps)

interpretation RoleRef_codec: codec enc_RoleRef dec_RoleRef zero_RoleRef wf_RoleRef
  by unfold_locales simp

lemmas RoleRef_list_roundtrip [simp] = RoleRef_codec.list_roundtrip

lemma zero_RoleRef_wf [simp]: "wf_RoleRef zero_RoleRef"
  by (simp add: wf_RoleRef_def zero_RoleRef_def)

lemma dec_RoleRef_wf [dec_wf]: "wf_RoleRef x \<Longrightarrow> wf_RoleRef (fst (dec_RoleRef j x))"
  unfolding dec_RoleRef_def by (rule dec_struct_pres) (auto simp: wf_RoleRef_def intro: dec_wf)

record Subject =
  sub_kind :: string
  sub_name :: string

definition zero_Subject :: Subject where
  "zero_Subject = \<lparr>sub_kind = [], sub_name = []\<rparr>"

definition wf_Subject :: "Subject \<Rightarrow> bool" where
  "wf_Subject x \<longleftrightarrow> True"

definition enc_Subject :: "Subject \<Rightarrow> json" where
  "enc_Subject x = JObj (concat [
     mem ''kind'' (JStr (sub_kind x)),
     mem ''name'' (JStr (sub_name x))])"

definition dec_Subject :: "Subject dec" where
  "dec_Subject = dec_struct [
     (''kind'', fld dec_string sub_kind (\<lambda>v r. r\<lparr>sub_kind := v\<rparr>)),
     (''name'', fld dec_string sub_name (\<lambda>v r. r\<lparr>sub_name := v\<rparr>))]"

lemma Subject_roundtrip [simp]: "wf_Subject x \<Longrightarrow> dec_Subject (enc_Subject x) zero_Subject = (x, True)"
  by (cases x) (simp add: wf_Subject_def enc_Subject_def dec_Subject_def zero_Subject_def codec_simps)

interpretation Subject_codec: codec enc_Subject dec_Subject zero_Subject wf_Subject
  by unfold_locales simp

lemmas Subject_list_roundtrip [simp] = Subject_codec.list_roundtrip

lemma zero_Subject_wf [simp]: "wf_Subject zero_Subject"
  by (simp add: wf_Subject_def zero_Subject_def)

lemma dec_Subject_wf [dec_wf]: "wf_Subject x \<Longrightarrow> wf_Subject (fst (dec_Subject j x))"
  unfolding dec_Subject_def by (rule dec_struct_pres) (auto simp: wf_Subject_def intro: dec_wf)

lemmas dec_Subject_list_wf [dec_wf] = dec_list_wf [of wf_Subject dec_Subject zero_Subject, OF dec_Subject_wf zero_Subject_wf]

record RoleBinding =
  rb_apiVersion :: string
  rb_kind :: string
  rb_metadata :: Metadata
  rb_subjects :: "Subject list"
  rb_roleRef :: RoleRef

definition zero_RoleBinding :: RoleBinding where
  "zero_RoleBinding = \<lparr>rb_apiVersion = [], rb_kind = [], rb_metadata = zero_Metadata, rb_subjects = [], rb_roleRef = zero_RoleRef\<rparr>"

definition wf_RoleBinding :: "RoleBinding \<Rightarrow> bool" where
  "wf_RoleBinding x \<longleftrightarrow> wf_Metadata (rb_metadata x) \<and> list_all wf_Subject (rb_subjects x) \<and> wf_RoleRef (rb_roleRef x)"

definition enc_RoleBinding :: "RoleBinding \<Rightarrow> json" where
  "enc_RoleBinding x = JObj (concat [
     omitmem (rb_apiVersion x = []) ''apiVersion'' (JStr (rb_apiVersion x)),
     omitmem (rb_kind x = []) ''kind'' (JStr (rb_kind x)),
     mem ''metadata'' (enc_Metadata (rb_metadata x)),
     mem ''subjects'' (enc_list enc_Subject (rb_subjects x)),
     mem ''roleRef'' (enc_RoleRef (rb_roleRef x))])"

definition dec_RoleBinding :: "RoleBinding dec" where
  "dec_RoleBinding = dec_struct [
     (''apiVersion'', fld dec_string rb_apiVersion (\<lambda>v r. r\<lparr>rb_apiVersion := v\<rparr>)),
     (''kind'', fld dec_string rb_kind (\<lambda>v r. r\<lparr>rb_kind := v\<rparr>)),
     (''metadata'', fld dec_Metadata rb_metadata (\<lambda>v r. r\<lparr>rb_metadata := v\<rparr>)),
     (''subjects'', fld (dec_list dec_Subject zero_Subject) rb_subjects (\<lambda>v r. r\<lparr>rb_subjects := v\<rparr>)),
     (''roleRef'', fld dec_RoleRef rb_roleRef (\<lambda>v r. r\<lparr>rb_roleRef := v\<rparr>))]"

lemma RoleBinding_roundtrip [simp]: "wf_RoleBinding x \<Longrightarrow> dec_RoleBinding (enc_RoleBinding x) zero_RoleBinding = (x, True)"
  by (cases x) (simp add: wf_RoleBinding_def enc_RoleBinding_def dec_RoleBinding_def zero_RoleBinding_def codec_simps)

interpretation RoleBinding_codec: codec enc_RoleBinding dec_RoleBinding zero_RoleBinding wf_RoleBinding
  by unfold_locales simp

lemmas RoleBinding_list_roundtrip [simp] = RoleBinding_codec.list_roundtrip

lemma zero_RoleBinding_wf [simp]: "wf_RoleBinding zero_RoleBinding"
  by (simp add: wf_RoleBinding_def zero_RoleBinding_def)

lemma dec_RoleBinding_wf [dec_wf]: "wf_RoleBinding x \<Longrightarrow> wf_RoleBinding (fst (dec_RoleBinding j x))"
  unfolding dec_RoleBinding_def by (rule dec_struct_pres) (auto simp: wf_RoleBinding_def intro: dec_wf)

record AdmissionReviewRequest =
  areq_UID :: string
  areq_kind :: string
  areq_resource :: string
  areq_namespace :: string
  areq_name :: string
  areq_operation :: string
  areq_object :: "json option"

definition zero_AdmissionReviewRequest :: AdmissionReviewRequest where
  "zero_AdmissionReviewRequest = \<lparr>areq_UID = [], areq_kind = [], areq_resource = [], areq_namespace = [], areq_name = [], areq_operation = [], areq_object = None\<rparr>"

definition wf_AdmissionReviewRequest :: "AdmissionReviewRequest \<Rightarrow> bool" where
  "wf_AdmissionReviewRequest x \<longleftrightarrow> areq_object x \<noteq> None"

definition enc_AdmissionReviewRequest :: "AdmissionReviewRequest \<Rightarrow> json" where
  "enc_AdmissionReviewRequest x = JObj (concat [
     mem ''uid'' (JStr (areq_UID x)),
     mem ''kind'' (JStr (areq_kind x)),
     mem ''resource'' (JStr (areq_resource x)),
     omitmem (areq_namespace x = []) ''namespace'' (JStr (areq_namespace x)),
     omitmem (areq_name x = []) ''name'' (JStr (areq_name x)),
     mem ''operation'' (JStr (areq_operation x)),
     mem ''object'' (enc_raw (areq_object x))])"

definition dec_AdmissionReviewRequest :: "AdmissionReviewRequest dec" where
  "dec_AdmissionReviewRequest = dec_struct [
     (''uid'', fld dec_string areq_UID (\<lambda>v r. r\<lparr>areq_UID := v\<rparr>)),
     (''kind'', fld dec_string areq_kind (\<lambda>v r. r\<lparr>areq_kind := v\<rparr>)),
     (''resource'', fld dec_string areq_resource (\<lambda>v r. r\<lparr>areq_resource := v\<rparr>)),
     (''namespace'', fld dec_string areq_namespace (\<lambda>v r. r\<lparr>areq_namespace := v\<rparr>)),
     (''name'', fld dec_string areq_name (\<lambda>v r. r\<lparr>areq_name := v\<rparr>)),
     (''operation'', fld dec_string areq_operation (\<lambda>v r. r\<lparr>areq_operation := v\<rparr>)),
     (''object'', fld dec_raw areq_object (\<lambda>v r. r\<lparr>areq_object := v\<rparr>))]"

lemma AdmissionReviewRequest_roundtrip [simp]: "wf_AdmissionReviewRequest x \<Longrightarrow> dec_AdmissionReviewRequest (enc_AdmissionReviewRequest x) zero_AdmissionReviewRequest = (x, True)"
  by (cases x; cases "areq_object x") (auto simp: wf_AdmissionReviewRequest_def enc_AdmissionReviewRequest_def dec_AdmissionReviewRequest_def zero_AdmissionReviewRequest_def codec_simps)

interpretation AdmissionReviewRequest_codec: codec enc_AdmissionReviewRequest dec_AdmissionReviewRequest zero_AdmissionReviewRequest wf_AdmissionReviewRequest
  by unfold_locales simp

lemmas AdmissionReviewRequest_list_roundtrip [simp] = AdmissionReviewRequest_codec.list_roundtrip


lemma dec_AdmissionReviewRequest_wf [dec_wf]: "wf_AdmissionReviewRequest x \<Longrightarrow> wf_AdmissionReviewRequest (fst (dec_AdmissionReviewRequest j x))"
  unfolding dec_AdmissionReviewRequest_def by (rule dec_struct_pres) (auto simp: wf_AdmissionReviewRequest_def intro: dec_wf)

record AdmissionReviewResponse =
  aresp_UID :: string
  aresp_allowed :: bool
  aresp_message :: string
  aresp_patch :: "json option"

definition zero_AdmissionReviewResponse :: AdmissionReviewResponse where
  "zero_AdmissionReviewResponse = \<lparr>aresp_UID = [], aresp_allowed = False, aresp_message = [], aresp_patch = None\<rparr>"

definition wf_AdmissionReviewResponse :: "AdmissionReviewResponse \<Rightarrow> bool" where
  "wf_AdmissionReviewResponse x \<longleftrightarrow> True"

definition enc_AdmissionReviewResponse :: "AdmissionReviewResponse \<Rightarrow> json" where
  "enc_AdmissionReviewResponse x = JObj (concat [
     mem ''uid'' (JStr (aresp_UID x)),
     mem ''allowed'' (JBool (aresp_allowed x)),
     omitmem (aresp_message x = []) ''message'' (JStr (aresp_message x)),
     omitmem (aresp_patch x = None) ''patch'' (enc_raw (aresp_patch x))])"

definition dec_AdmissionReviewResponse :: "AdmissionReviewResponse dec" where
  "dec_AdmissionReviewResponse = dec_struct [
     (''uid'', fld dec_string aresp_UID (\<lambda>v r. r\<lparr>aresp_UID := v\<rparr>)),
     (''allowed'', fld dec_bool aresp_allowed (\<lambda>v r. r\<lparr>aresp_allowed := v\<rparr>)),
     (''message'', fld dec_string aresp_message (\<lambda>v r. r\<lparr>aresp_message := v\<rparr>)),
     (''patch'', fld dec_raw aresp_patch (\<lambda>v r. r\<lparr>aresp_patch := v\<rparr>))]"

lemma AdmissionReviewResponse_roundtrip [simp]: "wf_AdmissionReviewResponse x \<Longrightarrow> dec_AdmissionReviewResponse (enc_AdmissionReviewResponse x) zero_AdmissionReviewResponse = (x, True)"
  by (cases x; cases "aresp_patch x") (auto simp: wf_AdmissionReviewResponse_def enc_AdmissionReviewResponse_def dec_AdmissionReviewResponse_def zero_AdmissionReviewResponse_def codec_simps)

interpretation AdmissionReviewResponse_codec: codec enc_AdmissionReviewResponse dec_AdmissionReviewResponse zero_AdmissionReviewResponse wf_AdmissionReviewResponse
  by unfold_locales simp

lemmas AdmissionReviewResponse_list_roundtrip [simp] = AdmissionReviewResponse_codec.list_roundtrip

lemma zero_AdmissionReviewResponse_wf [simp]: "wf_AdmissionReviewResponse zero_AdmissionReviewResponse"
  by (simp add: wf_AdmissionReviewResponse_def zero_AdmissionReviewResponse_def)

lemma dec_AdmissionReviewResponse_wf [dec_wf]: "wf_AdmissionReviewResponse x \<Longrightarrow> wf_AdmissionReviewResponse (fst (dec_AdmissionReviewResponse j x))"
  unfolding dec_AdmissionReviewResponse_def by (rule dec_struct_pres) (auto simp: wf_AdmissionReviewResponse_def intro: dec_wf)

record AdmissionWebhook =
  wh_apiVersion :: string
  wh_kind :: string
  wh_metadata :: Metadata
  wh_type :: string
  wh_URL :: string
  wh_resources :: "string list"
  wh_failurePolicy :: string

definition zero_AdmissionWebhook :: AdmissionWebhook where
  "zero_AdmissionWebhook = \<lparr>wh_apiVersion = [], wh_kind = [], wh_metadata = zero_Metadata, wh_type = [], wh_URL = [], wh_resources = [], wh_failurePolicy = []\<rparr>"

definition wf_AdmissionWebhook :: "AdmissionWebhook \<Rightarrow> bool" where
  "wf_AdmissionWebhook x \<longleftrightarrow> wf_Metadata (wh_metadata x)"

definition enc_AdmissionWebhook :: "AdmissionWebhook \<Rightarrow> json" where
  "enc_AdmissionWebhook x = JObj (concat [
     omitmem (wh_apiVersion x = []) ''apiVersion'' (JStr (wh_apiVersion x)),
     omitmem (wh_kind x = []) ''kind'' (JStr (wh_kind x)),
     mem ''metadata'' (enc_Metadata (wh_metadata x)),
     mem ''type'' (JStr (wh_type x)),
     mem ''url'' (JStr (wh_URL x)),
     mem ''resources'' (enc_list JStr (wh_resources x)),
     omitmem (wh_failurePolicy x = []) ''failurePolicy'' (JStr (wh_failurePolicy x))])"

definition dec_AdmissionWebhook :: "AdmissionWebhook dec" where
  "dec_AdmissionWebhook = dec_struct [
     (''apiVersion'', fld dec_string wh_apiVersion (\<lambda>v r. r\<lparr>wh_apiVersion := v\<rparr>)),
     (''kind'', fld dec_string wh_kind (\<lambda>v r. r\<lparr>wh_kind := v\<rparr>)),
     (''metadata'', fld dec_Metadata wh_metadata (\<lambda>v r. r\<lparr>wh_metadata := v\<rparr>)),
     (''type'', fld dec_string wh_type (\<lambda>v r. r\<lparr>wh_type := v\<rparr>)),
     (''url'', fld dec_string wh_URL (\<lambda>v r. r\<lparr>wh_URL := v\<rparr>)),
     (''resources'', fld (dec_list dec_string []) wh_resources (\<lambda>v r. r\<lparr>wh_resources := v\<rparr>)),
     (''failurePolicy'', fld dec_string wh_failurePolicy (\<lambda>v r. r\<lparr>wh_failurePolicy := v\<rparr>))]"

lemma AdmissionWebhook_roundtrip [simp]: "wf_AdmissionWebhook x \<Longrightarrow> dec_AdmissionWebhook (enc_AdmissionWebhook x) zero_AdmissionWebhook = (x, True)"
  by (cases x) (simp add: wf_AdmissionWebhook_def enc_AdmissionWebhook_def dec_AdmissionWebhook_def zero_AdmissionWebhook_def codec_simps)

interpretation AdmissionWebhook_codec: codec enc_AdmissionWebhook dec_AdmissionWebhook zero_AdmissionWebhook wf_AdmissionWebhook
  by unfold_locales simp

lemmas AdmissionWebhook_list_roundtrip [simp] = AdmissionWebhook_codec.list_roundtrip

lemma zero_AdmissionWebhook_wf [simp]: "wf_AdmissionWebhook zero_AdmissionWebhook"
  by (simp add: wf_AdmissionWebhook_def zero_AdmissionWebhook_def)

lemma dec_AdmissionWebhook_wf [dec_wf]: "wf_AdmissionWebhook x \<Longrightarrow> wf_AdmissionWebhook (fst (dec_AdmissionWebhook j x))"
  unfolding dec_AdmissionWebhook_def by (rule dec_struct_pres) (auto simp: wf_AdmissionWebhook_def intro: dec_wf)

record HPAMetric =
  hm_type :: string
  hm_name :: string
  hm_targetAverageValue :: int

definition zero_HPAMetric :: HPAMetric where
  "zero_HPAMetric = \<lparr>hm_type = [], hm_name = [], hm_targetAverageValue = 0\<rparr>"

definition wf_HPAMetric :: "HPAMetric \<Rightarrow> bool" where
  "wf_HPAMetric x \<longleftrightarrow> int64_ok (hm_targetAverageValue x)"

definition enc_HPAMetric :: "HPAMetric \<Rightarrow> json" where
  "enc_HPAMetric x = JObj (concat [
     mem ''type'' (JStr (hm_type x)),
     mem ''name'' (JStr (hm_name x)),
     mem ''targetAverageUtilization'' (JInt (hm_targetAverageValue x))])"

definition dec_HPAMetric :: "HPAMetric dec" where
  "dec_HPAMetric = dec_struct [
     (''type'', fld dec_string hm_type (\<lambda>v r. r\<lparr>hm_type := v\<rparr>)),
     (''name'', fld dec_string hm_name (\<lambda>v r. r\<lparr>hm_name := v\<rparr>)),
     (''targetAverageUtilization'', fld dec_int hm_targetAverageValue (\<lambda>v r. r\<lparr>hm_targetAverageValue := v\<rparr>))]"

lemma HPAMetric_roundtrip [simp]: "wf_HPAMetric x \<Longrightarrow> dec_HPAMetric (enc_HPAMetric x) zero_HPAMetric = (x, True)"
  by (cases x) (simp add: wf_HPAMetric_def enc_HPAMetric_def dec_HPAMetric_def zero_HPAMetric_def codec_simps)

interpretation HPAMetric_codec: codec enc_HPAMetric dec_HPAMetric zero_HPAMetric wf_HPAMetric
  by unfold_locales simp

lemmas HPAMetric_list_roundtrip [simp] = HPAMetric_codec.list_roundtrip

lemma zero_HPAMetric_wf [simp]: "wf_HPAMetric zero_HPAMetric"
  by (simp add: wf_HPAMetric_def zero_HPAMetric_def)

lemma dec_HPAMetric_wf [dec_wf]: "wf_HPAMetric x \<Longrightarrow> wf_HPAMetric (fst (dec_HPAMetric j x))"
  unfolding dec_HPAMetric_def by (rule dec_struct_pres) (auto simp: wf_HPAMetric_def intro: dec_wf)

record ScaleTargetRef =
  str_kind :: string
  str_name :: string

definition zero_ScaleTargetRef :: ScaleTargetRef where
  "zero_ScaleTargetRef = \<lparr>str_kind = [], str_name = []\<rparr>"

definition wf_ScaleTargetRef :: "ScaleTargetRef \<Rightarrow> bool" where
  "wf_ScaleTargetRef x \<longleftrightarrow> True"

definition enc_ScaleTargetRef :: "ScaleTargetRef \<Rightarrow> json" where
  "enc_ScaleTargetRef x = JObj (concat [
     mem ''kind'' (JStr (str_kind x)),
     mem ''name'' (JStr (str_name x))])"

definition dec_ScaleTargetRef :: "ScaleTargetRef dec" where
  "dec_ScaleTargetRef = dec_struct [
     (''kind'', fld dec_string str_kind (\<lambda>v r. r\<lparr>str_kind := v\<rparr>)),
     (''name'', fld dec_string str_name (\<lambda>v r. r\<lparr>str_name := v\<rparr>))]"

lemma ScaleTargetRef_roundtrip [simp]: "wf_ScaleTargetRef x \<Longrightarrow> dec_ScaleTargetRef (enc_ScaleTargetRef x) zero_ScaleTargetRef = (x, True)"
  by (cases x) (simp add: wf_ScaleTargetRef_def enc_ScaleTargetRef_def dec_ScaleTargetRef_def zero_ScaleTargetRef_def codec_simps)

interpretation ScaleTargetRef_codec: codec enc_ScaleTargetRef dec_ScaleTargetRef zero_ScaleTargetRef wf_ScaleTargetRef
  by unfold_locales simp

lemmas ScaleTargetRef_list_roundtrip [simp] = ScaleTargetRef_codec.list_roundtrip

lemma zero_ScaleTargetRef_wf [simp]: "wf_ScaleTargetRef zero_ScaleTargetRef"
  by (simp add: wf_ScaleTargetRef_def zero_ScaleTargetRef_def)

lemma dec_ScaleTargetRef_wf [dec_wf]: "wf_ScaleTargetRef x \<Longrightarrow> wf_ScaleTargetRef (fst (dec_ScaleTargetRef j x))"
  unfolding dec_ScaleTargetRef_def by (rule dec_struct_pres) (auto simp: wf_ScaleTargetRef_def intro: dec_wf)

record HPASpec =
  hpaspec_scaleTargetRef :: ScaleTargetRef
  hpaspec_minReplicas :: int
  hpaspec_maxReplicas :: int
  hpaspec_metric :: HPAMetric

definition zero_HPASpec :: HPASpec where
  "zero_HPASpec = \<lparr>hpaspec_scaleTargetRef = zero_ScaleTargetRef, hpaspec_minReplicas = 0, hpaspec_maxReplicas = 0, hpaspec_metric = zero_HPAMetric\<rparr>"

definition wf_HPASpec :: "HPASpec \<Rightarrow> bool" where
  "wf_HPASpec x \<longleftrightarrow> wf_ScaleTargetRef (hpaspec_scaleTargetRef x) \<and> int64_ok (hpaspec_minReplicas x) \<and> int64_ok (hpaspec_maxReplicas x) \<and> wf_HPAMetric (hpaspec_metric x)"

definition enc_HPASpec :: "HPASpec \<Rightarrow> json" where
  "enc_HPASpec x = JObj (concat [
     mem ''scaleTargetRef'' (enc_ScaleTargetRef (hpaspec_scaleTargetRef x)),
     mem ''minReplicas'' (JInt (hpaspec_minReplicas x)),
     mem ''maxReplicas'' (JInt (hpaspec_maxReplicas x)),
     mem ''metric'' (enc_HPAMetric (hpaspec_metric x))])"

definition dec_HPASpec :: "HPASpec dec" where
  "dec_HPASpec = dec_struct [
     (''scaleTargetRef'', fld dec_ScaleTargetRef hpaspec_scaleTargetRef (\<lambda>v r. r\<lparr>hpaspec_scaleTargetRef := v\<rparr>)),
     (''minReplicas'', fld dec_int hpaspec_minReplicas (\<lambda>v r. r\<lparr>hpaspec_minReplicas := v\<rparr>)),
     (''maxReplicas'', fld dec_int hpaspec_maxReplicas (\<lambda>v r. r\<lparr>hpaspec_maxReplicas := v\<rparr>)),
     (''metric'', fld dec_HPAMetric hpaspec_metric (\<lambda>v r. r\<lparr>hpaspec_metric := v\<rparr>))]"

lemma HPASpec_roundtrip [simp]: "wf_HPASpec x \<Longrightarrow> dec_HPASpec (enc_HPASpec x) zero_HPASpec = (x, True)"
  by (cases x) (simp add: wf_HPASpec_def enc_HPASpec_def dec_HPASpec_def zero_HPASpec_def codec_simps)

interpretation HPASpec_codec: codec enc_HPASpec dec_HPASpec zero_HPASpec wf_HPASpec
  by unfold_locales simp

lemmas HPASpec_list_roundtrip [simp] = HPASpec_codec.list_roundtrip

lemma zero_HPASpec_wf [simp]: "wf_HPASpec zero_HPASpec"
  by (simp add: wf_HPASpec_def zero_HPASpec_def)

lemma dec_HPASpec_wf [dec_wf]: "wf_HPASpec x \<Longrightarrow> wf_HPASpec (fst (dec_HPASpec j x))"
  unfolding dec_HPASpec_def by (rule dec_struct_pres) (auto simp: wf_HPASpec_def intro: dec_wf)

record HPAStatus =
  hpastatus_currentReplicas :: int
  hpastatus_desiredReplicas :: int
  hpastatus_currentAverageValue :: int
  hpastatus_lastScaleTime :: time
  hpastatus_lastUpdated :: time

definition zero_HPAStatus :: HPAStatus where
  "zero_HPAStatus = \<lparr>hpastatus_currentReplicas = 0, hpastatus_desiredReplicas = 0, hpastatus_currentAverageValue = 0, hpastatus_lastScaleTime = zero_time, hpastatus_lastUpdated = zero_time\<rparr>"

definition wf_HPAStatus :: "HPAStatus \<Rightarrow> bool" where
  "wf_HPAStatus x \<longleftrightarrow> int64_ok (hpastatus_currentReplicas x) \<and> int64_ok (hpastatus_desiredReplicas x) \<and> int64_ok (hpastatus_currentAverageValue x)"

definition enc_HPAStatus :: "HPAStatus \<Rightarrow> json" where
  "enc_HPAStatus x = JObj (concat [
     mem ''currentReplicas'' (JInt (hpastatus_currentReplicas x)),
     mem ''desiredReplicas'' (JInt (hpastatus_desiredReplicas x)),
     mem ''currentAverageUtilization'' (JInt (hpastatus_currentAverageValue x)),
     mem ''lastScaleTime'' (JTime (hpastatus_lastScaleTime x)),
     mem ''lastUpdated'' (JTime (hpastatus_lastUpdated x))])"

definition dec_HPAStatus :: "HPAStatus dec" where
  "dec_HPAStatus = dec_struct [
     (''currentReplicas'', fld dec_int hpastatus_currentReplicas (\<lambda>v r. r\<lparr>hpastatus_currentReplicas := v\<rparr>)),
     (''desiredReplicas'', fld dec_int hpastatus_desiredReplicas (\<lambda>v r. r\<lparr>hpastatus_desiredReplicas := v\<rparr>)),
     (''currentAverageUtilization'', fld dec_int hpastatus_currentAverageValue (\<lambda>v r. r\<lparr>hpastatus_currentAverageValue := v\<rparr>)),
     (''lastScaleTime'', fld dec_time hpastatus_lastScaleTime (\<lambda>v r. r\<lparr>hpastatus_lastScaleTime := v\<rparr>)),
     (''lastUpdated'', fld dec_time hpastatus_lastUpdated (\<lambda>v r. r\<lparr>hpastatus_lastUpdated := v\<rparr>))]"

lemma HPAStatus_roundtrip [simp]: "wf_HPAStatus x \<Longrightarrow> dec_HPAStatus (enc_HPAStatus x) zero_HPAStatus = (x, True)"
  by (cases x) (simp add: wf_HPAStatus_def enc_HPAStatus_def dec_HPAStatus_def zero_HPAStatus_def codec_simps)

interpretation HPAStatus_codec: codec enc_HPAStatus dec_HPAStatus zero_HPAStatus wf_HPAStatus
  by unfold_locales simp

lemmas HPAStatus_list_roundtrip [simp] = HPAStatus_codec.list_roundtrip

lemma zero_HPAStatus_wf [simp]: "wf_HPAStatus zero_HPAStatus"
  by (simp add: wf_HPAStatus_def zero_HPAStatus_def)

lemma dec_HPAStatus_wf [dec_wf]: "wf_HPAStatus x \<Longrightarrow> wf_HPAStatus (fst (dec_HPAStatus j x))"
  unfolding dec_HPAStatus_def by (rule dec_struct_pres) (auto simp: wf_HPAStatus_def intro: dec_wf)

record HPA =
  hpa_apiVersion :: string
  hpa_kind :: string
  hpa_metadata :: Metadata
  hpa_spec :: HPASpec
  hpa_status :: HPAStatus

definition zero_HPA :: HPA where
  "zero_HPA = \<lparr>hpa_apiVersion = [], hpa_kind = [], hpa_metadata = zero_Metadata, hpa_spec = zero_HPASpec, hpa_status = zero_HPAStatus\<rparr>"

definition wf_HPA :: "HPA \<Rightarrow> bool" where
  "wf_HPA x \<longleftrightarrow> wf_Metadata (hpa_metadata x) \<and> wf_HPASpec (hpa_spec x) \<and> wf_HPAStatus (hpa_status x)"

definition enc_HPA :: "HPA \<Rightarrow> json" where
  "enc_HPA x = JObj (concat [
     omitmem (hpa_apiVersion x = []) ''apiVersion'' (JStr (hpa_apiVersion x)),
     omitmem (hpa_kind x = []) ''kind'' (JStr (hpa_kind x)),
     mem ''metadata'' (enc_Metadata (hpa_metadata x)),
     mem ''spec'' (enc_HPASpec (hpa_spec x)),
     mem ''status'' (enc_HPAStatus (hpa_status x))])"

definition dec_HPA :: "HPA dec" where
  "dec_HPA = dec_struct [
     (''apiVersion'', fld dec_string hpa_apiVersion (\<lambda>v r. r\<lparr>hpa_apiVersion := v\<rparr>)),
     (''kind'', fld dec_string hpa_kind (\<lambda>v r. r\<lparr>hpa_kind := v\<rparr>)),
     (''metadata'', fld dec_Metadata hpa_metadata (\<lambda>v r. r\<lparr>hpa_metadata := v\<rparr>)),
     (''spec'', fld dec_HPASpec hpa_spec (\<lambda>v r. r\<lparr>hpa_spec := v\<rparr>)),
     (''status'', fld dec_HPAStatus hpa_status (\<lambda>v r. r\<lparr>hpa_status := v\<rparr>))]"

lemma HPA_roundtrip [simp]: "wf_HPA x \<Longrightarrow> dec_HPA (enc_HPA x) zero_HPA = (x, True)"
  by (cases x) (simp add: wf_HPA_def enc_HPA_def dec_HPA_def zero_HPA_def codec_simps)

interpretation HPA_codec: codec enc_HPA dec_HPA zero_HPA wf_HPA
  by unfold_locales simp

lemmas HPA_list_roundtrip [simp] = HPA_codec.list_roundtrip

lemma zero_HPA_wf [simp]: "wf_HPA zero_HPA"
  by (simp add: wf_HPA_def zero_HPA_def)

lemma dec_HPA_wf [dec_wf]: "wf_HPA x \<Longrightarrow> wf_HPA (fst (dec_HPA j x))"
  unfolding dec_HPA_def by (rule dec_struct_pres) (auto simp: wf_HPA_def intro: dec_wf)

record NetPolPeer =
  npp_podSelector :: strmap

definition zero_NetPolPeer :: NetPolPeer where
  "zero_NetPolPeer = \<lparr>npp_podSelector = []\<rparr>"

definition wf_NetPolPeer :: "NetPolPeer \<Rightarrow> bool" where
  "wf_NetPolPeer x \<longleftrightarrow> map_ok (npp_podSelector x)"

definition enc_NetPolPeer :: "NetPolPeer \<Rightarrow> json" where
  "enc_NetPolPeer x = JObj (concat [
     omitmem (npp_podSelector x = []) ''podSelector'' (enc_map JStr (npp_podSelector x))])"

definition dec_NetPolPeer :: "NetPolPeer dec" where
  "dec_NetPolPeer = dec_struct [
     (''podSelector'', fld (dec_map dec_string []) npp_podSelector (\<lambda>v r. r\<lparr>npp_podSelector := v\<rparr>))]"

lemma NetPolPeer_roundtrip [simp]: "wf_NetPolPeer x \<Longrightarrow> dec_NetPolPeer (enc_NetPolPeer x) zero_NetPolPeer = (x, True)"
  by (cases x) (simp add: wf_NetPolPeer_def enc_NetPolPeer_def dec_NetPolPeer_def zero_NetPolPeer_def codec_simps)

interpretation NetPolPeer_codec: codec enc_NetPolPeer dec_NetPolPeer zero_NetPolPeer wf_NetPolPeer
  by unfold_locales simp

lemmas NetPolPeer_list_roundtrip [simp] = NetPolPeer_codec.list_roundtrip

lemma zero_NetPolPeer_wf [simp]: "wf_NetPolPeer zero_NetPolPeer"
  by (simp add: wf_NetPolPeer_def zero_NetPolPeer_def)

lemma dec_NetPolPeer_wf [dec_wf]: "wf_NetPolPeer x \<Longrightarrow> wf_NetPolPeer (fst (dec_NetPolPeer j x))"
  unfolding dec_NetPolPeer_def by (rule dec_struct_pres) (auto simp: wf_NetPolPeer_def intro: dec_wf)

lemmas dec_NetPolPeer_list_wf [dec_wf] = dec_list_wf [of wf_NetPolPeer dec_NetPolPeer zero_NetPolPeer, OF dec_NetPolPeer_wf zero_NetPolPeer_wf]

record NetPolPort =
  npt_port :: int
  npt_protocol :: string

definition zero_NetPolPort :: NetPolPort where
  "zero_NetPolPort = \<lparr>npt_port = 0, npt_protocol = []\<rparr>"

definition wf_NetPolPort :: "NetPolPort \<Rightarrow> bool" where
  "wf_NetPolPort x \<longleftrightarrow> int64_ok (npt_port x)"

definition enc_NetPolPort :: "NetPolPort \<Rightarrow> json" where
  "enc_NetPolPort x = JObj (concat [
     mem ''port'' (JInt (npt_port x)),
     omitmem (npt_protocol x = []) ''protocol'' (JStr (npt_protocol x))])"

definition dec_NetPolPort :: "NetPolPort dec" where
  "dec_NetPolPort = dec_struct [
     (''port'', fld dec_int npt_port (\<lambda>v r. r\<lparr>npt_port := v\<rparr>)),
     (''protocol'', fld dec_string npt_protocol (\<lambda>v r. r\<lparr>npt_protocol := v\<rparr>))]"

lemma NetPolPort_roundtrip [simp]: "wf_NetPolPort x \<Longrightarrow> dec_NetPolPort (enc_NetPolPort x) zero_NetPolPort = (x, True)"
  by (cases x) (simp add: wf_NetPolPort_def enc_NetPolPort_def dec_NetPolPort_def zero_NetPolPort_def codec_simps)

interpretation NetPolPort_codec: codec enc_NetPolPort dec_NetPolPort zero_NetPolPort wf_NetPolPort
  by unfold_locales simp

lemmas NetPolPort_list_roundtrip [simp] = NetPolPort_codec.list_roundtrip

lemma zero_NetPolPort_wf [simp]: "wf_NetPolPort zero_NetPolPort"
  by (simp add: wf_NetPolPort_def zero_NetPolPort_def)

lemma dec_NetPolPort_wf [dec_wf]: "wf_NetPolPort x \<Longrightarrow> wf_NetPolPort (fst (dec_NetPolPort j x))"
  unfolding dec_NetPolPort_def by (rule dec_struct_pres) (auto simp: wf_NetPolPort_def intro: dec_wf)

lemmas dec_NetPolPort_list_wf [dec_wf] = dec_list_wf [of wf_NetPolPort dec_NetPolPort zero_NetPolPort, OF dec_NetPolPort_wf zero_NetPolPort_wf]

record NetPolIngressRule =
  npr_from :: "NetPolPeer list"
  npr_ports :: "NetPolPort list"

definition zero_NetPolIngressRule :: NetPolIngressRule where
  "zero_NetPolIngressRule = \<lparr>npr_from = [], npr_ports = []\<rparr>"

definition wf_NetPolIngressRule :: "NetPolIngressRule \<Rightarrow> bool" where
  "wf_NetPolIngressRule x \<longleftrightarrow> list_all wf_NetPolPeer (npr_from x) \<and> list_all wf_NetPolPort (npr_ports x)"

definition enc_NetPolIngressRule :: "NetPolIngressRule \<Rightarrow> json" where
  "enc_NetPolIngressRule x = JObj (concat [
     omitmem (npr_from x = []) ''from'' (enc_list enc_NetPolPeer (npr_from x)),
     omitmem (npr_ports x = []) ''ports'' (enc_list enc_NetPolPort (npr_ports x))])"

definition dec_NetPolIngressRule :: "NetPolIngressRule dec" where
  "dec_NetPolIngressRule = dec_struct [
     (''from'', fld (dec_list dec_NetPolPeer zero_NetPolPeer) npr_from (\<lambda>v r. r\<lparr>npr_from := v\<rparr>)),
     (''ports'', fld (dec_list dec_NetPolPort zero_NetPolPort) npr_ports (\<lambda>v r. r\<lparr>npr_ports := v\<rparr>))]"

lemma NetPolIngressRule_roundtrip [simp]: "wf_NetPolIngressRule x \<Longrightarrow> dec_NetPolIngressRule (enc_NetPolIngressRule x) zero_NetPolIngressRule = (x, True)"
  by (cases x) (simp add: wf_NetPolIngressRule_def enc_NetPolIngressRule_def dec_NetPolIngressRule_def zero_NetPolIngressRule_def codec_simps)

interpretation NetPolIngressRule_codec: codec enc_NetPolIngressRule dec_NetPolIngressRule zero_NetPolIngressRule wf_NetPolIngressRule
  by unfold_locales simp

lemmas NetPolIngressRule_list_roundtrip [simp] = NetPolIngressRule_codec.list_roundtrip

lemma zero_NetPolIngressRule_wf [simp]: "wf_NetPolIngressRule zero_NetPolIngressRule"
  by (simp add: wf_NetPolIngressRule_def zero_NetPolIngressRule_def)

lemma dec_NetPolIngressRule_wf [dec_wf]: "wf_NetPolIngressRule x \<Longrightarrow> wf_NetPolIngressRule (fst (dec_NetPolIngressRule j x))"
  unfolding dec_NetPolIngressRule_def by (rule dec_struct_pres) (auto simp: wf_NetPolIngressRule_def intro: dec_wf)

lemmas dec_NetPolIngressRule_list_wf [dec_wf] = dec_list_wf [of wf_NetPolIngressRule dec_NetPolIngressRule zero_NetPolIngressRule, OF dec_NetPolIngressRule_wf zero_NetPolIngressRule_wf]

record NetPolSpec =
  npspec_podSelector :: strmap
  npspec_ingress :: "NetPolIngressRule list"
  npspec_policyTypes :: "string list"

definition zero_NetPolSpec :: NetPolSpec where
  "zero_NetPolSpec = \<lparr>npspec_podSelector = [], npspec_ingress = [], npspec_policyTypes = []\<rparr>"

definition wf_NetPolSpec :: "NetPolSpec \<Rightarrow> bool" where
  "wf_NetPolSpec x \<longleftrightarrow> map_ok (npspec_podSelector x) \<and> list_all wf_NetPolIngressRule (npspec_ingress x)"

definition enc_NetPolSpec :: "NetPolSpec \<Rightarrow> json" where
  "enc_NetPolSpec x = JObj (concat [
     mem ''podSelector'' (enc_map JStr (npspec_podSelector x)),
     omitmem (npspec_ingress x = []) ''ingress'' (enc_list enc_NetPolIngressRule (npspec_ingress x)),
     omitmem (npspec_policyTypes x = []) ''policyTypes'' (enc_list JStr (npspec_policyTypes x))])"

definition dec_NetPolSpec :: "NetPolSpec dec" where
  "dec_NetPolSpec = dec_struct [
     (''podSelector'', fld (dec_map dec_string []) npspec_podSelector (\<lambda>v r. r\<lparr>npspec_podSelector := v\<rparr>)),
     (''ingress'', fld (dec_list dec_NetPolIngressRule zero_NetPolIngressRule) npspec_ingress (\<lambda>v r. r\<lparr>npspec_ingress := v\<rparr>)),
     (''policyTypes'', fld (dec_list dec_string []) npspec_policyTypes (\<lambda>v r. r\<lparr>npspec_policyTypes := v\<rparr>))]"

lemma NetPolSpec_roundtrip [simp]: "wf_NetPolSpec x \<Longrightarrow> dec_NetPolSpec (enc_NetPolSpec x) zero_NetPolSpec = (x, True)"
  by (cases x) (simp add: wf_NetPolSpec_def enc_NetPolSpec_def dec_NetPolSpec_def zero_NetPolSpec_def codec_simps)

interpretation NetPolSpec_codec: codec enc_NetPolSpec dec_NetPolSpec zero_NetPolSpec wf_NetPolSpec
  by unfold_locales simp

lemmas NetPolSpec_list_roundtrip [simp] = NetPolSpec_codec.list_roundtrip

lemma zero_NetPolSpec_wf [simp]: "wf_NetPolSpec zero_NetPolSpec"
  by (simp add: wf_NetPolSpec_def zero_NetPolSpec_def)

lemma dec_NetPolSpec_wf [dec_wf]: "wf_NetPolSpec x \<Longrightarrow> wf_NetPolSpec (fst (dec_NetPolSpec j x))"
  unfolding dec_NetPolSpec_def by (rule dec_struct_pres) (auto simp: wf_NetPolSpec_def intro: dec_wf)

record NetworkPolicy =
  np_apiVersion :: string
  np_kind :: string
  np_metadata :: Metadata
  np_spec :: NetPolSpec

definition zero_NetworkPolicy :: NetworkPolicy where
  "zero_NetworkPolicy = \<lparr>np_apiVersion = [], np_kind = [], np_metadata = zero_Metadata, np_spec = zero_NetPolSpec\<rparr>"

definition wf_NetworkPolicy :: "NetworkPolicy \<Rightarrow> bool" where
  "wf_NetworkPolicy x \<longleftrightarrow> wf_Metadata (np_metadata x) \<and> wf_NetPolSpec (np_spec x)"

definition enc_NetworkPolicy :: "NetworkPolicy \<Rightarrow> json" where
  "enc_NetworkPolicy x = JObj (concat [
     omitmem (np_apiVersion x = []) ''apiVersion'' (JStr (np_apiVersion x)),
     omitmem (np_kind x = []) ''kind'' (JStr (np_kind x)),
     mem ''metadata'' (enc_Metadata (np_metadata x)),
     mem ''spec'' (enc_NetPolSpec (np_spec x))])"

definition dec_NetworkPolicy :: "NetworkPolicy dec" where
  "dec_NetworkPolicy = dec_struct [
     (''apiVersion'', fld dec_string np_apiVersion (\<lambda>v r. r\<lparr>np_apiVersion := v\<rparr>)),
     (''kind'', fld dec_string np_kind (\<lambda>v r. r\<lparr>np_kind := v\<rparr>)),
     (''metadata'', fld dec_Metadata np_metadata (\<lambda>v r. r\<lparr>np_metadata := v\<rparr>)),
     (''spec'', fld dec_NetPolSpec np_spec (\<lambda>v r. r\<lparr>np_spec := v\<rparr>))]"

lemma NetworkPolicy_roundtrip [simp]: "wf_NetworkPolicy x \<Longrightarrow> dec_NetworkPolicy (enc_NetworkPolicy x) zero_NetworkPolicy = (x, True)"
  by (cases x) (simp add: wf_NetworkPolicy_def enc_NetworkPolicy_def dec_NetworkPolicy_def zero_NetworkPolicy_def codec_simps)

interpretation NetworkPolicy_codec: codec enc_NetworkPolicy dec_NetworkPolicy zero_NetworkPolicy wf_NetworkPolicy
  by unfold_locales simp

lemmas NetworkPolicy_list_roundtrip [simp] = NetworkPolicy_codec.list_roundtrip

lemma zero_NetworkPolicy_wf [simp]: "wf_NetworkPolicy zero_NetworkPolicy"
  by (simp add: wf_NetworkPolicy_def zero_NetworkPolicy_def)

lemma dec_NetworkPolicy_wf [dec_wf]: "wf_NetworkPolicy x \<Longrightarrow> wf_NetworkPolicy (fst (dec_NetworkPolicy j x))"
  unfolding dec_NetworkPolicy_def by (rule dec_struct_pres) (auto simp: wf_NetworkPolicy_def intro: dec_wf)

record ClusterStatus =
  clstatus_ready :: bool
  clstatus_lastHeartbeat :: time
  clstatus_message :: string

definition zero_ClusterStatus :: ClusterStatus where
  "zero_ClusterStatus = \<lparr>clstatus_ready = False, clstatus_lastHeartbeat = zero_time, clstatus_message = []\<rparr>"

definition wf_ClusterStatus :: "ClusterStatus \<Rightarrow> bool" where
  "wf_ClusterStatus x \<longleftrightarrow> True"

definition enc_ClusterStatus :: "ClusterStatus \<Rightarrow> json" where
  "enc_ClusterStatus x = JObj (concat [
     mem ''ready'' (JBool (clstatus_ready x)),
     mem ''lastHeartbeat'' (JTime (clstatus_lastHeartbeat x)),
     omitmem (clstatus_message x = []) ''message'' (JStr (clstatus_message x))])"

definition dec_ClusterStatus :: "ClusterStatus dec" where
  "dec_ClusterStatus = dec_struct [
     (''ready'', fld dec_bool clstatus_ready (\<lambda>v r. r\<lparr>clstatus_ready := v\<rparr>)),
     (''lastHeartbeat'', fld dec_time clstatus_lastHeartbeat (\<lambda>v r. r\<lparr>clstatus_lastHeartbeat := v\<rparr>)),
     (''message'', fld dec_string clstatus_message (\<lambda>v r. r\<lparr>clstatus_message := v\<rparr>))]"

lemma ClusterStatus_roundtrip [simp]: "wf_ClusterStatus x \<Longrightarrow> dec_ClusterStatus (enc_ClusterStatus x) zero_ClusterStatus = (x, True)"
  by (cases x) (simp add: wf_ClusterStatus_def enc_ClusterStatus_def dec_ClusterStatus_def zero_ClusterStatus_def codec_simps)

interpretation ClusterStatus_codec: codec enc_ClusterStatus dec_ClusterStatus zero_ClusterStatus wf_ClusterStatus
  by unfold_locales simp

lemmas ClusterStatus_list_roundtrip [simp] = ClusterStatus_codec.list_roundtrip

lemma zero_ClusterStatus_wf [simp]: "wf_ClusterStatus zero_ClusterStatus"
  by (simp add: wf_ClusterStatus_def zero_ClusterStatus_def)

lemma dec_ClusterStatus_wf [dec_wf]: "wf_ClusterStatus x \<Longrightarrow> wf_ClusterStatus (fst (dec_ClusterStatus j x))"
  unfolding dec_ClusterStatus_def by (rule dec_struct_pres) (auto simp: wf_ClusterStatus_def intro: dec_wf)

record ClusterSpec =
  clspec_server :: string
  clspec_region :: string

definition zero_ClusterSpec :: ClusterSpec where
  "zero_ClusterSpec = \<lparr>clspec_server = [], clspec_region = []\<rparr>"

definition wf_ClusterSpec :: "ClusterSpec \<Rightarrow> bool" where
  "wf_ClusterSpec x \<longleftrightarrow> True"

definition enc_ClusterSpec :: "ClusterSpec \<Rightarrow> json" where
  "enc_ClusterSpec x = JObj (concat [
     mem ''server'' (JStr (clspec_server x)),
     omitmem (clspec_region x = []) ''region'' (JStr (clspec_region x))])"

definition dec_ClusterSpec :: "ClusterSpec dec" where
  "dec_ClusterSpec = dec_struct [
     (''server'', fld dec_string clspec_server (\<lambda>v r. r\<lparr>clspec_server := v\<rparr>)),
     (''region'', fld dec_string clspec_region (\<lambda>v r. r\<lparr>clspec_region := v\<rparr>))]"

lemma ClusterSpec_roundtrip [simp]: "wf_ClusterSpec x \<Longrightarrow> dec_ClusterSpec (enc_ClusterSpec x) zero_ClusterSpec = (x, True)"
  by (cases x) (simp add: wf_ClusterSpec_def enc_ClusterSpec_def dec_ClusterSpec_def zero_ClusterSpec_def codec_simps)

interpretation ClusterSpec_codec: codec enc_ClusterSpec dec_ClusterSpec zero_ClusterSpec wf_ClusterSpec
  by unfold_locales simp

lemmas ClusterSpec_list_roundtrip [simp] = ClusterSpec_codec.list_roundtrip

lemma zero_ClusterSpec_wf [simp]: "wf_ClusterSpec zero_ClusterSpec"
  by (simp add: wf_ClusterSpec_def zero_ClusterSpec_def)

lemma dec_ClusterSpec_wf [dec_wf]: "wf_ClusterSpec x \<Longrightarrow> wf_ClusterSpec (fst (dec_ClusterSpec j x))"
  unfolding dec_ClusterSpec_def by (rule dec_struct_pres) (auto simp: wf_ClusterSpec_def intro: dec_wf)

record Cluster =
  cl_apiVersion :: string
  cl_kind :: string
  cl_metadata :: Metadata
  cl_spec :: ClusterSpec
  cl_status :: ClusterStatus

definition zero_Cluster :: Cluster where
  "zero_Cluster = \<lparr>cl_apiVersion = [], cl_kind = [], cl_metadata = zero_Metadata, cl_spec = zero_ClusterSpec, cl_status = zero_ClusterStatus\<rparr>"

definition wf_Cluster :: "Cluster \<Rightarrow> bool" where
  "wf_Cluster x \<longleftrightarrow> wf_Metadata (cl_metadata x) \<and> wf_ClusterSpec (cl_spec x) \<and> wf_ClusterStatus (cl_status x)"

definition enc_Cluster :: "Cluster \<Rightarrow> json" where
  "enc_Cluster x = JObj (concat [
     omitmem (cl_apiVersion x = []) ''apiVersion'' (JStr (cl_apiVersion x)),
     omitmem (cl_kind x = []) ''kind'' (JStr (cl_kind x)),
     mem ''metadata'' (enc_Metadata (cl_metadata x)),
     mem ''spec'' (enc_ClusterSpec (cl_spec x)),
     mem ''status'' (enc_ClusterStatus (cl_status x))])"

definition dec_Cluster :: "Cluster dec" where
  "dec_Cluster = dec_struct [
     (''apiVersion'', fld dec_string cl_apiVersion (\<lambda>v r. r\<lparr>cl_apiVersion := v\<rparr>)),
     (''kind'', fld dec_string cl_kind (\<lambda>v r. r\<lparr>cl_kind := v\<rparr>)),
     (''metadata'', fld dec_Metadata cl_metadata (\<lambda>v r. r\<lparr>cl_metadata := v\<rparr>)),
     (''spec'', fld dec_ClusterSpec cl_spec (\<lambda>v r. r\<lparr>cl_spec := v\<rparr>)),
     (''status'', fld dec_ClusterStatus cl_status (\<lambda>v r. r\<lparr>cl_status := v\<rparr>))]"

lemma Cluster_roundtrip [simp]: "wf_Cluster x \<Longrightarrow> dec_Cluster (enc_Cluster x) zero_Cluster = (x, True)"
  by (cases x) (simp add: wf_Cluster_def enc_Cluster_def dec_Cluster_def zero_Cluster_def codec_simps)

interpretation Cluster_codec: codec enc_Cluster dec_Cluster zero_Cluster wf_Cluster
  by unfold_locales simp

lemmas Cluster_list_roundtrip [simp] = Cluster_codec.list_roundtrip

lemma zero_Cluster_wf [simp]: "wf_Cluster zero_Cluster"
  by (simp add: wf_Cluster_def zero_Cluster_def)

lemma dec_Cluster_wf [dec_wf]: "wf_Cluster x \<Longrightarrow> wf_Cluster (fst (dec_Cluster j x))"
  unfolding dec_Cluster_def by (rule dec_struct_pres) (auto simp: wf_Cluster_def intro: dec_wf)

record FederatedDeploymentSpec =
  fdspec_clusters :: "string list"
  fdspec_template :: DeploymentSpec

definition zero_FederatedDeploymentSpec :: FederatedDeploymentSpec where
  "zero_FederatedDeploymentSpec = \<lparr>fdspec_clusters = [], fdspec_template = zero_DeploymentSpec\<rparr>"

definition wf_FederatedDeploymentSpec :: "FederatedDeploymentSpec \<Rightarrow> bool" where
  "wf_FederatedDeploymentSpec x \<longleftrightarrow> wf_DeploymentSpec (fdspec_template x)"

definition enc_FederatedDeploymentSpec :: "FederatedDeploymentSpec \<Rightarrow> json" where
  "enc_FederatedDeploymentSpec x = JObj (concat [
     omitmem (fdspec_clusters x = []) ''clusters'' (enc_list JStr (fdspec_clusters x)),
     mem ''template'' (enc_DeploymentSpec (fdspec_template x))])"

definition dec_FederatedDeploymentSpec :: "FederatedDeploymentSpec dec" where
  "dec_FederatedDeploymentSpec = dec_struct [
     (''clusters'', fld (dec_list dec_string []) fdspec_clusters (\<lambda>v r. r\<lparr>fdspec_clusters := v\<rparr>)),
     (''template'', fld dec_DeploymentSpec fdspec_template (\<lambda>v r. r\<lparr>fdspec_template := v\<rparr>))]"

lemma FederatedDeploymentSpec_roundtrip [simp]: "wf_FederatedDeploymentSpec x \<Longrightarrow> dec_FederatedDeploymentSpec (enc_FederatedDeploymentSpec x) zero_FederatedDeploymentSpec = (x, True)"
  by (cases x) (simp add: wf_FederatedDeploymentSpec_def enc_FederatedDeploymentSpec_def dec_FederatedDeploymentSpec_def zero_FederatedDeploymentSpec_def codec_simps)

interpretation FederatedDeploymentSpec_codec: codec enc_FederatedDeploymentSpec dec_FederatedDeploymentSpec zero_FederatedDeploymentSpec wf_FederatedDeploymentSpec
  by unfold_locales simp

lemmas FederatedDeploymentSpec_list_roundtrip [simp] = FederatedDeploymentSpec_codec.list_roundtrip

lemma zero_FederatedDeploymentSpec_wf [simp]: "wf_FederatedDeploymentSpec zero_FederatedDeploymentSpec"
  by (simp add: wf_FederatedDeploymentSpec_def zero_FederatedDeploymentSpec_def)

lemma dec_FederatedDeploymentSpec_wf [dec_wf]: "wf_FederatedDeploymentSpec x \<Longrightarrow> wf_FederatedDeploymentSpec (fst (dec_FederatedDeploymentSpec j x))"
  unfolding dec_FederatedDeploymentSpec_def by (rule dec_struct_pres) (auto simp: wf_FederatedDeploymentSpec_def intro: dec_wf)

record FederatedDeploymentStatus =
  fdstatus_clusterCount :: int
  fdstatus_readyCount :: int
  fdstatus_lastUpdated :: time

definition zero_FederatedDeploymentStatus :: FederatedDeploymentStatus where
  "zero_FederatedDeploymentStatus = \<lparr>fdstatus_clusterCount = 0, fdstatus_readyCount = 0, fdstatus_lastUpdated = zero_time\<rparr>"

definition wf_FederatedDeploymentStatus :: "FederatedDeploymentStatus \<Rightarrow> bool" where
  "wf_FederatedDeploymentStatus x \<longleftrightarrow> int64_ok (fdstatus_clusterCount x) \<and> int64_ok (fdstatus_readyCount x)"

definition enc_FederatedDeploymentStatus :: "FederatedDeploymentStatus \<Rightarrow> json" where
  "enc_FederatedDeploymentStatus x = JObj (concat [
     mem ''clusterCount'' (JInt (fdstatus_clusterCount x)),
     mem ''readyCount'' (JInt (fdstatus_readyCount x)),
     mem ''lastUpdated'' (JTime (fdstatus_lastUpdated x))])"

definition dec_FederatedDeploymentStatus :: "FederatedDeploymentStatus dec" where
  "dec_FederatedDeploymentStatus = dec_struct [
     (''clusterCount'', fld dec_int fdstatus_clusterCount (\<lambda>v r. r\<lparr>fdstatus_clusterCount := v\<rparr>)),
     (''readyCount'', fld dec_int fdstatus_readyCount (\<lambda>v r. r\<lparr>fdstatus_readyCount := v\<rparr>)),
     (''lastUpdated'', fld dec_time fdstatus_lastUpdated (\<lambda>v r. r\<lparr>fdstatus_lastUpdated := v\<rparr>))]"

lemma FederatedDeploymentStatus_roundtrip [simp]: "wf_FederatedDeploymentStatus x \<Longrightarrow> dec_FederatedDeploymentStatus (enc_FederatedDeploymentStatus x) zero_FederatedDeploymentStatus = (x, True)"
  by (cases x) (simp add: wf_FederatedDeploymentStatus_def enc_FederatedDeploymentStatus_def dec_FederatedDeploymentStatus_def zero_FederatedDeploymentStatus_def codec_simps)

interpretation FederatedDeploymentStatus_codec: codec enc_FederatedDeploymentStatus dec_FederatedDeploymentStatus zero_FederatedDeploymentStatus wf_FederatedDeploymentStatus
  by unfold_locales simp

lemmas FederatedDeploymentStatus_list_roundtrip [simp] = FederatedDeploymentStatus_codec.list_roundtrip

lemma zero_FederatedDeploymentStatus_wf [simp]: "wf_FederatedDeploymentStatus zero_FederatedDeploymentStatus"
  by (simp add: wf_FederatedDeploymentStatus_def zero_FederatedDeploymentStatus_def)

lemma dec_FederatedDeploymentStatus_wf [dec_wf]: "wf_FederatedDeploymentStatus x \<Longrightarrow> wf_FederatedDeploymentStatus (fst (dec_FederatedDeploymentStatus j x))"
  unfolding dec_FederatedDeploymentStatus_def by (rule dec_struct_pres) (auto simp: wf_FederatedDeploymentStatus_def intro: dec_wf)

record FederatedDeployment =
  fd_apiVersion :: string
  fd_kind :: string
  fd_metadata :: Metadata
  fd_spec :: FederatedDeploymentSpec
  fd_status :: FederatedDeploymentStatus

definition zero_FederatedDeployment :: FederatedDeployment where
  "zero_FederatedDeployment = \<lparr>fd_apiVersion = [], fd_kind = [], fd_metadata = zero_Metadata, fd_spec = zero_FederatedDeploymentSpec, fd_status = zero_FederatedDeploymentStatus\<rparr>"

definition wf_FederatedDeployment :: "FederatedDeployment \<Rightarrow> bool" where
  "wf_FederatedDeployment x \<longleftrightarrow> wf_Metadata (fd_metadata x) \<and> wf_FederatedDeploymentSpec (fd_spec x) \<and> wf_FederatedDeploymentStatus (fd_status x)"

definition enc_FederatedDeployment :: "FederatedDeployment \<Rightarrow> json" where
  "enc_FederatedDeployment x = JObj (concat [
     omitmem (fd_apiVersion x = []) ''apiVersion'' (JStr (fd_apiVersion x)),
     omitmem (fd_kind x = []) ''kind'' (JStr (fd_kind x)),
     mem ''metadata'' (enc_Metadata (fd_metadata x)),
     mem ''spec'' (enc_FederatedDeploymentSpec (fd_spec x)),
     mem ''status'' (enc_FederatedDeploymentStatus (fd_status x))])"

definition dec_FederatedDeployment :: "FederatedDeployment dec" where
  "dec_FederatedDeployment = dec_struct [
     (''apiVersion'', fld dec_string fd_apiVersion (\<lambda>v r. r\<lparr>fd_apiVersion := v\<rparr>)),
     (''kind'', fld dec_string fd_kind (\<lambda>v r. r\<lparr>fd_kind := v\<rparr>)),
     (''metadata'', fld dec_Metadata fd_metadata (\<lambda>v r. r\<lparr>fd_metadata := v\<rparr>)),
     (''spec'', fld dec_FederatedDeploymentSpec fd_spec (\<lambda>v r. r\<lparr>fd_spec := v\<rparr>)),
     (''status'', fld dec_FederatedDeploymentStatus fd_status (\<lambda>v r. r\<lparr>fd_status := v\<rparr>))]"

lemma FederatedDeployment_roundtrip [simp]: "wf_FederatedDeployment x \<Longrightarrow> dec_FederatedDeployment (enc_FederatedDeployment x) zero_FederatedDeployment = (x, True)"
  by (cases x) (simp add: wf_FederatedDeployment_def enc_FederatedDeployment_def dec_FederatedDeployment_def zero_FederatedDeployment_def codec_simps)

interpretation FederatedDeployment_codec: codec enc_FederatedDeployment dec_FederatedDeployment zero_FederatedDeployment wf_FederatedDeployment
  by unfold_locales simp

lemmas FederatedDeployment_list_roundtrip [simp] = FederatedDeployment_codec.list_roundtrip

lemma zero_FederatedDeployment_wf [simp]: "wf_FederatedDeployment zero_FederatedDeployment"
  by (simp add: wf_FederatedDeployment_def zero_FederatedDeployment_def)

lemma dec_FederatedDeployment_wf [dec_wf]: "wf_FederatedDeployment x \<Longrightarrow> wf_FederatedDeployment (fst (dec_FederatedDeployment j x))"
  unfolding dec_FederatedDeployment_def by (rule dec_struct_pres) (auto simp: wf_FederatedDeployment_def intro: dec_wf)

record User =
  user_apiVersion :: string
  user_kind :: string
  user_metadata :: Metadata
  user_token :: string
  user_groups :: "string list"

definition zero_User :: User where
  "zero_User = \<lparr>user_apiVersion = [], user_kind = [], user_metadata = zero_Metadata, user_token = [], user_groups = []\<rparr>"

definition wf_User :: "User \<Rightarrow> bool" where
  "wf_User x \<longleftrightarrow> wf_Metadata (user_metadata x)"

definition enc_User :: "User \<Rightarrow> json" where
  "enc_User x = JObj (concat [
     omitmem (user_apiVersion x = []) ''apiVersion'' (JStr (user_apiVersion x)),
     omitmem (user_kind x = []) ''kind'' (JStr (user_kind x)),
     mem ''metadata'' (enc_Metadata (user_metadata x)),
     mem ''token'' (JStr (user_token x)),
     omitmem (user_groups x = []) ''groups'' (enc_list JStr (user_groups x))])"

definition dec_User :: "User dec" where
  "dec_User = dec_struct [
     (''apiVersion'', fld dec_string user_apiVersion (\<lambda>v r. r\<lparr>user_apiVersion := v\<rparr>)),
     (''kind'', fld dec_string user_kind (\<lambda>v r. r\<lparr>user_kind := v\<rparr>)),
     (''metadata'', fld dec_Metadata user_metadata (\<lambda>v r. r\<lparr>user_metadata := v\<rparr>)),
     (''token'', fld dec_string user_token (\<lambda>v r. r\<lparr>user_token := v\<rparr>)),
     (''groups'', fld (dec_list dec_string []) user_groups (\<lambda>v r. r\<lparr>user_groups := v\<rparr>))]"

lemma User_roundtrip [simp]: "wf_User x \<Longrightarrow> dec_User (enc_User x) zero_User = (x, True)"
  by (cases x) (simp add: wf_User_def enc_User_def dec_User_def zero_User_def codec_simps)

interpretation User_codec: codec enc_User dec_User zero_User wf_User
  by unfold_locales simp

lemmas User_list_roundtrip [simp] = User_codec.list_roundtrip

lemma zero_User_wf [simp]: "wf_User zero_User"
  by (simp add: wf_User_def zero_User_def)

lemma dec_User_wf [dec_wf]: "wf_User x \<Longrightarrow> wf_User (fst (dec_User j x))"
  unfolding dec_User_def by (rule dec_struct_pres) (auto simp: wf_User_def intro: dec_wf)

end
