(* ===== verification/Store_Types.thy ===== *)
theory Store_Types
  imports Object_Store Api_Ext
begin

text \<open>
  The tables of internal/store/store.go and store_m6.go: one row record per \<open>CREATE TABLE\<close>, with
  its columns in order, and the store as the collection of its tables. Columns named
  \<open>..._json\<close> hold documents. \<open>migrate\<close> and \<open>EnsureM6Tables\<close> create the tables that do not
  exist yet, so opening a new database gives the empty store and opening an old one keeps it.
\<close>

record pod_row =
  prow_name :: string
  prow_namespace :: string
  prow_spec_json :: json
  prow_metadata_json :: json
  prow_phase :: string
  prow_node_name :: string
  prow_container_id :: string
  prow_message :: string
  prow_pod_ip :: string
  prow_host_port :: int
  prow_last_updated :: time
  prow_created_at :: time

text \<open>The tables replicasets, deployments, hpas and federated_deployments have the same columns.\<close>

record obj_row =
  orow_name :: string
  orow_namespace :: string
  orow_spec_json :: json
  orow_metadata_json :: json
  orow_status_json :: json
  orow_created_at :: time
  orow_last_updated :: time

record svc_row =
  srow_name :: string
  srow_namespace :: string
  srow_spec_json :: json
  srow_metadata_json :: json
  srow_status_json :: json
  srow_cluster_ip :: string
  srow_created_at :: time
  srow_last_updated :: time

record ep_row =
  erow_name :: string
  erow_namespace :: string
  erow_metadata_json :: json
  erow_subsets_json :: json
  erow_last_updated :: time

record node_row =
  nrow_name :: string
  nrow_metadata_json :: json
  nrow_status_json :: json
  nrow_created_at :: time
  nrow_last_heartbeat :: time

record crd_row =
  crow_name :: string
  crow_group_name :: string
  crow_version :: string
  crow_plural :: string
  crow_kind :: string
  crow_singular :: string
  crow_scope :: string
  crow_spec_json :: json
  crow_metadata_json :: json
  crow_created_at :: time

record cr_row =
  xrow_crd_name :: string
  xrow_name :: string
  xrow_namespace :: string
  xrow_body_json :: json
  xrow_created_at :: time
  xrow_last_updated :: time

record user_row =
  urow_name :: string
  urow_token :: string
  urow_groups_json :: json
  urow_created_at :: time

record role_row =
  rrow_name :: string
  rrow_scope :: string
  rrow_namespace :: string
  rrow_rules_json :: json
  rrow_metadata_json :: json
  rrow_created_at :: time

record rb_row =
  brow_name :: string
  brow_scope :: string
  brow_namespace :: string
  brow_subjects_json :: json
  brow_roleref_json :: json
  brow_metadata_json :: json
  brow_created_at :: time

record lease_row =
  lrow_name :: string
  lrow_holder :: string
  lrow_renew_time :: time
  lrow_ttl_seconds :: int

record wh_row =
  wrow_name :: string
  wrow_type :: string
  wrow_url :: string
  wrow_resources_json :: json
  wrow_failure_policy :: string
  wrow_created_at :: time

record np_row =
  nprow_name :: string
  nprow_namespace :: string
  nprow_spec_json :: json
  nprow_metadata_json :: json
  nprow_created_at :: time
  nprow_last_updated :: time

record cl_row =
  clrow_name :: string
  clrow_spec_json :: json
  clrow_metadata_json :: json
  clrow_status_json :: json
  clrow_created_at :: time
  clrow_last_updated :: time

record store =
  t_pods :: "pod_row list"
  t_replicasets :: "obj_row list"
  t_deployments :: "obj_row list"
  t_services :: "svc_row list"
  t_endpoints :: "ep_row list"
  t_nodes :: "node_row list"
  t_crds :: "crd_row list"
  t_custom_resources :: "cr_row list"
  t_users :: "user_row list"
  t_roles :: "role_row list"
  t_role_bindings :: "rb_row list"
  t_leases :: "lease_row list"
  t_admission_webhooks :: "wh_row list"
  t_hpas :: "obj_row list"
  t_network_policies :: "np_row list"
  t_clusters :: "cl_row list"
  t_federated_deployments :: "obj_row list"

definition empty_store :: store where
  "empty_store = \<lparr>t_pods = [], t_replicasets = [], t_deployments = [], t_services = [],
     t_endpoints = [], t_nodes = [], t_crds = [], t_custom_resources = [], t_users = [],
     t_roles = [], t_role_bindings = [], t_leases = [], t_admission_webhooks = [], t_hpas = [],
     t_network_policies = [], t_clusters = [], t_federated_deployments = []\<rparr>"

text \<open>Opening a database file: \<open>None\<close> is a file without tables.\<close>

definition Open :: "store option \<Rightarrow> store" where
  "Open file = (case file of None \<Rightarrow> empty_store | Some st \<Rightarrow> st)"

definition nsOrDefault :: "string \<Rightarrow> string" where
  "nsOrDefault ns = (if ns = [] then ''default'' else ns)"

end
