(* ===== verification/Store_Core.thy ===== *)
theory Store_Core
  imports Store_Types
begin

text \<open>
  internal/store/store.go: pods, replica sets, deployments, services, endpoints and nodes. One
  definition per method of \<open>Store\<close>, named as in the source. Each takes the driver and, where the
  code reads the clock, the time; a mutating method returns the error, with the store as it was,
  or the new store. \<open>X_of_row\<close> is the object a row is scanned into: the columns are unmarshalled
  over the zero object with the kind's constant apiVersion and kind.
\<close>

section \<open>Pods\<close>

definition CreatePod :: "driver \<Rightarrow> time \<Rightarrow> Pod \<Rightarrow> store \<Rightarrow> err + store" where
  "CreatePod drv now p st =
    (let status = (if ps_phase (pod_status p) = [] then (pod_status p)\<lparr>ps_phase := PhasePending\<rparr> else pod_status p);
         status = status\<lparr>ps_lastUpdated := now\<rparr> in
     map_result (\<lambda>T. st\<lparr>t_pods := T\<rparr>) (sql_insert drv ''CreatePod'' prow_name
      \<lparr>prow_name = md_name (pod_metadata p), prow_namespace = nsOrDefault (md_namespace (pod_metadata p)),
       prow_spec_json = enc_PodSpec (pod_spec p), prow_metadata_json = enc_Metadata (pod_metadata p),
       prow_phase = ps_phase status, prow_node_name = ps_nodeName status,
       prow_container_id = ps_containerID status, prow_message = ps_message status,
       prow_pod_ip = ps_podIP status, prow_host_port = ps_hostPort status,
       prow_last_updated = now, prow_created_at = now\<rparr>
      (t_pods st)))"

definition pod_of_row :: "pod_row \<Rightarrow> Pod" where
  "pod_of_row r =
    \<lparr>pod_apiVersion = ''v1'', pod_kind = ''Pod'',
     pod_metadata = unmarshal dec_Metadata (prow_metadata_json r) zero_Metadata,
     pod_spec = unmarshal dec_PodSpec (prow_spec_json r) zero_PodSpec,
     pod_status = \<lparr>ps_phase = prow_phase r, ps_nodeName = prow_node_name r,
       ps_containerID = prow_container_id r, ps_message = prow_message r, ps_podIP = prow_pod_ip r,
       ps_hostPort = prow_host_port r, ps_lastUpdated = prow_last_updated r\<rparr>\<rparr>"

definition GetPod :: "driver \<Rightarrow> store \<Rightarrow> string \<Rightarrow> err + Pod" where
  "GetPod drv st name = query_row drv ''GetPod'' (\<lambda>r. prow_name r = name) (t_pods st) pod_of_row"

definition UpsertPod :: "driver \<Rightarrow> time \<Rightarrow> Pod \<Rightarrow> store \<Rightarrow> err + store" where
  "UpsertPod drv now p st =
    (case GetPod drv st (md_name (pod_metadata p)) of
       Inr existing \<Rightarrow>
        (let p = p\<lparr>pod_status := pod_status existing\<rparr> in
         sql_exec drv ''UpsertPod'' (st\<lparr>t_pods := sql_update (\<lambda>r. prow_name r = md_name (pod_metadata p))
           (\<lambda>r. r\<lparr>prow_namespace := nsOrDefault (md_namespace (pod_metadata p)),
              prow_spec_json := enc_PodSpec (pod_spec p), prow_metadata_json := enc_Metadata (pod_metadata p),
              prow_last_updated := now\<rparr>) (t_pods st)\<rparr>))
     | Inl e \<Rightarrow> (if e = ErrNotFound then CreatePod drv now p st else Inl e))"

definition ListPods :: "driver \<Rightarrow> store \<Rightarrow> string \<Rightarrow> err + Pod list" where
  "ListPods drv st phaseFilter =
    (if phaseFilter \<noteq> []
     then query_rows drv ''ListPods'' (sql_order prow_created_at (filter (\<lambda>r. prow_phase r = phaseFilter) (t_pods st))) pod_of_row
     else query_rows drv ''ListPods'' (sql_order prow_created_at (t_pods st)) pod_of_row)"

definition ListPodsByNode :: "driver \<Rightarrow> store \<Rightarrow> string \<Rightarrow> err + Pod list" where
  "ListPodsByNode drv st node =
     query_rows drv ''ListPodsByNode'' (sql_order prow_created_at (filter (\<lambda>r. prow_node_name r = node) (t_pods st))) pod_of_row"

definition UpdateStatus :: "driver \<Rightarrow> time \<Rightarrow> string \<Rightarrow> PodStatus \<Rightarrow> store \<Rightarrow> err + store" where
  "UpdateStatus drv now name status st =
     (let status = status\<lparr>ps_lastUpdated := now\<rparr> in
      exec_affecting drv ''UpdateStatus'' (\<lambda>r. prow_name r = name) (t_pods st)
       (st\<lparr>t_pods := sql_update (\<lambda>r. prow_name r = name)
         (\<lambda>r. r\<lparr>prow_phase := ps_phase status, prow_node_name := ps_nodeName status,
            prow_container_id := ps_containerID status, prow_message := ps_message status,
            prow_pod_ip := ps_podIP status, prow_host_port := ps_hostPort status,
            prow_last_updated := ps_lastUpdated status\<rparr>) (t_pods st)\<rparr>))"

definition DeletePod :: "driver \<Rightarrow> string \<Rightarrow> store \<Rightarrow> err + store" where
  "DeletePod drv name st =
     exec_affecting drv ''DeletePod'' (\<lambda>r. prow_name r = name) (t_pods st)
       (st\<lparr>t_pods := sql_delete (\<lambda>r. prow_name r = name) (t_pods st)\<rparr>)"


section \<open>ReplicaSets\<close>

definition rs_of_row :: "obj_row \<Rightarrow> ReplicaSet" where
  "rs_of_row r =
    \<lparr>rs_apiVersion = ''v1'', rs_kind = ''ReplicaSet'',
     rs_metadata = unmarshal dec_Metadata (orow_metadata_json r) zero_Metadata,
     rs_spec = unmarshal dec_ReplicaSetSpec (orow_spec_json r) zero_ReplicaSetSpec,
     rs_status = unmarshal dec_ReplicaSetStatus (orow_status_json r) zero_ReplicaSetStatus\<rparr>"

definition GetReplicaSet :: "driver \<Rightarrow> store \<Rightarrow> string \<Rightarrow> err + ReplicaSet" where
  "GetReplicaSet drv st name = query_row drv ''GetReplicaSet'' (\<lambda>r. orow_name r = name) (t_replicasets st) rs_of_row"

definition UpsertReplicaSet :: "driver \<Rightarrow> time \<Rightarrow> ReplicaSet \<Rightarrow> store \<Rightarrow> err + store" where
  "UpsertReplicaSet drv now rs st =
    (let name = md_name (rs_metadata rs) in
     case GetReplicaSet drv st name of
       Inr existing \<Rightarrow>
        (let rs = rs\<lparr>rs_status := rs_status existing\<rparr> in
         sql_exec drv ''UpsertReplicaSet UPDATE'' (st\<lparr>t_replicasets := sql_update (\<lambda>r. orow_name r = name)
            (\<lambda>r. r\<lparr>orow_namespace := nsOrDefault (md_namespace (rs_metadata rs)),
               orow_spec_json := enc_ReplicaSetSpec (rs_spec rs),
               orow_metadata_json := enc_Metadata (rs_metadata rs),
               orow_status_json := enc_ReplicaSetStatus (rs_status rs),
               orow_last_updated := now\<rparr>) (t_replicasets st)\<rparr>))
     | Inl e \<Rightarrow>
        (if e \<noteq> ErrNotFound then Inl e
         else let rs = rs\<lparr>rs_status := (rs_status rs)\<lparr>rsstatus_lastUpdated := now\<rparr>\<rparr> in
         map_result (\<lambda>T. st\<lparr>t_replicasets := T\<rparr>) (sql_insert drv ''UpsertReplicaSet INSERT'' orow_name
          \<lparr>orow_name = name, orow_namespace = nsOrDefault (md_namespace (rs_metadata rs)),
           orow_spec_json = enc_ReplicaSetSpec (rs_spec rs),
           orow_metadata_json = enc_Metadata (rs_metadata rs),
           orow_status_json = enc_ReplicaSetStatus (rs_status rs),
           orow_created_at = now, orow_last_updated = now\<rparr> (t_replicasets st))))"

definition ListReplicaSets :: "driver \<Rightarrow> store \<Rightarrow> err + ReplicaSet list" where
  "ListReplicaSets drv st = query_rows drv ''ListReplicaSets'' (sql_order orow_created_at (t_replicasets st)) rs_of_row"

definition UpdateReplicaSetStatus :: "driver \<Rightarrow> time \<Rightarrow> string \<Rightarrow> ReplicaSetStatus \<Rightarrow> store \<Rightarrow> err + store" where
  "UpdateReplicaSetStatus drv now name status st =
     (let status = status\<lparr>rsstatus_lastUpdated := now\<rparr> in
      exec_affecting drv ''UpdateReplicaSetStatus'' (\<lambda>r. orow_name r = name) (t_replicasets st)
        (st\<lparr>t_replicasets := sql_update (\<lambda>r. orow_name r = name)
          (\<lambda>r. r\<lparr>orow_status_json := enc_ReplicaSetStatus status, orow_last_updated := now\<rparr>) (t_replicasets st)\<rparr>))"

definition DeleteReplicaSet :: "driver \<Rightarrow> string \<Rightarrow> store \<Rightarrow> err + store" where
  "DeleteReplicaSet drv name st =
     exec_affecting drv ''DeleteReplicaSet'' (\<lambda>r. orow_name r = name) (t_replicasets st)
       (st\<lparr>t_replicasets := sql_delete (\<lambda>r. orow_name r = name) (t_replicasets st)\<rparr>)"

section \<open>Deployments\<close>

definition dep_of_row :: "obj_row \<Rightarrow> Deployment" where
  "dep_of_row r =
    \<lparr>dep_apiVersion = ''apps/v1'', dep_kind = ''Deployment'',
     dep_metadata = unmarshal dec_Metadata (orow_metadata_json r) zero_Metadata,
     dep_spec = unmarshal dec_DeploymentSpec (orow_spec_json r) zero_DeploymentSpec,
     dep_status = unmarshal dec_DeploymentStatus (orow_status_json r) zero_DeploymentStatus\<rparr>"

definition GetDeployment :: "driver \<Rightarrow> store \<Rightarrow> string \<Rightarrow> err + Deployment" where
  "GetDeployment drv st name = query_row drv ''GetDeployment'' (\<lambda>r. orow_name r = name) (t_deployments st) dep_of_row"

definition UpsertDeployment :: "driver \<Rightarrow> time \<Rightarrow> Deployment \<Rightarrow> store \<Rightarrow> err + store" where
  "UpsertDeployment drv now dep st =
    (let name = md_name (dep_metadata dep) in
     case GetDeployment drv st name of
       Inr existing \<Rightarrow>
        (let dep = dep\<lparr>dep_status := dep_status existing\<rparr> in
         sql_exec drv ''UpsertDeployment UPDATE'' (st\<lparr>t_deployments := sql_update (\<lambda>r. orow_name r = name)
            (\<lambda>r. r\<lparr>orow_namespace := nsOrDefault (md_namespace (dep_metadata dep)),
               orow_spec_json := enc_DeploymentSpec (dep_spec dep),
               orow_metadata_json := enc_Metadata (dep_metadata dep),
               orow_status_json := enc_DeploymentStatus (dep_status dep),
               orow_last_updated := now\<rparr>) (t_deployments st)\<rparr>))
     | Inl e \<Rightarrow>
        (if e \<noteq> ErrNotFound then Inl e
         else let dep = dep\<lparr>dep_status := (dep_status dep)\<lparr>depstatus_lastUpdated := now\<rparr>\<rparr> in
         map_result (\<lambda>T. st\<lparr>t_deployments := T\<rparr>) (sql_insert drv ''UpsertDeployment INSERT'' orow_name
          \<lparr>orow_name = name, orow_namespace = nsOrDefault (md_namespace (dep_metadata dep)),
           orow_spec_json = enc_DeploymentSpec (dep_spec dep),
           orow_metadata_json = enc_Metadata (dep_metadata dep),
           orow_status_json = enc_DeploymentStatus (dep_status dep),
           orow_created_at = now, orow_last_updated = now\<rparr> (t_deployments st))))"

definition ListDeployments :: "driver \<Rightarrow> store \<Rightarrow> err + Deployment list" where
  "ListDeployments drv st = query_rows drv ''ListDeployments'' (sql_order orow_created_at (t_deployments st)) dep_of_row"

definition UpdateDeploymentStatus :: "driver \<Rightarrow> time \<Rightarrow> string \<Rightarrow> DeploymentStatus \<Rightarrow> store \<Rightarrow> err + store" where
  "UpdateDeploymentStatus drv now name status st =
     (let status = status\<lparr>depstatus_lastUpdated := now\<rparr> in
      exec_affecting drv ''UpdateDeploymentStatus'' (\<lambda>r. orow_name r = name) (t_deployments st)
        (st\<lparr>t_deployments := sql_update (\<lambda>r. orow_name r = name)
          (\<lambda>r. r\<lparr>orow_status_json := enc_DeploymentStatus status, orow_last_updated := now\<rparr>) (t_deployments st)\<rparr>))"

definition DeleteDeployment :: "driver \<Rightarrow> string \<Rightarrow> store \<Rightarrow> err + store" where
  "DeleteDeployment drv name st =
     exec_affecting drv ''DeleteDeployment'' (\<lambda>r. orow_name r = name) (t_deployments st)
       (st\<lparr>t_deployments := sql_delete (\<lambda>r. orow_name r = name) (t_deployments st)\<rparr>)"

section \<open>Services\<close>

definition svc_of_row :: "svc_row \<Rightarrow> Service" where
  "svc_of_row r =
    \<lparr>svc_apiVersion = ''v1'', svc_kind = ''Service'',
     svc_metadata = unmarshal dec_Metadata (srow_metadata_json r) zero_Metadata,
     svc_spec = unmarshal dec_ServiceSpec (srow_spec_json r) zero_ServiceSpec,
     svc_status = unmarshal dec_ServiceStatus (srow_status_json r) zero_ServiceStatus\<rparr>"

definition GetService :: "driver \<Rightarrow> store \<Rightarrow> string \<Rightarrow> err + Service" where
  "GetService drv st name = query_row drv ''GetService'' (\<lambda>r. srow_name r = name) (t_services st) svc_of_row"

definition UpsertService :: "driver \<Rightarrow> time \<Rightarrow> Service \<Rightarrow> store \<Rightarrow> err + store" where
  "UpsertService drv now svc st =
    (let name = md_name (svc_metadata svc) in
     case GetService drv st name of
       Inr existing \<Rightarrow>
        (let svc = svc\<lparr>svc_spec := (svc_spec svc)\<lparr>svcspec_clusterIP := svcspec_clusterIP (svc_spec existing)\<rparr>, svc_status := svc_status existing\<rparr> in
         sql_exec drv ''UpsertService UPDATE'' (st\<lparr>t_services := sql_update (\<lambda>r. srow_name r = name)
            (\<lambda>r. r\<lparr>srow_namespace := nsOrDefault (md_namespace (svc_metadata svc)),
               srow_spec_json := enc_ServiceSpec (svc_spec svc),
               srow_metadata_json := enc_Metadata (svc_metadata svc),
               srow_status_json := enc_ServiceStatus (svc_status svc),
               srow_cluster_ip := svcspec_clusterIP (svc_spec svc),
               srow_last_updated := now\<rparr>) (t_services st)\<rparr>))
     | Inl e \<Rightarrow>
        (if e \<noteq> ErrNotFound then Inl e
         else let svc = svc\<lparr>svc_status := (svc_status svc)\<lparr>svcstatus_lastUpdated := now\<rparr>\<rparr> in
         map_result (\<lambda>T. st\<lparr>t_services := T\<rparr>) (sql_insert drv ''UpsertService INSERT'' srow_name
          \<lparr>srow_name = name, srow_namespace = nsOrDefault (md_namespace (svc_metadata svc)),
           srow_spec_json = enc_ServiceSpec (svc_spec svc),
           srow_metadata_json = enc_Metadata (svc_metadata svc),
           srow_status_json = enc_ServiceStatus (svc_status svc),
           srow_cluster_ip = svcspec_clusterIP (svc_spec svc),
           srow_created_at = now, srow_last_updated = now\<rparr> (t_services st))))"

definition ListServices :: "driver \<Rightarrow> store \<Rightarrow> err + Service list" where
  "ListServices drv st = query_rows drv ''ListServices'' (sql_order srow_created_at (t_services st)) svc_of_row"

text \<open>The set of allocated cluster IPs, as the list of the map's keys.\<close>

definition ListClusterIPs :: "driver \<Rightarrow> store \<Rightarrow> err + string list" where
  "ListClusterIPs drv st =
     query_rows drv ''ListClusterIPs'' (filter (\<lambda>r. srow_cluster_ip r \<noteq> []) (t_services st)) srow_cluster_ip"

text \<open>Deleting a service deletes the endpoints of the same name; an error of that second statement is dropped.\<close>

definition DeleteService :: "driver \<Rightarrow> string \<Rightarrow> store \<Rightarrow> err + store" where
  "DeleteService drv name st =
     map_result (\<lambda>st1. case drv ''DeleteService endpoints'' of Some _ \<Rightarrow> st1
         | None \<Rightarrow> st1\<lparr>t_endpoints := sql_delete (\<lambda>r. erow_name r = name) (t_endpoints st1)\<rparr>)
       (exec_affecting drv ''DeleteService'' (\<lambda>r. srow_name r = name) (t_services st)
         (st\<lparr>t_services := sql_delete (\<lambda>r. srow_name r = name) (t_services st)\<rparr>))"

section \<open>Endpoints\<close>

definition ep_of_row :: "ep_row \<Rightarrow> Endpoints" where
  "ep_of_row r =
    \<lparr>ep_apiVersion = ''v1'', ep_kind = ''Endpoints'',
     ep_metadata = unmarshal dec_Metadata (erow_metadata_json r) zero_Metadata,
     ep_subsets = unmarshal (dec_list dec_EndpointAddress zero_EndpointAddress) (erow_subsets_json r) [],
     ep_lastUpdated = erow_last_updated r\<rparr>"

definition UpsertEndpoints :: "driver \<Rightarrow> time \<Rightarrow> Endpoints \<Rightarrow> store \<Rightarrow> err + store" where
  "UpsertEndpoints drv now ep st =
     sql_exec drv ''UpsertEndpoints'' (st\<lparr>t_endpoints := sql_upsert erow_name
       (\<lambda>new old. old\<lparr>erow_namespace := erow_namespace new, erow_metadata_json := erow_metadata_json new,
          erow_subsets_json := erow_subsets_json new, erow_last_updated := erow_last_updated new\<rparr>)
       \<lparr>erow_name = md_name (ep_metadata ep), erow_namespace = nsOrDefault (md_namespace (ep_metadata ep)),
        erow_metadata_json = enc_Metadata (ep_metadata ep),
        erow_subsets_json = enc_list enc_EndpointAddress (ep_subsets ep), erow_last_updated = now\<rparr>
       (t_endpoints st)\<rparr>)"

definition GetEndpoints :: "driver \<Rightarrow> store \<Rightarrow> string \<Rightarrow> err + Endpoints" where
  "GetEndpoints drv st name = query_row drv ''GetEndpoints'' (\<lambda>r. erow_name r = name) (t_endpoints st) ep_of_row"

definition ListEndpoints :: "driver \<Rightarrow> store \<Rightarrow> err + Endpoints list" where
  "ListEndpoints drv st = query_rows drv ''ListEndpoints'' (sql_order erow_last_updated (t_endpoints st)) ep_of_row"

section \<open>Nodes\<close>

definition node_of_row :: "node_row \<Rightarrow> Node" where
  "node_of_row r =
    \<lparr>node_apiVersion = ''v1'', node_kind = ''Node'',
     node_metadata = unmarshal dec_Metadata (nrow_metadata_json r) zero_Metadata,
     node_status = unmarshal dec_NodeStatus (nrow_status_json r) zero_NodeStatus\<rparr>"

definition UpsertNode :: "driver \<Rightarrow> time \<Rightarrow> Node \<Rightarrow> store \<Rightarrow> err + store" where
  "UpsertNode drv now n st =
     (let n = n\<lparr>node_status := (node_status n)\<lparr>ns_lastHeartbeat := now\<rparr>\<rparr> in
      sql_exec drv ''UpsertNode'' (st\<lparr>t_nodes := sql_upsert nrow_name
       (\<lambda>new old. old\<lparr>nrow_metadata_json := nrow_metadata_json new, nrow_status_json := nrow_status_json new,
          nrow_last_heartbeat := nrow_last_heartbeat new\<rparr>)
       \<lparr>nrow_name = md_name (node_metadata n), nrow_metadata_json = enc_Metadata (node_metadata n),
        nrow_status_json = enc_NodeStatus (node_status n), nrow_created_at = now, nrow_last_heartbeat = now\<rparr>
       (t_nodes st)\<rparr>))"

definition GetNode :: "driver \<Rightarrow> store \<Rightarrow> string \<Rightarrow> err + Node" where
  "GetNode drv st name = query_row drv ''GetNode'' (\<lambda>r. nrow_name r = name) (t_nodes st) node_of_row"

definition ListNodes :: "driver \<Rightarrow> store \<Rightarrow> err + Node list" where
  "ListNodes drv st = query_rows drv ''ListNodes'' (sql_order nrow_created_at (t_nodes st)) node_of_row"

definition DeleteNode :: "driver \<Rightarrow> string \<Rightarrow> store \<Rightarrow> err + store" where
  "DeleteNode drv name st =
     exec_affecting drv ''DeleteNode'' (\<lambda>r. nrow_name r = name) (t_nodes st)
       (st\<lparr>t_nodes := sql_delete (\<lambda>r. nrow_name r = name) (t_nodes st)\<rparr>)"

end
