(* ===== verification/Store_Ext.thy ===== *)
theory Store_Ext
  imports Store_Core
begin

text \<open>
  internal/store/store.go from the CRDs on, and store_m6.go: custom resource definitions and
  their instances, users, roles, role bindings, webhooks, autoscalers, network policies,
  clusters and federated deployments, in the style of Store_Core.
\<close>


section \<open>Custom resource definitions\<close>

definition crd_of_row :: "crd_row \<Rightarrow> CRD" where
  "crd_of_row r =
    \<lparr>crd_apiVersion = ''mk.io/v1'', crd_kind = ''CustomResourceDefinition'',
     crd_metadata = unmarshal dec_Metadata (crow_metadata_json r) zero_Metadata,
     crd_spec = unmarshal dec_CRDSpec (crow_spec_json r) zero_CRDSpec\<rparr>"

text \<open>\<open>GetCRDByPlural\<close> and \<open>ListCRDs\<close> also overwrite the name by the row's.\<close>

definition named_crd_of_row :: "crd_row \<Rightarrow> CRD" where
  "named_crd_of_row r =
    (let c = crd_of_row r in c\<lparr>crd_metadata := (crd_metadata c)\<lparr>md_name := crow_name r\<rparr>\<rparr>)"

definition UpsertCRD :: "driver \<Rightarrow> time \<Rightarrow> CRD \<Rightarrow> store \<Rightarrow> err + store" where
  "UpsertCRD drv now c st =
     sql_exec drv ''UpsertCRD'' (st\<lparr>t_crds := sql_upsert crow_name
       (\<lambda>new old. old\<lparr>crow_group_name := crow_group_name new, crow_version := crow_version new,
          crow_plural := crow_plural new, crow_kind := crow_kind new, crow_singular := crow_singular new,
          crow_scope := crow_scope new, crow_spec_json := crow_spec_json new,
          crow_metadata_json := crow_metadata_json new\<rparr>)
       \<lparr>crow_name = md_name (crd_metadata c), crow_group_name = crdspec_group (crd_spec c),
        crow_version = crdspec_version (crd_spec c), crow_plural = cn_plural (crdspec_names (crd_spec c)),
        crow_kind = cn_kind (crdspec_names (crd_spec c)), crow_singular = cn_singular (crdspec_names (crd_spec c)),
        crow_scope = crdspec_scope (crd_spec c), crow_spec_json = enc_CRDSpec (crd_spec c),
        crow_metadata_json = enc_Metadata (crd_metadata c), crow_created_at = now\<rparr>
       (t_crds st)\<rparr>)"

definition GetCRD :: "driver \<Rightarrow> store \<Rightarrow> string \<Rightarrow> err + CRD" where
  "GetCRD drv st name = query_row drv ''GetCRD'' (\<lambda>r. crow_name r = name) (t_crds st) crd_of_row"

text \<open>Without \<open>ORDER BY\<close>: the first row in rowid order.\<close>

definition GetCRDByPlural :: "driver \<Rightarrow> store \<Rightarrow> string \<Rightarrow> err + CRD" where
  "GetCRDByPlural drv st plural =
     query_row drv ''GetCRDByPlural'' (\<lambda>r. crow_plural r = plural) (t_crds st) named_crd_of_row"

definition ListCRDs :: "driver \<Rightarrow> store \<Rightarrow> err + CRD list" where
  "ListCRDs drv st = query_rows drv ''ListCRDs'' (sql_order crow_created_at (t_crds st)) named_crd_of_row"

definition DeleteCRD :: "driver \<Rightarrow> string \<Rightarrow> store \<Rightarrow> err + store" where
  "DeleteCRD drv name st =
     map_result (\<lambda>st1. case drv ''DeleteCRD custom_resources'' of Some _ \<Rightarrow> st1
         | None \<Rightarrow> st1\<lparr>t_custom_resources := sql_delete (\<lambda>r. xrow_crd_name r = name) (t_custom_resources st1)\<rparr>)
       (exec_affecting drv ''DeleteCRD'' (\<lambda>r. crow_name r = name) (t_crds st)
         (st\<lparr>t_crds := sql_delete (\<lambda>r. crow_name r = name) (t_crds st)\<rparr>))"

section \<open>Custom resources\<close>

text \<open>The whole object is the body column; the primary key is the pair of CRD name and name.\<close>

definition xrow_key :: "cr_row \<Rightarrow> string \<times> string" where
  "xrow_key r = (xrow_crd_name r, xrow_name r)"

definition cr_of_row :: "cr_row \<Rightarrow> CustomResource" where
  "cr_of_row r = unmarshal dec_CustomResource (xrow_body_json r) zero_CustomResource"

definition UpsertCustomResource :: "driver \<Rightarrow> time \<Rightarrow> string \<Rightarrow> CustomResource \<Rightarrow> store \<Rightarrow> err + store" where
  "UpsertCustomResource drv now crdName x st =
     sql_exec drv ''UpsertCustomResource'' (st\<lparr>t_custom_resources := sql_upsert xrow_key
       (\<lambda>new old. old\<lparr>xrow_namespace := xrow_namespace new, xrow_body_json := xrow_body_json new,
          xrow_last_updated := xrow_last_updated new\<rparr>)
       \<lparr>xrow_crd_name = crdName, xrow_name = md_name (cr_metadata x),
        xrow_namespace = nsOrDefault (md_namespace (cr_metadata x)), xrow_body_json = enc_CustomResource x,
        xrow_created_at = now, xrow_last_updated = now\<rparr>
       (t_custom_resources st)\<rparr>)"

definition GetCustomResource :: "driver \<Rightarrow> store \<Rightarrow> string \<Rightarrow> string \<Rightarrow> err + CustomResource" where
  "GetCustomResource drv st crdName name =
     query_row drv ''GetCustomResource'' (\<lambda>r. xrow_key r = (crdName, name)) (t_custom_resources st) cr_of_row"

definition ListCustomResources :: "driver \<Rightarrow> store \<Rightarrow> string \<Rightarrow> err + CustomResource list" where
  "ListCustomResources drv st crdName =
     query_rows drv ''ListCustomResources''
       (sql_order xrow_created_at (filter (\<lambda>r. xrow_crd_name r = crdName) (t_custom_resources st))) cr_of_row"

definition DeleteCustomResource :: "driver \<Rightarrow> string \<Rightarrow> string \<Rightarrow> store \<Rightarrow> err + store" where
  "DeleteCustomResource drv crdName name st =
     exec_affecting drv ''DeleteCustomResource'' (\<lambda>r. xrow_key r = (crdName, name)) (t_custom_resources st)
       (st\<lparr>t_custom_resources := sql_delete (\<lambda>r. xrow_key r = (crdName, name)) (t_custom_resources st)\<rparr>)"

section \<open>Users\<close>

definition user_of_row :: "user_row \<Rightarrow> User" where
  "user_of_row r =
    zero_User\<lparr>user_apiVersion := ''mk.io/v1'', user_kind := ''User'',
      user_metadata := zero_Metadata\<lparr>md_name := urow_name r\<rparr>, user_token := urow_token r,
      user_groups := unmarshal (dec_list dec_string []) (urow_groups_json r) []\<rparr>"

text \<open>The conflict clause covers the name only: a token of another user violates its \<open>UNIQUE\<close> constraint.\<close>

definition UpsertUser :: "driver \<Rightarrow> time \<Rightarrow> User \<Rightarrow> store \<Rightarrow> err + store" where
  "UpsertUser drv now u st =
    (case drv ''UpsertUser'' of Some e \<Rightarrow> Inl (ErrSql e)
     | None \<Rightarrow>
       (if sql_has (\<lambda>r. urow_token r = user_token u \<and> urow_name r \<noteq> md_name (user_metadata u)) (t_users st)
        then Inl constraint_failed
        else Inr (st\<lparr>t_users := sql_upsert urow_name
          (\<lambda>new old. old\<lparr>urow_token := urow_token new, urow_groups_json := urow_groups_json new\<rparr>)
          \<lparr>urow_name = md_name (user_metadata u), urow_token = user_token u,
           urow_groups_json = enc_list JStr (user_groups u), urow_created_at = now\<rparr>
          (t_users st)\<rparr>)))"

definition GetUserByToken :: "driver \<Rightarrow> store \<Rightarrow> string \<Rightarrow> err + User" where
  "GetUserByToken drv st token =
     query_row drv ''GetUserByToken'' (\<lambda>r. urow_token r = token) (t_users st) user_of_row"

definition ListUsers :: "driver \<Rightarrow> store \<Rightarrow> err + User list" where
  "ListUsers drv st = query_rows drv ''ListUsers'' (sql_order urow_created_at (t_users st)) user_of_row"

definition DeleteUser :: "driver \<Rightarrow> string \<Rightarrow> store \<Rightarrow> err + store" where
  "DeleteUser drv name st =
     exec_affecting drv ''DeleteUser'' (\<lambda>r. urow_name r = name) (t_users st)
       (st\<lparr>t_users := sql_delete (\<lambda>r. urow_name r = name) (t_users st)\<rparr>)"

section \<open>Roles and role bindings\<close>

text \<open>Keyed by scope and name, where the scope is Role or ClusterRole (RoleBinding or ClusterRoleBinding).\<close>

definition rrow_key :: "role_row \<Rightarrow> string \<times> string" where
  "rrow_key r = (rrow_scope r, rrow_name r)"

definition role_of_row :: "string \<Rightarrow> role_row \<Rightarrow> Role" where
  "role_of_row scope r =
    \<lparr>role_apiVersion = ''rbac.mk.io/v1'', role_kind = scope,
     role_metadata = unmarshal dec_Metadata (rrow_metadata_json r) zero_Metadata,
     role_rules = unmarshal (dec_list dec_PolicyRule zero_PolicyRule) (rrow_rules_json r) []\<rparr>"

definition UpsertRole :: "driver \<Rightarrow> time \<Rightarrow> string \<Rightarrow> Role \<Rightarrow> store \<Rightarrow> err + store" where
  "UpsertRole drv now scope r st =
     sql_exec drv ''UpsertRole'' (st\<lparr>t_roles := sql_upsert rrow_key
       (\<lambda>new old. old\<lparr>rrow_namespace := rrow_namespace new, rrow_rules_json := rrow_rules_json new,
          rrow_metadata_json := rrow_metadata_json new\<rparr>)
       \<lparr>rrow_name = md_name (role_metadata r), rrow_scope = scope,
        rrow_namespace = nsOrDefault (md_namespace (role_metadata r)),
        rrow_rules_json = enc_list enc_PolicyRule (role_rules r),
        rrow_metadata_json = enc_Metadata (role_metadata r), rrow_created_at = now\<rparr>
       (t_roles st)\<rparr>)"

definition GetRole :: "driver \<Rightarrow> store \<Rightarrow> string \<Rightarrow> string \<Rightarrow> err + Role" where
  "GetRole drv st scope name =
     query_row drv ''GetRole'' (\<lambda>r. rrow_key r = (scope, name)) (t_roles st) (role_of_row scope)"

definition ListRoles :: "driver \<Rightarrow> store \<Rightarrow> string \<Rightarrow> err + Role list" where
  "ListRoles drv st scope =
     query_rows drv ''ListRoles''
       (sql_order rrow_created_at (filter (\<lambda>r. rrow_scope r = scope) (t_roles st))) (role_of_row scope)"

definition DeleteRole :: "driver \<Rightarrow> string \<Rightarrow> string \<Rightarrow> store \<Rightarrow> err + store" where
  "DeleteRole drv scope name st =
     exec_affecting drv ''DeleteRole'' (\<lambda>r. rrow_key r = (scope, name)) (t_roles st)
       (st\<lparr>t_roles := sql_delete (\<lambda>r. rrow_key r = (scope, name)) (t_roles st)\<rparr>)"

definition brow_key :: "rb_row \<Rightarrow> string \<times> string" where
  "brow_key r = (brow_scope r, brow_name r)"

definition rb_of_row :: "string \<Rightarrow> rb_row \<Rightarrow> RoleBinding" where
  "rb_of_row scope r =
    \<lparr>rb_apiVersion = ''rbac.mk.io/v1'', rb_kind = scope,
     rb_metadata = unmarshal dec_Metadata (brow_metadata_json r) zero_Metadata,
     rb_subjects = unmarshal (dec_list dec_Subject zero_Subject) (brow_subjects_json r) [],
     rb_roleRef = unmarshal dec_RoleRef (brow_roleref_json r) zero_RoleRef\<rparr>"

definition UpsertRoleBinding :: "driver \<Rightarrow> time \<Rightarrow> string \<Rightarrow> RoleBinding \<Rightarrow> store \<Rightarrow> err + store" where
  "UpsertRoleBinding drv now scope b st =
     sql_exec drv ''UpsertRoleBinding'' (st\<lparr>t_role_bindings := sql_upsert brow_key
       (\<lambda>new old. old\<lparr>brow_namespace := brow_namespace new, brow_subjects_json := brow_subjects_json new,
          brow_roleref_json := brow_roleref_json new, brow_metadata_json := brow_metadata_json new\<rparr>)
       \<lparr>brow_name = md_name (rb_metadata b), brow_scope = scope,
        brow_namespace = nsOrDefault (md_namespace (rb_metadata b)),
        brow_subjects_json = enc_list enc_Subject (rb_subjects b),
        brow_roleref_json = enc_RoleRef (rb_roleRef b),
        brow_metadata_json = enc_Metadata (rb_metadata b), brow_created_at = now\<rparr>
       (t_role_bindings st)\<rparr>)"

definition ListRoleBindings :: "driver \<Rightarrow> store \<Rightarrow> string \<Rightarrow> err + RoleBinding list" where
  "ListRoleBindings drv st scope =
     query_rows drv ''ListRoleBindings''
       (sql_order brow_created_at (filter (\<lambda>r. brow_scope r = scope) (t_role_bindings st))) (rb_of_row scope)"

definition DeleteRoleBinding :: "driver \<Rightarrow> string \<Rightarrow> string \<Rightarrow> store \<Rightarrow> err + store" where
  "DeleteRoleBinding drv scope name st =
     exec_affecting drv ''DeleteRoleBinding'' (\<lambda>r. brow_key r = (scope, name)) (t_role_bindings st)
       (st\<lparr>t_role_bindings := sql_delete (\<lambda>r. brow_key r = (scope, name)) (t_role_bindings st)\<rparr>)"

section \<open>Admission webhooks\<close>

definition wh_of_row :: "wh_row \<Rightarrow> AdmissionWebhook" where
  "wh_of_row r =
    zero_AdmissionWebhook\<lparr>wh_apiVersion := ''admission.mk.io/v1'', wh_kind := ''AdmissionWebhook'',
      wh_metadata := zero_Metadata\<lparr>md_name := wrow_name r\<rparr>, wh_type := wrow_type r, wh_URL := wrow_url r,
      wh_failurePolicy := wrow_failure_policy r,
      wh_resources := unmarshal (dec_list dec_string []) (wrow_resources_json r) []\<rparr>"

text \<open>Returns the webhook too: the default failure policy is written through the caller's pointer.\<close>

definition UpsertWebhook :: "driver \<Rightarrow> time \<Rightarrow> AdmissionWebhook \<Rightarrow> store \<Rightarrow> err + (AdmissionWebhook \<times> store)" where
  "UpsertWebhook drv now w st =
    (let w = (if wh_failurePolicy w = [] then w\<lparr>wh_failurePolicy := ''Fail''\<rparr> else w) in
     sql_exec drv ''UpsertWebhook'' (w, st\<lparr>t_admission_webhooks := sql_upsert wrow_name
       (\<lambda>new old. old\<lparr>wrow_type := wrow_type new, wrow_url := wrow_url new,
          wrow_resources_json := wrow_resources_json new, wrow_failure_policy := wrow_failure_policy new\<rparr>)
       \<lparr>wrow_name = md_name (wh_metadata w), wrow_type = wh_type w, wrow_url = wh_URL w,
        wrow_resources_json = enc_list JStr (wh_resources w), wrow_failure_policy = wh_failurePolicy w,
        wrow_created_at = now\<rparr>
       (t_admission_webhooks st)\<rparr>))"

definition ListWebhooks :: "driver \<Rightarrow> store \<Rightarrow> err + AdmissionWebhook list" where
  "ListWebhooks drv st = query_rows drv ''ListWebhooks'' (sql_order wrow_created_at (t_admission_webhooks st)) wh_of_row"

definition DeleteWebhook :: "driver \<Rightarrow> string \<Rightarrow> store \<Rightarrow> err + store" where
  "DeleteWebhook drv name st =
     exec_affecting drv ''DeleteWebhook'' (\<lambda>r. wrow_name r = name) (t_admission_webhooks st)
       (st\<lparr>t_admission_webhooks := sql_delete (\<lambda>r. wrow_name r = name) (t_admission_webhooks st)\<rparr>)"

section \<open>Autoscalers\<close>

definition hpa_of_row :: "obj_row \<Rightarrow> HPA" where
  "hpa_of_row r =
    \<lparr>hpa_apiVersion = ''autoscaling.mk.io/v1'', hpa_kind = ''HorizontalPodAutoscaler'',
     hpa_metadata = unmarshal dec_Metadata (orow_metadata_json r) zero_Metadata,
     hpa_spec = unmarshal dec_HPASpec (orow_spec_json r) zero_HPASpec,
     hpa_status = unmarshal dec_HPAStatus (orow_status_json r) zero_HPAStatus\<rparr>"

definition GetHPA :: "driver \<Rightarrow> store \<Rightarrow> string \<Rightarrow> err + HPA" where
  "GetHPA drv st name = query_row drv ''GetHPA'' (\<lambda>r. orow_name r = name) (t_hpas st) hpa_of_row"

text \<open>Any error of the lookup, not only a missing row, leaves the given status.\<close>

definition UpsertHPA :: "driver \<Rightarrow> time \<Rightarrow> HPA \<Rightarrow> store \<Rightarrow> err + store" where
  "UpsertHPA drv now hpa st =
    (let hpa = (case GetHPA drv st (md_name (hpa_metadata hpa)) of
                  Inr existing \<Rightarrow> hpa\<lparr>hpa_status := hpa_status existing\<rparr> | Inl _ \<Rightarrow> hpa) in
     sql_exec drv ''UpsertHPA'' (st\<lparr>t_hpas := sql_upsert orow_name
       (\<lambda>new old. old\<lparr>orow_namespace := orow_namespace new, orow_spec_json := orow_spec_json new,
          orow_metadata_json := orow_metadata_json new, orow_status_json := orow_status_json new,
          orow_last_updated := orow_last_updated new\<rparr>)
       \<lparr>orow_name = md_name (hpa_metadata hpa), orow_namespace = nsOrDefault (md_namespace (hpa_metadata hpa)),
        orow_spec_json = enc_HPASpec (hpa_spec hpa), orow_metadata_json = enc_Metadata (hpa_metadata hpa),
        orow_status_json = enc_HPAStatus (hpa_status hpa), orow_created_at = now, orow_last_updated = now\<rparr>
       (t_hpas st)\<rparr>))"

definition ListHPAs :: "driver \<Rightarrow> store \<Rightarrow> err + HPA list" where
  "ListHPAs drv st = query_rows drv ''ListHPAs'' (sql_order orow_created_at (t_hpas st)) hpa_of_row"

definition UpdateHPAStatus :: "driver \<Rightarrow> time \<Rightarrow> string \<Rightarrow> HPAStatus \<Rightarrow> store \<Rightarrow> err + store" where
  "UpdateHPAStatus drv now name status st =
     (let status = status\<lparr>hpastatus_lastUpdated := now\<rparr> in
      exec_affecting drv ''UpdateHPAStatus'' (\<lambda>r. orow_name r = name) (t_hpas st)
        (st\<lparr>t_hpas := sql_update (\<lambda>r. orow_name r = name)
          (\<lambda>r. r\<lparr>orow_status_json := enc_HPAStatus status, orow_last_updated := now\<rparr>) (t_hpas st)\<rparr>))"

definition DeleteHPA :: "driver \<Rightarrow> string \<Rightarrow> store \<Rightarrow> err + store" where
  "DeleteHPA drv name st =
     exec_affecting drv ''DeleteHPA'' (\<lambda>r. orow_name r = name) (t_hpas st)
       (st\<lparr>t_hpas := sql_delete (\<lambda>r. orow_name r = name) (t_hpas st)\<rparr>)"

section \<open>Network policies\<close>

definition np_of_row :: "np_row \<Rightarrow> NetworkPolicy" where
  "np_of_row r =
    \<lparr>np_apiVersion = ''networking.mk.io/v1'', np_kind = ''NetworkPolicy'',
     np_metadata = unmarshal dec_Metadata (nprow_metadata_json r) zero_Metadata,
     np_spec = unmarshal dec_NetPolSpec (nprow_spec_json r) zero_NetPolSpec\<rparr>"

definition UpsertNetworkPolicy :: "driver \<Rightarrow> time \<Rightarrow> NetworkPolicy \<Rightarrow> store \<Rightarrow> err + store" where
  "UpsertNetworkPolicy drv now np st =
     sql_exec drv ''UpsertNetworkPolicy'' (st\<lparr>t_network_policies := sql_upsert nprow_name
       (\<lambda>new old. old\<lparr>nprow_namespace := nprow_namespace new, nprow_spec_json := nprow_spec_json new,
          nprow_metadata_json := nprow_metadata_json new, nprow_last_updated := nprow_last_updated new\<rparr>)
       \<lparr>nprow_name = md_name (np_metadata np), nprow_namespace = nsOrDefault (md_namespace (np_metadata np)),
        nprow_spec_json = enc_NetPolSpec (np_spec np), nprow_metadata_json = enc_Metadata (np_metadata np),
        nprow_created_at = now, nprow_last_updated = now\<rparr>
       (t_network_policies st)\<rparr>)"

definition GetNetworkPolicy :: "driver \<Rightarrow> store \<Rightarrow> string \<Rightarrow> err + NetworkPolicy" where
  "GetNetworkPolicy drv st name = query_row drv ''GetNetworkPolicy'' (\<lambda>r. nprow_name r = name) (t_network_policies st) np_of_row"

definition ListNetworkPolicies :: "driver \<Rightarrow> store \<Rightarrow> err + NetworkPolicy list" where
  "ListNetworkPolicies drv st = query_rows drv ''ListNetworkPolicies'' (sql_order nprow_created_at (t_network_policies st)) np_of_row"

definition DeleteNetworkPolicy :: "driver \<Rightarrow> string \<Rightarrow> store \<Rightarrow> err + store" where
  "DeleteNetworkPolicy drv name st =
     exec_affecting drv ''DeleteNetworkPolicy'' (\<lambda>r. nprow_name r = name) (t_network_policies st)
       (st\<lparr>t_network_policies := sql_delete (\<lambda>r. nprow_name r = name) (t_network_policies st)\<rparr>)"

section \<open>Clusters\<close>

definition cl_of_row :: "cl_row \<Rightarrow> Cluster" where
  "cl_of_row r =
    \<lparr>cl_apiVersion = ''federation.mk.io/v1'', cl_kind = ''Cluster'',
     cl_metadata = unmarshal dec_Metadata (clrow_metadata_json r) zero_Metadata,
     cl_spec = unmarshal dec_ClusterSpec (clrow_spec_json r) zero_ClusterSpec,
     cl_status = unmarshal dec_ClusterStatus (clrow_status_json r) zero_ClusterStatus\<rparr>"

text \<open>Unlike the other kinds with a status, an upsert replaces the status as well.\<close>

definition UpsertCluster :: "driver \<Rightarrow> time \<Rightarrow> Cluster \<Rightarrow> store \<Rightarrow> err + store" where
  "UpsertCluster drv now c st =
     sql_exec drv ''UpsertCluster'' (st\<lparr>t_clusters := sql_upsert clrow_name
       (\<lambda>new old. old\<lparr>clrow_spec_json := clrow_spec_json new, clrow_metadata_json := clrow_metadata_json new,
          clrow_status_json := clrow_status_json new, clrow_last_updated := clrow_last_updated new\<rparr>)
       \<lparr>clrow_name = md_name (cl_metadata c), clrow_spec_json = enc_ClusterSpec (cl_spec c),
        clrow_metadata_json = enc_Metadata (cl_metadata c), clrow_status_json = enc_ClusterStatus (cl_status c),
        clrow_created_at = now, clrow_last_updated = now\<rparr>
       (t_clusters st)\<rparr>)"

definition GetCluster :: "driver \<Rightarrow> store \<Rightarrow> string \<Rightarrow> err + Cluster" where
  "GetCluster drv st name = query_row drv ''GetCluster'' (\<lambda>r. clrow_name r = name) (t_clusters st) cl_of_row"

definition ListClusters :: "driver \<Rightarrow> store \<Rightarrow> err + Cluster list" where
  "ListClusters drv st = query_rows drv ''ListClusters'' (sql_order clrow_created_at (t_clusters st)) cl_of_row"

definition UpdateClusterStatus :: "driver \<Rightarrow> time \<Rightarrow> string \<Rightarrow> ClusterStatus \<Rightarrow> store \<Rightarrow> err + store" where
  "UpdateClusterStatus drv now name status st =
     (let status = status\<lparr>clstatus_lastHeartbeat := now\<rparr> in
      exec_affecting drv ''UpdateClusterStatus'' (\<lambda>r. clrow_name r = name) (t_clusters st)
        (st\<lparr>t_clusters := sql_update (\<lambda>r. clrow_name r = name)
          (\<lambda>r. r\<lparr>clrow_status_json := enc_ClusterStatus status, clrow_last_updated := now\<rparr>) (t_clusters st)\<rparr>))"

definition DeleteCluster :: "driver \<Rightarrow> string \<Rightarrow> store \<Rightarrow> err + store" where
  "DeleteCluster drv name st =
     exec_affecting drv ''DeleteCluster'' (\<lambda>r. clrow_name r = name) (t_clusters st)
       (st\<lparr>t_clusters := sql_delete (\<lambda>r. clrow_name r = name) (t_clusters st)\<rparr>)"

section \<open>Federated deployments\<close>

definition fd_of_row :: "obj_row \<Rightarrow> FederatedDeployment" where
  "fd_of_row r =
    \<lparr>fd_apiVersion = ''federation.mk.io/v1'', fd_kind = ''FederatedDeployment'',
     fd_metadata = unmarshal dec_Metadata (orow_metadata_json r) zero_Metadata,
     fd_spec = unmarshal dec_FederatedDeploymentSpec (orow_spec_json r) zero_FederatedDeploymentSpec,
     fd_status = unmarshal dec_FederatedDeploymentStatus (orow_status_json r) zero_FederatedDeploymentStatus\<rparr>"

definition GetFederatedDeployment :: "driver \<Rightarrow> store \<Rightarrow> string \<Rightarrow> err + FederatedDeployment" where
  "GetFederatedDeployment drv st name = query_row drv ''GetFederatedDeployment'' (\<lambda>r. orow_name r = name) (t_federated_deployments st) fd_of_row"

definition UpsertFederatedDeployment :: "driver \<Rightarrow> time \<Rightarrow> FederatedDeployment \<Rightarrow> store \<Rightarrow> err + store" where
  "UpsertFederatedDeployment drv now fd st =
    (let fd = (case GetFederatedDeployment drv st (md_name (fd_metadata fd)) of
                  Inr existing \<Rightarrow> fd\<lparr>fd_status := fd_status existing\<rparr> | Inl _ \<Rightarrow> fd) in
     sql_exec drv ''UpsertFederatedDeployment'' (st\<lparr>t_federated_deployments := sql_upsert orow_name
       (\<lambda>new old. old\<lparr>orow_namespace := orow_namespace new, orow_spec_json := orow_spec_json new,
          orow_metadata_json := orow_metadata_json new, orow_status_json := orow_status_json new,
          orow_last_updated := orow_last_updated new\<rparr>)
       \<lparr>orow_name = md_name (fd_metadata fd), orow_namespace = nsOrDefault (md_namespace (fd_metadata fd)),
        orow_spec_json = enc_FederatedDeploymentSpec (fd_spec fd), orow_metadata_json = enc_Metadata (fd_metadata fd),
        orow_status_json = enc_FederatedDeploymentStatus (fd_status fd), orow_created_at = now, orow_last_updated = now\<rparr>
       (t_federated_deployments st)\<rparr>))"

definition ListFederatedDeployments :: "driver \<Rightarrow> store \<Rightarrow> err + FederatedDeployment list" where
  "ListFederatedDeployments drv st = query_rows drv ''ListFederatedDeployments'' (sql_order orow_created_at (t_federated_deployments st)) fd_of_row"

definition UpdateFederatedDeploymentStatus :: "driver \<Rightarrow> time \<Rightarrow> string \<Rightarrow> FederatedDeploymentStatus \<Rightarrow> store \<Rightarrow> err + store" where
  "UpdateFederatedDeploymentStatus drv now name status st =
     (let status = status\<lparr>fdstatus_lastUpdated := now\<rparr> in
      exec_affecting drv ''UpdateFederatedDeploymentStatus'' (\<lambda>r. orow_name r = name) (t_federated_deployments st)
        (st\<lparr>t_federated_deployments := sql_update (\<lambda>r. orow_name r = name)
          (\<lambda>r. r\<lparr>orow_status_json := enc_FederatedDeploymentStatus status, orow_last_updated := now\<rparr>) (t_federated_deployments st)\<rparr>))"

definition DeleteFederatedDeployment :: "driver \<Rightarrow> string \<Rightarrow> store \<Rightarrow> err + store" where
  "DeleteFederatedDeployment drv name st =
     exec_affecting drv ''DeleteFederatedDeployment'' (\<lambda>r. orow_name r = name) (t_federated_deployments st)
       (st\<lparr>t_federated_deployments := sql_delete (\<lambda>r. orow_name r = name) (t_federated_deployments st)\<rparr>)"

end
