(* ===== verification/Store_Contracts.thy ===== *)
theory Store_Contracts
  imports Store_Ext
begin

text \<open>
  The tables of the store satisfy the contracts of Object_Store: each kind is an instance of
  \<open>object_store\<close>, and the kinds whose upsert preserves the status are instances of
  \<open>status_store\<close>. The invariant of a table is that its primary key is unique and, where an
  upsert decodes and encodes the old status again, that the status column holds a well-formed
  status. Keys are names, or pairs of scope (CRD) and name.
\<close>

lemma is_ok_map_result [simp]: "is_ok (map_result f r) = is_ok r"
  by (cases r) simp_all

definition status_cols :: "('a \<Rightarrow> json) \<Rightarrow> ('a \<Rightarrow> bool) \<Rightarrow> ('r \<Rightarrow> json) \<Rightarrow> 'r list \<Rightarrow> bool" where
  "status_cols enc good col T \<longleftrightarrow> (\<forall>r \<in> set T. json_col enc good (col r))"

lemma status_cols_Nil [simp]: "status_cols enc good col []"
  by (simp add: status_cols_def)

lemma status_cols_snoc [keys_intros]:
  "status_cols enc good col T \<Longrightarrow> json_col enc good (col r) \<Longrightarrow> status_cols enc good col (T @ [r])"
  by (simp add: status_cols_def)

lemma status_cols_update [keys_intros]:
  "status_cols enc good col T \<Longrightarrow> (\<And>r. r \<in> set T \<Longrightarrow> p r \<Longrightarrow> json_col enc good (col (f r))) \<Longrightarrow>
   status_cols enc good col (sql_update p f T)"
  by (auto simp: status_cols_def sql_update_def)

lemma status_cols_delete [keys_intros]: "status_cols enc good col T \<Longrightarrow> status_cols enc good col (sql_delete p T)"
  by (auto simp: status_cols_def sql_delete_def)

lemma status_cols_upsert [keys_intros]:
  "status_cols enc good col T \<Longrightarrow> json_col enc good (col new) \<Longrightarrow>
   (\<And>r. col (merge new r) = col new \<or> col (merge new r) = col r) \<Longrightarrow>
   status_cols enc good col (sql_upsert key merge new T)"
  by (auto simp: sql_upsert_def intro!: status_cols_snoc status_cols_update) (auto simp: status_cols_def, metis)

lemma wf_ServiceSpec_clusterIP [simp]:
  "wf_ServiceSpec (s\<lparr>svcspec_clusterIP := v\<rparr>) = wf_ServiceSpec s"
  by (simp add: wf_ServiceSpec_def)

lemma pair_keys [simp]:
  "xrow_key \<lparr>xrow_crd_name = a, xrow_name = b, xrow_namespace = c, xrow_body_json = d,
     xrow_created_at = e, xrow_last_updated = f\<rparr> = (a, b)"
  "xrow_key (r\<lparr>xrow_namespace := u, xrow_body_json := v, xrow_last_updated := w\<rparr>) = xrow_key r"
  "rrow_key \<lparr>rrow_name = b, rrow_scope = a, rrow_namespace = c, rrow_rules_json = d,
     rrow_metadata_json = g, rrow_created_at = e\<rparr> = (a, b)"
  "rrow_key (r'\<lparr>rrow_namespace := u, rrow_rules_json := v, rrow_metadata_json := x\<rparr>) = rrow_key r'"
  "brow_key \<lparr>brow_name = b, brow_scope = a, brow_namespace = c, brow_subjects_json = d,
     brow_roleref_json = g, brow_metadata_json = h, brow_created_at = e\<rparr> = (a, b)"
  "brow_key (r''\<lparr>brow_namespace := u, brow_subjects_json := v, brow_roleref_json := y,
     brow_metadata_json := x\<rparr>) = brow_key r''"
  by (simp_all add: xrow_key_def rrow_key_def brow_key_def)

lemma status_cols_first:
  "status_cols enc good col T \<Longrightarrow> sql_first p T = Some r \<Longrightarrow> \<exists>x. good x \<and> col r = enc x"
  by (auto simp: status_cols_def json_col_def dest: sql_first_SomeD)


definition pod_table_ok :: "store \<Rightarrow> bool" where
  "pod_table_ok st \<longleftrightarrow> keys_ok prow_name (t_pods st)"

definition stored_pod :: "time \<Rightarrow> Pod option \<Rightarrow> Pod \<Rightarrow> Pod" where
  "stored_pod now old x = (let status = (case old of Some o' \<Rightarrow> pod_status o'
       | None \<Rightarrow> if ps_phase (pod_status x) = [] then (pod_status x)\<lparr>ps_phase := PhasePending\<rparr> else pod_status x)
     in x\<lparr>pod_apiVersion := ''v1'', pod_kind := ''Pod'', pod_status := status\<lparr>ps_lastUpdated := now\<rparr>\<rparr>)"

definition pod_key :: "Pod \<Rightarrow> string" where
  "pod_key x = md_name (pod_metadata x)"

lemma pod_put_ok: "is_ok (UpsertPod no_faults now x s)"
  by (auto simp: UpsertPod_def GetPod_def Let_def pod_key_def CreatePod_def split: option.splits)

lemma pod_put_get:
  assumes "pod_table_ok s" "wf_Pod x" "UpsertPod no_faults now x s = Inr s'"
  shows "GetPod no_faults s' k =
    (if k = pod_key x then Inr (stored_pod now (old_of (GetPod no_faults s k)) x) else GetPod no_faults s k)"
proof (cases "sql_first (\<lambda>r. prow_name r = pod_key x) (t_pods s)")
  case None
  with assms show ?thesis
    by (cases x) (auto simp: UpsertPod_def GetPod_def Let_def pod_key_def CreatePod_def sql_first_append sql_first_upsert
      wf_Pod_def stored_pod_def pod_of_row_def split: option.splits if_splits)
next
  case (Some r)
  with assms show ?thesis
    by (cases x) (auto simp: UpsertPod_def GetPod_def Let_def pod_key_def CreatePod_def sql_simps
      wf_Pod_def stored_pod_def pod_of_row_def split: option.splits if_splits)
qed

lemma pod_put_inv:
  assumes "pod_table_ok s" "wf_Pod x" "UpsertPod no_faults now x s = Inr s'"
  shows "pod_table_ok s'"
proof (cases "sql_first (\<lambda>r. prow_name r = pod_key x) (t_pods s)")
  case None
  with assms show ?thesis
    by (auto simp: UpsertPod_def GetPod_def Let_def pod_key_def CreatePod_def pod_table_ok_def
      wf_Pod_def intro!: keys_intros json_colI)
next
  case (Some r)
  with assms show ?thesis
    by (auto simp: UpsertPod_def GetPod_def Let_def pod_key_def CreatePod_def pod_table_ok_def pod_of_row_def
      wf_Pod_def intro!: keys_intros json_colI)
qed

interpretation pod_store: status_store "(GetPod no_faults)" "(UpsertPod no_faults now)"
  pod_key "stored_pod now" pod_table_ok wf_Pod "(DeletePod no_faults)"
  "(UpdateStatus no_faults now)" "(\<lambda>x. (pod_status x)\<lparr>ps_lastUpdated := 0\<rparr>)" "(\<lambda>t. t\<lparr>ps_lastUpdated := 0\<rparr>)" "(\<lambda>t x. x\<lparr>pod_status := t\<rparr>)" wf_PodStatus
  "(\<lambda>t. t\<lparr>ps_lastUpdated := now\<rparr>)" for now
proof (unfold_locales, goal_cases)
  case (1 s k e) then show ?case by (auto simp: UpsertPod_def GetPod_def Let_def pod_key_def CreatePod_def split: option.splits)
next
  case (2 s x) then show ?case by (simp add: pod_put_ok)
next
  case (3 s x s' k) then show ?case by (simp add: pod_put_get)
next
  case (4 s x s') then show ?case by (simp add: pod_put_inv)
next
  case (5 s k) then show ?case by (auto simp: GetPod_def DeletePod_def split: option.splits)
next
  case (6 s k x) then show ?case by (auto simp: GetPod_def DeletePod_def split: option.splits)
next
  case (7 s k s' k') then show ?case
    by (auto simp: GetPod_def DeletePod_def sql_simps split: option.splits if_splits)
next
  case (8 s k s') then show ?case
    by (auto simp: pod_table_ok_def DeletePod_def split: if_splits intro!: keys_intros)
next
  case (9 old x) then show ?case by (simp add: stored_pod_def Let_def)
next
  case (10 t x) then show ?case by simp
next
  case (11 s k t) then show ?case by (auto simp: GetPod_def UpdateStatus_def Let_def split: option.splits)
next
  case (12 s k x t) then show ?case by (auto simp: GetPod_def UpdateStatus_def Let_def split: option.splits)
next
  case (13 s t k s' k') then show ?case
    by (auto simp: GetPod_def UpdateStatus_def Let_def sql_simps pod_of_row_def wf_PodStatus_def
      split: option.splits if_splits)
next
  case (14 s t k s') then show ?case
    by (auto simp: pod_table_ok_def UpdateStatus_def Let_def wf_PodStatus_def split: if_splits intro!: keys_intros json_colI)
qed

definition rs_table_ok :: "store \<Rightarrow> bool" where
  "rs_table_ok st \<longleftrightarrow> keys_ok orow_name (t_replicasets st) \<and>
     status_cols enc_ReplicaSetStatus wf_ReplicaSetStatus orow_status_json (t_replicasets st)"

definition stored_rs :: "time \<Rightarrow> ReplicaSet option \<Rightarrow> ReplicaSet \<Rightarrow> ReplicaSet" where
  "stored_rs now old x = x\<lparr>rs_apiVersion := ''v1'', rs_kind := ''ReplicaSet'',
     rs_status := (case old of Some o' \<Rightarrow> rs_status o' | None \<Rightarrow> (rs_status x)\<lparr>rsstatus_lastUpdated := now\<rparr>)\<rparr>"

definition rs_key :: "ReplicaSet \<Rightarrow> string" where
  "rs_key x = md_name (rs_metadata x)"

lemma rs_put_ok: "is_ok (UpsertReplicaSet no_faults now x s)"
  by (auto simp: UpsertReplicaSet_def GetReplicaSet_def Let_def rs_key_def split: option.splits)

lemma rs_put_get:
  assumes "rs_table_ok s" "wf_ReplicaSet x" "UpsertReplicaSet no_faults now x s = Inr s'"
  shows "GetReplicaSet no_faults s' k =
    (if k = rs_key x then Inr (stored_rs now (old_of (GetReplicaSet no_faults s k)) x) else GetReplicaSet no_faults s k)"
proof (cases "sql_first (\<lambda>r. orow_name r = rs_key x) (t_replicasets s)")
  case None
  with assms show ?thesis
    by (cases x) (auto simp: UpsertReplicaSet_def GetReplicaSet_def Let_def rs_key_def sql_first_append sql_first_upsert
      wf_ReplicaSet_def wf_ReplicaSetStatus_def stored_rs_def rs_of_row_def split: option.splits if_splits)
next
  case (Some r)
  with assms obtain t where "wf_ReplicaSetStatus t" "orow_status_json r = enc_ReplicaSetStatus t"
    by (auto simp: rs_table_ok_def dest: status_cols_first)
  with assms Some show ?thesis
    by (cases x) (auto simp: UpsertReplicaSet_def GetReplicaSet_def Let_def rs_key_def sql_simps
      wf_ReplicaSet_def wf_ReplicaSetStatus_def stored_rs_def rs_of_row_def split: option.splits if_splits)
qed

lemma rs_put_inv:
  assumes "rs_table_ok s" "wf_ReplicaSet x" "UpsertReplicaSet no_faults now x s = Inr s'"
  shows "rs_table_ok s'"
proof (cases "sql_first (\<lambda>r. orow_name r = rs_key x) (t_replicasets s)")
  case None
  with assms show ?thesis
    by (auto simp: UpsertReplicaSet_def GetReplicaSet_def Let_def rs_key_def rs_table_ok_def
      wf_ReplicaSet_def wf_ReplicaSetStatus_def intro!: keys_intros json_colI)
next
  case (Some r)
  with assms obtain t where "wf_ReplicaSetStatus t" "orow_status_json r = enc_ReplicaSetStatus t"
    by (auto simp: rs_table_ok_def dest: status_cols_first)
  with assms Some show ?thesis
    by (auto simp: UpsertReplicaSet_def GetReplicaSet_def Let_def rs_key_def rs_table_ok_def rs_of_row_def
      wf_ReplicaSet_def wf_ReplicaSetStatus_def intro!: keys_intros json_colI)
qed

interpretation rs_store: status_store "(GetReplicaSet no_faults)" "(UpsertReplicaSet no_faults now)"
  rs_key "stored_rs now" rs_table_ok wf_ReplicaSet "(DeleteReplicaSet no_faults)"
  "(UpdateReplicaSetStatus no_faults now)" "rs_status" "(\<lambda>t. t)" "(\<lambda>t x. x\<lparr>rs_status := t\<rparr>)" wf_ReplicaSetStatus
  "(\<lambda>t. t\<lparr>rsstatus_lastUpdated := now\<rparr>)" for now
proof (unfold_locales, goal_cases)
  case (1 s k e) then show ?case by (auto simp: UpsertReplicaSet_def GetReplicaSet_def Let_def rs_key_def split: option.splits)
next
  case (2 s x) then show ?case by (simp add: rs_put_ok)
next
  case (3 s x s' k) then show ?case by (simp add: rs_put_get)
next
  case (4 s x s') then show ?case by (simp add: rs_put_inv)
next
  case (5 s k) then show ?case by (auto simp: GetReplicaSet_def DeleteReplicaSet_def split: option.splits)
next
  case (6 s k x) then show ?case by (auto simp: GetReplicaSet_def DeleteReplicaSet_def split: option.splits)
next
  case (7 s k s' k') then show ?case
    by (auto simp: GetReplicaSet_def DeleteReplicaSet_def sql_simps split: option.splits if_splits)
next
  case (8 s k s') then show ?case
    by (auto simp: rs_table_ok_def DeleteReplicaSet_def split: if_splits intro!: keys_intros)
next
  case (9 old x) then show ?case by (simp add: stored_rs_def Let_def)
next
  case (10 t x) then show ?case by simp
next
  case (11 s k t) then show ?case by (auto simp: GetReplicaSet_def UpdateReplicaSetStatus_def Let_def split: option.splits)
next
  case (12 s k x t) then show ?case by (auto simp: GetReplicaSet_def UpdateReplicaSetStatus_def Let_def split: option.splits)
next
  case (13 s t k s' k') then show ?case
    by (auto simp: GetReplicaSet_def UpdateReplicaSetStatus_def Let_def sql_simps rs_of_row_def wf_ReplicaSetStatus_def
      split: option.splits if_splits)
next
  case (14 s t k s') then show ?case
    by (auto simp: rs_table_ok_def UpdateReplicaSetStatus_def Let_def wf_ReplicaSetStatus_def split: if_splits intro!: keys_intros json_colI)
qed

definition dep_table_ok :: "store \<Rightarrow> bool" where
  "dep_table_ok st \<longleftrightarrow> keys_ok orow_name (t_deployments st) \<and>
     status_cols enc_DeploymentStatus wf_DeploymentStatus orow_status_json (t_deployments st)"

definition stored_dep :: "time \<Rightarrow> Deployment option \<Rightarrow> Deployment \<Rightarrow> Deployment" where
  "stored_dep now old x = x\<lparr>dep_apiVersion := ''apps/v1'', dep_kind := ''Deployment'',
     dep_status := (case old of Some o' \<Rightarrow> dep_status o' | None \<Rightarrow> (dep_status x)\<lparr>depstatus_lastUpdated := now\<rparr>)\<rparr>"

definition dep_key :: "Deployment \<Rightarrow> string" where
  "dep_key x = md_name (dep_metadata x)"

lemma dep_put_ok: "is_ok (UpsertDeployment no_faults now x s)"
  by (auto simp: UpsertDeployment_def GetDeployment_def Let_def dep_key_def split: option.splits)

lemma dep_put_get:
  assumes "dep_table_ok s" "wf_Deployment x" "UpsertDeployment no_faults now x s = Inr s'"
  shows "GetDeployment no_faults s' k =
    (if k = dep_key x then Inr (stored_dep now (old_of (GetDeployment no_faults s k)) x) else GetDeployment no_faults s k)"
proof (cases "sql_first (\<lambda>r. orow_name r = dep_key x) (t_deployments s)")
  case None
  with assms show ?thesis
    by (cases x) (auto simp: UpsertDeployment_def GetDeployment_def Let_def dep_key_def sql_first_append sql_first_upsert
      wf_Deployment_def wf_DeploymentStatus_def stored_dep_def dep_of_row_def split: option.splits if_splits)
next
  case (Some r)
  with assms obtain t where "wf_DeploymentStatus t" "orow_status_json r = enc_DeploymentStatus t"
    by (auto simp: dep_table_ok_def dest: status_cols_first)
  with assms Some show ?thesis
    by (cases x) (auto simp: UpsertDeployment_def GetDeployment_def Let_def dep_key_def sql_simps
      wf_Deployment_def wf_DeploymentStatus_def stored_dep_def dep_of_row_def split: option.splits if_splits)
qed

lemma dep_put_inv:
  assumes "dep_table_ok s" "wf_Deployment x" "UpsertDeployment no_faults now x s = Inr s'"
  shows "dep_table_ok s'"
proof (cases "sql_first (\<lambda>r. orow_name r = dep_key x) (t_deployments s)")
  case None
  with assms show ?thesis
    by (auto simp: UpsertDeployment_def GetDeployment_def Let_def dep_key_def dep_table_ok_def
      wf_Deployment_def wf_DeploymentStatus_def intro!: keys_intros json_colI)
next
  case (Some r)
  with assms obtain t where "wf_DeploymentStatus t" "orow_status_json r = enc_DeploymentStatus t"
    by (auto simp: dep_table_ok_def dest: status_cols_first)
  with assms Some show ?thesis
    by (auto simp: UpsertDeployment_def GetDeployment_def Let_def dep_key_def dep_table_ok_def dep_of_row_def
      wf_Deployment_def wf_DeploymentStatus_def intro!: keys_intros json_colI)
qed

interpretation dep_store: status_store "(GetDeployment no_faults)" "(UpsertDeployment no_faults now)"
  dep_key "stored_dep now" dep_table_ok wf_Deployment "(DeleteDeployment no_faults)"
  "(UpdateDeploymentStatus no_faults now)" "dep_status" "(\<lambda>t. t)" "(\<lambda>t x. x\<lparr>dep_status := t\<rparr>)" wf_DeploymentStatus
  "(\<lambda>t. t\<lparr>depstatus_lastUpdated := now\<rparr>)" for now
proof (unfold_locales, goal_cases)
  case (1 s k e) then show ?case by (auto simp: UpsertDeployment_def GetDeployment_def Let_def dep_key_def split: option.splits)
next
  case (2 s x) then show ?case by (simp add: dep_put_ok)
next
  case (3 s x s' k) then show ?case by (simp add: dep_put_get)
next
  case (4 s x s') then show ?case by (simp add: dep_put_inv)
next
  case (5 s k) then show ?case by (auto simp: GetDeployment_def DeleteDeployment_def split: option.splits)
next
  case (6 s k x) then show ?case by (auto simp: GetDeployment_def DeleteDeployment_def split: option.splits)
next
  case (7 s k s' k') then show ?case
    by (auto simp: GetDeployment_def DeleteDeployment_def sql_simps split: option.splits if_splits)
next
  case (8 s k s') then show ?case
    by (auto simp: dep_table_ok_def DeleteDeployment_def split: if_splits intro!: keys_intros)
next
  case (9 old x) then show ?case by (simp add: stored_dep_def Let_def)
next
  case (10 t x) then show ?case by simp
next
  case (11 s k t) then show ?case by (auto simp: GetDeployment_def UpdateDeploymentStatus_def Let_def split: option.splits)
next
  case (12 s k x t) then show ?case by (auto simp: GetDeployment_def UpdateDeploymentStatus_def Let_def split: option.splits)
next
  case (13 s t k s' k') then show ?case
    by (auto simp: GetDeployment_def UpdateDeploymentStatus_def Let_def sql_simps dep_of_row_def wf_DeploymentStatus_def
      split: option.splits if_splits)
next
  case (14 s t k s') then show ?case
    by (auto simp: dep_table_ok_def UpdateDeploymentStatus_def Let_def wf_DeploymentStatus_def split: if_splits intro!: keys_intros json_colI)
qed

definition svc_table_ok :: "store \<Rightarrow> bool" where
  "svc_table_ok st \<longleftrightarrow> keys_ok srow_name (t_services st) \<and>
     status_cols enc_ServiceStatus wf_ServiceStatus srow_status_json (t_services st)"

definition stored_svc :: "time \<Rightarrow> Service option \<Rightarrow> Service \<Rightarrow> Service" where
  "stored_svc now old x = (case old of
       Some o' \<Rightarrow> x\<lparr>svc_apiVersion := ''v1'', svc_kind := ''Service'', svc_status := svc_status o',
         svc_spec := (svc_spec x)\<lparr>svcspec_clusterIP := svcspec_clusterIP (svc_spec o')\<rparr>\<rparr>
     | None \<Rightarrow> x\<lparr>svc_apiVersion := ''v1'', svc_kind := ''Service'', svc_status := (svc_status x)\<lparr>svcstatus_lastUpdated := now\<rparr>\<rparr>)"

definition svc_key :: "Service \<Rightarrow> string" where
  "svc_key x = md_name (svc_metadata x)"

lemma svc_put_ok: "is_ok (UpsertService no_faults now x s)"
  by (auto simp: UpsertService_def GetService_def Let_def svc_key_def split: option.splits)

lemma svc_put_get:
  assumes "svc_table_ok s" "wf_Service x" "UpsertService no_faults now x s = Inr s'"
  shows "GetService no_faults s' k =
    (if k = svc_key x then Inr (stored_svc now (old_of (GetService no_faults s k)) x) else GetService no_faults s k)"
proof (cases "sql_first (\<lambda>r. srow_name r = svc_key x) (t_services s)")
  case None
  with assms show ?thesis
    by (cases x) (auto simp: UpsertService_def GetService_def Let_def svc_key_def sql_first_append sql_first_upsert
      wf_Service_def wf_ServiceStatus_def stored_svc_def svc_of_row_def split: option.splits if_splits)
next
  case (Some r)
  with assms obtain t where "wf_ServiceStatus t" "srow_status_json r = enc_ServiceStatus t"
    by (auto simp: svc_table_ok_def dest: status_cols_first)
  with assms Some show ?thesis
    by (cases x) (auto simp: UpsertService_def GetService_def Let_def svc_key_def sql_simps
      wf_Service_def wf_ServiceStatus_def stored_svc_def svc_of_row_def split: option.splits if_splits)
qed

lemma svc_put_inv:
  assumes "svc_table_ok s" "wf_Service x" "UpsertService no_faults now x s = Inr s'"
  shows "svc_table_ok s'"
proof (cases "sql_first (\<lambda>r. srow_name r = svc_key x) (t_services s)")
  case None
  with assms show ?thesis
    by (auto simp: UpsertService_def GetService_def Let_def svc_key_def svc_table_ok_def
      wf_Service_def wf_ServiceStatus_def intro!: keys_intros json_colI)
next
  case (Some r)
  with assms obtain t where "wf_ServiceStatus t" "srow_status_json r = enc_ServiceStatus t"
    by (auto simp: svc_table_ok_def dest: status_cols_first)
  with assms Some show ?thesis
    by (auto simp: UpsertService_def GetService_def Let_def svc_key_def svc_table_ok_def svc_of_row_def
      wf_Service_def wf_ServiceStatus_def intro!: keys_intros json_colI)
qed

interpretation svc_store: object_store "(GetService no_faults)" "(UpsertService no_faults now)"
  svc_key "stored_svc now" svc_table_ok wf_Service "(DeleteService no_faults)" for now
proof (unfold_locales, goal_cases)
  case (1 s k e) then show ?case by (auto simp: UpsertService_def GetService_def Let_def svc_key_def split: option.splits)
next
  case (2 s x) then show ?case by (simp add: svc_put_ok)
next
  case (3 s x s' k) then show ?case by (simp add: svc_put_get)
next
  case (4 s x s') then show ?case by (simp add: svc_put_inv)
next
  case (5 s k) then show ?case by (auto simp: GetService_def DeleteService_def split: option.splits)
next
  case (6 s k x) then show ?case by (auto simp: GetService_def DeleteService_def split: option.splits)
next
  case (7 s k s' k') then show ?case
    by (auto simp: GetService_def DeleteService_def sql_simps split: option.splits if_splits)
next
  case (8 s k s') then show ?case
    by (auto simp: svc_table_ok_def DeleteService_def split: if_splits intro!: keys_intros)
qed

definition ep_table_ok :: "store \<Rightarrow> bool" where
  "ep_table_ok st \<longleftrightarrow> keys_ok erow_name (t_endpoints st)"

definition stored_ep :: "time \<Rightarrow> Endpoints option \<Rightarrow> Endpoints \<Rightarrow> Endpoints" where
  "stored_ep now old x = x\<lparr>ep_apiVersion := ''v1'', ep_kind := ''Endpoints'', ep_lastUpdated := now\<rparr>"

definition ep_key :: "Endpoints \<Rightarrow> string" where
  "ep_key x = md_name (ep_metadata x)"

lemma ep_put_ok: "is_ok (UpsertEndpoints no_faults now x s)"
  by (auto simp: UpsertEndpoints_def GetEndpoints_def Let_def ep_key_def split: option.splits)

lemma ep_put_get:
  assumes "ep_table_ok s" "wf_Endpoints x" "UpsertEndpoints no_faults now x s = Inr s'"
  shows "GetEndpoints no_faults s' k =
    (if k = ep_key x then Inr (stored_ep now (old_of (GetEndpoints no_faults s k)) x) else GetEndpoints no_faults s k)"
proof (cases "sql_first (\<lambda>r. erow_name r = ep_key x) (t_endpoints s)")
  case None
  with assms show ?thesis
    by (cases x) (auto simp: UpsertEndpoints_def GetEndpoints_def Let_def ep_key_def sql_first_append sql_first_upsert
      wf_Endpoints_def stored_ep_def ep_of_row_def)
next
  case (Some r)
  with assms show ?thesis
    by (cases x) (auto simp: UpsertEndpoints_def GetEndpoints_def Let_def ep_key_def sql_simps
      wf_Endpoints_def stored_ep_def ep_of_row_def)
qed

lemma ep_put_inv:
  assumes "ep_table_ok s" "wf_Endpoints x" "UpsertEndpoints no_faults now x s = Inr s'"
  shows "ep_table_ok s'"
proof (cases "sql_first (\<lambda>r. erow_name r = ep_key x) (t_endpoints s)")
  case None
  with assms show ?thesis
    by (auto simp: UpsertEndpoints_def GetEndpoints_def Let_def ep_key_def ep_table_ok_def
      wf_Endpoints_def intro!: keys_intros json_colI)
next
  case (Some r)
  with assms show ?thesis
    by (auto simp: UpsertEndpoints_def GetEndpoints_def Let_def ep_key_def ep_table_ok_def ep_of_row_def
      wf_Endpoints_def intro!: keys_intros json_colI)
qed

interpretation ep_store: put_store "(GetEndpoints no_faults)" "(UpsertEndpoints no_faults now)"
  ep_key "stored_ep now" ep_table_ok wf_Endpoints  for now
proof (unfold_locales, goal_cases)
  case (1 s k e) then show ?case by (auto simp: UpsertEndpoints_def GetEndpoints_def Let_def ep_key_def split: option.splits)
next
  case (2 s x) then show ?case by (simp add: ep_put_ok)
next
  case (3 s x s' k) then show ?case by (simp add: ep_put_get)
next
  case (4 s x s') then show ?case by (simp add: ep_put_inv)
qed

definition node_table_ok :: "store \<Rightarrow> bool" where
  "node_table_ok st \<longleftrightarrow> keys_ok nrow_name (t_nodes st)"

definition stored_node :: "time \<Rightarrow> Node option \<Rightarrow> Node \<Rightarrow> Node" where
  "stored_node now old x = x\<lparr>node_apiVersion := ''v1'', node_kind := ''Node'', node_status := (node_status x)\<lparr>ns_lastHeartbeat := now\<rparr>\<rparr>"

definition node_key :: "Node \<Rightarrow> string" where
  "node_key x = md_name (node_metadata x)"

lemma node_put_ok: "is_ok (UpsertNode no_faults now x s)"
  by (auto simp: UpsertNode_def GetNode_def Let_def node_key_def split: option.splits)

lemma node_put_get:
  assumes "node_table_ok s" "wf_Node x" "UpsertNode no_faults now x s = Inr s'"
  shows "GetNode no_faults s' k =
    (if k = node_key x then Inr (stored_node now (old_of (GetNode no_faults s k)) x) else GetNode no_faults s k)"
proof (cases "sql_first (\<lambda>r. nrow_name r = node_key x) (t_nodes s)")
  case None
  with assms show ?thesis
    by (cases x) (auto simp: UpsertNode_def GetNode_def Let_def node_key_def sql_first_append sql_first_upsert
      wf_Node_def wf_NodeStatus_def stored_node_def node_of_row_def)
next
  case (Some r)
  with assms show ?thesis
    by (cases x) (auto simp: UpsertNode_def GetNode_def Let_def node_key_def sql_simps
      wf_Node_def wf_NodeStatus_def stored_node_def node_of_row_def)
qed

lemma node_put_inv:
  assumes "node_table_ok s" "wf_Node x" "UpsertNode no_faults now x s = Inr s'"
  shows "node_table_ok s'"
proof (cases "sql_first (\<lambda>r. nrow_name r = node_key x) (t_nodes s)")
  case None
  with assms show ?thesis
    by (auto simp: UpsertNode_def GetNode_def Let_def node_key_def node_table_ok_def
      wf_Node_def wf_NodeStatus_def intro!: keys_intros json_colI)
next
  case (Some r)
  with assms show ?thesis
    by (auto simp: UpsertNode_def GetNode_def Let_def node_key_def node_table_ok_def node_of_row_def
      wf_Node_def wf_NodeStatus_def intro!: keys_intros json_colI)
qed

interpretation node_store: object_store "(GetNode no_faults)" "(UpsertNode no_faults now)"
  node_key "stored_node now" node_table_ok wf_Node "(DeleteNode no_faults)" for now
proof (unfold_locales, goal_cases)
  case (1 s k e) then show ?case by (auto simp: UpsertNode_def GetNode_def Let_def node_key_def split: option.splits)
next
  case (2 s x) then show ?case by (simp add: node_put_ok)
next
  case (3 s x s' k) then show ?case by (simp add: node_put_get)
next
  case (4 s x s') then show ?case by (simp add: node_put_inv)
next
  case (5 s k) then show ?case by (auto simp: GetNode_def DeleteNode_def split: option.splits)
next
  case (6 s k x) then show ?case by (auto simp: GetNode_def DeleteNode_def split: option.splits)
next
  case (7 s k s' k') then show ?case
    by (auto simp: GetNode_def DeleteNode_def sql_simps split: option.splits if_splits)
next
  case (8 s k s') then show ?case
    by (auto simp: node_table_ok_def DeleteNode_def split: if_splits intro!: keys_intros)
qed

definition crd_table_ok :: "store \<Rightarrow> bool" where
  "crd_table_ok st \<longleftrightarrow> keys_ok crow_name (t_crds st)"

definition stored_crd :: "CRD option \<Rightarrow> CRD \<Rightarrow> CRD" where
  "stored_crd old x = x\<lparr>crd_apiVersion := ''mk.io/v1'', crd_kind := ''CustomResourceDefinition''\<rparr>"

definition crd_key :: "CRD \<Rightarrow> string" where
  "crd_key x = md_name (crd_metadata x)"

lemma crd_put_ok: "is_ok (UpsertCRD no_faults now x s)"
  by (auto simp: UpsertCRD_def GetCRD_def Let_def crd_key_def split: option.splits)

lemma crd_put_get:
  assumes "crd_table_ok s" "wf_CRD x" "UpsertCRD no_faults now x s = Inr s'"
  shows "GetCRD no_faults s' k =
    (if k = crd_key x then Inr (stored_crd (old_of (GetCRD no_faults s k)) x) else GetCRD no_faults s k)"
proof (cases "sql_first (\<lambda>r. crow_name r = crd_key x) (t_crds s)")
  case None
  with assms show ?thesis
    by (cases x) (auto simp: UpsertCRD_def GetCRD_def Let_def crd_key_def sql_first_append sql_first_upsert
      wf_CRD_def stored_crd_def crd_of_row_def)
next
  case (Some r)
  with assms show ?thesis
    by (cases x) (auto simp: UpsertCRD_def GetCRD_def Let_def crd_key_def sql_simps
      wf_CRD_def stored_crd_def crd_of_row_def)
qed

lemma crd_put_inv:
  assumes "crd_table_ok s" "wf_CRD x" "UpsertCRD no_faults now x s = Inr s'"
  shows "crd_table_ok s'"
proof (cases "sql_first (\<lambda>r. crow_name r = crd_key x) (t_crds s)")
  case None
  with assms show ?thesis
    by (auto simp: UpsertCRD_def GetCRD_def Let_def crd_key_def crd_table_ok_def
      wf_CRD_def intro!: keys_intros json_colI)
next
  case (Some r)
  with assms show ?thesis
    by (auto simp: UpsertCRD_def GetCRD_def Let_def crd_key_def crd_table_ok_def crd_of_row_def
      wf_CRD_def intro!: keys_intros json_colI)
qed

interpretation crd_store: object_store "(GetCRD no_faults)" "(UpsertCRD no_faults now)"
  crd_key "stored_crd" crd_table_ok wf_CRD "(DeleteCRD no_faults)" for now
proof (unfold_locales, goal_cases)
  case (1 s k e) then show ?case by (auto simp: UpsertCRD_def GetCRD_def Let_def crd_key_def split: option.splits)
next
  case (2 s x) then show ?case by (simp add: crd_put_ok)
next
  case (3 s x s' k) then show ?case by (simp add: crd_put_get)
next
  case (4 s x s') then show ?case by (simp add: crd_put_inv)
next
  case (5 s k) then show ?case by (auto simp: GetCRD_def DeleteCRD_def split: option.splits)
next
  case (6 s k x) then show ?case by (auto simp: GetCRD_def DeleteCRD_def split: option.splits)
next
  case (7 s k s' k') then show ?case
    by (auto simp: GetCRD_def DeleteCRD_def sql_simps split: option.splits if_splits)
next
  case (8 s k s') then show ?case
    by (auto simp: crd_table_ok_def DeleteCRD_def split: if_splits intro!: keys_intros)
qed

definition cr_table_ok :: "store \<Rightarrow> bool" where
  "cr_table_ok st \<longleftrightarrow> keys_ok xrow_key (t_custom_resources st)"

definition stored_cr :: "CustomResource option \<Rightarrow> CustomResource \<Rightarrow> CustomResource" where
  "stored_cr old x = x"

definition cr_key :: "CustomResource \<Rightarrow> string" where
  "cr_key x = md_name (cr_metadata x)"

lemma cr_put_ok: "is_ok (UpsertCustomResource no_faults now crdName x s)"
  by (auto simp: UpsertCustomResource_def GetCustomResource_def Let_def cr_key_def split: option.splits)

lemma cr_put_get:
  assumes "cr_table_ok s" "wf_CustomResource x" "UpsertCustomResource no_faults now crdName x s = Inr s'"
  shows "GetCustomResource no_faults s' crdName k =
    (if k = cr_key x then Inr (stored_cr (old_of (GetCustomResource no_faults s crdName k)) x) else GetCustomResource no_faults s crdName k)"
proof (cases "sql_first (\<lambda>r. xrow_key r = (crdName, cr_key x)) (t_custom_resources s)")
  case None
  with assms show ?thesis
    by (cases x) (auto simp: UpsertCustomResource_def GetCustomResource_def Let_def cr_key_def sql_first_append sql_first_upsert
      wf_CustomResource_def stored_cr_def cr_of_row_def)
next
  case (Some r)
  with assms show ?thesis
    by (cases x) (auto simp: UpsertCustomResource_def GetCustomResource_def Let_def cr_key_def sql_simps
      wf_CustomResource_def stored_cr_def cr_of_row_def)
qed

lemma cr_put_inv:
  assumes "cr_table_ok s" "wf_CustomResource x" "UpsertCustomResource no_faults now crdName x s = Inr s'"
  shows "cr_table_ok s'"
proof (cases "sql_first (\<lambda>r. xrow_key r = (crdName, cr_key x)) (t_custom_resources s)")
  case None
  with assms show ?thesis
    by (auto simp: UpsertCustomResource_def GetCustomResource_def Let_def cr_key_def cr_table_ok_def
      wf_CustomResource_def intro!: keys_intros json_colI)
next
  case (Some r)
  with assms show ?thesis
    by (auto simp: UpsertCustomResource_def GetCustomResource_def Let_def cr_key_def cr_table_ok_def cr_of_row_def
      wf_CustomResource_def intro!: keys_intros json_colI)
qed

interpretation cr_store: object_store "(\<lambda>s k. GetCustomResource no_faults s crdName k)" "(UpsertCustomResource no_faults now crdName)"
  cr_key "stored_cr" cr_table_ok wf_CustomResource "(DeleteCustomResource no_faults crdName)" for now crdName
proof (unfold_locales, goal_cases)
  case (1 s k e) then show ?case by (auto simp: UpsertCustomResource_def GetCustomResource_def Let_def cr_key_def split: option.splits)
next
  case (2 s x) then show ?case by (simp add: cr_put_ok)
next
  case (3 s x s' k) then show ?case by (simp add: cr_put_get)
next
  case (4 s x s') then show ?case by (simp add: cr_put_inv)
next
  case (5 s k) then show ?case by (auto simp: GetCustomResource_def DeleteCustomResource_def split: option.splits)
next
  case (6 s k x) then show ?case by (auto simp: GetCustomResource_def DeleteCustomResource_def split: option.splits)
next
  case (7 s k s' k') then show ?case
    by (auto simp: GetCustomResource_def DeleteCustomResource_def sql_simps split: option.splits if_splits)
next
  case (8 s k s') then show ?case
    by (auto simp: cr_table_ok_def DeleteCustomResource_def split: if_splits intro!: keys_intros)
qed

definition role_table_ok :: "store \<Rightarrow> bool" where
  "role_table_ok st \<longleftrightarrow> keys_ok rrow_key (t_roles st)"

definition stored_role :: "string \<Rightarrow> Role option \<Rightarrow> Role \<Rightarrow> Role" where
  "stored_role scope old x = x\<lparr>role_apiVersion := ''rbac.mk.io/v1'', role_kind := scope\<rparr>"

definition role_key :: "Role \<Rightarrow> string" where
  "role_key x = md_name (role_metadata x)"

lemma role_put_ok: "is_ok (UpsertRole no_faults now scope x s)"
  by (auto simp: UpsertRole_def GetRole_def Let_def role_key_def split: option.splits)

lemma role_put_get:
  assumes "role_table_ok s" "wf_Role x" "UpsertRole no_faults now scope x s = Inr s'"
  shows "GetRole no_faults s' scope k =
    (if k = role_key x then Inr (stored_role scope (old_of (GetRole no_faults s scope k)) x) else GetRole no_faults s scope k)"
proof (cases "sql_first (\<lambda>r. rrow_key r = (scope, role_key x)) (t_roles s)")
  case None
  with assms show ?thesis
    by (cases x) (auto simp: UpsertRole_def GetRole_def Let_def role_key_def sql_first_append sql_first_upsert
      wf_Role_def stored_role_def role_of_row_def)
next
  case (Some r)
  with assms show ?thesis
    by (cases x) (auto simp: UpsertRole_def GetRole_def Let_def role_key_def sql_simps
      wf_Role_def stored_role_def role_of_row_def)
qed

lemma role_put_inv:
  assumes "role_table_ok s" "wf_Role x" "UpsertRole no_faults now scope x s = Inr s'"
  shows "role_table_ok s'"
proof (cases "sql_first (\<lambda>r. rrow_key r = (scope, role_key x)) (t_roles s)")
  case None
  with assms show ?thesis
    by (auto simp: UpsertRole_def GetRole_def Let_def role_key_def role_table_ok_def
      wf_Role_def intro!: keys_intros json_colI)
next
  case (Some r)
  with assms show ?thesis
    by (auto simp: UpsertRole_def GetRole_def Let_def role_key_def role_table_ok_def role_of_row_def
      wf_Role_def intro!: keys_intros json_colI)
qed

interpretation role_store: object_store "(\<lambda>s k. GetRole no_faults s scope k)" "(UpsertRole no_faults now scope)"
  role_key "stored_role scope" role_table_ok wf_Role "(DeleteRole no_faults scope)" for now scope
proof (unfold_locales, goal_cases)
  case (1 s k e) then show ?case by (auto simp: UpsertRole_def GetRole_def Let_def role_key_def split: option.splits)
next
  case (2 s x) then show ?case by (simp add: role_put_ok)
next
  case (3 s x s' k) then show ?case by (simp add: role_put_get)
next
  case (4 s x s') then show ?case by (simp add: role_put_inv)
next
  case (5 s k) then show ?case by (auto simp: GetRole_def DeleteRole_def split: option.splits)
next
  case (6 s k x) then show ?case by (auto simp: GetRole_def DeleteRole_def split: option.splits)
next
  case (7 s k s' k') then show ?case
    by (auto simp: GetRole_def DeleteRole_def sql_simps split: option.splits if_splits)
next
  case (8 s k s') then show ?case
    by (auto simp: role_table_ok_def DeleteRole_def split: if_splits intro!: keys_intros)
qed

definition hpa_table_ok :: "store \<Rightarrow> bool" where
  "hpa_table_ok st \<longleftrightarrow> keys_ok orow_name (t_hpas st) \<and>
     status_cols enc_HPAStatus wf_HPAStatus orow_status_json (t_hpas st)"

definition stored_hpa :: "HPA option \<Rightarrow> HPA \<Rightarrow> HPA" where
  "stored_hpa old x = x\<lparr>hpa_apiVersion := ''autoscaling.mk.io/v1'', hpa_kind := ''HorizontalPodAutoscaler'', hpa_status := (case old of Some o' \<Rightarrow> hpa_status o' | None \<Rightarrow> hpa_status x)\<rparr>"

definition hpa_key :: "HPA \<Rightarrow> string" where
  "hpa_key x = md_name (hpa_metadata x)"

lemma hpa_put_ok: "is_ok (UpsertHPA no_faults now x s)"
  by (auto simp: UpsertHPA_def GetHPA_def Let_def hpa_key_def split: option.splits)

lemma hpa_put_get:
  assumes "hpa_table_ok s" "wf_HPA x" "UpsertHPA no_faults now x s = Inr s'"
  shows "GetHPA no_faults s' k =
    (if k = hpa_key x then Inr (stored_hpa (old_of (GetHPA no_faults s k)) x) else GetHPA no_faults s k)"
proof (cases "sql_first (\<lambda>r. orow_name r = hpa_key x) (t_hpas s)")
  case None
  with assms show ?thesis
    by (cases x) (auto simp: UpsertHPA_def GetHPA_def Let_def hpa_key_def sql_first_append sql_first_upsert
      wf_HPA_def wf_HPAStatus_def stored_hpa_def hpa_of_row_def)
next
  case (Some r)
  with assms obtain t where "wf_HPAStatus t" "orow_status_json r = enc_HPAStatus t"
    by (auto simp: hpa_table_ok_def dest: status_cols_first)
  with assms Some show ?thesis
    by (cases x) (auto simp: UpsertHPA_def GetHPA_def Let_def hpa_key_def sql_simps
      wf_HPA_def wf_HPAStatus_def stored_hpa_def hpa_of_row_def)
qed

lemma hpa_put_inv:
  assumes "hpa_table_ok s" "wf_HPA x" "UpsertHPA no_faults now x s = Inr s'"
  shows "hpa_table_ok s'"
proof (cases "sql_first (\<lambda>r. orow_name r = hpa_key x) (t_hpas s)")
  case None
  with assms show ?thesis
    by (auto simp: UpsertHPA_def GetHPA_def Let_def hpa_key_def hpa_table_ok_def
      wf_HPA_def wf_HPAStatus_def intro!: keys_intros json_colI)
next
  case (Some r)
  with assms obtain t where "wf_HPAStatus t" "orow_status_json r = enc_HPAStatus t"
    by (auto simp: hpa_table_ok_def dest: status_cols_first)
  with assms Some show ?thesis
    by (auto simp: UpsertHPA_def GetHPA_def Let_def hpa_key_def hpa_table_ok_def hpa_of_row_def
      wf_HPA_def wf_HPAStatus_def intro!: keys_intros json_colI)
qed

interpretation hpa_store: status_store "(GetHPA no_faults)" "(UpsertHPA no_faults now)"
  hpa_key "stored_hpa" hpa_table_ok wf_HPA "(DeleteHPA no_faults)"
  "(UpdateHPAStatus no_faults now)" "hpa_status" "(\<lambda>t. t)" "(\<lambda>t x. x\<lparr>hpa_status := t\<rparr>)" wf_HPAStatus
  "(\<lambda>t. t\<lparr>hpastatus_lastUpdated := now\<rparr>)" for now
proof (unfold_locales, goal_cases)
  case (1 s k e) then show ?case by (auto simp: UpsertHPA_def GetHPA_def Let_def hpa_key_def split: option.splits)
next
  case (2 s x) then show ?case by (simp add: hpa_put_ok)
next
  case (3 s x s' k) then show ?case by (simp add: hpa_put_get)
next
  case (4 s x s') then show ?case by (simp add: hpa_put_inv)
next
  case (5 s k) then show ?case by (auto simp: GetHPA_def DeleteHPA_def split: option.splits)
next
  case (6 s k x) then show ?case by (auto simp: GetHPA_def DeleteHPA_def split: option.splits)
next
  case (7 s k s' k') then show ?case
    by (auto simp: GetHPA_def DeleteHPA_def sql_simps split: option.splits if_splits)
next
  case (8 s k s') then show ?case
    by (auto simp: hpa_table_ok_def DeleteHPA_def split: if_splits intro!: keys_intros)
next
  case (9 old x) then show ?case by (simp add: stored_hpa_def Let_def)
next
  case (10 t x) then show ?case by simp
next
  case (11 s k t) then show ?case by (auto simp: GetHPA_def UpdateHPAStatus_def Let_def split: option.splits)
next
  case (12 s k x t) then show ?case by (auto simp: GetHPA_def UpdateHPAStatus_def Let_def split: option.splits)
next
  case (13 s t k s' k') then show ?case
    by (auto simp: GetHPA_def UpdateHPAStatus_def Let_def sql_simps hpa_of_row_def wf_HPAStatus_def
      split: option.splits if_splits)
next
  case (14 s t k s') then show ?case
    by (auto simp: hpa_table_ok_def UpdateHPAStatus_def Let_def wf_HPAStatus_def split: if_splits intro!: keys_intros json_colI)
qed

definition np_table_ok :: "store \<Rightarrow> bool" where
  "np_table_ok st \<longleftrightarrow> keys_ok nprow_name (t_network_policies st)"

definition stored_np :: "NetworkPolicy option \<Rightarrow> NetworkPolicy \<Rightarrow> NetworkPolicy" where
  "stored_np old x = x\<lparr>np_apiVersion := ''networking.mk.io/v1'', np_kind := ''NetworkPolicy''\<rparr>"

definition np_key :: "NetworkPolicy \<Rightarrow> string" where
  "np_key x = md_name (np_metadata x)"

lemma np_put_ok: "is_ok (UpsertNetworkPolicy no_faults now x s)"
  by (auto simp: UpsertNetworkPolicy_def GetNetworkPolicy_def Let_def np_key_def split: option.splits)

lemma np_put_get:
  assumes "np_table_ok s" "wf_NetworkPolicy x" "UpsertNetworkPolicy no_faults now x s = Inr s'"
  shows "GetNetworkPolicy no_faults s' k =
    (if k = np_key x then Inr (stored_np (old_of (GetNetworkPolicy no_faults s k)) x) else GetNetworkPolicy no_faults s k)"
proof (cases "sql_first (\<lambda>r. nprow_name r = np_key x) (t_network_policies s)")
  case None
  with assms show ?thesis
    by (cases x) (auto simp: UpsertNetworkPolicy_def GetNetworkPolicy_def Let_def np_key_def sql_first_append sql_first_upsert
      wf_NetworkPolicy_def stored_np_def np_of_row_def)
next
  case (Some r)
  with assms show ?thesis
    by (cases x) (auto simp: UpsertNetworkPolicy_def GetNetworkPolicy_def Let_def np_key_def sql_simps
      wf_NetworkPolicy_def stored_np_def np_of_row_def)
qed

lemma np_put_inv:
  assumes "np_table_ok s" "wf_NetworkPolicy x" "UpsertNetworkPolicy no_faults now x s = Inr s'"
  shows "np_table_ok s'"
proof (cases "sql_first (\<lambda>r. nprow_name r = np_key x) (t_network_policies s)")
  case None
  with assms show ?thesis
    by (auto simp: UpsertNetworkPolicy_def GetNetworkPolicy_def Let_def np_key_def np_table_ok_def
      wf_NetworkPolicy_def intro!: keys_intros json_colI)
next
  case (Some r)
  with assms show ?thesis
    by (auto simp: UpsertNetworkPolicy_def GetNetworkPolicy_def Let_def np_key_def np_table_ok_def np_of_row_def
      wf_NetworkPolicy_def intro!: keys_intros json_colI)
qed

interpretation np_store: object_store "(GetNetworkPolicy no_faults)" "(UpsertNetworkPolicy no_faults now)"
  np_key "stored_np" np_table_ok wf_NetworkPolicy "(DeleteNetworkPolicy no_faults)" for now
proof (unfold_locales, goal_cases)
  case (1 s k e) then show ?case by (auto simp: UpsertNetworkPolicy_def GetNetworkPolicy_def Let_def np_key_def split: option.splits)
next
  case (2 s x) then show ?case by (simp add: np_put_ok)
next
  case (3 s x s' k) then show ?case by (simp add: np_put_get)
next
  case (4 s x s') then show ?case by (simp add: np_put_inv)
next
  case (5 s k) then show ?case by (auto simp: GetNetworkPolicy_def DeleteNetworkPolicy_def split: option.splits)
next
  case (6 s k x) then show ?case by (auto simp: GetNetworkPolicy_def DeleteNetworkPolicy_def split: option.splits)
next
  case (7 s k s' k') then show ?case
    by (auto simp: GetNetworkPolicy_def DeleteNetworkPolicy_def sql_simps split: option.splits if_splits)
next
  case (8 s k s') then show ?case
    by (auto simp: np_table_ok_def DeleteNetworkPolicy_def split: if_splits intro!: keys_intros)
qed

definition cl_table_ok :: "store \<Rightarrow> bool" where
  "cl_table_ok st \<longleftrightarrow> keys_ok clrow_name (t_clusters st)"

definition stored_cl :: "Cluster option \<Rightarrow> Cluster \<Rightarrow> Cluster" where
  "stored_cl old x = x\<lparr>cl_apiVersion := ''federation.mk.io/v1'', cl_kind := ''Cluster''\<rparr>"

definition cl_key :: "Cluster \<Rightarrow> string" where
  "cl_key x = md_name (cl_metadata x)"

lemma cl_put_ok: "is_ok (UpsertCluster no_faults now x s)"
  by (auto simp: UpsertCluster_def GetCluster_def Let_def cl_key_def split: option.splits)

lemma cl_put_get:
  assumes "cl_table_ok s" "wf_Cluster x" "UpsertCluster no_faults now x s = Inr s'"
  shows "GetCluster no_faults s' k =
    (if k = cl_key x then Inr (stored_cl (old_of (GetCluster no_faults s k)) x) else GetCluster no_faults s k)"
proof (cases "sql_first (\<lambda>r. clrow_name r = cl_key x) (t_clusters s)")
  case None
  with assms show ?thesis
    by (cases x) (auto simp: UpsertCluster_def GetCluster_def Let_def cl_key_def sql_first_append sql_first_upsert
      wf_Cluster_def wf_ClusterStatus_def stored_cl_def cl_of_row_def)
next
  case (Some r)
  with assms show ?thesis
    by (cases x) (auto simp: UpsertCluster_def GetCluster_def Let_def cl_key_def sql_simps
      wf_Cluster_def wf_ClusterStatus_def stored_cl_def cl_of_row_def)
qed

lemma cl_put_inv:
  assumes "cl_table_ok s" "wf_Cluster x" "UpsertCluster no_faults now x s = Inr s'"
  shows "cl_table_ok s'"
proof (cases "sql_first (\<lambda>r. clrow_name r = cl_key x) (t_clusters s)")
  case None
  with assms show ?thesis
    by (auto simp: UpsertCluster_def GetCluster_def Let_def cl_key_def cl_table_ok_def
      wf_Cluster_def wf_ClusterStatus_def intro!: keys_intros json_colI)
next
  case (Some r)
  with assms show ?thesis
    by (auto simp: UpsertCluster_def GetCluster_def Let_def cl_key_def cl_table_ok_def cl_of_row_def
      wf_Cluster_def wf_ClusterStatus_def intro!: keys_intros json_colI)
qed

interpretation cl_store: object_store "(GetCluster no_faults)" "(UpsertCluster no_faults now)"
  cl_key "stored_cl" cl_table_ok wf_Cluster "(DeleteCluster no_faults)" for now
proof (unfold_locales, goal_cases)
  case (1 s k e) then show ?case by (auto simp: UpsertCluster_def GetCluster_def Let_def cl_key_def split: option.splits)
next
  case (2 s x) then show ?case by (simp add: cl_put_ok)
next
  case (3 s x s' k) then show ?case by (simp add: cl_put_get)
next
  case (4 s x s') then show ?case by (simp add: cl_put_inv)
next
  case (5 s k) then show ?case by (auto simp: GetCluster_def DeleteCluster_def split: option.splits)
next
  case (6 s k x) then show ?case by (auto simp: GetCluster_def DeleteCluster_def split: option.splits)
next
  case (7 s k s' k') then show ?case
    by (auto simp: GetCluster_def DeleteCluster_def sql_simps split: option.splits if_splits)
next
  case (8 s k s') then show ?case
    by (auto simp: cl_table_ok_def DeleteCluster_def split: if_splits intro!: keys_intros)
qed

definition fd_table_ok :: "store \<Rightarrow> bool" where
  "fd_table_ok st \<longleftrightarrow> keys_ok orow_name (t_federated_deployments st) \<and>
     status_cols enc_FederatedDeploymentStatus wf_FederatedDeploymentStatus orow_status_json (t_federated_deployments st)"

definition stored_fd :: "FederatedDeployment option \<Rightarrow> FederatedDeployment \<Rightarrow> FederatedDeployment" where
  "stored_fd old x = x\<lparr>fd_apiVersion := ''federation.mk.io/v1'', fd_kind := ''FederatedDeployment'', fd_status := (case old of Some o' \<Rightarrow> fd_status o' | None \<Rightarrow> fd_status x)\<rparr>"

definition fd_key :: "FederatedDeployment \<Rightarrow> string" where
  "fd_key x = md_name (fd_metadata x)"

lemma fd_put_ok: "is_ok (UpsertFederatedDeployment no_faults now x s)"
  by (auto simp: UpsertFederatedDeployment_def GetFederatedDeployment_def Let_def fd_key_def split: option.splits)

lemma fd_put_get:
  assumes "fd_table_ok s" "wf_FederatedDeployment x" "UpsertFederatedDeployment no_faults now x s = Inr s'"
  shows "GetFederatedDeployment no_faults s' k =
    (if k = fd_key x then Inr (stored_fd (old_of (GetFederatedDeployment no_faults s k)) x) else GetFederatedDeployment no_faults s k)"
proof (cases "sql_first (\<lambda>r. orow_name r = fd_key x) (t_federated_deployments s)")
  case None
  with assms show ?thesis
    by (cases x) (auto simp: UpsertFederatedDeployment_def GetFederatedDeployment_def Let_def fd_key_def sql_first_append sql_first_upsert
      wf_FederatedDeployment_def wf_FederatedDeploymentStatus_def stored_fd_def fd_of_row_def)
next
  case (Some r)
  with assms obtain t where "wf_FederatedDeploymentStatus t" "orow_status_json r = enc_FederatedDeploymentStatus t"
    by (auto simp: fd_table_ok_def dest: status_cols_first)
  with assms Some show ?thesis
    by (cases x) (auto simp: UpsertFederatedDeployment_def GetFederatedDeployment_def Let_def fd_key_def sql_simps
      wf_FederatedDeployment_def wf_FederatedDeploymentStatus_def stored_fd_def fd_of_row_def)
qed

lemma fd_put_inv:
  assumes "fd_table_ok s" "wf_FederatedDeployment x" "UpsertFederatedDeployment no_faults now x s = Inr s'"
  shows "fd_table_ok s'"
proof (cases "sql_first (\<lambda>r. orow_name r = fd_key x) (t_federated_deployments s)")
  case None
  with assms show ?thesis
    by (auto simp: UpsertFederatedDeployment_def GetFederatedDeployment_def Let_def fd_key_def fd_table_ok_def
      wf_FederatedDeployment_def wf_FederatedDeploymentStatus_def intro!: keys_intros json_colI)
next
  case (Some r)
  with assms obtain t where "wf_FederatedDeploymentStatus t" "orow_status_json r = enc_FederatedDeploymentStatus t"
    by (auto simp: fd_table_ok_def dest: status_cols_first)
  with assms Some show ?thesis
    by (auto simp: UpsertFederatedDeployment_def GetFederatedDeployment_def Let_def fd_key_def fd_table_ok_def fd_of_row_def
      wf_FederatedDeployment_def wf_FederatedDeploymentStatus_def intro!: keys_intros json_colI)
qed

interpretation fd_store: status_store "(GetFederatedDeployment no_faults)" "(UpsertFederatedDeployment no_faults now)"
  fd_key "stored_fd" fd_table_ok wf_FederatedDeployment "(DeleteFederatedDeployment no_faults)"
  "(UpdateFederatedDeploymentStatus no_faults now)" "fd_status" "(\<lambda>t. t)" "(\<lambda>t x. x\<lparr>fd_status := t\<rparr>)" wf_FederatedDeploymentStatus
  "(\<lambda>t. t\<lparr>fdstatus_lastUpdated := now\<rparr>)" for now
proof (unfold_locales, goal_cases)
  case (1 s k e) then show ?case by (auto simp: UpsertFederatedDeployment_def GetFederatedDeployment_def Let_def fd_key_def split: option.splits)
next
  case (2 s x) then show ?case by (simp add: fd_put_ok)
next
  case (3 s x s' k) then show ?case by (simp add: fd_put_get)
next
  case (4 s x s') then show ?case by (simp add: fd_put_inv)
next
  case (5 s k) then show ?case by (auto simp: GetFederatedDeployment_def DeleteFederatedDeployment_def split: option.splits)
next
  case (6 s k x) then show ?case by (auto simp: GetFederatedDeployment_def DeleteFederatedDeployment_def split: option.splits)
next
  case (7 s k s' k') then show ?case
    by (auto simp: GetFederatedDeployment_def DeleteFederatedDeployment_def sql_simps split: option.splits if_splits)
next
  case (8 s k s') then show ?case
    by (auto simp: fd_table_ok_def DeleteFederatedDeployment_def split: if_splits intro!: keys_intros)
next
  case (9 old x) then show ?case by (simp add: stored_fd_def Let_def)
next
  case (10 t x) then show ?case by simp
next
  case (11 s k t) then show ?case by (auto simp: GetFederatedDeployment_def UpdateFederatedDeploymentStatus_def Let_def split: option.splits)
next
  case (12 s k x t) then show ?case by (auto simp: GetFederatedDeployment_def UpdateFederatedDeploymentStatus_def Let_def split: option.splits)
next
  case (13 s t k s' k') then show ?case
    by (auto simp: GetFederatedDeployment_def UpdateFederatedDeploymentStatus_def Let_def sql_simps fd_of_row_def wf_FederatedDeploymentStatus_def
      split: option.splits if_splits)
next
  case (14 s t k s') then show ?case
    by (auto simp: fd_table_ok_def UpdateFederatedDeploymentStatus_def Let_def wf_FederatedDeploymentStatus_def split: if_splits intro!: keys_intros json_colI)
qed

text \<open>
  The rule \<open>no_faults q = None\<close> would also turn the constant itself into its lambda term; the
  rules for the statements under \<open>no_faults\<close> suffice from here on.
\<close>

declare no_faults_simp [simp del]

end
