(* ===== verification/Lease.thy ===== *)
theory Lease
  imports Store_Contracts
begin

text \<open>
  Leader election: the lease methods of internal/store/store.go and the election loop
  \<open>runLeaderElected\<close> of cmd/apiserver/main.go, run by several apiserver replicas over one database.
  \<open>TryAcquireLease\<close> reads and writes in one transaction, so each call is one step. The loop's
  controllers run exactly while \<open>leading\<close> holds.
\<close>

text \<open>\<open>now.Sub(renew)\<close>, saturating at the bounds of a Duration, and \<open>int(ttl.Seconds())\<close>, towards zero.\<close>

definition time_Sub :: "time \<Rightarrow> time \<Rightarrow> int" where
  "time_Sub a b = max (- (2 ^ 63)) (min (2 ^ 63 - 1) (a - b))"

definition whole_seconds :: "int \<Rightarrow> int" where
  "whole_seconds d = (if d \<ge> 0 then d div second else - (- d div second))"

text \<open>
  An error at any statement, or at the commit, rolls the transaction back.
\<close>

definition TryAcquireLease :: "driver \<Rightarrow> time \<Rightarrow> string \<Rightarrow> string \<Rightarrow> int \<Rightarrow> store \<Rightarrow> err + (bool \<times> string \<times> store)" where
  "TryAcquireLease drv now name identity ttl st =
    (case drv ''TryAcquireLease BEGIN'' of Some e \<Rightarrow> Inl (ErrSql e) | None \<Rightarrow>
     case drv ''TryAcquireLease SELECT'' of Some e \<Rightarrow> Inl (ErrSql e) | None \<Rightarrow>
     (case sql_first (\<lambda>r. lrow_name r = name) (t_leases st) of
        None \<Rightarrow>
         (case sql_insert drv ''TryAcquireLease INSERT'' lrow_name
            \<lparr>lrow_name = name, lrow_holder = identity, lrow_renew_time = now, lrow_ttl_seconds = whole_seconds ttl\<rparr>
            (t_leases st) of
            Inl e \<Rightarrow> Inl e
          | Inr T \<Rightarrow> (case drv ''TryAcquireLease COMMIT'' of Some e \<Rightarrow> Inl (ErrSql e)
                    | None \<Rightarrow> Inr (True, identity, st\<lparr>t_leases := T\<rparr>)))
      | Some r \<Rightarrow>
         (let expired = time_Sub now (lrow_renew_time r) > lrow_ttl_seconds r * second in
          if lrow_holder r = identity \<or> expired
          then (case sql_exec drv ''TryAcquireLease UPDATE'' (sql_update (\<lambda>r. lrow_name r = name)
                  (\<lambda>r. r\<lparr>lrow_holder := identity, lrow_renew_time := now, lrow_ttl_seconds := whole_seconds ttl\<rparr>)
                  (t_leases st)) of
                  Inl e \<Rightarrow> Inl e
                | Inr T \<Rightarrow> (case drv ''TryAcquireLease COMMIT'' of Some e \<Rightarrow> Inl (ErrSql e)
                          | None \<Rightarrow> Inr (True, identity, st\<lparr>t_leases := T\<rparr>)))
          else Inr (False, lrow_holder r, st))))"

definition GetLease :: "driver \<Rightarrow> store \<Rightarrow> string \<Rightarrow> err + (string \<times> time \<times> int)" where
  "GetLease drv st name =
     query_row drv ''GetLease'' (\<lambda>r. lrow_name r = name) (t_leases st)
       (\<lambda>r. (lrow_holder r, lrow_renew_time r, lrow_ttl_seconds r))"

text \<open>One iteration of the loop \<open>for range ticker.C\<close>; the flag is the loop's local \<open>leading\<close>.\<close>

definition election_tick :: "driver \<Rightarrow> time \<Rightarrow> string \<Rightarrow> string \<Rightarrow> int \<Rightarrow> bool \<Rightarrow> store \<Rightarrow> bool \<times> store" where
  "election_tick drv now leaseName identity ttl leading st =
    (case TryAcquireLease drv now leaseName identity ttl st of
       Inl _ \<Rightarrow> (leading, st)
     | Inr (ok, holder, st') \<Rightarrow>
        (if ok \<and> \<not> leading then (True, st')
         else if \<not> ok \<and> leading then (False, st')
         else (leading, st')))"

section \<open>What acquiring does\<close>

definition lease_info :: "lease_row \<Rightarrow> string \<times> time \<times> int" where
  "lease_info r = (lrow_holder r, lrow_renew_time r, lrow_ttl_seconds r)"

definition current_lease :: "string \<Rightarrow> store \<Rightarrow> (string \<times> time \<times> int) option" where
  "current_lease name st = map_option lease_info (sql_first (\<lambda>r. lrow_name r = name) (t_leases st))"

definition lease_expired :: "time \<Rightarrow> string \<times> time \<times> int \<Rightarrow> bool" where
  "lease_expired now l \<longleftrightarrow> (case l of (h, t, s) \<Rightarrow> time_Sub now t > s * second)"

lemma sql_first_lease_update:
  "sql_first (\<lambda>r. lrow_name r = n) (sql_update (\<lambda>r. lrow_name r = n')
     (\<lambda>r. r\<lparr>lrow_holder := i, lrow_renew_time := t, lrow_ttl_seconds := s\<rparr>) T) =
   (if n = n' then map_option (\<lambda>r. r\<lparr>lrow_holder := i, lrow_renew_time := t, lrow_ttl_seconds := s\<rparr>)
      (sql_first (\<lambda>r. lrow_name r = n) T) else sql_first (\<lambda>r. lrow_name r = n) T)"
  by (rule sql_first_update) simp

lemma TryAcquireLease_granted:
  assumes "TryAcquireLease drv now name i ttl st = Inr (True, h, st')"
  shows "h = i"
    and "current_lease name st = None \<or>
      (\<exists>l. current_lease name st = Some l \<and> (fst l = i \<or> lease_expired now l))"
    and "current_lease n st' = (if n = name then Some (i, now, whole_seconds ttl) else current_lease n st)"
    and "st'\<lparr>t_leases := t_leases st\<rparr> = st"
  using assms
  by (auto simp: TryAcquireLease_def current_lease_def lease_info_def lease_expired_def Let_def
      sql_results sql_first_append sql_first_lease_update split: option.splits sum.splits if_splits)

lemma TryAcquireLease_refused:
  assumes "TryAcquireLease drv now name i ttl st = Inr (False, h, st')"
  shows "st' = st" and "\<exists>t s. current_lease name st = Some (h, t, s) \<and> h \<noteq> i \<and> \<not> lease_expired now (h, t, s)"
  using assms
  by (auto simp: TryAcquireLease_def current_lease_def lease_info_def lease_expired_def Let_def
      split: option.splits sum.splits if_splits)

lemma TryAcquireLease_no_faults:
  "\<exists>ok h st'. TryAcquireLease no_faults now name i ttl st = Inr (ok, h, st') \<and>
     (ok \<longleftrightarrow> (case current_lease name st of None \<Rightarrow> True | Some l \<Rightarrow> fst l = i \<or> lease_expired now l))"
  by (auto simp: TryAcquireLease_def current_lease_def lease_info_def lease_expired_def Let_def no_faults_simp
      split: option.splits)

lemma GetLease_current: "GetLease no_faults st name =
    (case current_lease name st of None \<Rightarrow> Inl ErrNotFound | Some l \<Rightarrow> Inr l)"
  by (auto simp: GetLease_def current_lease_def lease_info_def split: option.splits)

lemma TryAcquireLease_keys:
  "TryAcquireLease drv now name i ttl st = Inr (ok, h, st') \<Longrightarrow> keys_ok lrow_name (t_leases st) \<Longrightarrow>
   keys_ok lrow_name (t_leases st')"
  by (auto simp: TryAcquireLease_def Let_def sql_results intro!: keys_intros
      split: option.splits sum.splits if_splits)

end
