(* ===== verification/Store_Invariant.thy ===== *)
theory Store_Invariant
  imports Store_Contracts Lease
begin

text \<open>
  The invariant of the whole store: in every table the primary key is unique and every row is
  well formed (its columns hold encodings of well-formed values, its metadata carry the name of
  the row; user tokens are unique). Every method of internal/store keeps it, with any driver, and
  what a method reads from such a store is well formed.
\<close>

section \<open>Good tables\<close>

definition table_ok :: "('r \<Rightarrow> 'k) \<Rightarrow> ('r \<Rightarrow> bool) \<Rightarrow> 'r list \<Rightarrow> bool" where
  "table_ok key good T \<longleftrightarrow> keys_ok key T \<and> (\<forall>r \<in> set T. good r)"

lemma table_ok_Nil [simp]: "table_ok key good []"
  by (simp add: table_ok_def)

lemma table_ok_keys: "table_ok key good T \<Longrightarrow> keys_ok key T"
  by (simp add: table_ok_def)

lemma table_ok_first: "table_ok key good T \<Longrightarrow> sql_first p T = Some r \<Longrightarrow> good r"
  by (auto simp: table_ok_def dest: sql_first_SomeD)

lemma table_ok_mem: "table_ok key good T \<Longrightarrow> r \<in> set T \<Longrightarrow> good r"
  by (simp add: table_ok_def)

named_theorems table_intros "every statement keeps a table well formed"

lemma table_ok_snoc [table_intros]:
  "table_ok key good T \<Longrightarrow> sql_first (\<lambda>r. key r = key new) T = None \<Longrightarrow> good new \<Longrightarrow> table_ok key good (T @ [new])"
  by (auto simp: table_ok_def intro: keys_ok_snoc)

lemma table_ok_update [table_intros]:
  assumes "table_ok key good T" "\<And>r. p r \<Longrightarrow> good r \<Longrightarrow> good (f r)" "\<And>r. p r \<Longrightarrow> key (f r) = key r"
  shows "table_ok key good (sql_update p f T)"
proof -
  have "keys_ok key (sql_update p f T)"
    using assms by (intro keys_ok_update) (simp_all add: table_ok_def)
  with assms show ?thesis by (auto simp: table_ok_def sql_update_def)
qed

lemma table_ok_delete [table_intros]: "table_ok key good T \<Longrightarrow> table_ok key good (sql_delete p T)"
  by (auto simp: table_ok_def sql_delete_def intro: keys_ok_delete [unfolded sql_delete_def])

lemma table_ok_upsert [table_intros]:
  assumes "table_ok key good T" "good new"
    "\<And>r. key r = key new \<Longrightarrow> good r \<Longrightarrow> good (merge new r)"
    "\<And>r. key r = key new \<Longrightarrow> key (merge new r) = key r"
  shows "table_ok key good (sql_upsert key merge new T)"
  unfolding sql_upsert_def using assms by (auto simp: sql_has_iff intro: table_ok_snoc table_ok_update)

text \<open>A metadata column carries the name of its row.\<close>

definition meta_col :: "string \<Rightarrow> json \<Rightarrow> bool" where
  "meta_col n j \<longleftrightarrow> (\<exists>m. wf_Metadata m \<and> md_name m = n \<and> j = enc_Metadata m)"

lemma meta_colI [intro]: "wf_Metadata m \<Longrightarrow> md_name m = n \<Longrightarrow> meta_col n (enc_Metadata m)"
  by (auto simp: meta_col_def)

lemma meta_col_read: "meta_col n j \<Longrightarrow>
    wf_Metadata (unmarshal dec_Metadata j zero_Metadata) \<and> md_name (unmarshal dec_Metadata j zero_Metadata) = n"
  by (auto simp: meta_col_def)

context codec
begin

lemma json_col_read: "json_col enc wf j \<Longrightarrow> wf (unmarshal dec j zero)"
  by (auto simp: json_col_def unmarshal_def roundtrip)

lemma json_col_list_read: "json_col (enc_list enc) (list_all wf) j \<Longrightarrow> list_all wf (unmarshal (dec_list dec zero) j [])"
  by (auto simp: json_col_def unmarshal_def list_roundtrip)

end

text \<open>
  Rows are read by unmarshalling their columns; a good column gives a well-formed value.
\<close>

section \<open>Good rows\<close>

text \<open>The columns cluster_ip and plural repeat a member of the spec.\<close>

definition svc_spec_col :: "string \<Rightarrow> json \<Rightarrow> bool" where
  "svc_spec_col ip j \<longleftrightarrow> (\<exists>sp. wf_ServiceSpec sp \<and> svcspec_clusterIP sp = ip \<and> j = enc_ServiceSpec sp)"

definition crd_spec_col :: "string \<Rightarrow> json \<Rightarrow> bool" where
  "crd_spec_col plural j \<longleftrightarrow> (\<exists>sp. wf_CRDSpec sp \<and> cn_plural (crdspec_names sp) = plural \<and> j = enc_CRDSpec sp)"

lemma svc_spec_colI [intro]: "wf_ServiceSpec sp \<Longrightarrow> svcspec_clusterIP sp = ip \<Longrightarrow> svc_spec_col ip (enc_ServiceSpec sp)"
  by (auto simp: svc_spec_col_def)

lemma crd_spec_colI [intro]: "wf_CRDSpec sp \<Longrightarrow> cn_plural (crdspec_names sp) = p \<Longrightarrow> crd_spec_col p (enc_CRDSpec sp)"
  by (auto simp: crd_spec_col_def)

definition good_pod :: "pod_row \<Rightarrow> bool" where
  "good_pod r \<longleftrightarrow> meta_col (prow_name r) (prow_metadata_json r) \<and>
     json_col enc_PodSpec wf_PodSpec (prow_spec_json r) \<and>
     int64_ok (prow_host_port r)"

definition good_rs :: "obj_row \<Rightarrow> bool" where
  "good_rs r \<longleftrightarrow> meta_col (orow_name r) (orow_metadata_json r) \<and>
     json_col enc_ReplicaSetSpec wf_ReplicaSetSpec (orow_spec_json r) \<and>
     json_col enc_ReplicaSetStatus wf_ReplicaSetStatus (orow_status_json r)"

definition good_dep :: "obj_row \<Rightarrow> bool" where
  "good_dep r \<longleftrightarrow> meta_col (orow_name r) (orow_metadata_json r) \<and>
     json_col enc_DeploymentSpec wf_DeploymentSpec (orow_spec_json r) \<and>
     json_col enc_DeploymentStatus wf_DeploymentStatus (orow_status_json r)"

definition good_svc :: "svc_row \<Rightarrow> bool" where
  "good_svc r \<longleftrightarrow> meta_col (srow_name r) (srow_metadata_json r) \<and>
     svc_spec_col (srow_cluster_ip r) (srow_spec_json r) \<and>
     json_col enc_ServiceStatus wf_ServiceStatus (srow_status_json r)"

definition good_ep :: "ep_row \<Rightarrow> bool" where
  "good_ep r \<longleftrightarrow> meta_col (erow_name r) (erow_metadata_json r) \<and>
     json_col (enc_list enc_EndpointAddress) (list_all wf_EndpointAddress) (erow_subsets_json r)"

definition good_node :: "node_row \<Rightarrow> bool" where
  "good_node r \<longleftrightarrow> meta_col (nrow_name r) (nrow_metadata_json r) \<and>
     json_col enc_NodeStatus wf_NodeStatus (nrow_status_json r)"

definition good_crd :: "crd_row \<Rightarrow> bool" where
  "good_crd r \<longleftrightarrow> meta_col (crow_name r) (crow_metadata_json r) \<and>
     crd_spec_col (crow_plural r) (crow_spec_json r)"

definition good_cr :: "cr_row \<Rightarrow> bool" where
  "good_cr r \<longleftrightarrow> (\<exists>x. wf_CustomResource x \<and> xrow_body_json r = enc_CustomResource x \<and> md_name (cr_metadata x) = xrow_name r)"

definition good_user :: "user_row \<Rightarrow> bool" where
  "good_user r \<longleftrightarrow> json_col (enc_list JStr) (\<lambda>_. True) (urow_groups_json r)"

definition good_role :: "role_row \<Rightarrow> bool" where
  "good_role r \<longleftrightarrow> meta_col (rrow_name r) (rrow_metadata_json r) \<and>
     json_col (enc_list enc_PolicyRule) (list_all wf_PolicyRule) (rrow_rules_json r)"

definition good_rb :: "rb_row \<Rightarrow> bool" where
  "good_rb r \<longleftrightarrow> meta_col (brow_name r) (brow_metadata_json r) \<and>
     json_col (enc_list enc_Subject) (list_all wf_Subject) (brow_subjects_json r) \<and>
     json_col enc_RoleRef wf_RoleRef (brow_roleref_json r)"

definition good_lease :: "lease_row \<Rightarrow> bool" where
  "good_lease r \<longleftrightarrow> True"

definition good_wh :: "wh_row \<Rightarrow> bool" where
  "good_wh r \<longleftrightarrow> json_col (enc_list JStr) (\<lambda>_. True) (wrow_resources_json r)"

definition good_hpa :: "obj_row \<Rightarrow> bool" where
  "good_hpa r \<longleftrightarrow> meta_col (orow_name r) (orow_metadata_json r) \<and>
     json_col enc_HPASpec wf_HPASpec (orow_spec_json r) \<and>
     json_col enc_HPAStatus wf_HPAStatus (orow_status_json r)"

definition good_np :: "np_row \<Rightarrow> bool" where
  "good_np r \<longleftrightarrow> meta_col (nprow_name r) (nprow_metadata_json r) \<and>
     json_col enc_NetPolSpec wf_NetPolSpec (nprow_spec_json r)"

definition good_cl :: "cl_row \<Rightarrow> bool" where
  "good_cl r \<longleftrightarrow> meta_col (clrow_name r) (clrow_metadata_json r) \<and>
     json_col enc_ClusterSpec wf_ClusterSpec (clrow_spec_json r) \<and>
     json_col enc_ClusterStatus wf_ClusterStatus (clrow_status_json r)"

definition good_fd :: "obj_row \<Rightarrow> bool" where
  "good_fd r \<longleftrightarrow> meta_col (orow_name r) (orow_metadata_json r) \<and>
     json_col enc_FederatedDeploymentSpec wf_FederatedDeploymentSpec (orow_spec_json r) \<and>
     json_col enc_FederatedDeploymentStatus wf_FederatedDeploymentStatus (orow_status_json r)"

definition store_ok :: "store \<Rightarrow> bool" where
  "store_ok st \<longleftrightarrow>
     table_ok prow_name good_pod (t_pods st) \<and>
     table_ok orow_name good_rs (t_replicasets st) \<and>
     table_ok orow_name good_dep (t_deployments st) \<and>
     table_ok srow_name good_svc (t_services st) \<and>
     table_ok erow_name good_ep (t_endpoints st) \<and>
     table_ok nrow_name good_node (t_nodes st) \<and>
     table_ok crow_name good_crd (t_crds st) \<and>
     table_ok xrow_key good_cr (t_custom_resources st) \<and>
     table_ok urow_name good_user (t_users st) \<and>
     table_ok rrow_key good_role (t_roles st) \<and>
     table_ok brow_key good_rb (t_role_bindings st) \<and>
     table_ok lrow_name good_lease (t_leases st) \<and>
     table_ok wrow_name good_wh (t_admission_webhooks st) \<and>
     table_ok orow_name good_hpa (t_hpas st) \<and>
     table_ok nprow_name good_np (t_network_policies st) \<and>
     table_ok clrow_name good_cl (t_clusters st) \<and>
     table_ok orow_name good_fd (t_federated_deployments st) \<and>
     distinct (map urow_token (t_users st))"

lemma store_ok_empty: "store_ok empty_store"
  by (simp add: store_ok_def empty_store_def)

lemmas good_defs = good_pod_def good_rs_def good_dep_def good_svc_def good_ep_def good_node_def good_crd_def good_cr_def good_user_def good_role_def good_rb_def good_lease_def good_wh_def good_hpa_def good_np_def good_cl_def good_fd_def

lemma store_ok_pod: "store_ok st \<Longrightarrow> table_ok prow_name good_pod (t_pods st)"
  by (simp add: store_ok_def)

lemma store_ok_set_pod: "store_ok st \<Longrightarrow> table_ok prow_name good_pod T \<Longrightarrow> store_ok (st\<lparr>t_pods := T\<rparr>)"
  by (simp add: store_ok_def)

lemma store_ok_rs: "store_ok st \<Longrightarrow> table_ok orow_name good_rs (t_replicasets st)"
  by (simp add: store_ok_def)

lemma store_ok_set_rs: "store_ok st \<Longrightarrow> table_ok orow_name good_rs T \<Longrightarrow> store_ok (st\<lparr>t_replicasets := T\<rparr>)"
  by (simp add: store_ok_def)

lemma store_ok_dep: "store_ok st \<Longrightarrow> table_ok orow_name good_dep (t_deployments st)"
  by (simp add: store_ok_def)

lemma store_ok_set_dep: "store_ok st \<Longrightarrow> table_ok orow_name good_dep T \<Longrightarrow> store_ok (st\<lparr>t_deployments := T\<rparr>)"
  by (simp add: store_ok_def)

lemma store_ok_svc: "store_ok st \<Longrightarrow> table_ok srow_name good_svc (t_services st)"
  by (simp add: store_ok_def)

lemma store_ok_set_svc: "store_ok st \<Longrightarrow> table_ok srow_name good_svc T \<Longrightarrow> store_ok (st\<lparr>t_services := T\<rparr>)"
  by (simp add: store_ok_def)

lemma store_ok_ep: "store_ok st \<Longrightarrow> table_ok erow_name good_ep (t_endpoints st)"
  by (simp add: store_ok_def)

lemma store_ok_set_ep: "store_ok st \<Longrightarrow> table_ok erow_name good_ep T \<Longrightarrow> store_ok (st\<lparr>t_endpoints := T\<rparr>)"
  by (simp add: store_ok_def)

lemma store_ok_node: "store_ok st \<Longrightarrow> table_ok nrow_name good_node (t_nodes st)"
  by (simp add: store_ok_def)

lemma store_ok_set_node: "store_ok st \<Longrightarrow> table_ok nrow_name good_node T \<Longrightarrow> store_ok (st\<lparr>t_nodes := T\<rparr>)"
  by (simp add: store_ok_def)

lemma store_ok_crd: "store_ok st \<Longrightarrow> table_ok crow_name good_crd (t_crds st)"
  by (simp add: store_ok_def)

lemma store_ok_set_crd: "store_ok st \<Longrightarrow> table_ok crow_name good_crd T \<Longrightarrow> store_ok (st\<lparr>t_crds := T\<rparr>)"
  by (simp add: store_ok_def)

lemma store_ok_cr: "store_ok st \<Longrightarrow> table_ok xrow_key good_cr (t_custom_resources st)"
  by (simp add: store_ok_def)

lemma store_ok_set_cr: "store_ok st \<Longrightarrow> table_ok xrow_key good_cr T \<Longrightarrow> store_ok (st\<lparr>t_custom_resources := T\<rparr>)"
  by (simp add: store_ok_def)

lemma store_ok_user: "store_ok st \<Longrightarrow> table_ok urow_name good_user (t_users st)"
  by (simp add: store_ok_def)

lemma store_ok_set_user: "store_ok st \<Longrightarrow> table_ok urow_name good_user T \<Longrightarrow> distinct (map urow_token T) \<Longrightarrow> store_ok (st\<lparr>t_users := T\<rparr>)"
  by (simp add: store_ok_def)

lemma store_ok_role: "store_ok st \<Longrightarrow> table_ok rrow_key good_role (t_roles st)"
  by (simp add: store_ok_def)

lemma store_ok_set_role: "store_ok st \<Longrightarrow> table_ok rrow_key good_role T \<Longrightarrow> store_ok (st\<lparr>t_roles := T\<rparr>)"
  by (simp add: store_ok_def)

lemma store_ok_rb: "store_ok st \<Longrightarrow> table_ok brow_key good_rb (t_role_bindings st)"
  by (simp add: store_ok_def)

lemma store_ok_set_rb: "store_ok st \<Longrightarrow> table_ok brow_key good_rb T \<Longrightarrow> store_ok (st\<lparr>t_role_bindings := T\<rparr>)"
  by (simp add: store_ok_def)

lemma store_ok_lease: "store_ok st \<Longrightarrow> table_ok lrow_name good_lease (t_leases st)"
  by (simp add: store_ok_def)

lemma store_ok_set_lease: "store_ok st \<Longrightarrow> table_ok lrow_name good_lease T \<Longrightarrow> store_ok (st\<lparr>t_leases := T\<rparr>)"
  by (simp add: store_ok_def)

lemma store_ok_wh: "store_ok st \<Longrightarrow> table_ok wrow_name good_wh (t_admission_webhooks st)"
  by (simp add: store_ok_def)

lemma store_ok_set_wh: "store_ok st \<Longrightarrow> table_ok wrow_name good_wh T \<Longrightarrow> store_ok (st\<lparr>t_admission_webhooks := T\<rparr>)"
  by (simp add: store_ok_def)

lemma store_ok_hpa: "store_ok st \<Longrightarrow> table_ok orow_name good_hpa (t_hpas st)"
  by (simp add: store_ok_def)

lemma store_ok_set_hpa: "store_ok st \<Longrightarrow> table_ok orow_name good_hpa T \<Longrightarrow> store_ok (st\<lparr>t_hpas := T\<rparr>)"
  by (simp add: store_ok_def)

lemma store_ok_np: "store_ok st \<Longrightarrow> table_ok nprow_name good_np (t_network_policies st)"
  by (simp add: store_ok_def)

lemma store_ok_set_np: "store_ok st \<Longrightarrow> table_ok nprow_name good_np T \<Longrightarrow> store_ok (st\<lparr>t_network_policies := T\<rparr>)"
  by (simp add: store_ok_def)

lemma store_ok_cl: "store_ok st \<Longrightarrow> table_ok clrow_name good_cl (t_clusters st)"
  by (simp add: store_ok_def)

lemma store_ok_set_cl: "store_ok st \<Longrightarrow> table_ok clrow_name good_cl T \<Longrightarrow> store_ok (st\<lparr>t_clusters := T\<rparr>)"
  by (simp add: store_ok_def)

lemma store_ok_fd: "store_ok st \<Longrightarrow> table_ok orow_name good_fd (t_federated_deployments st)"
  by (simp add: store_ok_def)

lemma store_ok_set_fd: "store_ok st \<Longrightarrow> table_ok orow_name good_fd T \<Longrightarrow> store_ok (st\<lparr>t_federated_deployments := T\<rparr>)"
  by (simp add: store_ok_def)

text \<open>The invariants of the contracts follow.\<close>

lemma store_ok_pod_table: "store_ok st \<Longrightarrow> pod_table_ok st"
  by (auto simp: store_ok_def table_ok_def pod_table_ok_def)

lemma store_ok_rs_table: "store_ok st \<Longrightarrow> rs_table_ok st"
  by (auto simp: store_ok_def table_ok_def rs_table_ok_def status_cols_def good_rs_def)

lemma store_ok_dep_table: "store_ok st \<Longrightarrow> dep_table_ok st"
  by (auto simp: store_ok_def table_ok_def dep_table_ok_def status_cols_def good_dep_def)

lemma store_ok_svc_table: "store_ok st \<Longrightarrow> svc_table_ok st"
  by (auto simp: store_ok_def table_ok_def svc_table_ok_def status_cols_def good_svc_def)

lemma store_ok_ep_table: "store_ok st \<Longrightarrow> ep_table_ok st"
  by (auto simp: store_ok_def table_ok_def ep_table_ok_def)

lemma store_ok_node_table: "store_ok st \<Longrightarrow> node_table_ok st"
  by (auto simp: store_ok_def table_ok_def node_table_ok_def)

lemma store_ok_crd_table: "store_ok st \<Longrightarrow> crd_table_ok st"
  by (auto simp: store_ok_def table_ok_def crd_table_ok_def)

lemma store_ok_cr_table: "store_ok st \<Longrightarrow> cr_table_ok st"
  by (auto simp: store_ok_def table_ok_def cr_table_ok_def)

lemma store_ok_role_table: "store_ok st \<Longrightarrow> role_table_ok st"
  by (auto simp: store_ok_def table_ok_def role_table_ok_def)

lemma store_ok_hpa_table: "store_ok st \<Longrightarrow> hpa_table_ok st"
  by (auto simp: store_ok_def table_ok_def hpa_table_ok_def status_cols_def good_hpa_def)

lemma store_ok_np_table: "store_ok st \<Longrightarrow> np_table_ok st"
  by (auto simp: store_ok_def table_ok_def np_table_ok_def)

lemma store_ok_cl_table: "store_ok st \<Longrightarrow> cl_table_ok st"
  by (auto simp: store_ok_def table_ok_def cl_table_ok_def)

lemma store_ok_fd_table: "store_ok st \<Longrightarrow> fd_table_ok st"
  by (auto simp: store_ok_def table_ok_def fd_table_ok_def status_cols_def good_fd_def)

section \<open>What is read is well formed\<close>

lemma pod_of_row_wf: "good_pod r \<Longrightarrow> wf_Pod (pod_of_row r) \<and> md_name (pod_metadata (pod_of_row r)) = prow_name r"
  by (auto simp: good_pod_def pod_of_row_def wf_Pod_def wf_PodStatus_def meta_col_def json_col_def svc_spec_col_def crd_spec_col_def)

lemma rs_of_row_wf: "good_rs r \<Longrightarrow> wf_ReplicaSet (rs_of_row r) \<and> md_name (rs_metadata (rs_of_row r)) = orow_name r"
  by (auto simp: good_rs_def rs_of_row_def wf_ReplicaSet_def meta_col_def json_col_def svc_spec_col_def crd_spec_col_def)

lemma dep_of_row_wf: "good_dep r \<Longrightarrow> wf_Deployment (dep_of_row r) \<and> md_name (dep_metadata (dep_of_row r)) = orow_name r"
  by (auto simp: good_dep_def dep_of_row_def wf_Deployment_def meta_col_def json_col_def svc_spec_col_def crd_spec_col_def)

lemma svc_of_row_wf: "good_svc r \<Longrightarrow> wf_Service (svc_of_row r) \<and> md_name (svc_metadata (svc_of_row r)) = srow_name r"
  by (auto simp: good_svc_def svc_of_row_def wf_Service_def meta_col_def json_col_def svc_spec_col_def crd_spec_col_def)

lemma ep_of_row_wf: "good_ep r \<Longrightarrow> wf_Endpoints (ep_of_row r) \<and> md_name (ep_metadata (ep_of_row r)) = erow_name r"
  by (auto simp: good_ep_def ep_of_row_def wf_Endpoints_def meta_col_def json_col_def svc_spec_col_def crd_spec_col_def)

lemma node_of_row_wf: "good_node r \<Longrightarrow> wf_Node (node_of_row r) \<and> md_name (node_metadata (node_of_row r)) = nrow_name r"
  by (auto simp: good_node_def node_of_row_def wf_Node_def meta_col_def json_col_def svc_spec_col_def crd_spec_col_def)

lemma crd_of_row_wf: "good_crd r \<Longrightarrow> wf_CRD (crd_of_row r) \<and> md_name (crd_metadata (crd_of_row r)) = crow_name r"
  by (auto simp: good_crd_def crd_of_row_def wf_CRD_def meta_col_def json_col_def svc_spec_col_def crd_spec_col_def)

lemma cr_of_row_wf: "good_cr r \<Longrightarrow> wf_CustomResource (cr_of_row r) \<and> md_name (cr_metadata (cr_of_row r)) = xrow_name r"
  by (auto simp: good_cr_def cr_of_row_def wf_CustomResource_def meta_col_def json_col_def svc_spec_col_def crd_spec_col_def)

lemma user_of_row_wf: "good_user r \<Longrightarrow> wf_User (user_of_row r) \<and> md_name (user_metadata (user_of_row r)) = urow_name r"
  by (auto simp: good_user_def user_of_row_def wf_User_def wf_Metadata_def zero_Metadata_def meta_col_def json_col_def svc_spec_col_def crd_spec_col_def)

lemma role_of_row_wf: "good_role r \<Longrightarrow> wf_Role (role_of_row scope r) \<and> md_name (role_metadata (role_of_row scope r)) = rrow_name r"
  by (auto simp: good_role_def role_of_row_def wf_Role_def meta_col_def json_col_def svc_spec_col_def crd_spec_col_def)

lemma rb_of_row_wf: "good_rb r \<Longrightarrow> wf_RoleBinding (rb_of_row scope r) \<and> md_name (rb_metadata (rb_of_row scope r)) = brow_name r"
  by (auto simp: good_rb_def rb_of_row_def wf_RoleBinding_def meta_col_def json_col_def svc_spec_col_def crd_spec_col_def)

lemma wh_of_row_wf: "good_wh r \<Longrightarrow> wf_AdmissionWebhook (wh_of_row r) \<and> md_name (wh_metadata (wh_of_row r)) = wrow_name r"
  by (auto simp: good_wh_def wh_of_row_def wf_AdmissionWebhook_def wf_Metadata_def zero_Metadata_def meta_col_def json_col_def svc_spec_col_def crd_spec_col_def)

lemma hpa_of_row_wf: "good_hpa r \<Longrightarrow> wf_HPA (hpa_of_row r) \<and> md_name (hpa_metadata (hpa_of_row r)) = orow_name r"
  by (auto simp: good_hpa_def hpa_of_row_def wf_HPA_def meta_col_def json_col_def svc_spec_col_def crd_spec_col_def)

lemma np_of_row_wf: "good_np r \<Longrightarrow> wf_NetworkPolicy (np_of_row r) \<and> md_name (np_metadata (np_of_row r)) = nprow_name r"
  by (auto simp: good_np_def np_of_row_def wf_NetworkPolicy_def meta_col_def json_col_def svc_spec_col_def crd_spec_col_def)

lemma cl_of_row_wf: "good_cl r \<Longrightarrow> wf_Cluster (cl_of_row r) \<and> md_name (cl_metadata (cl_of_row r)) = clrow_name r"
  by (auto simp: good_cl_def cl_of_row_def wf_Cluster_def meta_col_def json_col_def svc_spec_col_def crd_spec_col_def)

lemma fd_of_row_wf: "good_fd r \<Longrightarrow> wf_FederatedDeployment (fd_of_row r) \<and> md_name (fd_metadata (fd_of_row r)) = orow_name r"
  by (auto simp: good_fd_def fd_of_row_def wf_FederatedDeployment_def meta_col_def json_col_def svc_spec_col_def crd_spec_col_def)

lemma named_crd_of_row_wf: "good_crd r \<Longrightarrow> wf_CRD (named_crd_of_row r) \<and> md_name (crd_metadata (named_crd_of_row r)) = crow_name r"
  using crd_of_row_wf [of r] by (auto simp: named_crd_of_row_def wf_CRD_def wf_Metadata_def Let_def)

lemma GetPod_wf: "store_ok st \<Longrightarrow> GetPod drv st name = Inr x \<Longrightarrow> wf_Pod x \<and> md_name (pod_metadata x) = name"
  by (auto simp: GetPod_def query_row_Inr dest!: sql_first_SomeD dest: table_ok_mem [OF store_ok_pod] pod_of_row_wf)

lemma GetReplicaSet_wf: "store_ok st \<Longrightarrow> GetReplicaSet drv st name = Inr x \<Longrightarrow> wf_ReplicaSet x \<and> md_name (rs_metadata x) = name"
  by (auto simp: GetReplicaSet_def query_row_Inr dest!: sql_first_SomeD dest: table_ok_mem [OF store_ok_rs] rs_of_row_wf)

lemma GetDeployment_wf: "store_ok st \<Longrightarrow> GetDeployment drv st name = Inr x \<Longrightarrow> wf_Deployment x \<and> md_name (dep_metadata x) = name"
  by (auto simp: GetDeployment_def query_row_Inr dest!: sql_first_SomeD dest: table_ok_mem [OF store_ok_dep] dep_of_row_wf)

lemma GetService_wf: "store_ok st \<Longrightarrow> GetService drv st name = Inr x \<Longrightarrow> wf_Service x \<and> md_name (svc_metadata x) = name"
  by (auto simp: GetService_def query_row_Inr dest!: sql_first_SomeD dest: table_ok_mem [OF store_ok_svc] svc_of_row_wf)

lemma GetEndpoints_wf: "store_ok st \<Longrightarrow> GetEndpoints drv st name = Inr x \<Longrightarrow> wf_Endpoints x \<and> md_name (ep_metadata x) = name"
  by (auto simp: GetEndpoints_def query_row_Inr dest!: sql_first_SomeD dest: table_ok_mem [OF store_ok_ep] ep_of_row_wf)

lemma GetNode_wf: "store_ok st \<Longrightarrow> GetNode drv st name = Inr x \<Longrightarrow> wf_Node x \<and> md_name (node_metadata x) = name"
  by (auto simp: GetNode_def query_row_Inr dest!: sql_first_SomeD dest: table_ok_mem [OF store_ok_node] node_of_row_wf)

lemma GetCRD_wf: "store_ok st \<Longrightarrow> GetCRD drv st name = Inr x \<Longrightarrow> wf_CRD x \<and> md_name (crd_metadata x) = name"
  by (auto simp: GetCRD_def query_row_Inr dest!: sql_first_SomeD dest: table_ok_mem [OF store_ok_crd] crd_of_row_wf)

lemma GetCustomResource_wf: "store_ok st \<Longrightarrow> GetCustomResource drv st crdName name = Inr x \<Longrightarrow> wf_CustomResource x \<and> md_name (cr_metadata x) = name"
  by (auto simp: GetCustomResource_def query_row_Inr xrow_key_def dest!: sql_first_SomeD dest: table_ok_mem [OF store_ok_cr] cr_of_row_wf)

lemma GetRole_wf: "store_ok st \<Longrightarrow> GetRole drv st scope name = Inr x \<Longrightarrow> wf_Role x \<and> md_name (role_metadata x) = name"
  by (auto simp: GetRole_def query_row_Inr rrow_key_def dest!: sql_first_SomeD dest: table_ok_mem [OF store_ok_role] role_of_row_wf)

lemma GetHPA_wf: "store_ok st \<Longrightarrow> GetHPA drv st name = Inr x \<Longrightarrow> wf_HPA x \<and> md_name (hpa_metadata x) = name"
  by (auto simp: GetHPA_def query_row_Inr dest!: sql_first_SomeD dest: table_ok_mem [OF store_ok_hpa] hpa_of_row_wf)

lemma GetNetworkPolicy_wf: "store_ok st \<Longrightarrow> GetNetworkPolicy drv st name = Inr x \<Longrightarrow> wf_NetworkPolicy x \<and> md_name (np_metadata x) = name"
  by (auto simp: GetNetworkPolicy_def query_row_Inr dest!: sql_first_SomeD dest: table_ok_mem [OF store_ok_np] np_of_row_wf)

lemma GetCluster_wf: "store_ok st \<Longrightarrow> GetCluster drv st name = Inr x \<Longrightarrow> wf_Cluster x \<and> md_name (cl_metadata x) = name"
  by (auto simp: GetCluster_def query_row_Inr dest!: sql_first_SomeD dest: table_ok_mem [OF store_ok_cl] cl_of_row_wf)

lemma GetFederatedDeployment_wf: "store_ok st \<Longrightarrow> GetFederatedDeployment drv st name = Inr x \<Longrightarrow> wf_FederatedDeployment x \<and> md_name (fd_metadata x) = name"
  by (auto simp: GetFederatedDeployment_def query_row_Inr dest!: sql_first_SomeD dest: table_ok_mem [OF store_ok_fd] fd_of_row_wf)

lemma GetCRDByPlural_wf: "store_ok st \<Longrightarrow> GetCRDByPlural drv st plural = Inr x \<Longrightarrow> wf_CRD x"
  by (auto simp: GetCRDByPlural_def query_row_Inr dest!: sql_first_SomeD dest: table_ok_mem [OF store_ok_crd] named_crd_of_row_wf)

lemma ListPods_wf: "store_ok st \<Longrightarrow> ListPods drv st phase = Inr xs \<Longrightarrow> list_all wf_Pod xs"
  by (auto simp: ListPods_def query_rows_Inr list_all_iff split: if_splits dest: table_ok_mem [OF store_ok_pod] pod_of_row_wf)

lemma ListPodsByNode_wf: "store_ok st \<Longrightarrow> ListPodsByNode drv st node = Inr xs \<Longrightarrow> list_all wf_Pod xs"
  by (auto simp: ListPodsByNode_def query_rows_Inr list_all_iff split: if_splits dest: table_ok_mem [OF store_ok_pod] pod_of_row_wf)

lemma ListReplicaSets_wf: "store_ok st \<Longrightarrow> ListReplicaSets drv st = Inr xs \<Longrightarrow> list_all wf_ReplicaSet xs"
  by (auto simp: ListReplicaSets_def query_rows_Inr list_all_iff split: if_splits dest: table_ok_mem [OF store_ok_rs] rs_of_row_wf)

lemma ListDeployments_wf: "store_ok st \<Longrightarrow> ListDeployments drv st = Inr xs \<Longrightarrow> list_all wf_Deployment xs"
  by (auto simp: ListDeployments_def query_rows_Inr list_all_iff split: if_splits dest: table_ok_mem [OF store_ok_dep] dep_of_row_wf)

lemma ListServices_wf: "store_ok st \<Longrightarrow> ListServices drv st = Inr xs \<Longrightarrow> list_all wf_Service xs"
  by (auto simp: ListServices_def query_rows_Inr list_all_iff split: if_splits dest: table_ok_mem [OF store_ok_svc] svc_of_row_wf)

lemma ListEndpoints_wf: "store_ok st \<Longrightarrow> ListEndpoints drv st = Inr xs \<Longrightarrow> list_all wf_Endpoints xs"
  by (auto simp: ListEndpoints_def query_rows_Inr list_all_iff split: if_splits dest: table_ok_mem [OF store_ok_ep] ep_of_row_wf)

lemma ListNodes_wf: "store_ok st \<Longrightarrow> ListNodes drv st = Inr xs \<Longrightarrow> list_all wf_Node xs"
  by (auto simp: ListNodes_def query_rows_Inr list_all_iff split: if_splits dest: table_ok_mem [OF store_ok_node] node_of_row_wf)

lemma ListCRDs_wf: "store_ok st \<Longrightarrow> ListCRDs drv st = Inr xs \<Longrightarrow> list_all wf_CRD xs"
  by (auto simp: ListCRDs_def query_rows_Inr list_all_iff split: if_splits dest: table_ok_mem [OF store_ok_crd] named_crd_of_row_wf)

lemma ListCustomResources_wf: "store_ok st \<Longrightarrow> ListCustomResources drv st crdName = Inr xs \<Longrightarrow> list_all wf_CustomResource xs"
  by (auto simp: ListCustomResources_def query_rows_Inr list_all_iff split: if_splits dest: table_ok_mem [OF store_ok_cr] cr_of_row_wf)

lemma ListUsers_wf: "store_ok st \<Longrightarrow> ListUsers drv st = Inr xs \<Longrightarrow> list_all wf_User xs"
  by (auto simp: ListUsers_def query_rows_Inr list_all_iff split: if_splits dest: table_ok_mem [OF store_ok_user] user_of_row_wf)

lemma ListRoles_wf: "store_ok st \<Longrightarrow> ListRoles drv st scope = Inr xs \<Longrightarrow> list_all wf_Role xs"
  by (auto simp: ListRoles_def query_rows_Inr list_all_iff split: if_splits dest: table_ok_mem [OF store_ok_role] role_of_row_wf)

lemma ListRoleBindings_wf: "store_ok st \<Longrightarrow> ListRoleBindings drv st scope = Inr xs \<Longrightarrow> list_all wf_RoleBinding xs"
  by (auto simp: ListRoleBindings_def query_rows_Inr list_all_iff split: if_splits dest: table_ok_mem [OF store_ok_rb] rb_of_row_wf)

lemma ListWebhooks_wf: "store_ok st \<Longrightarrow> ListWebhooks drv st = Inr xs \<Longrightarrow> list_all wf_AdmissionWebhook xs"
  by (auto simp: ListWebhooks_def query_rows_Inr list_all_iff split: if_splits dest: table_ok_mem [OF store_ok_wh] wh_of_row_wf)

lemma ListHPAs_wf: "store_ok st \<Longrightarrow> ListHPAs drv st = Inr xs \<Longrightarrow> list_all wf_HPA xs"
  by (auto simp: ListHPAs_def query_rows_Inr list_all_iff split: if_splits dest: table_ok_mem [OF store_ok_hpa] hpa_of_row_wf)

lemma ListNetworkPolicies_wf: "store_ok st \<Longrightarrow> ListNetworkPolicies drv st = Inr xs \<Longrightarrow> list_all wf_NetworkPolicy xs"
  by (auto simp: ListNetworkPolicies_def query_rows_Inr list_all_iff split: if_splits dest: table_ok_mem [OF store_ok_np] np_of_row_wf)

lemma ListClusters_wf: "store_ok st \<Longrightarrow> ListClusters drv st = Inr xs \<Longrightarrow> list_all wf_Cluster xs"
  by (auto simp: ListClusters_def query_rows_Inr list_all_iff split: if_splits dest: table_ok_mem [OF store_ok_cl] cl_of_row_wf)

lemma ListFederatedDeployments_wf: "store_ok st \<Longrightarrow> ListFederatedDeployments drv st = Inr xs \<Longrightarrow> list_all wf_FederatedDeployment xs"
  by (auto simp: ListFederatedDeployments_def query_rows_Inr list_all_iff split: if_splits dest: table_ok_mem [OF store_ok_fd] fd_of_row_wf)

section \<open>Every method keeps the invariant\<close>

lemma CreatePod_ok: "store_ok st \<Longrightarrow> wf_Pod p \<Longrightarrow> CreatePod drv now p st = Inr st' \<Longrightarrow> store_ok st'"
  by (auto simp: CreatePod_def Let_def sql_results wf_Pod_def wf_PodStatus_def good_pod_def
    intro!: store_ok_set_pod table_intros store_ok_pod)

lemma UpsertPod_ok: "store_ok st \<Longrightarrow> wf_Pod p \<Longrightarrow> UpsertPod drv now p st = Inr st' \<Longrightarrow> store_ok st'"
  by (auto simp: UpsertPod_def Let_def sql_results wf_Pod_def good_pod_def split: sum.splits if_splits
    intro!: store_ok_set_pod table_intros store_ok_pod intro: CreatePod_ok [unfolded wf_Pod_def])

lemma UpsertReplicaSet_ok:
  assumes "store_ok st" "wf_ReplicaSet x" "UpsertReplicaSet drv now x st = Inr st'"
  shows "store_ok st'"
proof (cases "GetReplicaSet drv st (md_name (rs_metadata x))")
  case (Inl e)
  with assms show ?thesis
    by (auto simp: UpsertReplicaSet_def Let_def sql_results wf_ReplicaSet_def good_rs_def wf_ReplicaSetStatus_def split: if_splits
      intro!: store_ok_set_rs table_intros store_ok_rs json_colI)
next
  case (Inr old)
  then have "wf_ReplicaSet old" using GetReplicaSet_wf [OF assms(1)] by blast
  with Inr assms show ?thesis
    by (auto simp: UpsertReplicaSet_def Let_def sql_results wf_ReplicaSet_def good_rs_def wf_ReplicaSetStatus_def intro!: meta_colI svc_spec_colI json_colI
      store_ok_set_rs table_ok_update [OF store_ok_rs])
qed

lemma UpsertDeployment_ok:
  assumes "store_ok st" "wf_Deployment x" "UpsertDeployment drv now x st = Inr st'"
  shows "store_ok st'"
proof (cases "GetDeployment drv st (md_name (dep_metadata x))")
  case (Inl e)
  with assms show ?thesis
    by (auto simp: UpsertDeployment_def Let_def sql_results wf_Deployment_def good_dep_def wf_DeploymentStatus_def split: if_splits
      intro!: store_ok_set_dep table_intros store_ok_dep json_colI)
next
  case (Inr old)
  then have "wf_Deployment old" using GetDeployment_wf [OF assms(1)] by blast
  with Inr assms show ?thesis
    by (auto simp: UpsertDeployment_def Let_def sql_results wf_Deployment_def good_dep_def wf_DeploymentStatus_def intro!: meta_colI svc_spec_colI json_colI
      store_ok_set_dep table_ok_update [OF store_ok_dep])
qed

lemma UpsertService_ok:
  assumes "store_ok st" "wf_Service x" "UpsertService drv now x st = Inr st'"
  shows "store_ok st'"
proof (cases "GetService drv st (md_name (svc_metadata x))")
  case (Inl e)
  with assms show ?thesis
    by (auto simp: UpsertService_def Let_def sql_results wf_Service_def good_svc_def wf_ServiceStatus_def split: if_splits
      intro!: store_ok_set_svc table_intros store_ok_svc json_colI)
next
  case (Inr old)
  then have "wf_Service old" using GetService_wf [OF assms(1)] by blast
  with Inr assms show ?thesis
    by (auto simp: UpsertService_def Let_def sql_results wf_Service_def good_svc_def wf_ServiceStatus_def intro!: meta_colI svc_spec_colI json_colI
      store_ok_set_svc table_ok_update [OF store_ok_svc])
qed

lemma UpsertEndpoints_ok: "store_ok st \<Longrightarrow> wf_Endpoints x \<Longrightarrow> UpsertEndpoints drv now x st = Inr st' \<Longrightarrow> store_ok st'"
  by (auto simp: UpsertEndpoints_def Let_def sql_results wf_Endpoints_def good_ep_def
    intro!: store_ok_set_ep table_intros store_ok_ep json_colI exI)

lemma UpsertNode_ok: "store_ok st \<Longrightarrow> wf_Node x \<Longrightarrow> UpsertNode drv now x st = Inr st' \<Longrightarrow> store_ok st'"
  by (auto simp: UpsertNode_def Let_def sql_results wf_Node_def wf_NodeStatus_def good_node_def
    intro!: store_ok_set_node table_intros store_ok_node json_colI exI)

lemma UpsertCRD_ok: "store_ok st \<Longrightarrow> wf_CRD x \<Longrightarrow> UpsertCRD drv now x st = Inr st' \<Longrightarrow> store_ok st'"
  by (auto simp: UpsertCRD_def Let_def sql_results wf_CRD_def good_crd_def
    intro!: store_ok_set_crd table_intros store_ok_crd json_colI exI)

lemma UpsertCustomResource_ok: "store_ok st \<Longrightarrow> wf_CustomResource x \<Longrightarrow> UpsertCustomResource drv now crdName x st = Inr st' \<Longrightarrow> store_ok st'"
  by (auto simp: UpsertCustomResource_def Let_def sql_results wf_CustomResource_def good_cr_def xrow_key_def
    intro!: store_ok_set_cr table_intros store_ok_cr json_colI exI)

lemma UpsertRole_ok: "store_ok st \<Longrightarrow> wf_Role x \<Longrightarrow> UpsertRole drv now scope x st = Inr st' \<Longrightarrow> store_ok st'"
  by (auto simp: UpsertRole_def Let_def sql_results wf_Role_def good_role_def rrow_key_def
    intro!: store_ok_set_role table_intros store_ok_role json_colI exI)

lemma UpsertRoleBinding_ok: "store_ok st \<Longrightarrow> wf_RoleBinding x \<Longrightarrow> UpsertRoleBinding drv now scope x st = Inr st' \<Longrightarrow> store_ok st'"
  by (auto simp: UpsertRoleBinding_def Let_def sql_results wf_RoleBinding_def good_rb_def brow_key_def
    intro!: store_ok_set_rb table_intros store_ok_rb json_colI exI)

lemma UpsertNetworkPolicy_ok: "store_ok st \<Longrightarrow> wf_NetworkPolicy x \<Longrightarrow> UpsertNetworkPolicy drv now x st = Inr st' \<Longrightarrow> store_ok st'"
  by (auto simp: UpsertNetworkPolicy_def Let_def sql_results wf_NetworkPolicy_def good_np_def
    intro!: store_ok_set_np table_intros store_ok_np json_colI exI)

lemma UpsertCluster_ok: "store_ok st \<Longrightarrow> wf_Cluster x \<Longrightarrow> UpsertCluster drv now x st = Inr st' \<Longrightarrow> store_ok st'"
  by (auto simp: UpsertCluster_def Let_def sql_results wf_Cluster_def good_cl_def
    intro!: store_ok_set_cl table_intros store_ok_cl json_colI exI)

lemma UpsertHPA_ok:
  assumes "store_ok st" "wf_HPA x" "UpsertHPA drv now x st = Inr st'"
  shows "store_ok st'"
proof (cases "GetHPA drv st (md_name (hpa_metadata x))")
  case (Inl e)
  with assms show ?thesis
    by (auto simp: UpsertHPA_def Let_def sql_results wf_HPA_def good_hpa_def
      intro!: store_ok_set_hpa table_intros store_ok_hpa meta_colI json_colI)
next
  case (Inr old)
  then have "wf_HPA old" using GetHPA_wf [OF assms(1)] by blast
  with Inr assms show ?thesis
    by (auto simp: UpsertHPA_def Let_def sql_results wf_HPA_def good_hpa_def
      intro!: store_ok_set_hpa table_intros store_ok_hpa meta_colI json_colI)
qed

lemma UpsertFederatedDeployment_ok:
  assumes "store_ok st" "wf_FederatedDeployment x" "UpsertFederatedDeployment drv now x st = Inr st'"
  shows "store_ok st'"
proof (cases "GetFederatedDeployment drv st (md_name (fd_metadata x))")
  case (Inl e)
  with assms show ?thesis
    by (auto simp: UpsertFederatedDeployment_def Let_def sql_results wf_FederatedDeployment_def good_fd_def
      intro!: store_ok_set_fd table_intros store_ok_fd meta_colI json_colI)
next
  case (Inr old)
  then have "wf_FederatedDeployment old" using GetFederatedDeployment_wf [OF assms(1)] by blast
  with Inr assms show ?thesis
    by (auto simp: UpsertFederatedDeployment_def Let_def sql_results wf_FederatedDeployment_def good_fd_def
      intro!: store_ok_set_fd table_intros store_ok_fd meta_colI json_colI)
qed

lemma UpdateStatus_ok: "store_ok st \<Longrightarrow> wf_PodStatus x \<Longrightarrow> UpdateStatus drv now name x st = Inr st' \<Longrightarrow> store_ok st'"
  by (auto simp: UpdateStatus_def Let_def sql_results wf_PodStatus_def good_pod_def
    intro!: store_ok_set_pod table_intros store_ok_pod json_colI)

lemma UpdateReplicaSetStatus_ok: "store_ok st \<Longrightarrow> wf_ReplicaSetStatus x \<Longrightarrow> UpdateReplicaSetStatus drv now name x st = Inr st' \<Longrightarrow> store_ok st'"
  by (auto simp: UpdateReplicaSetStatus_def Let_def sql_results wf_ReplicaSetStatus_def good_rs_def
    intro!: store_ok_set_rs table_intros store_ok_rs json_colI)

lemma UpdateDeploymentStatus_ok: "store_ok st \<Longrightarrow> wf_DeploymentStatus x \<Longrightarrow> UpdateDeploymentStatus drv now name x st = Inr st' \<Longrightarrow> store_ok st'"
  by (auto simp: UpdateDeploymentStatus_def Let_def sql_results wf_DeploymentStatus_def good_dep_def
    intro!: store_ok_set_dep table_intros store_ok_dep json_colI)

lemma UpdateHPAStatus_ok: "store_ok st \<Longrightarrow> wf_HPAStatus x \<Longrightarrow> UpdateHPAStatus drv now name x st = Inr st' \<Longrightarrow> store_ok st'"
  by (auto simp: UpdateHPAStatus_def Let_def sql_results wf_HPAStatus_def good_hpa_def
    intro!: store_ok_set_hpa table_intros store_ok_hpa json_colI)

lemma UpdateClusterStatus_ok: "store_ok st \<Longrightarrow> wf_ClusterStatus x \<Longrightarrow> UpdateClusterStatus drv now name x st = Inr st' \<Longrightarrow> store_ok st'"
  by (auto simp: UpdateClusterStatus_def Let_def sql_results wf_ClusterStatus_def good_cl_def
    intro!: store_ok_set_cl table_intros store_ok_cl json_colI)

lemma UpdateFederatedDeploymentStatus_ok: "store_ok st \<Longrightarrow> wf_FederatedDeploymentStatus x \<Longrightarrow> UpdateFederatedDeploymentStatus drv now name x st = Inr st' \<Longrightarrow> store_ok st'"
  by (auto simp: UpdateFederatedDeploymentStatus_def Let_def sql_results wf_FederatedDeploymentStatus_def good_fd_def
    intro!: store_ok_set_fd table_intros store_ok_fd json_colI)

lemma DeletePod_ok: "store_ok st \<Longrightarrow> DeletePod drv name st = Inr st' \<Longrightarrow> store_ok st'"
  by (auto simp: DeletePod_def sql_results intro!: store_ok_set_pod table_intros store_ok_pod)

lemma DeleteReplicaSet_ok: "store_ok st \<Longrightarrow> DeleteReplicaSet drv name st = Inr st' \<Longrightarrow> store_ok st'"
  by (auto simp: DeleteReplicaSet_def sql_results intro!: store_ok_set_rs table_intros store_ok_rs)

lemma DeleteDeployment_ok: "store_ok st \<Longrightarrow> DeleteDeployment drv name st = Inr st' \<Longrightarrow> store_ok st'"
  by (auto simp: DeleteDeployment_def sql_results intro!: store_ok_set_dep table_intros store_ok_dep)

lemma DeleteNode_ok: "store_ok st \<Longrightarrow> DeleteNode drv name st = Inr st' \<Longrightarrow> store_ok st'"
  by (auto simp: DeleteNode_def sql_results intro!: store_ok_set_node table_intros store_ok_node)

lemma DeleteCustomResource_ok: "store_ok st \<Longrightarrow> DeleteCustomResource drv crdName name st = Inr st' \<Longrightarrow> store_ok st'"
  by (auto simp: DeleteCustomResource_def sql_results intro!: store_ok_set_cr table_intros store_ok_cr)

lemma DeleteRole_ok: "store_ok st \<Longrightarrow> DeleteRole drv scope name st = Inr st' \<Longrightarrow> store_ok st'"
  by (auto simp: DeleteRole_def sql_results intro!: store_ok_set_role table_intros store_ok_role)

lemma DeleteRoleBinding_ok: "store_ok st \<Longrightarrow> DeleteRoleBinding drv scope name st = Inr st' \<Longrightarrow> store_ok st'"
  by (auto simp: DeleteRoleBinding_def sql_results intro!: store_ok_set_rb table_intros store_ok_rb)

lemma DeleteWebhook_ok: "store_ok st \<Longrightarrow> DeleteWebhook drv name st = Inr st' \<Longrightarrow> store_ok st'"
  by (auto simp: DeleteWebhook_def sql_results intro!: store_ok_set_wh table_intros store_ok_wh)

lemma DeleteHPA_ok: "store_ok st \<Longrightarrow> DeleteHPA drv name st = Inr st' \<Longrightarrow> store_ok st'"
  by (auto simp: DeleteHPA_def sql_results intro!: store_ok_set_hpa table_intros store_ok_hpa)

lemma DeleteNetworkPolicy_ok: "store_ok st \<Longrightarrow> DeleteNetworkPolicy drv name st = Inr st' \<Longrightarrow> store_ok st'"
  by (auto simp: DeleteNetworkPolicy_def sql_results intro!: store_ok_set_np table_intros store_ok_np)

lemma DeleteCluster_ok: "store_ok st \<Longrightarrow> DeleteCluster drv name st = Inr st' \<Longrightarrow> store_ok st'"
  by (auto simp: DeleteCluster_def sql_results intro!: store_ok_set_cl table_intros store_ok_cl)

lemma DeleteFederatedDeployment_ok: "store_ok st \<Longrightarrow> DeleteFederatedDeployment drv name st = Inr st' \<Longrightarrow> store_ok st'"
  by (auto simp: DeleteFederatedDeployment_def sql_results intro!: store_ok_set_fd table_intros store_ok_fd)

lemma DeleteService_ok: "store_ok st \<Longrightarrow> DeleteService drv name st = Inr st' \<Longrightarrow> store_ok st'"
  by (auto simp: DeleteService_def sql_results split: option.splits
    intro!: store_ok_set_svc store_ok_set_ep table_intros store_ok_svc store_ok_ep)

lemma DeleteCRD_ok: "store_ok st \<Longrightarrow> DeleteCRD drv name st = Inr st' \<Longrightarrow> store_ok st'"
  by (auto simp: DeleteCRD_def sql_results split: option.splits
    intro!: store_ok_set_crd store_ok_set_cr table_intros store_ok_crd store_ok_cr)

lemma UpsertWebhook_ok: "store_ok st \<Longrightarrow> UpsertWebhook drv now x st = Inr (w, st') \<Longrightarrow> store_ok st'"
  by (auto simp: UpsertWebhook_def Let_def sql_results good_wh_def
    intro!: store_ok_set_wh table_intros store_ok_wh json_colI)

lemma TryAcquireLease_ok:
  "store_ok st \<Longrightarrow> TryAcquireLease drv now name i ttl st = Inr (ok, h, st') \<Longrightarrow> store_ok st'"
  by (auto simp: TryAcquireLease_def Let_def sql_results good_lease_def split: option.splits sum.splits if_splits
    intro!: store_ok_set_lease table_intros store_ok_lease)

text \<open>Tokens identify users: an upsert that would give a second user a token in use is refused.\<close>

lemma tokens_update:
  assumes "distinct (map urow_token T)" "keys_ok urow_name T"
    "\<forall>r \<in> set T. urow_token r = tok \<longrightarrow> urow_name r = n"
    "\<And>r. urow_token (f r) = tok"
  shows "distinct (map urow_token (sql_update (\<lambda>r. urow_name r = n) f T))"
  using assms
proof (induction T)
  case Nil
  then show ?case by (simp add: sql_update_def)
next
  case (Cons r T)
  have IH: "distinct (map urow_token (sql_update (\<lambda>r. urow_name r = n) f T))"
    using Cons.prems by (intro Cons.IH) (simp_all add: keys_ok_def)
  have names: "\<forall>r' \<in> set T. urow_name r' \<noteq> urow_name r"
  proof
    fix r'
    assume "r' \<in> set T"
    then have "urow_name r' \<in> urow_name ` set T" by simp
    with Cons.prems(2) show "urow_name r' \<noteq> urow_name r" by (simp add: keys_ok_def) metis
  qed
  have head: "sql_update (\<lambda>r. urow_name r = n) f (r # T) =
      (if urow_name r = n then f r else r) # sql_update (\<lambda>r. urow_name r = n) f T"
    by (simp add: sql_update_def)
  show ?case
  proof (cases "urow_name r = n")
    case True
    with names have "sql_update (\<lambda>r. urow_name r = n) f T = T"
      by (auto simp: sql_update_def intro: map_idI)
    moreover have "\<forall>r' \<in> set T. urow_token r' \<noteq> tok" using Cons.prems(3) names True by auto
    ultimately show ?thesis using IH True Cons.prems(4) unfolding head by (auto simp: image_iff)
  next
    case False
    with Cons.prems(1,3) have "urow_token r \<noteq> tok" "\<forall>r' \<in> set T. urow_token r' \<noteq> urow_token r"
      by (auto simp: image_iff)
    with IH False Cons.prems(4) show ?thesis unfolding head by (auto simp: sql_update_def split: if_splits)
  qed
qed

lemma UpsertUser_ok: "store_ok st \<Longrightarrow> wf_User x \<Longrightarrow> UpsertUser drv now x st = Inr st' \<Longrightarrow> store_ok st'"
proof -
  assume ok: "store_ok st" and "UpsertUser drv now x st = Inr st'"
  then have free: "\<forall>r \<in> set (t_users st). urow_token r = user_token x \<longrightarrow> urow_name r = md_name (user_metadata x)"
    and st': "st' = st\<lparr>t_users := sql_upsert urow_name
          (\<lambda>new old. old\<lparr>urow_token := urow_token new, urow_groups_json := urow_groups_json new\<rparr>)
          \<lparr>urow_name = md_name (user_metadata x), urow_token = user_token x,
           urow_groups_json = enc_list JStr (user_groups x), urow_created_at = now\<rparr> (t_users st)\<rparr>"
    by (auto simp: UpsertUser_def sql_has_def list_ex_iff split: option.splits if_splits)
  from ok have T: "table_ok urow_name good_user (t_users st)" "distinct (map urow_token (t_users st))"
    by (simp_all add: store_ok_def)
  show "store_ok st'"
    unfolding st'
  proof (rule store_ok_set_user [OF ok])
    show "table_ok urow_name good_user (sql_upsert urow_name
          (\<lambda>new old. old\<lparr>urow_token := urow_token new, urow_groups_json := urow_groups_json new\<rparr>)
          \<lparr>urow_name = md_name (user_metadata x), urow_token = user_token x,
           urow_groups_json = enc_list JStr (user_groups x), urow_created_at = now\<rparr> (t_users st))"
      by (auto simp: good_user_def intro!: table_intros T json_colI)
    show "distinct (map urow_token (sql_upsert urow_name
          (\<lambda>new old. old\<lparr>urow_token := urow_token new, urow_groups_json := urow_groups_json new\<rparr>)
          \<lparr>urow_name = md_name (user_metadata x), urow_token = user_token x,
           urow_groups_json = enc_list JStr (user_groups x), urow_created_at = now\<rparr> (t_users st)))"
    proof (cases "sql_has (\<lambda>r. urow_name r = md_name (user_metadata x)) (t_users st)")
      case True
      then show ?thesis
        by (simp add: sql_upsert_def tokens_update [OF T(2) table_ok_keys [OF T(1)] free])
    next
      case False
      with free T(2) show ?thesis by (auto simp: sql_upsert_def sql_has_def list_ex_iff)
    qed
  qed
qed

lemma distinct_tokens_delete: "store_ok st \<Longrightarrow> distinct (map urow_token (sql_delete p (t_users st)))"
  by (simp add: store_ok_def sql_delete_def distinct_map_filter)

lemma DeleteUser_ok: "store_ok st \<Longrightarrow> DeleteUser drv name st = Inr st' \<Longrightarrow> store_ok st'"
  by (auto simp: DeleteUser_def sql_results intro!: store_ok_set_user table_intros store_ok_user
    distinct_tokens_delete)

end
