(* ===== verification/Rbac.thy ===== *)
theory Rbac
  imports Store_Contracts
begin

text \<open>
  internal/rbac/rbac.go: the bearer-token authenticator and the RBAC authorizer, over the user,
  role and binding tables of the store. The results state which requests are allowed in terms of
  the stored objects, that a failing database never lets a request through that a healthy one
  would deny, and that bindings only ever add permissions.
\<close>

record AuthzRequest =
  rq_user :: "User option"
  rq_verb :: string
  rq_apiGroup :: string
  rq_resource :: string
  rq_namespace :: string

definition SystemUser :: User where
  "SystemUser = zero_User\<lparr>user_metadata := zero_Metadata\<lparr>md_name := ''system:admin''\<rparr>,
     user_groups := [''system:masters'']\<rparr>"

text \<open>The header is the value of \<open>Authorization\<close>, empty when absent; \<open>None\<close> is \<open>(nil, false)\<close>.\<close>

definition Authenticate :: "driver \<Rightarrow> bool \<Rightarrow> store \<Rightarrow> string \<Rightarrow> User option" where
  "Authenticate drv anonymousAllowed st h =
    (if h = [] then (if anonymousAllowed then Some SystemUser else None)
     else if \<not> HasPrefix h ''Bearer '' then None
     else let tok = TrimSpace (drop (length ''Bearer '') h) in
       if tok = [] then None
       else (case GetUserByToken drv st tok of Inl _ \<Rightarrow> None | Inr u \<Rightarrow> Some u))"

definition listContains :: "string list \<Rightarrow> string \<Rightarrow> bool" where
  "listContains xs v \<longleftrightarrow> list_ex (\<lambda>x. x = ''*'' \<or> x = v) xs"

definition ruleMatches :: "PolicyRule \<Rightarrow> AuthzRequest \<Rightarrow> bool" where
  "ruleMatches r req \<longleftrightarrow> listContains (pr_verbs r) (rq_verb req) \<and>
     listContains (pr_apiGroups r) (rq_apiGroup req) \<and> listContains (pr_resources r) (rq_resource req)"

fun subjectMatches :: "Subject list \<Rightarrow> User \<Rightarrow> bool" where
  "subjectMatches [] u = False"
| "subjectMatches (s # subs) u =
    (if sub_kind s = ''User'' then (if sub_name s = md_name (user_metadata u) then True else subjectMatches subs u)
     else if sub_kind s = ''Group'' then (if list_ex (\<lambda>g. g = sub_name s) (user_groups u) then True else subjectMatches subs u)
     else subjectMatches subs u)"

definition ns_or_default :: "string \<Rightarrow> string" where
  "ns_or_default ns = (if ns = [] then ''default'' else ns)"

text \<open>The loop over the bindings of one scope: the first binding with a matching rule decides.\<close>

fun check_loop :: "driver \<Rightarrow> store \<Rightarrow> string \<Rightarrow> AuthzRequest \<Rightarrow> User \<Rightarrow> RoleBinding list \<Rightarrow> bool" where
  "check_loop drv st scope req u [] = False"
| "check_loop drv st scope req u (b # bs) =
    (if scope = ''RoleBinding'' \<and> ns_or_default (md_namespace (rb_metadata b)) \<noteq> ns_or_default (rq_namespace req)
     then check_loop drv st scope req u bs
     else if \<not> subjectMatches (rb_subjects b) u then check_loop drv st scope req u bs
     else (case GetRole (at_site (md_name (rb_metadata b)) drv) st (ref_kind (rb_roleRef b)) (ref_name (rb_roleRef b)) of
         Inl _ \<Rightarrow> check_loop drv st scope req u bs
       | Inr role \<Rightarrow> (if list_ex (\<lambda>rule. ruleMatches rule req) (role_rules role) then True
           else check_loop drv st scope req u bs)))"

definition checkBindings :: "driver \<Rightarrow> store \<Rightarrow> string \<Rightarrow> AuthzRequest \<Rightarrow> User \<Rightarrow> err + bool" where
  "checkBindings drv st scope req u =
    (case ListRoleBindings (at_site scope drv) st scope of
       Inl e \<Rightarrow> Inl e | Inr bindings \<Rightarrow> Inr (check_loop drv st scope req u bindings))"

text \<open>\<open>Allowed\<close> is the nil error; \<open>IsDenied\<close> tells a denial from a store error.\<close>

datatype authz = Allowed | DeniedErr string | StoreErr err

definition IsDenied :: "authz \<Rightarrow> bool" where
  "IsDenied r \<longleftrightarrow> (case r of DeniedErr _ \<Rightarrow> True | _ \<Rightarrow> False)"

definition errDenied :: "string \<Rightarrow> authz" where
  "errDenied m = DeniedErr (''forbidden: '' @ m)"

definition Authorize :: "driver \<Rightarrow> store \<Rightarrow> AuthzRequest \<Rightarrow> authz" where
  "Authorize drv st req =
    (case rq_user req of None \<Rightarrow> errDenied ''no user''
     | Some u \<Rightarrow>
      (if list_ex (\<lambda>g. g = ''system:masters'') (user_groups u) then Allowed
       else case checkBindings drv st ''ClusterRoleBinding'' req u of
         Inl e \<Rightarrow> StoreErr e
       | Inr True \<Rightarrow> Allowed
       | Inr False \<Rightarrow>
         (case checkBindings drv st ''RoleBinding'' req u of
            Inl e \<Rightarrow> StoreErr e
          | Inr True \<Rightarrow> Allowed
          | Inr False \<Rightarrow> errDenied (''user='' @ md_name (user_metadata u) @ '' cannot '' @ rq_verb req @ '' '' @
              rq_resource req @ '' in apiGroup='' @ nz (rq_apiGroup req) ''core''))))"

section \<open>What a binding grants\<close>

definition subject_of :: "Subject \<Rightarrow> User \<Rightarrow> bool" where
  "subject_of s u \<longleftrightarrow> sub_kind s = ''User'' \<and> sub_name s = md_name (user_metadata u) \<or>
     sub_kind s = ''Group'' \<and> sub_name s \<in> set (user_groups u)"

text \<open>
  A rule covers a verb on a resource of an API group when it lists each of the three, or the wildcard; the
  empty namespace and \<open>default\<close> are one namespace.
\<close>

definition rule_covers :: "PolicyRule \<Rightarrow> string \<Rightarrow> string \<Rightarrow> string \<Rightarrow> bool" where
  "rule_covers r verb grp resource \<longleftrightarrow>
     {verb, ''*''} \<inter> set (pr_verbs r) \<noteq> {} \<and> {grp, ''*''} \<inter> set (pr_apiGroups r) \<noteq> {} \<and>
     {resource, ''*''} \<inter> set (pr_resources r) \<noteq> {}"

definition same_namespace :: "string \<Rightarrow> string \<Rightarrow> bool" where
  "same_namespace a b \<longleftrightarrow> a = b \<or> {a, b} = {[], ''default''}"

text \<open>The role a binding refers to, by kind and name, in the table of roles.\<close>

definition bound_role :: "store \<Rightarrow> RoleBinding \<Rightarrow> role_row \<Rightarrow> bool" where
  "bound_role st b r \<longleftrightarrow>
     find (\<lambda>r. rrow_scope r = ref_kind (rb_roleRef b) \<and> rrow_name r = ref_name (rb_roleRef b)) (t_roles st) = Some r"

definition grants :: "store \<Rightarrow> string \<Rightarrow> RoleBinding \<Rightarrow> AuthzRequest \<Rightarrow> User \<Rightarrow> bool" where
  "grants st scope b req u \<longleftrightarrow>
     (scope = ''RoleBinding'' \<longrightarrow> same_namespace (md_namespace (rb_metadata b)) (rq_namespace req)) \<and>
     (\<exists>s \<in> set (rb_subjects b). subject_of s u) \<and>
     (\<exists>row. bound_role st b row \<and> (\<exists>rule \<in> set (role_rules (role_of_row (rrow_scope row) row)).
        rule_covers rule (rq_verb req) (rq_apiGroup req) (rq_resource req)))"

definition bindings_of :: "store \<Rightarrow> string \<Rightarrow> RoleBinding set" where
  "bindings_of st scope = rb_of_row scope ` {r \<in> set (t_role_bindings st). brow_scope r = scope}"

lemma listContains_iff: "listContains xs v \<longleftrightarrow> ''*'' \<in> set xs \<or> v \<in> set xs"
  by (auto simp: listContains_def list_ex_iff)

lemma ruleMatches_iff: "ruleMatches r req \<longleftrightarrow> rule_covers r (rq_verb req) (rq_apiGroup req) (rq_resource req)"
  by (auto simp: ruleMatches_def rule_covers_def listContains_iff)

lemma ns_or_default_iff: "ns_or_default a = ns_or_default b \<longleftrightarrow> same_namespace a b"
  by (auto simp: ns_or_default_def same_namespace_def doubleton_eq_iff)

lemma sql_first_find: "sql_first P T = find P T"
  by (induction T) (auto simp: sql_first_def)

lemma GetRole_bound:
  "GetRole no_faults st (ref_kind (rb_roleRef b)) (ref_name (rb_roleRef b)) = Inr role \<longleftrightarrow>
    (\<exists>row. bound_role st b row \<and> role = role_of_row (rrow_scope row) row)"
  unfolding GetRole_def query_row_Inr bound_role_def sql_first_find
  by (auto simp: rrow_key_def find_Some_iff no_faults_simp)

lemma subjectMatches_iff: "subjectMatches subs u \<longleftrightarrow> (\<exists>s \<in> set subs. subject_of s u)"
  by (induction subs u rule: subjectMatches.induct) (auto simp: subject_of_def list_ex_iff)

lemma check_loop_no_faults:
  "check_loop no_faults st scope req u bs \<longleftrightarrow> (\<exists>b \<in> set bs. grants st scope b req u)"
proof (induction bs)
  case Nil
  then show ?case by simp
next
  case (Cons b bs)
  show ?case
  proof (cases "GetRole no_faults st (ref_kind (rb_roleRef b)) (ref_name (rb_roleRef b))")
    case (Inl e)
    then have "\<not> bound_role st b row" for row using GetRole_bound [of st b "role_of_row (rrow_scope row) row"] by auto
    with Inl Cons show ?thesis by (auto simp: grants_def)
  next
    case (Inr role)
    then obtain row where row: "bound_role st b row" "role = role_of_row (rrow_scope row) row"
      using GetRole_bound by blast
    then have "bound_role st b r \<longleftrightarrow> r = row" for r by (auto simp: bound_role_def)
    with Inr Cons row(2) show ?thesis
      by (auto simp: grants_def subjectMatches_iff list_ex_iff ns_or_default_iff ruleMatches_iff)
  qed
qed

lemma GetRole_fault: "GetRole drv st scope name = Inr role \<Longrightarrow> GetRole no_faults st scope name = Inr role"
  by (auto simp: GetRole_def sql_results)

lemma check_loop_fault: "check_loop drv st scope req u bs \<Longrightarrow> check_loop no_faults st scope req u bs"
proof (induction bs)
  case Nil
  then show ?case by simp
next
  case (Cons b bs)
  show ?case
  proof (cases "GetRole (at_site (md_name (rb_metadata b)) drv) st (ref_kind (rb_roleRef b)) (ref_name (rb_roleRef b))")
    case (Inl e)
    with Cons have "check_loop no_faults st scope req u bs" by (simp split: if_splits)
    then show ?thesis by (auto split: sum.split)
  next
    case (Inr role)
    with Cons GetRole_fault [OF Inr] show ?thesis by (auto split: if_splits)
  qed
qed

lemma ListRoleBindings_no_faults:
  "\<exists>bs. ListRoleBindings no_faults st scope = Inr bs \<and> set bs = bindings_of st scope"
  by (auto simp: ListRoleBindings_def bindings_of_def)

lemma checkBindings_no_faults:
  "checkBindings no_faults st scope req u = Inr (\<exists>b \<in> bindings_of st scope. grants st scope b req u)"
  using ListRoleBindings_no_faults [of st scope] by (auto simp: checkBindings_def check_loop_no_faults)

lemma checkBindings_fault:
  "checkBindings drv st scope req u = Inr True \<Longrightarrow> checkBindings no_faults st scope req u = Inr True"
  by (auto simp: checkBindings_def ListRoleBindings_def sql_results check_loop_fault split: sum.splits)

text \<open>
  Which requests are allowed: members of system:masters, and users to whom a cluster role
  binding, or a role binding in the request's namespace, grants the verb on the resource.
\<close>

definition permitted :: "store \<Rightarrow> AuthzRequest \<Rightarrow> bool" where
  "permitted st req \<longleftrightarrow>
     (\<exists>u. rq_user req = Some u \<and>
       (''system:masters'' \<in> set (user_groups u) \<or>
        (\<exists>b \<in> bindings_of st ''ClusterRoleBinding''. grants st ''ClusterRoleBinding'' b req u) \<or>
        (\<exists>b \<in> bindings_of st ''RoleBinding''. grants st ''RoleBinding'' b req u)))"

lemma Authorize_healthy: "Authorize no_faults st req = Allowed \<longleftrightarrow> permitted st req"
  by (auto simp: Authorize_def permitted_def checkBindings_no_faults errDenied_def list_ex_iff
    split: option.splits bool.splits)

lemma Authorize_healthy_denied: "IsDenied (Authorize no_faults st req) \<longleftrightarrow> \<not> permitted st req"
  by (auto simp: Authorize_def permitted_def checkBindings_no_faults errDenied_def IsDenied_def list_ex_iff
    split: option.splits bool.splits)

lemma Authorize_fault: "Authorize drv st req = Allowed \<Longrightarrow> Authorize no_faults st req = Allowed"
proof -
  assume allowed: "Authorize drv st req = Allowed"
  show ?thesis
  proof (cases "rq_user req")
    case None
    with allowed show ?thesis by (simp add: Authorize_def errDenied_def)
  next
    case (Some u)
    with allowed consider "list_ex (\<lambda>g. g = ''system:masters'') (user_groups u)"
      | "checkBindings drv st ''ClusterRoleBinding'' req u = Inr True"
      | "checkBindings drv st ''RoleBinding'' req u = Inr True"
      by (auto simp: Authorize_def errDenied_def split: if_splits sum.splits bool.splits)
    then have "permitted st req"
    proof cases
      case 1
      with Some show ?thesis by (auto simp: permitted_def list_ex_iff)
    next
      case 2
      with Some show ?thesis by (auto simp: permitted_def checkBindings_no_faults dest: checkBindings_fault)
    next
      case 3
      with Some show ?thesis by (auto simp: permitted_def checkBindings_no_faults dest: checkBindings_fault)
    qed
    then show ?thesis by (simp add: Authorize_healthy)
  qed
qed

end
