(* ===== verification/Crd.thy ===== *)
theory Crd
  imports Api_Ext
begin

text \<open>
  internal/crd/crd.go: the parser of dynamic resource paths and the validation of a custom
  resource's spec against its CRD's schema. The order in which the schema's properties are
  visited is the map's; the verdict does not depend on it.
\<close>

definition PathPrefix :: string where
  "PathPrefix = ''/apis/''"

definition ParsePath :: "string \<Rightarrow> string + (string \<times> string \<times> string \<times> string)" where
  "ParsePath p =
    (let s = TrimPrefix p PathPrefix; parts = Split s (CHR ''/'') in
     if length parts < 3 then Inl (''not a CR path: '' @ p)
     else Inr (parts ! 0, parts ! 1, parts ! 2, if length parts \<ge> 4 then parts ! 3 else []))"

text \<open>\<open>typeMatches\<close> on the values \<open>encoding/json\<close> produces: all numbers are float64, times are strings.\<close>

definition typeMatches :: "string \<Rightarrow> json \<Rightarrow> bool" where
  "typeMatches t v =
    (if t = ''string'' then (case v of JStr _ \<Rightarrow> True | JTime _ \<Rightarrow> True | _ \<Rightarrow> False)
     else if t = ''integer'' \<or> t = ''number'' then (case v of JInt _ \<Rightarrow> True | JDec _ \<Rightarrow> True | _ \<Rightarrow> False)
     else if t = ''boolean'' then (case v of JBool _ \<Rightarrow> True | _ \<Rightarrow> False)
     else if t = ''object'' then (case v of JObj _ \<Rightarrow> True | _ \<Rightarrow> False)
     else if t = ''array'' then (case v of JArr _ \<Rightarrow> True | _ \<Rightarrow> False)
     else True)"

fun check_required :: "string list \<Rightarrow> (string \<times> json) list \<Rightarrow> string option" where
  "check_required [] spec = None"
| "check_required (req # reqs) spec =
     (if \<not> ghas spec req then Some (''spec.'' @ req @ '' is required'') else check_required reqs spec)"

fun check_properties :: "(string \<times> CRDSchemaProperty) list \<Rightarrow> (string \<times> json) list \<Rightarrow> string option" where
  "check_properties [] spec = None"
| "check_properties ((k, prop) # props) spec =
     (case map_of spec k of
        None \<Rightarrow> check_properties props spec
      | Some v \<Rightarrow>
         (if csp_type prop = [] then check_properties props spec
          else if \<not> typeMatches (csp_type prop) v then Some (''spec.'' @ k @ '': expected '' @ csp_type prop)
          else check_properties props spec))"

definition ValidateSpec :: "CRDSchema \<Rightarrow> (string \<times> json) list \<Rightarrow> string option" where
  "ValidateSpec schema spec =
    (case check_required (cs_required schema) spec of
       Some e \<Rightarrow> Some e | None \<Rightarrow> check_properties (cs_properties schema) spec)"

section \<open>Results\<close>

text \<open>The values of each schema type. A number is any JSON number; a type of another name has every value.\<close>

definition type_values :: "(string \<times> json set) list" where
  "type_values =
    [(''string'', range JStr \<union> range JTime), (''integer'', range JInt \<union> range JDec), (''number'', range JInt \<union> range JDec),
     (''boolean'', range JBool), (''object'', range JObj), (''array'', range JArr)]"

definition has_type :: "string \<Rightarrow> json \<Rightarrow> bool" where
  "has_type t v \<longleftrightarrow> (\<forall>V. map_of type_values t = Some V \<longrightarrow> v \<in> V)"

definition conforms :: "CRDSchema \<Rightarrow> (string \<times> json) list \<Rightarrow> bool" where
  "conforms schema spec \<longleftrightarrow>
     set (cs_required schema) \<subseteq> dom (map_of spec) \<and>
     (\<forall>(k, prop) \<in> set (cs_properties schema). \<forall>v. map_of spec k = Some v \<longrightarrow> has_type (csp_type prop) v)"

lemma typeMatches_iff: "typeMatches t v \<longleftrightarrow> has_type t v"
  by (cases v) (auto simp: typeMatches_def has_type_def type_values_def)

lemma check_required_None: "check_required reqs spec = None \<longleftrightarrow> set reqs \<subseteq> dom (map_of spec)"
  by (induction reqs spec rule: check_required.induct) (auto simp: ghas_def)

lemma check_properties_None: "check_properties props spec = None \<longleftrightarrow>
    (\<forall>(k, prop) \<in> set props. \<forall>v. map_of spec k = Some v \<longrightarrow> has_type (csp_type prop) v)"
proof (induction props spec rule: check_properties.induct)
  case (2 k p ps spec)
  have "has_type [] v" for v by (simp add: has_type_def type_values_def)
  with 2 show ?case by (auto simp: typeMatches_iff split: option.splits)
qed simp

lemma ValidateSpec_None: "ValidateSpec schema spec = None \<longleftrightarrow> conforms schema spec"
proof (cases "check_required (cs_required schema) spec")
  case None
  then show ?thesis
    by (simp add: ValidateSpec_def conforms_def check_properties_None flip: check_required_None)
next
  case (Some e)
  then have "\<not> set (cs_required schema) \<subseteq> dom (map_of spec)"
    by (simp flip: check_required_None)
  with Some show ?thesis by (simp add: ValidateSpec_def conforms_def)
qed

definition segment :: "string \<Rightarrow> bool" where
  "segment s \<longleftrightarrow> CHR ''/'' \<notin> set s"

definition cr_path :: "string \<Rightarrow> string \<Rightarrow> string \<Rightarrow> string" where
  "cr_path grp version plural = PathPrefix @ grp @ ''/'' @ version @ ''/'' @ plural"

lemma ParsePath_cr_path:
  "segment g \<Longrightarrow> segment v \<Longrightarrow> segment p \<Longrightarrow> ParsePath (cr_path g v p) = Inr (g, v, p, [])"
  by (simp add: ParsePath_def cr_path_def segment_def Split_append_sep Split_no_sep)

lemma ParsePath_cr_name:
  "segment g \<Longrightarrow> segment v \<Longrightarrow> segment p \<Longrightarrow> segment n \<Longrightarrow>
   ParsePath (cr_path g v p @ ''/'' @ n) = Inr (g, v, p, n)"
  by (simp add: ParsePath_def cr_path_def segment_def Split_append_sep Split_no_sep)

lemma ParsePath_rest:
  "segment g \<Longrightarrow> segment v \<Longrightarrow> segment p \<Longrightarrow> segment n \<Longrightarrow>
   ParsePath (cr_path g v p @ ''/'' @ n @ ''/'' @ rest) = Inr (g, v, p, n)"
  by (simp add: ParsePath_def cr_path_def segment_def Split_append_sep)

end
