(* ===== verification/Admission.thy ===== *)
theory Admission
  imports Store_Contracts
begin

text \<open>
  internal/admission/admission.go: the webhook pipeline every write of a pod or a deployment
  passes. The remote webhooks are not in the sources: \<open>net\<close> gives the answer of the endpoint at a
  URL to a review request, and \<open>rnd\<close> the random UID drawn for the call of the hook of that name.
  Objects are JSON documents.
\<close>

datatype reply =
    TransportError string
  | Reply int "json option"

type_synonym net = "string \<Rightarrow> AdmissionReviewRequest \<Rightarrow> reply"

datatype call_error = PostFailed string | ReturnedStatus int | BadResponse

datatype review_error =
    ListHooksFailed err
  | HookFailed string string call_error
  | HookDenied string string string

text \<open>What \<open>call\<close> returns: the patch (absent when empty), the denial message, or the error.\<close>

type_synonym call_result = "call_error + (json option \<times> string)"

definition matchesResource :: "string list \<Rightarrow> string \<Rightarrow> bool" where
  "matchesResource xs res \<longleftrightarrow> list_ex (\<lambda>x. x = ''*'' \<or> x = res) xs"

record review_args =
  ra_resource :: string
  ra_kind :: string
  ra_operation :: string
  ra_name :: string
  ra_namespace :: string

definition call :: "net \<Rightarrow> (string \<Rightarrow> string) \<Rightarrow> AdmissionWebhook \<Rightarrow> review_args \<Rightarrow> json \<Rightarrow> call_result" where
  "call net rnd h a obj =
    (let req = \<lparr>areq_UID = rnd (md_name (wh_metadata h)), areq_kind = ra_kind a, areq_resource = ra_resource a,
                areq_namespace = ra_namespace a, areq_name = ra_name a, areq_operation = ra_operation a,
                areq_object = Some obj\<rparr> in
     case net (wh_URL h) req of
       TransportError e \<Rightarrow> Inl (PostFailed e)
     | Reply status body \<Rightarrow>
        (if status \<ge> 300 then Inl (ReturnedStatus status)
         else case body of None \<Rightarrow> Inl BadResponse
         | Some j \<Rightarrow>
            (let (resp, ok) = dec_AdmissionReviewResponse j zero_AdmissionReviewResponse in
             if \<not> ok then Inl BadResponse
             else if \<not> aresp_allowed resp then Inr (None, nz (aresp_message resp) ''denied'')
             else Inr (aresp_patch resp, []))))"

definition runs :: "string \<Rightarrow> review_args \<Rightarrow> AdmissionWebhook \<Rightarrow> bool" where
  "runs typ a h \<longleftrightarrow> wh_type h = typ \<and> matchesResource (wh_resources h) (ra_resource a)"

fun mutating_loop :: "net \<Rightarrow> (string \<Rightarrow> string) \<Rightarrow> review_args \<Rightarrow> AdmissionWebhook list \<Rightarrow> json
    \<Rightarrow> json \<times> review_error option" where
  "mutating_loop net rnd a [] current = (current, None)"
| "mutating_loop net rnd a (h # hooks) current =
    (if \<not> runs WebhookTypeMutating a h then mutating_loop net rnd a hooks current
     else (case call net rnd h a current of
       Inl e \<Rightarrow>
        (if wh_failurePolicy h = ''Ignore'' then mutating_loop net rnd a hooks current
         else (current, Some (HookFailed ''mutating'' (md_name (wh_metadata h)) e)))
     | Inr (mutated, denyMsg) \<Rightarrow>
        (if denyMsg \<noteq> [] then (current, Some (HookDenied ''mutating'' (md_name (wh_metadata h)) denyMsg))
         else (case mutated of Some j \<Rightarrow> mutating_loop net rnd a hooks j
               | None \<Rightarrow> mutating_loop net rnd a hooks current))))"

fun validating_loop :: "net \<Rightarrow> (string \<Rightarrow> string) \<Rightarrow> review_args \<Rightarrow> AdmissionWebhook list \<Rightarrow> json
    \<Rightarrow> review_error option" where
  "validating_loop net rnd a [] current = None"
| "validating_loop net rnd a (h # hooks) current =
    (if \<not> runs WebhookTypeValidating a h then validating_loop net rnd a hooks current
     else (case call net rnd h a current of
       Inl e \<Rightarrow>
        (if wh_failurePolicy h = ''Ignore'' then validating_loop net rnd a hooks current
         else Some (HookFailed ''validating'' (md_name (wh_metadata h)) e))
     | Inr (_, denyMsg) \<Rightarrow>
        (if denyMsg \<noteq> [] then Some (HookDenied ''validating'' (md_name (wh_metadata h)) denyMsg)
         else validating_loop net rnd a hooks current)))"

definition Review :: "driver \<Rightarrow> net \<Rightarrow> (string \<Rightarrow> string) \<Rightarrow> store \<Rightarrow> review_args \<Rightarrow> json
    \<Rightarrow> json \<times> review_error option" where
  "Review drv net rnd st a object =
    (case ListWebhooks drv st of
       Inl e \<Rightarrow> (object, Some (ListHooksFailed e))
     | Inr hooks \<Rightarrow>
        (case mutating_loop net rnd a hooks object of
           (current, Some e) \<Rightarrow> (current, Some e)
         | (current, None) \<Rightarrow> (current, validating_loop net rnd a hooks current)))"

section \<open>What passing the pipeline means\<close>

text \<open>A hook lets an object pass when it answers with \<open>allowed\<close>, or cannot be asked and may be ignored.\<close>

definition passes :: "net \<Rightarrow> (string \<Rightarrow> string) \<Rightarrow> review_args \<Rightarrow> AdmissionWebhook \<Rightarrow> json \<Rightarrow> bool" where
  "passes net rnd a h obj \<longleftrightarrow>
    (case call net rnd h a obj of Inl _ \<Rightarrow> wh_failurePolicy h = ''Ignore'' | Inr (_, m) \<Rightarrow> m = [])"

text \<open>The object a mutating hook hands to the next one.\<close>

definition patched :: "net \<Rightarrow> (string \<Rightarrow> string) \<Rightarrow> review_args \<Rightarrow> AdmissionWebhook \<Rightarrow> json \<Rightarrow> json" where
  "patched net rnd a h obj = (case call net rnd h a obj of Inr (Some j, _) \<Rightarrow> j | _ \<Rightarrow> obj)"

text \<open>The specification: the mutating hooks applied in order, each required to let its input pass.\<close>

fun chain :: "net \<Rightarrow> (string \<Rightarrow> string) \<Rightarrow> review_args \<Rightarrow> AdmissionWebhook list \<Rightarrow> json \<Rightarrow> json option" where
  "chain net rnd a [] obj = Some obj"
| "chain net rnd a (h # hs) obj =
    (if passes net rnd a h obj then chain net rnd a hs (patched net rnd a h obj) else None)"

lemma mutating_loop_chain:
  "mutating_loop net rnd a hooks obj = (j, None) \<longleftrightarrow>
   chain net rnd a (filter (runs WebhookTypeMutating a) hooks) obj = Some j"
  by (induction hooks arbitrary: obj)
    (auto simp: passes_def patched_def split: sum.splits option.splits)

lemma validating_loop_iff:
  "validating_loop net rnd a hooks obj = None \<longleftrightarrow>
   (\<forall>h \<in> set hooks. runs WebhookTypeValidating a h \<longrightarrow> passes net rnd a h obj)"
  by (induction hooks) (auto simp: passes_def split: sum.splits)

lemma Review_accepts_iff:
  "Review drv net rnd st a obj = (j, None) \<longleftrightarrow>
   (\<exists>hooks. ListWebhooks drv st = Inr hooks \<and>
      chain net rnd a (filter (runs WebhookTypeMutating a) hooks) obj = Some j \<and>
      (\<forall>h \<in> set hooks. runs WebhookTypeValidating a h \<longrightarrow> passes net rnd a h j))"
  by (cases "ListWebhooks drv st")
    (auto simp: Review_def validating_loop_iff simp flip: mutating_loop_chain split: prod.splits option.splits)

lemma validating_loop_irrelevant:
  "\<not> runs WebhookTypeValidating a h \<Longrightarrow>
   validating_loop net rnd a (xs @ h # ys) obj = validating_loop net rnd a (xs @ ys) obj"
  by (induction xs) (auto split: sum.splits)

lemma mutating_loop_irrelevant:
  "\<not> runs WebhookTypeMutating a h \<Longrightarrow>
   mutating_loop net rnd a (xs @ h # ys) obj = mutating_loop net rnd a (xs @ ys) obj"
  by (induction xs arbitrary: obj) (auto split: sum.splits option.splits)

text \<open>No mutating hook for the resource: the object goes through unchanged.\<close>

lemma chain_no_hooks: "(\<forall>h \<in> set hooks. \<not> runs typ a h) \<Longrightarrow> chain net rnd a (filter (runs typ a) hooks) obj = Some obj"
  by (simp add: filter_empty_conv [THEN iffD2])

lemma Review_unhooked:
  assumes "ListWebhooks drv st = Inr hooks" "\<forall>h \<in> set hooks. \<not> matchesResource (wh_resources h) (ra_resource a)"
  shows "Review drv net rnd st a obj = (obj, None)"
  using assms by (auto simp: Review_accepts_iff runs_def chain_no_hooks)

text \<open>The empty registry.\<close>

lemma Review_empty [simp]:
  "t_admission_webhooks st = [] \<Longrightarrow> Review no_faults net rnd st a obj = (obj, None)"
  by (rule Review_unhooked [where hooks = "[]"]) (simp_all add: ListWebhooks_def sql_order_def)

text \<open>Under the policy Fail an object passes only on a 2xx or 1xx answer that says \<open>allowed\<close>: nothing fails open.\<close>

definition review_request :: "(string \<Rightarrow> string) \<Rightarrow> AdmissionWebhook \<Rightarrow> review_args \<Rightarrow> json \<Rightarrow> AdmissionReviewRequest" where
  "review_request rnd h a obj =
    \<lparr>areq_UID = rnd (md_name (wh_metadata h)), areq_kind = ra_kind a, areq_resource = ra_resource a,
     areq_namespace = ra_namespace a, areq_name = ra_name a, areq_operation = ra_operation a,
     areq_object = Some obj\<rparr>"

lemma passes_fail_closed:
  "wh_failurePolicy h \<noteq> ''Ignore'' \<Longrightarrow> passes net rnd a h obj \<longleftrightarrow>
   (\<exists>status j resp. net (wh_URL h) (review_request rnd h a obj) = Reply status (Some j) \<and> status < 300 \<and>
      dec_AdmissionReviewResponse j zero_AdmissionReviewResponse = (resp, True) \<and> aresp_allowed resp)"
  by (auto simp: passes_def call_def review_request_def nz_def split: reply.splits option.splits prod.splits)

end
