(* ===== verification/Http.thy ===== *)
theory Http
  imports Store_Invariant Rbac Crd Admission "HOL-Library.Word"
begin

text \<open>
  What the handlers of cmd/apiserver share: requests, responses, the server's state, the request
  helpers (\<open>guard\<close>, \<open>verbFromMethod\<close>, \<open>notFoundOrErr\<close>, \<open>writeJSON\<close>), the cluster IP allocator and
  the path matching of Go's \<open>http.ServeMux\<close>.
\<close>

section \<open>Requests and responses\<close>

text \<open>
  The body as \<open>encoding/json\<close> sees it: unreadable, not a JSON text, one document, or a document
  with more text behind it, which \<open>Decoder.Decode\<close> accepts and \<open>json.Unmarshal\<close> does not.
\<close>

datatype body = ReadFailed | Malformed | Doc json | DocTrailing json

record request =
  req_method :: string
  req_path :: string
  req_query :: strmap
  req_auth :: string
  req_body :: body

datatype message =
    Msg string
  | InvalidJson
  | ReadBodyFailed
  | BadPatch
  | StoreMsg err
  | AuthzMsg authz
  | ReviewMsg review_error

datatype payload = JsonBody json | TextBody message | RedirectTo string

record response =
  resp_code :: int
  resp_body :: payload

record config =
  cfg_loop :: bool
  cfg_rbac :: bool
  cfg_anonymous :: bool
  cfg_identity :: string

text \<open>The outside of one request: the SQL driver, the clock, the webhooks and the random UIDs.\<close>

record env =
  env_drv :: driver
  env_now :: time
  env_net :: net
  env_rnd :: "string \<Rightarrow> string"

text \<open>The state the handlers share: the store and the allocator's \<open>next\<close>.\<close>

record server =
  srv_st :: store
  srv_next :: "8 word"

type_synonym handler = "request \<Rightarrow> server \<Rightarrow> response \<times> server"

section \<open>Answers\<close>

definition http_error :: "int \<Rightarrow> message \<Rightarrow> server \<Rightarrow> response \<times> server" where
  "http_error code m sv = (\<lparr>resp_code = code, resp_body = TextBody m\<rparr>, sv)"

definition writeJSON :: "int \<Rightarrow> json \<Rightarrow> server \<Rightarrow> response \<times> server" where
  "writeJSON code j sv = (\<lparr>resp_code = code, resp_body = JsonBody j\<rparr>, sv)"

definition notFoundOrErr :: "err \<Rightarrow> server \<Rightarrow> response \<times> server" where
  "notFoundOrErr e sv = (if e = ErrNotFound then http_error 404 (Msg ''not found'') sv
     else http_error 500 (StoreMsg e) sv)"

definition method_not_allowed :: "server \<Rightarrow> response \<times> server" where
  "method_not_allowed sv = http_error 405 (Msg ''method not allowed'') sv"

text \<open>\<open>map[string]interface{}{"items": xs}\<close>, with a nil slice as \<open>null\<close>.\<close>

definition write_items :: "('a \<Rightarrow> json) \<Rightarrow> err + 'a list \<Rightarrow> server \<Rightarrow> response \<times> server" where
  "write_items enc r sv =
    (case r of Inl e \<Rightarrow> http_error 500 (StoreMsg e) sv
     | Inr xs \<Rightarrow> writeJSON 200 (JObj [(''items'', enc_list enc xs)]) sv)"

definition write_found :: "('a \<Rightarrow> json) \<Rightarrow> err + 'a \<Rightarrow> server \<Rightarrow> response \<times> server" where
  "write_found enc r sv = (case r of Inl e \<Rightarrow> notFoundOrErr e sv | Inr x \<Rightarrow> writeJSON 200 (enc x) sv)"

definition write_deleted :: "string \<Rightarrow> err + store \<Rightarrow> server \<Rightarrow> response \<times> server" where
  "write_deleted name r sv =
    (case r of Inl e \<Rightarrow> notFoundOrErr e sv
     | Inr st \<Rightarrow> writeJSON 200 (JObj [(''name'', JStr name), (''status'', JStr ''deleted'')]) (sv\<lparr>srv_st := st\<rparr>))"

text \<open>\<open>out, _ := Get(\<dots>)\<close> written as JSON: the nil pointer of a failed lookup is \<open>null\<close>.\<close>

definition read_back :: "('a \<Rightarrow> json) \<Rightarrow> err + 'a \<Rightarrow> json" where
  "read_back enc r = (case r of Inl _ \<Rightarrow> JNull | Inr x \<Rightarrow> enc x)"

definition Decode :: "'a dec \<Rightarrow> 'a \<Rightarrow> body \<Rightarrow> 'a option" where
  "Decode d z b =
    (let go = (\<lambda>j. let (x, ok) = d j z in if ok then Some x else None) in
     case b of Doc j \<Rightarrow> go j | DocTrailing j \<Rightarrow> go j | _ \<Rightarrow> None)"

definition with_body :: "'a dec \<Rightarrow> 'a \<Rightarrow> request \<Rightarrow> server \<Rightarrow> ('a \<Rightarrow> response \<times> server) \<Rightarrow> response \<times> server" where
  "with_body d z req sv k =
    (case Decode d z (req_body req) of None \<Rightarrow> http_error 400 InvalidJson sv | Some x \<Rightarrow> k x)"

text \<open>\<open>io.ReadAll\<close> followed by \<open>json.Unmarshal\<close> of the whole body.\<close>

definition with_raw_body :: "'a dec \<Rightarrow> 'a \<Rightarrow> request \<Rightarrow> server \<Rightarrow> ('a \<Rightarrow> response \<times> server) \<Rightarrow> response \<times> server" where
  "with_raw_body d z req sv k =
    (case req_body req of
       ReadFailed \<Rightarrow> http_error 400 ReadBodyFailed sv
     | Doc j \<Rightarrow> (let (x, ok) = d j z in if ok then k x else http_error 400 InvalidJson sv)
     | _ \<Rightarrow> http_error 400 InvalidJson sv)"

text \<open>A write whose error is answered with 500, and a status write whose error may be 404.\<close>

definition store_then :: "err + store \<Rightarrow> server \<Rightarrow> (server \<Rightarrow> response \<times> server) \<Rightarrow> response \<times> server" where
  "store_then r sv k =
    (case r of Inl e \<Rightarrow> http_error 500 (StoreMsg e) sv | Inr st \<Rightarrow> k (sv\<lparr>srv_st := st\<rparr>))"

definition put_status :: "'a dec \<Rightarrow> 'a \<Rightarrow> ('a \<Rightarrow> store \<Rightarrow> err + store) \<Rightarrow> (store \<Rightarrow> json) \<Rightarrow> handler" where
  "put_status d z upd out req sv =
    with_body d z req sv (\<lambda>s.
      case upd s (srv_st sv) of Inl e \<Rightarrow> notFoundOrErr e sv
      | Inr st \<Rightarrow> writeJSON 200 (out st) (sv\<lparr>srv_st := st\<rparr>))"

section \<open>The guard\<close>

definition verbFromMethod :: "string \<Rightarrow> string" where
  "verbFromMethod m =
    (if m = ''GET'' then ''get''
     else if m = ''POST'' then ''create''
     else if m = ''PUT'' \<or> m = ''PATCH'' then ''update''
     else if m = ''DELETE'' then ''delete''
     else ToLower m)"

definition authz_request :: "User \<Rightarrow> string \<Rightarrow> string \<Rightarrow> request \<Rightarrow> AuthzRequest" where
  "authz_request user apiGroup resource req =
    \<lparr>rq_user = Some user, rq_verb = verbFromMethod (req_method req), rq_apiGroup = apiGroup,
     rq_resource = resource, rq_namespace = gget (req_query req) ''namespace''\<rparr>"

definition guard :: "config \<Rightarrow> env \<Rightarrow> string \<Rightarrow> string \<Rightarrow> handler \<Rightarrow> handler" where
  "guard cfg ev apiGroup resource h req sv =
    (case Authenticate (at_site ''auth '' (env_drv ev)) (cfg_anonymous cfg) (srv_st sv) (req_auth req) of
       None \<Rightarrow> http_error 401 (Msg ''unauthorized'') sv
     | Some user \<Rightarrow>
        (if cfg_rbac cfg
         then (let r = Authorize (at_site ''authz '' (env_drv ev)) (srv_st sv)
                         (authz_request user apiGroup resource req) in
               if r = Allowed then h req sv
               else if IsDenied r then http_error 403 (AuthzMsg r) sv
               else http_error 500 (AuthzMsg r) sv)
         else h req sv))"

section \<open>Cluster IPs\<close>

fun decimal :: "nat \<Rightarrow> string" where
  "decimal n = (if n < 10 then [char_of (48 + n)] else decimal (n div 10) @ [char_of (48 + n mod 10)])"

declare decimal.simps [simp del]

definition pool_ip :: "8 word \<Rightarrow> string" where
  "pool_ip b = ''127.20.0.'' @ decimal (unat b)"

definition bump :: "8 word \<Rightarrow> 8 word" where
  "bump n = (let n = n + 1 in if n < 2 then 2 else n)"

fun alloc_loop :: "nat \<Rightarrow> string list \<Rightarrow> 8 word \<Rightarrow> string \<times> 8 word" where
  "alloc_loop 0 taken next = ([], next)"
| "alloc_loop (Suc i) taken next =
    (let next = bump next; ip = pool_ip next in
     if \<not> list_ex (\<lambda>x. x = ip) taken then (ip, next) else alloc_loop i taken next)"

definition alloc :: "bool \<Rightarrow> string list \<Rightarrow> 8 word \<Rightarrow> string \<times> 8 word" where
  "alloc useLoop taken next = (if \<not> useLoop then (''127.0.0.1'', next) else alloc_loop 250 taken next)"

section \<open>Path matching\<close>

text \<open>\<open>path.Clean\<close> on rooted paths, with the trailing slash kept as \<open>ServeMux\<close> does.\<close>

fun clean_segs :: "string list \<Rightarrow> string list \<Rightarrow> string list" where
  "clean_segs out [] = rev out"
| "clean_segs out (s # ss) =
    (if s = [] \<or> s = ''.'' then clean_segs out ss
     else if s = ''..'' then clean_segs (tl out) ss
     else clean_segs (s # out) ss)"

definition cleanPath :: "string \<Rightarrow> string" where
  "cleanPath p =
    (let np = concat (map (\<lambda>s. CHR ''/'' # s) (clean_segs [] (Split p (CHR ''/'')))) in
     if np = [] then ''/''
     else if HasSuffix p ''/'' then np @ ''/'' else np)"

text \<open>An exact pattern wins; else the longest pattern that ends in a slash and is a prefix.\<close>

definition longer :: "string \<times> 'h \<Rightarrow> (string \<times> 'h) option \<Rightarrow> (string \<times> 'h) option" where
  "longer p best = (case best of None \<Rightarrow> Some p
     | Some q \<Rightarrow> if length (fst p) > length (fst q) then Some p else best)"

definition mux_match :: "(string \<times> 'h) list \<Rightarrow> string \<Rightarrow> (string \<times> 'h) option" where
  "mux_match pats path =
    (case map_of pats path of Some h \<Rightarrow> Some (path, h)
     | None \<Rightarrow> fold longer (filter (\<lambda>(p, h). HasSuffix p ''/'' \<and> HasPrefix path p) pats) None)"

definition mux_serve :: "(string \<times> handler) list \<Rightarrow> handler" where
  "mux_serve pats req sv =
    (let path = req_path req in
     if cleanPath path \<noteq> path then (\<lparr>resp_code = 301, resp_body = RedirectTo (cleanPath path)\<rparr>, sv)
     else if map_of pats path = None \<and> map_of pats (path @ ''/'') \<noteq> None
       then (\<lparr>resp_code = 301, resp_body = RedirectTo (path @ ''/'')\<rparr>, sv)
     else (case mux_match pats path of
        Some (_, h) \<Rightarrow> h req sv
      | None \<Rightarrow> http_error 404 (Msg ''404 page not found'') sv))"

end
