(* ===== verification/Handlers.thy ===== *)
theory Handlers
  imports Http
begin

text \<open>
  The REST handlers of cmd/apiserver/main.go, one definition per handler. A handler takes the
  environment of the request, the request and the server's state, and returns the response and
  the new state. Calls of the same store method at different places of a handler carry labels.
\<close>

section \<open>Pods\<close>

definition listPods :: "env \<Rightarrow> handler" where
  "listPods ev req sv =
    (let phase = gget (req_query req) ''phase'';
         node = gget (req_query req) ''nodeName'';
         pods = (if node \<noteq> [] then ListPodsByNode (env_drv ev) (srv_st sv) node
                 else ListPods (env_drv ev) (srv_st sv) phase);
         pods = map_result (\<lambda>ps. if node \<noteq> [] \<and> phase \<noteq> []
                  then filter (\<lambda>p. ps_phase (pod_status p) = phase) ps else ps) pods in
     write_items enc_Pod pods sv)"

definition createPod :: "env \<Rightarrow> handler" where
  "createPod ev req sv =
    with_raw_body dec_Pod zero_Pod req sv (\<lambda>p.
      if md_name (pod_metadata p) = [] then http_error 400 (Msg ''metadata.name required'') sv
      else if podspec_containers (pod_spec p) = [] then http_error 400 (Msg ''spec.containers required'') sv
      else
        (let p = p\<lparr>pod_apiVersion := ''v1'', pod_kind := ''Pod''\<rparr>;
             norm = enc_Pod p;
             args = \<lparr>ra_resource = ''pods'', ra_kind = ''Pod'', ra_operation = ''CREATE'',
                     ra_name = md_name (pod_metadata p), ra_namespace = md_namespace (pod_metadata p)\<rparr> in
         case Review (env_drv ev) (env_net ev) (env_rnd ev) (srv_st sv) args norm of
           (_, Some aerr) \<Rightarrow> http_error 400 (ReviewMsg aerr) sv
         | (mutated, None) \<Rightarrow>
            (let (finalPod, ok) = dec_Pod mutated zero_Pod in
             if \<not> ok then http_error 500 BadPatch sv
             else store_then (UpsertPod (env_drv ev) (env_now ev) finalPod (srv_st sv)) sv (\<lambda>sv.
               writeJSON 201 (read_back enc_Pod
                 (GetPod (at_site ''out '' (env_drv ev)) (srv_st sv) (md_name (pod_metadata finalPod)))) sv))))"

definition handlePods :: "env \<Rightarrow> handler" where
  "handlePods ev req sv =
    (if req_method req = ''GET'' then listPods ev req sv
     else if req_method req = ''POST'' then createPod ev req sv
     else method_not_allowed sv)"

definition getPod :: "env \<Rightarrow> string \<Rightarrow> handler" where
  "getPod ev name req sv = write_found enc_Pod (GetPod (env_drv ev) (srv_st sv) name) sv"

definition deletePod :: "env \<Rightarrow> string \<Rightarrow> handler" where
  "deletePod ev name req sv = write_deleted name (DeletePod (env_drv ev) name (srv_st sv)) sv"

definition updateStatus :: "env \<Rightarrow> string \<Rightarrow> handler" where
  "updateStatus ev name req sv =
     put_status dec_PodStatus zero_PodStatus (UpdateStatus (env_drv ev) (env_now ev) name)
       (\<lambda>st. read_back enc_Pod (GetPod (at_site ''out '' (env_drv ev)) st name)) req sv"

definition handlePodsByName :: "env \<Rightarrow> handler" where
  "handlePodsByName ev req sv =
    (let name = TrimPrefix (req_path req) ''/api/v1/pods/'' in
     if HasSuffix name ''/status'' then
       (let podName = TrimSuffix name ''/status'' in
        if req_method req = ''PUT'' \<or> req_method req = ''PATCH'' then updateStatus ev podName req sv
        else method_not_allowed sv)
     else if name = [] then http_error 400 (Msg ''pod name required'') sv
     else if req_method req = ''GET'' then getPod ev name req sv
     else if req_method req = ''DELETE'' then deletePod ev name req sv
     else method_not_allowed sv)"

section \<open>Services, endpoints, nodes\<close>

text \<open>
  The address a posted service gets: that of the existing service of its name, the one it asks
  for, or a new one; \<open>None\<close> when the pool is exhausted. An error of the listing of the addresses
  in use is dropped, and then none counts as taken.
\<close>

definition choose_clusterIP :: "config \<Rightarrow> env \<Rightarrow> Service \<Rightarrow> server \<Rightarrow> string option \<times> server" where
  "choose_clusterIP cfg ev svc sv =
    (case GetService (at_site ''existing '' (env_drv ev)) (srv_st sv) (md_name (svc_metadata svc)) of
       Inr existing \<Rightarrow> (Some (svcspec_clusterIP (svc_spec existing)), sv)
     | Inl _ \<Rightarrow>
        (if svcspec_clusterIP (svc_spec svc) = [] then
           (let taken = (case ListClusterIPs (env_drv ev) (srv_st sv) of Inr t \<Rightarrow> t | Inl _ \<Rightarrow> []);
                (ip, next) = alloc (cfg_loop cfg) taken (srv_next sv) in
            (if ip = [] then None else Some ip, sv\<lparr>srv_next := next\<rparr>))
         else (Some (svcspec_clusterIP (svc_spec svc)), sv)))"

definition handleServices :: "config \<Rightarrow> env \<Rightarrow> handler" where
  "handleServices cfg ev req sv =
    (if req_method req = ''GET'' then write_items enc_Service (ListServices (env_drv ev) (srv_st sv)) sv
     else if req_method req = ''POST'' then
       with_body dec_Service zero_Service req sv (\<lambda>svc.
         if md_name (svc_metadata svc) = [] then http_error 400 (Msg ''metadata.name required'') sv
         else if svcspec_ports (svc_spec svc) = [] then http_error 400 (Msg ''spec.ports required'') sv
         else
           (let svc = (if svcspec_type (svc_spec svc) = []
                       then svc\<lparr>svc_spec := (svc_spec svc)\<lparr>svcspec_type := ServiceTypeClusterIP\<rparr>\<rparr> else svc);
                svc = svc\<lparr>svc_apiVersion := ''v1'', svc_kind := ''Service''\<rparr> in
            case choose_clusterIP cfg ev svc sv of
              (None, sv) \<Rightarrow> http_error 500 (Msg ''cluster IP pool exhausted'') sv
            | (Some ip, sv) \<Rightarrow>
              (let svc = svc\<lparr>svc_spec := (svc_spec svc)\<lparr>svcspec_clusterIP := ip\<rparr>\<rparr> in
               store_then (UpsertService (env_drv ev) (env_now ev) svc (srv_st sv)) sv (\<lambda>sv.
                 writeJSON 201 (read_back enc_Service
                   (GetService (at_site ''out '' (env_drv ev)) (srv_st sv) (md_name (svc_metadata svc)))) sv))))
     else method_not_allowed sv)"

definition handleServicesByName :: "env \<Rightarrow> handler" where
  "handleServicesByName ev req sv =
    (let name = TrimPrefix (req_path req) ''/api/v1/services/'' in
     if name = [] then http_error 400 (Msg ''name required'') sv
     else if req_method req = ''GET'' then write_found enc_Service (GetService (env_drv ev) (srv_st sv) name) sv
     else if req_method req = ''DELETE'' then write_deleted name (DeleteService (env_drv ev) name (srv_st sv)) sv
     else method_not_allowed sv)"

definition handleEndpoints :: "env \<Rightarrow> handler" where
  "handleEndpoints ev req sv =
    (if req_method req = ''GET'' then write_items enc_Endpoints (ListEndpoints (env_drv ev) (srv_st sv)) sv
     else if req_method req = ''POST'' \<or> req_method req = ''PUT'' then
       with_body dec_Endpoints zero_Endpoints req sv (\<lambda>x.
         if md_name (ep_metadata x) = [] then http_error 400 (Msg ''metadata.name required'') sv
         else 
           (let x = x\<lparr>ep_apiVersion := ''v1'', ep_kind := ''Endpoints''\<rparr> in
            store_then (UpsertEndpoints (env_drv ev) (env_now ev) x (srv_st sv)) sv (\<lambda>sv.
              writeJSON 200 (read_back enc_Endpoints (GetEndpoints (at_site ''out '' (env_drv ev)) (srv_st sv) (md_name (ep_metadata x)))) sv)))
     else method_not_allowed sv)"

definition handleEndpointsByName :: "env \<Rightarrow> handler" where
  "handleEndpointsByName ev req sv =
    (let name = TrimPrefix (req_path req) ''/api/v1/endpoints/'' in
     if name = [] then http_error 400 (Msg ''name required'') sv
     else if req_method req \<noteq> ''GET'' then method_not_allowed sv
     else write_found enc_Endpoints (GetEndpoints (env_drv ev) (srv_st sv) name) sv)"

definition handleNodes :: "env \<Rightarrow> handler" where
  "handleNodes ev req sv =
    (if req_method req = ''GET'' then write_items enc_Node (ListNodes (env_drv ev) (srv_st sv)) sv
     else if req_method req = ''POST'' \<or> req_method req = ''PUT'' then
       with_body dec_Node zero_Node req sv (\<lambda>x.
         if md_name (node_metadata x) = [] then http_error 400 (Msg ''metadata.name required'') sv
         else 
           (let x = x\<lparr>node_apiVersion := ''v1'', node_kind := ''Node'', node_status := (node_status x)\<lparr>ns_ready := True\<rparr>\<rparr> in
            store_then (UpsertNode (env_drv ev) (env_now ev) x (srv_st sv)) sv (\<lambda>sv.
              writeJSON 201 (read_back enc_Node (GetNode (at_site ''out '' (env_drv ev)) (srv_st sv) (md_name (node_metadata x)))) sv)))
     else method_not_allowed sv)"

definition handleNodesByName :: "env \<Rightarrow> handler" where
  "handleNodesByName ev req sv =
    (let name = TrimPrefix (req_path req) ''/api/v1/nodes/'' in
     if name = [] then http_error 400 (Msg ''name required'') sv
     else if req_method req = ''GET'' then write_found enc_Node (GetNode (env_drv ev) (srv_st sv) name) sv
     else if req_method req = ''DELETE'' then write_deleted name (DeleteNode (env_drv ev) name (srv_st sv)) sv
     else method_not_allowed sv)"

section \<open>Replica sets and deployments\<close>

definition handleRS :: "env \<Rightarrow> handler" where
  "handleRS ev req sv =
    (if req_method req = ''GET'' then write_items enc_ReplicaSet (ListReplicaSets (env_drv ev) (srv_st sv)) sv
     else if req_method req = ''POST'' then
       with_body dec_ReplicaSet zero_ReplicaSet req sv (\<lambda>x.
         if md_name (rs_metadata x) = [] then http_error 400 (Msg ''metadata.name required'') sv
         else 
           (let x = x\<lparr>rs_apiVersion := ''apps/v1'', rs_kind := ''ReplicaSet''\<rparr> in
            store_then (UpsertReplicaSet (env_drv ev) (env_now ev) x (srv_st sv)) sv (\<lambda>sv.
              writeJSON 201 (read_back enc_ReplicaSet (GetReplicaSet (at_site ''out '' (env_drv ev)) (srv_st sv) (md_name (rs_metadata x)))) sv)))
     else method_not_allowed sv)"

definition handleRSByName :: "env \<Rightarrow> handler" where
  "handleRSByName ev req sv =
    (let name = TrimPrefix (req_path req) ''/apis/apps/v1/replicasets/'' in
     if HasSuffix name ''/status'' then
       (let n = TrimSuffix name ''/status'' in
        if req_method req = ''PUT'' \<or> req_method req = ''PATCH''
        then put_status dec_ReplicaSetStatus zero_ReplicaSetStatus (UpdateReplicaSetStatus (env_drv ev) (env_now ev) n)
          (\<lambda>st. read_back enc_ReplicaSet (GetReplicaSet (at_site ''out '' (env_drv ev)) st n)) req sv
        else method_not_allowed sv)
     else if name = [] then http_error 400 (Msg ''name required'') sv
     else if req_method req = ''GET'' then write_found enc_ReplicaSet (GetReplicaSet (env_drv ev) (srv_st sv) name) sv
     else if req_method req = ''DELETE'' then write_deleted name (DeleteReplicaSet (env_drv ev) name (srv_st sv)) sv
     else method_not_allowed sv)"

text \<open>The reviewed object is unmarshalled over the request's object, not over a fresh one.\<close>

definition handleDeployments :: "env \<Rightarrow> handler" where
  "handleDeployments ev req sv =
    (if req_method req = ''GET'' then write_items enc_Deployment (ListDeployments (env_drv ev) (srv_st sv)) sv
     else if req_method req = ''POST'' then
       with_raw_body dec_Deployment zero_Deployment req sv (\<lambda>d.
         if md_name (dep_metadata d) = [] then http_error 400 (Msg ''metadata.name required'') sv
         else if depspec_replicas (dep_spec d) < 0 then http_error 400 (Msg ''spec.replicas must be >= 0'') sv
         else if podspec_containers (tmpl_spec (depspec_template (dep_spec d))) = []
           then http_error 400 (Msg ''spec.template.spec.containers required'') sv
         else
           (let d = d\<lparr>dep_apiVersion := ''apps/v1'', dep_kind := ''Deployment''\<rparr>;
                norm = enc_Deployment d;
                args = \<lparr>ra_resource = ''deployments'', ra_kind = ''Deployment'', ra_operation = ''CREATE'',
                        ra_name = md_name (dep_metadata d), ra_namespace = md_namespace (dep_metadata d)\<rparr> in
            case Review (env_drv ev) (env_net ev) (env_rnd ev) (srv_st sv) args norm of
              (_, Some aerr) \<Rightarrow> http_error 400 (ReviewMsg aerr) sv
            | (mutated, None) \<Rightarrow>
               (let (d, ok) = dec_Deployment mutated d in
                if \<not> ok then http_error 500 BadPatch sv
                else store_then (UpsertDeployment (env_drv ev) (env_now ev) d (srv_st sv)) sv (\<lambda>sv.
                  writeJSON 201 (read_back enc_Deployment
                    (GetDeployment (at_site ''out '' (env_drv ev)) (srv_st sv) (md_name (dep_metadata d)))) sv))))
     else method_not_allowed sv)"

definition handleDeploymentsByName :: "env \<Rightarrow> handler" where
  "handleDeploymentsByName ev req sv =
    (let name = TrimPrefix (req_path req) ''/apis/apps/v1/deployments/'' in
     if HasSuffix name ''/status'' then
       (let n = TrimSuffix name ''/status'' in
        if req_method req = ''PUT'' \<or> req_method req = ''PATCH''
        then put_status dec_DeploymentStatus zero_DeploymentStatus (UpdateDeploymentStatus (env_drv ev) (env_now ev) n)
          (\<lambda>st. read_back enc_Deployment (GetDeployment (at_site ''out '' (env_drv ev)) st n)) req sv
        else method_not_allowed sv)
     else if name = [] then http_error 400 (Msg ''name required'') sv
     else if req_method req = ''GET'' then write_found enc_Deployment (GetDeployment (env_drv ev) (srv_st sv) name) sv
     else if req_method req = ''DELETE'' then write_deleted name (DeleteDeployment (env_drv ev) name (srv_st sv)) sv
     else method_not_allowed sv)"

section \<open>Custom resource definitions and their instances\<close>

definition handleCRDs :: "env \<Rightarrow> handler" where
  "handleCRDs ev req sv =
    (if req_method req = ''GET'' then write_items enc_CRD (ListCRDs (env_drv ev) (srv_st sv)) sv
     else if req_method req = ''POST'' then
       with_body dec_CRD zero_CRD req sv (\<lambda>x.
         if md_name (crd_metadata x) = [] then http_error 400 (Msg ''metadata.name required'') sv
         else if crdspec_group (crd_spec x) = [] \<or> crdspec_version (crd_spec x) = [] \<or>
             cn_plural (crdspec_names (crd_spec x)) = [] \<or> cn_kind (crdspec_names (crd_spec x)) = [] then http_error 400 (Msg ''spec.group, spec.version, spec.names.plural, spec.names.kind required'') sv
         else 
           (let x = x\<lparr>crd_apiVersion := ''mk.io/v1'', crd_kind := ''CustomResourceDefinition''\<rparr>;
                x = (if crdspec_scope (crd_spec x) = [] then x\<lparr>crd_spec := (crd_spec x)\<lparr>crdspec_scope := ''Namespaced''\<rparr>\<rparr> else x) in
            store_then (UpsertCRD (env_drv ev) (env_now ev) x (srv_st sv)) sv (\<lambda>sv.
              writeJSON 201 (read_back enc_CRD (GetCRD (at_site ''out '' (env_drv ev)) (srv_st sv) (md_name (crd_metadata x)))) sv)))
     else method_not_allowed sv)"

definition handleCRDsByName :: "env \<Rightarrow> handler" where
  "handleCRDsByName ev req sv =
    (let name = TrimPrefix (req_path req) ''/apis/mk.io/v1/customresourcedefinitions/'' in
     if name = [] then http_error 400 (Msg ''name required'') sv
     else if req_method req = ''GET'' then write_found enc_CRD (GetCRD (env_drv ev) (srv_st sv) name) sv
     else if req_method req = ''DELETE'' then write_deleted name (DeleteCRD (env_drv ev) name (srv_st sv)) sv
     else method_not_allowed sv)"

text \<open>The last part of \<open>handleDynamicCR\<close>, with the CRD found and the request let through.\<close>

definition serve_custom :: "env \<Rightarrow> CRD \<Rightarrow> string \<Rightarrow> string \<Rightarrow> string \<Rightarrow> handler" where
  "serve_custom ev c grp version name req sv =
    (let crdName = md_name (crd_metadata c) in
     if name = [] then
       (if req_method req = ''GET''
        then write_items enc_CustomResource (ListCustomResources (env_drv ev) (srv_st sv) crdName) sv
        else if req_method req = ''POST'' then
          with_body dec_CustomResource zero_CustomResource req sv (\<lambda>x.
            if md_name (cr_metadata x) = [] then http_error 400 (Msg ''metadata.name required'') sv
            else (case ValidateSpec (crdspec_schema (crd_spec c)) (cr_spec x) of
              Some m \<Rightarrow> http_error 400 (Msg m) sv
            | None \<Rightarrow>
               (let x = x\<lparr>cr_apiVersion := grp @ ''/'' @ version, cr_kind := cn_kind (crdspec_names (crd_spec c))\<rparr> in
                store_then (UpsertCustomResource (env_drv ev) (env_now ev) crdName x (srv_st sv)) sv (\<lambda>sv.
                  writeJSON 201 (read_back enc_CustomResource
                    (GetCustomResource (at_site ''out '' (env_drv ev)) (srv_st sv) crdName (md_name (cr_metadata x)))) sv))))
        else method_not_allowed sv)
     else
       (if req_method req = ''GET''
        then write_found enc_CustomResource (GetCustomResource (env_drv ev) (srv_st sv) crdName name) sv
        else if req_method req = ''DELETE''
        then write_deleted name (DeleteCustomResource (env_drv ev) crdName name (srv_st sv)) sv
        else method_not_allowed sv))"

text \<open>Authentication and authorization come after the lookup of the CRD and repeat the guard's code.\<close>

definition handleDynamicCR :: "config \<Rightarrow> env \<Rightarrow> handler" where
  "handleDynamicCR cfg ev req sv =
    (case ParsePath (req_path req) of
       Inl _ \<Rightarrow> http_error 404 (Msg ''not found'') sv
     | Inr (grp, version, plural, name) \<Rightarrow>
        (case GetCRDByPlural (env_drv ev) (srv_st sv) plural of
           Inl _ \<Rightarrow> http_error 404 (Msg (''no CRD registered for plural='' @ plural)) sv
         | Inr c \<Rightarrow>
            (if crdspec_group (crd_spec c) \<noteq> grp \<or> crdspec_version (crd_spec c) \<noteq> version
             then http_error 404 (Msg (''CRD '' @ md_name (crd_metadata c) @ '' registered at '' @
                    crdspec_group (crd_spec c) @ ''/'' @ crdspec_version (crd_spec c) @ '', not '' @ grp @ ''/'' @ version)) sv
             else guard cfg ev grp plural (serve_custom ev c grp version name) req sv)))"

section \<open>Users, roles, bindings\<close>

definition handleUsers :: "env \<Rightarrow> handler" where
  "handleUsers ev req sv =
    (if req_method req = ''GET'' then write_items enc_User (ListUsers (env_drv ev) (srv_st sv)) sv
     else if req_method req = ''POST'' then
       with_body dec_User zero_User req sv (\<lambda>x.
         if md_name (user_metadata x) = [] \<or> user_token x = [] then http_error 400 (Msg ''metadata.name + token required'') sv
         else 
           (let x = x\<lparr>user_apiVersion := ''rbac.mk.io/v1'', user_kind := ''User''\<rparr> in
            store_then (UpsertUser (env_drv ev) (env_now ev) x (srv_st sv)) sv (\<lambda>sv. writeJSON 201 (enc_User x) sv)))
     else method_not_allowed sv)"

definition handleRoles :: "string \<Rightarrow> env \<Rightarrow> handler" where
  "handleRoles scope ev req sv =
    (if req_method req = ''GET'' then write_items enc_Role (ListRoles (env_drv ev) (srv_st sv) scope) sv
     else if req_method req = ''POST'' then
       with_body dec_Role zero_Role req sv (\<lambda>x.
         if md_name (role_metadata x) = [] then http_error 400 (Msg ''metadata.name required'') sv
         else 
           (let x = x\<lparr>role_apiVersion := ''rbac.mk.io/v1'', role_kind := scope\<rparr> in
            store_then (UpsertRole (env_drv ev) (env_now ev) scope x (srv_st sv)) sv (\<lambda>sv. writeJSON 201 (enc_Role x) sv)))
     else method_not_allowed sv)"

definition handleRoleBindings :: "string \<Rightarrow> env \<Rightarrow> handler" where
  "handleRoleBindings scope ev req sv =
    (if req_method req = ''GET'' then write_items enc_RoleBinding (ListRoleBindings (env_drv ev) (srv_st sv) scope) sv
     else if req_method req = ''POST'' then
       with_body dec_RoleBinding zero_RoleBinding req sv (\<lambda>x.
         if md_name (rb_metadata x) = [] then http_error 400 (Msg ''metadata.name required'') sv
         else 
           (let x = x\<lparr>rb_apiVersion := ''rbac.mk.io/v1'', rb_kind := scope\<rparr> in
            store_then (UpsertRoleBinding (env_drv ev) (env_now ev) scope x (srv_st sv)) sv (\<lambda>sv. writeJSON 201 (enc_RoleBinding x) sv)))
     else method_not_allowed sv)"

section \<open>Admission webhooks, autoscalers, leases\<close>

definition handleWebhooks :: "env \<Rightarrow> handler" where
  "handleWebhooks ev req sv =
    (if req_method req = ''GET'' then write_items enc_AdmissionWebhook (ListWebhooks (env_drv ev) (srv_st sv)) sv
     else if req_method req = ''POST'' then
       with_body dec_AdmissionWebhook zero_AdmissionWebhook req sv (\<lambda>x.
         if md_name (wh_metadata x) = [] \<or> wh_URL x = [] \<or> wh_type x = []
         then http_error 400 (Msg ''metadata.name, url, type required'') sv
         else if wh_type x \<noteq> WebhookTypeMutating \<and> wh_type x \<noteq> WebhookTypeValidating
         then http_error 400 (Msg ''type must be Mutating or Validating'') sv
         else
           (let x = x\<lparr>wh_apiVersion := ''admission.mk.io/v1'', wh_kind := ''AdmissionWebhook''\<rparr> in
            case UpsertWebhook (env_drv ev) (env_now ev) x (srv_st sv) of
              Inl e \<Rightarrow> http_error 500 (StoreMsg e) sv
            | Inr (x, st) \<Rightarrow> writeJSON 201 (enc_AdmissionWebhook x) (sv\<lparr>srv_st := st\<rparr>)))
     else method_not_allowed sv)"

definition handleWebhooksByName :: "env \<Rightarrow> handler" where
  "handleWebhooksByName ev req sv =
    (let name = TrimPrefix (req_path req) ''/apis/admission.mk.io/v1/webhooks/'' in
     if name = [] then http_error 400 (Msg ''name required'') sv
     else if req_method req \<noteq> ''DELETE'' then method_not_allowed sv
     else write_deleted name (DeleteWebhook (env_drv ev) name (srv_st sv)) sv)"

definition handleHPAs :: "env \<Rightarrow> handler" where
  "handleHPAs ev req sv =
    (if req_method req = ''GET'' then write_items enc_HPA (ListHPAs (env_drv ev) (srv_st sv)) sv
     else if req_method req = ''POST'' then
       with_body dec_HPA zero_HPA req sv (\<lambda>h.
         if md_name (hpa_metadata h) = [] \<or> str_name (hpaspec_scaleTargetRef (hpa_spec h)) = []
         then http_error 400 (Msg ''metadata.name and spec.scaleTargetRef.name required'') sv
         else
           (let h = (if hpaspec_minReplicas (hpa_spec h) \<le> 0
                     then h\<lparr>hpa_spec := (hpa_spec h)\<lparr>hpaspec_minReplicas := 1\<rparr>\<rparr> else h) in
            if hpaspec_maxReplicas (hpa_spec h) < hpaspec_minReplicas (hpa_spec h)
            then http_error 400 (Msg ''maxReplicas must be >= minReplicas'') sv
            else
              (let h = h\<lparr>hpa_apiVersion := ''autoscaling.mk.io/v1'', hpa_kind := ''HorizontalPodAutoscaler''\<rparr> in
               store_then (UpsertHPA (env_drv ev) (env_now ev) h (srv_st sv)) sv (\<lambda>sv.
                 writeJSON 201 (read_back enc_HPA
                   (GetHPA (at_site ''out '' (env_drv ev)) (srv_st sv) (md_name (hpa_metadata h)))) sv))))
     else method_not_allowed sv)"

definition handleHPAsByName :: "env \<Rightarrow> handler" where
  "handleHPAsByName ev req sv =
    (let name = TrimPrefix (req_path req) ''/apis/autoscaling.mk.io/v1/horizontalpodautoscalers/'' in
     if HasSuffix name ''/status'' then
       (let n = TrimSuffix name ''/status'' in
        if req_method req = ''PUT'' \<or> req_method req = ''PATCH''
        then put_status dec_HPAStatus zero_HPAStatus (UpdateHPAStatus (env_drv ev) (env_now ev) n)
          (\<lambda>st. read_back enc_HPA (GetHPA (at_site ''out '' (env_drv ev)) st n)) req sv
        else method_not_allowed sv)
     else if name = [] then http_error 400 (Msg ''name required'') sv
     else if req_method req = ''GET'' then write_found enc_HPA (GetHPA (env_drv ev) (srv_st sv) name) sv
     else if req_method req = ''DELETE'' then write_deleted name (DeleteHPA (env_drv ev) name (srv_st sv)) sv
     else method_not_allowed sv)"

text \<open>The members in the order in which a Go map is encoded; a Duration is its nanoseconds.\<close>

definition handleLease :: "config \<Rightarrow> env \<Rightarrow> handler" where
  "handleLease cfg ev req sv =
    (let name = TrimPrefix (req_path req) ''/apis/coordination.mk.io/v1/leases/'' in
     if name = [] then http_error 400 (Msg ''lease name required'') sv
     else (case GetLease (env_drv ev) (srv_st sv) name of
        Inl e \<Rightarrow> notFoundOrErr e sv
      | Inr (holder, renew, ttl) \<Rightarrow>
         writeJSON 200 (JObj [
           (''expiresIn'', JInt (ttl * second - time_Sub (env_now ev) renew)),
           (''holder'', JStr holder),
           (''isThisReplica'', JBool (holder = cfg_identity cfg)),
           (''name'', JStr name),
           (''renewTime'', JTime renew),
           (''thisReplica'', JStr (cfg_identity cfg)),
           (''ttlSeconds'', JInt ttl)]) sv))"

section \<open>m6.go: network policies, clusters, federated deployments\<close>

definition handleNetPols :: "env \<Rightarrow> handler" where
  "handleNetPols ev req sv =
    (if req_method req = ''GET'' then write_items enc_NetworkPolicy (ListNetworkPolicies (env_drv ev) (srv_st sv)) sv
     else if req_method req = ''POST'' then
       with_body dec_NetworkPolicy zero_NetworkPolicy req sv (\<lambda>x.
         if md_name (np_metadata x) = [] then http_error 400 (Msg ''metadata.name required'') sv
         else 
           (let x = x\<lparr>np_apiVersion := ''networking.mk.io/v1'', np_kind := ''NetworkPolicy''\<rparr> in
            store_then (UpsertNetworkPolicy (env_drv ev) (env_now ev) x (srv_st sv)) sv (\<lambda>sv.
              writeJSON 201 (read_back enc_NetworkPolicy (GetNetworkPolicy (at_site ''out '' (env_drv ev)) (srv_st sv) (md_name (np_metadata x)))) sv)))
     else method_not_allowed sv)"

definition handleNetPolsByName :: "env \<Rightarrow> handler" where
  "handleNetPolsByName ev req sv =
    (let name = TrimPrefix (req_path req) ''/apis/networking.mk.io/v1/networkpolicies/'' in
     if name = [] then http_error 400 (Msg ''name required'') sv
     else if req_method req = ''GET'' then write_found enc_NetworkPolicy (GetNetworkPolicy (env_drv ev) (srv_st sv) name) sv
     else if req_method req = ''DELETE'' then write_deleted name (DeleteNetworkPolicy (env_drv ev) name (srv_st sv)) sv
     else method_not_allowed sv)"

definition handleClusters :: "env \<Rightarrow> handler" where
  "handleClusters ev req sv =
    (if req_method req = ''GET'' then write_items enc_Cluster (ListClusters (env_drv ev) (srv_st sv)) sv
     else if req_method req = ''POST'' then
       with_body dec_Cluster zero_Cluster req sv (\<lambda>x.
         if md_name (cl_metadata x) = [] \<or> clspec_server (cl_spec x) = [] then http_error 400 (Msg ''metadata.name and spec.server required'') sv
         else 
           (let x = x\<lparr>cl_apiVersion := ''federation.mk.io/v1'', cl_kind := ''Cluster''\<rparr> in
            store_then (UpsertCluster (env_drv ev) (env_now ev) x (srv_st sv)) sv (\<lambda>sv.
              writeJSON 201 (read_back enc_Cluster (GetCluster (at_site ''out '' (env_drv ev)) (srv_st sv) (md_name (cl_metadata x)))) sv)))
     else method_not_allowed sv)"

definition handleClustersByName :: "env \<Rightarrow> handler" where
  "handleClustersByName ev req sv =
    (let name = TrimPrefix (req_path req) ''/apis/federation.mk.io/v1/clusters/'' in
     if HasSuffix name ''/status'' then
       (let n = TrimSuffix name ''/status'' in
        if req_method req = ''PUT'' \<or> req_method req = ''PATCH''
        then put_status dec_ClusterStatus zero_ClusterStatus (UpdateClusterStatus (env_drv ev) (env_now ev) n)
          (\<lambda>st. read_back enc_Cluster (GetCluster (at_site ''out '' (env_drv ev)) st n)) req sv
        else method_not_allowed sv)
     else if name = [] then http_error 400 (Msg ''name required'') sv
     else if req_method req = ''GET'' then write_found enc_Cluster (GetCluster (env_drv ev) (srv_st sv) name) sv
     else if req_method req = ''DELETE'' then write_deleted name (DeleteCluster (env_drv ev) name (srv_st sv)) sv
     else method_not_allowed sv)"

definition handleFedDeployments :: "env \<Rightarrow> handler" where
  "handleFedDeployments ev req sv =
    (if req_method req = ''GET'' then write_items enc_FederatedDeployment (ListFederatedDeployments (env_drv ev) (srv_st sv)) sv
     else if req_method req = ''POST'' then
       with_body dec_FederatedDeployment zero_FederatedDeployment req sv (\<lambda>x.
         if md_name (fd_metadata x) = [] then http_error 400 (Msg ''metadata.name required'') sv
         else if podspec_containers (tmpl_spec (depspec_template (fdspec_template (fd_spec x)))) = [] then http_error 400 (Msg ''spec.template.template.spec.containers required'') sv
         else 
           (let x = x\<lparr>fd_apiVersion := ''federation.mk.io/v1'', fd_kind := ''FederatedDeployment''\<rparr> in
            store_then (UpsertFederatedDeployment (env_drv ev) (env_now ev) x (srv_st sv)) sv (\<lambda>sv.
              writeJSON 201 (read_back enc_FederatedDeployment (GetFederatedDeployment (at_site ''out '' (env_drv ev)) (srv_st sv) (md_name (fd_metadata x)))) sv)))
     else method_not_allowed sv)"

definition handleFedDeploymentsByName :: "env \<Rightarrow> handler" where
  "handleFedDeploymentsByName ev req sv =
    (let name = TrimPrefix (req_path req) ''/apis/federation.mk.io/v1/federateddeployments/'' in
     if HasSuffix name ''/status'' then
       (let n = TrimSuffix name ''/status'' in
        if req_method req = ''PUT'' \<or> req_method req = ''PATCH''
        then put_status dec_FederatedDeploymentStatus zero_FederatedDeploymentStatus (UpdateFederatedDeploymentStatus (env_drv ev) (env_now ev) n)
          (\<lambda>st. read_back enc_FederatedDeployment (GetFederatedDeployment (at_site ''out '' (env_drv ev)) st n)) req sv
        else method_not_allowed sv)
     else if name = [] then http_error 400 (Msg ''name required'') sv
     else if req_method req = ''GET'' then write_found enc_FederatedDeployment (GetFederatedDeployment (env_drv ev) (srv_st sv) name) sv
     else if req_method req = ''DELETE'' then write_deleted name (DeleteFederatedDeployment (env_drv ev) name (srv_st sv)) sv
     else method_not_allowed sv)"

section \<open>The routes\<close>

definition handleHealthz :: "handler" where
  "handleHealthz req sv = (\<lparr>resp_code = 200, resp_body = TextBody (Msg ''ok'')\<rparr>, sv)"

definition registerM6Routes :: "config \<Rightarrow> env \<Rightarrow> (string \<times> handler) list" where
  "registerM6Routes cfg ev = [
     (''/apis/networking.mk.io/v1/networkpolicies'', guard cfg ev ''networking.mk.io'' ''networkpolicies'' (handleNetPols ev)),
     (''/apis/networking.mk.io/v1/networkpolicies/'', guard cfg ev ''networking.mk.io'' ''networkpolicies'' (handleNetPolsByName ev)),
     (''/apis/federation.mk.io/v1/clusters'', guard cfg ev ''federation.mk.io'' ''clusters'' (handleClusters ev)),
     (''/apis/federation.mk.io/v1/clusters/'', guard cfg ev ''federation.mk.io'' ''clusters'' (handleClustersByName ev)),
     (''/apis/federation.mk.io/v1/federateddeployments'', guard cfg ev ''federation.mk.io'' ''federateddeployments'' (handleFedDeployments ev)),
     (''/apis/federation.mk.io/v1/federateddeployments/'', guard cfg ev ''federation.mk.io'' ''federateddeployments'' (handleFedDeploymentsByName ev))]"

definition routes :: "config \<Rightarrow> env \<Rightarrow> (string \<times> handler) list" where
  "routes cfg ev = [
     (''/healthz'', handleHealthz),
     (''/api/v1/pods'', guard cfg ev [] ''pods'' (handlePods ev)),
     (''/api/v1/pods/'', guard cfg ev [] ''pods'' (handlePodsByName ev)),
     (''/api/v1/services'', guard cfg ev [] ''services'' (handleServices cfg ev)),
     (''/api/v1/services/'', guard cfg ev [] ''services'' (handleServicesByName ev)),
     (''/api/v1/endpoints'', guard cfg ev [] ''endpoints'' (handleEndpoints ev)),
     (''/api/v1/endpoints/'', guard cfg ev [] ''endpoints'' (handleEndpointsByName ev)),
     (''/api/v1/nodes'', guard cfg ev [] ''nodes'' (handleNodes ev)),
     (''/api/v1/nodes/'', guard cfg ev [] ''nodes'' (handleNodesByName ev)),
     (''/apis/apps/v1/replicasets'', guard cfg ev ''apps'' ''replicasets'' (handleRS ev)),
     (''/apis/apps/v1/replicasets/'', guard cfg ev ''apps'' ''replicasets'' (handleRSByName ev)),
     (''/apis/apps/v1/deployments'', guard cfg ev ''apps'' ''deployments'' (handleDeployments ev)),
     (''/apis/apps/v1/deployments/'', guard cfg ev ''apps'' ''deployments'' (handleDeploymentsByName ev)),
     (''/apis/mk.io/v1/customresourcedefinitions'', guard cfg ev ''mk.io'' ''customresourcedefinitions'' (handleCRDs ev)),
     (''/apis/mk.io/v1/customresourcedefinitions/'', guard cfg ev ''mk.io'' ''customresourcedefinitions'' (handleCRDsByName ev)),
     (''/apis/rbac.mk.io/v1/users'', guard cfg ev ''rbac.mk.io'' ''users'' (handleUsers ev)),
     (''/apis/rbac.mk.io/v1/roles'', guard cfg ev ''rbac.mk.io'' ''roles'' (handleRoles ''Role'' ev)),
     (''/apis/rbac.mk.io/v1/clusterroles'', guard cfg ev ''rbac.mk.io'' ''clusterroles'' (handleRoles ''ClusterRole'' ev)),
     (''/apis/rbac.mk.io/v1/rolebindings'', guard cfg ev ''rbac.mk.io'' ''rolebindings'' (handleRoleBindings ''RoleBinding'' ev)),
     (''/apis/rbac.mk.io/v1/clusterrolebindings'', guard cfg ev ''rbac.mk.io'' ''clusterrolebindings'' (handleRoleBindings ''ClusterRoleBinding'' ev)),
     (''/apis/admission.mk.io/v1/webhooks'', guard cfg ev ''admission.mk.io'' ''webhooks'' (handleWebhooks ev)),
     (''/apis/admission.mk.io/v1/webhooks/'', guard cfg ev ''admission.mk.io'' ''webhooks'' (handleWebhooksByName ev)),
     (''/apis/autoscaling.mk.io/v1/horizontalpodautoscalers'', guard cfg ev ''autoscaling.mk.io'' ''horizontalpodautoscalers'' (handleHPAs ev)),
     (''/apis/autoscaling.mk.io/v1/horizontalpodautoscalers/'', guard cfg ev ''autoscaling.mk.io'' ''horizontalpodautoscalers'' (handleHPAsByName ev)),
     (''/apis/coordination.mk.io/v1/leases/'', handleLease cfg ev)] @
    registerM6Routes cfg ev @
    [(''/apis/'', handleDynamicCR cfg ev)]"

text \<open>One request served by the API server.\<close>

definition serve :: "config \<Rightarrow> env \<Rightarrow> handler" where
  "serve cfg ev = mux_serve (routes cfg ev)"

end
