(* ===== verification/Apiserver.thy ===== *)
theory Apiserver
  imports Handlers
begin

text \<open>
  What holds of every request to the API server: the store's invariant is kept, an answer of 400
  or more leaves the store as it was, a GET changes nothing, and under enforced RBAC only a
  permitted request changes the store.
\<close>

section \<open>Steps of a handler\<close>

definition step_ok :: "bool \<Rightarrow> server \<Rightarrow> response \<times> server \<Rightarrow> bool" where
  "step_ok get sv p \<longleftrightarrow>
     (store_ok (srv_st sv) \<longrightarrow> store_ok (srv_st (snd p))) \<and>
     (resp_code (fst p) \<ge> 400 \<longrightarrow> srv_st (snd p) = srv_st sv) \<and>
     (get \<longrightarrow> snd p = sv)"

named_theorems step_intros "the building blocks of the handlers are well-behaved steps"

lemma step_same: "snd p = sv \<Longrightarrow> step_ok get sv p"
  by (simp add: step_ok_def)

lemma step_http_error [step_intros]: "step_ok get sv (http_error c m sv)"
  by (simp add: step_same http_error_def)

lemma step_http_error_next: "srv_st sv' = srv_st sv \<Longrightarrow> \<not> get \<Longrightarrow> step_ok get sv (http_error c m sv')"
  by (simp add: step_ok_def http_error_def)

lemma step_notFoundOrErr [step_intros]: "step_ok get sv (notFoundOrErr e sv)"
  by (simp add: step_same notFoundOrErr_def http_error_def)

lemma step_method_not_allowed [step_intros]: "step_ok get sv (method_not_allowed sv)"
  by (simp add: step_same method_not_allowed_def http_error_def)

lemma step_write_items [step_intros]: "step_ok get sv (write_items enc r sv)"
  by (simp add: step_same write_items_def http_error_def writeJSON_def split: sum.split)

lemma step_write_found [step_intros]: "step_ok get sv (write_found enc r sv)"
  by (simp add: step_same write_found_def notFoundOrErr_def http_error_def writeJSON_def split: sum.split)

lemma step_writeJSON_same [step_intros]: "step_ok get sv (writeJSON c j sv)"
  by (simp add: step_same writeJSON_def)

lemma step_writeJSON:
  "\<not> get \<Longrightarrow> c < 400 \<Longrightarrow> (store_ok (srv_st sv) \<Longrightarrow> store_ok (srv_st sv')) \<Longrightarrow> step_ok get sv (writeJSON c j sv')"
  by (simp add: step_ok_def writeJSON_def)

text \<open>A result that is an error or a store that is as good as the old one.\<close>

definition keeps :: "store \<Rightarrow> 'e + store \<Rightarrow> bool" where
  "keeps st r \<longleftrightarrow> (\<forall>st'. r = Inr st' \<longrightarrow> store_ok st \<longrightarrow> store_ok st')"

lemma step_write_deleted [step_intros]:
  "\<not> get \<Longrightarrow> keeps (srv_st sv) r \<Longrightarrow> step_ok get sv (write_deleted n r sv)"
  by (auto simp: write_deleted_def keeps_def intro!: step_intros step_writeJSON split: sum.split)

lemma step_store_then [step_intros]:
  "\<not> get \<Longrightarrow> srv_st sv' = srv_st sv \<Longrightarrow> keeps (srv_st sv) r \<Longrightarrow>
   (\<And>st. (store_ok (srv_st sv) \<Longrightarrow> store_ok st) \<Longrightarrow> step_ok get sv (k (sv'\<lparr>srv_st := st\<rparr>))) \<Longrightarrow>
   step_ok get sv (store_then r sv' k)"
  by (auto simp: store_then_def keeps_def intro!: step_http_error_next split: sum.split)

lemma Decode_Some: "Decode d z b = Some x \<Longrightarrow> \<exists>j. x = fst (d j z)"
  by (auto simp: Decode_def Let_def split: body.splits prod.splits if_splits) (metis fst_conv)+

lemma step_with_body:
  assumes "\<And>j x. good x \<Longrightarrow> good (fst (d j x))" "good z" "\<And>x. good x \<Longrightarrow> step_ok get sv (k x)"
  shows "step_ok get sv (with_body d z req sv k)"
proof (cases "Decode d z (req_body req)")
  case None
  then show ?thesis by (simp add: with_body_def step_http_error)
next
  case (Some x)
  from Decode_Some [OF this] obtain j where "x = fst (d j z)" ..
  then have "good x" using assms(1,2) by blast
  with Some assms(3) show ?thesis by (simp add: with_body_def)
qed

lemma step_with_raw_body:
  assumes "\<And>j x. good x \<Longrightarrow> good (fst (d j x))" "good z" "\<And>x. good x \<Longrightarrow> step_ok get sv (k x)"
  shows "step_ok get sv (with_raw_body d z req sv k)"
proof (cases "req_body req")
  case (Doc j)
  obtain x ok where x: "d j z = (x, ok)" by (cases "d j z")
  have "good (fst (d j z))" using assms(1,2) by blast
  then have "step_ok get sv (k x)" using assms(3) x by simp
  with Doc x show ?thesis by (simp add: with_raw_body_def step_http_error)
qed (simp_all add: with_raw_body_def step_http_error)

lemma step_put_status:
  assumes "\<And>j x. good x \<Longrightarrow> good (fst (d j x))" "good z" "\<not> get"
    "\<And>x. good x \<Longrightarrow> keeps (srv_st sv) (upd x (srv_st sv))"
  shows "step_ok get sv (put_status d z upd out req sv)"
  unfolding put_status_def
  by (rule step_with_body [OF assms(1,2)]) (use assms(3,4) in \<open>auto simp: keeps_def split: sum.split intro!: step_intros step_writeJSON\<close>)

text \<open>The instances for the kinds and the methods of the API.\<close>

lemmas step_bodies [step_intros] =
  step_with_body [of wf_Service dec_Service zero_Service, OF dec_Service_wf zero_Service_wf]
  step_with_body [of wf_Endpoints dec_Endpoints zero_Endpoints, OF dec_Endpoints_wf zero_Endpoints_wf]
  step_with_body [of wf_Node dec_Node zero_Node, OF dec_Node_wf zero_Node_wf]
  step_with_body [of wf_ReplicaSet dec_ReplicaSet zero_ReplicaSet, OF dec_ReplicaSet_wf zero_ReplicaSet_wf]
  step_with_body [of wf_CRD dec_CRD zero_CRD, OF dec_CRD_wf zero_CRD_wf]
  step_with_body [of wf_CustomResource dec_CustomResource zero_CustomResource, OF dec_CustomResource_wf zero_CustomResource_wf]
  step_with_body [of wf_User dec_User zero_User, OF dec_User_wf zero_User_wf]
  step_with_body [of wf_Role dec_Role zero_Role, OF dec_Role_wf zero_Role_wf]
  step_with_body [of wf_RoleBinding dec_RoleBinding zero_RoleBinding, OF dec_RoleBinding_wf zero_RoleBinding_wf]
  step_with_body [of wf_AdmissionWebhook dec_AdmissionWebhook zero_AdmissionWebhook, OF dec_AdmissionWebhook_wf zero_AdmissionWebhook_wf]
  step_with_body [of wf_HPA dec_HPA zero_HPA, OF dec_HPA_wf zero_HPA_wf]
  step_with_body [of wf_NetworkPolicy dec_NetworkPolicy zero_NetworkPolicy, OF dec_NetworkPolicy_wf zero_NetworkPolicy_wf]
  step_with_body [of wf_Cluster dec_Cluster zero_Cluster, OF dec_Cluster_wf zero_Cluster_wf]
  step_with_body [of wf_FederatedDeployment dec_FederatedDeployment zero_FederatedDeployment, OF dec_FederatedDeployment_wf zero_FederatedDeployment_wf]
  step_with_raw_body [of wf_Pod dec_Pod zero_Pod, OF dec_Pod_wf zero_Pod_wf]
  step_with_raw_body [of wf_Deployment dec_Deployment zero_Deployment, OF dec_Deployment_wf zero_Deployment_wf]

lemmas step_statuses [step_intros] =
  step_put_status [of wf_PodStatus dec_PodStatus zero_PodStatus, OF dec_PodStatus_wf zero_PodStatus_wf]
  step_put_status [of wf_ReplicaSetStatus dec_ReplicaSetStatus zero_ReplicaSetStatus, OF dec_ReplicaSetStatus_wf zero_ReplicaSetStatus_wf]
  step_put_status [of wf_DeploymentStatus dec_DeploymentStatus zero_DeploymentStatus, OF dec_DeploymentStatus_wf zero_DeploymentStatus_wf]
  step_put_status [of wf_HPAStatus dec_HPAStatus zero_HPAStatus, OF dec_HPAStatus_wf zero_HPAStatus_wf]
  step_put_status [of wf_ClusterStatus dec_ClusterStatus zero_ClusterStatus, OF dec_ClusterStatus_wf zero_ClusterStatus_wf]
  step_put_status [of wf_FederatedDeploymentStatus dec_FederatedDeploymentStatus zero_FederatedDeploymentStatus, OF dec_FederatedDeploymentStatus_wf zero_FederatedDeploymentStatus_wf]

lemma keeps_upserts [step_intros]:
  "wf_Pod x0 \<Longrightarrow> keeps st (UpsertPod drv now x0 st)"
  "wf_ReplicaSet x1 \<Longrightarrow> keeps st (UpsertReplicaSet drv now x1 st)"
  "wf_Deployment x2 \<Longrightarrow> keeps st (UpsertDeployment drv now x2 st)"
  "wf_Service x3 \<Longrightarrow> keeps st (UpsertService drv now x3 st)"
  "wf_Endpoints x4 \<Longrightarrow> keeps st (UpsertEndpoints drv now x4 st)"
  "wf_Node x5 \<Longrightarrow> keeps st (UpsertNode drv now x5 st)"
  "wf_CRD x6 \<Longrightarrow> keeps st (UpsertCRD drv now x6 st)"
  "wf_CustomResource x7 \<Longrightarrow> keeps st (UpsertCustomResource drv now c x7 st)"
  "wf_User x8 \<Longrightarrow> keeps st (UpsertUser drv now x8 st)"
  "wf_Role x9 \<Longrightarrow> keeps st (UpsertRole drv now c x9 st)"
  "wf_RoleBinding x10 \<Longrightarrow> keeps st (UpsertRoleBinding drv now c x10 st)"
  "wf_HPA x11 \<Longrightarrow> keeps st (UpsertHPA drv now x11 st)"
  "wf_NetworkPolicy x12 \<Longrightarrow> keeps st (UpsertNetworkPolicy drv now x12 st)"
  "wf_Cluster x13 \<Longrightarrow> keeps st (UpsertCluster drv now x13 st)"
  "wf_FederatedDeployment x14 \<Longrightarrow> keeps st (UpsertFederatedDeployment drv now x14 st)"
  "wf_PodStatus x15 \<Longrightarrow> keeps st (UpdateStatus drv now c x15 st)"
  "wf_ReplicaSetStatus x16 \<Longrightarrow> keeps st (UpdateReplicaSetStatus drv now c x16 st)"
  "wf_DeploymentStatus x17 \<Longrightarrow> keeps st (UpdateDeploymentStatus drv now c x17 st)"
  "wf_HPAStatus x18 \<Longrightarrow> keeps st (UpdateHPAStatus drv now c x18 st)"
  "wf_ClusterStatus x19 \<Longrightarrow> keeps st (UpdateClusterStatus drv now c x19 st)"
  "wf_FederatedDeploymentStatus x20 \<Longrightarrow> keeps st (UpdateFederatedDeploymentStatus drv now c x20 st)"
  by (auto simp: keeps_def intro: UpsertPod_ok UpsertReplicaSet_ok UpsertDeployment_ok UpsertService_ok UpsertEndpoints_ok UpsertNode_ok UpsertCRD_ok UpsertCustomResource_ok UpsertUser_ok UpsertRole_ok UpsertRoleBinding_ok UpsertHPA_ok UpsertNetworkPolicy_ok UpsertCluster_ok UpsertFederatedDeployment_ok UpdateStatus_ok UpdateReplicaSetStatus_ok UpdateDeploymentStatus_ok UpdateHPAStatus_ok UpdateClusterStatus_ok UpdateFederatedDeploymentStatus_ok)

lemma keeps_deletes [step_intros]:
  "keeps st (DeletePod drv n st)"
  "keeps st (DeleteReplicaSet drv n st)"
  "keeps st (DeleteDeployment drv n st)"
  "keeps st (DeleteService drv n st)"
  "keeps st (DeleteNode drv n st)"
  "keeps st (DeleteCRD drv n st)"
  "keeps st (DeleteWebhook drv n st)"
  "keeps st (DeleteHPA drv n st)"
  "keeps st (DeleteNetworkPolicy drv n st)"
  "keeps st (DeleteCluster drv n st)"
  "keeps st (DeleteFederatedDeployment drv n st)"
  "keeps st (DeleteCustomResource drv c n st)"
  by (auto simp: keeps_def intro: DeletePod_ok DeleteReplicaSet_ok DeleteDeployment_ok DeleteService_ok DeleteNode_ok DeleteCRD_ok DeleteWebhook_ok DeleteHPA_ok DeleteNetworkPolicy_ok DeleteCluster_ok DeleteFederatedDeployment_ok DeleteCustomResource_ok)

text \<open>The fields the handlers overwrite do not matter for well-formedness.\<close>

lemma wf_headers [simp]:
  "wf_Pod (x0\<lparr>pod_apiVersion := a, pod_kind := k\<rparr>) = wf_Pod x0"
  "wf_Service (x1\<lparr>svc_apiVersion := a, svc_kind := k\<rparr>) = wf_Service x1"
  "wf_Endpoints (x2\<lparr>ep_apiVersion := a, ep_kind := k\<rparr>) = wf_Endpoints x2"
  "wf_ReplicaSet (x3\<lparr>rs_apiVersion := a, rs_kind := k\<rparr>) = wf_ReplicaSet x3"
  "wf_Deployment (x4\<lparr>dep_apiVersion := a, dep_kind := k\<rparr>) = wf_Deployment x4"
  "wf_CRD (x5\<lparr>crd_apiVersion := a, crd_kind := k\<rparr>) = wf_CRD x5"
  "wf_CustomResource (x6\<lparr>cr_apiVersion := a, cr_kind := k\<rparr>) = wf_CustomResource x6"
  "wf_User (x7\<lparr>user_apiVersion := a, user_kind := k\<rparr>) = wf_User x7"
  "wf_Role (x8\<lparr>role_apiVersion := a, role_kind := k\<rparr>) = wf_Role x8"
  "wf_RoleBinding (x9\<lparr>rb_apiVersion := a, rb_kind := k\<rparr>) = wf_RoleBinding x9"
  "wf_HPA (x10\<lparr>hpa_apiVersion := a, hpa_kind := k\<rparr>) = wf_HPA x10"
  "wf_NetworkPolicy (x11\<lparr>np_apiVersion := a, np_kind := k\<rparr>) = wf_NetworkPolicy x11"
  "wf_Cluster (x12\<lparr>cl_apiVersion := a, cl_kind := k\<rparr>) = wf_Cluster x12"
  "wf_FederatedDeployment (x13\<lparr>fd_apiVersion := a, fd_kind := k\<rparr>) = wf_FederatedDeployment x13"
  "wf_AdmissionWebhook (x14\<lparr>wh_apiVersion := a, wh_kind := k\<rparr>) = wf_AdmissionWebhook x14"
  "wf_Node (n\<lparr>node_apiVersion := a, node_kind := k, node_status := (node_status n)\<lparr>ns_ready := b\<rparr>\<rparr>) = wf_Node n"
  "wf_CRD (c\<lparr>crd_apiVersion := a, crd_kind := k, crd_spec := (crd_spec c)\<lparr>crdspec_scope := s\<rparr>\<rparr>) = wf_CRD c"
  "wf_CRD (c\<lparr>crd_spec := (crd_spec c)\<lparr>crdspec_scope := s\<rparr>\<rparr>) = wf_CRD c"
  "wf_Service (v\<lparr>svc_spec := (svc_spec v)\<lparr>svcspec_type := s\<rparr>\<rparr>) = wf_Service v"
  "wf_Service (v\<lparr>svc_apiVersion := a, svc_kind := k, svc_spec := (svc_spec v)\<lparr>svcspec_clusterIP := s\<rparr>\<rparr>) = wf_Service v"
  "wf_Service (v\<lparr>svc_apiVersion := a, svc_kind := k, svc_spec := (svc_spec v)\<lparr>svcspec_type := t, svcspec_clusterIP := s\<rparr>\<rparr>) = wf_Service v"
  "wf_Service (v\<lparr>svc_spec := (svc_spec v)\<lparr>svcspec_clusterIP := s\<rparr>\<rparr>) = wf_Service v"
  by (simp_all add: wf_Pod_def wf_Service_def wf_Endpoints_def wf_ReplicaSet_def wf_Deployment_def wf_CRD_def wf_CustomResource_def wf_User_def wf_Role_def wf_RoleBinding_def wf_HPA_def wf_NetworkPolicy_def wf_Cluster_def wf_FederatedDeployment_def wf_AdmissionWebhook_def wf_Node_def wf_NodeStatus_def wf_CRDSpec_def wf_ServiceSpec_def)

lemma wf_HPA_min [simp]: "wf_HPA h \<Longrightarrow> wf_HPA (h\<lparr>hpa_spec := (hpa_spec h)\<lparr>hpaspec_minReplicas := 1\<rparr>\<rparr>)"
  by (simp add: wf_HPA_def wf_HPASpec_def int64_ok_code)

section \<open>Every handler\<close>

lemma handleServicesByName_step [step_intros]: "step_ok (req_method req = ''GET'') sv (handleServicesByName ev req sv)"
  by (auto simp: handleServicesByName_def Let_def intro!: step_intros step_writeJSON)

lemma handleEndpoints_step [step_intros]: "step_ok (req_method req = ''GET'') sv (handleEndpoints ev req sv)"
  by (auto simp: handleEndpoints_def Let_def intro!: step_intros step_writeJSON)

lemma handleEndpointsByName_step [step_intros]: "step_ok (req_method req = ''GET'') sv (handleEndpointsByName ev req sv)"
  by (auto simp: handleEndpointsByName_def Let_def intro!: step_intros step_writeJSON)

lemma handleNodes_step [step_intros]: "step_ok (req_method req = ''GET'') sv (handleNodes ev req sv)"
  by (auto simp: handleNodes_def Let_def intro!: step_intros step_writeJSON)

lemma handleNodesByName_step [step_intros]: "step_ok (req_method req = ''GET'') sv (handleNodesByName ev req sv)"
  by (auto simp: handleNodesByName_def Let_def intro!: step_intros step_writeJSON)

lemma handleRS_step [step_intros]: "step_ok (req_method req = ''GET'') sv (handleRS ev req sv)"
  by (auto simp: handleRS_def Let_def intro!: step_intros step_writeJSON)

lemma handleRSByName_step [step_intros]: "step_ok (req_method req = ''GET'') sv (handleRSByName ev req sv)"
  by (auto simp: handleRSByName_def Let_def intro!: step_intros step_writeJSON)

lemma handleDeploymentsByName_step [step_intros]: "step_ok (req_method req = ''GET'') sv (handleDeploymentsByName ev req sv)"
  by (auto simp: handleDeploymentsByName_def Let_def intro!: step_intros step_writeJSON)

lemma handleCRDs_step [step_intros]: "step_ok (req_method req = ''GET'') sv (handleCRDs ev req sv)"
  by (auto simp: handleCRDs_def Let_def intro!: step_intros step_writeJSON)

lemma handleCRDsByName_step [step_intros]: "step_ok (req_method req = ''GET'') sv (handleCRDsByName ev req sv)"
  by (auto simp: handleCRDsByName_def Let_def intro!: step_intros step_writeJSON)

lemma handleUsers_step [step_intros]: "step_ok (req_method req = ''GET'') sv (handleUsers ev req sv)"
  by (auto simp: handleUsers_def Let_def intro!: step_intros step_writeJSON)

lemma handleRoles_step [step_intros]: "step_ok (req_method req = ''GET'') sv (handleRoles scope ev req sv)"
  by (auto simp: handleRoles_def Let_def intro!: step_intros step_writeJSON)

lemma handleRoleBindings_step [step_intros]: "step_ok (req_method req = ''GET'') sv (handleRoleBindings scope ev req sv)"
  by (auto simp: handleRoleBindings_def Let_def intro!: step_intros step_writeJSON)

lemma handleWebhooksByName_step [step_intros]: "step_ok (req_method req = ''GET'') sv (handleWebhooksByName ev req sv)"
  by (auto simp: handleWebhooksByName_def Let_def intro!: step_intros step_writeJSON)

lemma handleHPAs_step [step_intros]: "step_ok (req_method req = ''GET'') sv (handleHPAs ev req sv)"
  by (auto simp: handleHPAs_def Let_def intro!: step_intros step_writeJSON)

lemma handleHPAsByName_step [step_intros]: "step_ok (req_method req = ''GET'') sv (handleHPAsByName ev req sv)"
  by (auto simp: handleHPAsByName_def Let_def intro!: step_intros step_writeJSON)

lemma handleNetPols_step [step_intros]: "step_ok (req_method req = ''GET'') sv (handleNetPols ev req sv)"
  by (auto simp: handleNetPols_def Let_def intro!: step_intros step_writeJSON)

lemma handleNetPolsByName_step [step_intros]: "step_ok (req_method req = ''GET'') sv (handleNetPolsByName ev req sv)"
  by (auto simp: handleNetPolsByName_def Let_def intro!: step_intros step_writeJSON)

lemma handleClusters_step [step_intros]: "step_ok (req_method req = ''GET'') sv (handleClusters ev req sv)"
  by (auto simp: handleClusters_def Let_def intro!: step_intros step_writeJSON)

lemma handleClustersByName_step [step_intros]: "step_ok (req_method req = ''GET'') sv (handleClustersByName ev req sv)"
  by (auto simp: handleClustersByName_def Let_def intro!: step_intros step_writeJSON)

lemma handleFedDeployments_step [step_intros]: "step_ok (req_method req = ''GET'') sv (handleFedDeployments ev req sv)"
  by (auto simp: handleFedDeployments_def Let_def intro!: step_intros step_writeJSON)

lemma handleFedDeploymentsByName_step [step_intros]: "step_ok (req_method req = ''GET'') sv (handleFedDeploymentsByName ev req sv)"
  by (auto simp: handleFedDeploymentsByName_def Let_def intro!: step_intros step_writeJSON)

lemma createPod_step [step_intros]: "\<not> get \<Longrightarrow> step_ok get sv (createPod ev req sv)"
  unfolding createPod_def
proof (rule step_bodies)
  fix p
  assume "\<not> get" "wf_Pod p"
  have final: "wf_Pod q" if "dec_Pod j zero_Pod = (q, ok)" for j q ok
    using dec_Pod_wf [OF zero_Pod_wf, of j] that by simp
  show "step_ok get sv
    (if md_name (pod_metadata p) = [] then http_error 400 (Msg ''metadata.name required'') sv
      else if podspec_containers (pod_spec p) = [] then http_error 400 (Msg ''spec.containers required'') sv
      else
        (let p = p\<lparr>pod_apiVersion := ''v1'', pod_kind := ''Pod''\<rparr>;
             norm = enc_Pod p;
             args = \<lparr>ra_resource = ''pods'', ra_kind = ''Pod'', ra_operation = ''CREATE'',
                     ra_name = md_name (pod_metadata p), ra_namespace = md_namespace (pod_metadata p)\<rparr> in
         case Review (env_drv ev) (env_net ev) (env_rnd ev) (srv_st sv) args norm of
           (_, Some aerr) \<Rightarrow> http_error 400 (ReviewMsg aerr) sv
         | (mutated, None) \<Rightarrow>
            (let (finalPod, ok) = dec_Pod mutated zero_Pod in
             if \<not> ok then http_error 500 BadPatch sv
             else store_then (UpsertPod (env_drv ev) (env_now ev) finalPod (srv_st sv)) sv (\<lambda>sv.
               writeJSON 201 (read_back enc_Pod
                 (GetPod (at_site ''out '' (env_drv ev)) (srv_st sv) (md_name (pod_metadata finalPod)))) sv))))"
    using \<open>\<not> get\<close>
    by (auto simp: Let_def split: prod.split option.split intro!: step_intros step_writeJSON final)
qed

lemma handlePods_step [step_intros]: "step_ok (req_method req = ''GET'') sv (handlePods ev req sv)"
  by (auto simp: handlePods_def listPods_def Let_def intro!: step_intros)

lemma handlePodsByName_step [step_intros]: "step_ok (req_method req = ''GET'') sv (handlePodsByName ev req sv)"
  by (auto simp: handlePodsByName_def updateStatus_def getPod_def deletePod_def Let_def intro!: step_intros)

lemma choose_clusterIP_store: "choose_clusterIP cfg ev svc sv = (ip, sv') \<Longrightarrow> srv_st sv' = srv_st sv"
  by (auto simp: choose_clusterIP_def Let_def split: sum.splits if_splits prod.splits)

lemma handleServices_step [step_intros]: "step_ok (req_method req = ''GET'') sv (handleServices cfg ev req sv)"
  by (auto simp: handleServices_def Let_def choose_clusterIP_store split: prod.split option.split
    intro!: step_intros step_writeJSON step_http_error_next)

lemma handleDeployments_step [step_intros]: "step_ok (req_method req = ''GET'') sv (handleDeployments ev req sv)"
proof -
  have final: "wf_Deployment d'"
    if "wf_Deployment d" "dec_Deployment j (d\<lparr>dep_apiVersion := a, dep_kind := k\<rparr>) = (d', ok)" for a k j d d' ok
    using dec_Deployment_wf [of "d\<lparr>dep_apiVersion := a, dep_kind := k\<rparr>" j] that by simp
  show ?thesis
    by (auto simp: handleDeployments_def Let_def split: prod.split option.split
      intro!: step_intros step_writeJSON intro: final)
qed

lemma handleWebhooks_step [step_intros]: "step_ok (req_method req = ''GET'') sv (handleWebhooks ev req sv)"
  by (auto simp: handleWebhooks_def Let_def split: sum.split prod.split
    intro!: step_intros step_writeJSON)
    (rule UpsertWebhook_ok, assumption+)+

lemma serve_custom_step [step_intros]:
  "step_ok (req_method req = ''GET'') sv (serve_custom ev c grp version name req sv)"
  by (auto simp: serve_custom_def Let_def split: option.split intro!: step_intros step_writeJSON)

lemma handleLease_step [step_intros]: "step_ok get sv (handleLease cfg ev req sv)"
  by (auto simp: handleLease_def Let_def split: sum.split prod.split intro!: step_intros)

section \<open>The guard and the routes\<close>

lemma guard_step [step_intros]:
  "step_ok get sv (h req sv) \<Longrightarrow> step_ok get sv (guard cfg ev g r h req sv)"
  by (auto simp: guard_def Let_def split: option.split intro!: step_intros)

lemma handleDynamicCR_step [step_intros]: "step_ok (req_method req = ''GET'') sv (handleDynamicCR cfg ev req sv)"
  by (auto simp: handleDynamicCR_def split: sum.split prod.split intro!: step_intros)

lemma handleHealthz_step [step_intros]: "step_ok get sv (handleHealthz req sv)"
  by (simp add: handleHealthz_def step_same)

definition handler_ok :: "handler \<Rightarrow> bool" where
  "handler_ok h \<longleftrightarrow> (\<forall>req sv. step_ok (req_method req = ''GET'') sv (h req sv))"

lemma routes_ok: "(p, h) \<in> set (routes cfg ev) \<Longrightarrow> handler_ok h"
  unfolding routes_def registerM6Routes_def handler_ok_def by (auto intro!: step_intros)

lemma fold_longer: "fold longer ps best = Some p \<Longrightarrow> p \<in> set ps \<or> best = Some p"
  by (induction ps arbitrary: best) (auto simp: longer_def split: option.splits if_splits)

definition matches :: "string \<Rightarrow> string \<Rightarrow> bool" where
  "matches p path \<longleftrightarrow> p = path \<or> HasSuffix p ''/'' \<and> HasPrefix path p"

lemma mux_match_mem:
  "mux_match pats path = Some (p, h) \<Longrightarrow> \<exists>p'. (p', h) \<in> set pats \<and> matches p' path"
  by (auto simp: mux_match_def matches_def dest!: map_of_SomeD fold_longer split: option.splits)

lemma mux_serve_cases:
  obtains p h where "(p, h) \<in> set pats" "matches p (req_path req)" "mux_serve pats req sv = h req sv"
  | r where "mux_serve pats req sv = (r, sv)"
proof (cases "mux_match pats (req_path req)")
  case None
  then have "mux_serve pats req sv = (fst (mux_serve pats req sv), sv)"
    by (simp add: mux_serve_def Let_def http_error_def)
  then show ?thesis by (rule that(2))
next
  case (Some ph)
  obtain p h where ph: "ph = (p, h)" by (cases ph)
  from mux_match_mem [OF Some [unfolded ph]] obtain p' where p': "(p', h) \<in> set pats" "matches p' (req_path req)"
    by blast
  have "mux_serve pats req sv = h req sv \<or> mux_serve pats req sv = (fst (mux_serve pats req sv), sv)"
    using Some ph by (simp add: mux_serve_def Let_def)
  then show ?thesis using that p' by blast
qed

lemma serve_step: "step_ok (req_method req = ''GET'') sv (serve cfg ev req sv)"
  unfolding serve_def
proof (rule mux_serve_cases [of "routes cfg ev" req sv])
  fix p h
  assume "(p, h) \<in> set (routes cfg ev)" "mux_serve (routes cfg ev) req sv = h req sv"
  with routes_ok show "step_ok (req_method req = ''GET'') sv (mux_serve (routes cfg ev) req sv)"
    by (simp add: handler_ok_def)
next
  fix r
  assume "mux_serve (routes cfg ev) req sv = (r, sv)"
  then show "step_ok (req_method req = ''GET'') sv (mux_serve (routes cfg ev) req sv)"
    by (simp add: step_same)
qed

section \<open>Who may change the state\<close>

text \<open>The API group and resource named by a path: /api/V/R\<dots> or /apis/G/V/R\<dots>.\<close>

definition api_resource :: "string \<Rightarrow> string \<times> string" where
  "api_resource path =
    (let ss = Split path (CHR ''/'') in if ss ! 1 = ''api'' then ([], ss ! 3) else (ss ! 2, ss ! 4))"

definition let_through :: "config \<Rightarrow> env \<Rightarrow> string \<times> string \<Rightarrow> request \<Rightarrow> server \<Rightarrow> bool" where
  "let_through cfg ev gr req sv \<longleftrightarrow>
    (\<exists>u. Authenticate (at_site ''auth '' (env_drv ev)) (cfg_anonymous cfg) (srv_st sv) (req_auth req) = Some u \<and>
       (cfg_rbac cfg \<longrightarrow> permitted (srv_st sv) (authz_request u (fst gr) (snd gr) req)))"

lemma guard_changes: "snd (guard cfg ev g r h req sv) \<noteq> sv \<Longrightarrow> let_through cfg ev (g, r) req sv"
  by (auto simp: guard_def let_through_def http_error_def Let_def split: option.splits if_splits
      dest!: Authorize_fault simp flip: Authorize_healthy)

definition guarded :: "config \<Rightarrow> env \<Rightarrow> string \<Rightarrow> handler \<Rightarrow> bool" where
  "guarded cfg ev p h \<longleftrightarrow> (\<forall>req sv. matches p (req_path req) \<longrightarrow> snd (h req sv) \<noteq> sv \<longrightarrow>
     let_through cfg ev (api_resource (req_path req)) req sv)"

lemma guarded_guard:
  "(\<And>path. matches p path \<Longrightarrow> api_resource path = (g, r)) \<Longrightarrow> guarded cfg ev p (guard cfg ev g r h)"
  unfolding guarded_def using guard_changes by metis

lemma handleLease_same: "snd (handleLease cfg ev req sv) = sv"
  by (auto simp: handleLease_def notFoundOrErr_def http_error_def writeJSON_def Let_def split: sum.split)

lemma guarded_dynamic: "guarded cfg ev ''/apis/'' (handleDynamicCR cfg ev)"
  unfolding guarded_def
proof (intro allI impI)
  fix req sv
  assume "matches ''/apis/'' (req_path req)" and change: "snd (handleDynamicCR cfg ev req sv) \<noteq> sv"
  then obtain rest where path: "req_path req = ''/apis/'' @ rest"
    unfolding matches_def HasPrefix_iff by (metis append_Nil2)
  from change obtain g v pl n where parsed: "ParsePath (req_path req) = Inr (g, v, pl, n)"
    and thru: "let_through cfg ev (g, pl) req sv"
    by (auto simp: handleDynamicCR_def http_error_def split: sum.splits prod.splits if_splits dest: guard_changes)
  from parsed path have "g = Split rest (CHR ''/'') ! 0" "pl = Split rest (CHR ''/'') ! 2"
    using TrimPrefix_append [of "''/apis/''" rest]
    by (auto simp: ParsePath_def PathPrefix_def Let_def split: if_splits)
  moreover have "api_resource (req_path req) = (Split rest (CHR ''/'') ! 0, Split rest (CHR ''/'') ! 2)"
    by (simp add: path api_resource_def Let_def)
  ultimately show "let_through cfg ev (api_resource (req_path req)) req sv" using thru by simp
qed

lemma matches_slash: "matches (p @ ''/'') path \<longleftrightarrow> (\<exists>rest. path = p @ ''/'' @ rest)"
  by (auto simp: matches_def HasPrefix_iff)

lemma routes_guarded: "(p, h) \<in> set (routes cfg ev) \<Longrightarrow> guarded cfg ev p h"
  unfolding routes_def registerM6Routes_def
  by (auto simp: handleLease_same handleHealthz_def matches_def HasPrefix_iff HasSuffix_def api_resource_def
      guarded_def [of _ _ _ "handleLease cfg ev"] guarded_def [of _ _ _ handleHealthz]
      intro!: guarded_guard guarded_dynamic)

lemma serve_changes:
  assumes "snd (serve cfg ev req sv) \<noteq> sv"
  shows "let_through cfg ev (api_resource (req_path req)) req sv"
  using assms unfolding serve_def
proof (rule_tac mux_serve_cases [of "routes cfg ev" req sv])
  fix p h
  assume "(p, h) \<in> set (routes cfg ev)" "matches p (req_path req)" "mux_serve (routes cfg ev) req sv = h req sv"
    "snd (mux_serve (routes cfg ev) req sv) \<noteq> sv"
  with routes_guarded [of p h cfg ev] show ?thesis by (simp add: guarded_def)
next
  fix r
  assume "mux_serve (routes cfg ev) req sv = (r, sv)" "snd (mux_serve (routes cfg ev) req sv) \<noteq> sv"
  then show ?thesis by simp
qed

end
