(* ===== verification/Cluster_IP.thy ===== *)
theory Cluster_IP
  imports Apiserver
begin

text \<open>
  The cluster IP allocator (\<open>clusterIPAlloc.alloc\<close>, cmd/apiserver/main.go): what it hands out is not
  in use, and it finds an address whenever fewer than 250 addresses of the pool are in use. The
  pool has 254 addresses, 127.20.0.2 to 127.20.0.255.
\<close>

section \<open>Decimal numerals\<close>

lemma digit_inj: "a < 10 \<Longrightarrow> b < 10 \<Longrightarrow> (char_of (48 + a) = (char_of (48 + b :: nat) :: char)) = (a = b)"
proof
  assume ab: "a < 10" "b < 10" and "(char_of (48 + a) :: char) = char_of (48 + b)"
  then have "of_char (char_of (48 + a) :: char) = (of_char (char_of (48 + b) :: char) :: nat)" by simp
  with ab show "a = b" unfolding of_char_of by simp
qed simp

lemma decimal_nonempty [simp]: "decimal n \<noteq> []"
  by (subst decimal.simps) simp

lemma decimal_inj: "decimal m = decimal n \<Longrightarrow> m = n"
proof (induction m arbitrary: n rule: less_induct)
  case (less m)
  show ?case
  proof (cases "m < 10"; cases "n < 10")
    assume "m < 10" "n < 10"
    with less.prems show ?thesis
      by (subst (asm) (1 2) decimal.simps) (simp add: digit_inj)
  next
    assume "m < 10" "\<not> n < 10"
    with less.prems show ?thesis
      by (subst (asm) (1 2) decimal.simps) (auto simp: Cons_eq_append_conv)
  next
    assume "\<not> m < 10" "n < 10"
    with less.prems show ?thesis
      by (subst (asm) (1 2) decimal.simps) (auto simp: append_eq_Cons_conv)
  next
    assume big: "\<not> m < 10" "\<not> n < 10"
    with less.prems have "decimal (m div 10) = decimal (n div 10)" "m mod 10 = n mod 10"
      by (subst (asm) (1 2) decimal.simps, simp add: digit_inj)+
    moreover from big have "m div 10 < m" by simp
    ultimately have "m div 10 = n div 10" "m mod 10 = n mod 10" using less.IH by blast+
    then show ?thesis by (metis mult_div_mod_eq)
  qed
qed

lemma pool_ip_inj: "pool_ip a = pool_ip b \<longleftrightarrow> a = b"
  by (auto simp: pool_ip_def word_unat_eq_iff dest: decimal_inj)

lemma pool_ip_nonempty [simp]: "pool_ip b \<noteq> []"
  by (simp add: pool_ip_def)

section \<open>The addresses the loop visits\<close>

fun visits :: "nat \<Rightarrow> 8 word \<Rightarrow> 8 word list" where
  "visits 0 next = []"
| "visits (Suc i) next = bump next # visits i (bump next)"

lemma length_visits [simp]: "length (visits n b) = n"
  by (induction n arbitrary: b) simp_all

lemma alloc_loop_fresh:
  "fst (alloc_loop n taken next) \<noteq> [] \<Longrightarrow>
   fst (alloc_loop n taken next) \<notin> set taken \<and>
   fst (alloc_loop n taken next) = pool_ip (snd (alloc_loop n taken next)) \<and>
   snd (alloc_loop n taken next) \<in> set (visits n next)"
  by (induction n arbitrary: "next") (auto simp: Let_def list_ex_iff)

lemma alloc_loop_empty: "fst (alloc_loop n taken next) = [] \<longleftrightarrow> pool_ip ` set (visits n next) \<subseteq> set taken"
  by (induction n arbitrary: "next") (auto simp: Let_def list_ex_iff)

text \<open>The position of an address in the cycle 2, 3, \<dots>, 255, 2, \<dots>\<close>

lemma unat_bump: "unat (bump b) = 2 + (if unat b < 2 then 0 else (unat b - 1) mod 254)"
proof -
  have b: "unat b < 256" using unsigned_less [of b, where 'a = nat] by simp
  show ?thesis
  proof (cases "b = 255")
    case True
    then show ?thesis by (simp add: bump_def)
  next
    case False
    then have "unat b \<noteq> 255" by (simp add: word_unat_eq_iff)
    with b have lt: "unat b < 255" by simp
    then have suc: "unat (b + 1) = unat b + 1"
      by (simp add: unat_word_ariths)
    have less2: "(b + 1 < 2) = (unat b < 1)"
      by (simp add: word_less_nat_alt suc)
    show ?thesis using lt by (auto simp: bump_def Let_def less2 suc)
  qed
qed

lemma visits_nth:
  "k < n \<Longrightarrow> 2 \<le> unat b \<Longrightarrow> unat (visits n b ! k) = 2 + (unat b - 1 + k) mod 254"
proof (induction n arbitrary: b k)
  case 0
  then show ?case by simp
next
  case (Suc n)
  have bb: "unat (bump b) = 2 + (unat b - 1) mod 254" using Suc.prems by (simp add: unat_bump)
  show ?case
  proof (cases k)
    case 0
    then show ?thesis using bb by simp
  next
    case (Suc j)
    have "unat (visits n (bump b) ! j) = 2 + (unat (bump b) - 1 + j) mod 254"
      using Suc Suc.prems bb by (intro Suc.IH) simp_all
    also have "\<dots> = 2 + (unat b - 1 + k) mod 254"
    proof -
      have "unat (bump b) - 1 + j = (unat b - 1) mod 254 + Suc j" using bb by simp
      then show ?thesis using Suc by (simp only: mod_add_left_eq)
    qed
    finally show ?thesis using Suc by simp
  qed
qed

lemma visits_small: "unat b < 2 \<Longrightarrow> visits n b = visits n 255"
proof (cases n)
  case (Suc m)
  assume "unat b < 2"
  then have "bump b = bump 255" by (simp add: word_unat_eq_iff unat_bump)
  with Suc show ?thesis by simp
qed simp

lemma mod_cycle_inj:
  assumes "(c + i) mod m = (c + j) mod m" "i < m" "j < m"
  shows "i = (j :: nat)"
proof -
  have "(c mod m + i) mod m = (c mod m + j) mod m" using assms(1) by (simp add: mod_simps)
  moreover have "c mod m < m" using assms(2) by simp
  ultimately show ?thesis using assms(2,3)
    by (cases "c mod m + i < m"; cases "c mod m + j < m") (auto simp: le_mod_geq)
qed

lemma distinct_visits: "n \<le> 254 \<Longrightarrow> distinct (visits n b)"
proof -
  assume n: "n \<le> 254"
  have big: "distinct (visits n c)" if "2 \<le> unat c" for c
    unfolding distinct_conv_nth
  proof (intro allI impI notI)
    fix i j
    assume ij: "i < length (visits n c)" "j < length (visits n c)" "i \<noteq> j" "visits n c ! i = visits n c ! j"
    then have "(unat c - 1 + i) mod 254 = (unat c - 1 + j) mod 254"
      using that by (metis visits_nth add_left_cancel length_visits)
    moreover have "i < 254" "j < 254" using ij n by simp_all
    ultimately have "i = j" by (rule mod_cycle_inj)
    with ij show False by simp
  qed
  show ?thesis
  proof (cases "unat b < 2")
    case True
    then show ?thesis using big [of 255] visits_small by simp
  next
    case False
    then show ?thesis using big by simp
  qed
qed

section \<open>The allocator\<close>

definition in_pool :: "string \<Rightarrow> bool" where
  "in_pool ip \<longleftrightarrow> (\<exists>b. ip = pool_ip b \<and> 2 \<le> unat b)"

lemma visits_pool: "b' \<in> set (visits n b) \<Longrightarrow> 2 \<le> unat b'"
  by (induction n arbitrary: b) (auto simp: unat_bump)

lemma alloc_fresh:
  "fst (alloc True taken next) \<noteq> [] \<Longrightarrow> fst (alloc True taken next) \<notin> set taken \<and> in_pool (fst (alloc True taken next))"
  using alloc_loop_fresh [of 250 taken "next"] visits_pool by (auto simp: alloc_def in_pool_def)

lemma alloc_succeeds:
  assumes "card {ip \<in> set taken. in_pool ip} < 250"
  shows "fst (alloc True taken next) \<noteq> []"
proof
  assume "fst (alloc True taken next) = []"
  then have sub: "pool_ip ` set (visits 250 next) \<subseteq> {ip \<in> set taken. in_pool ip}"
    using visits_pool by (auto simp: alloc_def alloc_loop_empty in_pool_def)
  have "card (pool_ip ` set (visits 250 next)) = card (set (visits 250 next))"
    by (rule card_image) (simp add: inj_on_def pool_ip_inj)
  also have "\<dots> = 250" by (simp add: distinct_card distinct_visits)
  finally have "250 \<le> card {ip \<in> set taken. in_pool ip}"
    using card_mono [OF _ sub] by simp
  with assms show False by simp
qed

text \<open>
  The loop tries 250 addresses, the pool has 254: with the 250 that follow \<open>next\<close> in use the
  allocator reports an exhausted pool although addresses are free.
\<close>

lemma alloc_gives_up:
  "\<exists>taken ip. length taken = 250 \<and> fst (alloc True taken 1) = [] \<and> in_pool ip \<and> ip \<notin> set taken"
proof (intro exI conjI)
  let ?taken = "map pool_ip (visits 250 1)"
  show "length ?taken = 250" by simp
  show "fst (alloc True ?taken 1) = []" by (simp add: alloc_def alloc_loop_empty)
  show "in_pool (pool_ip 252)" by (auto simp: in_pool_def)
  show "pool_ip 252 \<notin> set ?taken"
  proof
    assume "pool_ip 252 \<in> set ?taken"
    then have "252 \<in> set (visits 250 1)" by (auto simp: pool_ip_inj)
    then have "252 \<in> set (visits 250 255)" by (simp add: visits_small [of 1])
    then obtain k where k: "k < 250" "visits 250 255 ! k = 252" by (auto simp: in_set_conv_nth)
    then have "unat (252 :: 8 word) = 2 + (254 + k) mod 254" using visits_nth [of k 250 255] by simp
    with k show False by simp
  qed
qed

section \<open>Posting a service\<close>

lemma post_service:
  assumes drv: "env_drv ev = no_faults" and ok: "store_ok (srv_st sv)" and post: "req_method req = ''POST''"
    and body: "Decode dec_Service zero_Service (req_body req) = Some svc"
    and named: "md_name (svc_metadata svc) \<noteq> []" and ports: "svcspec_ports (svc_spec svc) \<noteq> []"
    and fresh: "GetService no_faults (srv_st sv) (md_name (svc_metadata svc)) = Inl ErrNotFound"
    and no_ip: "svcspec_clusterIP (svc_spec svc) = []"
    and used: "ListClusterIPs no_faults (srv_st sv) = Inr taken"
    and room: "cfg_loop cfg \<Longrightarrow> card {ip \<in> set taken. in_pool ip} < 250"
    and run: "handleServices cfg ev req sv = (r, sv')"
  shows "resp_code r = 201 \<and> (\<exists>s. GetService no_faults (srv_st sv') (md_name (svc_metadata svc)) = Inr s \<and>
      (if cfg_loop cfg then in_pool (svcspec_clusterIP (svc_spec s)) \<and> svcspec_clusterIP (svc_spec s) \<notin> set taken
       else svcspec_clusterIP (svc_spec s) = ''127.0.0.1''))"
proof -
  define ip where "ip = fst (alloc (cfg_loop cfg) taken (srv_next sv))"
  define sv1 where "sv1 = sv\<lparr>srv_next := snd (alloc (cfg_loop cfg) taken (srv_next sv))\<rparr>"
  have ip: "ip \<noteq> []"
  proof (cases "cfg_loop cfg")
    case True
    with alloc_succeeds [OF room [OF True]] show ?thesis by (simp add: ip_def)
  next
    case False
    then show ?thesis by (simp add: ip_def alloc_def)
  qed
  have ip_ok: "if cfg_loop cfg then in_pool ip \<and> ip \<notin> set taken else ip = ''127.0.0.1''"
    using ip alloc_fresh by (auto simp: ip_def alloc_def [of False])
  define x where "x = (let svc = (if svcspec_type (svc_spec svc) = []
      then svc\<lparr>svc_spec := (svc_spec svc)\<lparr>svcspec_type := ServiceTypeClusterIP\<rparr>\<rparr> else svc) in
      svc\<lparr>svc_apiVersion := ''v1'', svc_kind := ''Service'', svc_spec := (svc_spec svc)\<lparr>svcspec_clusterIP := ip\<rparr>\<rparr>)"
  from Decode_Some [OF body] obtain j where "svc = fst (dec_Service j zero_Service)" ..
  then have wf: "wf_Service x" using dec_Service_wf [OF zero_Service_wf, of j] by (simp add: x_def Let_def)
  have name: "md_name (svc_metadata x) = md_name (svc_metadata svc)" by (simp add: x_def Let_def)
  obtain s' where put: "UpsertService no_faults (env_now ev) x (srv_st sv) = Inr s'"
    and get: "\<And>k. GetService no_faults s' k = (if k = svc_key x
        then Inr (stored_svc (env_now ev) (old_of (GetService no_faults (srv_st sv) k)) x)
        else GetService no_faults (srv_st sv) k)"
    using svc_store.put_total [OF store_ok_svc_table [OF ok] wf] by blast
  have "choose_clusterIP cfg ev y sv = (Some ip, sv1)"
    if "md_name (svc_metadata y) = md_name (svc_metadata svc)" "svcspec_clusterIP (svc_spec y) = []" for y
    using that drv fresh used ip
    by (auto simp: choose_clusterIP_def ip_def sv1_def Let_def split: prod.split)
  then have "handleServices cfg ev req sv = store_then (UpsertService no_faults (env_now ev) x (srv_st sv)) sv1
      (\<lambda>sv. writeJSON 201 (read_back enc_Service
        (GetService no_faults (srv_st sv) (md_name (svc_metadata svc)))) sv)"
    using post body named ports no_ip drv
    by (auto simp: handleServices_def with_body_def x_def Let_def sv1_def)
  with run put have "resp_code r = 201" "srv_st sv' = s'"
    by (auto simp: store_then_def writeJSON_def)
  with get [of "svc_key x"] fresh name ip_ok show ?thesis
    by (simp add: svc_key_def stored_svc_def x_def Let_def)
qed

end
