(* ===== verification/Urls.thy ===== *)
theory Urls
  imports Json
begin

text \<open>
  What the clients rely on of net/url and net/http: \<open>http.NewRequest\<close> parses the URL it is given (the
  base URL is taken to be well formed, so only the text behind it matters), and the server reads the path
  and the query of the request line. Object names are pasted into URLs unescaped, so a name can make the
  URL invalid or move the request elsewhere. The server's view of the path is the decoded one; the mux of
  the library also looks at the encoded form, which differs only where a name writes a slash or a dot
  as an escape.
\<close>

definition ctl_byte :: "char \<Rightarrow> bool" where
  "ctl_byte c \<longleftrightarrow> (of_char c :: nat) < 32 \<or> (of_char c :: nat) = 127"

definition hex_value :: "char \<Rightarrow> nat option" where
  "hex_value c = (let n = (of_char c :: nat) in
     if 48 \<le> n \<and> n \<le> 57 then Some (n - 48)
     else if 97 \<le> n \<and> n \<le> 102 then Some (n - 87)
     else if 65 \<le> n \<and> n \<le> 70 then Some (n - 55) else None)"

text \<open>\<open>url.unescape\<close>, of a query component (where a plus sign is a space) or of a path or fragment.\<close>

fun unescape :: "bool \<Rightarrow> string \<Rightarrow> string option" where
  "unescape query [] = Some []"
| "unescape query (c # s) =
    (if c = CHR ''%'' then
       (case s of
          a # b # rest \<Rightarrow>
           (case hex_value a of None \<Rightarrow> None
            | Some x \<Rightarrow> (case hex_value b of None \<Rightarrow> None
               | Some y \<Rightarrow> map_option (\<lambda>t. char_of (16 * x + y) # t) (unescape query rest)))
        | _ \<Rightarrow> None)
     else map_option (\<lambda>t. (if query \<and> c = CHR ''+'' then CHR '' '' else c) # t) (unescape query s))"

text \<open>\<open>strings.Cut\<close> at a byte.\<close>

definition cut_at :: "char \<Rightarrow> string \<Rightarrow> string \<times> string" where
  "cut_at c s = (takeWhile (\<lambda>x. x \<noteq> c) s, drop 1 (dropWhile (\<lambda>x. x \<noteq> c) s))"

text \<open>\<open>url.Query\<close>: pairs that do not parse are dropped.\<close>

definition query_pair :: "string \<Rightarrow> (string \<times> string) list" where
  "query_pair piece =
    (if piece = [] \<or> CHR '';'' \<in> set piece then []
     else let (k, v) = cut_at (CHR ''='') piece in
       (case unescape True k of None \<Rightarrow> []
        | Some k \<Rightarrow> (case unescape True v of None \<Rightarrow> [] | Some v \<Rightarrow> [(k, v)])))"

definition query_pairs :: "string \<Rightarrow> (string \<times> string) list" where
  "query_pairs q = concat (map query_pair (Split q (CHR ''&'')))"

text \<open>
  The fate of a request: \<open>NewRequest\<close> returns an error (and a nil request), the server answers 400 to
  the malformed request line without calling a handler (a space in the raw query), or the path and the
  query reach the handlers.
\<close>

datatype target = BadUrl | BadLine | Target string "(string \<times> string) list"

definition parse_target :: "string \<Rightarrow> target" where
  "parse_target s =
    (let (u, frag) = cut_at (CHR ''#'') s; (p, q) = cut_at (CHR ''?'') u in
     if list_ex ctl_byte u then BadUrl
     else (case unescape False p of None \<Rightarrow> BadUrl
       | Some path \<Rightarrow> (case unescape False frag of None \<Rightarrow> BadUrl
          | Some _ \<Rightarrow> (if CHR '' '' \<in> set q then BadLine else Target path (query_pairs q)))))"

section \<open>Texts that are taken as they are\<close>

definition url_char :: "char \<Rightarrow> bool" where
  "url_char c \<longleftrightarrow> \<not> ctl_byte c \<and> c \<noteq> CHR ''%'' \<and> c \<noteq> CHR ''?'' \<and> c \<noteq> CHR ''#''"

definition url_safe :: "string \<Rightarrow> bool" where
  "url_safe s \<longleftrightarrow> list_all url_char s"

lemma url_safe_simps [simp]: "url_safe []" "url_safe (c # s) \<longleftrightarrow> url_char c \<and> url_safe s"
  "url_safe (s @ t) \<longleftrightarrow> url_safe s \<and> url_safe t"
  by (simp_all add: url_safe_def)

lemma url_char_Char [simp]: "url_char (Char b0 b1 b2 b3 b4 b5 b6 b7) \<longleftrightarrow>
    \<not> (let n = (of_char (Char b0 b1 b2 b3 b4 b5 b6 b7) :: nat) in n < 32 \<or> n = 127 \<or> n = 37 \<or> n = 63 \<or> n = 35)"
proof -
  have eq: "c = d \<longleftrightarrow> (of_char c :: nat) = of_char d" for c d :: char by simp
  have "(of_char (CHR ''%'') :: nat) = 37" "(of_char (CHR ''?'') :: nat) = 63" "(of_char (CHR ''#'') :: nat) = 35" by simp_all
  then show ?thesis unfolding url_char_def ctl_byte_def Let_def eq by auto
qed

lemma cut_at_absent: "c \<notin> set s \<Longrightarrow> cut_at c s = (s, [])"
proof -
  assume "c \<notin> set s"
  then have "dropWhile (\<lambda>x. x \<noteq> c) s = []" "takeWhile (\<lambda>x. x \<noteq> c) s = s"
    by (auto simp: dropWhile_eq_Nil_conv takeWhile_eq_all_conv)
  then show ?thesis by (simp only: cut_at_def drop_Nil)
qed

lemma cut_at_present: "c \<notin> set s \<Longrightarrow> cut_at c (s @ c # t) = (s, t)"
  by (auto simp: cut_at_def takeWhile_tail dropWhile_append)

lemma unescape_safe: "list_all url_char s \<Longrightarrow> unescape False s = Some s"
  by (induction s) (auto simp: url_char_def)

lemma url_safe_chars: "url_safe s \<Longrightarrow> CHR ''#'' \<notin> set s \<and> CHR ''?'' \<notin> set s \<and> \<not> list_ex ctl_byte s"
  by (auto simp: url_safe_def list_all_iff list_ex_iff url_char_def)

lemma query_pairs_empty [simp]: "query_pairs [] = []"
  by (simp add: query_pairs_def query_pair_def)

lemma parse_target_safe: "url_safe s \<Longrightarrow> parse_target s = Target s []"
  using url_safe_chars [of s] unescape_safe [of s]
  by (simp add: parse_target_def cut_at_absent url_safe_def)

text \<open>A query of one pair whose value needs no escaping.\<close>

definition query_safe :: "string \<Rightarrow> bool" where
  "query_safe v \<longleftrightarrow> url_safe v \<and> CHR '' '' \<notin> set v \<and> CHR ''&'' \<notin> set v \<and> CHR '';'' \<notin> set v \<and> CHR ''+'' \<notin> set v"

lemma unescape_query_safe: "list_all url_char s \<Longrightarrow> CHR ''+'' \<notin> set s \<Longrightarrow> unescape True s = Some s"
  by (induction s) (auto simp: url_char_def)

lemma parse_target_pair:
  assumes "url_safe p" "query_safe k" "k \<noteq> []" "CHR ''='' \<notin> set k" "query_safe v"
  shows "parse_target (p @ ''?'' @ k @ ''='' @ v) = Target p [(k, v)]"
proof -
  note k = assms(2)[unfolded query_safe_def] and v = assms(5)[unfolded query_safe_def]
  have chars: "CHR ''#'' \<notin> set s" "CHR ''?'' \<notin> set s" "\<not> list_ex ctl_byte s" if "url_safe s" for s
    using url_safe_chars [OF that] by auto
  have "\<not> ctl_byte (CHR ''?'')" "\<not> ctl_byte (CHR ''='')" by (simp_all add: ctl_byte_def)
  moreover have "query_pairs (k @ CHR ''='' # v) = [(k, v)]"
    using k v assms(3) unescape_query_safe [of k] unescape_query_safe [of v]
    by (simp add: query_pairs_def Split_no_sep query_pair_def cut_at_present [OF assms(4)] url_safe_def)
  ultimately show ?thesis
    using chars [OF assms(1)] chars [of k] chars [of v] k v unescape_safe [of p] assms(1)
    by (simp add: parse_target_def cut_at_absent cut_at_present url_safe_def)
qed

text \<open>A percent sign that is not followed by two hexadecimal digits makes the URL invalid.\<close>

lemma unescape_bad: "CHR ''%'' \<notin> set s \<Longrightarrow> hex_value a = None \<Longrightarrow> unescape q (s @ CHR ''%'' # a # t) = None"
  by (induction s) (auto split: list.splits)

end
