(* ===== verification/Client.thy ===== *)
theory Client
  imports Cluster_IP Urls
begin

text \<open>
  internal/client: the REST client of the controllers and tools. \<open>http.Client.Do\<close> is a transport:
  a request against a world \<open>'w\<close> gives a response or a transport error, and the new world. Object
  names go into the URL unescaped, so each path is parsed as \<open>http.NewRequest\<close> does; a
  \<open>null\<close> among the items of a list, which the API server never sends, is read as a zero object.
\<close>

type_synonym 'w transport = "request \<Rightarrow> 'w \<Rightarrow> (string + response) \<times> 'w"

record 'w Client =
  cli_HTTP :: "'w transport"
  cli_Token :: string

datatype client_error =
    DoFailed string
  | StatusError string string int
  | DecodeFailed

type_synonym ('a, 'w) client_call = "'w \<Rightarrow> (client_error + 'a) \<times> 'w"

definition New :: "'w transport \<Rightarrow> 'w Client" where
  "New T = \<lparr>cli_HTTP = T, cli_Token = []\<rparr>"

definition NewWithToken :: "'w transport \<Rightarrow> string \<Rightarrow> 'w Client" where
  "NewWithToken T token = \<lparr>cli_HTTP = T, cli_Token = token\<rparr>"

text \<open>The common part of \<open>do\<close>: the answer's payload, or the error. No body is the empty text.\<close>

definition do_http :: "'w Client \<Rightarrow> string \<Rightarrow> string \<Rightarrow> json option \<Rightarrow> (payload, 'w) client_call" where
  "do_http c method path body w =
    (case parse_target path of
       BadUrl \<Rightarrow> (Inl (DoFailed ''parse''), w)
     | BadLine \<Rightarrow> (Inl (StatusError method path 400), w)
     | Target p q \<Rightarrow>
        (let req = \<lparr>req_method = method, req_path = p, req_query = q,
                    req_auth = (if cli_Token c \<noteq> [] then ''Bearer '' @ cli_Token c else []),
                    req_body = (case body of None \<Rightarrow> Malformed | Some j \<Rightarrow> Doc j)\<rparr> in
         case cli_HTTP c req w of
           (Inl e, w) \<Rightarrow> (Inl (DoFailed e), w)
         | (Inr resp, w) \<Rightarrow>
            (if resp_code resp \<ge> 300 then (Inl (StatusError method path (resp_code resp)), w)
             else (Inr (resp_body resp), w))))"

lemma do_http_safe: "url_safe path \<Longrightarrow> do_http c method path body w =
    (let req = \<lparr>req_method = method, req_path = path, req_query = [],
                req_auth = (if cli_Token c \<noteq> [] then ''Bearer '' @ cli_Token c else []),
                req_body = (case body of None \<Rightarrow> Malformed | Some j \<Rightarrow> Doc j)\<rparr> in
     case cli_HTTP c req w of
       (Inl e, w) \<Rightarrow> (Inl (DoFailed e), w)
     | (Inr resp, w) \<Rightarrow>
        (if resp_code resp \<ge> 300 then (Inl (StatusError method path (resp_code resp)), w)
         else (Inr (resp_body resp), w)))"
  by (simp add: do_http_def parse_target_safe)

definition decode_payload :: "'a dec \<Rightarrow> 'a \<Rightarrow> payload \<Rightarrow> client_error + 'a" where
  "decode_payload d z p =
    (case p of JsonBody j \<Rightarrow> (let (x, ok) = d j z in if ok then Inr x else Inl DecodeFailed)
     | _ \<Rightarrow> Inl DecodeFailed)"

text \<open>\<open>do\<close> with a destination, and with a nil one.\<close>

definition do_out :: "'w Client \<Rightarrow> string \<Rightarrow> string \<Rightarrow> json option \<Rightarrow> 'a dec \<Rightarrow> 'a \<Rightarrow> ('a, 'w) client_call" where
  "do_out c method path body d z w =
    (case do_http c method path body w of
       (Inl e, w) \<Rightarrow> (Inl e, w) | (Inr p, w) \<Rightarrow> (decode_payload d z p, w))"

definition do_nil :: "'w Client \<Rightarrow> string \<Rightarrow> string \<Rightarrow> json option \<Rightarrow> (unit, 'w) client_call" where
  "do_nil c method path body w =
    (case do_http c method path body w of (Inl e, w) \<Rightarrow> (Inl e, w) | (Inr _, w) \<Rightarrow> (Inr (), w))"

text \<open>The anonymous struct \<open>{Items []*T}\<close>.\<close>

definition dec_items :: "'a dec \<Rightarrow> 'a \<Rightarrow> 'a list dec" where
  "dec_items d z = dec_struct [(''items'', fld (dec_list d z) (\<lambda>xs. xs) (\<lambda>v xs. v))]"

definition client_ListPods :: "'w Client \<Rightarrow> (Pod list, 'w) client_call" where
  "client_ListPods c = do_out c ''GET'' ''/api/v1/pods'' None (dec_items dec_Pod zero_Pod) []"

definition client_CreatePod :: "'w Client \<Rightarrow> Pod \<Rightarrow> (Pod, 'w) client_call" where
  "client_CreatePod c x = do_out c ''POST'' ''/api/v1/pods'' (Some (enc_Pod x)) dec_Pod zero_Pod"

definition client_DeletePod :: "'w Client \<Rightarrow> string \<Rightarrow> (unit, 'w) client_call" where
  "client_DeletePod c name = do_nil c ''DELETE'' (''/api/v1/pods/'' @ name) None"

definition client_ListReplicaSets :: "'w Client \<Rightarrow> (ReplicaSet list, 'w) client_call" where
  "client_ListReplicaSets c = do_out c ''GET'' ''/apis/apps/v1/replicasets'' None (dec_items dec_ReplicaSet zero_ReplicaSet) []"

definition client_GetReplicaSet :: "'w Client \<Rightarrow> string \<Rightarrow> (ReplicaSet, 'w) client_call" where
  "client_GetReplicaSet c name = do_out c ''GET'' (''/apis/apps/v1/replicasets/'' @ name) None dec_ReplicaSet zero_ReplicaSet"

definition client_CreateReplicaSet :: "'w Client \<Rightarrow> ReplicaSet \<Rightarrow> (ReplicaSet, 'w) client_call" where
  "client_CreateReplicaSet c x = do_out c ''POST'' ''/apis/apps/v1/replicasets'' (Some (enc_ReplicaSet x)) dec_ReplicaSet zero_ReplicaSet"

definition client_UpdateReplicaSetStatus :: "'w Client \<Rightarrow> string \<Rightarrow> ReplicaSetStatus \<Rightarrow> (unit, 'w) client_call" where
  "client_UpdateReplicaSetStatus c name s = do_nil c ''PUT'' (''/apis/apps/v1/replicasets/'' @ name @ ''/status'') (Some (enc_ReplicaSetStatus s))"

definition client_DeleteReplicaSet :: "'w Client \<Rightarrow> string \<Rightarrow> (unit, 'w) client_call" where
  "client_DeleteReplicaSet c name = do_nil c ''DELETE'' (''/apis/apps/v1/replicasets/'' @ name) None"

definition client_ListDeployments :: "'w Client \<Rightarrow> (Deployment list, 'w) client_call" where
  "client_ListDeployments c = do_out c ''GET'' ''/apis/apps/v1/deployments'' None (dec_items dec_Deployment zero_Deployment) []"

definition client_CreateDeployment :: "'w Client \<Rightarrow> Deployment \<Rightarrow> (Deployment, 'w) client_call" where
  "client_CreateDeployment c x = do_out c ''POST'' ''/apis/apps/v1/deployments'' (Some (enc_Deployment x)) dec_Deployment zero_Deployment"

definition client_UpdateDeploymentStatus :: "'w Client \<Rightarrow> string \<Rightarrow> DeploymentStatus \<Rightarrow> (unit, 'w) client_call" where
  "client_UpdateDeploymentStatus c name s = do_nil c ''PUT'' (''/apis/apps/v1/deployments/'' @ name @ ''/status'') (Some (enc_DeploymentStatus s))"

definition client_DeleteDeployment :: "'w Client \<Rightarrow> string \<Rightarrow> (unit, 'w) client_call" where
  "client_DeleteDeployment c name = do_nil c ''DELETE'' (''/apis/apps/v1/deployments/'' @ name) None"

definition client_GetDeployment :: "'w Client \<Rightarrow> string \<Rightarrow> (Deployment, 'w) client_call" where
  "client_GetDeployment c name = do_out c ''GET'' (''/apis/apps/v1/deployments/'' @ name) None dec_Deployment zero_Deployment"

definition client_ListServices :: "'w Client \<Rightarrow> (Service list, 'w) client_call" where
  "client_ListServices c = do_out c ''GET'' ''/api/v1/services'' None (dec_items dec_Service zero_Service) []"

definition client_GetService :: "'w Client \<Rightarrow> string \<Rightarrow> (Service, 'w) client_call" where
  "client_GetService c name = do_out c ''GET'' (''/api/v1/services/'' @ name) None dec_Service zero_Service"

definition client_CreateService :: "'w Client \<Rightarrow> Service \<Rightarrow> (Service, 'w) client_call" where
  "client_CreateService c x = do_out c ''POST'' ''/api/v1/services'' (Some (enc_Service x)) dec_Service zero_Service"

definition client_DeleteService :: "'w Client \<Rightarrow> string \<Rightarrow> (unit, 'w) client_call" where
  "client_DeleteService c name = do_nil c ''DELETE'' (''/api/v1/services/'' @ name) None"

definition client_ListEndpoints :: "'w Client \<Rightarrow> (Endpoints list, 'w) client_call" where
  "client_ListEndpoints c = do_out c ''GET'' ''/api/v1/endpoints'' None (dec_items dec_Endpoints zero_Endpoints) []"

definition client_GetEndpoints :: "'w Client \<Rightarrow> string \<Rightarrow> (Endpoints, 'w) client_call" where
  "client_GetEndpoints c name = do_out c ''GET'' (''/api/v1/endpoints/'' @ name) None dec_Endpoints zero_Endpoints"

definition client_UpsertEndpoints :: "'w Client \<Rightarrow> Endpoints \<Rightarrow> (unit, 'w) client_call" where
  "client_UpsertEndpoints c x = do_nil c ''POST'' ''/api/v1/endpoints'' (Some (enc_Endpoints x))"

definition client_ListNodes :: "'w Client \<Rightarrow> (Node list, 'w) client_call" where
  "client_ListNodes c = do_out c ''GET'' ''/api/v1/nodes'' None (dec_items dec_Node zero_Node) []"

definition client_RegisterNode :: "'w Client \<Rightarrow> Node \<Rightarrow> (Node, 'w) client_call" where
  "client_RegisterNode c x = do_out c ''POST'' ''/api/v1/nodes'' (Some (enc_Node x)) dec_Node zero_Node"

definition client_DeleteNode :: "'w Client \<Rightarrow> string \<Rightarrow> (unit, 'w) client_call" where
  "client_DeleteNode c name = do_nil c ''DELETE'' (''/api/v1/nodes/'' @ name) None"

definition client_ListCRDs :: "'w Client \<Rightarrow> (CRD list, 'w) client_call" where
  "client_ListCRDs c = do_out c ''GET'' ''/apis/mk.io/v1/customresourcedefinitions'' None (dec_items dec_CRD zero_CRD) []"

definition client_GetCRD :: "'w Client \<Rightarrow> string \<Rightarrow> (CRD, 'w) client_call" where
  "client_GetCRD c name = do_out c ''GET'' (''/apis/mk.io/v1/customresourcedefinitions/'' @ name) None dec_CRD zero_CRD"

definition client_CreateCRD :: "'w Client \<Rightarrow> CRD \<Rightarrow> (CRD, 'w) client_call" where
  "client_CreateCRD c x = do_out c ''POST'' ''/apis/mk.io/v1/customresourcedefinitions'' (Some (enc_CRD x)) dec_CRD zero_CRD"

definition client_DeleteCRD :: "'w Client \<Rightarrow> string \<Rightarrow> (unit, 'w) client_call" where
  "client_DeleteCRD c name = do_nil c ''DELETE'' (''/apis/mk.io/v1/customresourcedefinitions/'' @ name) None"

definition client_ListCustomResources :: "'w Client \<Rightarrow> string \<Rightarrow> (CustomResource list, 'w) client_call" where
  "client_ListCustomResources c crdName w =
    (case client_GetCRD c crdName w of
       (Inl e, w) \<Rightarrow> (Inl e, w)
     | (Inr crd, w) \<Rightarrow>
        do_out c ''GET'' (''/apis/'' @ crdspec_group (crd_spec crd) @ ''/'' @ crdspec_version (crd_spec crd) @ ''/'' @
            cn_plural (crdspec_names (crd_spec crd))) None
          (dec_items dec_CustomResource zero_CustomResource) [] w)"

definition client_CreateCustomResource :: "'w Client \<Rightarrow> string \<Rightarrow> string \<Rightarrow> string \<Rightarrow> CustomResource \<Rightarrow> (CustomResource, 'w) client_call" where
  "client_CreateCustomResource c grp version plural x =
     do_out c ''POST'' (''/apis/'' @ grp @ ''/'' @ version @ ''/'' @ plural) (Some (enc_CustomResource x))
       dec_CustomResource zero_CustomResource"

definition client_DeleteCustomResource :: "'w Client \<Rightarrow> string \<Rightarrow> string \<Rightarrow> string \<Rightarrow> string \<Rightarrow> (unit, 'w) client_call" where
  "client_DeleteCustomResource c grp version plural name =
     do_nil c ''DELETE'' (''/apis/'' @ grp @ ''/'' @ version @ ''/'' @ plural @ ''/'' @ name) None"

definition client_CreateUser :: "'w Client \<Rightarrow> User \<Rightarrow> (unit, 'w) client_call" where
  "client_CreateUser c x = do_nil c ''POST'' ''/apis/rbac.mk.io/v1/users'' (Some (enc_User x))"

definition client_ListUsers :: "'w Client \<Rightarrow> (User list, 'w) client_call" where
  "client_ListUsers c = do_out c ''GET'' ''/apis/rbac.mk.io/v1/users'' None (dec_items dec_User zero_User) []"

definition client_CreateRole :: "'w Client \<Rightarrow> Role \<Rightarrow> (unit, 'w) client_call" where
  "client_CreateRole c x = do_nil c ''POST'' ''/apis/rbac.mk.io/v1/roles'' (Some (enc_Role x))"

definition client_CreateClusterRole :: "'w Client \<Rightarrow> Role \<Rightarrow> (unit, 'w) client_call" where
  "client_CreateClusterRole c x = do_nil c ''POST'' ''/apis/rbac.mk.io/v1/clusterroles'' (Some (enc_Role x))"

definition client_CreateRoleBinding :: "'w Client \<Rightarrow> RoleBinding \<Rightarrow> (unit, 'w) client_call" where
  "client_CreateRoleBinding c x = do_nil c ''POST'' ''/apis/rbac.mk.io/v1/rolebindings'' (Some (enc_RoleBinding x))"

definition client_CreateClusterRoleBinding :: "'w Client \<Rightarrow> RoleBinding \<Rightarrow> (unit, 'w) client_call" where
  "client_CreateClusterRoleBinding c x = do_nil c ''POST'' ''/apis/rbac.mk.io/v1/clusterrolebindings'' (Some (enc_RoleBinding x))"

definition client_CreateWebhook :: "'w Client \<Rightarrow> AdmissionWebhook \<Rightarrow> (unit, 'w) client_call" where
  "client_CreateWebhook c x = do_nil c ''POST'' ''/apis/admission.mk.io/v1/webhooks'' (Some (enc_AdmissionWebhook x))"

definition client_ListWebhooks :: "'w Client \<Rightarrow> (AdmissionWebhook list, 'w) client_call" where
  "client_ListWebhooks c = do_out c ''GET'' ''/apis/admission.mk.io/v1/webhooks'' None (dec_items dec_AdmissionWebhook zero_AdmissionWebhook) []"

definition client_DeleteWebhook :: "'w Client \<Rightarrow> string \<Rightarrow> (unit, 'w) client_call" where
  "client_DeleteWebhook c name = do_nil c ''DELETE'' (''/apis/admission.mk.io/v1/webhooks/'' @ name) None"

definition client_CreateHPA :: "'w Client \<Rightarrow> HPA \<Rightarrow> (HPA, 'w) client_call" where
  "client_CreateHPA c x = do_out c ''POST'' ''/apis/autoscaling.mk.io/v1/horizontalpodautoscalers'' (Some (enc_HPA x)) dec_HPA zero_HPA"

definition client_ListHPAs :: "'w Client \<Rightarrow> (HPA list, 'w) client_call" where
  "client_ListHPAs c = do_out c ''GET'' ''/apis/autoscaling.mk.io/v1/horizontalpodautoscalers'' None (dec_items dec_HPA zero_HPA) []"

definition client_GetHPA :: "'w Client \<Rightarrow> string \<Rightarrow> (HPA, 'w) client_call" where
  "client_GetHPA c name = do_out c ''GET'' (''/apis/autoscaling.mk.io/v1/horizontalpodautoscalers/'' @ name) None dec_HPA zero_HPA"

definition client_UpdateHPAStatus :: "'w Client \<Rightarrow> string \<Rightarrow> HPAStatus \<Rightarrow> (unit, 'w) client_call" where
  "client_UpdateHPAStatus c name s = do_nil c ''PUT'' (''/apis/autoscaling.mk.io/v1/horizontalpodautoscalers/'' @ name @ ''/status'') (Some (enc_HPAStatus s))"

definition client_DeleteHPA :: "'w Client \<Rightarrow> string \<Rightarrow> (unit, 'w) client_call" where
  "client_DeleteHPA c name = do_nil c ''DELETE'' (''/apis/autoscaling.mk.io/v1/horizontalpodautoscalers/'' @ name) None"

definition client_ListNetworkPolicies :: "'w Client \<Rightarrow> (NetworkPolicy list, 'w) client_call" where
  "client_ListNetworkPolicies c = do_out c ''GET'' ''/apis/networking.mk.io/v1/networkpolicies'' None (dec_items dec_NetworkPolicy zero_NetworkPolicy) []"

definition client_GetNetworkPolicy :: "'w Client \<Rightarrow> string \<Rightarrow> (NetworkPolicy, 'w) client_call" where
  "client_GetNetworkPolicy c name = do_out c ''GET'' (''/apis/networking.mk.io/v1/networkpolicies/'' @ name) None dec_NetworkPolicy zero_NetworkPolicy"

definition client_CreateNetworkPolicy :: "'w Client \<Rightarrow> NetworkPolicy \<Rightarrow> (NetworkPolicy, 'w) client_call" where
  "client_CreateNetworkPolicy c x = do_out c ''POST'' ''/apis/networking.mk.io/v1/networkpolicies'' (Some (enc_NetworkPolicy x)) dec_NetworkPolicy zero_NetworkPolicy"

definition client_DeleteNetworkPolicy :: "'w Client \<Rightarrow> string \<Rightarrow> (unit, 'w) client_call" where
  "client_DeleteNetworkPolicy c name = do_nil c ''DELETE'' (''/apis/networking.mk.io/v1/networkpolicies/'' @ name) None"

definition client_ListClusters :: "'w Client \<Rightarrow> (Cluster list, 'w) client_call" where
  "client_ListClusters c = do_out c ''GET'' ''/apis/federation.mk.io/v1/clusters'' None (dec_items dec_Cluster zero_Cluster) []"

definition client_CreateCluster :: "'w Client \<Rightarrow> Cluster \<Rightarrow> (Cluster, 'w) client_call" where
  "client_CreateCluster c x = do_out c ''POST'' ''/apis/federation.mk.io/v1/clusters'' (Some (enc_Cluster x)) dec_Cluster zero_Cluster"

definition client_UpdateClusterStatus :: "'w Client \<Rightarrow> string \<Rightarrow> ClusterStatus \<Rightarrow> (unit, 'w) client_call" where
  "client_UpdateClusterStatus c name s = do_nil c ''PUT'' (''/apis/federation.mk.io/v1/clusters/'' @ name @ ''/status'') (Some (enc_ClusterStatus s))"

definition client_DeleteCluster :: "'w Client \<Rightarrow> string \<Rightarrow> (unit, 'w) client_call" where
  "client_DeleteCluster c name = do_nil c ''DELETE'' (''/apis/federation.mk.io/v1/clusters/'' @ name) None"

definition client_ListFederatedDeployments :: "'w Client \<Rightarrow> (FederatedDeployment list, 'w) client_call" where
  "client_ListFederatedDeployments c = do_out c ''GET'' ''/apis/federation.mk.io/v1/federateddeployments'' None (dec_items dec_FederatedDeployment zero_FederatedDeployment) []"

definition client_CreateFederatedDeployment :: "'w Client \<Rightarrow> FederatedDeployment \<Rightarrow> (FederatedDeployment, 'w) client_call" where
  "client_CreateFederatedDeployment c x = do_out c ''POST'' ''/apis/federation.mk.io/v1/federateddeployments'' (Some (enc_FederatedDeployment x)) dec_FederatedDeployment zero_FederatedDeployment"

definition client_UpdateFederatedDeploymentStatus :: "'w Client \<Rightarrow> string \<Rightarrow> FederatedDeploymentStatus \<Rightarrow> (unit, 'w) client_call" where
  "client_UpdateFederatedDeploymentStatus c name s = do_nil c ''PUT'' (''/apis/federation.mk.io/v1/federateddeployments/'' @ name @ ''/status'') (Some (enc_FederatedDeploymentStatus s))"

definition client_DeleteFederatedDeployment :: "'w Client \<Rightarrow> string \<Rightarrow> (unit, 'w) client_call" where
  "client_DeleteFederatedDeployment c name = do_nil c ''DELETE'' (''/apis/federation.mk.io/v1/federateddeployments/'' @ name) None"

section \<open>Round robin over several API servers\<close>

text \<open>
  \<open>rrTransport.RoundTrip\<close>: the counter is a uint64 read as an int; Go's remainder takes the sign of
  the dividend, and a negative index panics (\<open>None\<close>). A base that does not parse is an error.
\<close>

definition rr_index :: "64 word \<Rightarrow> nat \<Rightarrow> int" where
  "rr_index n len = (let i = sint (n - 1) in if i \<ge> 0 then i mod int len else - ((- i) mod int len))"

definition RoundTrip :: "(string \<Rightarrow> 'w transport option) \<Rightarrow> string list \<Rightarrow> request \<Rightarrow> 64 word \<times> 'w
    \<Rightarrow> ((string + response) \<times> (64 word \<times> 'w)) option" where
  "RoundTrip parse bases req s =
    (let n = fst s + 1; i = rr_index n (length bases) in
     if i < 0 then None
     else (case parse (bases ! nat i) of
        None \<Rightarrow> Some (Inl ''parse error'', (n, snd s))
      | Some T \<Rightarrow> (let (r, w) = T req (snd s) in Some (r, (n, w)))))"

lemma rr_index_range: "0 < len \<Longrightarrow> 1 \<le> uint n \<Longrightarrow> uint n \<le> 2 ^ 63 \<Longrightarrow> rr_index n len = (uint n - 1) mod int len"
proof -
  assume len: "0 < len" and n: "1 \<le> uint n" "uint n \<le> 2 ^ 63"
  have "uint (n - 1) = uint n - 1" using n by (simp add: uint_word_ariths uint_lt2p mod_pos_pos_trivial)
  moreover have "sint (n - 1) = uint (n - 1)"
    unfolding sint_uint using n calculation by (simp add: signed_take_bit_int_eq_self)
  ultimately show ?thesis using n by (simp add: rr_index_def)
qed

section \<open>Calls on a transport\<close>

lemma dec_items_read:
  "dec_list d z j [] = (xs, True) \<Longrightarrow> dec_items d z (JObj [(''items'', j)]) [] = (xs, True)"
  by (simp add: dec_items_def dec_struct_def find_field_def fld_def)

end
