(* ===== verification/Controllers.thy ===== *)
theory Controllers
  imports Client "HOL-Library.Product_Lexorder"
begin

text \<open>
  internal/controllers: the replica set, deployment and service controllers. A controller works
  through a client on a world \<open>'w\<close>. \<open>rnd\<close> gives the random bytes of the i-th pod a replica set
  creates in one pass; a panic of the Go code is the result \<open>None\<close>.
\<close>

definition LabelReplicaSet :: string where "LabelReplicaSet = ''mk.replicaset''"
definition LabelDeployment :: string where "LabelDeployment = ''mk.deployment''"

section \<open>Replica sets\<close>

definition hex_digit :: "nat \<Rightarrow> char" where
  "hex_digit d = (if d < 10 then char_of (48 + d) else char_of (87 + d))"

definition hex_string :: "8 word list \<Rightarrow> string" where
  "hex_string bs = concat (map (\<lambda>b. [hex_digit (unat b div 16), hex_digit (unat b mod 16)]) bs)"

definition randSuffix :: "nat \<Rightarrow> 8 word list \<Rightarrow> string" where
  "randSuffix n bytes = take n (hex_string (take n bytes))"

definition ownedPods :: "string \<Rightarrow> Pod list \<Rightarrow> Pod list" where
  "ownedPods rsName pods =
     filter (\<lambda>p. md_labels (pod_metadata p) \<noteq> [] \<and> gget (md_labels (pod_metadata p)) LabelReplicaSet = rsName) pods"

definition buildPodFromTemplate :: "ReplicaSet \<Rightarrow> 8 word list \<Rightarrow> Pod" where
  "buildPodFromTemplate rs bytes =
    (let name = md_name (rs_metadata rs) @ ''-'' @ randSuffix 5 bytes;
         labels = gcopy [] (md_labels (tmpl_metadata (rsspec_template (rs_spec rs))));
         labels = fold (\<lambda>(k, v) m. if \<not> ghas m k then gset m k v else m) (md_labels (rs_metadata rs)) labels;
         labels = gset labels LabelReplicaSet (md_name (rs_metadata rs)) in
     zero_Pod\<lparr>pod_apiVersion := ''v1'', pod_kind := ''Pod'',
       pod_metadata := zero_Metadata\<lparr>md_name := name, md_namespace := md_namespace (rs_metadata rs), md_labels := labels\<rparr>,
       pod_spec := tmpl_spec (rsspec_template (rs_spec rs))\<rparr>)"

definition create_pods :: "'w Client \<Rightarrow> (nat \<Rightarrow> 8 word list) \<Rightarrow> ReplicaSet \<Rightarrow> nat \<Rightarrow> 'w \<Rightarrow> 'w" where
  "create_pods c rnd rs n w = fold (\<lambda>i w. snd (client_CreatePod c (buildPodFromTemplate rs (rnd i)) w)) [0..<n] w"

definition delete_pods :: "'w Client \<Rightarrow> Pod list \<Rightarrow> 'w \<Rightarrow> 'w" where
  "delete_pods c victims w = fold (\<lambda>p w. snd (client_DeletePod c (md_name (pod_metadata p)) w)) victims w"

definition alive_pods :: "Pod list \<Rightarrow> Pod list" where
  "alive_pods owned = filter (\<lambda>p. ps_phase (pod_status p) \<noteq> PhaseFailed) owned"

text \<open>\<open>alive[desired:]\<close> panics for a negative number of replicas.\<close>

definition rs_reconcileOne :: "'w Client \<Rightarrow> (nat \<Rightarrow> 8 word list) \<Rightarrow> ReplicaSet \<Rightarrow> Pod list \<Rightarrow> 'w \<Rightarrow> 'w option" where
  "rs_reconcileOne c rnd rs allPods w =
    (let owned = ownedPods (md_name (rs_metadata rs)) allPods;
         alive = alive_pods owned;
         desired = rsspec_replicas (rs_spec rs);
         actual = int (length alive);
         acted = (if actual < desired then Some (create_pods c rnd rs (nat (desired - actual)) w)
                  else if actual > desired then
                    (if desired < 0 then None else Some (delete_pods c (drop (nat desired) alive) w))
                  else Some w);
         ready = int (length (filter (\<lambda>p. ps_phase (pod_status p) = PhaseRunning) alive)) in
     map_option (\<lambda>w. snd (client_UpdateReplicaSetStatus c (md_name (rs_metadata rs))
       (zero_ReplicaSetStatus\<lparr>rsstatus_replicas := actual, rsstatus_readyReplicas := ready\<rparr>) w)) acted)"

fun rs_loop :: "'w Client \<Rightarrow> (string \<Rightarrow> nat \<Rightarrow> 8 word list) \<Rightarrow> Pod list \<Rightarrow> ReplicaSet list \<Rightarrow> 'w \<Rightarrow> 'w option" where
  "rs_loop c rnd pods [] w = Some w"
| "rs_loop c rnd pods (rs # rss) w =
    (case rs_reconcileOne c (rnd (md_name (rs_metadata rs))) rs pods w of
       None \<Rightarrow> None | Some w \<Rightarrow> rs_loop c rnd pods rss w)"

definition rs_reconcileAll :: "'w Client \<Rightarrow> (string \<Rightarrow> nat \<Rightarrow> 8 word list) \<Rightarrow> 'w \<Rightarrow> ((client_error + unit) \<times> 'w) option" where
  "rs_reconcileAll c rnd w =
    (case client_ListReplicaSets c w of
       (Inl e, w) \<Rightarrow> Some (Inl e, w)
     | (Inr rsList, w) \<Rightarrow>
        (case client_ListPods c w of
           (Inl e, w) \<Rightarrow> Some (Inl e, w)
         | (Inr pods, w) \<Rightarrow> map_option (\<lambda>w. (Inr (), w)) (rs_loop c rnd pods rsList w)))"

text \<open>\<open>Run\<close>; the random bytes differ from tick to tick.\<close>

definition rs_Run :: "'w Client \<Rightarrow> (nat \<Rightarrow> string \<Rightarrow> nat \<Rightarrow> 8 word list) \<Rightarrow> 'w loop_event list \<Rightarrow> 'w \<Rightarrow> 'w option" where
  "rs_Run c rnd = loop_run (\<lambda>i w. map_option snd (rs_reconcileAll c (rnd i) w)) 0"

section \<open>Deployments\<close>

definition replicaSet_of :: "Deployment \<Rightarrow> ReplicaSet" where
  "replicaSet_of d =
    (let labels = gset (gcopy [] (md_labels (dep_metadata d))) LabelDeployment (md_name (dep_metadata d));
         tmplLabels = gset (gcopy [] (md_labels (tmpl_metadata (depspec_template (dep_spec d))))) LabelDeployment
           (md_name (dep_metadata d)) in
     zero_ReplicaSet\<lparr>rs_apiVersion := ''apps/v1'', rs_kind := ''ReplicaSet'',
       rs_metadata := zero_Metadata\<lparr>md_name := md_name (dep_metadata d) @ ''-rs'',
         md_namespace := md_namespace (dep_metadata d), md_labels := labels\<rparr>,
       rs_spec := \<lparr>rsspec_replicas = depspec_replicas (dep_spec d), rsspec_selector = depspec_selector (dep_spec d),
         rsspec_template = \<lparr>tmpl_metadata = zero_Metadata\<lparr>md_labels := tmplLabels\<rparr>,
           tmpl_spec = tmpl_spec (depspec_template (dep_spec d))\<rparr>\<rparr>\<rparr>)"

definition propagate_status :: "'w Client \<Rightarrow> Deployment \<Rightarrow> 'w \<Rightarrow> 'w" where
  "propagate_status c d w =
    (case client_GetReplicaSet c (md_name (dep_metadata d) @ ''-rs'') w of
       (Inl _, w) \<Rightarrow> w
     | (Inr cur, w) \<Rightarrow> snd (client_UpdateDeploymentStatus c (md_name (dep_metadata d))
         (zero_DeploymentStatus\<lparr>depstatus_replicas := rsstatus_replicas (rs_status cur),
            depstatus_readyReplicas := rsstatus_readyReplicas (rs_status cur)\<rparr>) w))"

definition dep_reconcileOne :: "'w Client \<Rightarrow> Deployment \<Rightarrow> 'w \<Rightarrow> 'w" where
  "dep_reconcileOne c d w =
    (case client_GetReplicaSet c (md_name (dep_metadata d) @ ''-rs'') w of
       (Inl _, w) \<Rightarrow>
        (case client_CreateReplicaSet c (replicaSet_of d) w of
           (Inl _, w) \<Rightarrow> w | (Inr _, w) \<Rightarrow> propagate_status c d w)
     | (Inr existing, w) \<Rightarrow>
        (if rsspec_replicas (rs_spec existing) \<noteq> depspec_replicas (dep_spec d) then
           (case client_CreateReplicaSet c (replicaSet_of d) w of
              (Inl _, w) \<Rightarrow> w | (Inr _, w) \<Rightarrow> propagate_status c d w)
         else propagate_status c d w))"

definition dep_reconcileAll :: "'w Client \<Rightarrow> 'w \<Rightarrow> (client_error + unit) \<times> 'w" where
  "dep_reconcileAll c w =
    (case client_ListDeployments c w of
       (Inl e, w) \<Rightarrow> (Inl e, w) | (Inr deps, w) \<Rightarrow> (Inr (), fold (dep_reconcileOne c) deps w))"

definition dep_Run :: "'w Client \<Rightarrow> 'w loop_event list \<Rightarrow> 'w \<Rightarrow> 'w option" where
  "dep_Run c = loop_run (\<lambda>_ w. Some (snd (dep_reconcileAll c w))) 0"

section \<open>Services\<close>

definition selectorMatches :: "strmap \<Rightarrow> strmap \<Rightarrow> bool" where
  "selectorMatches sel labels \<longleftrightarrow> (if length sel = 0 then False else list_all (\<lambda>(k, v). gget labels k = v) sel)"

definition targetPort_of :: "Service \<Rightarrow> int" where
  "targetPort_of svc =
    (case svcspec_ports (svc_spec svc) of [] \<Rightarrow> 0
     | p # _ \<Rightarrow> if sp_targetPort p = 0 then sp_port p else sp_targetPort p)"

definition endpoint_of :: "Service \<Rightarrow> Pod \<Rightarrow> EndpointAddress option" where
  "endpoint_of svc p =
    (if ps_phase (pod_status p) \<noteq> PhaseRunning then None
     else if \<not> selectorMatches (svcspec_selector (svc_spec svc)) (md_labels (pod_metadata p)) then None
     else
       (let ip = ps_podIP (pod_status p);
            port = (if ps_hostPort (pod_status p) = 0 then targetPort_of svc else ps_hostPort (pod_status p)) in
        if ip = [] \<or> port = 0 then None
        else Some \<lparr>ea_IP = ip, ea_port = port, ea_nodeName = ps_nodeName (pod_status p),
                   ea_podName = md_name (pod_metadata p)\<rparr>))"

text \<open>The comparison of \<open>sort.Slice\<close>; the model keeps the order of equal keys, Go leaves it open.\<close>

definition endpoint_key :: "EndpointAddress \<Rightarrow> string \<times> int" where
  "endpoint_key a = (ea_IP a, ea_port a)"

definition endpoints_of :: "Service \<Rightarrow> Pod list \<Rightarrow> Endpoints" where
  "endpoints_of svc pods =
    zero_Endpoints\<lparr>ep_apiVersion := ''v1'', ep_kind := ''Endpoints'',
      ep_metadata := zero_Metadata\<lparr>md_name := md_name (svc_metadata svc), md_namespace := md_namespace (svc_metadata svc)\<rparr>,
      ep_subsets := sort_key endpoint_key (List.map_filter (endpoint_of svc) pods)\<rparr>"

definition svc_reconcileOne :: "'w Client \<Rightarrow> Pod list \<Rightarrow> Service \<Rightarrow> 'w \<Rightarrow> 'w" where
  "svc_reconcileOne c pods svc w = snd (client_UpsertEndpoints c (endpoints_of svc pods) w)"

definition svc_reconcileAll :: "'w Client \<Rightarrow> 'w \<Rightarrow> (client_error + unit) \<times> 'w" where
  "svc_reconcileAll c w =
    (case client_ListServices c w of
       (Inl e, w) \<Rightarrow> (Inl e, w)
     | (Inr svcs, w) \<Rightarrow>
        (case client_ListPods c w of
           (Inl e, w) \<Rightarrow> (Inl e, w) | (Inr pods, w) \<Rightarrow> (Inr (), fold (svc_reconcileOne c pods) svcs w)))"

definition svc_Run :: "'w Client \<Rightarrow> 'w loop_event list \<Rightarrow> 'w \<Rightarrow> 'w option" where
  "svc_Run c = loop_run (\<lambda>_ w. Some (snd (svc_reconcileAll c w))) 0"

section \<open>What the controllers build\<close>

lemma fold_absent_map_ok:
  "map_ok m \<Longrightarrow> map_ok (fold (\<lambda>(k, v) m. if \<not> ghas m k then gset m k v else m) kvs m)"
  by (induction kvs arbitrary: m) auto

lemma fold_absent_gget:
  "map_ok kvs \<Longrightarrow> map_of (fold (\<lambda>(k, v) m. if \<not> ghas m k then gset m k v else m) kvs m) = map_of kvs ++ map_of m"
proof (induction kvs arbitrary: m)
  case Nil
  then show ?case by simp
next
  case (Cons kv kvs)
  obtain k v where kv: "kv = (k, v)" by (cases kv)
  with Cons.prems have ok: "map_ok kvs" and k: "map_of kvs k = None"
    by (auto simp: map_ok_def map_of_eq_None_iff)
  have "map_of kvs ++ map_of (if \<not> ghas m k then gset m k v else m) = map_of ((k, v) # kvs) ++ map_of m"
    using k by (auto simp: ghas_def fun_eq_iff map_add_def split: option.splits)
  then show ?case by (simp add: kv Cons.IH [OF ok] del: map_of.simps)
qed

text \<open>The labels of a pod: the template's, then the replica set's, and always the owner's.\<close>

lemma buildPod_labels:
  "map_ok (md_labels (rs_metadata rs)) \<Longrightarrow> map_ok (md_labels (tmpl_metadata (rsspec_template (rs_spec rs)))) \<Longrightarrow>
   map_of (md_labels (pod_metadata (buildPodFromTemplate rs b))) =
     (map_of (md_labels (rs_metadata rs)) ++ map_of (md_labels (tmpl_metadata (rsspec_template (rs_spec rs)))))
       (LabelReplicaSet \<mapsto> md_name (rs_metadata rs))"
  by (simp add: buildPodFromTemplate_def Let_def fold_absent_gget map_of_gcopy)

lemma buildPod_wf:
  "wf_ReplicaSet rs \<Longrightarrow> wf_Pod (buildPodFromTemplate rs b)"
  by (simp add: buildPodFromTemplate_def Let_def wf_Pod_def wf_Metadata_def wf_ReplicaSet_def wf_ReplicaSetSpec_def
      wf_PodTemplate_def fold_absent_map_ok zero_Pod_def zero_PodStatus_def wf_PodStatus_def)

lemma gget_not_nil: "gget m k = v \<Longrightarrow> v \<noteq> [] \<Longrightarrow> m \<noteq> []"
  by (auto simp: gget_def)

lemma buildPod_owned: "md_name (rs_metadata rs) \<noteq> [] \<Longrightarrow>
    p \<in> set (ownedPods (md_name (rs_metadata rs)) (buildPodFromTemplate rs b # ps)) \<longleftrightarrow>
    p = buildPodFromTemplate rs b \<or> p \<in> set (ownedPods (md_name (rs_metadata rs)) ps)"
proof -
  assume "md_name (rs_metadata rs) \<noteq> []"
  moreover have "gget (md_labels (pod_metadata (buildPodFromTemplate rs b))) LabelReplicaSet = md_name (rs_metadata rs)"
    by (simp add: buildPodFromTemplate_def Let_def)
  moreover from calculation have "md_labels (pod_metadata (buildPodFromTemplate rs b)) \<noteq> []"
    using gget_not_nil by metis
  ultimately show ?thesis by (auto simp: ownedPods_def)
qed

lemma endpoint_of_Some: "endpoint_of svc p = Some a \<longleftrightarrow>
    ps_phase (pod_status p) = PhaseRunning \<and>
    svcspec_selector (svc_spec svc) \<noteq> [] \<and>
    (\<forall>(k, v) \<in> set (svcspec_selector (svc_spec svc)). gget (md_labels (pod_metadata p)) k = v) \<and>
    ea_IP a = ps_podIP (pod_status p) \<and> ea_IP a \<noteq> [] \<and>
    ea_port a = (if ps_hostPort (pod_status p) = 0 then targetPort_of svc else ps_hostPort (pod_status p)) \<and>
    ea_port a \<noteq> 0 \<and> ea_nodeName a = ps_nodeName (pod_status p) \<and> ea_podName a = md_name (pod_metadata p)"
  by (cases a) (auto simp: endpoint_of_def selectorMatches_def list_all_iff Let_def)

lemma endpoints_of_set: "a \<in> set (ep_subsets (endpoints_of svc pods)) \<longleftrightarrow> (\<exists>p \<in> set pods. endpoint_of svc p = Some a)"
  by (auto simp: endpoints_of_def map_filter_def) force

lemma endpoints_of_sorted: "sorted (map endpoint_key (ep_subsets (endpoints_of svc pods)))"
  by (simp add: endpoints_of_def)

lemma endpoints_of_length: "length (ep_subsets (endpoints_of svc pods)) = length (filter (\<lambda>p. endpoint_of svc p \<noteq> None) pods)"
  by (simp add: endpoints_of_def map_filter_def)

lemma replicaSet_of_spec:
  "rsspec_replicas (rs_spec (replicaSet_of d)) = depspec_replicas (dep_spec d)"
  "rsspec_selector (rs_spec (replicaSet_of d)) = depspec_selector (dep_spec d)"
  "tmpl_spec (rsspec_template (rs_spec (replicaSet_of d))) = tmpl_spec (depspec_template (dep_spec d))"
  "md_name (rs_metadata (replicaSet_of d)) = md_name (dep_metadata d) @ ''-rs''"
  by (simp_all add: replicaSet_of_def Let_def)

lemma replicaSet_of_wf: "wf_Deployment d \<Longrightarrow> wf_ReplicaSet (replicaSet_of d)"
  by (simp add: replicaSet_of_def Let_def wf_ReplicaSet_def wf_Metadata_def wf_ReplicaSetSpec_def wf_PodTemplate_def
      wf_Deployment_def wf_DeploymentSpec_def zero_ReplicaSet_def zero_ReplicaSetStatus_def wf_ReplicaSetStatus_def)

end
