(* ===== verification/Loopback.thy ===== *)
theory Loopback
  imports Client
begin

text \<open>
  The client against the API server: the transport that \<open>http.Client.Do\<close> realises when the server
  of cmd/apiserver answers, redirects followed as Go does (at most ten, a redirected write becomes
  a GET). The world is the server's state and the number of requests so far; \<open>env n\<close> is the
  environment of request \<open>n\<close>. The results evaluate the routes used by the controllers.
\<close>

record world =
  w_sv :: server
  w_n :: nat

fun http_Do :: "nat \<Rightarrow> config \<Rightarrow> (nat \<Rightarrow> env) \<Rightarrow> world transport" where
  "http_Do k cfg env req w =
    (let (resp, sv) = serve cfg (env (w_n w)) req (w_sv w); w = \<lparr>w_sv = sv, w_n = Suc (w_n w)\<rparr> in
     case resp_body resp of
       RedirectTo p \<Rightarrow>
        (case k of 0 \<Rightarrow> (Inl ''stopped after 10 redirects'', w)
         | Suc k \<Rightarrow> http_Do k cfg env
             (if req_method req = ''GET'' \<or> req_method req = ''HEAD'' then req\<lparr>req_path := p\<rparr>
              else req\<lparr>req_method := ''GET'', req_path := p, req_body := Malformed\<rparr>) w)
     | _ \<Rightarrow> (Inr resp, w))"

declare http_Do.simps [simp del]

definition loopback :: "config \<Rightarrow> (nat \<Rightarrow> env) \<Rightarrow> world transport" where
  "loopback = http_Do 10"

section \<open>Routing\<close>

text \<open>A name that is one path segment and that a URL takes as it is.\<close>

definition plain :: "string \<Rightarrow> bool" where
  "plain n \<longleftrightarrow> n \<noteq> [] \<and> CHR ''/'' \<notin> set n \<and> n \<noteq> ''.'' \<and> n \<noteq> ''..'' \<and> url_safe n"

lemma HasSuffix_char: "HasSuffix s [c] \<longleftrightarrow> s \<noteq> [] \<and> last s = c"
  by (auto simp: HasSuffix_iff) (metis append_butlast_last_id)

lemma plain_not_slash: "plain n \<Longrightarrow> \<not> HasSuffix n ''/''"
  by (auto simp: plain_def HasSuffix_iff)

lemma plain_not_status: "plain n \<Longrightarrow> \<not> HasSuffix n ''/status''"
  by (auto simp: plain_def HasSuffix_iff)

lemma plain_safe: "plain n \<Longrightarrow> url_safe n"
  by (simp add: plain_def)

lemma plain_lit: "plain n \<Longrightarrow> n \<noteq> [] \<and> CHR ''/'' \<notin> set n \<and> url_safe n"
  by (simp add: plain_def)

text \<open>A path that a URL takes as it is and whose requests go to the handler \<open>h\<close>.\<close>

definition routed :: "string \<Rightarrow> handler \<Rightarrow> config \<Rightarrow> env \<Rightarrow> bool" where
  "routed path h cfg ev \<longleftrightarrow> url_safe path \<and> (\<forall>req sv. req_path req = path \<longrightarrow> serve cfg ev req sv = h req sv)"

lemma routedI:
  "cleanPath path = path \<Longrightarrow>
   (map_of (routes cfg ev) path = None \<Longrightarrow> map_of (routes cfg ev) (path @ ''/'') = None) \<Longrightarrow>
   mux_match (routes cfg ev) path = Some (p, h) \<Longrightarrow> url_safe path \<Longrightarrow> routed path h cfg ev"
  by (auto simp: routed_def serve_def mux_serve_def Let_def)

lemma clean_segs_plain:
  "list_all plain ss \<Longrightarrow> clean_segs out ss = rev out @ ss"
  by (induction ss arbitrary: out) (auto simp: plain_def)

lemma cleanPath_segs:
  assumes "list_all plain ss" "ss \<noteq> []"
  shows "cleanPath (concat (map (\<lambda>s. CHR ''/'' # s) ss)) = concat (map (\<lambda>s. CHR ''/'' # s) ss)"
proof -
  let ?p = "concat (map (\<lambda>s. CHR ''/'' # s) ss)"
  have split: "Split ?p (CHR ''/'') = [] # ss"
    using assms
  proof (induction ss)
    case Nil
    then show ?case by simp
  next
    case (Cons s ss)
    then have s: "CHR ''/'' \<notin> set s" by (simp add: plain_def)
    show ?case
    proof (cases "ss = []")
      case True
      with s show ?thesis by (simp add: Split_no_sep)
    next
      case False
      with Cons have IH: "Split (concat (map (\<lambda>s. CHR ''/'' # s) ss)) (CHR ''/'') = [] # ss" by simp
      obtain t ts where ss: "ss = t # ts" using False by (cases ss) auto
      from IH have "Split (t @ concat (map (\<lambda>s. CHR ''/'' # s) ts)) (CHR ''/'') = ss" by (simp add: ss)
      with s show ?thesis by (simp add: ss Split_append_sep)
    qed
  qed
  have "plain (last ss)" using assms by (simp add: list_all_iff)
  then have ne: "last ss \<noteq> []" and slash: "last (last ss) \<noteq> CHR ''/''"
    unfolding plain_def by (auto dest: last_in_set)
  have "?p = concat (map (\<lambda>s. CHR ''/'' # s) (butlast ss @ [last ss]))" using assms(2) by simp
  then have p: "?p = concat (map (\<lambda>s. CHR ''/'' # s) (butlast ss)) @ CHR ''/'' # last ss" by simp
  have "\<not> HasSuffix ?p ''/''" unfolding p HasSuffix_char using ne slash by simp
  with assms show ?thesis
    by (simp add: cleanPath_def split Let_def clean_segs_plain)
qed

lemma plain_literals [simp]:
  "plain ''api''" "plain ''v1''" "plain ''pods''" "plain ''apis''" "plain ''apps''" "plain ''replicasets''"
  "plain ''deployments''" "plain ''status''" "plain ''services''" "plain ''endpoints''"
  by (simp_all add: plain_def)

lemma cleanPath_pods [simp]: "cleanPath ''/api/v1/pods'' = ''/api/v1/pods''"
  using cleanPath_segs [of "[''api'', ''v1'', ''pods'']"] by simp

lemma cleanPath_pod: "plain n \<Longrightarrow> cleanPath (''/api/v1/pods/'' @ n) = ''/api/v1/pods/'' @ n"
proof -
  assume "plain n"
  then have "list_all plain [''api'', ''v1'', ''pods'', n]" by simp
  from cleanPath_segs [OF this] show ?thesis by simp
qed

lemma cleanPath_pod_status:
  "plain n \<Longrightarrow> cleanPath (''/api/v1/pods/'' @ n @ ''/status'') = ''/api/v1/pods/'' @ n @ ''/status''"
proof -
  assume "plain n"
  then have "list_all plain [''api'', ''v1'', ''pods'', n, ''status'']" by simp
  from cleanPath_segs [OF this] show ?thesis by simp
qed

lemma cleanPath_rs_status:
  "plain n \<Longrightarrow> cleanPath (''/apis/apps/v1/replicasets/'' @ n @ ''/status'') = ''/apis/apps/v1/replicasets/'' @ n @ ''/status''"
proof -
  assume "plain n"
  then have "list_all plain [''apis'', ''apps'', ''v1'', ''replicasets'', n, ''status'']" by simp
  from cleanPath_segs [OF this] show ?thesis by simp
qed

lemma routed_pods: "routed ''/api/v1/pods'' (guard cfg ev [] ''pods'' (handlePods ev)) cfg ev"
  by (rule routedI) (simp_all add: mux_match_def routes_def)

lemma routed_pod: "plain n \<Longrightarrow> routed (''/api/v1/pods/'' @ n) (guard cfg ev [] ''pods'' (handlePodsByName ev)) cfg ev"
  by (rule routedI [where p = "''/api/v1/pods/''"], erule cleanPath_pod)
    (auto simp: mux_match_def routes_def registerM6Routes_def longer_def HasPrefix_def HasSuffix_def dest: plain_lit)

lemma routed_pod_status:
  "plain n \<Longrightarrow> routed (''/api/v1/pods/'' @ n @ ''/status'') (guard cfg ev [] ''pods'' (handlePodsByName ev)) cfg ev"
  by (rule routedI [where p = "''/api/v1/pods/''"], erule cleanPath_pod_status)
    (auto simp: mux_match_def routes_def registerM6Routes_def longer_def HasPrefix_def HasSuffix_def dest: plain_lit)

lemma routed_rs_status:
  "plain n \<Longrightarrow> routed (''/apis/apps/v1/replicasets/'' @ n @ ''/status'')
     (guard cfg ev ''apps'' ''replicasets'' (handleRSByName ev)) cfg ev"
  by (rule routedI [where p = "''/apis/apps/v1/replicasets/''"], erule cleanPath_rs_status)
    (auto simp: mux_match_def routes_def registerM6Routes_def longer_def HasPrefix_def HasSuffix_def dest: plain_lit)

end
