(* ===== verification/Replicaset_Spec.thy ===== *)
theory Replicaset_Spec
  imports Controllers Loopback
begin

text \<open>
  The promise of the replica set controller: one pass brings the number of living pods of a
  replica set to the desired number. It is proved from the contract of a pod API (the client
  operations the controller calls), and the API server of cmd/apiserver, without faults and
  admission webhooks, provides that contract.
\<close>

definition pod_name :: "Pod \<Rightarrow> string" where
  "pod_name p = md_name (pod_metadata p)"

definition owned_alive :: "ReplicaSet \<Rightarrow> Pod \<Rightarrow> bool" where
  "owned_alive rs p \<longleftrightarrow> md_labels (pod_metadata p) \<noteq> [] \<and>
     gget (md_labels (pod_metadata p)) LabelReplicaSet = md_name (rs_metadata rs) \<and>
     ps_phase (pod_status p) \<noteq> PhaseFailed"

lemma alive_owned: "alive_pods (ownedPods (md_name (rs_metadata rs)) pods) = filter (owned_alive rs) pods"
  by (auto simp: alive_pods_def ownedPods_def owned_alive_def intro: filter_cong)

definition living :: "(string \<Rightarrow> Pod option) \<Rightarrow> ReplicaSet \<Rightarrow> string set" where
  "living live rs = {n. \<exists>p. live n = Some p \<and> owned_alive rs p}"

text \<open>
  A snapshot that is exact for the pods of \<open>rs\<close>, the names of the pods a pass may create, and the
  replica sets the controller can serve.
\<close>

definition exact_for :: "(string \<Rightarrow> Pod option) \<Rightarrow> ReplicaSet \<Rightarrow> Pod list \<Rightarrow> bool" where
  "exact_for live rs pods \<longleftrightarrow> (\<forall>n p. owned_alive rs p \<longrightarrow> live n = Some p \<longleftrightarrow> p \<in> set pods \<and> pod_name p = n)"

definition new_names :: "(string \<Rightarrow> nat \<Rightarrow> 8 word list) \<Rightarrow> ReplicaSet \<Rightarrow> string set" where
  "new_names rnd rs =
     (\<lambda>i. pod_name (buildPodFromTemplate rs (rnd (md_name (rs_metadata rs)) i))) ` {..<nat (rsspec_replicas (rs_spec rs))}"

definition servable :: "ReplicaSet \<Rightarrow> bool" where
  "servable rs \<longleftrightarrow> wf_ReplicaSet rs \<and> plain (md_name (rs_metadata rs)) \<and>
     podspec_containers (tmpl_spec (rsspec_template (rs_spec rs))) \<noteq> [] \<and> 0 \<le> rsspec_replicas (rs_spec rs)"

text \<open>Suffixes that do not collide, with each other or with the pods there are.\<close>

definition fresh_for :: "(string \<Rightarrow> nat \<Rightarrow> 8 word list) \<Rightarrow> (string \<Rightarrow> Pod option) \<Rightarrow> ReplicaSet \<Rightarrow> bool" where
  "fresh_for rnd live rs \<longleftrightarrow>
     inj_on (\<lambda>i. pod_name (buildPodFromTemplate rs (rnd (md_name (rs_metadata rs)) i))) {..<nat (rsspec_replicas (rs_spec rs))} \<and>
     (\<forall>n \<in> new_names rnd rs. plain n \<and> live n = None)"

locale pod_api =
  fixes c :: "'w Client" and inv :: "'w \<Rightarrow> bool" and live :: "'w \<Rightarrow> string \<Rightarrow> Pod option"
  assumes create: "inv w \<Longrightarrow> wf_Pod p \<Longrightarrow> plain (pod_name p) \<Longrightarrow> podspec_containers (pod_spec p) \<noteq> [] \<Longrightarrow>
      live w (pod_name p) = None \<Longrightarrow> snd (client_CreatePod c p w) = w' \<Longrightarrow>
      inv w' \<and> (\<exists>q. live w' = (live w)(pod_name p \<mapsto> q) \<and> pod_metadata q = pod_metadata p \<and>
        ps_phase (pod_status q) = nz (ps_phase (pod_status p)) PhasePending)"
    and delete: "inv w \<Longrightarrow> plain n \<Longrightarrow> live w n = Some p \<Longrightarrow> snd (client_DeletePod c n w) = w' \<Longrightarrow>
      inv w' \<and> live w' = (live w)(n := None)"
    and status: "inv w \<Longrightarrow> plain n \<Longrightarrow> snd (client_UpdateReplicaSetStatus c n s w) = w' \<Longrightarrow>
      inv w' \<and> live w' = live w"
begin

lemma create_pods_living:
  assumes "wf_ReplicaSet rs" "md_name (rs_metadata rs) \<noteq> []"
    "podspec_containers (tmpl_spec (rsspec_template (rs_spec rs))) \<noteq> []"
  shows "inv w \<Longrightarrow> distinct (map (\<lambda>i. pod_name (buildPodFromTemplate rs (rnd i))) is) \<Longrightarrow>
    (\<forall>i \<in> set is. plain (pod_name (buildPodFromTemplate rs (rnd i))) \<and>
       live w (pod_name (buildPodFromTemplate rs (rnd i))) = None) \<Longrightarrow>
    fold (\<lambda>i w. snd (client_CreatePod c (buildPodFromTemplate rs (rnd i)) w)) is w = w' \<Longrightarrow>
    inv w' \<and> living (live w') rs = living (live w) rs \<union> set (map (\<lambda>i. pod_name (buildPodFromTemplate rs (rnd i))) is) \<and>
    (\<forall>n p. live w n = Some p \<longrightarrow> live w' n = Some p) \<and>
    (\<forall>n p. live w' n = Some p \<longrightarrow> live w n = Some p \<or>
       owned_alive rs p \<and> n \<in> set (map (\<lambda>i. pod_name (buildPodFromTemplate rs (rnd i))) is))"
proof (induction "is" arbitrary: w)
  case Nil
  then show ?case by simp
next
  case (Cons i "is")
  let ?p = "buildPodFromTemplate rs (rnd i)"
  define w1 where "w1 = snd (client_CreatePod c ?p w)"
  have containers: "podspec_containers (pod_spec ?p) \<noteq> []" and phase: "ps_phase (pod_status ?p) = []"
    using assms(3) by (simp_all add: buildPodFromTemplate_def Let_def zero_Pod_def zero_PodStatus_def)
  have fresh: "live w (pod_name ?p) = None" and "plain (pod_name ?p)" using Cons.prems(3) by auto
  with create [OF Cons.prems(1) buildPod_wf [OF assms(1)] _ containers _ w1_def [symmetric]]
  obtain q where inv1: "inv w1" and live1: "live w1 = (live w)(pod_name ?p \<mapsto> q)"
    and q: "pod_metadata q = pod_metadata ?p" "ps_phase (pod_status q) = PhasePending"
    by (auto simp: phase nz_def)
  have "?p \<in> set (ownedPods (md_name (rs_metadata rs)) [?p])"
    using buildPod_owned [OF assms(2)] by blast
  then have owned: "owned_alive rs q"
    using q by (simp add: owned_alive_def ownedPods_def phase_defs split: if_splits)
  have rest: "fold (\<lambda>i w. snd (client_CreatePod c (buildPodFromTemplate rs (rnd i)) w)) is w1 = w'"
    using Cons.prems(4) by (simp add: w1_def)
  have "\<forall>j \<in> set is. pod_name (buildPodFromTemplate rs (rnd j)) \<noteq> pod_name ?p"
    using Cons.prems(2) by (metis (no_types, lifting) distinct.simps(2) image_eqI list.set_map list.simps(9))
  then have pre: "\<forall>i \<in> set is. plain (pod_name (buildPodFromTemplate rs (rnd i))) \<and>
      live w1 (pod_name (buildPodFromTemplate rs (rnd i))) = None"
    using Cons.prems(3) by (simp add: live1)
  have "distinct (map (\<lambda>i. pod_name (buildPodFromTemplate rs (rnd i))) is)" using Cons.prems(2) by simp
  note IH = Cons.IH [OF inv1 this pre rest]
 have "living (live w1) rs = insert (pod_name ?p) (living (live w) rs)"
    using owned fresh by (auto simp: living_def live1)
  moreover have "\<forall>n p. live w n = Some p \<longrightarrow> live w1 n = Some p" using fresh by (auto simp: live1)
  moreover have "\<forall>n p. live w1 n = Some p \<longrightarrow> live w n = Some p \<or> owned_alive rs p \<and> n = pod_name ?p"
    using owned by (auto simp: live1)
  ultimately have "living (live w') rs = living (live w) rs \<union>
      set (map (\<lambda>i. pod_name (buildPodFromTemplate rs (rnd i))) (i # is))"
    and "\<forall>n p. live w n = Some p \<longrightarrow> live w' n = Some p"
    and "live w' n = Some p \<Longrightarrow> live w n = Some p \<or>
       owned_alive rs p \<and> n \<in> set (map (\<lambda>i. pod_name (buildPodFromTemplate rs (rnd i))) (i # is))" for n p
    using IH by (simp, blast, simp, metis)
  with IH show ?case by blast
qed

lemma delete_pods_living:
  "inv w \<Longrightarrow> distinct (map pod_name ps) \<Longrightarrow>
   (\<forall>p \<in> set ps. plain (pod_name p) \<and> live w (pod_name p) = Some p) \<Longrightarrow>
   delete_pods c ps w = w' \<Longrightarrow>
   inv w' \<and> living (live w') rs = living (live w) rs - set (map pod_name ps) \<and>
   (\<forall>n. live w' n = (if n \<in> set (map pod_name ps) then None else live w n))"
proof (induction ps arbitrary: w)
  case Nil
  then show ?case by (simp add: delete_pods_def)
next
  case (Cons p ps)
  define w1 where "w1 = snd (client_DeletePod c (pod_name p) w)"
  have inv1: "inv w1" and live1: "live w1 = (live w)(pod_name p := None)"
    using delete [OF Cons.prems(1) _ _ w1_def [symmetric], of p] Cons.prems(3) by auto
  have rest: "delete_pods c ps w1 = w'"
    using Cons.prems(4) by (simp add: delete_pods_def w1_def pod_name_def)
  have pre: "\<forall>q \<in> set ps. plain (pod_name q) \<and> live w1 (pod_name q) = Some q"
  proof
    fix q
    assume q: "q \<in> set ps"
    then have "pod_name q \<noteq> pod_name p" using Cons.prems(2) by (metis distinct.simps(2) image_eqI list.set_map list.simps(9))
    with q Cons.prems(3) show "plain (pod_name q) \<and> live w1 (pod_name q) = Some q" by (simp add: live1)
  qed
  have "distinct (map pod_name ps)" using Cons.prems(2) by simp
  note IH = Cons.IH [OF inv1 this pre rest]
  have "living (live w1) rs = living (live w) rs - {pod_name p}"
    by (auto simp: living_def live1)
  with IH have "living (live w') rs = living (live w) rs - set (map pod_name (p # ps))" by auto
  moreover have "live w' n = (if n \<in> set (map pod_name (p # ps)) then None else live w n)" for n
    using IH by (simp add: live1)
  ultimately show ?case using IH by blast
qed

text \<open>
  One replica set, from a snapshot that is exact for its own pods: its number is reached, all other
  pods stay, and nothing else appears.
\<close>

lemma reconcile_converges:
  assumes inv: "inv w" and rs: "servable rs"
    and snapshot: "distinct (map pod_name pods)" "exact_for (live w) rs pods" "\<And>p. p \<in> set pods \<Longrightarrow> plain (pod_name p)"
    and fresh: "fresh_for rnd (live w) rs"
  shows "\<exists>w'. rs_reconcileOne c (rnd (md_name (rs_metadata rs))) rs pods w = Some w' \<and> inv w' \<and>
    card (living (live w') rs) = nat (rsspec_replicas (rs_spec rs)) \<and>
    (\<forall>n p. \<not> owned_alive rs p \<longrightarrow> live w n = Some p \<longrightarrow> live w' n = Some p) \<and>
    (\<forall>n p. live w' n = Some p \<longrightarrow> live w n = Some p \<or> owned_alive rs p \<and> n \<in> new_names rnd rs)"
proof -
  let ?alive = "filter (owned_alive rs) pods" and ?d = "rsspec_replicas (rs_spec rs)"
    and ?rnd = "rnd (md_name (rs_metadata rs))"
  let ?new = "\<lambda>i. pod_name (buildPodFromTemplate rs (?rnd i))"
  have dist: "distinct (map pod_name ?alive)" using snapshot(1) by (simp add: distinct_map_filter)
  have exact: "owned_alive rs p \<Longrightarrow> live w n = Some p \<longleftrightarrow> p \<in> set pods \<and> pod_name p = n" for n p
    using snapshot(2) by (simp add: exact_for_def)
  have living: "living (live w) rs = set (map pod_name ?alive)"
    using exact by (auto simp: living_def)
  then have card: "card (living (live w) rs) = length ?alive"
    using distinct_card [OF dist] by simp
  define st where "st = zero_ReplicaSetStatus\<lparr>rsstatus_replicas := int (length ?alive),
    rsstatus_readyReplicas := int (length (filter (\<lambda>p. ps_phase (pod_status p) = PhaseRunning) ?alive))\<rparr>"
  define fin where "fin = (\<lambda>w. snd (client_UpdateReplicaSetStatus c (md_name (rs_metadata rs)) st w))"
  have plain_rs: "plain (md_name (rs_metadata rs))" using rs by (simp add: servable_def)
  have fin: "inv (fin w1)" "live (fin w1) = live w1" if "inv w1" for w1
    using status [OF that plain_rs] by (simp_all add: fin_def)
  have close: ?thesis
    if "rs_reconcileOne c ?rnd rs pods w = Some (fin w1)" "inv w1" "card (living (live w1) rs) = nat ?d"
      "\<And>n p. \<not> owned_alive rs p \<Longrightarrow> live w n = Some p \<Longrightarrow> live w1 n = Some p"
      "\<And>n p. live w1 n = Some p \<Longrightarrow> live w n = Some p \<or> owned_alive rs p \<and> n \<in> new_names rnd rs" for w1
    unfolding fin(2) [OF that(2), symmetric]
    by (intro exI [of _ "fin w1"] conjI allI impI) (fact that(1) fin(1) [OF that(2)] that(3-5) [folded fin(2) [OF that(2)]])+
  consider (less) "int (length ?alive) < ?d" | (more) "?d < int (length ?alive)" | (same) "int (length ?alive) = ?d"
    by linarith
  then show ?thesis
  proof cases
    case less
    let ?is = "[0..<nat (?d - int (length ?alive))]"
    define w1 where "w1 = create_pods c ?rnd rs (nat (?d - int (length ?alive))) w"
    have step: "rs_reconcileOne c ?rnd rs pods w = Some (fin w1)"
      using less by (simp add: rs_reconcileOne_def alive_owned Let_def fin_def st_def w1_def)
    have sub: "set ?is \<subseteq> {..<nat ?d}" using less by auto
    then have names: "set (map ?new ?is) \<subseteq> new_names rnd rs" by (auto simp: new_names_def)
    have distinct: "distinct (map ?new ?is)"
      using inj_on_subset [OF _ sub, of ?new] fresh unfolding fresh_for_def distinct_map by simp
    have pre: "\<forall>i \<in> set ?is. plain (?new i) \<and> live w (?new i) = None"
      using fresh names by (auto simp: fresh_for_def)
    have rs': "wf_ReplicaSet rs" "md_name (rs_metadata rs) \<noteq> []"
      "podspec_containers (tmpl_spec (rsspec_template (rs_spec rs))) \<noteq> []" using rs by (auto simp: servable_def plain_def)
    note created = create_pods_living [OF rs' inv distinct pre w1_def [symmetric, unfolded create_pods_def]]
    have inv1: "inv w1" using created by blast
    have "living (live w) rs \<inter> set (map ?new ?is) = {}"
      using pre by (auto simp: living_def)
    then have "card (living (live w1) rs) = card (living (live w) rs) + nat (?d - int (length ?alive))"
      using created distinct_card [OF distinct] by (simp add: card_Un_disjoint living)
    then have "card (living (live w1) rs) = nat ?d" using card less by simp
    then show ?thesis
      by (rule close [OF step inv1]) (use created names in blast)+
  next
    case more
    let ?victims = "drop (nat ?d) ?alive"
    define w1 where "w1 = delete_pods c ?victims w"
    have step: "rs_reconcileOne c ?rnd rs pods w = Some (fin w1)"
      using more rs by (simp add: servable_def rs_reconcileOne_def alive_owned Let_def fin_def st_def w1_def)
    have vd: "distinct (map pod_name ?victims)" using dist by (simp add: drop_map [symmetric])
    have vsub: "set ?victims \<subseteq> set ?alive" by (rule set_drop_subset)
    have pre: "\<forall>p \<in> set ?victims. plain (pod_name p) \<and> live w (pod_name p) = Some p"
    proof
      fix p
      assume "p \<in> set ?victims"
      with vsub have "p \<in> set ?alive" by blast
      then have "p \<in> set pods" "owned_alive rs p" by simp_all
      with snapshot(3) exact show "plain (pod_name p) \<and> live w (pod_name p) = Some p" by blast
    qed
    note deleted = delete_pods_living [OF inv vd pre w1_def [symmetric], of rs]
    have inv1: "inv w1" using deleted by blast
    have "set (map pod_name ?victims) \<subseteq> living (live w) rs" using living vsub by auto
    then have "card (living (live w1) rs) = length ?alive - length ?victims"
      using deleted card distinct_card [OF vd] by (simp add: card_Diff_subset)
    then have "card (living (live w1) rs) = nat ?d" using more rs by (simp add: servable_def)
    then show ?thesis
    proof (rule close [OF step inv1])
      fix n p
      have at: "live w1 n = (if n \<in> set (map pod_name ?victims) then None else live w n)" using deleted by blast
      then show "live w n = Some p \<or> owned_alive rs p \<and> n \<in> new_names rnd rs" if "live w1 n = Some p"
        using that by (cases "n \<in> set (map pod_name ?victims)") (simp_all only: if_True if_False option.distinct, simp)
      assume p: "\<not> owned_alive rs p" "live w n = Some p"
      have "n \<notin> set (map pod_name ?victims)"
      proof
        assume "n \<in> set (map pod_name ?victims)"
        then obtain q where "q \<in> set ?victims" "n = pod_name q" by auto
        with pre vsub p show False by force
      qed
      with at p show "live w1 n = Some p" by (simp only: if_False)
    qed
  next
    case same
    then have step: "rs_reconcileOne c ?rnd rs pods w = Some (fin w)"
      by (simp add: rs_reconcileOne_def alive_owned Let_def fin_def st_def)
    from same card have "card (living (live w) rs) = nat ?d" by simp
    then show ?thesis by (rule close [OF step inv]) blast+
  qed
qed

text \<open>The loop over all replica sets, whose pods are disjoint.\<close>

lemma rs_loop_converges:
  "inv w \<Longrightarrow> distinct (map (\<lambda>rs. md_name (rs_metadata rs)) rss) \<Longrightarrow> (\<forall>rs \<in> set rss. servable rs) \<Longrightarrow>
   distinct (map pod_name pods) \<Longrightarrow> (\<forall>p \<in> set pods. plain (pod_name p)) \<Longrightarrow>
   (\<forall>rs \<in> set rss. exact_for (live w) rs pods \<and> fresh_for rnd (live w) rs) \<Longrightarrow>
   (\<forall>rs \<in> set rss. \<forall>rs' \<in> set rss. rs \<noteq> rs' \<longrightarrow> new_names rnd rs \<inter> new_names rnd rs' = {}) \<Longrightarrow>
   \<exists>w'. rs_loop c rnd pods rss w = Some w' \<and> inv w' \<and>
     (\<forall>rs \<in> set rss. card (living (live w') rs) = nat (rsspec_replicas (rs_spec rs))) \<and>
     (\<forall>n p. (\<forall>rs \<in> set rss. \<not> owned_alive rs p) \<longrightarrow> live w' n = Some p \<longleftrightarrow> live w n = Some p)"
proof (induction rss arbitrary: w)
  case Nil
  then show ?case by simp
next
  case (Cons rs rss)
  have head: "servable rs" "exact_for (live w) rs pods" "fresh_for rnd (live w) rs"
    "\<And>p. p \<in> set pods \<Longrightarrow> plain (pod_name p)" using Cons.prems by auto
  from reconcile_converges [OF Cons.prems(1) head(1) Cons.prems(4) head(2) head(4) head(3)] obtain w1 where step: "rs_reconcileOne c (rnd (md_name (rs_metadata rs))) rs pods w = Some w1" and inv1: "inv w1"
    and number: "card (living (live w1) rs) = nat (rsspec_replicas (rs_spec rs))"
    and stay: "\<And>n p. \<not> owned_alive rs p \<Longrightarrow> live w n = Some p \<Longrightarrow> live w1 n = Some p"
    and new: "\<And>n p. live w1 n = Some p \<Longrightarrow> live w n = Some p \<or> owned_alive rs p \<and> n \<in> new_names rnd rs"
    by blast
  have apart: "owned_alive rs' p \<Longrightarrow> \<not> owned_alive rs p" if "rs' \<in> set rss" for rs' p
  proof -
    have "md_name (rs_metadata rs') \<noteq> md_name (rs_metadata rs)" using that Cons.prems(2) by (auto simp: image_iff)
    then show "owned_alive rs' p \<Longrightarrow> \<not> owned_alive rs p" by (auto simp: owned_alive_def)
  qed
  have other: "rs \<noteq> rs'" if "rs' \<in> set rss" for rs' using that Cons.prems(2) by auto
  have unowned: "\<not> owned_alive rs p \<Longrightarrow> live w1 n = Some p \<longleftrightarrow> live w n = Some p" for n p
    using stay new by blast
  have rest: "\<forall>rs' \<in> set rss. exact_for (live w1) rs' pods \<and> fresh_for rnd (live w1) rs'"
  proof
    fix rs'
    assume rs': "rs' \<in> set rss"
    have "exact_for (live w1) rs' pods"
      using Cons.prems(6) rs' apart [OF rs'] unowned by (simp add: exact_for_def)
    moreover have "live w1 n = None" if n: "n \<in> new_names rnd rs'" for n
    proof (rule ccontr)
      assume "live w1 n \<noteq> None"
      then obtain p where "live w n = Some p \<or> n \<in> new_names rnd rs" using new by blast
      moreover have "n \<notin> new_names rnd rs" using Cons.prems(7) other [OF rs'] rs' n by auto
      ultimately show False using Cons.prems(6) rs' n by (auto simp: fresh_for_def)
    qed
    ultimately show "exact_for (live w1) rs' pods \<and> fresh_for rnd (live w1) rs'"
      using Cons.prems(6) rs' by (simp add: fresh_for_def)
  qed
  have tail: "distinct (map (\<lambda>rs. md_name (rs_metadata rs)) rss)" "\<forall>rs \<in> set rss. servable rs"
    "\<forall>rs \<in> set rss. \<forall>rs' \<in> set rss. rs \<noteq> rs' \<longrightarrow> new_names rnd rs \<inter> new_names rnd rs' = {}"
    using Cons.prems by auto
  from Cons.IH [OF inv1 tail(1,2) Cons.prems(4,5) rest tail(3)] obtain w' where
    run: "rs_loop c rnd pods rss w1 = Some w'" and inv': "inv w'"
    and numbers: "\<forall>rs \<in> set rss. card (living (live w') rs) = nat (rsspec_replicas (rs_spec rs))"
    and keep: "\<forall>n p. (\<forall>rs \<in> set rss. \<not> owned_alive rs p) \<longrightarrow> live w' n = Some p \<longleftrightarrow> live w1 n = Some p" by blast
  have "\<forall>rs' \<in> set rss. \<not> owned_alive rs' p" if "owned_alive rs p" for p using that apart by blast
  with keep have "live w' n = Some p \<longleftrightarrow> live w1 n = Some p" if "owned_alive rs p" for n p using that by blast
  then have "living (live w') rs = living (live w1) rs" by (auto simp: living_def)
  with number have "card (living (live w') rs) = nat (rsspec_replicas (rs_spec rs))" by simp
  with step run inv' numbers keep unowned show ?case by auto
qed

text \<open>Where every number is right, a pass writes statuses only; no new name is needed.\<close>

lemma rs_loop_stable:
  "inv w \<Longrightarrow> distinct (map pod_name pods) \<Longrightarrow>
   (\<forall>rs \<in> set rss. servable rs \<and> exact_for (live w) rs pods \<and>
      card (living (live w) rs) = nat (rsspec_replicas (rs_spec rs))) \<Longrightarrow>
   \<exists>w'. rs_loop c rnd pods rss w = Some w' \<and> inv w' \<and> live w' = live w"
proof (induction rss arbitrary: w)
  case Nil
  then show ?case by simp
next
  case (Cons rs rss)
  let ?alive = "filter (owned_alive rs) pods"
  from Cons.prems(3) have rs: "servable rs" "exact_for (live w) rs pods"
    "card (living (live w) rs) = nat (rsspec_replicas (rs_spec rs))" by simp_all
  have "living (live w) rs = set (map pod_name ?alive)"
    using rs(2) by (auto simp: living_def exact_for_def)
  moreover have "distinct (map pod_name ?alive)" using Cons.prems(2) by (simp add: distinct_map_filter)
  ultimately have "card (living (live w) rs) = length ?alive" using distinct_card by fastforce
  then have "nat (rsspec_replicas (rs_spec rs)) = length ?alive" using rs(3) by simp
  then have len: "int (length ?alive) = rsspec_replicas (rs_spec rs)" using rs(1) unfolding servable_def by linarith
  define w1 where "w1 = snd (client_UpdateReplicaSetStatus c (md_name (rs_metadata rs))
    (zero_ReplicaSetStatus\<lparr>rsstatus_replicas := int (length ?alive),
      rsstatus_readyReplicas := int (length (filter (\<lambda>p. ps_phase (pod_status p) = PhaseRunning) ?alive))\<rparr>) w)"
  have step: "rs_reconcileOne c (rnd (md_name (rs_metadata rs))) rs pods w = Some w1"
    using len by (simp add: rs_reconcileOne_def alive_owned Let_def w1_def)
  have w1: "inv w1" "live w1 = live w"
    using status [OF Cons.prems(1) _ w1_def [symmetric]] rs(1) by (simp_all add: servable_def)
  then have "\<forall>rs \<in> set rss. servable rs \<and> exact_for (live w1) rs pods \<and>
      card (living (live w1) rs) = nat (rsspec_replicas (rs_spec rs))" using Cons.prems(3) by simp
  from Cons.IH [OF w1(1) Cons.prems(2) this] step w1 show ?case by auto
qed

end

end
