(* ===== verification/Replicaset_Server.thy ===== *)
theory Replicaset_Server
  imports Replicaset_Spec
begin

text \<open>
  The API server provides the pod API of the replica set controller: with its default flags, a
  healthy database and no admission webhooks registered.
\<close>

definition default_config :: "bool \<Rightarrow> string \<Rightarrow> config" where
  "default_config loop identity = \<lparr>cfg_loop = loop, cfg_rbac = False, cfg_anonymous = True, cfg_identity = identity\<rparr>"

definition healthy_env :: "(nat \<Rightarrow> time) \<Rightarrow> net \<Rightarrow> (string \<Rightarrow> string) \<Rightarrow> nat \<Rightarrow> env" where
  "healthy_env now net rnd n = \<lparr>env_drv = no_faults, env_now = now n, env_net = net, env_rnd = rnd\<rparr>"

definition live_pods :: "world \<Rightarrow> string \<Rightarrow> Pod option" where
  "live_pods w n = old_of (GetPod no_faults (srv_st (w_sv w)) n)"

definition unhooked :: "world \<Rightarrow> bool" where
  "unhooked w \<longleftrightarrow> store_ok (srv_st (w_sv w)) \<and> t_admission_webhooks (srv_st (w_sv w)) = []"

text \<open>The replica sets of the world, and what the controllers leave alone of them.\<close>

definition live_sets :: "world \<Rightarrow> string \<Rightarrow> ReplicaSet option" where
  "live_sets w n = old_of (GetReplicaSet no_faults (srv_st (w_sv w)) n)"

definition sets_spec :: "world \<Rightarrow> string \<Rightarrow> (Metadata \<times> ReplicaSetSpec) option" where
  "sets_spec w n = map_option (\<lambda>rs. (rs_metadata rs, rs_spec rs)) (live_sets w n)"

definition steady :: "(string \<Rightarrow> (Metadata \<times> ReplicaSetSpec) option) \<Rightarrow> world \<Rightarrow> bool" where
  "steady S w \<longleftrightarrow> unhooked w \<and> sets_spec w = S"

lemma sets_spec_table:
  "t_replicasets (srv_st (w_sv w')) = t_replicasets (srv_st (w_sv w)) \<Longrightarrow> sets_spec w' = sets_spec w"
  by (simp add: sets_spec_def live_sets_def GetReplicaSet_def fun_eq_iff)

definition local_client :: "bool \<Rightarrow> string \<Rightarrow> (nat \<Rightarrow> time) \<Rightarrow> net \<Rightarrow> (string \<Rightarrow> string) \<Rightarrow> world Client" where
  "local_client loop identity now net rnd = New (loopback (default_config loop identity) (healthy_env now net rnd))"

lemma default_config_simps [simp]:
  "cfg_loop (default_config l i) = l" "\<not> cfg_rbac (default_config l i)"
  "cfg_anonymous (default_config l i)" "cfg_identity (default_config l i) = i"
  by (simp_all add: default_config_def)

lemma healthy_env_simps [simp]:
  "env_drv (healthy_env now net rnd n) = no_faults" "env_now (healthy_env now net rnd n) = now n"
  "env_net (healthy_env now net rnd n) = net" "env_rnd (healthy_env now net rnd n) = rnd"
  by (simp_all add: healthy_env_def)

lemma guard_anonymous:
  "\<not> cfg_rbac cfg \<Longrightarrow> cfg_anonymous cfg \<Longrightarrow> req_auth req = [] \<Longrightarrow> guard cfg ev g r h req sv = h req sv"
  by (simp add: guard_def Authenticate_def)

lemma http_Do_direct:
  "serve cfg (env (w_n w)) req (w_sv w) = (resp, sv') \<Longrightarrow> (\<And>p. resp_body resp \<noteq> RedirectTo p) \<Longrightarrow>
   http_Do k cfg env req w = (Inr resp, \<lparr>w_sv = sv', w_n = Suc (w_n w)\<rparr>)"
  by (subst http_Do.simps) (auto simp: Let_def split: payload.split)

lemma local_world:
  assumes "serve (default_config loop i) (healthy_env now net rnd (w_n w)) req (w_sv w) = (resp, sv')"
    and "\<And>p. resp_body resp \<noteq> RedirectTo p"
  shows "loopback (default_config loop i) (healthy_env now net rnd) req w = (Inr resp, \<lparr>w_sv = sv', w_n = Suc (w_n w)\<rparr>)"
  unfolding loopback_def using http_Do_direct assms by blast

lemma do_http_world:
  assumes "loopback cfg env \<lparr>req_method = m, req_path = path, req_query = [], req_auth = [],
      req_body = (case body of None \<Rightarrow> Malformed | Some j \<Rightarrow> Doc j)\<rparr> w = (Inr resp, w')" "url_safe path"
  shows "snd (do_out (New (loopback cfg env)) m path body d z w) = w'"
    and "snd (do_nil (New (loopback cfg env)) m path body w) = w'"
  using assms by (simp_all add: do_out_def do_nil_def do_http_safe New_def split: if_splits)

lemmas do_http_worlds =
  do_http_world(1) [where body = "Some b" for b, simplified option.case]
  do_http_world(2) [where body = "Some b" for b, simplified option.case]
  do_http_world(2) [where body = None, simplified option.case]

text \<open>Handlers that answer themselves never redirect.\<close>

definition answers :: "response \<times> server \<Rightarrow> bool" where
  "answers p \<longleftrightarrow> (\<forall>q. resp_body (fst p) \<noteq> RedirectTo q)"

lemma answers_simps [simp]:
  "answers (http_error c m sv)" "answers (writeJSON c j sv)" "answers (method_not_allowed sv)"
  "answers (notFoundOrErr e sv)" "answers (write_deleted n r sv)" "answers (write_found enc r' sv)"
  by (auto simp: answers_def http_error_def writeJSON_def method_not_allowed_def notFoundOrErr_def
      write_deleted_def write_found_def split: sum.splits)

lemma answers_put_status [simp]: "answers (put_status d z upd out req sv)"
  by (simp add: put_status_def with_body_def split: option.split sum.split)

text \<open>Creating a pod of a fresh name.\<close>

lemma createPod_answer:
  assumes hooks: "t_admission_webhooks (srv_st sv) = []" and ok: "store_ok (srv_st sv)"
    and p: "wf_Pod p" "md_name (pod_metadata p) \<noteq> []" "podspec_containers (pod_spec p) \<noteq> []"
    and drv: "env_drv ev = no_faults" and body: "req_body req = Doc (enc_Pod p)"
  shows "\<exists>st'. createPod ev req sv = writeJSON 201 (read_back enc_Pod
      (GetPod no_faults st' (md_name (pod_metadata p)))) (sv\<lparr>srv_st := st'\<rparr>) \<and>
    UpsertPod no_faults (env_now ev) (p\<lparr>pod_apiVersion := ''v1'', pod_kind := ''Pod''\<rparr>) (srv_st sv) = Inr st'"
proof -
  let ?p = "p\<lparr>pod_apiVersion := ''v1'', pod_kind := ''Pod''\<rparr>"
  have wf: "wf_Pod ?p" using p(1) by simp
  obtain st' where put: "UpsertPod no_faults (env_now ev) ?p (srv_st sv) = Inr st'"
    using pod_store.put_total [OF store_ok_pod_table [OF ok] wf] by blast
  have "createPod ev req sv = writeJSON 201 (read_back enc_Pod
      (GetPod no_faults st' (md_name (pod_metadata p)))) (sv\<lparr>srv_st := st'\<rparr>)"
    using p wf hooks drv body put
    by (simp add: createPod_def with_raw_body_def Let_def store_then_def)
  with put show ?thesis by blast
qed

lemma createPod_effect:
  assumes "t_admission_webhooks (srv_st sv) = []" "store_ok (srv_st sv)"
    and "wf_Pod p" "md_name (pod_metadata p) \<noteq> []" "podspec_containers (pod_spec p) \<noteq> []"
    and "env_drv ev = no_faults" "req_body req = Doc (enc_Pod p)"
  shows "\<exists>r st'. createPod ev req sv = (r, sv\<lparr>srv_st := st'\<rparr>) \<and> (\<forall>q. resp_body r \<noteq> RedirectTo q) \<and>
    UpsertPod no_faults (env_now ev) (p\<lparr>pod_apiVersion := ''v1'', pod_kind := ''Pod''\<rparr>) (srv_st sv) = Inr st'"
  using createPod_answer [OF assms] by (auto simp: writeJSON_def)

lemma UpsertPod_tables: "UpsertPod no_faults now p st = Inr st' \<Longrightarrow>
    t_admission_webhooks st' = t_admission_webhooks st \<and> t_replicasets st' = t_replicasets st"
  by (auto simp: UpsertPod_def CreatePod_def Let_def sql_results split: sum.splits if_splits)

lemma live_pods_put:
  assumes "store_ok (srv_st (w_sv w))" "wf_Pod p" "UpsertPod no_faults now p (srv_st (w_sv w)) = Inr st'"
    "live_pods w (pod_name p) = None"
  shows "live_pods \<lparr>w_sv = (w_sv w)\<lparr>srv_st := st'\<rparr>, w_n = m\<rparr> =
    (live_pods w)(pod_name p \<mapsto> stored_pod now None p)"
  using pod_store.put_get [OF store_ok_pod_table [OF assms(1)] assms(2,3)] assms(4)
  by (auto simp: live_pods_def pod_name_def pod_key_def fun_eq_iff)

text \<open>A status write leaves metadata and specs of all replica sets.\<close>

lemma put_rs_status_spec:
  assumes "store_ok st" "wf_ReplicaSetStatus s" "UpdateReplicaSetStatus no_faults now n s st = Inr st'"
  shows "map_option (\<lambda>rs. (rs_metadata rs, rs_spec rs)) (old_of (GetReplicaSet no_faults st' k)) =
    map_option (\<lambda>rs. (rs_metadata rs, rs_spec rs)) (old_of (GetReplicaSet no_faults st k))"
  using rs_store.upd_get [OF store_ok_rs_table [OF assms(1)] assms(2,3), of k]
  by (auto simp: old_of_def map_result_def split: sum.splits)

interpretation server_pods: pod_api "local_client loop identity now net rnd" "steady S" live_pods
  for loop identity now net rnd S
proof unfold_locales
  fix w :: world and p w'
  assume st: "steady S w" and p: "wf_Pod p" "plain (pod_name p)" "podspec_containers (pod_spec p) \<noteq> []"
    "live_pods w (pod_name p) = None" and run: "snd (client_CreatePod (local_client loop identity now net rnd) p w) = w'"
  have inv: "unhooked w" and S: "sets_spec w = S" using st by (simp_all add: steady_def)
  let ?cfg = "default_config loop identity" and ?ev = "healthy_env now net rnd"
  let ?req = "\<lparr>req_method = ''POST'', req_path = ''/api/v1/pods'', req_query = [], req_auth = [],
      req_body = Doc (enc_Pod p)\<rparr>"
  let ?p = "p\<lparr>pod_apiVersion := ''v1'', pod_kind := ''Pod''\<rparr>"
  have name: "md_name (pod_metadata p) \<noteq> []" using p(2) by (simp add: plain_def pod_name_def)
  obtain r st' where create: "createPod (?ev (w_n w)) ?req (w_sv w) = (r, (w_sv w)\<lparr>srv_st := st'\<rparr>)"
    "\<forall>q. resp_body r \<noteq> RedirectTo q" and put: "UpsertPod no_faults (now (w_n w)) ?p (srv_st (w_sv w)) = Inr st'"
    using createPod_effect [of "w_sv w" p "?ev (w_n w)" ?req] inv p name by (auto simp: unhooked_def)
  have "serve ?cfg (?ev (w_n w)) ?req (w_sv w) = (r, (w_sv w)\<lparr>srv_st := st'\<rparr>)"
    using routed_pods [of ?cfg "?ev (w_n w)"] create by (simp add: routed_def guard_anonymous handlePods_def)
  then have lb: "loopback ?cfg ?ev ?req w = (Inr r, \<lparr>w_sv = (w_sv w)\<lparr>srv_st := st'\<rparr>, w_n = Suc (w_n w)\<rparr>)"
    using create(2) by (intro local_world) auto
  have w': "w' = \<lparr>w_sv = (w_sv w)\<lparr>srv_st := st'\<rparr>, w_n = Suc (w_n w)\<rparr>"
    unfolding run [symmetric] client_CreatePod_def local_client_def by (rule do_http_worlds(1) [OF lb]) simp
  have wf: "wf_Pod ?p" using p(1) by simp
  have "unhooked w'"
    using inv put UpsertPod_ok [OF _ wf put] UpsertPod_tables [OF put] by (simp add: unhooked_def w')
  moreover have "sets_spec w' = S" using sets_spec_table [of w' w] UpsertPod_tables [OF put] S by (simp add: w')
  moreover have "live_pods w' = (live_pods w)(pod_name p \<mapsto> stored_pod (now (w_n w)) None ?p)"
    using live_pods_put [of w ?p "now (w_n w)" st' "Suc (w_n w)"] inv put wf p(4)
    by (simp add: unhooked_def w' pod_name_def)
  ultimately show "steady S w' \<and> (\<exists>q. live_pods w' = (live_pods w)(pod_name p \<mapsto> q) \<and>
      pod_metadata q = pod_metadata p \<and> ps_phase (pod_status q) = nz (ps_phase (pod_status p)) PhasePending)"
    by (auto simp: steady_def stored_pod_def Let_def nz_def)
next
  fix w :: world and n p w'
  assume st: "steady S w" and n: "plain n" "live_pods w n = Some p"
    and run: "snd (client_DeletePod (local_client loop identity now net rnd) n w) = w'"
  have inv: "unhooked w" and S: "sets_spec w = S" using st by (simp_all add: steady_def)
  let ?cfg = "default_config loop identity" and ?ev = "healthy_env now net rnd"
  let ?req = "\<lparr>req_method = ''DELETE'', req_path = ''/api/v1/pods/'' @ n, req_query = [], req_auth = [], req_body = Malformed\<rparr>"
  have "GetPod no_faults (srv_st (w_sv w)) n = Inr p"
    using n(2) by (simp add: live_pods_def old_of_def split: sum.splits)
  then obtain st' where del: "DeletePod no_faults n (srv_st (w_sv w)) = Inr st'"
    using pod_store.del_present unfolding is_ok_iff by blast
  have trim: "TrimPrefix (''/api/v1/pods/'' @ n) ''/api/v1/pods/'' = n" by (rule TrimPrefix_append)
  have "serve ?cfg (?ev (w_n w)) ?req (w_sv w) = write_deleted n (Inr st') (w_sv w)"
    using routed_pod [OF n(1), of ?cfg "?ev (w_n w)"] plain_not_status [OF n(1)] plain_lit [OF n(1)] del trim
    by (simp add: routed_def guard_anonymous handlePodsByName_def deletePod_def del: append.simps)
  then obtain r where "serve ?cfg (?ev (w_n w)) ?req (w_sv w) = (r, (w_sv w)\<lparr>srv_st := st'\<rparr>)"
    "\<And>q. resp_body r \<noteq> RedirectTo q"
    by (auto simp: write_deleted_def writeJSON_def)
  then have lb: "loopback ?cfg ?ev ?req w = (Inr r, \<lparr>w_sv = (w_sv w)\<lparr>srv_st := st'\<rparr>, w_n = Suc (w_n w)\<rparr>)"
    by (rule local_world)
  have w': "w' = \<lparr>w_sv = (w_sv w)\<lparr>srv_st := st'\<rparr>, w_n = Suc (w_n w)\<rparr>"
    unfolding run [symmetric] client_DeletePod_def local_client_def by (rule do_http_worlds(3) [OF lb]) (simp add: plain_safe [OF n(1)])
  have tables: "t_admission_webhooks st' = t_admission_webhooks (srv_st (w_sv w))"
    "t_replicasets st' = t_replicasets (srv_st (w_sv w))"
    using del by (auto simp: DeletePod_def split: if_splits)
  with inv DeletePod_ok [OF _ del] have "unhooked w'" by (simp add: unhooked_def w')
  moreover have "sets_spec w' = S" using sets_spec_table [of w' w] tables S by (simp add: w')
  moreover have "live_pods w' = (live_pods w)(n := None)"
    using pod_store.del_get [OF store_ok_pod_table del] inv by (auto simp: unhooked_def w' live_pods_def fun_eq_iff)
  ultimately show "steady S w' \<and> live_pods w' = (live_pods w)(n := None)" by (simp add: steady_def)
next
  fix w :: world and n s w'
  assume st: "steady S w" and n: "plain n"
    and run: "snd (client_UpdateReplicaSetStatus (local_client loop identity now net rnd) n s w) = w'"
  have inv: "unhooked w" and S: "sets_spec w = S" using st by (simp_all add: steady_def)
  let ?cfg = "default_config loop identity" and ?ev = "healthy_env now net rnd"
  let ?path = "''/apis/apps/v1/replicasets/'' @ n @ ''/status''"
  let ?req = "\<lparr>req_method = ''PUT'', req_path = ?path, req_query = [], req_auth = [],
      req_body = Doc (enc_ReplicaSetStatus s)\<rparr>"
  let ?h = "put_status dec_ReplicaSetStatus zero_ReplicaSetStatus (UpdateReplicaSetStatus no_faults (now (w_n w)) n)
      (\<lambda>st. read_back enc_ReplicaSet (GetReplicaSet no_faults st n)) ?req (w_sv w)"
  have trim: "TrimPrefix ?path ''/apis/apps/v1/replicasets/'' = n @ ''/status''" by (rule TrimPrefix_append)
  have serve: "serve ?cfg (?ev (w_n w)) ?req (w_sv w) = ?h"
    using routed_rs_status [OF n, of ?cfg "?ev (w_n w)"] trim
    by (simp add: routed_def guard_anonymous handleRSByName_def del: append.simps)
  obtain r sv' where h: "?h = (r, sv')" by (cases ?h)
  then have "\<And>q. resp_body r \<noteq> RedirectTo q"
    using answers_put_status unfolding answers_def by (metis fst_conv)
  with serve h have lb: "loopback ?cfg ?ev ?req w = (Inr r, \<lparr>w_sv = sv', w_n = Suc (w_n w)\<rparr>)"
    by (intro local_world) auto
  have w': "w' = \<lparr>w_sv = sv', w_n = Suc (w_n w)\<rparr>"
    unfolding run [symmetric] client_UpdateReplicaSetStatus_def local_client_def by (rule do_http_worlds(2) [OF lb]) (simp add: plain_safe [OF n])
  have "t_pods (srv_st sv') = t_pods (srv_st (w_sv w)) \<and>
      t_admission_webhooks (srv_st sv') = t_admission_webhooks (srv_st (w_sv w))"
    using h by (auto simp: put_status_def with_body_def http_error_def writeJSON_def notFoundOrErr_def
        UpdateReplicaSetStatus_def Let_def sql_results split: option.splits sum.splits if_splits)
  moreover have "store_ok (srv_st sv')"
    using serve_step [of ?req "w_sv w" ?cfg "?ev (w_n w)"] inv serve h by (simp add: step_ok_def unhooked_def)
  moreover have "sets_spec w' = S"
  proof -
    have "srv_st sv' = srv_st (w_sv w) \<or> (\<exists>t. wf_ReplicaSetStatus t \<and>
        UpdateReplicaSetStatus no_faults (now (w_n w)) n t (srv_st (w_sv w)) = Inr (srv_st sv'))"
      using h dec_ReplicaSetStatus_wf [OF zero_ReplicaSetStatus_wf, of "enc_ReplicaSetStatus s"] by (auto simp: put_status_def with_body_def http_error_def writeJSON_def
        notFoundOrErr_def Decode_def split: option.splits sum.splits if_splits prod.splits)
    then show ?thesis
    proof
      assume "srv_st sv' = srv_st (w_sv w)"
      then show ?thesis using sets_spec_table [of w' w] S by (simp add: w')
    next
      assume "\<exists>t. wf_ReplicaSetStatus t \<and>
        UpdateReplicaSetStatus no_faults (now (w_n w)) n t (srv_st (w_sv w)) = Inr (srv_st sv')"
      then obtain t where t: "wf_ReplicaSetStatus t"
        "UpdateReplicaSetStatus no_faults (now (w_n w)) n t (srv_st (w_sv w)) = Inr (srv_st sv')" by blast
      have "store_ok (srv_st (w_sv w))" using inv by (simp add: unhooked_def)
      from put_rs_status_spec [OF this t] S show ?thesis by (auto simp: w' sets_spec_def live_sets_def fun_eq_iff)
    qed
  qed
  ultimately show "steady S w' \<and> live_pods w' = live_pods w"
    using inv by (simp add: steady_def unhooked_def w' live_pods_def GetPod_def fun_eq_iff)
qed

end
