(* ===== verification/Federation.thy ===== *)
theory Federation
  imports Controllers
begin

text \<open>
  internal/federation/federation.go: probing the member clusters and pushing federated deployments
  to the ready ones. \<open>members s\<close> is the transport to the base URL \<open>s\<close>, and \<open>status_line\<close> the text
  net/http gives for the status line of a code.
\<close>

definition http_get :: "string \<Rightarrow> strmap \<Rightarrow> request" where
  "http_get path query = \<lparr>req_method = ''GET'', req_path = path, req_query = query, req_auth = [], req_body = Malformed\<rparr>"

definition probe :: "(string \<Rightarrow> 'w transport) \<Rightarrow> (int \<Rightarrow> string) \<Rightarrow> string \<Rightarrow> 'w \<Rightarrow> (bool \<times> string) \<times> 'w" where
  "probe members status_line server w =
    (case members server (http_get ''/healthz'' []) w of
       (Inl e, w) \<Rightarrow> ((False, e), w)
     | (Inr r, w) \<Rightarrow> (if resp_code r \<ge> 300 then ((False, status_line (resp_code r)), w) else ((True, []), w)))"

definition set_ready :: "Cluster \<Rightarrow> bool \<Rightarrow> Cluster" where
  "set_ready cl ok = cl\<lparr>cl_status := (cl_status cl)\<lparr>clstatus_ready := ok\<rparr>\<rparr>"

text \<open>The first loop of \<open>reconcile\<close>: every cluster is probed and its status written and remembered.\<close>

fun probe_all :: "'w Client \<Rightarrow> (string \<Rightarrow> 'w transport) \<Rightarrow> (int \<Rightarrow> string) \<Rightarrow> Cluster list \<Rightarrow> 'w \<Rightarrow> Cluster list \<times> 'w" where
  "probe_all host members status_line [] w = ([], w)"
| "probe_all host members status_line (cl # cls) w =
    (let ((ok, msg), w) = probe members status_line (clspec_server (cl_spec cl)) w;
         st = zero_ClusterStatus\<lparr>clstatus_ready := ok, clstatus_message := msg\<rparr>;
         w = snd (client_UpdateClusterStatus host (md_name (cl_metadata cl)) st w);
         (rest, w) = probe_all host members status_line cls w in
     (set_ready cl ok # rest, w))"

definition selectClusters :: "FederatedDeployment \<Rightarrow> Cluster list \<Rightarrow> Cluster list" where
  "selectClusters fd all =
    (if length (fdspec_clusters (fd_spec fd)) = 0 then all
     else (let want = set (fdspec_clusters (fd_spec fd)) in filter (\<lambda>c. md_name (cl_metadata c) \<in> want) all))"

definition mergeLabels :: "strmap \<Rightarrow> strmap \<Rightarrow> strmap" where
  "mergeLabels a b = gcopy (gcopy [] a) b"

definition member_deployment :: "FederatedDeployment \<Rightarrow> Cluster \<Rightarrow> Deployment" where
  "member_deployment fd cl =
    zero_Deployment\<lparr>dep_apiVersion := ''apps/v1'', dep_kind := ''Deployment'',
      dep_metadata := zero_Metadata\<lparr>md_name := md_name (fd_metadata fd), md_namespace := md_namespace (fd_metadata fd),
        md_labels := mergeLabels (md_labels (fd_metadata fd))
          [(''federation.mk.io/federated-deployment'', md_name (fd_metadata fd)),
           (''federation.mk.io/cluster'', md_name (cl_metadata cl))]\<rparr>,
      dep_spec := fdspec_template (fd_spec fd)\<rparr>"

text \<open>The inner loop: push to every ready target and count the successes.\<close>

fun push_all :: "(string \<Rightarrow> 'w transport) \<Rightarrow> FederatedDeployment \<Rightarrow> Cluster list \<Rightarrow> int \<Rightarrow> 'w \<Rightarrow> int \<times> 'w" where
  "push_all members fd [] ready w = (ready, w)"
| "push_all members fd (cl # cls) ready w =
    (if \<not> clstatus_ready (cl_status cl) then push_all members fd cls ready w
     else case client_CreateDeployment (New (members (clspec_server (cl_spec cl)))) (member_deployment fd cl) w of
       (Inl _, w) \<Rightarrow> push_all members fd cls ready w
     | (Inr _, w) \<Rightarrow> push_all members fd cls (ready + 1) w)"

definition reconcile_fd :: "'w Client \<Rightarrow> (string \<Rightarrow> 'w transport) \<Rightarrow> Cluster list \<Rightarrow> FederatedDeployment \<Rightarrow> 'w \<Rightarrow> 'w" where
  "reconcile_fd host members clusters fd w =
    (let targets = selectClusters fd clusters;
         (ready, w) = push_all members fd targets 0 w in
     snd (client_UpdateFederatedDeploymentStatus host (md_name (fd_metadata fd))
       (zero_FederatedDeploymentStatus\<lparr>fdstatus_clusterCount := int (length targets), fdstatus_readyCount := ready\<rparr>) w))"

definition fed_reconcile :: "'w Client \<Rightarrow> (string \<Rightarrow> 'w transport) \<Rightarrow> (int \<Rightarrow> string) \<Rightarrow> 'w \<Rightarrow> (client_error + unit) \<times> 'w" where
  "fed_reconcile host members status_line w =
    (case client_ListClusters host w of
       (Inl e, w) \<Rightarrow> (Inl e, w)
     | (Inr clusters, w) \<Rightarrow>
        (let (clusters, w) = probe_all host members status_line clusters w in
         case client_ListFederatedDeployments host w of
           (Inl e, w) \<Rightarrow> (Inl e, w)
         | (Inr fds, w) \<Rightarrow> (Inr (), fold (reconcile_fd host members clusters) fds w)))"

definition fed_Run :: "'w Client \<Rightarrow> (string \<Rightarrow> 'w transport) \<Rightarrow> (int \<Rightarrow> string) \<Rightarrow> 'w loop_event list \<Rightarrow> 'w \<Rightarrow> 'w option" where
  "fed_Run host members status_line = loop_run (\<lambda>_ w. Some (snd (fed_reconcile host members status_line w))) 0"

section \<open>Where deployments go\<close>

lemma selectClusters_set:
  "cl \<in> set (selectClusters fd all) \<longleftrightarrow> cl \<in> set all \<and>
     (fdspec_clusters (fd_spec fd) = [] \<or> md_name (cl_metadata cl) \<in> set (fdspec_clusters (fd_spec fd)))"
  by (auto simp: selectClusters_def)

lemma push_all_count:
  "push_all members fd cls ready w = (n, w') \<Longrightarrow>
   ready \<le> n \<and> n \<le> ready + int (length (filter (\<lambda>cl. clstatus_ready (cl_status cl)) cls))"
proof (induction cls arbitrary: ready w)
  case Nil
  then show ?case by simp
next
  case (Cons cl cls)
  then show ?case
    by (auto split: if_splits prod.splits sum.splits) (force dest: Cons.IH)+
qed

text \<open>Only the transports of ready targets matter.\<close>

lemma push_all_transports:
  "(\<And>cl. cl \<in> set cls \<Longrightarrow> clstatus_ready (cl_status cl) \<Longrightarrow>
      members (clspec_server (cl_spec cl)) = members' (clspec_server (cl_spec cl))) \<Longrightarrow>
   push_all members fd cls ready w = push_all members' fd cls ready w"
  by (induction cls arbitrary: ready w) (auto split: sum.splits prod.splits)

lemma push_all_none_ready:
  "(\<And>cl. cl \<in> set cls \<Longrightarrow> \<not> clstatus_ready (cl_status cl)) \<Longrightarrow> push_all members fd cls ready w = (ready, w)"
  by (induction cls arbitrary: ready w) auto

text \<open>After probing, a cluster is ready exactly when its probe, made in some world, succeeded.\<close>

lemma probe_all_clusters:
  "probe_all host members sl cls w = (cls', w') \<Longrightarrow> list_all2 (\<lambda>a b. \<exists>ok. b = set_ready a ok) cls cls'"
  by (induction cls arbitrary: w w' cls') (auto simp: Let_def split: prod.splits)

lemma probe_all_ready:
  "probe_all host members sl cls w = (cls', w') \<Longrightarrow> cl \<in> set cls' \<Longrightarrow> clstatus_ready (cl_status cl) \<Longrightarrow>
   \<exists>w1 r w2. members (clspec_server (cl_spec cl)) (http_get ''/healthz'' []) w1 = (Inr r, w2) \<and> resp_code r < 300"
proof (induction cls arbitrary: w w' cls')
  case Nil
  then show ?case by simp
next
  case (Cons c cls)
  obtain ok msg w1 where p: "probe members sl (clspec_server (cl_spec c)) w = ((ok, msg), w1)"
    by (metis surj_pair)
  obtain rest w2 where rest: "probe_all host members sl cls (snd (client_UpdateClusterStatus host (md_name (cl_metadata c))
      (zero_ClusterStatus\<lparr>clstatus_ready := ok, clstatus_message := msg\<rparr>) w1)) = (rest, w2)"
    by (metis surj_pair)
  from Cons.prems(1) p rest have cls': "cls' = set_ready c ok # rest" by (simp add: Let_def)
  show ?case
  proof (cases "cl \<in> set rest")
    case True
    then show ?thesis using Cons.IH rest Cons.prems(3) by blast
  next
    case False
    with Cons.prems(2) cls' have cl: "cl = set_ready c ok" by simp
    with Cons.prems(3) have ok by (simp add: set_ready_def)
    with p show ?thesis unfolding cl
      by (auto simp: probe_def set_ready_def split: prod.splits sum.splits if_splits)
        (metis linorder_not_le)
  qed
qed

lemma member_deployment_labels:
  "map_ok (md_labels (fd_metadata fd)) \<Longrightarrow>
   map_of (md_labels (dep_metadata (member_deployment fd cl))) =
     (map_of (md_labels (fd_metadata fd)))
       (''federation.mk.io/federated-deployment'' \<mapsto> md_name (fd_metadata fd),
        ''federation.mk.io/cluster'' \<mapsto> md_name (cl_metadata cl))"
  by (simp add: member_deployment_def mergeLabels_def map_of_gcopy)

lemma member_deployment_wf: "wf_FederatedDeployment fd \<Longrightarrow> wf_Deployment (member_deployment fd cl)"
  by (simp add: member_deployment_def mergeLabels_def wf_FederatedDeployment_def wf_FederatedDeploymentSpec_def
      wf_Deployment_def wf_Metadata_def zero_Deployment_def zero_DeploymentStatus_def wf_DeploymentStatus_def)

end
