(* ===== verification/Scheduler.thy ===== *)
theory Scheduler
  imports Federation
begin

text \<open>
  cmd/scheduler/main.go: one pass of the scheduler, which binds every pending pod to its single
  node. \<open>T\<close> is the transport to the API server. The helpers for raw GET and status PUT requests are
  shared with cmd/kubelet, which has the same code.
\<close>

datatype list_error = ListDown string | ListStatus int | ListBroken

text \<open>\<open>http.Get\<close> of a pod list, the query written into the URL as it is: the error of the URL or the
  transport, a status other than 200, or the items.\<close>

definition get_pods :: "'w transport \<Rightarrow> string \<Rightarrow> string \<Rightarrow> 'w \<Rightarrow> (list_error + Pod list) \<times> 'w" where
  "get_pods T key value w =
    (case parse_target (''/api/v1/pods'' @ ''?'' @ key @ ''='' @ value) of
       BadUrl \<Rightarrow> (Inl (ListDown ''parse''), w)
     | BadLine \<Rightarrow> (Inl (ListStatus 400), w)
     | Target path query \<Rightarrow>
        (case T (http_get path query) w of
           (Inl e, w) \<Rightarrow> (Inl (ListDown e), w)
         | (Inr r, w) \<Rightarrow>
            (if resp_code r \<noteq> 200 then (Inl (ListStatus (resp_code r)), w)
             else (case decode_payload (dec_items dec_Pod zero_Pod) [] (resp_body r) of
                     Inl _ \<Rightarrow> (Inl ListBroken, w) | Inr items \<Rightarrow> (Inr items, w)))))"

text \<open>
  The status write: whatever is answered, the pass goes on. The error of \<open>http.NewRequest\<close> is dropped, so
  where the name makes the URL invalid the next line panics on the nil request: \<open>None\<close>.
\<close>

definition status_path :: "string \<Rightarrow> string" where
  "status_path name = ''/api/v1/pods/'' @ name @ ''/status''"

definition put_pod_status :: "'w transport \<Rightarrow> string \<Rightarrow> PodStatus \<Rightarrow> 'w \<Rightarrow> 'w option" where
  "put_pod_status T name s w =
    (case parse_target (status_path name) of
       BadUrl \<Rightarrow> None
     | BadLine \<Rightarrow> Some w
     | Target path query \<Rightarrow>
        Some (snd (T \<lparr>req_method = ''PUT'', req_path = path, req_query = query, req_auth = [],
            req_body = Doc (enc_PodStatus s)\<rparr> w)))"

definition bound_status :: "string \<Rightarrow> PodStatus" where
  "bound_status node = zero_PodStatus\<lparr>ps_phase := PhaseScheduled, ps_nodeName := node,
     ps_message := ''Scheduled by mk-scheduler''\<rparr>"

fun bind_pods :: "'w transport \<Rightarrow> string \<Rightarrow> Pod list \<Rightarrow> 'w \<Rightarrow> 'w option" where
  "bind_pods T node [] w = Some w"
| "bind_pods T node (p # ps) w =
    (case put_pod_status T (md_name (pod_metadata p)) (bound_status node) w of
       None \<Rightarrow> None | Some w \<Rightarrow> bind_pods T node ps w)"

definition scheduleOnce :: "'w transport \<Rightarrow> string \<Rightarrow> 'w \<Rightarrow> ((list_error + unit) \<times> 'w) option" where
  "scheduleOnce T node w =
    (case get_pods T ''phase'' PhasePending w of
       (Inl e, w) \<Rightarrow> Some (Inl e, w)
     | (Inr pods, w) \<Rightarrow> (case bind_pods T node pods w of None \<Rightarrow> None | Some w \<Rightarrow> Some (Inr (), w)))"

text \<open>The loop of \<open>main\<close>, which ends only with a panic.\<close>

definition schedule_loop :: "'w transport \<Rightarrow> string \<Rightarrow> 'w loop_event list \<Rightarrow> 'w \<Rightarrow> 'w option" where
  "schedule_loop T node = loop_run (\<lambda>_ w. map_option snd (scheduleOnce T node w)) 0"

section \<open>Panics\<close>

lemma put_pod_status_panics: "put_pod_status T name s w = None \<longleftrightarrow> parse_target (status_path name) = BadUrl"
  by (simp add: put_pod_status_def split: target.split)

lemma bind_pods_panics: "bind_pods T node ps w = None \<longleftrightarrow>
    (\<exists>p \<in> set ps. parse_target (status_path (md_name (pod_metadata p))) = BadUrl)"
proof (induction ps arbitrary: w)
  case Nil
  then show ?case by simp
next
  case (Cons p ps)
  show ?case
  proof (cases "put_pod_status T (md_name (pod_metadata p)) (bound_status node) w")
    case None
    then have "parse_target (status_path (md_name (pod_metadata p))) = BadUrl"
      by (simp only: put_pod_status_panics)
    with None show ?thesis by simp
  next
    case (Some v)
    then have "parse_target (status_path (md_name (pod_metadata p))) \<noteq> BadUrl"
      using put_pod_status_panics by (metis option.distinct(1))
    with Some Cons show ?thesis by simp
  qed
qed

text \<open>A percent sign that starts no escape.\<close>

lemma status_path_bad:
  assumes "url_safe a" "hex_value c = None" "url_safe (c # b)"
  shows "parse_target (status_path (a @ CHR ''%'' # c # b)) = BadUrl"
proof -
  have safe: "url_safe (''/api/v1/pods/'' @ a)" "url_safe (c # b @ ''/status'')" using assms by simp_all
  let ?s = "(''/api/v1/pods/'' @ a) @ CHR ''%'' # c # b @ ''/status''"
  have "CHR ''#'' \<notin> set ?s" "CHR ''?'' \<notin> set ?s"
    using url_safe_chars [OF safe(1)] url_safe_chars [OF safe(2)] by auto
  moreover have "CHR ''%'' \<notin> set (''/api/v1/pods/'' @ a)"
    using safe(1) by (auto simp: url_safe_def list_all_iff url_char_def)
  ultimately have "parse_target ?s = BadUrl"
    using unescape_bad [OF _ assms(2), of "''/api/v1/pods/'' @ a" False "b @ ''/status''"]
    by (simp add: parse_target_def cut_at_absent)
  then show ?thesis by (simp add: status_path_def)
qed

end
