(* ===== verification/Float64.thy ===== *)
theory Float64
  imports Json "HOL-Library.Log_Nat"
begin

text \<open>
  Go's \<open>float64\<close> as a rational: an operation of the sources is the exact operation followed by
  \<open>f64\<close>, rounding to nearest with 53 bits of significand, ties to even. The exponent range is not
  bounded: overflow to infinity and gradual underflow are outside the model, except that decoding
  a JSON number beyond the largest \<open>float64\<close> is an error, as in encoding/json.
\<close>

text \<open>The exponent of a positive number: \<open>2 powi ilog2 x \<le> x < 2 powi (ilog2 x + 1)\<close>.\<close>

definition ilog2 :: "rat \<Rightarrow> int" where
  "ilog2 x = (if 1 \<le> x then int (floorlog 2 (nat \<lfloor>x\<rfloor>)) - 1
              else - int (floorlog 2 (nat (\<lceil>1 / x\<rceil> - 1))))"

definition round_even :: "rat \<Rightarrow> int" where
  "round_even x =
    (let n = \<lfloor>x\<rfloor>; d = x - of_int n in
     if d < 1 / 2 then n else if d > 1 / 2 then n + 1 else if even n then n else n + 1)"

definition f64_pos :: "rat \<Rightarrow> rat" where
  "f64_pos x = (let e = ilog2 x - 52 in of_int (round_even (x / 2 powi e)) * 2 powi e)"

definition f64 :: "rat \<Rightarrow> rat" where
  "f64 x = (if x = 0 then 0 else if x < 0 then - f64_pos (- x) else f64_pos x)"

text \<open>The conversion \<open>int(x)\<close>: towards zero; out of range it is the smallest int on amd64.\<close>

definition to_int64 :: "rat \<Rightarrow> int" where
  "to_int64 x =
    (let n = (if x < 0 then - \<lfloor>- x\<rfloor> else \<lfloor>x\<rfloor>) in if int64_ok n then n else - (2 ^ 63))"

definition Ceil :: "rat \<Rightarrow> rat" where
  "Ceil x = of_int \<lceil>x\<rceil>"

text \<open>The bound of the finite numbers.\<close>

definition float_bound :: rat where
  "float_bound = 2 ^ 1024"

definition dec_float :: "rat dec" where
  "dec_float j old =
    (let num = (\<lambda>r. if \<bar>f64 r\<bar> < float_bound then (f64 r, True) else (old, False)) in
     case j of JInt i \<Rightarrow> num (of_int i) | JDec r \<Rightarrow> num r | JNull \<Rightarrow> (old, True) | _ \<Rightarrow> (old, False))"

definition enc_float :: "rat \<Rightarrow> json" where
  "enc_float r = (if of_int \<lfloor>r\<rfloor> = r then JInt \<lfloor>r\<rfloor> else JDec r)"

definition wf_float :: "rat \<Rightarrow> bool" where
  "wf_float r \<longleftrightarrow> f64 r = r \<and> \<bar>r\<bar> < float_bound"

lemma float_roundtrip [simp]: "wf_float r \<Longrightarrow> dec_float (enc_float r) old = (r, True)"
  by (auto simp: wf_float_def dec_float_def enc_float_def Let_def)

section \<open>Rounding\<close>

lemma bitlen_lower: "0 < n \<Longrightarrow> 2 ^ (floorlog 2 n - 1) \<le> n"
  using floorlog_bounds [of n 2] by simp

lemma bitlen_upper: "n < 2 ^ floorlog 2 n"
  using floorlog_bounds [of n 2] by (cases n) auto

lemma ilog2_le:
  assumes "0 < x"
  shows "2 powi ilog2 x \<le> x"
proof (cases "1 \<le> x")
  case True
  let ?n = "nat \<lfloor>x\<rfloor>"
  have n: "0 < ?n" using True by simp
  then have pos: "0 < floorlog 2 ?n" by (simp add: floorlog_def)
  have "(2::rat) ^ (floorlog 2 ?n - 1) = of_nat (2 ^ (floorlog 2 ?n - 1))" by simp
  also have "\<dots> \<le> of_nat ?n" using bitlen_lower [OF n] of_nat_le_iff by blast
  also have "\<dots> \<le> x" using True by (simp add: of_nat_nat)
  finally show ?thesis using True pos by (simp add: ilog2_def power_int_def nat_diff_distrib)
next
  case False
  let ?n = "nat (\<lceil>1 / x\<rceil> - 1)"
  have "1 / x \<le> of_int \<lceil>1 / x\<rceil>" by simp
  also have "\<dots> \<le> of_nat (Suc ?n)" by simp
  also have "\<dots> \<le> of_nat (2 ^ floorlog 2 ?n)" using bitlen_upper [of ?n] of_nat_le_iff [where 'a = rat] by (metis Suc_leI)
  finally have "1 / x \<le> 2 ^ floorlog 2 ?n" by simp
  then have "1 / 2 ^ floorlog 2 ?n \<le> x" using assms by (simp add: field_simps)
  then show ?thesis using False by (simp add: ilog2_def power_int_minus divide_inverse)
qed

lemma round_even_error: "\<bar>of_int (round_even x) - x\<bar> \<le> 1 / 2"
proof -
  have "of_int \<lfloor>x\<rfloor> \<le> x" "x < of_int \<lfloor>x\<rfloor> + 1" by linarith+
  then show ?thesis by (auto simp: round_even_def Let_def abs_le_iff)
qed

lemma round_even_int [simp]: "round_even (of_int n) = n"
  by (simp add: round_even_def)

lemma f64_pos_error:
  assumes "0 < x"
  shows "\<bar>f64_pos x - x\<bar> \<le> x * (1 / 2 ^ 53)"
proof -
  let ?e = "ilog2 x - 52"
  let ?u = "2 powi ?e :: rat"
  have u: "0 < ?u" by simp
  have "f64_pos x - x = (of_int (round_even (x / ?u)) - x / ?u) * ?u"
    by (simp add: f64_pos_def Let_def left_diff_distrib)
  then have "\<bar>f64_pos x - x\<bar> = \<bar>of_int (round_even (x / ?u)) - x / ?u\<bar> * ?u"
    by (simp add: abs_mult)
  also have "\<dots> \<le> 1 / 2 * ?u" using round_even_error by (rule mult_right_mono) simp
  also have "\<dots> = 2 powi ilog2 x * (1 / 2 ^ 53)"
    by (simp add: power_int_diff)
  also have "\<dots> \<le> x * (1 / 2 ^ 53)" using ilog2_le [OF assms] by simp
  finally show ?thesis .
qed

lemma f64_error: "\<bar>f64 x - x\<bar> \<le> \<bar>x\<bar> * (1 / 2 ^ 53)"
proof -
  consider "x = 0" | "0 < x" | "x < 0" by linarith
  then show ?thesis
  proof cases
    case 3
    then have "\<bar>f64_pos (- x) + x\<bar> \<le> - x * (1 / 2 ^ 53)" using f64_pos_error [of "- x"] by simp
    moreover have "\<bar>- f64_pos (- x) - x\<bar> = \<bar>f64_pos (- x) + x\<bar>" by linarith
    ultimately show ?thesis using 3 by (simp add: f64_def)
  qed (use f64_pos_error [of x] in \<open>auto simp: f64_def\<close>)
qed

lemma f64_0 [simp]: "f64 0 = 0"
  by (simp add: f64_def)

lemma f64_int:
  assumes "\<bar>n\<bar> < 2 ^ 53"
  shows "f64 (of_int n) = of_int n"
proof -
  have pos: "f64_pos (of_int n) = of_int n" if n: "0 < n" "n < 2 ^ 53" for n
  proof -
    let ?k = "floorlog 2 (nat n) - 1"
    have "nat n < 2 ^ 53" using n by (metis nat_less_iff of_nat_numeral of_nat_power order_less_imp_le zless_nat_eq_int_zless)
    then have "floorlog 2 (nat n) \<le> 53" by (intro floorlog_leI) simp_all
    moreover have "0 < floorlog 2 (nat n)" using n by (simp add: floorlog_def)
    ultimately have j: "ilog2 (of_int n) - 52 = - int (53 - floorlog 2 (nat n))"
      using n by (simp add: ilog2_def)
    define j where "j = 53 - floorlog 2 (nat n)"
    note j = j [folded j_def]
    have "of_int n / 2 powi (- int j) = (of_int (n * 2 ^ j) :: rat)" by (simp add: power_int_minus divide_inverse)
    then have "round_even (of_int n / 2 powi (- int j)) = n * 2 ^ j" by (metis round_even_int)
    then show ?thesis unfolding f64_pos_def Let_def j by (simp add: power_int_minus)
  qed
  show ?thesis using pos [of n] pos [of "- n"] assms by (auto simp: f64_def)
qed

lemma f64_nonneg: "0 \<le> x \<Longrightarrow> 0 \<le> f64 x"
proof -
  assume x: "0 \<le> x"
  have "\<bar>f64 x - x\<bar> \<le> x * 1" using f64_error [of x] x by (simp add: field_simps)
  then show ?thesis by linarith
qed

section \<open>Evaluating a rounding\<close>

lemma floorlog_small: "floorlog 2 0 = 0" "floorlog 2 (Suc 0) = 1" "floorlog 2 3 = 2" "floorlog 2 7 = 3"
proof -
  show 0: "floorlog 2 0 = 0" by (simp add: floorlog_def)
  show 1: "floorlog 2 (Suc 0) = 1" by (subst compute_floorlog) (simp add: 0)
  show 3: "floorlog 2 3 = 2" by (subst compute_floorlog) (simp add: 1)
  show "floorlog 2 7 = 3" by (subst compute_floorlog) (simp add: 3)
qed

lemma round_even_near: "\<bar>y - of_int n\<bar> < 1 / 2 \<Longrightarrow> round_even y = n"
proof -
  assume "\<bar>y - of_int n\<bar> < 1 / 2"
  then have near: "y - of_int n < 1 / 2" "of_int n - y < 1 / 2" by linarith+
  show ?thesis
  proof (cases "of_int n \<le> y")
    case True
    with near have "\<lfloor>y\<rfloor> = n" by (intro floor_unique) linarith+
    with near show ?thesis by (simp add: round_even_def Let_def)
  next
    case False
    have "of_int (n - 1) = (of_int n - 1 :: rat)" by simp
    with False near have "\<lfloor>y\<rfloor> = n - 1" by (intro floor_unique) linarith+
    with near show ?thesis by (simp add: round_even_def Let_def)
  qed
qed

lemma f64_eval:
  assumes "0 < x" "ilog2 x = 52 - int k" "\<bar>x * 2 ^ k - of_int m\<bar> < 1 / 2"
  shows "f64 x = of_int m / 2 ^ k"
proof -
  have "round_even (x * 2 ^ k) = m" by (rule round_even_near) (rule assms(3))
  with assms(1,2) show ?thesis
    by (simp add: f64_def f64_pos_def Let_def power_int_minus divide_inverse)
qed

end
