(* ===== verification/Hpa.thy ===== *)
theory Hpa
  imports Controllers Float64 Lease
begin

text \<open>
  internal/hpa/hpa.go: the horizontal pod autoscaler, and the \<open>PodMetric\<close> of internal/api it
  reads from the metrics server. \<open>now\<close> is the clock of a world; the metrics server is a transport
  on the same world, absent when the URL is unset.
\<close>

section \<open>Pod metrics\<close>

record PodMetric =
  pm_podName :: string
  pm_nodeName :: string
  pm_cpuPct :: rat

definition zero_PodMetric :: PodMetric where
  "zero_PodMetric = \<lparr>pm_podName = [], pm_nodeName = [], pm_cpuPct = 0\<rparr>"

definition wf_PodMetric :: "PodMetric \<Rightarrow> bool" where
  "wf_PodMetric x \<longleftrightarrow> wf_float (pm_cpuPct x)"

definition enc_PodMetric :: "PodMetric \<Rightarrow> json" where
  "enc_PodMetric x = JObj (concat [
     mem ''podName'' (JStr (pm_podName x)),
     mem ''nodeName'' (JStr (pm_nodeName x)),
     mem ''cpuPct'' (enc_float (pm_cpuPct x))])"

definition dec_PodMetric :: "PodMetric dec" where
  "dec_PodMetric = dec_struct [
     (''podName'', fld dec_string pm_podName (\<lambda>v r. r\<lparr>pm_podName := v\<rparr>)),
     (''nodeName'', fld dec_string pm_nodeName (\<lambda>v r. r\<lparr>pm_nodeName := v\<rparr>)),
     (''cpuPct'', fld dec_float pm_cpuPct (\<lambda>v r. r\<lparr>pm_cpuPct := v\<rparr>))]"

lemma PodMetric_roundtrip [simp]: "wf_PodMetric x \<Longrightarrow> dec_PodMetric (enc_PodMetric x) zero_PodMetric = (x, True)"
  by (cases x) (simp add: wf_PodMetric_def enc_PodMetric_def dec_PodMetric_def zero_PodMetric_def codec_simps)

interpretation PodMetric_codec: codec enc_PodMetric dec_PodMetric zero_PodMetric wf_PodMetric
  by unfold_locales simp

section \<open>The controller\<close>

record 'w hpa_controller =
  hc_Client :: "'w Client"
  hc_Metrics :: "'w transport option"
  hc_CooldownDown :: int

definition NewHPA :: "'w Client \<Rightarrow> 'w transport option \<Rightarrow> 'w hpa_controller" where
  "NewHPA c m = \<lparr>hc_Client = c, hc_Metrics = m, hc_CooldownDown = 15 * second\<rparr>"

definition averageCPU :: "Pod list \<Rightarrow> PodMetric list \<Rightarrow> rat" where
  "averageCPU pods metrics =
    (if pods = [] then 0
     else
       (let byName = fold (\<lambda>m f. f(pm_podName m \<mapsto> pm_cpuPct m)) metrics Map.empty;
            (total, n) = fold (\<lambda>p (total, n). case byName (md_name (pod_metadata p)) of
                None \<Rightarrow> (total, n) | Some v \<Rightarrow> (f64 (total + v), n + 1)) pods (0, 0 :: int) in
        if n = 0 then 0 else f64 (total / f64 (of_int n))))"

datatype metrics_error = MetricsUnset | MetricsDown string | MetricsStatus int | MetricsBroken

definition fetchMetrics :: "'w hpa_controller \<Rightarrow> 'w \<Rightarrow> (metrics_error + PodMetric list) \<times> 'w" where
  "fetchMetrics hc w =
    (case hc_Metrics hc of
       None \<Rightarrow> (Inl MetricsUnset, w)
     | Some T \<Rightarrow>
        (case T \<lparr>req_method = ''GET'', req_path = ''/apis/metrics.mk.io/v1/pods'', req_query = [], req_auth = [],
                  req_body = Malformed\<rparr> w of
           (Inl e, w) \<Rightarrow> (Inl (MetricsDown e), w)
         | (Inr r, w) \<Rightarrow>
            (if resp_code r \<noteq> 200 then (Inl (MetricsStatus (resp_code r)), w)
             else (case decode_payload (dec_items dec_PodMetric zero_PodMetric) [] (resp_body r) of
                     Inl _ \<Rightarrow> (Inl MetricsBroken, w) | Inr items \<Rightarrow> (Inr items, w)))))"

definition find_deployment :: "string \<Rightarrow> Deployment list \<Rightarrow> Deployment option" where
  "find_deployment name deps = find (\<lambda>d. md_name (dep_metadata d) = name) deps"

text \<open>The error of \<open>getDeployment\<close>, whichever it is, only ends the pass.\<close>

definition getDeployment :: "'w hpa_controller \<Rightarrow> string \<Rightarrow> 'w \<Rightarrow> Deployment option \<times> 'w" where
  "getDeployment hc name w =
    (case client_ListDeployments (hc_Client hc) w of
       (Inl _, w) \<Rightarrow> (None, w) | (Inr deps, w) \<Rightarrow> (find_deployment name deps, w))"

definition with_replicas :: "Deployment \<Rightarrow> int \<Rightarrow> Deployment" where
  "with_replicas d n = d\<lparr>dep_spec := (dep_spec d)\<lparr>depspec_replicas := n\<rparr>\<rparr>"

definition scaleDeployment :: "'w hpa_controller \<Rightarrow> Deployment \<Rightarrow> int \<Rightarrow> (unit, 'w) client_call" where
  "scaleDeployment hc d replicas w =
    (case client_CreateDeployment (hc_Client hc) (with_replicas d replicas) w of
       (Inl e, w) \<Rightarrow> (Inl e, w) | (Inr _, w) \<Rightarrow> (Inr (), w))"

definition target_of :: "HPA \<Rightarrow> int" where
  "target_of h =
    (let t = hm_targetAverageValue (hpaspec_metric (hpa_spec h)) in if t \<le> 0 then 50 else t)"

text \<open>Lines 102 to 122: the number of replicas wanted, before and after clamping.\<close>

definition raw_desired :: "int \<Rightarrow> rat \<Rightarrow> int \<Rightarrow> int \<Rightarrow> int" where
  "raw_desired current avg target minr =
    (if current > 0 \<and> avg > 0 then
       (let ratio = f64 (avg / f64 (of_int target)) in to_int64 (Ceil (f64 (f64 (of_int current) * ratio))))
     else if avg = 0 \<and> current > minr then minr
     else current)"

definition desired_replicas :: "int \<Rightarrow> rat \<Rightarrow> HPA \<Rightarrow> int" where
  "desired_replicas current avg h =
    (let minr = hpaspec_minReplicas (hpa_spec h); maxr = hpaspec_maxReplicas (hpa_spec h);
         desired = raw_desired current avg (target_of h) minr;
         desired = (if desired < minr then minr else desired) in
     if desired > maxr then maxr else desired)"

definition in_cooldown :: "int \<Rightarrow> HPA \<Rightarrow> time \<Rightarrow> bool" where
  "in_cooldown cooldown h t \<longleftrightarrow>
     \<not> IsZero (hpastatus_lastScaleTime (hpa_status h)) \<and>
     time_Sub t (hpastatus_lastScaleTime (hpa_status h)) < cooldown"

definition hpa_owned :: "Deployment \<Rightarrow> Pod list \<Rightarrow> Pod list" where
  "hpa_owned dep pods = ownedPods (md_name (dep_metadata dep) @ ''-rs'') pods"

definition hpa_reconcileOne :: "'w hpa_controller \<Rightarrow> ('w \<Rightarrow> time) \<Rightarrow> PodMetric list \<Rightarrow> HPA \<Rightarrow> 'w \<Rightarrow> 'w" where
  "hpa_reconcileOne hc now metrics h w =
    (if str_kind (hpaspec_scaleTargetRef (hpa_spec h)) \<noteq> ''Deployment'' then w
     else case getDeployment hc (str_name (hpaspec_scaleTargetRef (hpa_spec h))) w of
       (None, w) \<Rightarrow> w
     | (Some dep, w) \<Rightarrow>
        (case client_ListPods (hc_Client hc) w of
           (Inl _, w) \<Rightarrow> w
         | (Inr pods, w) \<Rightarrow>
            (let current = depspec_replicas (dep_spec dep);
                 avg = averageCPU (hpa_owned dep pods) metrics;
                 desired = desired_replicas current avg h;
                 status = zero_HPAStatus\<lparr>hpastatus_currentReplicas := current, hpastatus_desiredReplicas := desired,
                   hpastatus_currentAverageValue := to_int64 avg,
                   hpastatus_lastScaleTime := hpastatus_lastScaleTime (hpa_status h)\<rparr>;
                 (status, w) =
                  (if desired = current then (status, w)
                   else if desired < current \<and> in_cooldown (hc_CooldownDown hc) h (now w) then (status, w)
                   else case scaleDeployment hc dep desired w of
                     (Inl _, w) \<Rightarrow> (status, w)
                   | (Inr _, w) \<Rightarrow>
                      (status\<lparr>hpastatus_lastScaleTime := now w, hpastatus_currentReplicas := desired\<rparr>, w)) in
             snd (client_UpdateHPAStatus (hc_Client hc) (md_name (hpa_metadata h)) status w))))"

definition hpa_reconcileAll :: "'w hpa_controller \<Rightarrow> ('w \<Rightarrow> time) \<Rightarrow> 'w \<Rightarrow> (client_error + unit) \<times> 'w" where
  "hpa_reconcileAll hc now w =
    (case client_ListHPAs (hc_Client hc) w of
       (Inl e, w) \<Rightarrow> (Inl e, w)
     | (Inr hpas, w) \<Rightarrow>
        (case fetchMetrics hc w of
           (Inl _, w) \<Rightarrow> (Inr (), fold (hpa_reconcileOne hc now []) hpas w)
         | (Inr metrics, w) \<Rightarrow> (Inr (), fold (hpa_reconcileOne hc now metrics) hpas w)))"

definition hpa_Run :: "'w hpa_controller \<Rightarrow> (nat \<Rightarrow> 'w \<Rightarrow> time) \<Rightarrow> 'w loop_event list \<Rightarrow> 'w \<Rightarrow> 'w option" where
  "hpa_Run hc now = loop_run (\<lambda>i w. Some (snd (hpa_reconcileAll hc (now i) w))) 0"

section \<open>The number of replicas\<close>

lemma desired_bounds:
  "hpaspec_minReplicas (hpa_spec h) \<le> hpaspec_maxReplicas (hpa_spec h) \<Longrightarrow>
   hpaspec_minReplicas (hpa_spec h) \<le> desired_replicas current avg h \<and>
   desired_replicas current avg h \<le> hpaspec_maxReplicas (hpa_spec h)"
  by (auto simp: desired_replicas_def Let_def)

text \<open>Where the bounds cross, the maximum wins.\<close>

lemma desired_le_max: "desired_replicas current avg h \<le> hpaspec_maxReplicas (hpa_spec h)"
  by (simp add: desired_replicas_def Let_def)

text \<open>The average is the exact one up to rounding: two roundings of the product.\<close>

lemma ratio_error:
  assumes "0 < a" "0 < c"
  shows "\<bar>f64 (c * f64 a) - c * a\<bar> \<le> c * a * (1 / 2 ^ 51)"
proof -
  let ?u = "1 / 2 ^ 53 :: rat"
  have 1: "\<bar>f64 a - a\<bar> \<le> a * ?u" using f64_error [of a] assms by simp
  moreover have "a * ?u \<le> a * 1" using assms by (intro mult_left_mono) simp_all
  ultimately have r: "\<bar>f64 a\<bar> \<le> a * 2" using assms(1) by linarith
  have 2: "\<bar>f64 (c * f64 a) - c * f64 a\<bar> \<le> c * \<bar>f64 a\<bar> * ?u"
    using f64_error [of "c * f64 a"] assms by (simp add: abs_mult)
  have 3: "c * \<bar>f64 a\<bar> * ?u \<le> c * (a * 2) * ?u"
    using r assms by (intro mult_right_mono mult_left_mono) simp_all
  have "\<bar>c * f64 a - c * a\<bar> = c * \<bar>f64 a - a\<bar>"
    using assms by (simp add: abs_mult right_diff_distrib [symmetric])
  also have "\<dots> \<le> c * (a * ?u)" using 1 assms by (intro mult_left_mono) simp_all
  finally have 4: "\<bar>c * f64 a - c * a\<bar> \<le> c * (a * ?u)" .
  have "\<bar>f64 (c * f64 a) - c * a\<bar> \<le> \<bar>f64 (c * f64 a) - c * f64 a\<bar> + \<bar>c * f64 a - c * a\<bar>"
    by simp
  also have "\<dots> \<le> c * (a * 2) * ?u + c * (a * ?u)"
    by (rule add_mono [OF order_trans [OF 2 3] 4])
  also have "\<dots> = c * a * (3 / 2 ^ 53)" by (simp add: field_simps)
  also have "\<dots> \<le> c * a * (1 / 2 ^ 51)" using assms by (intro mult_left_mono) simp_all
  finally show ?thesis .
qed

lemma ceiling_near: "\<bar>x - y\<bar> < (1 :: rat) \<Longrightarrow> \<bar>\<lceil>x\<rceil> - \<lceil>y\<rceil>\<bar> \<le> 1"
  by (simp add: abs_le_iff abs_less_iff) linarith

text \<open>
  The formula of the package comment, \<open>ceil(currentAvg / targetAvg * currentReplicas)\<close>, holds up
  to one replica for every count and target that fit 32 bits and loads up to 100000 %.
\<close>

lemma raw_desired_formula:
  assumes "0 < current" "current < 2 ^ 31" "0 < target" "target < 2 ^ 31" "0 < avg" "avg \<le> 100000"
  shows "\<bar>raw_desired current avg target minr - \<lceil>of_int current * avg / of_int target\<rceil>\<bar> \<le> 1"
proof -
  let ?x = "of_int current * avg / of_int target :: rat"
  let ?c = "f64 (of_int current * f64 (avg / of_int target))"
  have "of_int current < (2 ^ 31 :: rat)" using assms(2) by (metis of_int_less_iff of_int_numeral of_int_power)
  then have cur: "of_int current \<le> (2147483648 :: rat)" by simp
  have "?x \<le> of_int current * avg" using assms by (simp add: field_simps)
  also have "\<dots> \<le> 2147483648 * 100000" using cur assms by (intro mult_mono) simp_all
  finally have x: "?x \<le> 214748364800000" by simp
  have "\<bar>?c - ?x\<bar> \<le> ?x * (1 / 2 ^ 51)"
    using ratio_error [of "avg / of_int target" "of_int current"] assms by simp
  also have "\<dots> \<le> 214748364800000 * (1 / 2 ^ 51)" using x by (rule mult_right_mono) simp
  also have "\<dots> < 1" by simp
  finally have near: "\<bar>?c - ?x\<bar> < 1" .
  then have ceil: "\<bar>\<lceil>?c\<rceil> - \<lceil>?x\<rceil>\<bar> \<le> 1" by (rule ceiling_near)
  have "0 \<le> ?c" using assms by (intro f64_nonneg mult_nonneg_nonneg) simp_all
  moreover have "?c \<le> 214748364800001" using near x by linarith
  ultimately have "int64_ok \<lceil>?c\<rceil>" "0 \<le> \<lceil>?c\<rceil>" by (simp_all add: int64_ok_def)
  then have "to_int64 (Ceil ?c) = \<lceil>?c\<rceil>" by (simp add: to_int64_def Ceil_def)
  then have "raw_desired current avg target minr = \<lceil>?c\<rceil>"
    using assms f64_int [of current] f64_int [of target] by (simp add: raw_desired_def)
  with ceil show ?thesis by simp
qed

text \<open>No load, or no metrics at all, scales down to the minimum.\<close>

lemma averageCPU_none: "averageCPU pods [] = 0"
proof -
  have "fold (\<lambda>p (total, n). case Map.empty (md_name (pod_metadata p)) of None \<Rightarrow> (total, n)
      | Some v \<Rightarrow> (f64 (total + v), n + 1)) pods (0, 0 :: int) = (0, 0)"
    by (induction pods) simp_all
  then show ?thesis by (simp add: averageCPU_def)
qed

lemma desired_without_load:
  "hpaspec_minReplicas (hpa_spec h) \<le> current \<Longrightarrow>
   hpaspec_minReplicas (hpa_spec h) \<le> hpaspec_maxReplicas (hpa_spec h) \<Longrightarrow>
   desired_replicas current 0 h = hpaspec_minReplicas (hpa_spec h)"
  by (auto simp: desired_replicas_def raw_desired_def Let_def)

text \<open>The rounding is observable: 25 replicas at 14 percent of a target of 50 percent.\<close>

lemma rounding_overshoots:
  "raw_desired 25 14 50 1 = 8 \<and> \<lceil>of_int 25 * (14 :: rat) / of_int 50\<rceil> = 7"
proof -
  have ceil: "\<lceil>25 / 7 :: rat\<rceil> = 4" by (simp add: ceiling_unique)
  have "ilog2 (7 / 25) = -2"
    by (simp add: ilog2_def ceil floorlog_small)
  then have ratio: "f64 (14 / 50) = 5044031582654956 / 2 ^ 54"
    using f64_eval [of "14 / 50" 54 5044031582654956] by simp
  have "\<lfloor>25 * (5044031582654956 / 2 ^ 54) :: rat\<rfloor> = 7" by (simp add: floor_unique)
  then have "ilog2 (25 * (5044031582654956 / 2 ^ 54)) = 2"
    by (simp add: ilog2_def floorlog_small)
  then have "f64 (25 * (5044031582654956 / 2 ^ 54)) = 7881299347898369 / 2 ^ 50"
    using f64_eval [of "25 * (5044031582654956 / 2 ^ 54)" 50 7881299347898369] by simp
  note step = this
  have ints: "f64 (of_int 25) = 25" "f64 (of_int 50) = 50" using f64_int [of 25] f64_int [of 50] by simp_all
  have "raw_desired 25 14 50 1 = to_int64 (Ceil (7881299347898369 / 2 ^ 50))"
    unfolding raw_desired_def Let_def ints ratio step by simp
  moreover have "\<lceil>7881299347898369 / 2 ^ 50 :: rat\<rceil> = 8" by (simp add: ceiling_unique)
  ultimately show ?thesis by (simp add: to_int64_def Ceil_def int64_ok_def)
qed

end
