(* ===== verification/Sockets.thy ===== *)
theory Sockets
  imports Client
begin

text \<open>
  What kube-proxy and the kubelet use of Go's net package: \<open>net.Listen\<close> opens a listener at an address or
  fails, \<open>Close\<close> closes it. The contract \<open>listening\<close> says what they rely on; \<open>os\<close> is one host that keeps it,
  with a table of open listeners. A listener is its number and the address it is bound to. Addresses are
  compared as they are written, so a wildcard address overlaps no other.
\<close>

type_synonym listener = "nat \<times> string \<times> int"

definition ln_port :: "listener \<Rightarrow> int" where
  "ln_port l = snd (snd l)"

record 'w sockets =
  sk_listen :: "string \<Rightarrow> int \<Rightarrow> 'w \<Rightarrow> (string + listener) \<times> 'w"
  sk_close :: "listener \<Rightarrow> 'w \<Rightarrow> 'w"

text \<open>Port 0 asks the host for a free port.\<close>

locale listening =
  fixes sk :: "'w sockets" and opened :: "'w \<Rightarrow> listener set" and fits :: "'w \<Rightarrow> bool"
  assumes listen_opens: "fits w \<Longrightarrow> sk_listen sk ip port w = (Inr l, w') \<Longrightarrow>
      fits w' \<and> l \<notin> opened w \<and> opened w' = insert l (opened w) \<and> fst (snd l) = ip \<and> (port \<noteq> 0 \<longrightarrow> ln_port l = port)"
    and listen_fails: "fits w \<Longrightarrow> sk_listen sk ip port w = (Inl e, w') \<Longrightarrow> fits w' \<and> opened w' = opened w"
    and close_closes: "fits w \<Longrightarrow> fits (sk_close sk l w) \<and> opened (sk_close sk l w) = opened w - {l}"

text \<open>
  A table of servers, such as the stub servers of the kubelet or the entries of kube-proxy: one open listener
  for each row, and no other listener open.
\<close>

definition serving :: "('w \<Rightarrow> listener set) \<Rightarrow> ('k \<times> listener) list \<Rightarrow> 'w \<Rightarrow> bool" where
  "serving opened rows w \<longleftrightarrow> distinct (map fst rows) \<and> distinct (map snd rows) \<and> opened w = snd ` set rows"

context listening
begin

lemma close_all:
  "fits w \<Longrightarrow> fits (fold (\<lambda>(n, li) w. if n \<in> seen then w else sk_close sk li w) xs w) \<and>
   opened (fold (\<lambda>(n, li) w. if n \<in> seen then w else sk_close sk li w) xs w) =
   opened w - {li. \<exists>n. (n, li) \<in> set xs \<and> n \<notin> seen}"
proof (induction xs arbitrary: w)
  case Nil
  then show ?case by simp
next
  case (Cons x xs)
  obtain n li where x: "x = (n, li)" by (cases x)
  show ?case
  proof (cases "n \<in> seen")
    case True
    with Cons x show ?thesis by auto
  next
    case False
    with Cons.IH [of "sk_close sk li w"] close_closes [OF Cons.prems, of li] x show ?thesis by auto
  qed
qed

text \<open>Closing the listeners of the rows outside \<open>seen\<close>, and dropping those rows.\<close>

lemma serving_close:
  assumes "fits w" "serving opened rows w"
    and "w' = fold (\<lambda>(n, li) w. if n \<in> seen then w else sk_close sk li w) rows w"
  shows "fits w' \<and> serving opened (filter (\<lambda>(n, _). n \<in> seen) rows) w'"
proof -
  let ?rows' = "filter (\<lambda>(n, _). n \<in> seen) rows"
  have inj: "distinct (map fst rows)" "distinct (map snd rows)" "opened w = snd ` set rows"
    using assms(2) by (auto simp: serving_def)
  have "m = n" if "(m, li) \<in> set rows" "(n, li) \<in> set rows" for m n li
    using inj(2) that by (metis distinct_map inj_onD snd_conv fst_conv)
  then have "snd ` set rows - {li. \<exists>n. (n, li) \<in> set rows \<and> n \<notin> seen} = snd ` set ?rows'"
    by (auto simp: image_iff) blast+
  moreover have "distinct (map fst ?rows')" "distinct (map snd ?rows')"
    using inj by (simp_all add: distinct_map_filter)
  ultimately show ?thesis
    using close_all [OF assms(1), of seen rows] inj(3) by (simp add: serving_def assms(3))
qed

text \<open>A new row with a new listener.\<close>

lemma serving_open:
  assumes "fits w" "serving opened rows w" "map_of rows n = None" "sk_listen sk ip port w = (Inr li, w')"
  shows "fits w' \<and> serving opened (AList.update n li rows) w' \<and> fst (snd li) = ip \<and> (port \<noteq> 0 \<longrightarrow> ln_port li = port)"
proof -
  have new: "n \<notin> fst ` set rows" using assms(3) by (simp add: map_of_eq_None_iff)
  then have upd: "AList.update n li rows = rows @ [(n, li)]" by (induction rows) auto
  with listen_opens [OF assms(1,4)] assms(2) new show ?thesis by (auto simp: serving_def upd)
qed

end

section \<open>A host\<close>

text \<open>
  \<open>os_bindable\<close> tells which addresses the host lets the process bind (those configured on an interface, not
  reserved and not taken by another process), \<open>os_pick\<close> the port it picks when asked for a free one.
\<close>

record os =
  os_open :: "listener list"
  os_next :: nat
  os_bindable :: "string \<Rightarrow> int \<Rightarrow> bool"
  os_pick :: "nat \<Rightarrow> int"

definition os_listen :: "string \<Rightarrow> int \<Rightarrow> os \<Rightarrow> (string + listener) \<times> os" where
  "os_listen ip port os =
    (let addr = (ip, if port = 0 then os_pick os (os_next os) else port) in
     if \<not> os_bindable os ip port then (Inl ''bind: cannot assign requested address'', os)
     else if addr \<in> snd ` set (os_open os) then (Inl ''bind: address already in use'', os)
     else (Inr (os_next os, addr), os\<lparr>os_open := (os_next os, addr) # os_open os, os_next := Suc (os_next os)\<rparr>))"

definition os_close :: "listener \<Rightarrow> os \<Rightarrow> os" where
  "os_close l os = os\<lparr>os_open := removeAll l (os_open os)\<rparr>"

definition os_ok :: "os \<Rightarrow> bool" where
  "os_ok os \<longleftrightarrow> (\<forall>l \<in> set (os_open os). fst l < os_next os)"

text \<open>A process on the host, in a world of its own: its requests do not touch the host's table.\<close>

definition host_sockets :: "('w \<times> os) sockets" where
  "host_sockets =
    \<lparr>sk_listen = (\<lambda>ip port (w, os). case os_listen ip port os of (r, os) \<Rightarrow> (r, (w, os))),
     sk_close = (\<lambda>l (w, os). (w, os_close l os))\<rparr>"

definition hosted :: "'w transport \<Rightarrow> ('w \<times> os) transport" where
  "hosted T req s = (case s of (w, os) \<Rightarrow> (case T req w of (r, w) \<Rightarrow> (r, (w, os))))"

interpretation host: listening host_sockets "\<lambda>s. set (os_open (snd s))" "\<lambda>s. os_ok (snd s)"
  by unfold_locales
    (auto simp: host_sockets_def os_listen_def os_close_def os_ok_def ln_port_def Let_def less_Suc_eq split: if_splits prod.splits,
      (metis fst_conv)+)

lemma do_out_hosted:
  "do_out (New (hosted T)) m p b d z (w, os) = (case do_out (New T) m p b d z w of (r, w) \<Rightarrow> (r, (w, os)))"
  by (auto simp: do_out_def do_http_def New_def hosted_def Let_def split: prod.splits sum.splits target.splits)

lemma os_listen_bound:
  assumes "port \<noteq> 0" "os_listen ip port os = (r, os')" "os_bindable os ip port" "\<not> (\<exists>i. (i, ip, port) \<in> set (os_open os))"
  shows "r = Inr (os_next os, ip, port)"
  using assms by (auto simp: os_listen_def Let_def split: if_splits)

end
