(* ===== verification/Kubelet.thy ===== *)
theory Kubelet
  imports Scheduler Hpa Sockets
begin

text \<open>
  cmd/kubelet/main.go: one synchronisation of a node, the container runtimes and the metrics
  endpoint. Running a command is an operation of the world, given by \<open>exec\<close> (the error if any, standard
  output and error), and so are opening and closing a listener; shutting a stub server down closes its
  listener. The state is the table of stub servers, with the listener of each. A pass is \<open>None\<close> where a
  status write panics.
\<close>

type_synonym 'w exec = "string list \<Rightarrow> 'w \<Rightarrow> (string option \<times> string \<times> string) \<times> 'w"

record 'w runtime =
  rt_exec :: "'w exec"
  rt_sockets :: "'w sockets"
  rt_docker :: bool

type_synonym stubs = "(string \<times> listener) list"

definition dockerRun :: "'w runtime \<Rightarrow> string \<Rightarrow> Container \<Rightarrow> 'w \<Rightarrow> (string + string) \<times> 'w" where
  "dockerRun rt podName c w =
    (let name = ''mk-'' @ podName;
         w = snd (rt_exec rt [''docker'', ''rm'', ''-f'', name] w);
         args = [''run'', ''-d'', ''--name'', name] @ [c_image c] @ c_command c @ c_args c in
     case rt_exec rt (''docker'' # args) w of
       ((Some err, out, errb), w) \<Rightarrow> (Inl (err @ '': '' @ TrimSpace errb), w)
     | ((None, out, errb), w) \<Rightarrow> (Inr (TrimSpace out), w))"

definition echo_text :: "string \<Rightarrow> Container \<Rightarrow> int \<Rightarrow> string" where
  "echo_text podName c port =
    ''[stub-run] pod='' @ podName @ '' image='' @ c_image c @ '' listening=127.0.0.1:'' @ decimal (nat port)"

text \<open>A stub that runs already keeps its port.\<close>

definition stubRun :: "'w runtime \<Rightarrow> string \<Rightarrow> Container \<Rightarrow> stubs \<Rightarrow> 'w
    \<Rightarrow> (string + (string \<times> string \<times> int)) \<times> stubs \<times> 'w" where
  "stubRun rt podName c stubs w =
    (case map_of stubs podName of
       Some li \<Rightarrow> (Inr (''stub-'' @ podName, ''127.0.0.1'', ln_port li), stubs, w)
     | None \<Rightarrow>
        (case sk_listen (rt_sockets rt) ''127.0.0.1'' 0 w of
           (Inl e, w) \<Rightarrow> (Inl (''stub listen: '' @ e), stubs, w)
         | (Inr li, w) \<Rightarrow>
            (let w = snd (rt_exec rt [''echo'', echo_text podName c (ln_port li)] w) in
             (Inr (''stub-'' @ podName, ''127.0.0.1'', ln_port li), AList.update podName li stubs, w))))"

definition start_container :: "'w runtime \<Rightarrow> string \<Rightarrow> Container \<Rightarrow> stubs \<Rightarrow> 'w
    \<Rightarrow> (string + (string \<times> string \<times> int)) \<times> stubs \<times> 'w" where
  "start_container rt podName c stubs w =
    (if rt_docker rt then
       (case dockerRun rt podName c w of
          (Inl e, w) \<Rightarrow> (Inl e, stubs, w) | (Inr cid, w) \<Rightarrow> (Inr (cid, [], 0), stubs, w))
     else stubRun rt podName c stubs w)"

text \<open>The statuses \<open>runPod\<close> reports. After a failed start no container id is known.\<close>

definition failed_status :: "Pod \<Rightarrow> string \<Rightarrow> PodStatus" where
  "failed_status p msg = zero_PodStatus\<lparr>ps_phase := PhaseFailed, ps_nodeName := ps_nodeName (pod_status p), ps_message := msg\<rparr>"

definition running_status :: "Pod \<Rightarrow> string \<times> string \<times> int \<Rightarrow> PodStatus" where
  "running_status p r = (case r of (cid, ip, port) \<Rightarrow>
     zero_PodStatus\<lparr>ps_phase := PhaseRunning, ps_nodeName := ps_nodeName (pod_status p), ps_containerID := cid,
       ps_message := ''started'', ps_podIP := ip, ps_hostPort := port\<rparr>)"

definition report :: "'w transport \<Rightarrow> Pod \<Rightarrow> PodStatus \<Rightarrow> stubs \<Rightarrow> 'w \<Rightarrow> (stubs \<times> 'w) option" where
  "report T p s stubs w = map_option (Pair stubs) (put_pod_status T (md_name (pod_metadata p)) s w)"

definition runPod :: "'w transport \<Rightarrow> 'w runtime \<Rightarrow> Pod \<Rightarrow> stubs \<times> 'w \<Rightarrow> (stubs \<times> 'w) option" where
  "runPod T rt p s =
    (case podspec_containers (pod_spec p) of
       [] \<Rightarrow> report T p (failed_status p ''no containers'') (fst s) (snd s)
     | c # _ \<Rightarrow>
        (case start_container rt (md_name (pod_metadata p)) c (fst s) (snd s) of
           (Inl e, stubs, w) \<Rightarrow> report T p (failed_status p (''run failed: '' @ e)) stubs w
         | (Inr r, stubs, w) \<Rightarrow> report T p (running_status p r) stubs w))"

fun run_scheduled :: "'w transport \<Rightarrow> 'w runtime \<Rightarrow> Pod list \<Rightarrow> stubs \<times> 'w \<Rightarrow> (stubs \<times> 'w) option" where
  "run_scheduled T rt [] s = Some s"
| "run_scheduled T rt (p # ps) s =
    (if ps_phase (pod_status p) = PhaseScheduled then
       (case runPod T rt p s of None \<Rightarrow> None | Some s \<Rightarrow> run_scheduled T rt ps s)
     else run_scheduled T rt ps s)"

definition reap :: "'w runtime \<Rightarrow> string set \<Rightarrow> stubs \<times> 'w \<Rightarrow> stubs \<times> 'w" where
  "reap rt seen s =
    (filter (\<lambda>(n, _). n \<in> seen) (fst s),
     fold (\<lambda>(n, li) w. if n \<in> seen then w else sk_close (rt_sockets rt) li w) (fst s) (snd s))"

definition syncOnce :: "'w transport \<Rightarrow> 'w runtime \<Rightarrow> string \<Rightarrow> stubs \<Rightarrow> 'w
    \<Rightarrow> ((list_error + unit) \<times> stubs \<times> 'w) option" where
  "syncOnce T rt node stubs w =
    (case get_pods T ''nodeName'' node w of
       (Inl e, w) \<Rightarrow> Some (Inl e, stubs, w)
     | (Inr pods, w) \<Rightarrow>
        (case run_scheduled T rt pods (stubs, w) of
           None \<Rightarrow> None
         | Some s \<Rightarrow> Some (Inr (), reap rt (set (map (\<lambda>p. md_name (pod_metadata p)) pods)) s)))"

definition sync_loop :: "'w transport \<Rightarrow> 'w runtime \<Rightarrow> string \<Rightarrow> (stubs \<times> 'w) loop_event list \<Rightarrow> stubs \<times> 'w
    \<Rightarrow> (stubs \<times> 'w) option" where
  "sync_loop T rt node = loop_run (\<lambda>_ s. map_option snd (syncOnce T rt node (fst s) (snd s))) 0"

section \<open>The metrics endpoint\<close>

definition listNodePods :: "'w transport \<Rightarrow> string \<Rightarrow> 'w \<Rightarrow> (list_error + Pod list) \<times> 'w" where
  "listNodePods T node = get_pods T ''nodeName'' node"

definition pod_metric :: "rat \<Rightarrow> string \<Rightarrow> Pod \<Rightarrow> PodMetric" where
  "pod_metric mockCPU node p =
    \<lparr>pm_podName = md_name (pod_metadata p), pm_nodeName = node,
     pm_cpuPct = (if mockCPU < 0 then of_nat (5 + length (md_name (pod_metadata p)) mod 10) else mockCPU)\<rparr>"

text \<open>An empty slice made with \<open>make\<close> is written as an empty array.\<close>

definition serve_pod_metrics :: "'w transport \<Rightarrow> rat \<Rightarrow> string \<Rightarrow> 'w \<Rightarrow> (list_error + json) \<times> 'w" where
  "serve_pod_metrics T mockCPU node w =
    (case listNodePods T node w of
       (Inl e, w) \<Rightarrow> (Inl e, w)
     | (Inr pods, w) \<Rightarrow> (Inr (JObj [(''items'', JArr (map (\<lambda>p. enc_PodMetric (pod_metric mockCPU node p)) pods))]), w))"

text \<open>\<open>/admin/cpu\<close>; \<open>scan\<close> is \<open>fmt.Sscanf\<close> with \<open>%f\<close> on the trimmed body.\<close>

definition set_mock_cpu :: "(string \<Rightarrow> rat option) \<Rightarrow> string \<Rightarrow> string \<Rightarrow> rat \<Rightarrow> int \<times> rat" where
  "set_mock_cpu scan method body mockCPU =
    (if method \<noteq> ''PUT'' \<and> method \<noteq> ''POST'' then (405, mockCPU)
     else (case scan (TrimSpace body) of None \<Rightarrow> (400, mockCPU) | Some v \<Rightarrow> (200, v)))"

section \<open>What a synchronisation does\<close>

lemma map_of_filter_fst: "map_of (filter (\<lambda>(n, _). n \<in> seen) xs) n = (if n \<in> seen then map_of xs n else None)"
  by (induction xs) auto

lemma stubRun_keeps: "map_of stubs n = Some li \<Longrightarrow> stubRun rt p c stubs w = (r, stubs', w') \<Longrightarrow> map_of stubs' n = Some li"
  by (auto simp: stubRun_def Let_def update_conv' split: option.splits prod.splits sum.splits)

lemma runPod_keeps: "runPod T rt p s = Some s' \<Longrightarrow> map_of (fst s) n = Some li \<Longrightarrow> map_of (fst s') n = Some li"
  by (auto simp: runPod_def report_def start_container_def split: list.splits prod.splits sum.splits if_splits dest: stubRun_keeps)

lemma run_scheduled_keeps:
  "run_scheduled T rt pods s = Some s' \<Longrightarrow> map_of (fst s) n = Some li \<Longrightarrow> map_of (fst s') n = Some li"
  by (induction pods arbitrary: s) (auto split: if_splits option.splits dest: runPod_keeps)

text \<open>Pods of another phase are left alone: nothing is started and nothing reported.\<close>

lemma run_scheduled_filter:
  "run_scheduled T rt pods s = run_scheduled T rt (filter (\<lambda>p. ps_phase (pod_status p) = PhaseScheduled) pods) s"
  by (induction pods arbitrary: s) (auto split: option.splits)

context listening
begin

lemma serving_reap:
  assumes "rt_sockets rt = sk" "fits w" "serving opened stubs w" "reap rt seen (stubs, w) = (stubs', w')"
  shows "fits w' \<and> serving opened stubs' w'"
proof -
  have "stubs' = filter (\<lambda>(n, _). n \<in> seen) stubs"
    and "w' = fold (\<lambda>(n, li) w. if n \<in> seen then w else sk_close sk li w) stubs w"
    using assms(1,4) by (auto simp: reap_def)
  with serving_close [OF assms(2,3)] show ?thesis by simp
qed

lemma serving_stubRun:
  assumes "rt_sockets rt = sk" "\<And>args v. fits v \<Longrightarrow> fits (snd (rt_exec rt args v)) \<and> opened (snd (rt_exec rt args v)) = opened v"
    and "fits w" "serving opened stubs w" "stubRun rt n c stubs w = (r, stubs', w')"
  shows "fits w' \<and> serving opened stubs' w'"
proof (cases "map_of stubs n")
  case (Some li)
  with assms show ?thesis by (simp add: stubRun_def)
next
  case None
  obtain l v where l: "sk_listen sk ''127.0.0.1'' 0 w = (l, v)" by (metis surj_pair)
  show ?thesis
  proof (cases l)
    case (Inl e)
    with None l assms listen_fails [OF assms(3), of "''127.0.0.1''" 0 e v] show ?thesis
      by (auto simp: stubRun_def serving_def)
  next
    case (Inr li)
    with None l assms(1,5) have s: "stubs' = AList.update n li stubs" "w' = snd (rt_exec rt [''echo'', echo_text n c (ln_port li)] v)"
      by (auto simp: stubRun_def Let_def)
    from serving_open [OF assms(3,4) None, of "''127.0.0.1''" 0 li v] l Inr
    have v: "fits v" "serving opened stubs' v" by (simp_all add: s)
    with assms(2) [OF v(1)] show ?thesis by (simp add: serving_def s(2))
  qed
qed

lemma serving_run:
  assumes "rt_sockets rt = sk" "\<And>args v. fits v \<Longrightarrow> fits (snd (rt_exec rt args v)) \<and> opened (snd (rt_exec rt args v)) = opened v"
    and "\<And>req v. fits v \<Longrightarrow> fits (snd (T req v)) \<and> opened (snd (T req v)) = opened v"
  shows "fits w \<Longrightarrow> serving opened stubs w \<Longrightarrow> run_scheduled T rt pods (stubs, w) = Some (stubs', w') \<Longrightarrow>
    fits w' \<and> serving opened stubs' w'"
proof (induction pods arbitrary: stubs w)
  case Nil
  then show ?case by simp
next
  case (Cons p pods)
  have rep: "fits w2 \<and> serving opened s2 w2"
    if "report T q st s1 w1 = Some (s2, w2)" "fits w1" "serving opened s1 w1" for q st s1 w1 s2 w2
    using that assms(3) by (auto simp: report_def put_pod_status_def serving_def split: target.splits)
  have docker: "fits w2 \<and> opened w2 = opened w1" if "dockerRun rt n c w1 = (r, w2)" "fits w1" for n c w1 r w2
    using that assms(2) unfolding dockerRun_def Let_def by (auto split: prod.splits option.splits) (metis snd_conv)+
  have start: "fits w2 \<and> serving opened s2 w2"
    if "start_container rt n c s1 w1 = (r, s2, w2)" "fits w1" "serving opened s1 w1" for n c s1 w1 r s2 w2
  proof (cases "rt_docker rt")
    case True
    obtain d w3 where d: "dockerRun rt n c w1 = (d, w3)" by (metis surj_pair)
    with that(1) True have "s2 = s1" "w2 = w3" by (auto simp: start_container_def split: sum.splits)
    with docker [OF d that(2)] that(3) show ?thesis by (simp add: serving_def)
  next
    case False
    with that serving_stubRun [OF assms(1,2), of w1 s1 n c r s2 w2] show ?thesis by (simp add: start_container_def)
  qed
  have run: "fits w2 \<and> serving opened s2 w2" if "runPod T rt p (stubs, w) = Some (s2, w2)" for s2 w2
    using that rep start Cons.prems(1,2)
    by (auto simp: runPod_def split: list.splits prod.splits sum.splits)
  show ?case
  proof (cases "ps_phase (pod_status p) = PhaseScheduled")
    case True
    with Cons.prems(3) obtain s2 w2 where "runPod T rt p (stubs, w) = Some (s2, w2)"
      "run_scheduled T rt pods (s2, w2) = Some (stubs', w')" by (auto split: option.splits)
    with run Cons.IH show ?thesis by blast
  next
    case False
    with Cons show ?thesis by simp
  qed
qed

end

text \<open>
  Stub servers live exactly as long as their pod is on the node: servers of listed pods stay on their
  listener, those of other pods are shut down, and what is open is what the table says.
\<close>

definition host_runtime :: "'w exec \<Rightarrow> bool \<Rightarrow> ('w \<times> os) runtime" where
  "host_runtime ex docker =
    \<lparr>rt_exec = (\<lambda>args (w, os). case ex args w of (r, w) \<Rightarrow> (r, (w, os))), rt_sockets = host_sockets, rt_docker = docker\<rparr>"

lemma syncOnce_serving:
  assumes "os_ok os" "serving (\<lambda>s. set (os_open (snd s))) stubs (w, os)"
    and "syncOnce (hosted T) (host_runtime ex docker) node stubs (w, os) = Some (Inr (), stubs', w', os')"
  shows "\<exists>pods w1. get_pods T ''nodeName'' node w = (Inr pods, w1) \<and> os_ok os' \<and>
    serving (\<lambda>s. set (os_open (snd s))) stubs' (w', os') \<and>
    (\<forall>n li. map_of stubs' n = Some li \<longrightarrow> (\<exists>p \<in> set pods. md_name (pod_metadata p) = n)) \<and>
    (\<forall>n li p. map_of stubs n = Some li \<longrightarrow> p \<in> set pods \<longrightarrow> md_name (pod_metadata p) = n \<longrightarrow> map_of stubs' n = Some li)"
proof -
  let ?opened = "\<lambda>s :: 'a \<times> os. set (os_open (snd s))" and ?rt = "host_runtime ex docker"
  have get: "get_pods (hosted T) ''nodeName'' node (w, os) = (case get_pods T ''nodeName'' node w of (r, v) \<Rightarrow> (r, (v, os)))"
    by (auto simp: get_pods_def hosted_def split: target.splits prod.splits sum.splits)
  obtain pods w1 where g: "get_pods T ''nodeName'' node w = (Inr pods, w1)"
    using assms(3) by (auto simp: syncOnce_def get split: prod.splits sum.splits)
  obtain stubs1 w2 os2 where run: "run_scheduled (hosted T) ?rt pods (stubs, w1, os) = Some (stubs1, w2, os2)"
    and reap: "reap ?rt (set (map (\<lambda>p. md_name (pod_metadata p)) pods)) (stubs1, w2, os2) = (stubs', w', os')"
    using assms(3) g by (auto simp: syncOnce_def get split: option.splits)
  have rt: "rt_sockets ?rt = host_sockets" "snd (snd (rt_exec ?rt args v)) = snd v" for args and v :: "'a \<times> os"
    by (auto simp: host_runtime_def split: prod.splits)
  have T: "snd (snd (hosted T req v)) = snd v" for req v by (simp add: hosted_def split: prod.splits)
  have "serving ?opened stubs (w1, os)" using assms(2) by (simp add: serving_def)
  with host.serving_run [OF rt(1), of "hosted T" "(w1, os)" stubs pods stubs1 "(w2, os2)"] run assms(1)
  have mid: "os_ok os2" "serving ?opened stubs1 (w2, os2)" by (auto simp: rt(2) T)
  with host.serving_reap [OF rt(1), of "(w2, os2)"] reap
  have fin: "os_ok os'" "serving ?opened stubs' (w', os')" by fastforce+
  have "map_of stubs' n = (if n \<in> set (map (\<lambda>p. md_name (pod_metadata p)) pods) then map_of stubs1 n else None)" for n
    using reap by (auto simp: reap_def map_of_filter_fst)
  with run_scheduled_keeps [OF run] g fin show ?thesis
    by (intro exI [of _ pods] exI [of _ w1]) (auto split: if_splits)
qed

end
