(* ===== verification/Pod_Lifecycle.thy ===== *)
theory Pod_Lifecycle
  imports Replicaset_Server Kubelet
begin

text \<open>
  The controllers, the scheduler and the kubelet against the API server of cmd/apiserver (default
  flags, healthy database, no webhooks): listings are exact, a scheduler pass binds the pending
  pods and a kubelet pass starts the scheduled ones, and neither touches any other pod.
\<close>

section \<open>Listings\<close>

lemma sql_first_key: "keys_ok key T \<Longrightarrow> r \<in> set T \<Longrightarrow> sql_first (\<lambda>x. key x = key r) T = Some r"
  by (induction T) (auto simp: keys_ok_def)

lemma pod_row_get:
  assumes "store_ok st" "r \<in> set (t_pods st)"
  shows "pod_name (pod_of_row r) = prow_name r" "GetPod no_faults st (prow_name r) = Inr (pod_of_row r)"
proof -
  note T = store_ok_pod [OF assms(1)]
  show "pod_name (pod_of_row r) = prow_name r"
    using pod_of_row_wf [OF table_ok_mem [OF T assms(2)]] by (simp add: pod_name_def)
  show "GetPod no_faults st (prow_name r) = Inr (pod_of_row r)"
    using sql_first_key [OF table_ok_keys [OF T] assms(2)] by (simp add: GetPod_def query_row_Inr)
qed

definition of_phase :: "string \<Rightarrow> Pod \<Rightarrow> bool" where
  "of_phase phase p \<longleftrightarrow> phase = [] \<or> ps_phase (pod_status p) = phase"

lemma pod_of_row_cols [simp]:
  "ps_phase (pod_status (pod_of_row r)) = prow_phase r" "ps_nodeName (pod_status (pod_of_row r)) = prow_node_name r"
  by (simp_all add: pod_of_row_def)

lemma listing_exact:
  assumes "store_ok st" "rows = sql_order prow_created_at (filter P (t_pods st))"
    "\<And>r. P r \<longleftrightarrow> Q (pod_of_row r)"
  shows "distinct (map pod_name (map pod_of_row rows))"
    and "p \<in> set (map pod_of_row rows) \<longleftrightarrow> GetPod no_faults st (pod_name p) = Inr p \<and> Q p"
proof -
  note T = store_ok_pod [OF assms(1)]
  have rows: "set rows = {r \<in> set (t_pods st). P r}" by (simp add: assms(2) sql_order_def)
  have "distinct (map prow_name (t_pods st))" using table_ok_keys [OF T] by (simp add: keys_ok_def)
  then have "distinct (map prow_name (filter P (t_pods st)))" by (rule distinct_map_filter)
  then have "inj_on prow_name (set rows)" "distinct (filter P (t_pods st))"
    using rows by (auto simp: distinct_map)
  then have "distinct (map prow_name rows)" by (simp add: distinct_map assms(2) sql_order_def)
  moreover have "map pod_name (map pod_of_row rows) = map prow_name rows"
    using pod_row_get(1) [OF assms(1)] rows by simp
  ultimately show "distinct (map pod_name (map pod_of_row rows))" by (simp only:)
  show "p \<in> set (map pod_of_row rows) \<longleftrightarrow> GetPod no_faults st (pod_name p) = Inr p \<and> Q p"
  proof
    assume "p \<in> set (map pod_of_row rows)"
    then obtain r where "r \<in> set (t_pods st)" "P r" "p = pod_of_row r" using rows by auto
    with pod_row_get [OF assms(1)] assms(3) show "GetPod no_faults st (pod_name p) = Inr p \<and> Q p" by simp
  next
    assume p: "GetPod no_faults st (pod_name p) = Inr p \<and> Q p"
    then obtain r where "r \<in> set (t_pods st)" "p = pod_of_row r"
      unfolding GetPod_def query_row_Inr by (blast dest: sql_first_SomeD)
    with p rows assms(3) show "p \<in> set (map pod_of_row rows)" by auto
  qed
qed

lemma ListPods_exact:
  assumes "store_ok st"
  shows "\<exists>ps. ListPods no_faults st phase = Inr ps \<and> list_all wf_Pod ps \<and> distinct (map pod_name ps) \<and>
    (\<forall>p. p \<in> set ps \<longleftrightarrow> GetPod no_faults st (pod_name p) = Inr p \<and> of_phase phase p)"
proof -
  let ?rows = "sql_order prow_created_at (filter (\<lambda>r. phase = [] \<or> prow_phase r = phase) (t_pods st))"
  have "ListPods no_faults st phase = Inr (map pod_of_row ?rows)"
    by (simp add: ListPods_def query_rows_def no_faults_simp)
  moreover from this have "list_all wf_Pod (map pod_of_row ?rows)" by (rule ListPods_wf [OF assms])
  moreover note listing_exact [OF assms refl, of "\<lambda>r. phase = [] \<or> prow_phase r = phase" "of_phase phase"]
  ultimately show ?thesis by (simp add: of_phase_def)
qed

lemma ListPodsByNode_exact:
  assumes "store_ok st"
  shows "\<exists>ps. ListPodsByNode no_faults st node = Inr ps \<and> list_all wf_Pod ps \<and> distinct (map pod_name ps) \<and>
    (\<forall>p. p \<in> set ps \<longleftrightarrow> GetPod no_faults st (pod_name p) = Inr p \<and> ps_nodeName (pod_status p) = node)"
proof -
  let ?rows = "sql_order prow_created_at (filter (\<lambda>r. prow_node_name r = node) (t_pods st))"
  have "ListPodsByNode no_faults st node = Inr (map pod_of_row ?rows)"
    by (simp add: ListPodsByNode_def query_rows_def no_faults_simp)
  moreover from this have "list_all wf_Pod (map pod_of_row ?rows)" by (rule ListPodsByNode_wf [OF assms])
  moreover note listing_exact [OF assms refl, of "\<lambda>r. prow_node_name r = node" "\<lambda>p. ps_nodeName (pod_status p) = node"]
  ultimately show ?thesis by simp
qed

section \<open>Requests against the local server\<close>

definition local_transport :: "bool \<Rightarrow> string \<Rightarrow> (nat \<Rightarrow> time) \<Rightarrow> net \<Rightarrow> (string \<Rightarrow> string) \<Rightarrow> world transport" where
  "local_transport loop identity now net rnd = loopback (default_config loop identity) (healthy_env now net rnd)"

lemma local_client_New: "New (local_transport loop identity now net rnd) = local_client loop identity now net rnd"
  by (simp add: local_client_def local_transport_def)

definition tick :: "world \<Rightarrow> world" where
  "tick w = w\<lparr>w_n := Suc (w_n w)\<rparr>"

lemma tick_simps [simp]: "w_sv (tick w) = w_sv w" "unhooked (tick w) = unhooked w" "live_pods (tick w) = live_pods w"
  by (simp_all add: tick_def unhooked_def live_pods_def fun_eq_iff)

lemma live_pods_get: "live_pods w n = Some p \<longleftrightarrow> GetPod no_faults (srv_st (w_sv w)) n = Inr p"
  by (simp add: live_pods_def old_of_def split: sum.splits)

text \<open>A listing request: the answer is \<open>ps\<close> and the server is untouched.\<close>

lemma list_request:
  assumes "listPods (healthy_env now net rnd (w_n w)) req (w_sv w) = write_items enc_Pod (Inr ps) (w_sv w)"
    and "req_method req = ''GET''" "req_path req = ''/api/v1/pods''" "req_auth req = []"
  shows "local_transport loop identity now net rnd req w =
    (Inr \<lparr>resp_code = 200, resp_body = JsonBody (JObj [(''items'', enc_list enc_Pod ps)])\<rparr>, tick w)"
proof -
  have "serve (default_config loop identity) (healthy_env now net rnd (w_n w)) req (w_sv w) =
      (\<lparr>resp_code = 200, resp_body = JsonBody (JObj [(''items'', enc_list enc_Pod ps)])\<rparr>, w_sv w)"
    using routed_pods [of "default_config loop identity" "healthy_env now net rnd (w_n w)"] assms
    by (simp add: routed_def guard_anonymous handlePods_def write_items_def writeJSON_def)
  from local_world [OF this] show ?thesis by (simp add: local_transport_def tick_def)
qed

lemma read_items: "list_all wf_Pod ps \<Longrightarrow>
  decode_payload (dec_items dec_Pod zero_Pod) [] (JsonBody (JObj [(''items'', enc_list enc_Pod ps)])) = Inr ps"
  using dec_items_read [of dec_Pod zero_Pod "enc_list enc_Pod ps" ps] by (simp add: decode_payload_def)

text \<open>The pods of the world that satisfy \<open>P\<close>, each listed once.\<close>

definition snapshot_of :: "world \<Rightarrow> (Pod \<Rightarrow> bool) \<Rightarrow> Pod list \<Rightarrow> bool" where
  "snapshot_of w P ps \<longleftrightarrow> distinct (map pod_name ps) \<and> list_all wf_Pod ps \<and>
     (\<forall>n p. live_pods w n = Some p \<and> P p \<longleftrightarrow> p \<in> set ps \<and> pod_name p = n)"

lemma snapshot_ofI:
  assumes "store_ok (srv_st (w_sv w))" "list_all wf_Pod ps" "distinct (map pod_name ps)"
    "\<forall>p. p \<in> set ps \<longleftrightarrow> GetPod no_faults (srv_st (w_sv w)) (pod_name p) = Inr p \<and> P p"
  shows "snapshot_of w P ps"
proof -
  have "live_pods w n = Some p \<Longrightarrow> pod_name p = n" for n p
    using GetPod_wf [OF assms(1)] by (auto simp: live_pods_get pod_name_def)
  then show ?thesis using assms(2-4) by (auto simp: snapshot_of_def live_pods_get)
qed

lemma pods_query: "query_safe v \<Longrightarrow> query_safe k \<Longrightarrow> k \<noteq> [] \<Longrightarrow> CHR ''='' \<notin> set k \<Longrightarrow>
  parse_target (''/api/v1/pods'' @ ''?'' @ k @ ''='' @ v) = Target ''/api/v1/pods'' [(k, v)]"
  by (rule parse_target_pair) simp_all

lemma get_pods_local:
  assumes "unhooked w"
  shows "query_safe phase \<Longrightarrow> \<exists>ps. get_pods (local_transport loop identity now net rnd) ''phase'' phase w = (Inr ps, tick w) \<and>
      snapshot_of w (of_phase phase) ps"
    and "node \<noteq> [] \<Longrightarrow> query_safe node \<Longrightarrow>
      \<exists>ps. get_pods (local_transport loop identity now net rnd) ''nodeName'' node w = (Inr ps, tick w) \<and>
      snapshot_of w (\<lambda>p. ps_nodeName (pod_status p) = node) ps"
proof -
  assume phase: "query_safe phase"
  have ok: "store_ok (srv_st (w_sv w))" using assms by (simp add: unhooked_def)
  from ListPods_exact [OF ok] obtain ps where ps: "ListPods no_faults (srv_st (w_sv w)) phase = Inr ps" "list_all wf_Pod ps"
    "distinct (map pod_name ps)"
    "\<forall>p. p \<in> set ps \<longleftrightarrow> GetPod no_faults (srv_st (w_sv w)) (pod_name p) = Inr p \<and> of_phase phase p" by metis
  have "local_transport loop identity now net rnd (http_get ''/api/v1/pods'' [(''phase'', phase)]) w =
    (Inr \<lparr>resp_code = 200, resp_body = JsonBody (JObj [(''items'', enc_list enc_Pod ps)])\<rparr>, tick w)"
    by (rule list_request) (simp_all add: listPods_def http_get_def gget_def ps map_result_def)
  then have "get_pods (local_transport loop identity now net rnd) ''phase'' phase w = (Inr ps, tick w)"
    using read_items [OF ps(2)] pods_query [OF phase, of "''phase''"] by (simp add: get_pods_def query_safe_def del: append.simps)
  with snapshot_ofI [OF ok ps(2-4)]
  show "\<exists>ps. get_pods (local_transport loop identity now net rnd) ''phase'' phase w = (Inr ps, tick w) \<and>
      snapshot_of w (of_phase phase) ps" by blast
next
  assume node: "node \<noteq> []" "query_safe node"
  have ok: "store_ok (srv_st (w_sv w))" using assms by (simp add: unhooked_def)
  from ListPodsByNode_exact [OF ok] obtain ps where ps: "ListPodsByNode no_faults (srv_st (w_sv w)) node = Inr ps"
    "list_all wf_Pod ps" "distinct (map pod_name ps)"
    "\<forall>p. p \<in> set ps \<longleftrightarrow> GetPod no_faults (srv_st (w_sv w)) (pod_name p) = Inr p \<and> ps_nodeName (pod_status p) = node" by metis
  have "local_transport loop identity now net rnd (http_get ''/api/v1/pods'' [(''nodeName'', node)]) w =
    (Inr \<lparr>resp_code = 200, resp_body = JsonBody (JObj [(''items'', enc_list enc_Pod ps)])\<rparr>, tick w)"
    by (rule list_request) (simp_all add: listPods_def http_get_def gget_def ps map_result_def node)
  then have "get_pods (local_transport loop identity now net rnd) ''nodeName'' node w = (Inr ps, tick w)"
    using read_items [OF ps(2)] pods_query [OF node(2), of "''nodeName''"] by (simp add: get_pods_def query_safe_def del: append.simps)
  with snapshot_ofI [OF ok ps(2-4)]
  show "\<exists>ps. get_pods (local_transport loop identity now net rnd) ''nodeName'' node w = (Inr ps, tick w) \<and>
      snapshot_of w (\<lambda>p. ps_nodeName (pod_status p) = node) ps" by blast
qed

lemma client_ListPods_local:
  assumes "unhooked w"
  shows "\<exists>ps. client_ListPods (local_client loop identity now net rnd) w = (Inr ps, tick w) \<and> snapshot_of w (\<lambda>_. True) ps"
proof -
  have ok: "store_ok (srv_st (w_sv w))" using assms by (simp add: unhooked_def)
  from ListPods_exact [OF ok] obtain ps where ps: "ListPods no_faults (srv_st (w_sv w)) [] = Inr ps" "list_all wf_Pod ps"
    "distinct (map pod_name ps)"
    "\<forall>p. p \<in> set ps \<longleftrightarrow> GetPod no_faults (srv_st (w_sv w)) (pod_name p) = Inr p \<and> of_phase [] p" by metis
  have "local_transport loop identity now net rnd \<lparr>req_method = ''GET'', req_path = ''/api/v1/pods'', req_query = [],
      req_auth = [], req_body = Malformed\<rparr> w =
    (Inr \<lparr>resp_code = 200, resp_body = JsonBody (JObj [(''items'', enc_list enc_Pod ps)])\<rparr>, tick w)"
    by (rule list_request) (simp_all add: listPods_def gget_def ps map_result_def)
  then have "client_ListPods (local_client loop identity now net rnd) w = (Inr ps, tick w)"
    using read_items [OF ps(2)]
    by (simp add: client_ListPods_def do_out_def do_http_safe local_client_def New_def local_transport_def)
  moreover have "snapshot_of w (\<lambda>_. True) ps"
    by (rule snapshot_ofI [OF ok ps(2,3)]) (use ps(4) in \<open>simp add: of_phase_def\<close>)
  ultimately show ?thesis by blast
qed

section \<open>Names of created pods\<close>

lemma hex_digit_plain:
  assumes "d < 16"
  shows "hex_digit d \<noteq> CHR ''/''" "url_char (hex_digit d)"
proof -
  have n: "(of_char (hex_digit d) :: nat) = (if d < 10 then 48 + d else 87 + d)"
    using assms by (auto simp: hex_digit_def of_char_of)
  show "hex_digit d \<noteq> CHR ''/''"
  proof
    assume "hex_digit d = CHR ''/''"
    then have "(of_char (hex_digit d) :: nat) = 47" by simp
    with n show False by (simp split: if_splits)
  qed
  have "hex_digit d \<noteq> c" if "(of_char c :: nat) < 48" for c
    using n that by (auto split: if_splits)
  then show "url_char (hex_digit d)"
    using n assms by (auto simp: url_char_def ctl_byte_def split: if_splits)
qed

lemma randSuffix_plain: "CHR ''/'' \<notin> set (randSuffix 5 b)" "url_safe (randSuffix 5 b)"
proof -
  have "unat (x :: 8 word) div 16 < 16" "unat x mod 16 < 16" for x
    using unsigned_less [of x, where 'a = nat] by simp_all
  note less = this
  have "hex_digit (unat x div 16) \<noteq> CHR ''/'' \<and> hex_digit (unat x mod 16) \<noteq> CHR ''/''"
    "url_char (hex_digit (unat x div 16)) \<and> url_char (hex_digit (unat x mod 16))" for x :: "8 word"
    using hex_digit_plain [OF less(1) [of x]] hex_digit_plain [OF less(2) [of x]] by auto
  then show "CHR ''/'' \<notin> set (randSuffix 5 b)" "url_safe (randSuffix 5 b)"
    by (auto simp: randSuffix_def hex_string_def url_safe_def list_all_iff dest!: in_set_takeD) metis+
qed

lemma buildPod_plain:
  assumes "plain (md_name (rs_metadata rs))"
  shows "plain (pod_name (buildPodFromTemplate rs b))"
proof -
  note randSuffix_plain [of b]
  moreover have "pod_name (buildPodFromTemplate rs b) = md_name (rs_metadata rs) @ ''-'' @ randSuffix 5 b"
    by (simp add: pod_name_def buildPodFromTemplate_def Let_def)
  moreover have "md_name (rs_metadata rs) @ ''-'' @ t \<noteq> ''.''" "md_name (rs_metadata rs) @ ''-'' @ t \<noteq> ''..''" for t
    by (auto simp: append_eq_Cons_conv)
  ultimately show ?thesis using assms by (simp add: plain_def del: append.simps)
qed

section \<open>Writing a status\<close>

definition with_status :: "Pod \<Rightarrow> PodStatus \<Rightarrow> time \<Rightarrow> Pod" where
  "with_status p s t = p\<lparr>pod_status := s\<lparr>ps_lastUpdated := t\<rparr>\<rparr>"

lemma put_pod_status_local:
  assumes inv: "unhooked w" and n: "plain n" "live_pods w n = Some p" and s: "wf_PodStatus s"
  shows "\<exists>w' t. put_pod_status (local_transport loop identity now net rnd) n s w = Some w' \<and> unhooked w' \<and>
    live_pods w' = (live_pods w)(n \<mapsto> with_status p s t)"
proof -
  let ?cfg = "default_config loop identity" and ?ev = "healthy_env now net rnd" and ?t = "now (w_n w)"
  let ?path = "''/api/v1/pods/'' @ n @ ''/status''"
  let ?req = "\<lparr>req_method = ''PUT'', req_path = ?path, req_query = [], req_auth = [], req_body = Doc (enc_PodStatus s)\<rparr>"
  have ok: "store_ok (srv_st (w_sv w))" using inv by (simp add: unhooked_def)
  have get: "GetPod no_faults (srv_st (w_sv w)) n = Inr p" using n(2) by (simp add: live_pods_get)
  from pod_store.upd_present [OF get, of ?t s] obtain st' where
    upd: "UpdateStatus no_faults ?t n s (srv_st (w_sv w)) = Inr st'" by (auto simp: is_ok_iff)
  have trim: "TrimPrefix ?path ''/api/v1/pods/'' = n @ ''/status''" by (rule TrimPrefix_append)
  have "serve ?cfg (?ev (w_n w)) ?req (w_sv w) = updateStatus (?ev (w_n w)) n ?req (w_sv w)"
    using routed_pod_status [OF n(1), of ?cfg "?ev (w_n w)"] trim
    by (simp add: routed_def guard_anonymous handlePodsByName_def del: append.simps)
  also have "\<dots> = writeJSON 200 (read_back enc_Pod (GetPod no_faults st' n)) ((w_sv w)\<lparr>srv_st := st'\<rparr>)"
    using upd s by (simp add: updateStatus_def put_status_def with_body_def Decode_def)
  finally have "loopback ?cfg ?ev ?req w =
      (Inr \<lparr>resp_code = 200, resp_body = JsonBody (read_back enc_Pod (GetPod no_faults st' n))\<rparr>,
       \<lparr>w_sv = (w_sv w)\<lparr>srv_st := st'\<rparr>, w_n = Suc (w_n w)\<rparr>)"
    by (intro local_world) (simp_all add: writeJSON_def)
  moreover have "parse_target (status_path n) = Target ?path []"
    using parse_target_safe [of ?path] plain_safe [OF n(1)] by (simp add: status_path_def)
  ultimately have w': "put_pod_status (local_transport loop identity now net rnd) n s w =
      Some \<lparr>w_sv = (w_sv w)\<lparr>srv_st := st'\<rparr>, w_n = Suc (w_n w)\<rparr>"
    by (simp only: put_pod_status_def local_transport_def snd_conv target.case)
  have "t_admission_webhooks st' = t_admission_webhooks (srv_st (w_sv w))"
    using upd by (auto simp: UpdateStatus_def Let_def sql_results split: option.splits if_splits)
  with inv UpdateStatus_ok [OF ok s upd]
  have "unhooked \<lparr>w_sv = (w_sv w)\<lparr>srv_st := st'\<rparr>, w_n = Suc (w_n w)\<rparr>" by (simp add: unhooked_def)
  moreover have "live_pods \<lparr>w_sv = (w_sv w)\<lparr>srv_st := st'\<rparr>, w_n = Suc (w_n w)\<rparr> = (live_pods w)(n \<mapsto> with_status p s ?t)"
    using pod_store.upd_get [OF store_ok_pod_table [OF ok] s upd] get
    by (auto simp: live_pods_def with_status_def fun_eq_iff)
  ultimately show ?thesis using w' by blast
qed

section \<open>The scheduler\<close>

text \<open>Names that URLs and the router take as one path segment.\<close>

definition plain_names :: "world \<Rightarrow> bool" where
  "plain_names w \<longleftrightarrow> (\<forall>n p. live_pods w n = Some p \<longrightarrow> plain n)"

lemma bound_status_wf [simp]: "wf_PodStatus (bound_status node)"
  by (simp add: bound_status_def wf_PodStatus_def zero_PodStatus_def)

lemma bind_pods_local:
  "unhooked w \<Longrightarrow> distinct (map pod_name ps) \<Longrightarrow>
   (\<forall>p \<in> set ps. plain (pod_name p) \<and> live_pods w (pod_name p) = Some p) \<Longrightarrow>
   \<exists>w'. bind_pods (local_transport loop identity now net rnd) node ps w = Some w' \<and> unhooked w' \<and> (\<forall>n. n \<notin> set (map pod_name ps) \<longrightarrow> live_pods w' n = live_pods w n) \<and>
   (\<forall>p \<in> set ps. \<exists>t. live_pods w' (pod_name p) = Some (with_status p (bound_status node) t))"
proof (induction ps arbitrary: w)
  case Nil
  then show ?case by simp
next
  case (Cons p ps)
  from Cons.prems obtain w1 t where w1: "put_pod_status (local_transport loop identity now net rnd) (pod_name p) (bound_status node) w = Some w1"
    "unhooked w1" "live_pods w1 = (live_pods w)(pod_name p \<mapsto> with_status p (bound_status node) t)"
    using put_pod_status_local [OF Cons.prems(1) _ _ bound_status_wf] by fastforce
  have new: "pod_name p \<notin> set (map pod_name ps)" and dist: "distinct (map pod_name ps)" using Cons.prems(2) by auto
  have pre: "\<forall>q \<in> set ps. plain (pod_name q) \<and> live_pods w1 (pod_name q) = Some q"
  proof
    fix q
    assume q: "q \<in> set ps"
    with new have "pod_name q \<noteq> pod_name p" by (metis imageI list.set_map)
    with q Cons.prems(3) show "plain (pod_name q) \<and> live_pods w1 (pod_name q) = Some q" by (simp add: w1)
  qed
  obtain w' where run: "bind_pods (local_transport loop identity now net rnd) node ps w1 = Some w'"
    and IH: "unhooked w'" "\<forall>n. n \<notin> set (map pod_name ps) \<longrightarrow> live_pods w' n = live_pods w1 n"
      "\<forall>p \<in> set ps. \<exists>t. live_pods w' (pod_name p) = Some (with_status p (bound_status node) t)"
    using Cons.IH [OF w1(2) dist pre] by blast
  have bind: "bind_pods (local_transport loop identity now net rnd) node (p # ps) w = Some w'"
    using run w1(1) by (simp add: pod_name_def)
  have "live_pods w' (pod_name p) = Some (with_status p (bound_status node) t)"
    using IH new by (simp add: w1)
  moreover have "live_pods w' n = live_pods w n" if "n \<notin> set (map pod_name (p # ps))" for n
    using IH that by (simp add: w1)
  ultimately show ?case using IH bind by auto
qed

lemma scheduleOnce_local:
  assumes "unhooked w" "plain_names w"
  shows "\<exists>w'. scheduleOnce (local_transport loop identity now net rnd) node w = Some (Inr (), w') \<and> unhooked w' \<and>
    (\<forall>n. live_pods w n = None \<longrightarrow> live_pods w' n = None) \<and>
    (\<forall>n p. live_pods w n = Some p \<longrightarrow> ps_phase (pod_status p) \<noteq> PhasePending \<longrightarrow> live_pods w' n = Some p) \<and>
    (\<forall>n p. live_pods w n = Some p \<longrightarrow> ps_phase (pod_status p) = PhasePending \<longrightarrow>
       (\<exists>t. live_pods w' n = Some (with_status p (bound_status node) t)))"
proof -
  have "query_safe PhasePending" by (simp add: query_safe_def phase_defs)
  then obtain ps where ps: "get_pods (local_transport loop identity now net rnd) ''phase'' PhasePending w = (Inr ps, tick w)"
    "snapshot_of w (of_phase PhasePending) ps"
    using get_pods_local(1) [OF assms(1)] by blast
  have pending: "of_phase PhasePending p \<longleftrightarrow> ps_phase (pod_status p) = PhasePending" for p
    by (simp add: of_phase_def phase_defs)
  have mem: "live_pods w n = Some p \<and> ps_phase (pod_status p) = PhasePending \<longleftrightarrow> p \<in> set ps \<and> pod_name p = n" for n p
    using ps(2) by (simp add: snapshot_of_def pending)
  have pre: "\<forall>p \<in> set ps. plain (pod_name p) \<and> live_pods (tick w) (pod_name p) = Some p"
    using mem assms(2) unfolding plain_names_def by auto
  have dist: "distinct (map pod_name ps)" using ps(2) by (simp add: snapshot_of_def)
  have "unhooked (tick w)" using assms(1) by simp
  from bind_pods_local [OF this dist pre, of loop identity now net rnd node]
  obtain w' where B: "bind_pods (local_transport loop identity now net rnd) node ps (tick w) = Some w'" "unhooked w'"
    "\<And>n. n \<notin> set (map pod_name ps) \<Longrightarrow> live_pods w' n = live_pods w n"
    "\<And>p. p \<in> set ps \<Longrightarrow> \<exists>t. live_pods w' (pod_name p) = Some (with_status p (bound_status node) t)"
    by auto
  have out: "n \<notin> set (map pod_name ps)" if "\<And>p. live_pods w n = Some p \<Longrightarrow> ps_phase (pod_status p) \<noteq> PhasePending" for n
    using mem that by fastforce
  have 1: "live_pods w' n = None" if "live_pods w n = None" for n
    using B(3) [OF out, of n] that by simp
  have 2: "live_pods w' n = Some p" if "live_pods w n = Some p" "ps_phase (pod_status p) \<noteq> PhasePending" for n p
    using B(3) [OF out, of n] that by simp
  have 3: "\<exists>t. live_pods w' n = Some (with_status p (bound_status node) t)"
    if "live_pods w n = Some p" "ps_phase (pod_status p) = PhasePending" for n p
    using B(4) [of p] mem [of n p] that by auto
  have run: "scheduleOnce (local_transport loop identity now net rnd) node w = Some (Inr (), w')"
    by (simp add: scheduleOnce_def ps(1) B(1))
  show ?thesis
    by (intro exI [of _ w'] conjI allI impI) (rule run, rule B(2), erule 1, erule 2, assumption, erule 3, assumption)
qed

text \<open>
  The pass panics exactly when some pending pod has a name that its status URL cannot hold; the panic ends
  the scheduler's process.
\<close>

lemma scheduleOnce_panics:
  assumes "unhooked w"
  shows "scheduleOnce (local_transport loop identity now net rnd) node w = None \<longleftrightarrow>
    (\<exists>n p. live_pods w n = Some p \<and> ps_phase (pod_status p) = PhasePending \<and> parse_target (status_path n) = BadUrl)"
proof -
  have "query_safe PhasePending" by (simp add: query_safe_def phase_defs)
  then obtain ps where ps: "get_pods (local_transport loop identity now net rnd) ''phase'' PhasePending w = (Inr ps, tick w)"
    "snapshot_of w (of_phase PhasePending) ps"
    using get_pods_local(1) [OF assms] by blast
  have mem: "live_pods w n = Some p \<and> ps_phase (pod_status p) = PhasePending \<longleftrightarrow> p \<in> set ps \<and> pod_name p = n" for n p
    using ps(2) by (simp add: snapshot_of_def of_phase_def phase_defs)
  have "scheduleOnce (local_transport loop identity now net rnd) node w = None \<longleftrightarrow>
      (\<exists>p \<in> set ps. parse_target (status_path (pod_name p)) = BadUrl)"
    using bind_pods_panics [of "local_transport loop identity now net rnd" node ps "tick w"]
    by (cases "bind_pods (local_transport loop identity now net rnd) node ps (tick w)")
      (auto simp: scheduleOnce_def ps(1) pod_name_def)
  with mem show ?thesis by metis
qed

section \<open>The kubelet\<close>

text \<open>A runtime that leaves the API server alone and hands out ports that are ints.\<close>

definition ports_ok :: "stubs \<Rightarrow> bool" where
  "ports_ok stubs \<longleftrightarrow> (\<forall>n li. map_of stubs n = Some li \<longrightarrow> int64_ok (ln_port li))"

definition local_runtime :: "world runtime \<Rightarrow> bool" where
  "local_runtime rt \<longleftrightarrow> (\<forall>args w. w_sv (snd (rt_exec rt args w)) = w_sv w) \<and>
     (\<forall>ip port w. w_sv (snd (sk_listen (rt_sockets rt) ip port w)) = w_sv w \<and>
        (\<forall>li. fst (sk_listen (rt_sockets rt) ip port w) = Inr li \<longrightarrow> int64_ok (ln_port li))) \<and>
     (\<forall>li w. w_sv (sk_close (rt_sockets rt) li w) = w_sv w)"

text \<open>A runtime that never fails to start a container: \<open>docker run\<close> succeeds, or the echo stub can listen.\<close>

definition reliable :: "world runtime \<Rightarrow> bool" where
  "reliable rt \<longleftrightarrow>
     (if rt_docker rt then \<forall>args w. fst (fst (rt_exec rt (''docker'' # ''run'' # args) w)) = None
      else \<forall>w. is_ok (fst (sk_listen (rt_sockets rt) ''127.0.0.1'' 0 w)))"

lemma same_server: "w_sv w' = w_sv w \<Longrightarrow> unhooked w' = unhooked w \<and> live_pods w' = live_pods w"
  by (simp add: unhooked_def live_pods_def fun_eq_iff)

definition reported :: "world runtime \<Rightarrow> Pod \<Rightarrow> PodStatus \<Rightarrow> bool" where
  "reported rt p s \<longleftrightarrow> wf_PodStatus s \<and> ps_nodeName s = ps_nodeName (pod_status p) \<and>
     (ps_phase s = PhaseRunning \<and> ps_podIP s = (if rt_docker rt then [] else ''127.0.0.1'') \<or> ps_phase s = PhaseFailed) \<and>
     (reliable rt \<longrightarrow> podspec_containers (pod_spec p) \<noteq> [] \<longrightarrow> ps_phase s = PhaseRunning)"

lemma start_container_local:
  assumes rt: "local_runtime rt" and ports: "ports_ok stubs"
    and run: "start_container rt n c stubs w = (r, stubs', w')"
  shows "w_sv w' = w_sv w \<and> ports_ok stubs' \<and> (\<forall>cid ip port. r = Inr (cid, ip, port) \<longrightarrow> int64_ok port \<and> ip = (if rt_docker rt then [] else ''127.0.0.1'')) \<and>
    (reliable rt \<longrightarrow> is_ok r)"
proof (cases "rt_docker rt")
  case True
  have ex: "w_sv (snd (rt_exec rt args v)) = w_sv v" for args v using rt by (simp add: local_runtime_def)
  obtain d w1 where d: "dockerRun rt n c w = (d, w1)" by (metis surj_pair)
  then have "w_sv w1 = w_sv w"
    unfolding dockerRun_def Let_def by (auto split: prod.splits option.splits) (metis ex snd_conv)+
  moreover have "is_ok d" if "reliable rt"
  proof -
    have "fst (fst (rt_exec rt (''docker'' # ''run'' # args) v)) = None" for args v using that True by (simp add: reliable_def)
    with d show ?thesis unfolding dockerRun_def Let_def append.simps
      by (auto simp: is_ok_def split: prod.splits option.splits) (metis fst_conv option.distinct(1))
  qed
  ultimately show ?thesis using d True run ports
    by (auto simp: start_container_def is_ok_def split: sum.splits)
next
  case False
  have ex: "w_sv (snd (rt_exec rt args v)) = w_sv v" for args v using rt by (simp add: local_runtime_def)
  show ?thesis
  proof (cases "map_of stubs n")
    case (Some li)
    then have "int64_ok (ln_port li)" using ports unfolding ports_ok_def by blast
    with Some False run ports show ?thesis by (auto simp: start_container_def stubRun_def is_ok_def)
  next
    case None
    obtain l w1 where l: "sk_listen (rt_sockets rt) ''127.0.0.1'' 0 w = (l, w1)" by (metis surj_pair)
    with rt have w1: "w_sv w1 = w_sv w" "\<And>li. l = Inr li \<Longrightarrow> int64_ok (ln_port li)"
      by (metis local_runtime_def snd_conv) (metis l rt local_runtime_def fst_conv)
    have rel: "reliable rt \<Longrightarrow> is_ok l" using l False by (metis reliable_def fst_conv)
    show ?thesis
    proof (cases l)
      case (Inl e)
      with None False run l w1 ports rel show ?thesis by (auto simp: start_container_def stubRun_def is_ok_def)
    next
      case (Inr li)
      with None False run l have "r = Inr (''stub-'' @ n, ''127.0.0.1'', ln_port li)" "stubs' = AList.update n li stubs"
        "w' = snd (rt_exec rt [''echo'', echo_text n c (ln_port li)] w1)"
        by (auto simp: start_container_def stubRun_def Let_def)
      with w1 ex Inr ports False show ?thesis by (auto simp: ports_ok_def update_conv' is_ok_def)
    qed
  qed
qed

lemma failed_status_reported: "podspec_containers (pod_spec p) = [] \<or> \<not> reliable rt \<Longrightarrow> reported rt p (failed_status p m)"
  by (auto simp: reported_def failed_status_def wf_PodStatus_def zero_PodStatus_def)

lemma running_status_reported:
  "int64_ok port \<Longrightarrow> ip = (if rt_docker rt then [] else ''127.0.0.1'') \<Longrightarrow> reported rt p (running_status p (cid, ip, port))"
  by (auto simp: reported_def running_status_def wf_PodStatus_def zero_PodStatus_def)

lemma runPod_local:
  assumes "local_runtime rt" "ports_ok stubs" "unhooked w" "plain (pod_name p)" "live_pods w (pod_name p) = Some p"
    "runPod (local_transport loop identity now net rnd) rt p (stubs, w) = res"
  shows "\<exists>stubs' w'. res = Some (stubs', w') \<and> unhooked w' \<and> ports_ok stubs' \<and> (\<exists>s t. reported rt p s \<and> live_pods w' = (live_pods w)(pod_name p \<mapsto> with_status p s t))"
proof -
  have put: "\<exists>w2. report (local_transport loop identity now net rnd) p s stubs1 w1 = Some (stubs1, w2) \<and> unhooked w2 \<and>
      (\<exists>t. live_pods w2 = (live_pods w)(pod_name p \<mapsto> with_status p s t))"
    if s: "reported rt p s" and w1: "w_sv w1 = w_sv w" for s stubs1 w1
  proof -
    have u: "unhooked w1" and lp: "live_pods w1 = live_pods w" using same_server [OF w1] assms(3) by simp_all
    have g: "live_pods w1 (pod_name p) = Some p" using lp assms(5) by simp
    have "wf_PodStatus s" using s by (simp add: reported_def)
    from put_pod_status_local [OF u assms(4) g this, of loop identity now net rnd] lp show ?thesis
      by (auto simp: report_def pod_name_def)
  qed
  show ?thesis
  proof (cases "podspec_containers (pod_spec p)")
    case Nil
    with assms(6) have res: "res = report (local_transport loop identity now net rnd) p (failed_status p ''no containers'') stubs w"
      by (simp add: runPod_def)
    have rep: "reported rt p (failed_status p ''no containers'')" using Nil by (intro failed_status_reported) simp
    with put [OF rep refl, of stubs] assms(2) show ?thesis unfolding res by blast
  next
    case (Cons c cs)
    obtain r stubs1 w1 where start: "start_container rt (pod_name p) c stubs w = (r, stubs1, w1)" by (metis surj_pair)
    note S = start_container_local [OF assms(1,2) start]
    show ?thesis
    proof (cases r)
      case (Inl e)
      then have rep: "reported rt p (failed_status p (''run failed: '' @ e))"
        using S by (intro failed_status_reported) (auto simp: is_ok_def)
      have res: "res = report (local_transport loop identity now net rnd) p (failed_status p (''run failed: '' @ e)) stubs1 w1"
        using assms(6) Cons start Inl by (simp add: runPod_def pod_name_def)
      with put [OF rep, of w1 stubs1] S rep show ?thesis unfolding res by blast
    next
      case (Inr x)
      obtain cid ip port where x: "x = (cid, ip, port)" by (metis surj_pair)
      have rep: "reported rt p (running_status p x)" using S Inr x by (auto intro!: running_status_reported)
      have res: "res = report (local_transport loop identity now net rnd) p (running_status p x) stubs1 w1"
        using assms(6) Cons start Inr by (simp add: runPod_def pod_name_def)
      with put [OF rep, of w1 stubs1] S rep show ?thesis unfolding res by blast
    qed
  qed
qed

lemma run_pods_local:
  "local_runtime rt \<Longrightarrow> ports_ok stubs \<Longrightarrow> unhooked w \<Longrightarrow> distinct (map pod_name ps) \<Longrightarrow>
   (\<forall>p \<in> set ps. plain (pod_name p) \<and> live_pods w (pod_name p) = Some p) \<Longrightarrow>
   (\<forall>p \<in> set ps. ps_phase (pod_status p) = PhaseScheduled) \<Longrightarrow>
   \<exists>stubs' w'. run_scheduled (local_transport loop identity now net rnd) rt ps (stubs, w) = Some (stubs', w') \<and>
   unhooked w' \<and> ports_ok stubs' \<and> (\<forall>n. n \<notin> set (map pod_name ps) \<longrightarrow> live_pods w' n = live_pods w n) \<and>
   (\<forall>p \<in> set ps. \<exists>s t. reported rt p s \<and> live_pods w' (pod_name p) = Some (with_status p s t))"
proof (induction ps arbitrary: stubs w)
  case Nil
  then show ?case by simp
next
  case (Cons p ps)
  have p: "plain (pod_name p)" "live_pods w (pod_name p) = Some p" using Cons.prems(5) by simp_all
  from runPod_local [OF Cons.prems(1-3) p refl, of loop identity now net rnd] obtain stubs1 w1 s t where
    run: "runPod (local_transport loop identity now net rnd) rt p (stubs, w) = Some (stubs1, w1)"
    and w1: "unhooked w1" "ports_ok stubs1" "reported rt p s" "live_pods w1 = (live_pods w)(pod_name p \<mapsto> with_status p s t)"
    by blast
  have new: "pod_name p \<notin> set (map pod_name ps)" and dist: "distinct (map pod_name ps)" using Cons.prems(4) by auto
  have pre: "\<forall>q \<in> set ps. plain (pod_name q) \<and> live_pods w1 (pod_name q) = Some q"
  proof
    fix q
    assume q: "q \<in> set ps"
    with new have "pod_name q \<noteq> pod_name p" by (metis imageI list.set_map)
    with q Cons.prems(5) show "plain (pod_name q) \<and> live_pods w1 (pod_name q) = Some q" by (simp add: w1(4))
  qed
  have phases: "\<forall>p \<in> set ps. ps_phase (pod_status p) = PhaseScheduled" using Cons.prems(6) by simp
  obtain stubs' w' where rest: "run_scheduled (local_transport loop identity now net rnd) rt ps (stubs1, w1) = Some (stubs', w')"
    and IH: "unhooked w'" "ports_ok stubs'" "\<forall>n. n \<notin> set (map pod_name ps) \<longrightarrow> live_pods w' n = live_pods w1 n"
      "\<forall>p \<in> set ps. \<exists>s t. reported rt p s \<and> live_pods w' (pod_name p) = Some (with_status p s t)"
    using Cons.IH [OF Cons.prems(1) w1(2,1) dist pre phases] by blast
  have all: "run_scheduled (local_transport loop identity now net rnd) rt (p # ps) (stubs, w) = Some (stubs', w')"
    using rest run Cons.prems(6) by simp
  have "live_pods w' (pod_name p) = Some (with_status p s t)"
    using IH new by (simp add: w1(4))
  moreover have "live_pods w' n = live_pods w n" if "n \<notin> set (map pod_name (p # ps))" for n
    using IH that by (simp add: w1(4))
  ultimately show ?case using IH w1(3) all by auto
qed

lemma reap_server: "local_runtime rt \<Longrightarrow> w_sv (snd (reap rt seen s)) = w_sv (snd s)"
proof -
  assume rt: "local_runtime rt"
  have "w_sv (fold (\<lambda>(n, li) w. if n \<in> seen then w else sk_close (rt_sockets rt) li w) xs w) = w_sv w" for xs w
    using rt by (induction xs arbitrary: w) (auto simp: local_runtime_def)
  then show ?thesis by (simp add: reap_def)
qed

definition due :: "string \<Rightarrow> Pod \<Rightarrow> bool" where
  "due node p \<longleftrightarrow> ps_nodeName (pod_status p) = node \<and> ps_phase (pod_status p) = PhaseScheduled"

lemma syncOnce_local:
  assumes "unhooked w" "plain_names w" "local_runtime rt" "ports_ok stubs" "node \<noteq> []" "query_safe node"
  shows "\<exists>stubs' w'. syncOnce (local_transport loop identity now net rnd) rt node stubs w = Some (Inr (), stubs', w') \<and> unhooked w' \<and>
    (\<forall>n. (\<forall>p. live_pods w n = Some p \<longrightarrow> \<not> due node p) \<longrightarrow> live_pods w' n = live_pods w n) \<and>
    (\<forall>n p. live_pods w n = Some p \<longrightarrow> due node p \<longrightarrow>
       (\<exists>s t. reported rt p s \<and> live_pods w' n = Some (with_status p s t)))"
proof -
  let ?T = "local_transport loop identity now net rnd"
  obtain ps where ps: "get_pods ?T ''nodeName'' node w = (Inr ps, tick w)"
    "snapshot_of w (\<lambda>p. ps_nodeName (pod_status p) = node) ps"
    using get_pods_local(2) [OF assms(1,5,6)] by blast
  let ?due = "filter (\<lambda>p. ps_phase (pod_status p) = PhaseScheduled) ps"
  have mem: "live_pods w n = Some p \<and> due node p \<longleftrightarrow> p \<in> set ?due \<and> pod_name p = n" for n p
    using ps(2) by (auto simp: snapshot_of_def due_def)
  have pre: "\<forall>p \<in> set ?due. plain (pod_name p) \<and> live_pods (tick w) (pod_name p) = Some p"
    using mem assms(2) unfolding plain_names_def by (metis tick_simps(3))
  have dist: "distinct (map pod_name ?due)" using ps(2) by (simp add: snapshot_of_def distinct_map_filter)
  have u: "unhooked (tick w)" using assms(1) by simp
  have phases: "\<forall>p \<in> set ?due. ps_phase (pod_status p) = PhaseScheduled" by simp
  obtain stubs1 w1 where run: "run_scheduled ?T rt ?due (stubs, tick w) = Some (stubs1, w1)"
    and R: "unhooked w1" "\<forall>n. n \<notin> set (map pod_name ?due) \<longrightarrow> live_pods w1 n = live_pods (tick w) n"
      "\<forall>p \<in> set ?due. \<exists>s t. reported rt p s \<and> live_pods w1 (pod_name p) = Some (with_status p s t)"
    using run_pods_local [OF assms(3,4) u dist pre phases, of loop identity now net rnd] by blast
  let ?r = "reap rt (set (map (\<lambda>p. md_name (pod_metadata p)) ps)) (stubs1, w1)"
  have same: "unhooked (snd ?r) = unhooked w1" "live_pods (snd ?r) = live_pods w1"
    using same_server reap_server [OF assms(3)] by (metis snd_conv)+
  have sync: "syncOnce ?T rt node stubs w = Some (Inr (), fst ?r, snd ?r)"
    using run by (simp add: syncOnce_def ps(1) run_scheduled_filter [of ?T rt ps])
  have 1: "live_pods (snd ?r) n = live_pods w n" if "\<forall>p. live_pods w n = Some p \<longrightarrow> \<not> due node p" for n
  proof -
    have "n \<notin> set (map pod_name ?due)" using mem that by fastforce
    with R show ?thesis unfolding same by simp
  qed
  have 2: "\<exists>s t. reported rt p s \<and> live_pods (snd ?r) n = Some (with_status p s t)"
    if "live_pods w n = Some p" "due node p" for n p
    using R mem [of n p] that unfolding same by auto
  have "unhooked (snd ?r)" using R unfolding same by simp
  show ?thesis
    by (intro exI [of _ "fst ?r"] exI [of _ "snd ?r"] conjI allI impI) (rule sync, fact, erule 1, erule 2, assumption)
qed

end
