(* ===== verification/Workload_Server.thy ===== *)
theory Workload_Server
  imports Pod_Lifecycle
begin

text \<open>
  The client's requests for replica sets and deployments against the API server of cmd/apiserver
  (default flags, healthy database, no webhooks), and on top of them the deployment controller and the
  whole pass of the replica set controller.
\<close>

section \<open>Requests\<close>

definition live_deps :: "world \<Rightarrow> string \<Rightarrow> Deployment option" where
  "live_deps w n = old_of (GetDeployment no_faults (srv_st (w_sv w)) n)"

lemma live_sets_get: "live_sets w n = Some x \<longleftrightarrow> GetReplicaSet no_faults (srv_st (w_sv w)) n = Inr x"
  by (simp add: live_sets_def old_of_def split: sum.splits)

lemma live_deps_get: "live_deps w n = Some x \<longleftrightarrow> GetDeployment no_faults (srv_st (w_sv w)) n = Inr x"
  by (simp add: live_deps_def old_of_def split: sum.splits)

lemma tick_live [simp]: "live_sets (tick w) = live_sets w" "live_deps (tick w) = live_deps w" "sets_spec (tick w) = sets_spec w"
  by (simp_all add: tick_def live_sets_def live_deps_def sets_spec_def fun_eq_iff)

text \<open>One call of the client: the handler's answer, and the server's new state.\<close>

lemma local_call:
  assumes "routed path (guard (default_config loop identity) (healthy_env now net rnd (w_n w)) g s k)
      (default_config loop identity) (healthy_env now net rnd (w_n w))"
    and "k \<lparr>req_method = m, req_path = path, req_query = [], req_auth = [],
          req_body = (case body of None \<Rightarrow> Malformed | Some j \<Rightarrow> Doc j)\<rparr> (w_sv w) = (r, sv')"
    and "\<And>p. resp_body r \<noteq> RedirectTo p"
  shows "do_http (local_client loop identity now net rnd) m path body w =
    (if resp_code r \<ge> 300 then Inl (StatusError m path (resp_code r)) else Inr (resp_body r),
     \<lparr>w_sv = sv', w_n = Suc (w_n w)\<rparr>)"
proof -
  let ?req = "\<lparr>req_method = m, req_path = path, req_query = [], req_auth = [],
      req_body = (case body of None \<Rightarrow> Malformed | Some j \<Rightarrow> Doc j)\<rparr>"
  have "serve (default_config loop identity) (healthy_env now net rnd (w_n w)) ?req (w_sv w) = (r, sv')"
    using assms(1,2) by (simp add: routed_def guard_anonymous)
  from local_world [OF this assms(3)] show ?thesis
    using assms(1) by (simp add: do_http_safe local_client_def New_def routed_def)
qed

lemma cleanPath_workloads:
  "cleanPath ''/apis/apps/v1/replicasets'' = ''/apis/apps/v1/replicasets''"
  "cleanPath ''/apis/apps/v1/deployments'' = ''/apis/apps/v1/deployments''"
  "plain n \<Longrightarrow> cleanPath (''/apis/apps/v1/replicasets/'' @ n) = ''/apis/apps/v1/replicasets/'' @ n"
  "plain n \<Longrightarrow> cleanPath (''/apis/apps/v1/deployments/'' @ n @ ''/status'') = ''/apis/apps/v1/deployments/'' @ n @ ''/status''"
  using cleanPath_segs [of "[''apis'', ''apps'', ''v1'', ''replicasets'']"]
    cleanPath_segs [of "[''apis'', ''apps'', ''v1'', ''deployments'']"]
    cleanPath_segs [of "[''apis'', ''apps'', ''v1'', ''replicasets'', n]"]
    cleanPath_segs [of "[''apis'', ''apps'', ''v1'', ''deployments'', n, ''status'']"] by simp_all

lemma routed_sets: "routed ''/apis/apps/v1/replicasets'' (guard cfg ev ''apps'' ''replicasets'' (handleRS ev)) cfg ev"
  by (rule routedI, rule cleanPath_workloads) (simp_all add: mux_match_def routes_def)

lemma routed_deps: "routed ''/apis/apps/v1/deployments'' (guard cfg ev ''apps'' ''deployments'' (handleDeployments ev)) cfg ev"
  by (rule routedI, rule cleanPath_workloads) (simp_all add: mux_match_def routes_def)

lemma routed_set: "plain n \<Longrightarrow>
  routed (''/apis/apps/v1/replicasets/'' @ n) (guard cfg ev ''apps'' ''replicasets'' (handleRSByName ev)) cfg ev"
  by (rule routedI [where p = "''/apis/apps/v1/replicasets/''"], erule cleanPath_workloads)
    (auto simp: mux_match_def routes_def registerM6Routes_def longer_def HasPrefix_def HasSuffix_def dest: plain_lit)

lemma routed_dep_status: "plain n \<Longrightarrow>
  routed (''/apis/apps/v1/deployments/'' @ n @ ''/status'') (guard cfg ev ''apps'' ''deployments'' (handleDeploymentsByName ev)) cfg ev"
  by (rule routedI [where p = "''/apis/apps/v1/deployments/''"], erule cleanPath_workloads)
    (auto simp: mux_match_def routes_def registerM6Routes_def longer_def HasPrefix_def HasSuffix_def dest: plain_lit)

section \<open>Listings\<close>

lemma rows_listing:
  assumes "table_ok key good T" "\<And>r. good r \<Longrightarrow> name (f r) = key r"
  shows "distinct (map name (map f (sql_order c T)))"
    and "x \<in> set (map f (sql_order c T)) \<longleftrightarrow> (\<exists>r. sql_first (\<lambda>r. key r = name x) T = Some r \<and> f r = x)"
proof -
  have names: "r \<in> set T \<Longrightarrow> name (f r) = key r" for r
    using assms(2) table_ok_mem [OF assms(1)] by blast
  have "distinct (map key T)" using table_ok_keys [OF assms(1)] by (simp add: keys_ok_def)
  then have "distinct (map key (sql_order c T))"
    by (simp add: sql_order_def distinct_map)
  moreover have "map name (map f (sql_order c T)) = map key (sql_order c T)"
    using names by (simp add: sql_order_def)
  ultimately show "distinct (map name (map f (sql_order c T)))" by (simp only:)
  show "x \<in> set (map f (sql_order c T)) \<longleftrightarrow> (\<exists>r. sql_first (\<lambda>r. key r = name x) T = Some r \<and> f r = x)"
  proof
    assume "x \<in> set (map f (sql_order c T))"
    then obtain r where r: "r \<in> set T" "f r = x" by (auto simp: sql_order_def)
    with sql_first_key [OF table_ok_keys [OF assms(1)] r(1)] names
    show "\<exists>r. sql_first (\<lambda>r. key r = name x) T = Some r \<and> f r = x" by metis
  next
    assume "\<exists>r. sql_first (\<lambda>r. key r = name x) T = Some r \<and> f r = x"
    then show "x \<in> set (map f (sql_order c T))" by (auto simp: sql_order_def dest: sql_first_SomeD)
  qed
qed

lemma tick_world: "\<lparr>w_sv = w_sv w, w_n = Suc (w_n w)\<rparr> = tick w"
  by (simp add: tick_def)

lemma client_list_local:
  assumes "routed path (guard (default_config loop identity) (healthy_env now net rnd (w_n w)) g s k)
      (default_config loop identity) (healthy_env now net rnd (w_n w))"
    and "\<And>req. req_method req = ''GET'' \<Longrightarrow> k req (w_sv w) = write_items enc (Inr xs) (w_sv w)"
    and "dec_list d z (enc_list enc xs) [] = (xs, True)"
  shows "do_out (local_client loop identity now net rnd) ''GET'' path None (dec_items d z) [] w = (Inr xs, tick w)"
proof -
  have k: "k \<lparr>req_method = ''GET'', req_path = path, req_query = [], req_auth = [], req_body = Malformed\<rparr> (w_sv w) =
      (\<lparr>resp_code = 200, resp_body = JsonBody (JObj [(''items'', enc_list enc xs)])\<rparr>, w_sv w)"
    by (simp add: assms(2) write_items_def writeJSON_def)
  show ?thesis
    using local_call [OF assms(1), of "''GET''" None, unfolded option.case, OF k] dec_items_read [OF assms(3)]
    by (simp add: do_out_def decode_payload_def tick_world)
qed

text \<open>The listing of a table: its objects, each once, as \<open>get\<close> reads them.\<close>

lemma client_table_local:
  assumes "routed path (guard (default_config loop identity) (healthy_env now net rnd (w_n w)) g s k)
      (default_config loop identity) (healthy_env now net rnd (w_n w))"
    and "\<And>req. req_method req = ''GET'' \<Longrightarrow> k req (w_sv w) = write_items enc (Inr (map f (sql_order created T))) (w_sv w)"
    and "table_ok key good T" "\<And>r. good r \<Longrightarrow> wfx (f r) \<and> name (f r) = key r"
    and "\<And>xs. list_all wfx xs \<Longrightarrow> dec_list d z (enc_list enc xs) [] = (xs, True)"
    and "\<And>n x. get n = Inr x \<longleftrightarrow> (\<exists>r. sql_first (\<lambda>r. key r = n) T = Some r \<and> f r = x)"
  shows "\<exists>xs. do_out (local_client loop identity now net rnd) ''GET'' path None (dec_items d z) [] w = (Inr xs, tick w) \<and>
    list_all wfx xs \<and> distinct (map name xs) \<and> (\<forall>x. x \<in> set xs \<longleftrightarrow> get (name x) = Inr x)"
proof -
  let ?xs = "map f (sql_order created T)"
  note rows = rows_listing [OF assms(3), of name f, OF conjunct2 [OF assms(4)]]
  have wf: "list_all wfx ?xs"
    using table_ok_mem [OF assms(3)] assms(4) by (auto simp: list_all_iff sql_order_def)
  from client_list_local [OF assms(1,2) assms(5) [OF wf]] show ?thesis
    using wf rows assms(6) by blast
qed

lemma client_ListReplicaSets_local:
  assumes "unhooked w"
  shows "\<exists>xs. client_ListReplicaSets (local_client loop identity now net rnd) w = (Inr xs, tick w) \<and>
    list_all wf_ReplicaSet xs \<and> distinct (map (\<lambda>x. md_name (rs_metadata x)) xs) \<and>
    (\<forall>x. x \<in> set xs \<longleftrightarrow> live_sets w (md_name (rs_metadata x)) = Some x)"
  unfolding client_ListReplicaSets_def live_sets_get using assms
  by (intro client_table_local [OF routed_sets _ store_ok_rs _ ReplicaSet_codec.list_roundtrip, where f = rs_of_row])
    (auto simp: unhooked_def handleRS_def ListReplicaSets_def GetReplicaSet_def query_rows_def query_row_Inr rs_of_row_wf no_faults_simp)

lemma client_ListDeployments_local:
  assumes "unhooked w"
  shows "\<exists>xs. client_ListDeployments (local_client loop identity now net rnd) w = (Inr xs, tick w) \<and>
    list_all wf_Deployment xs \<and> distinct (map (\<lambda>x. md_name (dep_metadata x)) xs) \<and>
    (\<forall>x. x \<in> set xs \<longleftrightarrow> live_deps w (md_name (dep_metadata x)) = Some x)"
  unfolding client_ListDeployments_def live_deps_get using assms
  by (intro client_table_local [OF routed_deps _ store_ok_dep _ Deployment_codec.list_roundtrip, where f = dep_of_row])
    (auto simp: unhooked_def handleDeployments_def ListDeployments_def GetDeployment_def query_rows_def query_row_Inr dep_of_row_wf
      no_faults_simp)

section \<open>The whole pass of the replica set controller\<close>

text \<open>What the pass needs: servable replica sets and suffixes without collisions.\<close>

definition pass_ready :: "(string \<Rightarrow> nat \<Rightarrow> 8 word list) \<Rightarrow> world \<Rightarrow> bool" where
  "pass_ready rnd w \<longleftrightarrow> unhooked w \<and> plain_names w \<and>
    (\<forall>k rs. live_sets w k = Some rs \<longrightarrow> servable rs \<and> fresh_for rnd (live_pods w) rs) \<and>
    (\<forall>k k' rs rs'. live_sets w k = Some rs \<longrightarrow> live_sets w k' = Some rs' \<longrightarrow> k \<noteq> k' \<longrightarrow>
       new_names rnd rs \<inter> new_names rnd rs' = {})"

lemma live_sets_name: "unhooked w \<Longrightarrow> live_sets w k = Some rs \<Longrightarrow> wf_ReplicaSet rs \<and> md_name (rs_metadata rs) = k"
  using GetReplicaSet_wf by (auto simp: unhooked_def live_sets_get)

lemma owned_alive_cong: "md_name (rs_metadata rs) = md_name (rs_metadata rs') \<Longrightarrow> owned_alive rs p = owned_alive rs' p"
  by (simp add: owned_alive_def)

lemma rs_pass_local:
  assumes "pass_ready rnd w"
  shows "\<exists>w'. rs_reconcileAll (local_client loop identity now net uid) rnd w = Some (Inr (), w') \<and>
    unhooked w' \<and> sets_spec w' = sets_spec w \<and>
    (\<forall>k rs. live_sets w k = Some rs \<longrightarrow> card (living (live_pods w') rs) = nat (rsspec_replicas (rs_spec rs))) \<and>
    (\<forall>n p. (\<forall>k rs. live_sets w k = Some rs \<longrightarrow> \<not> owned_alive rs p) \<longrightarrow> live_pods w' n = Some p \<longleftrightarrow> live_pods w n = Some p)"
proof -
  let ?c = "local_client loop identity now net uid"
  have un: "unhooked w" and plain: "plain_names w" using assms by (simp_all add: pass_ready_def)
  obtain rss where sets: "client_ListReplicaSets ?c w = (Inr rss, tick w)" "distinct (map (\<lambda>x. md_name (rs_metadata x)) rss)"
    "\<forall>x. x \<in> set rss \<longleftrightarrow> live_sets w (md_name (rs_metadata x)) = Some x"
    using client_ListReplicaSets_local [OF un] by blast
  have un': "unhooked (tick w)" using un by simp
  obtain ps where pods: "client_ListPods ?c (tick w) = (Inr ps, tick (tick w))" "snapshot_of (tick w) (\<lambda>_. True) ps"
    using client_ListPods_local [OF un'] by blast
  let ?w = "tick (tick w)"
  have live: "live_pods w n = Some p \<longleftrightarrow> p \<in> set ps \<and> pod_name p = n" for n p
    using pods(2) by (simp add: snapshot_of_def)
  have dist: "distinct (map pod_name ps)" using pods(2) by (simp add: snapshot_of_def)
  have names: "\<forall>p \<in> set ps. plain (pod_name p)" using plain live by (auto simp: plain_names_def)
  have member: "rs \<in> set rss \<longleftrightarrow> (\<exists>k. live_sets w k = Some rs)" for rs
    using sets(3) live_sets_name [OF un] by metis
  have good: "\<forall>rs \<in> set rss. servable rs" and fresh: "\<forall>rs \<in> set rss. fresh_for rnd (live_pods ?w) rs"
    using assms member by (auto simp: pass_ready_def)
  have exact: "\<forall>rs \<in> set rss. exact_for (live_pods ?w) rs ps" using live by (simp add: exact_for_def)
  have apart: "\<forall>rs \<in> set rss. \<forall>rs' \<in> set rss. rs \<noteq> rs' \<longrightarrow> new_names rnd rs \<inter> new_names rnd rs' = {}"
  proof (intro ballI impI)
    fix rs rs'
    assume rs: "rs \<in> set rss" "rs' \<in> set rss" "rs \<noteq> rs'"
    then have "live_sets w (md_name (rs_metadata rs)) = Some rs" "live_sets w (md_name (rs_metadata rs')) = Some rs'"
      using sets(3) by blast+
    moreover from this rs(3) have "md_name (rs_metadata rs) \<noteq> md_name (rs_metadata rs')" by auto
    ultimately show "new_names rnd rs \<inter> new_names rnd rs' = {}" using assms unfolding pass_ready_def by blast
  qed
  have inv: "steady (sets_spec w) ?w" using un by (simp add: steady_def)
  from exact fresh have both: "\<forall>rs \<in> set rss. exact_for (live_pods ?w) rs ps \<and> fresh_for rnd (live_pods ?w) rs" by blast
  from server_pods.rs_loop_converges [OF inv sets(2) good dist names both apart]
  obtain w' where w': "rs_loop ?c rnd ps rss ?w = Some w'" "steady (sets_spec w) w'"
    "\<forall>rs \<in> set rss. card (living (live_pods w') rs) = nat (rsspec_replicas (rs_spec rs))"
    "\<forall>n p. (\<forall>rs \<in> set rss. \<not> owned_alive rs p) \<longrightarrow> live_pods w' n = Some p \<longleftrightarrow> live_pods ?w n = Some p" by metis
  have "rs_reconcileAll ?c rnd w = Some (Inr (), w')"
    by (simp add: rs_reconcileAll_def sets(1) pods(1) w'(1))
  moreover have "card (living (live_pods w') rs) = nat (rsspec_replicas (rs_spec rs))" if "live_sets w k = Some rs" for k rs
    using w'(3) member that by blast
  moreover have "live_pods w' n = Some p \<longleftrightarrow> live_pods w n = Some p"
    if "\<forall>k rs. live_sets w k = Some rs \<longrightarrow> \<not> owned_alive rs p" for n p
  proof -
    have "\<forall>rs \<in> set rss. \<not> owned_alive rs p" using member that by blast
    with w'(4) show ?thesis by simp
  qed
  ultimately show ?thesis using w'(2) by (auto simp: steady_def)
qed

text \<open>A pass panics exactly when a negative number of replicas is stored.\<close>

lemma rs_reconcileOne_None: "rs_reconcileOne c rnd rs pods w = None \<longleftrightarrow> rsspec_replicas (rs_spec rs) < 0"
  by (auto simp: rs_reconcileOne_def Let_def)

lemma rs_loop_None: "rs_loop c rnd pods rss w = None \<longleftrightarrow> (\<exists>rs \<in> set rss. rsspec_replicas (rs_spec rs) < 0)"
proof (induction rss arbitrary: w)
  case (Cons rs rss)
  then show ?case
    using rs_reconcileOne_None [of c "rnd (md_name (rs_metadata rs))" rs pods w]
    by (cases "rs_reconcileOne c (rnd (md_name (rs_metadata rs))) rs pods w") auto
qed simp

lemma rs_pass_None:
  assumes "unhooked w"
  shows "rs_reconcileAll (local_client loop identity now net uid) rnd w = None \<longleftrightarrow>
    (\<exists>k rs. live_sets w k = Some rs \<and> rsspec_replicas (rs_spec rs) < 0)"
proof -
  obtain rss where sets: "client_ListReplicaSets (local_client loop identity now net uid) w = (Inr rss, tick w)"
    "\<forall>x. x \<in> set rss \<longleftrightarrow> live_sets w (md_name (rs_metadata x)) = Some x"
    using client_ListReplicaSets_local [OF assms] by blast
  have "unhooked (tick w)" using assms by simp
  from client_ListPods_local [OF this] obtain ps where
    "client_ListPods (local_client loop identity now net uid) (tick w) = (Inr ps, tick (tick w))" by blast
  then have "rs_reconcileAll (local_client loop identity now net uid) rnd w = None \<longleftrightarrow>
      (\<exists>rs \<in> set rss. rsspec_replicas (rs_spec rs) < 0)"
    by (simp add: rs_reconcileAll_def sets(1) rs_loop_None)
  then show ?thesis using sets(2) live_sets_name [OF assms] by metis
qed

text \<open>Further passes of the controller change no pod.\<close>

definition settled :: "world \<Rightarrow> bool" where
  "settled w \<longleftrightarrow> unhooked w \<and>
    (\<forall>k rs. live_sets w k = Some rs \<longrightarrow> servable rs \<and> card (living (live_pods w) rs) = nat (rsspec_replicas (rs_spec rs)))"

lemma same_spec:
  assumes "sets_spec w' = sets_spec w" "live_sets w' k = Some rs'"
  obtains rs where "live_sets w k = Some rs" "rs_metadata rs' = rs_metadata rs" "rs_spec rs' = rs_spec rs"
proof -
  have "sets_spec w' k = Some (rs_metadata rs', rs_spec rs')" using assms(2) by (simp add: sets_spec_def)
  then have "map_option (\<lambda>rs. (rs_metadata rs, rs_spec rs)) (live_sets w k) = Some (rs_metadata rs', rs_spec rs')"
    unfolding assms(1) by (simp only: sets_spec_def)
  with that show thesis by (cases "live_sets w k") auto
qed

lemma settledI:
  assumes "unhooked w'" "sets_spec w' = sets_spec w"
    and "\<And>k rs. live_sets w k = Some rs \<Longrightarrow> servable rs \<and> card (living (live_pods w') rs) = nat (rsspec_replicas (rs_spec rs))"
  shows "settled w'"
  unfolding settled_def
proof (intro conjI allI impI)
  show "unhooked w'" by (rule assms(1))
  fix k rs'
  assume rs': "live_sets w' k = Some rs'"
  from same_spec [OF assms(2) rs'] obtain rs where rs: "live_sets w k = Some rs" "rs_metadata rs' = rs_metadata rs"
    "rs_spec rs' = rs_spec rs" .
  then have "living (live_pods w') rs' = living (live_pods w') rs" by (simp add: living_def owned_alive_def)
  with rs assms(3) [OF rs(1)] live_sets_name [OF assms(1) rs']
  show "servable rs'" "card (living (live_pods w') rs') = nat (rsspec_replicas (rs_spec rs'))"
    by (auto simp: servable_def)
qed

lemma rs_pass_stable:
  assumes "settled w"
  shows "\<exists>w'. rs_reconcileAll (local_client loop identity now net uid) rnd w = Some (Inr (), w') \<and>
    settled w' \<and> sets_spec w' = sets_spec w \<and> live_pods w' = live_pods w"
proof -
  let ?c = "local_client loop identity now net uid" and ?w = "tick (tick w)"
  have un: "unhooked w" and ok: "\<And>k rs. live_sets w k = Some rs \<Longrightarrow>
      servable rs \<and> card (living (live_pods w) rs) = nat (rsspec_replicas (rs_spec rs))"
    using assms by (auto simp: settled_def)
  obtain rss where sets: "client_ListReplicaSets ?c w = (Inr rss, tick w)"
    "\<forall>x. x \<in> set rss \<longleftrightarrow> live_sets w (md_name (rs_metadata x)) = Some x"
    using client_ListReplicaSets_local [OF un] by blast
  have un': "unhooked (tick w)" using un by simp
  obtain ps where pods: "client_ListPods ?c (tick w) = (Inr ps, tick (tick w))" "snapshot_of (tick w) (\<lambda>_. True) ps"
    using client_ListPods_local [OF un'] by blast
  have live: "live_pods w n = Some p \<longleftrightarrow> p \<in> set ps \<and> pod_name p = n" for n p
    using pods(2) by (simp add: snapshot_of_def)
  have dist: "distinct (map pod_name ps)" using pods(2) by (simp add: snapshot_of_def)
  have inv: "steady (sets_spec w) ?w" using un by (simp add: steady_def)
  have good: "\<forall>rs \<in> set rss. servable rs \<and> exact_for (live_pods ?w) rs ps \<and>
      card (living (live_pods ?w) rs) = nat (rsspec_replicas (rs_spec rs))"
    using sets(2) ok live by (auto simp: exact_for_def)
  from server_pods.rs_loop_stable [OF inv dist good, of loop identity now net uid rnd] obtain w' where
    w': "rs_loop ?c rnd ps rss ?w = Some w'" "steady (sets_spec w) w'" "live_pods w' = live_pods w"
    by (simp only: tick_simps) blast
  have "rs_reconcileAll ?c rnd w = Some (Inr (), w')"
    by (simp add: rs_reconcileAll_def sets(1) pods(1) w'(1))
  moreover have "settled w'"
    using w'(2,3) ok by (intro settledI [of w' w]) (simp_all add: steady_def)
  ultimately show ?thesis using w' by (auto simp: steady_def)
qed

lemma rs_Run_converges:
  assumes "pass_ready (rnd 0) w"
  shows "\<exists>w'. rs_Run (local_client loop identity now net uid) rnd (replicate (Suc n) Ticked) w = Some w' \<and> settled w' \<and>
    sets_spec w' = sets_spec w \<and>
    (\<forall>m p. (\<forall>k rs. live_sets w k = Some rs \<longrightarrow> \<not> owned_alive rs p) \<longrightarrow> live_pods w' m = Some p \<longleftrightarrow> live_pods w m = Some p)"
proof -
  let ?c = "local_client loop identity now net uid"
  let ?body = "\<lambda>i w. map_option snd (rs_reconcileAll ?c (rnd i) w)"
  obtain w1 where w1: "rs_reconcileAll ?c (rnd 0) w = Some (Inr (), w1)" "unhooked w1" "sets_spec w1 = sets_spec w"
    "\<forall>k rs. live_sets w k = Some rs \<longrightarrow> card (living (live_pods w1) rs) = nat (rsspec_replicas (rs_spec rs))"
    "\<forall>m p. (\<forall>k rs. live_sets w k = Some rs \<longrightarrow> \<not> owned_alive rs p) \<longrightarrow> live_pods w1 m = Some p \<longleftrightarrow> live_pods w m = Some p"
    using rs_pass_local [OF assms] by blast
  let ?P = "\<lambda>v. settled v \<and> sets_spec v = sets_spec w \<and> live_pods v = live_pods w1"
  have "settled w1" using assms w1 by (intro settledI [of w1 w]) (auto simp: pass_ready_def)
  then have P1: "?P w1" using w1(3) by simp
  have keep: "\<exists>v'. ?body i v = Some v' \<and> ?P v'" if "?P v" for i v
    using rs_pass_stable [of v] that by (metis (no_types, lifting) option.map(2) snd_conv)
  from loop_run_ticks [of ?P ?body, OF keep P1, of "Suc 0" n] obtain w' where
    "loop_run ?body (Suc 0) (replicate n Ticked) w1 = Some w'" "?P w'" by blast
  with w1(1,5) show ?thesis by (intro exI [of _ w']) (simp add: rs_Run_def)
qed

section \<open>The deployment controller\<close>

text \<open>Reading one object.\<close>

lemma client_get_local:
  assumes "routed path (guard (default_config loop identity) (healthy_env now net rnd (w_n w)) g s k)
      (default_config loop identity) (healthy_env now net rnd (w_n w))"
    and "k \<lparr>req_method = ''GET'', req_path = path, req_query = [], req_auth = [], req_body = Malformed\<rparr> (w_sv w) =
      write_found enc r (w_sv w)"
    and "\<And>e. r = Inl e \<Longrightarrow> e = ErrNotFound" "\<And>x. r = Inr x \<Longrightarrow> dec (enc x) z = (x, True)"
  shows "do_out (local_client loop identity now net rnd) ''GET'' path None dec z w =
    (case r of Inl _ \<Rightarrow> Inl (StatusError ''GET'' path 404) | Inr x \<Rightarrow> Inr x, tick w)"
proof (cases r)
  case (Inl e)
  with assms(2) assms(3) [OF Inl] have h: "k \<lparr>req_method = ''GET'', req_path = path, req_query = [], req_auth = [],
      req_body = (case None of None \<Rightarrow> Malformed | Some j \<Rightarrow> Doc j)\<rparr> (w_sv w) =
      (\<lparr>resp_code = 404, resp_body = TextBody (Msg ''not found'')\<rparr>, w_sv w)"
    by (simp add: write_found_def notFoundOrErr_def http_error_def)
  from local_call [OF assms(1) h] Inl show ?thesis by (simp add: do_out_def tick_world)
next
  case (Inr x)
  with assms(2) have h: "k \<lparr>req_method = ''GET'', req_path = path, req_query = [], req_auth = [],
      req_body = (case None of None \<Rightarrow> Malformed | Some j \<Rightarrow> Doc j)\<rparr> (w_sv w) =
      (\<lparr>resp_code = 200, resp_body = JsonBody (enc x)\<rparr>, w_sv w)"
    by (simp add: write_found_def writeJSON_def)
  from local_call [OF assms(1) h] Inr assms(4) show ?thesis by (simp add: do_out_def decode_payload_def tick_world)
qed

lemma client_GetReplicaSet_local:
  assumes "unhooked w" "plain n"
  shows "client_GetReplicaSet (local_client loop identity now net rnd) n w =
    (case live_sets w n of Some rs \<Rightarrow> Inr rs
     | None \<Rightarrow> Inl (StatusError ''GET'' (''/apis/apps/v1/replicasets/'' @ n) 404), tick w)"
proof -
  let ?path = "''/apis/apps/v1/replicasets/'' @ n" and ?r = "GetReplicaSet no_faults (srv_st (w_sv w)) n"
  have trim: "TrimPrefix ?path ''/apis/apps/v1/replicasets/'' = n" by (rule TrimPrefix_append)
  have "handleRSByName (healthy_env now net rnd (w_n w)) \<lparr>req_method = ''GET'', req_path = ?path, req_query = [],
      req_auth = [], req_body = Malformed\<rparr> (w_sv w) = write_found enc_ReplicaSet ?r (w_sv w)"
    using plain_not_status [OF assms(2)] plain_lit [OF assms(2)] trim
    by (simp add: handleRSByName_def Let_def del: append.simps)
  from client_get_local [OF routed_set [OF assms(2)] this, of dec_ReplicaSet zero_ReplicaSet]
  have "client_GetReplicaSet (local_client loop identity now net rnd) n w =
      (case ?r of Inl _ \<Rightarrow> Inl (StatusError ''GET'' ?path 404) | Inr x \<Rightarrow> Inr x, tick w)"
    using rs_store.get_error GetReplicaSet_wf [of "srv_st (w_sv w)" no_faults n] assms(1)
    by (auto simp: client_GetReplicaSet_def unhooked_def)
  then show ?thesis by (simp add: live_sets_def old_of_def split: sum.splits)
qed

lemma UpsertReplicaSet_tables: "UpsertReplicaSet no_faults now x st = Inr st' \<Longrightarrow>
    t_admission_webhooks st' = t_admission_webhooks st \<and> t_pods st' = t_pods st \<and> t_deployments st' = t_deployments st"
  by (auto simp: UpsertReplicaSet_def Let_def sql_results split: sum.splits if_splits)

lemma UpsertDeployment_tables: "UpsertDeployment no_faults now x st = Inr st' \<Longrightarrow>
    t_pods st' = t_pods st \<and> t_replicasets st' = t_replicasets st \<and> t_admission_webhooks st' = t_admission_webhooks st \<and>
    t_hpas st' = t_hpas st \<and> t_federated_deployments st' = t_federated_deployments st"
  by (auto simp: UpsertDeployment_def Let_def sql_results split: sum.splits if_splits)

lemma live_pods_table: "t_pods (srv_st (w_sv w')) = t_pods (srv_st (w_sv w)) \<Longrightarrow> live_pods w' = live_pods w"
  by (simp add: live_pods_def GetPod_def fun_eq_iff)

lemma live_sets_table: "t_replicasets (srv_st (w_sv w')) = t_replicasets (srv_st (w_sv w)) \<Longrightarrow> live_sets w' = live_sets w"
  by (simp add: live_sets_def GetReplicaSet_def fun_eq_iff)

lemma live_deps_table: "t_deployments (srv_st (w_sv w')) = t_deployments (srv_st (w_sv w)) \<Longrightarrow> live_deps w' = live_deps w"
  by (simp add: live_deps_def GetDeployment_def fun_eq_iff)

lemma client_CreateReplicaSet_local:
  assumes inv: "unhooked w" and x: "wf_ReplicaSet x" "md_name (rs_metadata x) = n" "n \<noteq> []"
  shows "\<exists>q w'. client_CreateReplicaSet (local_client loop identity now net rnd) x w = (Inr q, w') \<and> unhooked w' \<and>
    live_pods w' = live_pods w \<and> live_deps w' = live_deps w \<and> live_sets w' = (live_sets w)(n \<mapsto> q) \<and>
    rs_metadata q = rs_metadata x \<and> rs_spec q = rs_spec x"
proof -
  let ?x = "x\<lparr>rs_apiVersion := ''apps/v1'', rs_kind := ''ReplicaSet''\<rparr>" and ?t = "now (w_n w)"
  have ok: "store_ok (srv_st (w_sv w))" using inv by (simp add: unhooked_def)
  have wf: "wf_ReplicaSet ?x" using x(1) by (simp add: wf_ReplicaSet_def)
  obtain st' where put: "UpsertReplicaSet no_faults ?t ?x (srv_st (w_sv w)) = Inr st'"
    using rs_store.put_total [OF store_ok_rs_table [OF ok] wf] by blast
  define q where "q = stored_rs ?t (live_sets w n) ?x"
  have get: "GetReplicaSet no_faults st' k = (if k = n then Inr q else GetReplicaSet no_faults (srv_st (w_sv w)) k)" for k
    using rs_store.put_get [OF store_ok_rs_table [OF ok] wf put] x(2) by (simp add: rs_key_def q_def live_sets_def)
  have ok': "store_ok st'" by (rule UpsertReplicaSet_ok [OF ok wf put])
  have "wf_ReplicaSet q" using GetReplicaSet_wf [OF ok', of no_faults n q] get by simp
  let ?w' = "\<lparr>w_sv = (w_sv w)\<lparr>srv_st := st'\<rparr>, w_n = Suc (w_n w)\<rparr>"
  have h: "handleRS (healthy_env now net rnd (w_n w)) \<lparr>req_method = ''POST'', req_path = ''/apis/apps/v1/replicasets'',
      req_query = [], req_auth = [], req_body = (case Some (enc_ReplicaSet x) of None \<Rightarrow> Malformed | Some j \<Rightarrow> Doc j)\<rparr> (w_sv w) =
      (\<lparr>resp_code = 201, resp_body = JsonBody (enc_ReplicaSet q)\<rparr>, (w_sv w)\<lparr>srv_st := st'\<rparr>)"
    using x put get by (simp add: handleRS_def with_body_def Decode_def Let_def store_then_def writeJSON_def read_back_def)
  from local_call [OF routed_sets h] \<open>wf_ReplicaSet q\<close>
  have run: "client_CreateReplicaSet (local_client loop identity now net rnd) x w = (Inr q, ?w')"
    by (simp add: client_CreateReplicaSet_def do_out_def decode_payload_def)
  have "unhooked ?w'" using inv ok' UpsertReplicaSet_tables [OF put] by (simp add: unhooked_def)
  moreover have "live_pods ?w' = live_pods w" "live_deps ?w' = live_deps w"
    using UpsertReplicaSet_tables [OF put] by (auto intro: live_pods_table live_deps_table)
  moreover have "live_sets ?w' = (live_sets w)(n \<mapsto> q)" by (auto simp: live_sets_def get fun_eq_iff)
  moreover have "rs_metadata q = rs_metadata x" "rs_spec q = rs_spec x" by (simp_all add: q_def stored_rs_def)
  ultimately show ?thesis using run by blast
qed

lemma UpdateDeploymentStatus_tables: "UpdateDeploymentStatus no_faults now n x st = Inr st' \<Longrightarrow>
    t_admission_webhooks st' = t_admission_webhooks st \<and> t_pods st' = t_pods st \<and> t_replicasets st' = t_replicasets st"
  by (auto simp: UpdateDeploymentStatus_def Let_def sql_results split: option.splits if_splits)

text \<open>A write of a status subresource: the store is as before, or the status has been written.\<close>

lemma client_put_status_local:
  assumes "routed path (guard (default_config loop identity) (healthy_env now net rnd (w_n w)) g s k)
      (default_config loop identity) (healthy_env now net rnd (w_n w))"
    and "\<And>req. req_method req = ''PUT'' \<Longrightarrow> req_path req = path \<Longrightarrow> k req (w_sv w) = put_status d z upd out req (w_sv w)"
    and "\<And>j. good (fst (d j z))"
    and "snd (do_nil (local_client loop identity now net rnd) ''PUT'' path (Some j) w) = w'"
  shows "\<exists>sv'. w' = \<lparr>w_sv = sv', w_n = Suc (w_n w)\<rparr> \<and>
    (srv_st sv' = srv_st (w_sv w) \<or> (\<exists>t. good t \<and> upd t (srv_st (w_sv w)) = Inr (srv_st sv')))"
proof -
  let ?req = "\<lparr>req_method = ''PUT'', req_path = path, req_query = [], req_auth = [],
      req_body = (case Some j of None \<Rightarrow> Malformed | Some j \<Rightarrow> Doc j)\<rparr>"
  obtain r sv' where h: "put_status d z upd out ?req (w_sv w) = (r, sv')" by (metis surj_pair)
  then have "\<And>q. resp_body r \<noteq> RedirectTo q"
    using answers_put_status unfolding answers_def by (metis fst_conv)
  moreover have "k ?req (w_sv w) = (r, sv')" using assms(2) [of ?req] h by simp
  ultimately have "w' = \<lparr>w_sv = sv', w_n = Suc (w_n w)\<rparr>"
    using local_call [OF assms(1)] assms(4) by (simp add: do_nil_def split: if_splits)
  moreover have "srv_st sv' = srv_st (w_sv w) \<or> (\<exists>t. good t \<and> upd t (srv_st (w_sv w)) = Inr (srv_st sv'))"
    using h assms(3) [of j] by (auto simp: put_status_def with_body_def http_error_def writeJSON_def
        notFoundOrErr_def Decode_def split: option.splits sum.splits if_splits prod.splits)
  ultimately show ?thesis by blast
qed

lemma client_UpdateDeploymentStatus_local:
  assumes inv: "unhooked w" and n: "plain n"
    and run: "snd (client_UpdateDeploymentStatus (local_client loop identity now net rnd) n s w) = w'"
  shows "unhooked w' \<and> live_pods w' = live_pods w \<and> live_sets w' = live_sets w"
proof -
  let ?path = "''/apis/apps/v1/deployments/'' @ n @ ''/status''"
  have "TrimPrefix ?path ''/apis/apps/v1/deployments/'' = n @ ''/status''" by (rule TrimPrefix_append)
  then have handler: "req_method req = ''PUT'' \<Longrightarrow> req_path req = ?path \<Longrightarrow> handleDeploymentsByName (healthy_env now net rnd (w_n w)) req (w_sv w) =
      put_status dec_DeploymentStatus zero_DeploymentStatus (UpdateDeploymentStatus no_faults (now (w_n w)) n)
        (\<lambda>st. read_back enc_Deployment (GetDeployment no_faults st n)) req (w_sv w)" for req
    by (simp add: handleDeploymentsByName_def Let_def del: append.simps)
  obtain sv' where w': "w' = \<lparr>w_sv = sv', w_n = Suc (w_n w)\<rparr>" and "srv_st sv' = srv_st (w_sv w) \<or> (\<exists>t. wf_DeploymentStatus t \<and>
      UpdateDeploymentStatus no_faults (now (w_n w)) n t (srv_st (w_sv w)) = Inr (srv_st sv'))"
    using client_put_status_local [where good = wf_DeploymentStatus, OF routed_dep_status [OF n] handler
        dec_DeploymentStatus_wf [OF zero_DeploymentStatus_wf] run [unfolded client_UpdateDeploymentStatus_def]] by blast
  then have "store_ok (srv_st sv')" and tables: "t_admission_webhooks (srv_st sv') = t_admission_webhooks (srv_st (w_sv w))"
    "t_pods (srv_st sv') = t_pods (srv_st (w_sv w))" "t_replicasets (srv_st sv') = t_replicasets (srv_st (w_sv w))"
    using inv UpdateDeploymentStatus_ok UpdateDeploymentStatus_tables by (auto simp: unhooked_def)
  then have "unhooked w'" using inv by (simp add: unhooked_def w')
  moreover have "live_pods w' = live_pods w" by (rule live_pods_table) (simp add: w' tables)
  moreover have "live_sets w' = live_sets w" by (rule live_sets_table) (simp add: w' tables)
  ultimately show ?thesis by blast
qed

definition set_name :: "Deployment \<Rightarrow> string" where
  "set_name d = md_name (dep_metadata d) @ ''-rs''"

lemma set_name_plain: "plain (md_name (dep_metadata d)) \<Longrightarrow> plain (set_name d)"
  by (auto simp: plain_def set_name_def append_eq_Cons_conv)

text \<open>The replica set \<open>q\<close> serves the deployment \<open>d\<close>: its count is right, and it is \<open>d\<close>'s if it is new.\<close>

definition follows :: "ReplicaSet option \<Rightarrow> Deployment \<Rightarrow> ReplicaSet \<Rightarrow> bool" where
  "follows old d q \<longleftrightarrow> rsspec_replicas (rs_spec q) = depspec_replicas (dep_spec d) \<and>
     (case old of Some rs \<Rightarrow> rs_spec q = (if rsspec_replicas (rs_spec rs) = depspec_replicas (dep_spec d) then rs_spec rs
        else rs_spec (replicaSet_of d))
      | None \<Rightarrow> rs_spec q = rs_spec (replicaSet_of d))"

lemma dep_reconcileOne_local:
  assumes inv: "unhooked w" and d: "wf_Deployment d" "plain (md_name (dep_metadata d))"
    and run: "dep_reconcileOne (local_client loop identity now net rnd) d w = w'"
  shows "\<exists>q. unhooked w' \<and> live_pods w' = live_pods w \<and> live_sets w' = (live_sets w)(set_name d \<mapsto> q) \<and>
    follows (live_sets w (set_name d)) d q"
proof -
  let ?c = "local_client loop identity now net rnd" and ?n = "set_name d"
  have plain: "plain ?n" by (rule set_name_plain [OF d(2)])
  have rs: "wf_ReplicaSet (replicaSet_of d)" "md_name (rs_metadata (replicaSet_of d)) = ?n" "?n \<noteq> []"
    using replicaSet_of_wf [OF d(1)] by (simp_all add: replicaSet_of_spec set_name_def)
  have inv1: "unhooked (tick w)" using inv by simp
  have get: "client_GetReplicaSet ?c ?n w = (case live_sets w ?n of Some rs \<Rightarrow> Inr rs
     | None \<Rightarrow> Inl (StatusError ''GET'' (''/apis/apps/v1/replicasets/'' @ ?n) 404), tick w)"
    by (rule client_GetReplicaSet_local [OF inv plain])
  have status: "unhooked (propagate_status ?c d v) \<and> live_pods (propagate_status ?c d v) = live_pods v \<and>
      live_sets (propagate_status ?c d v) = live_sets v" if "unhooked v" for v
  proof (cases "live_sets v ?n")
    case None
    with client_GetReplicaSet_local [OF that plain] that show ?thesis
      by (simp add: propagate_status_def set_name_def)
  next
    case (Some cur)
    have "unhooked (tick v)" using that by simp
    from client_UpdateDeploymentStatus_local [OF this d(2) refl] client_GetReplicaSet_local [OF that plain] Some
    show ?thesis by (simp add: propagate_status_def set_name_def)
  qed
  show ?thesis
  proof (cases "\<exists>rs. live_sets w ?n = Some rs \<and> rsspec_replicas (rs_spec rs) = depspec_replicas (dep_spec d)")
    case True
    then obtain old where old: "live_sets w ?n = Some old" "rsspec_replicas (rs_spec old) = depspec_replicas (dep_spec d)" by blast
    with get run have "w' = propagate_status ?c d (tick w)" by (simp add: dep_reconcileOne_def set_name_def Let_def)
    with status [OF inv1] old show ?thesis
      by (intro exI [of _ old]) (auto simp: follows_def fun_eq_iff)
  next
    case False
    obtain q w1 where create: "client_CreateReplicaSet ?c (replicaSet_of d) (tick w) = (Inr q, w1)" "unhooked w1"
      "live_pods w1 = live_pods w" "live_sets w1 = (live_sets w)(?n \<mapsto> q)" "rs_spec q = rs_spec (replicaSet_of d)"
      using client_CreateReplicaSet_local [OF inv1 rs, of loop identity now net rnd] by (simp only: tick_simps tick_live) blast
    from False get create(1) run have "w' = propagate_status ?c d w1"
      by (auto simp: dep_reconcileOne_def set_name_def Let_def split: option.splits)
    with status [OF create(2)] create False show ?thesis
      by (intro exI [of _ q]) (auto simp: follows_def replicaSet_of_spec split: option.split)
  qed
qed

lemma dep_fold_local:
  "unhooked w \<Longrightarrow> (\<forall>d \<in> set ds. wf_Deployment d \<and> plain (md_name (dep_metadata d))) \<Longrightarrow>
   distinct (map (\<lambda>d. md_name (dep_metadata d)) ds) \<Longrightarrow>
   fold (dep_reconcileOne (local_client loop identity now net rnd)) ds w = w' \<Longrightarrow>
   unhooked w' \<and> live_pods w' = live_pods w \<and>
   (\<forall>k. k \<notin> set_name ` set ds \<longrightarrow> live_sets w' k = live_sets w k) \<and>
   (\<forall>d \<in> set ds. \<exists>q. live_sets w' (set_name d) = Some q \<and> follows (live_sets w (set_name d)) d q)"
proof (induction ds arbitrary: w)
  case Nil
  then show ?case by simp
next
  case (Cons d ds)
  let ?c = "local_client loop identity now net rnd"
  define w1 where "w1 = dep_reconcileOne ?c d w"
  obtain q where q: "unhooked w1" "live_pods w1 = live_pods w" "live_sets w1 = (live_sets w)(set_name d \<mapsto> q)"
    "follows (live_sets w (set_name d)) d q"
    using dep_reconcileOne_local [OF Cons.prems(1) _ _ w1_def [symmetric]] Cons.prems(2) by auto
  have apart: "set_name d \<noteq> set_name e" if "e \<in> set ds" for e
    using Cons.prems(3) that by (auto simp: set_name_def image_iff)
  have "fold (dep_reconcileOne ?c) ds w1 = w'" using Cons.prems(4) by (simp add: w1_def)
  with Cons.IH [OF q(1)] Cons.prems(2,3) have IH: "unhooked w'" "live_pods w' = live_pods w1"
    "\<forall>k. k \<notin> set_name ` set ds \<longrightarrow> live_sets w' k = live_sets w1 k"
    "\<forall>e \<in> set ds. \<exists>q. live_sets w' (set_name e) = Some q \<and> follows (live_sets w1 (set_name e)) e q" by simp_all
  have "set_name d \<notin> set_name ` set ds" using apart by auto
  then have "live_sets w' (set_name d) = Some q" using IH(3) q(3) by simp
  moreover have "\<exists>q. live_sets w' (set_name e) = Some q \<and> follows (live_sets w (set_name e)) e q" if "e \<in> set ds" for e
    using IH(4) that apart [OF that] q(3) by auto
  ultimately show ?case using IH(1-3) q by auto
qed

text \<open>A pass of the deployment controller, and then one of the replica set controller.\<close>

lemma rollout_local:
  assumes inv: "unhooked w" and plain: "\<forall>k. live_deps w k \<noteq> None \<longrightarrow> plain k"
  shows "\<exists>w1. dep_reconcileAll (local_client loop identity now net uid) w = (Inr (), w1) \<and> unhooked w1 \<and>
    live_pods w1 = live_pods w \<and>
    (\<forall>k d. live_deps w k = Some d \<longrightarrow> (\<exists>q. live_sets w1 (k @ ''-rs'') = Some q \<and> follows (live_sets w (k @ ''-rs'')) d q)) \<and>
    (\<forall>k. (\<forall>j. live_deps w j \<noteq> None \<longrightarrow> k \<noteq> j @ ''-rs'') \<longrightarrow> live_sets w1 k = live_sets w k) \<and>
    (pass_ready rnd w1 \<longrightarrow> (\<exists>w2. rs_reconcileAll (local_client loop identity now net uid) rnd w1 = Some (Inr (), w2) \<and>
       (\<forall>k d. live_deps w k = Some d \<longrightarrow> (\<exists>q. live_sets w1 (k @ ''-rs'') = Some q \<and>
          card (living (live_pods w2) q) = nat (depspec_replicas (dep_spec d))))))"
proof -
  let ?c = "local_client loop identity now net uid"
  obtain ds where ds: "client_ListDeployments ?c w = (Inr ds, tick w)" "list_all wf_Deployment ds"
    "distinct (map (\<lambda>x. md_name (dep_metadata x)) ds)"
    "\<forall>x. x \<in> set ds \<longleftrightarrow> live_deps w (md_name (dep_metadata x)) = Some x"
    using client_ListDeployments_local [OF inv] by blast
  define w1 where "w1 = fold (dep_reconcileOne ?c) ds (tick w)"
  have name: "live_deps w k = Some d \<Longrightarrow> md_name (dep_metadata d) = k" for k d
    using inv GetDeployment_wf by (auto simp: unhooked_def live_deps_get)
  have member: "d \<in> set ds \<longleftrightarrow> (\<exists>k. live_deps w k = Some d)" for d
    using ds(4) name by metis
  have inv1: "unhooked (tick w)" using inv by simp
  have good: "\<forall>d \<in> set ds. wf_Deployment d \<and> plain (md_name (dep_metadata d))"
    using ds(2,4) plain by (auto simp: list_all_iff)
  note fold = dep_fold_local [OF inv1 good ds(3) w1_def [symmetric]]
  have run: "dep_reconcileAll ?c w = (Inr (), w1)"
    by (simp add: dep_reconcileAll_def ds(1) w1_def)
  have sets: "\<exists>q. live_sets w1 (k @ ''-rs'') = Some q \<and> follows (live_sets w (k @ ''-rs'')) d q" if "live_deps w k = Some d" for k d
    using fold member that name [OF that] by (auto simp: set_name_def)
  have frame: "live_sets w1 k = live_sets w k" if k: "\<And>j. live_deps w j \<noteq> None \<Longrightarrow> k \<noteq> j @ ''-rs''" for k
  proof -
    have "k \<notin> set_name ` set ds"
    proof
      assume "k \<in> set_name ` set ds"
      then obtain d where "d \<in> set ds" "k = md_name (dep_metadata d) @ ''-rs''" by (auto simp: set_name_def)
      with ds(4) k [of "md_name (dep_metadata d)"] show False by auto
    qed
    with fold show ?thesis by simp
  qed
  have "\<exists>w2. rs_reconcileAll ?c rnd w1 = Some (Inr (), w2) \<and>
       (\<forall>k d. live_deps w k = Some d \<longrightarrow> (\<exists>q. live_sets w1 (k @ ''-rs'') = Some q \<and>
          card (living (live_pods w2) q) = nat (depspec_replicas (dep_spec d))))" if ready: "pass_ready rnd w1"
  proof -
    obtain w2 where w2: "rs_reconcileAll ?c rnd w1 = Some (Inr (), w2)"
      "\<forall>k rs. live_sets w1 k = Some rs \<longrightarrow> card (living (live_pods w2) rs) = nat (rsspec_replicas (rs_spec rs))"
      using rs_pass_local [OF ready] by blast
    have "\<exists>q. live_sets w1 (k @ ''-rs'') = Some q \<and> card (living (live_pods w2) q) = nat (depspec_replicas (dep_spec d))"
      if d: "live_deps w k = Some d" for k d
    proof -
      from sets [OF d] obtain q where q: "live_sets w1 (k @ ''-rs'') = Some q"
        "rsspec_replicas (rs_spec q) = depspec_replicas (dep_spec d)" by (auto simp: follows_def)
      with w2(2) show ?thesis by auto
    qed
    with w2(1) show ?thesis by blast
  qed
  then show ?thesis using run fold sets frame by auto
qed

end
