(* ===== verification/Netpol.thy ===== *)
theory Netpol
  imports Api_Ext
begin

text \<open>
  internal/netpol/netpol.go: the evaluator of network policies. It is pure: a list of policies
  (with possible nil entries), the source and destination pods (nil when unknown) and the
  destination port give a decision.
\<close>

definition LabelsMatch :: "strmap \<Rightarrow> strmap \<Rightarrow> bool" where
  "LabelsMatch selector labels \<longleftrightarrow> list_all (\<lambda>(k, v). gget labels k = v) selector"

record Decision =
  dec_allowed :: bool
  dec_reason :: string
  dec_policy :: string

definition Allow :: "string \<Rightarrow> Decision" where
  "Allow reason = \<lparr>dec_allowed = True, dec_reason = reason, dec_policy = []\<rparr>"

definition Deny :: "string \<Rightarrow> string \<Rightarrow> Decision" where
  "Deny policy reason = \<lparr>dec_allowed = False, dec_reason = reason, dec_policy = policy\<rparr>"

definition peerAllows :: "NetPolPeer list \<Rightarrow> strmap \<Rightarrow> bool" where
  "peerAllows peers srcLabels \<longleftrightarrow>
     (if peers = [] then True else list_ex (\<lambda>peer. LabelsMatch (npp_podSelector peer) srcLabels) peers)"

definition portAllows :: "NetPolPort list \<Rightarrow> int \<Rightarrow> bool" where
  "portAllows ports port \<longleftrightarrow> (if ports = [] then True else list_ex (\<lambda>p. npt_port p = port) ports)"

text \<open>The policies that select the destination, in order.\<close>

fun selecting :: "NetworkPolicy option list \<Rightarrow> strmap \<Rightarrow> NetworkPolicy list" where
  "selecting [] labels = []"
| "selecting (None # ps) labels = selecting ps labels"
| "selecting (Some p # ps) labels =
     (if LabelsMatch (npspec_podSelector (np_spec p)) labels then p # selecting ps labels else selecting ps labels)"

text \<open>The two nested loops: the first policy with a rule that admits the source and the port.\<close>

definition rule_admits :: "strmap \<Rightarrow> int \<Rightarrow> NetPolIngressRule \<Rightarrow> bool" where
  "rule_admits srcLabels dstPort rule \<longleftrightarrow>
     (if \<not> peerAllows (npr_from rule) srcLabels then False
      else if \<not> portAllows (npr_ports rule) dstPort then False else True)"

fun first_match :: "NetworkPolicy list \<Rightarrow> strmap \<Rightarrow> int \<Rightarrow> NetworkPolicy option" where
  "first_match [] srcLabels dstPort = None"
| "first_match (p # ps) srcLabels dstPort =
     (if list_ex (rule_admits srcLabels dstPort) (npspec_ingress (np_spec p)) then Some p
      else first_match ps srcLabels dstPort)"

definition Evaluate :: "NetworkPolicy option list \<Rightarrow> Pod option \<Rightarrow> Pod option \<Rightarrow> int \<Rightarrow> Decision" where
  "Evaluate policies src dst dstPort =
    (case dst of None \<Rightarrow> Deny [] ''no destination pod''
     | Some d \<Rightarrow>
      (case selecting policies (md_labels (pod_metadata d)) of
         [] \<Rightarrow> Allow ''no policy selects destination pod''
       | p0 # ps \<Rightarrow>
          (let srcLabels = (case src of None \<Rightarrow> [] | Some s \<Rightarrow> md_labels (pod_metadata s)) in
           case first_match (p0 # ps) srcLabels dstPort of
             Some p \<Rightarrow> \<lparr>dec_allowed = True, dec_reason = ''matched ingress rule'', dec_policy = md_name (np_metadata p)\<rparr>
           | None \<Rightarrow> \<lparr>dec_allowed = False, dec_reason = ''default-deny: no ingress rule matched'',
                      dec_policy = md_name (np_metadata p0)\<rparr>)))"

fun PodByHostPort :: "Pod list \<Rightarrow> int \<Rightarrow> Pod option" where
  "PodByHostPort [] port = None"
| "PodByHostPort (p # pods) port = (if ps_hostPort (pod_status p) = port then Some p else PodByHostPort pods port)"

section \<open>What the evaluator decides\<close>

definition selects :: "NetworkPolicy \<Rightarrow> Pod \<Rightarrow> bool" where
  "selects p d \<longleftrightarrow> (\<forall>(k, v) \<in> set (npspec_podSelector (np_spec p)). gget (md_labels (pod_metadata d)) k = v)"

definition src_labels :: "Pod option \<Rightarrow> strmap" where
  "src_labels src = (case src of None \<Rightarrow> [] | Some s \<Rightarrow> md_labels (pod_metadata s))"

definition admits :: "NetworkPolicy \<Rightarrow> strmap \<Rightarrow> int \<Rightarrow> bool" where
  "admits p labels port \<longleftrightarrow> (\<exists>rule \<in> set (npspec_ingress (np_spec p)).
     (npr_from rule = [] \<or>
       (\<exists>peer \<in> set (npr_from rule). \<forall>(k, v) \<in> set (npp_podSelector peer). gget labels k = v)) \<and>
     (npr_ports rule = [] \<or> port \<in> npt_port ` set (npr_ports rule)))"

lemma LabelsMatch_iff: "LabelsMatch sel labels \<longleftrightarrow> (\<forall>(k, v) \<in> set sel. gget labels k = v)"
  by (auto simp: LabelsMatch_def list_all_iff)

lemma LabelsMatch_empty [simp]: "LabelsMatch [] labels"
  by (simp add: LabelsMatch_def)

lemma set_selecting: "set (selecting ps labels) =
    {p. Some p \<in> set ps \<and> LabelsMatch (npspec_podSelector (np_spec p)) labels}"
  by (induction ps labels rule: selecting.induct) auto

lemma selecting_Nil_iff: "selecting ps (md_labels (pod_metadata d)) = [] \<longleftrightarrow> (\<forall>p. Some p \<in> set ps \<longrightarrow> \<not> selects p d)"
  using set_selecting [of ps "md_labels (pod_metadata d)"]
  by (auto simp: selects_def LabelsMatch_iff set_empty [symmetric] simp del: set_empty)

lemma rule_admits_iff: "rule_admits labels port rule \<longleftrightarrow>
    (npr_from rule = [] \<or> (\<exists>peer \<in> set (npr_from rule). \<forall>(k, v) \<in> set (npp_podSelector peer). gget labels k = v)) \<and>
    (npr_ports rule = [] \<or> port \<in> npt_port ` set (npr_ports rule))"
  by (auto simp: rule_admits_def peerAllows_def portAllows_def list_ex_iff LabelsMatch_iff)

lemma first_match_None_iff: "first_match ps labels port = None \<longleftrightarrow> (\<forall>p \<in> set ps. \<not> admits p labels port)"
  by (induction ps) (auto simp: admits_def rule_admits_iff list_ex_iff)

lemma first_match_Some: "first_match ps labels port = Some p \<Longrightarrow> p \<in> set ps \<and> admits p labels port"
  by (induction ps) (auto simp: admits_def rule_admits_iff list_ex_iff split: if_splits)

lemma Evaluate_None [simp]: "\<not> dec_allowed (Evaluate ps src None port)"
  by (simp add: Evaluate_def Deny_def)

lemma Evaluate_allowed_iff:
  "dec_allowed (Evaluate ps src (Some d) port) \<longleftrightarrow>
     (\<forall>p. Some p \<in> set ps \<longrightarrow> \<not> selects p d) \<or>
     (\<exists>p. Some p \<in> set ps \<and> selects p d \<and> admits p (src_labels src) port)"
proof (cases "selecting ps (md_labels (pod_metadata d))")
  case Nil
  then have "\<forall>p. Some p \<in> set ps \<longrightarrow> \<not> selects p d"
    by (simp add: selecting_Nil_iff)
  with Nil show ?thesis
    by (simp add: Evaluate_def Allow_def)
next
  case (Cons p0 qs)
  have sel: "set (p0 # qs) = {p. Some p \<in> set ps \<and> selects p d}"
    using set_selecting [of ps "md_labels (pod_metadata d)"] Cons by (simp add: selects_def LabelsMatch_iff)
  then have some: "\<not> (\<forall>p. Some p \<in> set ps \<longrightarrow> \<not> selects p d)" by auto
  have "dec_allowed (Evaluate ps src (Some d) port) \<longleftrightarrow> first_match (p0 # qs) (src_labels src) port \<noteq> None"
    using Cons by (simp add: Evaluate_def src_labels_def Let_def split: option.splits)
  also have "\<dots> \<longleftrightarrow> (\<exists>p \<in> set (p0 # qs). admits p (src_labels src) port)"
    using first_match_None_iff [of "p0 # qs" "src_labels src" port] by simp
  finally show ?thesis using sel some by auto
qed

end
