(* ===== verification/Kube_Proxy.thy ===== *)
theory Kube_Proxy
  imports Sockets Netpol
begin

text \<open>
  cmd/kube-proxy/main.go: the listeners and backends kept in step with the services, and the
  decision for one accepted connection. Opening and closing a listener are operations \<open>sk\<close> of the world.
  The entries are kept as an association list; the copying of bytes after a successful dial is not
  modelled.
\<close>

type_synonym proxyKey = "string \<times> int"

record proxyEntry =
  pe_clusterIP :: string
  pe_ln :: listener
  pe_backends :: "EndpointAddress list"
  pe_counter :: "64 word"

record proxy =
  px_entries :: "(proxyKey \<times> proxyEntry) list"
  px_policies :: "NetworkPolicy list"
  px_pods :: "Pod list"
  px_netpolEnforce :: bool

definition new_proxy :: "bool \<Rightarrow> proxy" where
  "new_proxy enforce = \<lparr>px_entries = [], px_policies = [], px_pods = [], px_netpolEnforce = enforce\<rparr>"

definition entry_set :: "(proxyKey \<times> proxyEntry) list \<Rightarrow> proxyKey \<Rightarrow> proxyEntry \<Rightarrow> (proxyKey \<times> proxyEntry) list" where
  "entry_set entries key e = AList.update key e entries"

lemma map_of_entry_set [simp]: "map_of (entry_set entries key e) = (map_of entries)(key \<mapsto> e)"
  by (simp add: entry_set_def update_conv')

text \<open>The loop over the ports of one service, and the loop over the services.\<close>

fun sync_ports :: "'w sockets \<Rightarrow> Service \<Rightarrow> EndpointAddress list \<Rightarrow> ServicePort list
    \<Rightarrow> proxyKey list \<times> (proxyKey \<times> proxyEntry) list \<Rightarrow> 'w \<Rightarrow> (proxyKey list \<times> (proxyKey \<times> proxyEntry) list) \<times> 'w" where
  "sync_ports sk svc subsets [] s w = (s, w)"
| "sync_ports sk svc subsets (sp # sps) (active, entries) w =
    (let key = (md_name (svc_metadata svc), sp_port sp); active = key # active in
     case map_of entries key of
       None \<Rightarrow>
        (case sk_listen sk (svcspec_clusterIP (svc_spec svc)) (sp_port sp) w of
           (Inl _, w) \<Rightarrow> sync_ports sk svc subsets sps (active, entries) w
         | (Inr li, w) \<Rightarrow> sync_ports sk svc subsets sps
             (active, entry_set entries key
                \<lparr>pe_clusterIP = svcspec_clusterIP (svc_spec svc), pe_ln = li, pe_backends = subsets, pe_counter = 0\<rparr>) w)
     | Some entry \<Rightarrow> sync_ports sk svc subsets sps (active, entry_set entries key (entry\<lparr>pe_backends := subsets\<rparr>)) w)"

fun sync_services :: "'w Client \<Rightarrow> 'w sockets \<Rightarrow> Service list
    \<Rightarrow> proxyKey list \<times> (proxyKey \<times> proxyEntry) list \<Rightarrow> 'w \<Rightarrow> (proxyKey list \<times> (proxyKey \<times> proxyEntry) list) \<times> 'w" where
  "sync_services cli sk [] s w = (s, w)"
| "sync_services cli sk (svc # svcs) s w =
    (if svcspec_clusterIP (svc_spec svc) = [] then sync_services cli sk svcs s w
     else
       (let (r, w) = client_GetEndpoints cli (md_name (svc_metadata svc)) w;
            subsets = (case r of Inl _ \<Rightarrow> [] | Inr ep \<Rightarrow> ep_subsets ep);
            (s, w) = sync_ports sk svc subsets (svcspec_ports (svc_spec svc)) s w in
        sync_services cli sk svcs s w))"

text \<open>The loop that removes the entries that are not active any more closes their listeners.\<close>

definition close_stale :: "'w sockets \<Rightarrow> proxyKey set \<Rightarrow> (proxyKey \<times> proxyEntry) list \<Rightarrow> 'w \<Rightarrow> 'w" where
  "close_stale sk active entries w =
    fold (\<lambda>(key, e) w. if key \<in> active then w else sk_close sk (pe_ln e) w) entries w"

definition sync :: "'w Client \<Rightarrow> 'w sockets \<Rightarrow> proxy \<Rightarrow> 'w \<Rightarrow> (client_error + unit) \<times> proxy \<times> 'w" where
  "sync cli sk p w =
    (case client_ListServices cli w of
       (Inl e, w) \<Rightarrow> (Inl e, p, w)
     | (Inr svcs, w) \<Rightarrow>
        (let (pols, w) = client_ListNetworkPolicies cli w;
             p = (case pols of Inl _ \<Rightarrow> p | Inr pols \<Rightarrow> p\<lparr>px_policies := pols\<rparr>);
             (pods, w) = client_ListPods cli w;
             p = (case pods of Inl _ \<Rightarrow> p | Inr pods \<Rightarrow> p\<lparr>px_pods := pods\<rparr>);
             ((active, entries), w) = sync_services cli sk svcs ([], px_entries p) w;
             w = close_stale sk (set active) entries w in
         (Inr (), p\<lparr>px_entries := filter (\<lambda>(key, _). key \<in> set active) entries\<rparr>, w)))"

definition proxy_loop :: "'w Client \<Rightarrow> 'w sockets \<Rightarrow> (proxy \<times> 'w) loop_event list \<Rightarrow> proxy \<times> 'w
    \<Rightarrow> (proxy \<times> 'w) option" where
  "proxy_loop cli sk = loop_run (\<lambda>_ s. Some (snd (sync cli sk (fst s) (snd s)))) 0"

section \<open>One connection\<close>

definition findPodByName :: "Pod list \<Rightarrow> string \<Rightarrow> Pod option" where
  "findPodByName pods name = find (\<lambda>p. md_name (pod_metadata p) = name) pods"

datatype verdict = NoEndpoints | NetpolDenied Decision | DialTo EndpointAddress

definition container_port :: "Pod option \<Rightarrow> EndpointAddress \<Rightarrow> int" where
  "container_port dst ep =
    (case dst of None \<Rightarrow> ea_port ep
     | Some d \<Rightarrow>
        (case podspec_containers (pod_spec d) of [] \<Rightarrow> ea_port ep
         | c # _ \<Rightarrow> (case c_ports c of [] \<Rightarrow> ea_port ep | cp # _ \<Rightarrow> cp_containerPort cp)))"

definition netpol_decision :: "proxy \<Rightarrow> int \<Rightarrow> EndpointAddress \<Rightarrow> Decision" where
  "netpol_decision p srcPort ep =
    (let dst = findPodByName (px_pods p) (ea_podName ep) in
     Evaluate (map Some (px_policies p)) (PodByHostPort (px_pods p) srcPort) dst (container_port dst ep))"

text \<open>\<open>None\<close> is the panic of a negative index.\<close>

definition handle :: "proxy \<Rightarrow> proxyEntry \<Rightarrow> int \<Rightarrow> (verdict \<times> proxyEntry) option" where
  "handle p e srcPort =
    (let subs = pe_backends e in
     if length subs = 0 then Some (NoEndpoints, e)
     else
       (let e = e\<lparr>pe_counter := pe_counter e + 1\<rparr>; i = rr_index (pe_counter e) (length subs) in
        if i < 0 then None
        else
          (let ep = subs ! nat i in
           if px_netpolEnforce p \<and> \<not> dec_allowed (netpol_decision p srcPort ep)
           then Some (NetpolDenied (netpol_decision p srcPort ep), e)
           else Some (DialTo ep, e))))"

section \<open>What the proxy guarantees\<close>

lemma rr_index_less: "0 < n \<Longrightarrow> rr_index c n < int n"
proof -
  assume n: "0 < n"
  have "0 \<le> k mod int n \<and> k mod int n < int n" for k using n by simp
  then have "k mod int n < int n" "- (k mod int n) < int n" for k using n by (simp, smt (verit) of_nat_0_less_iff)
  then show ?thesis by (simp add: rr_index_def Let_def)
qed

text \<open>
  What the policies say of a connection from the host's port \<open>srcPort\<close> to a backend: the backend's pod is
  known, and no policy selects it or one of those that do admits the pod behind the source port, at the
  port of the backend's first container.
\<close>

definition caller_labels :: "Pod list \<Rightarrow> int \<Rightarrow> strmap" where
  "caller_labels pods srcPort =
    (case filter (\<lambda>q. ps_hostPort (pod_status q) = srcPort) pods of [] \<Rightarrow> [] | q # _ \<Rightarrow> md_labels (pod_metadata q))"

definition reached_port :: "Pod \<Rightarrow> EndpointAddress \<Rightarrow> int" where
  "reached_port d ep =
    (case concat (map c_ports (take 1 (podspec_containers (pod_spec d)))) of [] \<Rightarrow> ea_port ep | cp # _ \<Rightarrow> cp_containerPort cp)"

definition reaches :: "proxy \<Rightarrow> int \<Rightarrow> EndpointAddress \<Rightarrow> bool" where
  "reaches p srcPort ep \<longleftrightarrow> (\<exists>d \<in> set (px_pods p). md_name (pod_metadata d) = ea_podName ep \<and>
     ((\<forall>q \<in> set (px_policies p). \<not> selects q d) \<or>
      (\<exists>q \<in> set (px_policies p). selects q d \<and> admits q (caller_labels (px_pods p) srcPort) (reached_port d ep))))"

lemma PodByHostPort_labels: "src_labels (PodByHostPort pods srcPort) = caller_labels pods srcPort"
  by (induction pods) (auto simp: src_labels_def caller_labels_def)

lemma container_port_reached: "container_port (Some d) ep = reached_port d ep"
  by (simp add: container_port_def reached_port_def split: list.split)

lemma findPodByName_unique: "distinct (map (\<lambda>q. md_name (pod_metadata q)) pods) \<Longrightarrow>
    findPodByName pods n = Some d \<longleftrightarrow> d \<in> set pods \<and> md_name (pod_metadata d) = n"
  unfolding findPodByName_def by (induction pods) (auto simp: rev_image_eqI)

lemma netpol_decision_reaches:
  assumes "distinct (map (\<lambda>q. md_name (pod_metadata q)) (px_pods p))"
  shows "dec_allowed (netpol_decision p srcPort ep) \<longleftrightarrow> reaches p srcPort ep"
proof (cases "findPodByName (px_pods p) (ea_podName ep)")
  case None
  then have "\<not> (\<exists>d \<in> set (px_pods p). md_name (pod_metadata d) = ea_podName ep)"
    by (auto simp: findPodByName_def find_None_iff)
  with None show ?thesis by (auto simp: netpol_decision_def reaches_def)
next
  case (Some d)
  then have d: "d \<in> set (px_pods p) \<and> md_name (pod_metadata d) = ea_podName ep"
    "\<And>d'. d' \<in> set (px_pods p) \<and> md_name (pod_metadata d') = ea_podName ep \<Longrightarrow> d' = d"
    using findPodByName_unique [OF assms] Some by (metis, metis option.inject)
  have some: "Some q \<in> Some ` set (px_policies p) \<longleftrightarrow> q \<in> set (px_policies p)" for q by auto
  have "dec_allowed (netpol_decision p srcPort ep) \<longleftrightarrow> (\<forall>q \<in> set (px_policies p). \<not> selects q d) \<or>
      (\<exists>q \<in> set (px_policies p). selects q d \<and> admits q (caller_labels (px_pods p) srcPort) (reached_port d ep))"
    by (auto simp: netpol_decision_def Some Evaluate_allowed_iff PodByHostPort_labels container_port_reached some)
  with d show ?thesis unfolding reaches_def by metis
qed

text \<open>The verdict on a backend, with the policies enforced or not.\<close>

definition verdict_on :: "proxy \<Rightarrow> int \<Rightarrow> EndpointAddress \<Rightarrow> verdict \<Rightarrow> bool" where
  "verdict_on p srcPort ep v \<longleftrightarrow>
    (if px_netpolEnforce p \<and> \<not> reaches p srcPort ep then \<exists>d. v = NetpolDenied d else v = DialTo ep)"

lemma handle_verdict:
  assumes "distinct (map (\<lambda>q. md_name (pod_metadata q)) (px_pods p))" "handle p e srcPort = Some (v, e')" "pe_backends e \<noteq> []"
  shows "\<exists>ep \<in> set (pe_backends e). verdict_on p srcPort ep v"
proof -
  let ?n = "length (pe_backends e)" and ?i = "rr_index (pe_counter e + 1) (length (pe_backends e))"
  have n: "0 < ?n" using assms(3) by simp
  from assms(2,3) have i: "0 \<le> ?i" by (auto simp: handle_def Let_def split: if_splits)
  with rr_index_less [OF n, of "pe_counter e + 1"] have "pe_backends e ! nat ?i \<in> set (pe_backends e)" by simp
  moreover have "verdict_on p srcPort (pe_backends e ! nat ?i) v"
    using assms(2,3) netpol_decision_reaches [OF assms(1)]
    by (auto simp: handle_def Let_def verdict_on_def split: if_splits)
  ultimately show ?thesis by blast
qed

text \<open>A run of accepted connections, with the entry's counter carried along.\<close>

fun connections :: "proxy \<Rightarrow> proxyEntry \<Rightarrow> int list \<Rightarrow> verdict list option" where
  "connections p e [] = Some []"
| "connections p e (port # ports) =
    (case handle p e port of None \<Rightarrow> None
     | Some (v, e) \<Rightarrow> map_option (\<lambda>vs. v # vs) (connections p e ports))"

lemma rr_next: "uint c < 2 ^ 63 \<Longrightarrow> 0 < n \<Longrightarrow> rr_index (c + 1) n = uint c mod int n"
proof -
  assume c: "uint c < 2 ^ 63" and n: "0 < n"
  have "uint (c + 1) = uint c + 1" using c by (simp add: uint_word_ariths uint_lt2p)
  then show ?thesis using rr_index_range [OF n, of "c + 1"] c by simp
qed

definition turn :: "proxyEntry \<Rightarrow> nat \<Rightarrow> EndpointAddress" where
  "turn e k = pe_backends e ! nat ((uint (pe_counter e) + int k) mod int (length (pe_backends e)))"

lemma connections_round_robin:
  "distinct (map (\<lambda>q. md_name (pod_metadata q)) (px_pods p)) \<Longrightarrow> pe_backends e \<noteq> [] \<Longrightarrow>
   uint (pe_counter e) + int (length ports) \<le> 2 ^ 63 \<Longrightarrow>
   \<exists>vs. connections p e ports = Some vs \<and> length vs = length ports \<and>
     (\<forall>k < length ports. verdict_on p (ports ! k) (turn e k) (vs ! k))"
proof (induction ports arbitrary: e)
  case Nil
  then show ?case by simp
next
  case (Cons port ports)
  let ?c = "pe_counter e" and ?n = "length (pe_backends e)" and ?e = "e\<lparr>pe_counter := pe_counter e + 1\<rparr>"
  have c: "uint ?c < 2 ^ 63" and n: "0 < ?n" using Cons.prems by auto
  have succ: "uint (?c + 1) = uint ?c + 1" using c by (simp add: uint_word_ariths)
  have later: "turn ?e k = turn e (Suc k)" for k by (simp add: turn_def succ add.assoc)
  obtain v where v: "handle p e port = Some (v, ?e)" "verdict_on p port (turn e 0) v"
    using n rr_next [OF c n] pos_mod_sign [of "int ?n" "uint ?c"] netpol_decision_reaches [OF Cons.prems(1)]
    by (simp add: handle_def Let_def not_less turn_def verdict_on_def del: pos_mod_sign) metis
  obtain vs where vs: "connections p ?e ports = Some vs" "length vs = length ports"
    "\<forall>k < length ports. verdict_on p (ports ! k) (turn ?e k) (vs ! k)"
    using Cons.IH [of ?e] Cons.prems succ by auto
  have "verdict_on p ((port # ports) ! k) (turn e k) ((v # vs) ! k)" if "k < length (port # ports)" for k
    using that v(2) vs(3) later by (cases k) auto
  with v(1) vs(1,2) show ?case by auto
qed

text \<open>The first connection through a fresh entry.\<close>

lemma handle_first:
  assumes "pe_counter e = 0" "distinct (map (\<lambda>q. md_name (pod_metadata q)) (px_pods p))"
  shows "case pe_backends e of [] \<Rightarrow> handle p e srcPort = Some (NoEndpoints, e)
    | a # _ \<Rightarrow> \<exists>v. handle p e srcPort = Some (v, e\<lparr>pe_counter := 1\<rparr>) \<and> verdict_on p srcPort a v"
  using rr_next [of "pe_counter e" "length (pe_backends e)"] assms(1) netpol_decision_reaches [OF assms(2)]
  by (cases "pe_backends e") (auto simp: handle_def Let_def verdict_on_def)

section \<open>What a sync leaves\<close>

definition wanted :: "Service list \<Rightarrow> proxyKey \<Rightarrow> bool" where
  "wanted svcs key \<longleftrightarrow> (\<exists>svc \<in> set svcs. svcspec_clusterIP (svc_spec svc) \<noteq> [] \<and> fst key = md_name (svc_metadata svc) \<and>
     snd key \<in> sp_port ` set (svcspec_ports (svc_spec svc)))"

text \<open>The entry of a new listener, and one port: the entry is refreshed, or a bind fails or succeeds.\<close>

definition fresh_entry :: "Service \<Rightarrow> EndpointAddress list \<Rightarrow> listener \<Rightarrow> proxyEntry" where
  "fresh_entry svc subsets li =
     \<lparr>pe_clusterIP = svcspec_clusterIP (svc_spec svc), pe_ln = li, pe_backends = subsets, pe_counter = 0\<rparr>"

lemma sync_ports_step:
  assumes "sync_ports sk svc subsets (sp # sps) (active, entries) w = res" "key = (md_name (svc_metadata svc), sp_port sp)"
  obtains (refreshed) e where "map_of entries key = Some e"
      "sync_ports sk svc subsets sps (key # active, entry_set entries key (e\<lparr>pe_backends := subsets\<rparr>)) w = res"
  | (failed) err v where "map_of entries key = None" "sk_listen sk (svcspec_clusterIP (svc_spec svc)) (sp_port sp) w = (Inl err, v)"
      "sync_ports sk svc subsets sps (key # active, entries) v = res"
  | (opened) li v where "map_of entries key = None" "sk_listen sk (svcspec_clusterIP (svc_spec svc)) (sp_port sp) w = (Inr li, v)"
      "sync_ports sk svc subsets sps (key # active, entry_set entries key (fresh_entry svc subsets li)) v = res"
proof (cases "map_of entries key")
  case (Some e)
  with assms show ?thesis by (intro refreshed) (simp_all add: Let_def)
next
  case None
  obtain r v where r: "sk_listen sk (svcspec_clusterIP (svc_spec svc)) (sp_port sp) w = (r, v)" by (metis surj_pair)
  with None assms show ?thesis
    by (cases r) (auto simp: Let_def fresh_entry_def intro: failed opened)
qed

lemma sync_ports_active:
  "sync_ports sk svc subsets sps (active, entries) w = ((active', entries'), w') \<Longrightarrow>
   set active' = set active \<union> (\<lambda>sp. (md_name (svc_metadata svc), sp_port sp)) ` set sps"
proof (induction sps arbitrary: active entries w)
  case Nil
  then show ?case by simp
next
  case (Cons sp sps)
  from Cons.prems refl show ?case
    by (cases rule: sync_ports_step) (auto dest!: Cons.IH)
qed

lemma sync_services_active:
  "sync_services cli sk svcs (active, entries) w = ((active', entries'), w') \<Longrightarrow>
   set active' = set active \<union> {key. wanted svcs key}"
proof (induction svcs arbitrary: active entries w)
  case Nil
  then show ?case by (simp add: wanted_def)
next
  case (Cons svc svcs)
  show ?case
  proof (cases "svcspec_clusterIP (svc_spec svc) = []")
    case True
    with Cons show ?thesis by (auto simp: wanted_def)
  next
    case False
    obtain r w1 where g: "client_GetEndpoints cli (md_name (svc_metadata svc)) w = (r, w1)" by (metis surj_pair)
    obtain a e w2 where ports: "sync_ports sk svc (case r of Inl _ \<Rightarrow> [] | Inr ep \<Rightarrow> ep_subsets ep)
        (svcspec_ports (svc_spec svc)) (active, entries) w1 = ((a, e), w2)" by (metis surj_pair)
    have "set active' = set a \<union> {key. wanted svcs key}"
      using Cons.IH Cons.prems False g ports by simp
    with sync_ports_active [OF ports] False show ?thesis by (auto simp: wanted_def)
  qed
qed

lemma sync_ports_kept:
  "sync_ports sk svc subsets sps (active, entries) w = ((active', entries'), w') \<Longrightarrow>
   map_of entries key = Some e \<Longrightarrow>
   \<exists>e'. map_of entries' key = Some e' \<and> pe_counter e' = pe_counter e \<and> pe_clusterIP e' = pe_clusterIP e \<and> pe_ln e' = pe_ln e"
proof (induction sps arbitrary: active entries w e)
  case Nil
  then show ?case by simp
next
  case (Cons sp sps)
  let ?key = "(md_name (svc_metadata svc), sp_port sp)"
  from Cons.prems(1) refl show ?case
  proof (cases rule: sync_ports_step)
    case (refreshed e0)
    then show ?thesis
      using Cons.IH [OF refreshed(2), of "if key = ?key then e0\<lparr>pe_backends := subsets\<rparr> else e"] Cons.prems(2)
      by (cases "key = ?key") auto
  next
    case (failed err v)
    with Cons.IH [OF failed(3)] Cons.prems(2) show ?thesis by simp
  next
    case (opened li v)
    with Cons.IH [OF opened(3)] Cons.prems(2) show ?thesis by (cases "key = ?key") auto
  qed
qed

lemma sync_services_kept:
  "sync_services cli sk svcs (active, entries) w = ((active', entries'), w') \<Longrightarrow>
   map_of entries key = Some e \<Longrightarrow>
   \<exists>e'. map_of entries' key = Some e' \<and> pe_counter e' = pe_counter e \<and> pe_clusterIP e' = pe_clusterIP e \<and> pe_ln e' = pe_ln e"
proof (induction svcs arbitrary: active entries w e)
  case Nil
  then show ?case by simp
next
  case (Cons svc svcs)
  show ?case
  proof (cases "svcspec_clusterIP (svc_spec svc) = []")
    case True
    with Cons show ?thesis by simp
  next
    case False
    obtain r w1 where g: "client_GetEndpoints cli (md_name (svc_metadata svc)) w = (r, w1)" by (metis surj_pair)
    obtain a en w2 where ports: "sync_ports sk svc (case r of Inl _ \<Rightarrow> [] | Inr ep \<Rightarrow> ep_subsets ep)
        (svcspec_ports (svc_spec svc)) (active, entries) w1 = ((a, en), w2)" by (metis surj_pair)
    obtain e1 where "map_of en key = Some e1" "pe_counter e1 = pe_counter e" "pe_clusterIP e1 = pe_clusterIP e" "pe_ln e1 = pe_ln e"
      using sync_ports_kept [OF ports Cons.prems(2)] by blast
    moreover have "sync_services cli sk svcs (a, en) w2 = ((active', entries'), w')"
      using Cons.prems(1) False g ports by simp
    ultimately show ?thesis using Cons.IH by metis
  qed
qed

text \<open>The entry of a port of a service, with the backends just read.\<close>

definition entry_like :: "proxyEntry option \<Rightarrow> Service \<Rightarrow> EndpointAddress list \<Rightarrow> proxyEntry \<Rightarrow> bool" where
  "entry_like old svc subsets e \<longleftrightarrow> pe_backends e = subsets \<and>
     (case old of None \<Rightarrow> pe_clusterIP e = svcspec_clusterIP (svc_spec svc) \<and> pe_counter e = 0
      | Some o' \<Rightarrow> pe_clusterIP e = pe_clusterIP o' \<and> pe_ln e = pe_ln o' \<and> pe_counter e = pe_counter o')"

lemma entry_like_simps:
  "pe_backends e = subsets \<Longrightarrow> entry_like (Some e) svc subsets e"
  "entry_like (Some (e0\<lparr>pe_backends := subsets\<rparr>)) svc subsets e \<longleftrightarrow> entry_like (Some e0) svc subsets e"
  "entry_like (Some (fresh_entry svc subsets li)) svc subsets e \<Longrightarrow> entry_like None svc subsets e"
  by (auto simp: entry_like_def fresh_entry_def)

definition own_port :: "Service \<Rightarrow> ServicePort list \<Rightarrow> proxyKey \<Rightarrow> bool" where
  "own_port svc sps key \<longleftrightarrow> fst key = md_name (svc_metadata svc) \<and> snd key \<in> sp_port ` set sps"

lemma own_port_simps [simp]: "\<not> own_port svc [] key"
  "own_port svc (sp # sps) key \<longleftrightarrow> key = (md_name (svc_metadata svc), sp_port sp) \<or> own_port svc sps key"
  by (auto simp: own_port_def prod_eq_iff)

definition keeps_entry :: "Service \<Rightarrow> EndpointAddress list \<Rightarrow> bool \<Rightarrow> proxyEntry option \<Rightarrow> proxyEntry option \<Rightarrow> bool" where
  "keeps_entry svc subsets own old new \<longleftrightarrow>
     (if own then \<forall>e. new = Some e \<longrightarrow> entry_like old svc subsets e else new = old)"

lemma keeps_entry_like: "keeps_entry svc subsets own (Some e1) new \<Longrightarrow> pe_backends e1 = subsets \<Longrightarrow> new = Some e \<Longrightarrow>
    entry_like (Some e1) svc subsets e"
  by (auto simp: keeps_entry_def entry_like_simps(1) split: if_splits)

lemma sync_ports_keeps:
  "sync_ports sk svc subsets sps (active, entries) w = ((active', entries'), w') \<Longrightarrow>
   keeps_entry svc subsets (own_port svc sps key) (map_of entries key) (map_of entries' key)"
proof (induction sps arbitrary: active entries w)
  case Nil
  then show ?case by (simp add: keeps_entry_def)
next
  case (Cons sp sps)
  let ?key = "(md_name (svc_metadata svc), sp_port sp)"
  from Cons.prems refl show ?case
  proof (cases rule: sync_ports_step)
    case (refreshed e0)
    note IH = Cons.IH [OF refreshed(2)]
    show ?thesis
    proof (cases "key = ?key")
      case True
      from IH have "keeps_entry svc subsets (own_port svc sps ?key) (Some (e0\<lparr>pe_backends := subsets\<rparr>)) (map_of entries' ?key)"
        by (simp add: True)
      from keeps_entry_like [OF this] show ?thesis
        by (simp add: True keeps_entry_def refreshed(1) entry_like_simps(2))
    next
      case False
      with IH show ?thesis by simp
    qed
  next
    case (failed err v)
    note IH = Cons.IH [OF failed(3)]
    show ?thesis
    proof (cases "key = ?key")
      case True
      with IH show ?thesis by (simp add: keeps_entry_def failed(1) split: if_splits)
    next
      case False
      with IH show ?thesis by simp
    qed
  next
    case (opened li v)
    note IH = Cons.IH [OF opened(3)]
    show ?thesis
    proof (cases "key = ?key")
      case True
      from IH have "keeps_entry svc subsets (own_port svc sps ?key) (Some (fresh_entry svc subsets li)) (map_of entries' ?key)"
        by (simp add: True)
      from keeps_entry_like [OF this] have "\<forall>e. map_of entries' ?key = Some e \<longrightarrow> entry_like None svc subsets e"
        using entry_like_simps(3) by (simp add: fresh_entry_def) blast
      then show ?thesis by (simp add: True keeps_entry_def opened(1))
    next
      case False
      with IH show ?thesis by simp
    qed
  qed
qed

lemma map_of_filter_key: "map_of (filter (\<lambda>(k, _). P k) xs) k = (if P k then map_of xs k else None)"
  by (induction xs) auto

lemma sync_step:
  assumes "sync cli sk p w = (Inr (), p', w')"
  obtains svcs w1 active entries w2 w3 where "client_ListServices cli w = (Inr svcs, w1)"
    "sync_services cli sk svcs ([], px_entries p) w2 = ((active, entries), w3)"
    "w2 = snd (client_ListPods cli (snd (client_ListNetworkPolicies cli w1)))" "w' = close_stale sk (set active) entries w3"
    "px_entries p' = filter (\<lambda>(key, _). key \<in> set active) entries"
  using assms by (auto simp: sync_def Let_def split: prod.splits sum.splits)

lemma sync_entries_wanted:
  assumes "sync cli sk p w = (Inr (), p', w')"
  shows "\<exists>svcs w1. client_ListServices cli w = (Inr svcs, w1) \<and>
     (\<forall>key e. map_of (px_entries p') key = Some e \<longrightarrow> wanted svcs key) \<and>
     (\<forall>key e. map_of (px_entries p) key = Some e \<longrightarrow> wanted svcs key \<longrightarrow>
        (\<exists>e'. map_of (px_entries p') key = Some e' \<and> pe_counter e' = pe_counter e \<and> pe_clusterIP e' = pe_clusterIP e \<and>
           pe_ln e' = pe_ln e))"
proof -
  from assms obtain svcs w1 active entries w2 w3 where s: "client_ListServices cli w = (Inr svcs, w1)"
    "sync_services cli sk svcs ([], px_entries p) w2 = ((active, entries), w3)"
    "px_entries p' = filter (\<lambda>(key, _). key \<in> set active) entries"
    by (rule sync_step)
  have active: "set active = {key. wanted svcs key}" using sync_services_active [OF s(2)] by simp
  show ?thesis
    using s(1) sync_services_kept [OF s(2)] by (auto simp: s(3) map_of_filter_key active split: if_splits)
qed

section \<open>What the proxy listens on\<close>

definition listeners_of :: "(proxyKey \<times> proxyEntry) list \<Rightarrow> (proxyKey \<times> listener) list" where
  "listeners_of entries = map (\<lambda>(key, e). (key, pe_ln e)) entries"

text \<open>The listeners of the entries are open, no other one is, and each is bound where its entry says.\<close>

definition proxying :: "('w \<Rightarrow> listener set) \<Rightarrow> (proxyKey \<times> proxyEntry) list \<Rightarrow> 'w \<Rightarrow> bool" where
  "proxying opened entries w \<longleftrightarrow> serving opened (listeners_of entries) w \<and>
     (\<forall>key e. map_of entries key = Some e \<longrightarrow>
        fst (snd (pe_ln e)) = pe_clusterIP e \<and> (snd key \<noteq> 0 \<longrightarrow> ln_port (pe_ln e) = snd key))"

lemma map_of_listeners: "map_of (listeners_of entries) key = map_option pe_ln (map_of entries key)"
  by (induction entries) (auto simp: listeners_of_def)

lemma listeners_of_set: "listeners_of (entry_set entries key e) = AList.update key (pe_ln e) (listeners_of entries)"
  unfolding listeners_of_def entry_set_def by (induction entries) auto

lemma update_same: "map_of xs k = Some v \<Longrightarrow> AList.update k v xs = xs"
  by (induction xs) (auto split: if_splits)

lemma listeners_of_filter:
  "listeners_of (filter (\<lambda>(key, _). key \<in> A) entries) = filter (\<lambda>(key, _). key \<in> A) (listeners_of entries)"
  by (induction entries) (auto simp: listeners_of_def)

lemma close_stale_listeners: "close_stale sk A entries w =
    fold (\<lambda>(n, li) w. if n \<in> A then w else sk_close sk li w) (listeners_of entries) w"
  unfolding close_stale_def listeners_of_def by (induction entries arbitrary: w) (auto split: if_splits)

text \<open>A call of the client leaves the world to one request.\<close>

lemma do_out_world: "snd (do_out (New T) m p b d z w) = w \<or> (\<exists>req. snd (do_out (New T) m p b d z w) = snd (T req w))"
  by (auto simp: do_out_def do_http_def New_def Let_def split: target.splits prod.splits sum.splits) (metis snd_conv)+

context listening
begin

lemma proxying_ports:
  "fits w \<Longrightarrow> proxying opened entries w \<Longrightarrow>
   sync_ports sk svc subsets sps (active, entries) w = ((active', entries'), w') \<Longrightarrow>
   fits w' \<and> proxying opened entries' w'"
proof (induction sps arbitrary: active entries w)
  case Nil
  then show ?case by simp
next
  case (Cons sp sps)
  let ?key = "(md_name (svc_metadata svc), sp_port sp)"
  from Cons.prems(3) refl show ?case
  proof (cases rule: sync_ports_step)
    case (refreshed e0)
    then have "proxying opened (entry_set entries ?key (e0\<lparr>pe_backends := subsets\<rparr>)) w"
      using Cons.prems(2)
      by (simp add: proxying_def listeners_of_set update_same map_of_listeners)
    from Cons.IH [OF Cons.prems(1) this refreshed(2)] show ?thesis .
  next
    case (failed err v)
    with listen_fails [OF Cons.prems(1) failed(2)] Cons.prems(2) have "fits v" "proxying opened entries v"
      by (simp_all add: proxying_def serving_def)
    from Cons.IH [OF this failed(3)] show ?thesis .
  next
    case (opened li v)
    have "map_of (listeners_of entries) ?key = None" using opened(1) by (simp add: map_of_listeners)
    from serving_open [OF Cons.prems(1) _ this opened(2)] Cons.prems(2)
    have "fits v" "proxying opened (entry_set entries ?key (fresh_entry svc subsets li)) v"
      by (auto simp: proxying_def listeners_of_set fresh_entry_def)
    from Cons.IH [OF this opened(3)] show ?thesis .
  qed
qed

lemma proxying_calm: "opened w' = opened w \<Longrightarrow> proxying opened entries w' = proxying opened entries w"
  by (simp add: proxying_def serving_def)

lemma proxying_services:
  assumes quiet: "\<And>req v. fits v \<Longrightarrow> fits (snd (T req v)) \<and> opened (snd (T req v)) = opened v"
  shows "fits w \<Longrightarrow> proxying opened entries w \<Longrightarrow>
    sync_services (New T) sk svcs (active, entries) w = ((active', entries'), w') \<Longrightarrow>
    fits w' \<and> proxying opened entries' w'"
proof (induction svcs arbitrary: active entries w)
  case Nil
  then show ?case by simp
next
  case (Cons svc svcs)
  show ?case
  proof (cases "svcspec_clusterIP (svc_spec svc) = []")
    case True
    with Cons show ?thesis by simp
  next
    case False
    obtain r w1 where g: "client_GetEndpoints (New T) (md_name (svc_metadata svc)) w = (r, w1)" by (metis surj_pair)
    then have "w1 = snd (client_GetEndpoints (New T) (md_name (svc_metadata svc)) w)" by simp
    then have w1: "fits w1" "opened w1 = opened w"
      using quiet [OF Cons.prems(1)] do_out_world Cons.prems(1) unfolding client_GetEndpoints_def by metis+
    obtain a en w2 where ports: "sync_ports sk svc (case r of Inl _ \<Rightarrow> [] | Inr ep \<Rightarrow> ep_subsets ep)
        (svcspec_ports (svc_spec svc)) (active, entries) w1 = ((a, en), w2)" by (metis surj_pair)
    have "proxying opened entries w1" using Cons.prems(2) proxying_calm [OF w1(2)] by simp
    from proxying_ports [OF w1(1) this ports] have "fits w2" "proxying opened en w2" by auto
    moreover have "sync_services (New T) sk svcs (a, en) w2 = ((active', entries'), w')"
      using Cons.prems(3) False g ports by simp
    ultimately show ?thesis by (rule Cons.IH)
  qed
qed

text \<open>A sync keeps the open listeners and the entries in step.\<close>

lemma proxying_sync:
  assumes quiet: "\<And>req v. fits v \<Longrightarrow> fits (snd (T req v)) \<and> opened (snd (T req v)) = opened v"
    and "fits w" "proxying opened (px_entries p) w" "sync (New T) sk p w = (Inr (), p', w')"
  shows "fits w' \<and> proxying opened (px_entries p') w'"
proof -
  have calm: "fits (snd (do_out (New T) m q b d z v)) \<and> opened (snd (do_out (New T) m q b d z v)) = opened v"
    if "fits v" for m q b v and d :: "'b dec" and z
    using quiet [OF that] do_out_world that by metis
  from assms(4) obtain svcs w1 active entries w2 w3 where s: "client_ListServices (New T) w = (Inr svcs, w1)"
    "sync_services (New T) sk svcs ([], px_entries p) w2 = ((active, entries), w3)"
    "w2 = snd (client_ListPods (New T) (snd (client_ListNetworkPolicies (New T) w1)))" "w' = close_stale sk (set active) entries w3"
    "px_entries p' = filter (\<lambda>(key, _). key \<in> set active) entries"
    by (rule sync_step)
  have "w1 = snd (client_ListServices (New T) w)" using s(1) by simp
  then have w1: "fits w1 \<and> opened w1 = opened w" unfolding client_ListServices_def using calm [OF assms(2)] by simp
  have w2: "fits w2 \<and> opened w2 = opened w"
    unfolding s(3) client_ListPods_def client_ListNetworkPolicies_def using w1 calm by metis
  then have "proxying opened (px_entries p) w2" using proxying_calm [of w2 w] assms(3) by simp
  from proxying_services [OF quiet conjunct1 [OF w2] this s(2)] have w3: "fits w3" "proxying opened entries w3" by auto
  from w3(2) have srv: "serving opened (listeners_of entries) w3" by (simp add: proxying_def)
  from serving_close [OF w3(1) srv] have "fits w'" "serving opened (listeners_of (px_entries p')) w'"
    by (simp_all add: s(4,5) close_stale_listeners listeners_of_filter)
  with w3(2) show ?thesis
    by (auto simp: proxying_def s(5) map_of_filter_key split: if_splits)
qed

end

section \<open>On one host\<close>

text \<open>
  An address that the host lets the process bind and that no open listener has, and services that leave it to
  one key: no other service port of that address asks for it, or for a port of the host's choice.
\<close>

definition can_bind :: "string \<Rightarrow> int \<Rightarrow> os \<Rightarrow> bool" where
  "can_bind ip port os \<longleftrightarrow> os_bindable os ip port \<and> (\<forall>i. (i, ip, port) \<notin> set (os_open os))"

definition spares :: "proxyKey \<Rightarrow> string \<Rightarrow> Service \<Rightarrow> bool" where
  "spares key ip svc \<longleftrightarrow> (svcspec_clusterIP (svc_spec svc) = ip \<longrightarrow>
     (\<forall>sp \<in> set (svcspec_ports (svc_spec svc)). sp_port sp = snd key \<or> sp_port sp = 0 \<longrightarrow> key = (md_name (svc_metadata svc), sp_port sp)))"

lemma can_bind_listen:
  assumes "sk_listen host_sockets ip' port' (w, os) = (r, (v, os'))" "can_bind ip port os"
  shows "v = w \<and> (can_bind ip port os' \<or> ip' = ip \<and> (port' = port \<or> port' = 0) \<and> is_ok r)"
    and "ip' = ip \<Longrightarrow> port' = port \<Longrightarrow> port \<noteq> 0 \<Longrightarrow> is_ok r"
  using assms by (auto simp: host_sockets_def os_listen_def can_bind_def Let_def is_ok_def split: if_splits prod.splits)

lemma sync_ports_world:
  "sync_ports host_sockets svc subsets sps (active, entries) (w, os) = ((active', entries'), (w', os')) \<Longrightarrow> w' = w"
proof (induction sps arbitrary: active entries os)
  case Nil
  then show ?case by simp
next
  case (Cons sp sps)
  have same: "\<exists>os1. v = (w, os1)" if "sk_listen host_sockets ip port (w, os) = (r, v)" for ip port r v
    using that by (auto simp: host_sockets_def split: prod.splits)
  from Cons.prems refl show ?case
    by (cases rule: sync_ports_step) (auto dest: same Cons.IH)
qed

lemma sync_ports_binds:
  assumes "snd key \<noteq> 0"
  shows "map_of entries key \<noteq> None \<or> can_bind ip (snd key) os \<Longrightarrow>
    (svcspec_clusterIP (svc_spec svc) = ip \<Longrightarrow>
      \<forall>sp \<in> set sps. sp_port sp = snd key \<or> sp_port sp = 0 \<longrightarrow> key = (md_name (svc_metadata svc), sp_port sp)) \<Longrightarrow>
    sync_ports host_sockets svc subsets sps (active, entries) (w, os) = ((active', entries'), (w', os')) \<Longrightarrow>
    w' = w \<and> (map_of entries' key \<noteq> None \<or> can_bind ip (snd key) os') \<and>
    (own_port svc sps key \<longrightarrow> svcspec_clusterIP (svc_spec svc) = ip \<longrightarrow> map_of entries' key \<noteq> None)"
proof (induction sps arbitrary: active entries w os)
  case Nil
  then show ?case by simp
next
  case (Cons sp sps)
  let ?key = "(md_name (svc_metadata svc), sp_port sp)"
  have rest: "svcspec_clusterIP (svc_spec svc) = ip \<Longrightarrow>
      \<forall>sp \<in> set sps. sp_port sp = snd key \<or> sp_port sp = 0 \<longrightarrow> key = (md_name (svc_metadata svc), sp_port sp)"
    using Cons.prems(2) by simp
  have stays: "map_of entries1 key \<noteq> None \<Longrightarrow>
      sync_ports host_sockets svc subsets sps (act, entries1) v = ((active', entries'), (w', os')) \<Longrightarrow> map_of entries' key \<noteq> None"
    for act entries1 v using sync_ports_kept by fastforce
  from Cons.prems(3) refl show ?case
  proof (cases rule: sync_ports_step)
    case (refreshed e0)
    have "map_of (entry_set entries ?key (e0\<lparr>pe_backends := subsets\<rparr>)) key \<noteq> None \<or> can_bind ip (snd key) os"
      using Cons.prems(1) by auto
    from Cons.IH [OF this rest refreshed(2)] stays [OF _ refreshed(2)] show ?thesis by auto
  next
    case (failed err v)
    obtain v1 os1 where v: "v = (v1, os1)" by (cases v)
    have listen: "sk_listen host_sockets (svcspec_clusterIP (svc_spec svc)) (sp_port sp) (w, os) = (Inl err, (v1, os1))"
      using failed(2) v by simp
    then have "v1 = w" "os1 = os"
      by (auto simp: host_sockets_def os_listen_def Let_def split: if_splits prod.splits)
    then have "map_of entries key \<noteq> None \<or> can_bind ip (snd key) os1" using Cons.prems(1) by simp
    note IH = Cons.IH [OF this rest failed(3) [unfolded v]]
    have "\<not> (key = ?key \<and> svcspec_clusterIP (svc_spec svc) = ip)"
      using can_bind_listen(2) [OF listen, of ip "snd key"] Cons.prems(1) failed(1) assms by (auto simp: is_ok_def)
    with IH \<open>v1 = w\<close> show ?thesis by auto
  next
    case (opened li v)
    obtain v1 os1 where v: "v = (v1, os1)" by (cases v)
    have listen: "sk_listen host_sockets (svcspec_clusterIP (svc_spec svc)) (sp_port sp) (w, os) = (Inr li, (v1, os1))"
      using opened(2) v by simp
    then have v1: "v1 = w" by (auto simp: host_sockets_def split: prod.splits)
    have next': "map_of (entry_set entries ?key (fresh_entry svc subsets li)) key \<noteq> None \<or> can_bind ip (snd key) os1"
    proof (cases "map_of entries key = None \<and> key \<noteq> ?key")
      case True
      then have bind: "can_bind ip (snd key) os" and other: "key \<noteq> ?key" using Cons.prems(1) by simp_all
      have "\<not> (svcspec_clusterIP (svc_spec svc) = ip \<and> (sp_port sp = snd key \<or> sp_port sp = 0))"
        using Cons.prems(2) other by (metis list.set_intros(1))
      with can_bind_listen(1) [OF listen bind] show ?thesis by blast
    next
      case False
      then show ?thesis by auto
    qed
    from Cons.IH [OF next' rest opened(3) [unfolded v]] stays [OF _ opened(3)] v1 show ?thesis by auto
  qed
qed

lemma sync_services_binds:
  assumes "snd key \<noteq> 0"
  shows "map_of entries key \<noteq> None \<or> can_bind ip (snd key) os \<Longrightarrow> \<forall>svc \<in> set svcs. spares key ip svc \<Longrightarrow>
    sync_services (New (hosted T)) host_sockets svcs (active, entries) (w, os) = ((active', entries'), (w', os')) \<Longrightarrow>
    \<exists>svc \<in> set svcs. svcspec_clusterIP (svc_spec svc) = ip \<and> ip \<noteq> [] \<and> own_port svc (svcspec_ports (svc_spec svc)) key \<Longrightarrow>
    map_of entries' key \<noteq> None"
proof (induction svcs arbitrary: active entries w os)
  case Nil
  then show ?case by simp
next
  case (Cons svc svcs)
  show ?case
  proof (cases "svcspec_clusterIP (svc_spec svc) = []")
    case True
    with Cons.IH [OF Cons.prems(1)] Cons.prems(2-4) show ?thesis by auto
  next
    case False
    obtain r w1 where "client_GetEndpoints (New T) (md_name (svc_metadata svc)) w = (r, w1)" by (metis surj_pair)
    then have g: "client_GetEndpoints (New (hosted T)) (md_name (svc_metadata svc)) (w, os) = (r, (w1, os))"
      by (simp add: client_GetEndpoints_def do_out_hosted)
    obtain a en w2 os2 where ports: "sync_ports host_sockets svc (case r of Inl _ \<Rightarrow> [] | Inr ep \<Rightarrow> ep_subsets ep)
        (svcspec_ports (svc_spec svc)) (active, entries) (w1, os) = ((a, en), (w2, os2))" by (metis surj_pair)
    have "svcspec_clusterIP (svc_spec svc) = ip \<Longrightarrow> \<forall>sp \<in> set (svcspec_ports (svc_spec svc)).
        sp_port sp = snd key \<or> sp_port sp = 0 \<longrightarrow> key = (md_name (svc_metadata svc), sp_port sp)"
      using Cons.prems(2) by (simp add: spares_def)
    note B = sync_ports_binds [OF assms Cons.prems(1) this ports]
    have run: "sync_services (New (hosted T)) host_sockets svcs (a, en) (w2, os2) = ((active', entries'), (w', os'))"
      using Cons.prems(3) False g ports by simp
    show ?thesis
    proof (cases "map_of en key = None")
      case True
      with B Cons.prems(4) have "\<exists>svc \<in> set svcs. svcspec_clusterIP (svc_spec svc) = ip \<and> ip \<noteq> [] \<and>
          own_port svc (svcspec_ports (svc_spec svc)) key" by auto
      with Cons.IH [OF _ _ run] B Cons.prems(2) show ?thesis by auto
    next
      case False
      with sync_services_kept [OF run] show ?thesis by fastforce
    qed
  qed
qed

text \<open>Every port whose address is free and left to it has an entry after the sync.\<close>

lemma sync_binds:
  assumes "sync (New (hosted T)) host_sockets p (w, os) = (Inr (), p', (w', os'))"
    and "client_ListServices (New T) w = (Inr svcs, w1)" "svc \<in> set svcs" "svcspec_clusterIP (svc_spec svc) \<noteq> []"
    and "sp \<in> set (svcspec_ports (svc_spec svc))" "sp_port sp \<noteq> 0" "can_bind (svcspec_clusterIP (svc_spec svc)) (sp_port sp) os"
    and "\<forall>s \<in> set svcs. spares (md_name (svc_metadata svc), sp_port sp) (svcspec_clusterIP (svc_spec svc)) s"
  shows "map_of (px_entries p') (md_name (svc_metadata svc), sp_port sp) \<noteq> None"
proof -
  let ?key = "(md_name (svc_metadata svc), sp_port sp)"
  from assms(1) obtain svcs' w1' active entries w2 w3 where s: "client_ListServices (New (hosted T)) (w, os) = (Inr svcs', w1')"
    "sync_services (New (hosted T)) host_sockets svcs' ([], px_entries p) w2 = ((active, entries), w3)"
    "w2 = snd (client_ListPods (New (hosted T)) (snd (client_ListNetworkPolicies (New (hosted T)) w1')))"
    "px_entries p' = filter (\<lambda>(key, _). key \<in> set active) entries"
    by (rule sync_step)
  have "svcs' = svcs" "w1' = (w1, os)"
    using s(1) assms(2) by (auto simp: client_ListServices_def do_out_hosted)
  then obtain v2 where w2: "w2 = (v2, os)"
    using s(3) by (auto simp: client_ListPods_def client_ListNetworkPolicies_def do_out_hosted split: prod.splits)
  obtain v3 os3 where w3: "w3 = (v3, os3)" by (cases w3)
  have own: "own_port svc (svcspec_ports (svc_spec svc)) ?key" using assms(5) by (auto simp: own_port_def)
  have "map_of entries ?key \<noteq> None"
    by (rule sync_services_binds [where svcs = svcs and ip = "svcspec_clusterIP (svc_spec svc)" and os = os, OF _ _ _ s(2) [unfolded \<open>svcs' = svcs\<close> w2 w3]])
      (use assms own in auto)
  moreover have "?key \<in> set active"
    using sync_services_active [OF s(2)] assms(3-5) by (auto simp: \<open>svcs' = svcs\<close> wanted_def)
  ultimately show ?thesis by (simp add: s(4) map_of_filter_key)
qed

text \<open>What a sync on a host keeps and brings about.\<close>

definition host_proxying :: "(proxyKey \<times> proxyEntry) list \<Rightarrow> os \<Rightarrow> bool" where
  "host_proxying entries os \<longleftrightarrow> os_ok os \<and> proxying (\<lambda>os. set (os_open os)) entries os"

lemma proxying_host: "proxying (\<lambda>s. set (os_open (snd s))) entries (w, os) = proxying (\<lambda>os. set (os_open os)) entries os"
  by (simp add: proxying_def serving_def)

lemma sync_on_host:
  assumes "host_proxying (px_entries p) os" "sync (New (hosted T)) host_sockets p (w, os) = (Inr (), p', (w', os'))"
  shows "host_proxying (px_entries p') os' \<and> (\<exists>svcs w1. client_ListServices (New T) w = (Inr svcs, w1) \<and>
    (\<forall>key e. map_of (px_entries p') key = Some e \<longrightarrow> wanted svcs key) \<and>
    (\<forall>key e. map_of (px_entries p) key = Some e \<longrightarrow> wanted svcs key \<longrightarrow>
       (\<exists>e'. map_of (px_entries p') key = Some e' \<and> pe_ln e' = pe_ln e \<and> pe_counter e' = pe_counter e)) \<and>
    (\<forall>svc sp. svc \<in> set svcs \<longrightarrow> svcspec_clusterIP (svc_spec svc) \<noteq> [] \<longrightarrow> sp \<in> set (svcspec_ports (svc_spec svc)) \<longrightarrow>
       sp_port sp \<noteq> 0 \<longrightarrow> can_bind (svcspec_clusterIP (svc_spec svc)) (sp_port sp) os \<longrightarrow>
       (\<forall>s \<in> set svcs. spares (md_name (svc_metadata svc), sp_port sp) (svcspec_clusterIP (svc_spec svc)) s) \<longrightarrow>
       map_of (px_entries p') (md_name (svc_metadata svc), sp_port sp) \<noteq> None))"
proof -
  have ok: "os_ok (snd (w, os))" and srv: "proxying (\<lambda>s. set (os_open (snd s))) (px_entries p) (w, os)"
    using assms(1) by (simp_all add: host_proxying_def proxying_host)
  have quiet: "os_ok (snd v) \<Longrightarrow> os_ok (snd (snd (hosted T req v))) \<and> set (os_open (snd (snd (hosted T req v)))) = set (os_open (snd v))" for req v
    by (auto simp: hosted_def split: prod.splits)
  from host.proxying_sync [OF quiet ok srv assms(2)] have kept: "host_proxying (px_entries p') os'"
    by (simp add: host_proxying_def proxying_host)
  obtain svcs v1 where s: "client_ListServices (New (hosted T)) (w, os) = (Inr svcs, v1)"
    "\<forall>key e. map_of (px_entries p') key = Some e \<longrightarrow> wanted svcs key"
    "\<forall>key e. map_of (px_entries p) key = Some e \<longrightarrow> wanted svcs key \<longrightarrow>
        (\<exists>e'. map_of (px_entries p') key = Some e' \<and> pe_counter e' = pe_counter e \<and> pe_clusterIP e' = pe_clusterIP e \<and>
           pe_ln e' = pe_ln e)"
    using sync_entries_wanted [OF assms(2)] by blast
  from s(1) obtain w1 where list: "client_ListServices (New T) w = (Inr svcs, w1)"
    by (auto simp: client_ListServices_def do_out_hosted split: prod.splits)
  note binds = sync_binds [OF assms(2) list]
  show ?thesis
    by (intro conjI exI [of _ svcs] exI [of _ w1]) (use kept list s(2,3) binds in blast)+
qed

end
