(* ===== verification/Service_Server.thy ===== *)
theory Service_Server
  imports Workload_Server Kube_Proxy
begin

text \<open>
  The service controller and kube-proxy against the API server of cmd/apiserver (default flags, healthy
  database, no webhooks): the endpoints the controller stores, the listeners the proxy derives from
  them, and where the connections to a cluster IP go.
\<close>

definition live_svcs :: "world \<Rightarrow> string \<Rightarrow> Service option" where
  "live_svcs w n = old_of (GetService no_faults (srv_st (w_sv w)) n)"

definition live_eps :: "world \<Rightarrow> string \<Rightarrow> Endpoints option" where
  "live_eps w n = old_of (GetEndpoints no_faults (srv_st (w_sv w)) n)"

lemma live_svcs_get: "live_svcs w n = Some x \<longleftrightarrow> GetService no_faults (srv_st (w_sv w)) n = Inr x"
  by (cases "GetService no_faults (srv_st (w_sv w)) n") (simp_all add: live_svcs_def)

lemma live_eps_get: "live_eps w n = Some x \<longleftrightarrow> GetEndpoints no_faults (srv_st (w_sv w)) n = Inr x"
  by (cases "GetEndpoints no_faults (srv_st (w_sv w)) n") (simp_all add: live_eps_def)

lemma tick_services [simp]: "live_svcs (tick w) = live_svcs w" "live_eps (tick w) = live_eps w"
  by (simp_all add: fun_eq_iff live_svcs_def live_eps_def tick_def)

lemma live_svcs_name: "unhooked w \<Longrightarrow> live_svcs w k = Some x \<Longrightarrow> wf_Service x \<and> md_name (svc_metadata x) = k"
  using GetService_wf by (auto simp: unhooked_def live_svcs_get)

section \<open>Paths\<close>

lemma cleanPath_services:
  "cleanPath ''/api/v1/services'' = ''/api/v1/services''"
  "cleanPath ''/api/v1/endpoints'' = ''/api/v1/endpoints''"
  "cleanPath ''/apis/networking.mk.io/v1/networkpolicies'' = ''/apis/networking.mk.io/v1/networkpolicies''"
  "plain n \<Longrightarrow> cleanPath (''/api/v1/endpoints/'' @ n) = ''/api/v1/endpoints/'' @ n"
  using cleanPath_segs [of "[''api'', ''v1'', ''services'']"] cleanPath_segs [of "[''api'', ''v1'', ''endpoints'']"]
    cleanPath_segs [of "[''apis'', ''networking.mk.io'', ''v1'', ''networkpolicies'']"]
    cleanPath_segs [of "[''api'', ''v1'', ''endpoints'', n]"] by (simp_all add: plain_def)

lemma routed_services: "routed ''/api/v1/services'' (guard cfg ev [] ''services'' (handleServices cfg ev)) cfg ev"
  by (rule routedI, rule cleanPath_services) (simp_all add: mux_match_def routes_def registerM6Routes_def)

lemma routed_endpoints: "routed ''/api/v1/endpoints'' (guard cfg ev [] ''endpoints'' (handleEndpoints ev)) cfg ev"
  by (rule routedI, rule cleanPath_services) (simp_all add: mux_match_def routes_def registerM6Routes_def)

lemma routed_endpoint: "plain n \<Longrightarrow>
  routed (''/api/v1/endpoints/'' @ n) (guard cfg ev [] ''endpoints'' (handleEndpointsByName ev)) cfg ev"
  by (rule routedI [where p = "''/api/v1/endpoints/''"], erule cleanPath_services)
    (auto simp: mux_match_def routes_def registerM6Routes_def longer_def HasPrefix_def HasSuffix_def dest: plain_lit)

lemma routed_policies: "routed ''/apis/networking.mk.io/v1/networkpolicies''
    (guard cfg ev ''networking.mk.io'' ''networkpolicies'' (handleNetPols ev)) cfg ev"
  by (rule routedI, rule cleanPath_services) (simp_all add: mux_match_def routes_def registerM6Routes_def)

section \<open>Requests\<close>

lemma client_ListServices_local:
  assumes "unhooked w"
  shows "\<exists>xs. client_ListServices (local_client loop identity now net rnd) w = (Inr xs, tick w) \<and>
    list_all wf_Service xs \<and> distinct (map (\<lambda>x. md_name (svc_metadata x)) xs) \<and>
    (\<forall>x. x \<in> set xs \<longleftrightarrow> live_svcs w (md_name (svc_metadata x)) = Some x)"
  unfolding client_ListServices_def live_svcs_get using assms
  by (intro client_table_local [OF routed_services _ store_ok_svc _ Service_codec.list_roundtrip, where f = svc_of_row])
    (auto simp: unhooked_def handleServices_def ListServices_def GetService_def query_rows_def query_row_Inr svc_of_row_wf
      no_faults_simp)

lemma client_ListNetworkPolicies_local:
  assumes "unhooked w"
  shows "\<exists>xs. client_ListNetworkPolicies (local_client loop identity now net rnd) w = (Inr xs, tick w) \<and>
    ListNetworkPolicies no_faults (srv_st (w_sv w)) = Inr xs"
proof -
  have ok: "store_ok (srv_st (w_sv w))" using assms by (simp add: unhooked_def)
  obtain xs where run: "ListNetworkPolicies no_faults (srv_st (w_sv w)) = Inr xs"
    by (simp add: ListNetworkPolicies_def query_rows_def no_faults_simp)
  have "client_ListNetworkPolicies (local_client loop identity now net rnd) w = (Inr xs, tick w)"
    unfolding client_ListNetworkPolicies_def
    by (rule client_list_local [OF routed_policies _ NetworkPolicy_codec.list_roundtrip [OF ListNetworkPolicies_wf [OF ok run]]])
      (simp add: handleNetPols_def run)
  with run show ?thesis by blast
qed

lemma UpsertEndpoints_tables: "UpsertEndpoints no_faults now x st = Inr st' \<Longrightarrow>
    t_admission_webhooks st' = t_admission_webhooks st \<and> t_pods st' = t_pods st \<and> t_services st' = t_services st"
  by (auto simp: UpsertEndpoints_def Let_def sql_results split: sum.splits if_splits)

lemma live_svcs_table: "t_services (srv_st (w_sv w')) = t_services (srv_st (w_sv w)) \<Longrightarrow> live_svcs w' = live_svcs w"
  by (simp add: live_svcs_def GetService_def fun_eq_iff)

lemma client_UpsertEndpoints_local:
  assumes inv: "unhooked w" and x: "wf_Endpoints x" "md_name (ep_metadata x) = n" "n \<noteq> []"
  shows "\<exists>q w'. client_UpsertEndpoints (local_client loop identity now net rnd) x w = (Inr (), w') \<and> unhooked w' \<and>
    live_pods w' = live_pods w \<and> live_svcs w' = live_svcs w \<and> live_eps w' = (live_eps w)(n \<mapsto> q) \<and>
    ep_subsets q = ep_subsets x"
proof -
  let ?x = "x\<lparr>ep_apiVersion := ''v1'', ep_kind := ''Endpoints''\<rparr>" and ?t = "now (w_n w)"
  have ok: "store_ok (srv_st (w_sv w))" using inv by (simp add: unhooked_def)
  have wf: "wf_Endpoints ?x" using x(1) by (simp add: wf_Endpoints_def)
  obtain st' where put: "UpsertEndpoints no_faults ?t ?x (srv_st (w_sv w)) = Inr st'"
    using ep_store.put_total [OF store_ok_ep_table [OF ok] wf] by blast
  define q where "q = stored_ep ?t (live_eps w n) ?x"
  have get: "GetEndpoints no_faults st' k = (if k = n then Inr q else GetEndpoints no_faults (srv_st (w_sv w)) k)" for k
    using ep_store.put_get [OF store_ok_ep_table [OF ok] wf put] x(2) by (simp add: ep_key_def q_def live_eps_def)
  have ok': "store_ok st'" by (rule UpsertEndpoints_ok [OF ok wf put])
  let ?w' = "\<lparr>w_sv = (w_sv w)\<lparr>srv_st := st'\<rparr>, w_n = Suc (w_n w)\<rparr>"
  have h: "handleEndpoints (healthy_env now net rnd (w_n w)) \<lparr>req_method = ''POST'', req_path = ''/api/v1/endpoints'',
      req_query = [], req_auth = [], req_body = (case Some (enc_Endpoints x) of None \<Rightarrow> Malformed | Some j \<Rightarrow> Doc j)\<rparr> (w_sv w) =
      (\<lparr>resp_code = 200, resp_body = JsonBody (enc_Endpoints q)\<rparr>, (w_sv w)\<lparr>srv_st := st'\<rparr>)"
    using x put get by (simp add: handleEndpoints_def with_body_def Decode_def Let_def store_then_def writeJSON_def read_back_def)
  from local_call [OF routed_endpoints h]
  have run: "client_UpsertEndpoints (local_client loop identity now net rnd) x w = (Inr (), ?w')"
    by (simp add: client_UpsertEndpoints_def do_nil_def)
  have "unhooked ?w'" using inv ok' UpsertEndpoints_tables [OF put] by (simp add: unhooked_def)
  moreover have "live_pods ?w' = live_pods w" "live_svcs ?w' = live_svcs w"
    using UpsertEndpoints_tables [OF put] by (auto intro: live_pods_table live_svcs_table)
  moreover have "live_eps ?w' = (live_eps w)(n \<mapsto> q)" by (auto simp: live_eps_def get fun_eq_iff)
  moreover have "ep_subsets q = ep_subsets x" by (simp add: q_def stored_ep_def)
  ultimately show ?thesis using run by blast
qed

lemma client_GetEndpoints_local:
  assumes "unhooked w" "plain n"
  shows "client_GetEndpoints (local_client loop identity now net rnd) n w =
    (case live_eps w n of Some ep \<Rightarrow> Inr ep
     | None \<Rightarrow> Inl (StatusError ''GET'' (''/api/v1/endpoints/'' @ n) 404), tick w)"
proof -
  let ?path = "''/api/v1/endpoints/'' @ n" and ?r = "GetEndpoints no_faults (srv_st (w_sv w)) n"
  have trim: "TrimPrefix ?path ''/api/v1/endpoints/'' = n" by (rule TrimPrefix_append)
  have "handleEndpointsByName (healthy_env now net rnd (w_n w)) \<lparr>req_method = ''GET'', req_path = ?path, req_query = [],
      req_auth = [], req_body = Malformed\<rparr> (w_sv w) = write_found enc_Endpoints ?r (w_sv w)"
    using plain_lit [OF assms(2)] trim by (simp add: handleEndpointsByName_def Let_def del: append.simps)
  from client_get_local [OF routed_endpoint [OF assms(2)] this, of dec_Endpoints zero_Endpoints]
  have "client_GetEndpoints (local_client loop identity now net rnd) n w =
      (case ?r of Inl _ \<Rightarrow> Inl (StatusError ''GET'' ?path 404) | Inr x \<Rightarrow> Inr x, tick w)"
    using ep_store.get_error GetEndpoints_wf [of "srv_st (w_sv w)" no_faults n] assms(1)
    by (auto simp: client_GetEndpoints_def unhooked_def)
  then show ?thesis by (simp add: live_eps_def old_of_def split: sum.splits)
qed

section \<open>The service controller\<close>

lemma endpoint_of_wf:
  assumes "wf_Service svc" "wf_Pod p" "endpoint_of svc p = Some a"
  shows "wf_EndpointAddress a"
proof -
  have "int64_ok (targetPort_of svc)"
    using assms(1) by (auto simp: targetPort_of_def wf_Service_def wf_ServiceSpec_def wf_ServicePort_def int64_ok_def
        split: list.split)
  then show ?thesis
    using assms(2,3) by (auto simp: endpoint_of_def Let_def wf_EndpointAddress_def wf_Pod_def wf_PodStatus_def split: if_splits)
qed

lemma endpoints_of_wf:
  assumes "wf_Service svc" "list_all wf_Pod ps"
  shows "wf_Endpoints (endpoints_of svc ps)"
proof -
  have "wf_EndpointAddress a" if "a \<in> set (ep_subsets (endpoints_of svc ps))" for a
    using that assms endpoint_of_wf unfolding endpoints_of_set list_all_iff by blast
  moreover have "wf_Metadata (ep_metadata (endpoints_of svc ps))"
    by (simp add: endpoints_of_def wf_Metadata_def zero_Metadata_def map_ok_def)
  ultimately show ?thesis by (simp add: wf_Endpoints_def list_all_iff)
qed

text \<open>The endpoints of every service are those of one snapshot of the pods.\<close>

lemma svc_fold_local:
  assumes "list_all wf_Pod ps" "list_all wf_Service svcs" "distinct (map (\<lambda>x. md_name (svc_metadata x)) svcs)"
    and "\<forall>x \<in> set svcs. md_name (svc_metadata x) \<noteq> []" "unhooked w"
  shows "\<exists>w'. fold (svc_reconcileOne (local_client loop identity now net rnd) ps) svcs w = w' \<and> unhooked w' \<and>
    live_pods w' = live_pods w \<and> live_svcs w' = live_svcs w \<and>
    (\<forall>x \<in> set svcs. \<exists>q. live_eps w' (md_name (svc_metadata x)) = Some q \<and> ep_subsets q = ep_subsets (endpoints_of x ps)) \<and>
    (\<forall>k. k \<notin> (\<lambda>x. md_name (svc_metadata x)) ` set svcs \<longrightarrow> live_eps w' k = live_eps w k)"
  using assms
proof (induction svcs arbitrary: w)
  case Nil
  then show ?case by simp
next
  case (Cons x svcs)
  let ?c = "local_client loop identity now net rnd" and ?n = "md_name (svc_metadata x)"
  have x: "wf_Endpoints (endpoints_of x ps)" "md_name (ep_metadata (endpoints_of x ps)) = ?n" "?n \<noteq> []"
    using Cons.prems endpoints_of_wf [of x ps] by (simp_all add: endpoints_of_def)
  obtain q w1 where w1: "svc_reconcileOne ?c ps x w = w1" "unhooked w1" "live_pods w1 = live_pods w" "live_svcs w1 = live_svcs w"
    "live_eps w1 = (live_eps w)(?n \<mapsto> q)" "ep_subsets q = ep_subsets (endpoints_of x ps)"
    using client_UpsertEndpoints_local [OF Cons.prems(5) x, of loop identity now net rnd] by (auto simp: svc_reconcileOne_def)
  obtain w' where w': "fold (svc_reconcileOne ?c ps) svcs w1 = w'" "unhooked w'" "live_pods w' = live_pods w1"
    "live_svcs w' = live_svcs w1"
    "\<forall>y \<in> set svcs. \<exists>q. live_eps w' (md_name (svc_metadata y)) = Some q \<and> ep_subsets q = ep_subsets (endpoints_of y ps)"
    "\<forall>k. k \<notin> (\<lambda>x. md_name (svc_metadata x)) ` set svcs \<longrightarrow> live_eps w' k = live_eps w1 k"
    using Cons.IH [of w1] Cons.prems w1(2) by auto
  have "?n \<notin> (\<lambda>x. md_name (svc_metadata x)) ` set svcs" using Cons.prems(3) by simp
  with w'(6) w1(5) have "live_eps w' ?n = Some q" by simp
  with w1 w' show ?case by auto
qed

lemma svc_pass_local:
  assumes "unhooked w" "\<forall>k. live_svcs w k \<noteq> None \<longrightarrow> k \<noteq> []"
  shows "\<exists>w' ps. svc_reconcileAll (local_client loop identity now net rnd) w = (Inr (), w') \<and> unhooked w' \<and>
    live_pods w' = live_pods w \<and> live_svcs w' = live_svcs w \<and> snapshot_of w (\<lambda>_. True) ps \<and>
    (\<forall>k svc. live_svcs w k = Some svc \<longrightarrow> (\<exists>q. live_eps w' k = Some q \<and> ep_subsets q = ep_subsets (endpoints_of svc ps))) \<and>
    (\<forall>k. live_svcs w k = None \<longrightarrow> live_eps w' k = live_eps w k)"
proof -
  let ?c = "local_client loop identity now net rnd"
  obtain svcs where svcs: "client_ListServices ?c w = (Inr svcs, tick w)" "list_all wf_Service svcs"
    "distinct (map (\<lambda>x. md_name (svc_metadata x)) svcs)"
    "\<forall>x. x \<in> set svcs \<longleftrightarrow> live_svcs w (md_name (svc_metadata x)) = Some x"
    using client_ListServices_local [OF assms(1)] by blast
  have un: "unhooked (tick w)" using assms(1) by simp
  obtain ps where ps: "client_ListPods ?c (tick w) = (Inr ps, tick (tick w))" "snapshot_of (tick w) (\<lambda>_. True) ps"
    using client_ListPods_local [OF un] by blast
  have snap: "snapshot_of w (\<lambda>_. True) ps" using ps(2) by (simp add: snapshot_of_def)
  have un2: "unhooked (tick (tick w))" using assms(1) by simp
  have named: "\<forall>x \<in> set svcs. md_name (svc_metadata x) \<noteq> []" using svcs(4) assms(2) by blast
  have wf: "list_all wf_Pod ps" using snap by (simp add: snapshot_of_def)
  obtain w' where w': "fold (svc_reconcileOne ?c ps) svcs (tick (tick w)) = w'" "unhooked w'"
    "live_pods w' = live_pods w" "live_svcs w' = live_svcs w"
    "\<forall>x \<in> set svcs. \<exists>q. live_eps w' (md_name (svc_metadata x)) = Some q \<and> ep_subsets q = ep_subsets (endpoints_of x ps)"
    "\<forall>k. k \<notin> (\<lambda>x. md_name (svc_metadata x)) ` set svcs \<longrightarrow> live_eps w' k = live_eps w k"
    using svc_fold_local [OF wf svcs(2,3) named un2, of loop identity now net rnd] by auto
  have member: "k \<in> (\<lambda>x. md_name (svc_metadata x)) ` set svcs \<longleftrightarrow> live_svcs w k \<noteq> None" for k
  proof
    assume "k \<in> (\<lambda>x. md_name (svc_metadata x)) ` set svcs"
    then obtain x where "x \<in> set svcs" "k = md_name (svc_metadata x)" by blast
    with svcs(4) show "live_svcs w k \<noteq> None" by auto
  next
    assume "live_svcs w k \<noteq> None"
    then obtain x where "live_svcs w k = Some x" by blast
    with svcs(4) live_svcs_name [OF assms(1) this] show "k \<in> (\<lambda>x. md_name (svc_metadata x)) ` set svcs" by force
  qed
  have each: "\<exists>q. live_eps w' k = Some q \<and> ep_subsets q = ep_subsets (endpoints_of svc ps)" if "live_svcs w k = Some svc" for k svc
  proof -
    have k: "md_name (svc_metadata svc) = k" using live_svcs_name [OF assms(1) that] by blast
    then have "svc \<in> set svcs" using svcs(4) that by blast
    with w'(5) k show ?thesis by blast
  qed
  have rest: "live_eps w' k = live_eps w k" if "live_svcs w k = None" for k
    using w'(6) member that by simp
  have "svc_reconcileAll ?c w = (Inr (), w')" by (simp add: svc_reconcileAll_def svcs(1) ps(1) w'(1))
  with w'(2-4) snap each rest show ?thesis
    by (intro exI [of _ w'] exI [of _ ps] conjI allI impI)
qed

section \<open>kube-proxy\<close>

definition eps_of :: "world \<Rightarrow> string \<Rightarrow> EndpointAddress list" where
  "eps_of w n = (case live_eps w n of None \<Rightarrow> [] | Some ep \<Rightarrow> ep_subsets ep)"

lemma sync_services_local:
  assumes "unhooked w" "\<forall>x \<in> set svcs. plain (md_name (svc_metadata x))" "distinct (map (\<lambda>x. md_name (svc_metadata x)) svcs)"
    and "sync_services (New (hosted (local_transport loop identity now net rnd))) host_sockets svcs (active, entries) (w, os) =
      ((active', entries'), (w', os'))"
  shows "unhooked w' \<and> live_pods w' = live_pods w \<and> live_svcs w' = live_svcs w \<and> live_eps w' = live_eps w \<and>
    (\<forall>x \<in> set svcs. \<forall>k e. k \<in> sp_port ` set (svcspec_ports (svc_spec x)) \<longrightarrow> svcspec_clusterIP (svc_spec x) \<noteq> [] \<longrightarrow>
       map_of entries' (md_name (svc_metadata x), k) = Some e \<longrightarrow>
       entry_like (map_of entries (md_name (svc_metadata x), k)) x (eps_of w (md_name (svc_metadata x))) e) \<and>
    (\<forall>key. fst key \<notin> (\<lambda>x. md_name (svc_metadata x)) ` set svcs \<longrightarrow> map_of entries' key = map_of entries key)"
  using assms
proof (induction svcs arbitrary: active entries w os)
  case Nil
  then show ?case by simp
next
  case (Cons x svcs)
  let ?T = "local_transport loop identity now net rnd" and ?n = "md_name (svc_metadata x)"
  have fresh: "?n \<notin> (\<lambda>x. md_name (svc_metadata x)) ` set svcs" using Cons.prems(3) by simp
  show ?case
  proof (cases "svcspec_clusterIP (svc_spec x) = []")
    case True
    with Cons.prems(4) have "sync_services (New (hosted ?T)) host_sockets svcs (active, entries) (w, os) = ((active', entries'), (w', os'))"
      by simp
    from Cons.IH [OF Cons.prems(1) _ _ this] Cons.prems(2,3) True show ?thesis by auto
  next
    case False
    have plain: "plain ?n" using Cons.prems(2) by simp
    obtain r where get: "client_GetEndpoints (New ?T) ?n w = (r, tick w)"
      and r: "(case r of Inl _ \<Rightarrow> [] | Inr ep \<Rightarrow> ep_subsets ep) = eps_of w ?n"
      using client_GetEndpoints_local [OF Cons.prems(1) plain, of loop identity now net rnd]
      by (auto simp: eps_of_def local_client_New [symmetric] split: option.splits)
    then have get': "client_GetEndpoints (New (hosted ?T)) ?n (w, os) = (r, (tick w, os))"
      by (simp add: client_GetEndpoints_def do_out_hosted)
    obtain a en v os1 where ports: "sync_ports host_sockets x (eps_of w ?n) (svcspec_ports (svc_spec x)) (active, entries) (tick w, os) =
        ((a, en), (v, os1))" by (metis surj_pair)
    have v: "v = tick w" by (rule sync_ports_world [OF ports])
    note keeps = sync_ports_keeps [OF ports]
    have "sync_services (New (hosted ?T)) host_sockets svcs (a, en) (tick w, os1) = ((active', entries'), (w', os'))"
      using Cons.prems(4) False get' r ports v by simp
    note rest = Cons.IH [OF _ _ _ this]
    have "unhooked (tick w)" "\<forall>x \<in> set svcs. plain (md_name (svc_metadata x))"
      "distinct (map (\<lambda>x. md_name (svc_metadata x)) svcs)" using Cons.prems(1-3) by simp_all
    note rest = rest [OF this]
    have same: "eps_of (tick w) k = eps_of w k" for k by (simp add: eps_of_def)
    have own: "entry_like (map_of entries (?n, k)) x (eps_of w ?n) e"
      if "k \<in> sp_port ` set (svcspec_ports (svc_spec x))" "map_of entries' (?n, k) = Some e" for k e
    proof -
      have "map_of en (?n, k) = Some e" using rest fresh that(2) by simp
      with keeps [of "(?n, k)"] that(1) show ?thesis by (auto simp: keeps_entry_def own_port_def)
    qed
    have others: "map_of en key = map_of entries key" if "fst key \<noteq> ?n" for key
      using keeps [of key] that by (simp add: keeps_entry_def own_port_def)
    have "md_name (svc_metadata y) \<noteq> ?n" if "y \<in> set svcs" for y
      using fresh that by (metis imageI)
    with rest own others same show ?thesis by auto
  qed
qed

lemma sync_local:
  assumes "unhooked w" "\<forall>k. live_svcs w k \<noteq> None \<longrightarrow> plain k"
  shows "\<exists>p' w' os'. sync (New (hosted (local_transport loop identity now net rnd))) host_sockets p (w, os) = (Inr (), p', (w', os')) \<and>
    unhooked w' \<and> live_pods w' = live_pods w \<and> live_svcs w' = live_svcs w \<and> live_eps w' = live_eps w \<and>
    px_netpolEnforce p' = px_netpolEnforce p \<and> snapshot_of w (\<lambda>_. True) (px_pods p') \<and>
    ListNetworkPolicies no_faults (srv_st (w_sv w)) = Inr (px_policies p') \<and>
    (\<forall>k svc sp e. live_svcs w k = Some svc \<longrightarrow> svcspec_clusterIP (svc_spec svc) \<noteq> [] \<longrightarrow> sp \<in> set (svcspec_ports (svc_spec svc)) \<longrightarrow>
       map_of (px_entries p') (k, sp_port sp) = Some e \<longrightarrow> entry_like (map_of (px_entries p) (k, sp_port sp)) svc (eps_of w k) e) \<and>
    (\<forall>k svc sp. live_svcs w k = Some svc \<longrightarrow> svcspec_clusterIP (svc_spec svc) \<noteq> [] \<longrightarrow> sp \<in> set (svcspec_ports (svc_spec svc)) \<longrightarrow>
       sp_port sp \<noteq> 0 \<longrightarrow> can_bind (svcspec_clusterIP (svc_spec svc)) (sp_port sp) os \<longrightarrow>
       (\<forall>n x. live_svcs w n = Some x \<longrightarrow> spares (k, sp_port sp) (svcspec_clusterIP (svc_spec svc)) x) \<longrightarrow>
       map_of (px_entries p') (k, sp_port sp) \<noteq> None)"
proof -
  let ?T = "local_transport loop identity now net rnd" and ?w = "tick (tick (tick w))"
  let ?c = "New (hosted ?T)"
  obtain svcs where svcs: "client_ListServices (New ?T) w = (Inr svcs, tick w)" "distinct (map (\<lambda>x. md_name (svc_metadata x)) svcs)"
    "\<forall>x. x \<in> set svcs \<longleftrightarrow> live_svcs w (md_name (svc_metadata x)) = Some x"
    using client_ListServices_local [OF assms(1)] unfolding local_client_New [symmetric] by blast
  have un: "unhooked (tick w)" "unhooked (tick (tick w))" "unhooked ?w" using assms(1) by simp_all
  obtain pols where pols: "client_ListNetworkPolicies (New ?T) (tick w) = (Inr pols, tick (tick w))"
    "ListNetworkPolicies no_faults (srv_st (w_sv w)) = Inr pols"
    using client_ListNetworkPolicies_local [OF un(1), of loop identity now net rnd] by (auto simp: tick_def local_client_New [symmetric])
  obtain ps where ps: "client_ListPods (New ?T) (tick (tick w)) = (Inr ps, ?w)" "snapshot_of (tick (tick w)) (\<lambda>_. True) ps"
    using client_ListPods_local [OF un(2)] unfolding local_client_New [symmetric] by blast
  have hosted: "client_ListServices ?c (w, os) = (Inr svcs, (tick w, os))"
    "client_ListNetworkPolicies ?c (tick w, os) = (Inr pols, (tick (tick w), os))"
    "client_ListPods ?c (tick (tick w), os) = (Inr ps, (?w, os))"
    using svcs(1) pols(1) ps(1)
    by (simp_all add: client_ListServices_def client_ListNetworkPolicies_def client_ListPods_def do_out_hosted)
  obtain active entries w1 os1 where run: "sync_services ?c host_sockets svcs ([], px_entries p) (?w, os) = ((active, entries), (w1, os1))"
    by (metis surj_pair)
  have plain: "\<forall>x \<in> set svcs. plain (md_name (svc_metadata x))" using svcs(3) assms(2) by auto
  note local = sync_services_local [OF un(3) plain svcs(2) run]
  let ?p = "p\<lparr>px_policies := pols, px_pods := ps, px_entries := filter (\<lambda>(key, _). key \<in> set active) entries\<rparr>"
  have fst_close: "fst (close_stale host_sockets A es v) = fst v" for A es and v :: "world \<times> os"
    unfolding close_stale_def by (induction es arbitrary: v) (auto simp: host_sockets_def split: prod.splits)
  then obtain os' where close: "close_stale host_sockets (set active) entries (w1, os1) = (w1, os')"
    by (metis fst_conv surj_pair)
  have sync: "sync ?c host_sockets p (w, os) = (Inr (), ?p, (w1, os'))"
    using run close by (simp add: sync_def hosted)
  have name: "md_name (svc_metadata svc) = k \<and> svc \<in> set svcs" if "live_svcs w k = Some svc" for k svc
    using live_svcs_name [OF assms(1) that] svcs(3) that by auto
  have entry: "entry_like (map_of (px_entries p) (k, sp_port sp)) svc (eps_of w k) e"
    if svc: "live_svcs w k = Some svc" "svcspec_clusterIP (svc_spec svc) \<noteq> []" "sp \<in> set (svcspec_ports (svc_spec svc))"
      and e: "map_of (px_entries ?p) (k, sp_port sp) = Some e" for k svc sp e
  proof -
    from e have "map_of entries (md_name (svc_metadata svc), sp_port sp) = Some e"
      using name [OF svc(1)] by (simp add: map_of_filter_key split: if_splits)
    with local name [OF svc(1)] svc(2,3) show ?thesis by (auto simp: eps_of_def)
  qed
  have bound: "map_of (px_entries ?p) (k, sp_port sp) \<noteq> None"
    if svc: "live_svcs w k = Some svc" "svcspec_clusterIP (svc_spec svc) \<noteq> []" "sp \<in> set (svcspec_ports (svc_spec svc))"
      and port: "sp_port sp \<noteq> 0" "can_bind (svcspec_clusterIP (svc_spec svc)) (sp_port sp) os"
      and alone: "\<forall>n x. live_svcs w n = Some x \<longrightarrow> spares (k, sp_port sp) (svcspec_clusterIP (svc_spec svc)) x" for k svc sp
  proof -
    have "\<forall>x \<in> set svcs. spares (md_name (svc_metadata svc), sp_port sp) (svcspec_clusterIP (svc_spec svc)) x"
      using alone svcs(3) name [OF svc(1)] by auto
    from sync_binds [OF sync svcs(1) _ svc(2,3) port this] name [OF svc(1)] show ?thesis by blast
  qed
  from ps(2) have "snapshot_of w (\<lambda>_. True) ps" by (simp add: snapshot_of_def)
  with sync local entry bound pols(2) show ?thesis
    by (intro exI [of _ ?p] exI [of _ w1] exI [of _ os'] conjI allI impI) simp_all
qed

text \<open>From the pods to the cluster IP: a pass of the controller, then the first sync of a proxy on its host.\<close>

lemma service_path_local:
  assumes "unhooked w" "\<forall>k. live_svcs w k \<noteq> None \<longrightarrow> plain k"
    and "live_svcs w s = Some svc" "svcspec_clusterIP (svc_spec svc) \<noteq> []" "sp \<in> set (svcspec_ports (svc_spec svc))"
    and "sp_port sp \<noteq> 0" "os_open os = []" "os_bindable os (svcspec_clusterIP (svc_spec svc)) (sp_port sp)"
    and "\<forall>n x. live_svcs w n = Some x \<longrightarrow> spares (s, sp_port sp) (svcspec_clusterIP (svc_spec svc)) x"
  shows "\<exists>w1 p w2 os' e. svc_reconcileAll (New (local_transport loop identity now net rnd)) w = (Inr (), w1) \<and>
    sync (New (hosted (local_transport loop identity now net rnd))) host_sockets (new_proxy enforce) (w1, os) = (Inr (), p, (w2, os')) \<and>
    map_of (px_entries p) (s, sp_port sp) = Some e \<and> pe_ln e \<in> set (os_open os') \<and>
    snd (pe_ln e) = (svcspec_clusterIP (svc_spec svc), sp_port sp) \<and>
    (\<forall>a. a \<in> set (pe_backends e) \<longleftrightarrow> (\<exists>n q. live_pods w n = Some q \<and> endpoint_of svc q = Some a)) \<and>
    snapshot_of w (\<lambda>_. True) (px_pods p) \<and> px_netpolEnforce p = enforce \<and>
    (\<forall>src. case pe_backends e of [] \<Rightarrow> handle p e src = Some (NoEndpoints, e)
       | a # _ \<Rightarrow> \<exists>v. handle p e src = Some (v, e\<lparr>pe_counter := 1\<rparr>) \<and> verdict_on p src a v)"
proof -
  let ?T = "local_transport loop identity now net rnd"
  have named: "\<forall>k. live_svcs w k \<noteq> None \<longrightarrow> k \<noteq> []" using assms(2) by (auto simp: plain_def)
  obtain w1 ps where w1: "svc_reconcileAll (New ?T) w = (Inr (), w1)" "unhooked w1" "live_svcs w1 = live_svcs w" "live_pods w1 = live_pods w"
    and ps: "snapshot_of w (\<lambda>_. True) ps"
    and eps: "\<forall>k svc. live_svcs w k = Some svc \<longrightarrow> (\<exists>q. live_eps w1 k = Some q \<and> ep_subsets q = ep_subsets (endpoints_of svc ps))"
    using svc_pass_local [OF assms(1) named, of loop identity now net rnd] unfolding local_client_New [symmetric] by blast
  have plain: "\<forall>k. live_svcs w1 k \<noteq> None \<longrightarrow> plain k" using assms(2) w1(3) by simp
  obtain p w2 os' where p: "sync (New (hosted ?T)) host_sockets (new_proxy enforce) (w1, os) = (Inr (), p, (w2, os'))"
    "px_netpolEnforce p = enforce" "snapshot_of w1 (\<lambda>_. True) (px_pods p)"
    "\<forall>k svc sp e. live_svcs w1 k = Some svc \<longrightarrow> svcspec_clusterIP (svc_spec svc) \<noteq> [] \<longrightarrow> sp \<in> set (svcspec_ports (svc_spec svc)) \<longrightarrow>
       map_of (px_entries p) (k, sp_port sp) = Some e \<longrightarrow> entry_like None svc (eps_of w1 k) e"
    "\<forall>k svc sp. live_svcs w1 k = Some svc \<longrightarrow> svcspec_clusterIP (svc_spec svc) \<noteq> [] \<longrightarrow> sp \<in> set (svcspec_ports (svc_spec svc)) \<longrightarrow>
       sp_port sp \<noteq> 0 \<longrightarrow> can_bind (svcspec_clusterIP (svc_spec svc)) (sp_port sp) os \<longrightarrow>
       (\<forall>n x. live_svcs w1 n = Some x \<longrightarrow> spares (k, sp_port sp) (svcspec_clusterIP (svc_spec svc)) x) \<longrightarrow>
       map_of (px_entries p) (k, sp_port sp) \<noteq> None"
    using sync_local [where p = "new_proxy enforce", OF w1(2) plain, of loop identity now net rnd os]
    by (auto simp: new_proxy_def)
  have svc: "live_svcs w1 s = Some svc" using assms(3) w1(3) by simp
  have "can_bind (svcspec_clusterIP (svc_spec svc)) (sp_port sp) os" using assms(7,8) by (simp add: can_bind_def)
  with p(5) svc assms(4-6,9) w1(3) obtain e where e: "map_of (px_entries p) (s, sp_port sp) = Some e" by fastforce
  have like: "entry_like None svc (eps_of w1 s) e" using p(4) svc assms(4,5) e by blast
  then have backends: "pe_backends e = ep_subsets (endpoints_of svc ps)" and e': "pe_counter e = 0"
    "pe_clusterIP e = svcspec_clusterIP (svc_spec svc)"
    using eps [rule_format, OF assms(3)] by (auto simp: entry_like_def eps_of_def)
  have ends: "a \<in> set (pe_backends e) \<longleftrightarrow> (\<exists>n q. live_pods w n = Some q \<and> endpoint_of svc q = Some a)" for a
    using ps by (auto simp: backends endpoints_of_set snapshot_of_def)
  let ?opened = "\<lambda>s :: world \<times> os. set (os_open (snd s))"
  have start: "os_ok (snd (w1, os))" "proxying ?opened (px_entries (new_proxy enforce)) (w1, os)"
    using assms(7) by (simp_all add: os_ok_def proxying_def serving_def listeners_of_def new_proxy_def)
  have quiet: "os_ok (snd v) \<Longrightarrow> os_ok (snd (snd (hosted ?T req v))) \<and> ?opened (snd (hosted ?T req v)) = ?opened v" for req v
    by (auto simp: hosted_def split: prod.splits)
  from host.proxying_sync [OF quiet start p(1)] have "proxying ?opened (px_entries p) (w2, os')" by simp
  then have "pe_ln e \<in> set (os_open os')" "snd (pe_ln e) = (svcspec_clusterIP (svc_spec svc), sp_port sp)"
    using e e'(2) assms(6) map_of_SomeD [OF e]
    by (auto simp: proxying_def serving_def listeners_of_def ln_port_def image_iff prod_eq_iff) force
  moreover have snap: "snapshot_of w (\<lambda>_. True) (px_pods p)" using p(3) w1(4) by (simp add: snapshot_of_def)
  moreover from this have "distinct (map (\<lambda>q. md_name (pod_metadata q)) (px_pods p))"
    by (simp add: snapshot_of_def pod_name_def [abs_def])
  from handle_first [OF e'(1) this]
  have "\<forall>src. case pe_backends e of [] \<Rightarrow> handle p e src = Some (NoEndpoints, e)
       | a # _ \<Rightarrow> \<exists>v. handle p e src = Some (v, e\<lparr>pe_counter := 1\<rparr>) \<and> verdict_on p src a v" by blast
  ultimately show ?thesis using w1(1) p(1,2) e ends
    by (intro exI [of _ w1] exI [of _ p] exI [of _ w2] exI [of _ os'] exI [of _ e]) simp
qed

end
