(* ===== verification/Merge.thy ===== *)
theory Merge
  imports Api_Core
begin

text \<open>
  The deployment handler decodes what the admission pipeline returns into the object it has already
  decoded. Where the pipeline changed nothing, that must be the identity: the codecs concerned
  satisfy a second law, decoding an encoded value into that value itself.
\<close>

locale merging_codec = codec enc dec zero wf
  for enc :: "'a \<Rightarrow> json" and dec :: "'a dec" and zero wf +
  assumes merge: "wf x \<Longrightarrow> dec (enc x) x = (x, True)"
begin

lemma elems_merge: "list_all wf xs \<Longrightarrow> dec_elems dec zero (map enc xs) xs = (xs, True)"
  by (induction xs) (simp_all add: merge)

lemma list_merge: "list_all wf xs \<Longrightarrow> dec_list dec zero (enc_list enc xs) xs = (xs, True)"
  by (simp add: dec_list_def enc_list_def elems_merge)

end

lemma gset_same: "map_ok m \<Longrightarrow> map_of m k = Some v \<Longrightarrow> gset m k v = m"
  by (induction m) (auto simp: gset_def map_ok_def dest: map_of_SomeD)

lemma gcopy_self: "map_ok m \<Longrightarrow> gcopy m m = m"
proof -
  assume ok: "map_ok m"
  have "(\<And>k v. (k, v) \<in> set kvs \<Longrightarrow> map_of m k = Some v) \<Longrightarrow> gcopy m kvs = m" for kvs
    by (induction kvs) (auto simp: gcopy_def gset_same [OF ok])
  then show ?thesis using ok by (simp add: map_ok_def)
qed

lemma strmap_self [simp]: "map_ok m \<Longrightarrow> dec_map dec_string [] (enc_map JStr m) m = (m, True)"
  by (simp add: strmap_merge gcopy_self)

interpretation string_merge: merging_codec JStr dec_string "[]" "\<lambda>_. True"
  by unfold_locales simp

lemma strlist_self [simp]: "dec_list dec_string [] (enc_list JStr xs) xs = (xs, True)"
  by (rule string_merge.list_merge) (simp add: list_all_iff)

interpretation Metadata_merge: merging_codec enc_Metadata dec_Metadata zero_Metadata wf_Metadata
proof unfold_locales
  fix x
  assume "wf_Metadata x"
  then show "dec_Metadata (enc_Metadata x) x = (x, True)"
    by (cases x) (simp add: wf_Metadata_def enc_Metadata_def dec_Metadata_def codec_simps)
qed

interpretation ContainerPort_merge: merging_codec enc_ContainerPort dec_ContainerPort zero_ContainerPort wf_ContainerPort
proof unfold_locales
  fix x
  assume "wf_ContainerPort x"
  then show "dec_ContainerPort (enc_ContainerPort x) x = (x, True)"
    by (cases x) (simp add: wf_ContainerPort_def enc_ContainerPort_def dec_ContainerPort_def codec_simps)
qed

interpretation ResourceRequirements_merge:
  merging_codec enc_ResourceRequirements dec_ResourceRequirements zero_ResourceRequirements wf_ResourceRequirements
proof unfold_locales
  fix x
  assume "wf_ResourceRequirements x"
  then show "dec_ResourceRequirements (enc_ResourceRequirements x) x = (x, True)"
    by (cases x) (simp add: wf_ResourceRequirements_def enc_ResourceRequirements_def dec_ResourceRequirements_def codec_simps)
qed

lemmas container_merges [simp] = ContainerPort_merge.list_merge ResourceRequirements_merge.merge Metadata_merge.merge

interpretation Container_merge: merging_codec enc_Container dec_Container zero_Container wf_Container
proof unfold_locales
  fix x
  assume "wf_Container x"
  then show "dec_Container (enc_Container x) x = (x, True)"
    by (cases x) (simp add: wf_Container_def enc_Container_def dec_Container_def codec_simps)
qed

lemmas pod_merges [simp] = Container_merge.list_merge

interpretation PodSpec_merge: merging_codec enc_PodSpec dec_PodSpec zero_PodSpec wf_PodSpec
proof unfold_locales
  fix x
  assume "wf_PodSpec x"
  then show "dec_PodSpec (enc_PodSpec x) x = (x, True)"
    by (cases x) (simp add: wf_PodSpec_def enc_PodSpec_def dec_PodSpec_def codec_simps)
qed

lemmas spec_merges [simp] = PodSpec_merge.merge

interpretation PodTemplate_merge: merging_codec enc_PodTemplate dec_PodTemplate zero_PodTemplate wf_PodTemplate
proof unfold_locales
  fix x
  assume "wf_PodTemplate x"
  then show "dec_PodTemplate (enc_PodTemplate x) x = (x, True)"
    by (cases x) (simp add: wf_PodTemplate_def enc_PodTemplate_def dec_PodTemplate_def codec_simps)
qed

lemmas template_merges [simp] = PodTemplate_merge.merge

interpretation DeploymentSpec_merge: merging_codec enc_DeploymentSpec dec_DeploymentSpec zero_DeploymentSpec wf_DeploymentSpec
proof unfold_locales
  fix x
  assume "wf_DeploymentSpec x"
  then show "dec_DeploymentSpec (enc_DeploymentSpec x) x = (x, True)"
    by (cases x) (simp add: wf_DeploymentSpec_def enc_DeploymentSpec_def dec_DeploymentSpec_def codec_simps)
qed

interpretation DeploymentStatus_merge:
  merging_codec enc_DeploymentStatus dec_DeploymentStatus zero_DeploymentStatus wf_DeploymentStatus
proof unfold_locales
  fix x
  assume "wf_DeploymentStatus x"
  then show "dec_DeploymentStatus (enc_DeploymentStatus x) x = (x, True)"
    by (cases x) (simp add: wf_DeploymentStatus_def enc_DeploymentStatus_def dec_DeploymentStatus_def codec_simps)
qed

lemmas deployment_merges [simp] = DeploymentSpec_merge.merge DeploymentStatus_merge.merge

interpretation Deployment_merge: merging_codec enc_Deployment dec_Deployment zero_Deployment wf_Deployment
proof unfold_locales
  fix x
  assume "wf_Deployment x"
  then show "dec_Deployment (enc_Deployment x) x = (x, True)"
    by (cases x) (simp add: wf_Deployment_def enc_Deployment_def dec_Deployment_def codec_simps)
qed

end
