(* ===== verification/Autoscaler_Server.thy ===== *)
theory Autoscaler_Server
  imports Workload_Server Hpa Merge
begin

text \<open>
  The horizontal pod autoscaler against the API server of cmd/apiserver (default flags, healthy
  database, no webhooks): what one pass writes into the deployments it scales.
\<close>

section \<open>Posting a deployment\<close>

definition live_hpas :: "world \<Rightarrow> string \<Rightarrow> HPA option" where
  "live_hpas w n = old_of (GetHPA no_faults (srv_st (w_sv w)) n)"

lemma live_hpas_get: "live_hpas w n = Some x \<longleftrightarrow> GetHPA no_faults (srv_st (w_sv w)) n = Inr x"
  by (cases "GetHPA no_faults (srv_st (w_sv w)) n") (simp_all add: live_hpas_def)

lemma live_hpas_name: "unhooked w \<Longrightarrow> live_hpas w k = Some x \<Longrightarrow> wf_HPA x \<and> md_name (hpa_metadata x) = k"
  using GetHPA_wf by (auto simp: unhooked_def live_hpas_get)

lemma client_CreateDeployment_local:
  assumes inv: "unhooked w" and d: "wf_Deployment d" "md_name (dep_metadata d) = n" "n \<noteq> []"
    "0 \<le> depspec_replicas (dep_spec d)" "podspec_containers (tmpl_spec (depspec_template (dep_spec d))) \<noteq> []"
  shows "\<exists>q w'. client_CreateDeployment (local_client loop identity now net rnd) d w = (Inr q, w') \<and> unhooked w' \<and>
    live_pods w' = live_pods w \<and> live_sets w' = live_sets w \<and> live_deps w' = (live_deps w)(n \<mapsto> q) \<and>
    dep_metadata q = dep_metadata d \<and> dep_spec q = dep_spec d \<and>
    t_federated_deployments (srv_st (w_sv w')) = t_federated_deployments (srv_st (w_sv w))"
proof -
  let ?d = "d\<lparr>dep_apiVersion := ''apps/v1'', dep_kind := ''Deployment''\<rparr>" and ?t = "now (w_n w)"
  have ok: "store_ok (srv_st (w_sv w))" and hooks: "t_admission_webhooks (srv_st (w_sv w)) = []"
    using inv by (simp_all add: unhooked_def)
  have wf: "wf_Deployment ?d" using d(1) by (simp add: wf_Deployment_def)
  obtain st' where put: "UpsertDeployment no_faults ?t ?d (srv_st (w_sv w)) = Inr st'"
    using dep_store.put_total [OF store_ok_dep_table [OF ok] wf] by blast
  define q where "q = stored_dep ?t (live_deps w n) ?d"
  have get: "GetDeployment no_faults st' k = (if k = n then Inr q else GetDeployment no_faults (srv_st (w_sv w)) k)" for k
    using dep_store.put_get [OF store_ok_dep_table [OF ok] wf put] d(2) by (simp add: dep_key_def q_def live_deps_def)
  have ok': "store_ok st'" by (rule UpsertDeployment_ok [OF ok wf put])
  have "wf_Deployment q" using GetDeployment_wf [OF ok', of no_faults n q] get by simp
  let ?w' = "\<lparr>w_sv = (w_sv w)\<lparr>srv_st := st'\<rparr>, w_n = Suc (w_n w)\<rparr>"
  have h: "handleDeployments (healthy_env now net rnd (w_n w)) \<lparr>req_method = ''POST'', req_path = ''/apis/apps/v1/deployments'',
      req_query = [], req_auth = [], req_body = (case Some (enc_Deployment d) of None \<Rightarrow> Malformed | Some j \<Rightarrow> Doc j)\<rparr> (w_sv w) =
      (\<lparr>resp_code = 201, resp_body = JsonBody (enc_Deployment q)\<rparr>, (w_sv w)\<lparr>srv_st := st'\<rparr>)"
    using d put get hooks Deployment_merge.merge [OF wf]
    by (simp add: handleDeployments_def with_raw_body_def Let_def store_then_def writeJSON_def read_back_def)
  from local_call [OF routed_deps h] \<open>wf_Deployment q\<close>
  have run: "client_CreateDeployment (local_client loop identity now net rnd) d w = (Inr q, ?w')"
    by (simp add: client_CreateDeployment_def do_out_def decode_payload_def)
  have "unhooked ?w'" using inv ok' UpsertDeployment_tables [OF put] by (simp add: unhooked_def)
  moreover have "live_pods ?w' = live_pods w" "live_sets ?w' = live_sets w"
    using UpsertDeployment_tables [OF put] by (auto intro: live_pods_table live_sets_table)
  moreover have "live_deps ?w' = (live_deps w)(n \<mapsto> q)" by (auto simp: live_deps_def get fun_eq_iff)
  moreover have "dep_metadata q = dep_metadata d" "dep_spec q = dep_spec d" by (simp_all add: q_def stored_dep_def)
  moreover have "t_federated_deployments (srv_st (w_sv ?w')) = t_federated_deployments (srv_st (w_sv w))"
    using UpsertDeployment_tables [OF put] by simp
  ultimately show ?thesis using run by blast
qed

section \<open>Autoscalers\<close>

lemma cleanPath_hpas:
  "cleanPath ''/apis/autoscaling.mk.io/v1/horizontalpodautoscalers'' = ''/apis/autoscaling.mk.io/v1/horizontalpodautoscalers''"
  "plain n \<Longrightarrow> cleanPath (''/apis/autoscaling.mk.io/v1/horizontalpodautoscalers/'' @ n @ ''/status'') =
     ''/apis/autoscaling.mk.io/v1/horizontalpodautoscalers/'' @ n @ ''/status''"
  using cleanPath_segs [of "[''apis'', ''autoscaling.mk.io'', ''v1'', ''horizontalpodautoscalers'']"]
    cleanPath_segs [of "[''apis'', ''autoscaling.mk.io'', ''v1'', ''horizontalpodautoscalers'', n, ''status'']"]
  by (simp_all add: plain_def)

lemma routed_hpas: "routed ''/apis/autoscaling.mk.io/v1/horizontalpodautoscalers''
    (guard cfg ev ''autoscaling.mk.io'' ''horizontalpodautoscalers'' (handleHPAs ev)) cfg ev"
  by (rule routedI, rule cleanPath_hpas) (simp_all add: mux_match_def routes_def registerM6Routes_def)

lemma routed_hpa_status: "plain n \<Longrightarrow>
  routed (''/apis/autoscaling.mk.io/v1/horizontalpodautoscalers/'' @ n @ ''/status'')
    (guard cfg ev ''autoscaling.mk.io'' ''horizontalpodautoscalers'' (handleHPAsByName ev)) cfg ev"
  by (rule routedI [where p = "''/apis/autoscaling.mk.io/v1/horizontalpodautoscalers/''"], erule cleanPath_hpas)
    (auto simp: mux_match_def routes_def registerM6Routes_def longer_def HasPrefix_def HasSuffix_def dest: plain_lit)

lemma client_ListHPAs_local:
  assumes "unhooked w"
  shows "\<exists>xs. client_ListHPAs (local_client loop identity now net rnd) w = (Inr xs, tick w) \<and>
    list_all wf_HPA xs \<and> distinct (map (\<lambda>x. md_name (hpa_metadata x)) xs) \<and>
    (\<forall>x. x \<in> set xs \<longleftrightarrow> live_hpas w (md_name (hpa_metadata x)) = Some x)"
  unfolding client_ListHPAs_def live_hpas_get using assms
  by (intro client_table_local [OF routed_hpas _ store_ok_hpa _ HPA_codec.list_roundtrip, where f = hpa_of_row])
    (auto simp: unhooked_def handleHPAs_def ListHPAs_def GetHPA_def query_rows_def query_row_Inr hpa_of_row_wf no_faults_simp)

lemma UpdateHPAStatus_tables: "UpdateHPAStatus no_faults now n x st = Inr st' \<Longrightarrow>
    t_admission_webhooks st' = t_admission_webhooks st \<and> t_pods st' = t_pods st \<and> t_replicasets st' = t_replicasets st \<and>
    t_deployments st' = t_deployments st"
  by (auto simp: UpdateHPAStatus_def Let_def sql_results split: option.splits if_splits)

lemma client_UpdateHPAStatus_local:
  assumes inv: "unhooked w" and n: "plain n"
    and run: "snd (client_UpdateHPAStatus (local_client loop identity now net rnd) n s w) = w'"
  shows "unhooked w' \<and> live_pods w' = live_pods w \<and> live_sets w' = live_sets w \<and> live_deps w' = live_deps w"
proof -
  let ?path = "''/apis/autoscaling.mk.io/v1/horizontalpodautoscalers/'' @ n @ ''/status''"
  have "TrimPrefix ?path ''/apis/autoscaling.mk.io/v1/horizontalpodautoscalers/'' = n @ ''/status''" by (rule TrimPrefix_append)
  then have handler: "req_method req = ''PUT'' \<Longrightarrow> req_path req = ?path \<Longrightarrow> handleHPAsByName (healthy_env now net rnd (w_n w)) req (w_sv w) =
      put_status dec_HPAStatus zero_HPAStatus (UpdateHPAStatus no_faults (now (w_n w)) n)
        (\<lambda>st. read_back enc_HPA (GetHPA no_faults st n)) req (w_sv w)" for req
    by (simp add: handleHPAsByName_def Let_def del: append.simps)
  obtain sv' where w': "w' = \<lparr>w_sv = sv', w_n = Suc (w_n w)\<rparr>" and "srv_st sv' = srv_st (w_sv w) \<or> (\<exists>t. wf_HPAStatus t \<and>
      UpdateHPAStatus no_faults (now (w_n w)) n t (srv_st (w_sv w)) = Inr (srv_st sv'))"
    using client_put_status_local [where good = wf_HPAStatus, OF routed_hpa_status [OF n] handler
        dec_HPAStatus_wf [OF zero_HPAStatus_wf] run [unfolded client_UpdateHPAStatus_def]] by blast
  then have "store_ok (srv_st sv')" and tables: "t_admission_webhooks (srv_st sv') = t_admission_webhooks (srv_st (w_sv w))"
    "t_pods (srv_st sv') = t_pods (srv_st (w_sv w))" "t_replicasets (srv_st sv') = t_replicasets (srv_st (w_sv w))"
    "t_deployments (srv_st sv') = t_deployments (srv_st (w_sv w))"
    using inv UpdateHPAStatus_ok UpdateHPAStatus_tables by (auto simp: unhooked_def)
  then have "unhooked w'" using inv by (simp add: unhooked_def w')
  moreover have "live_pods w' = live_pods w" "live_sets w' = live_sets w" "live_deps w' = live_deps w"
    by (auto intro!: live_pods_table live_sets_table live_deps_table simp: w' tables)
  ultimately show ?thesis by blast
qed

section \<open>A pass of the autoscaler\<close>

text \<open>The count one autoscaler decides on: nothing shrinks during the cooldown.\<close>

definition hpa_verdict :: "int \<Rightarrow> time \<Rightarrow> PodMetric list \<Rightarrow> Pod list \<Rightarrow> HPA \<Rightarrow> Deployment \<Rightarrow> int" where
  "hpa_verdict cooldown now metrics pods h d =
    (let current = depspec_replicas (dep_spec d);
         desired = desired_replicas current (averageCPU (hpa_owned d pods) metrics) h in
     if desired < current \<and> in_cooldown cooldown h now then current else desired)"

definition scaled :: "Deployment \<Rightarrow> int \<Rightarrow> Deployment \<Rightarrow> bool" where
  "scaled d n q \<longleftrightarrow> dep_metadata q = dep_metadata d \<and> dep_spec q = (dep_spec d)\<lparr>depspec_replicas := n\<rparr>"

definition hpa_target :: "HPA \<Rightarrow> string" where
  "hpa_target h = str_name (hpaspec_scaleTargetRef (hpa_spec h))"

definition scalable :: "HPA \<Rightarrow> bool" where
  "scalable h \<longleftrightarrow> wf_HPA h \<and> plain (md_name (hpa_metadata h)) \<and> str_kind (hpaspec_scaleTargetRef (hpa_spec h)) = ''Deployment'' \<and>
     1 \<le> hpaspec_minReplicas (hpa_spec h) \<and> hpaspec_minReplicas (hpa_spec h) \<le> hpaspec_maxReplicas (hpa_spec h)"

lemma scaled_refl: "scaled d (depspec_replicas (dep_spec d)) d"
  by (simp add: scaled_def)

lemma getDeployment_local:
  assumes "unhooked w" "hc_Client hc = local_client loop identity now net rnd"
  shows "getDeployment hc t w = (live_deps w t, tick w)"
proof -
  obtain xs where xs: "client_ListDeployments (local_client loop identity now net rnd) w = (Inr xs, tick w)"
    "\<forall>x. x \<in> set xs \<longleftrightarrow> live_deps w (md_name (dep_metadata x)) = Some x"
    using client_ListDeployments_local [OF assms(1)] by blast
  have name: "live_deps w k = Some d \<Longrightarrow> md_name (dep_metadata d) = k" for k d
    using assms(1) GetDeployment_wf by (auto simp: unhooked_def live_deps_get)
  have "find_deployment t xs = live_deps w t"
  proof (cases "find_deployment t xs")
    case None
    have "live_deps w t = None"
    proof (cases "live_deps w t")
      case (Some d)
      then have "d \<in> set xs" "md_name (dep_metadata d) = t" using xs(2) name [OF Some] by simp_all
      with None show ?thesis by (auto simp: find_deployment_def find_None_iff)
    qed simp
    with None show ?thesis by simp
  next
    case (Some d)
    then have "d \<in> set xs" "md_name (dep_metadata d) = t"
      by (auto simp: find_deployment_def find_Some_iff)
    with Some xs(2) show ?thesis by metis
  qed
  then show ?thesis by (simp add: getDeployment_def assms(2) xs(1))
qed

lemma verdict_bounds:
  assumes "scalable h" "0 \<le> depspec_replicas (dep_spec d)" "int64_ok (depspec_replicas (dep_spec d))"
  shows "0 \<le> hpa_verdict cooldown t metrics ps h d" "int64_ok (hpa_verdict cooldown t metrics ps h d)"
proof -
  let ?n = "desired_replicas (depspec_replicas (dep_spec d)) (averageCPU (hpa_owned d ps) metrics) h"
  have minmax: "hpaspec_minReplicas (hpa_spec h) \<le> hpaspec_maxReplicas (hpa_spec h)" "1 \<le> hpaspec_minReplicas (hpa_spec h)"
    and ok: "int64_ok (hpaspec_minReplicas (hpa_spec h))" "int64_ok (hpaspec_maxReplicas (hpa_spec h))"
    using assms(1) by (auto simp: scalable_def wf_HPA_def wf_HPASpec_def)
  have "0 \<le> ?n \<and> int64_ok ?n"
    using desired_bounds [OF minmax(1), of "depspec_replicas (dep_spec d)" "averageCPU (hpa_owned d ps) metrics"] minmax ok
    unfolding int64_ok_def by linarith
  with assms(2,3) show "0 \<le> hpa_verdict cooldown t metrics ps h d" "int64_ok (hpa_verdict cooldown t metrics ps h d)"
    by (auto simp: hpa_verdict_def Let_def)
qed

lemma hpa_reconcileOne_local:
  assumes inv: "unhooked w" and hc: "hc_Client hc = local_client loop identity now net rnd" and h: "scalable h"
    and d: "live_deps w (hpa_target h) = Some d" "podspec_containers (tmpl_spec (depspec_template (dep_spec d))) \<noteq> []"
      "0 \<le> depspec_replicas (dep_spec d)" "hpa_target h \<noteq> []"
  shows "\<exists>ps q w'. hpa_reconcileOne hc (\<lambda>_. t) metrics h w = w' \<and> unhooked w' \<and> live_pods w' = live_pods w \<and>
    live_sets w' = live_sets w \<and> live_deps w' = (live_deps w)(hpa_target h \<mapsto> q) \<and> snapshot_of w (\<lambda>_. True) ps \<and>
    scaled d (hpa_verdict (hc_CooldownDown hc) t metrics ps h d) q"
proof -
  let ?c = "local_client loop identity now net rnd" and ?w = "tick (tick w)"
  have un: "unhooked (tick w)" "unhooked ?w" using inv by simp_all
  obtain ps where ps: "client_ListPods ?c (tick w) = (Inr ps, ?w)" "snapshot_of (tick w) (\<lambda>_. True) ps"
    using client_ListPods_local [OF un(1)] by blast
  let ?cur = "depspec_replicas (dep_spec d)"
  let ?des = "desired_replicas ?cur (averageCPU (hpa_owned d ps) metrics) h"
  have wf: "wf_Deployment d" "md_name (dep_metadata d) = hpa_target h"
    using d(1) inv GetDeployment_wf by (auto simp: unhooked_def live_deps_get)
  have plain: "plain (md_name (hpa_metadata h))" and kind: "str_kind (hpaspec_scaleTargetRef (hpa_spec h)) = ''Deployment''"
    using h by (simp_all add: scalable_def)
  have step: "\<exists>s v q. unhooked v \<and> live_pods v = live_pods w \<and> live_sets v = live_sets w \<and>
      live_deps v = (live_deps w)(hpa_target h \<mapsto> q) \<and> scaled d (hpa_verdict (hc_CooldownDown hc) t metrics ps h d) q \<and>
      hpa_reconcileOne hc (\<lambda>_. t) metrics h w = snd (client_UpdateHPAStatus ?c (md_name (hpa_metadata h)) s v)"
  proof (cases "?des = ?cur \<or> ?des < ?cur \<and> in_cooldown (hc_CooldownDown hc) h t")
    case True
    then have v: "hpa_verdict (hc_CooldownDown hc) t metrics ps h d = ?cur" by (auto simp: hpa_verdict_def Let_def)
    have deps: "live_deps ?w = (live_deps w)(hpa_target h \<mapsto> d)" using d(1) by auto
    have "\<exists>s. hpa_reconcileOne hc (\<lambda>_. t) metrics h w = snd (client_UpdateHPAStatus ?c (md_name (hpa_metadata h)) s ?w)"
      using True kind getDeployment_local [OF inv hc, of "hpa_target h"] d(1) ps(1) hc
      by (auto simp: hpa_reconcileOne_def hpa_target_def Let_def)
    then obtain s where "hpa_reconcileOne hc (\<lambda>_. t) metrics h w = snd (client_UpdateHPAStatus ?c (md_name (hpa_metadata h)) s ?w)" ..
    with un(2) deps scaled_refl [of d] show ?thesis
      unfolding v by (intro exI [of _ s] exI [of _ ?w] exI [of _ d] conjI) simp_all
  next
    case False
    then have v: "hpa_verdict (hc_CooldownDown hc) t metrics ps h d = ?des" by (auto simp: hpa_verdict_def Let_def)
    let ?d = "with_replicas d ?des"
    have "wf_DeploymentSpec (dep_spec d)" using wf(1) by (simp add: wf_Deployment_def)
    then have "int64_ok ?cur" by (simp add: wf_DeploymentSpec_def)
    from verdict_bounds [OF h d(3) this, of "hc_CooldownDown hc" t metrics ps] have "0 \<le> ?des" "int64_ok ?des"
      unfolding v by simp_all
    then have d': "wf_Deployment ?d" "md_name (dep_metadata ?d) = hpa_target h" "0 \<le> depspec_replicas (dep_spec ?d)"
      "podspec_containers (tmpl_spec (depspec_template (dep_spec ?d))) \<noteq> []"
      using wf d(2) by (simp_all add: with_replicas_def wf_Deployment_def wf_DeploymentSpec_def)
    obtain q v' where q: "client_CreateDeployment ?c ?d ?w = (Inr q, v')" "unhooked v'" "live_pods v' = live_pods w"
      "live_sets v' = live_sets w" "live_deps v' = (live_deps w)(hpa_target h \<mapsto> q)" "scaled d ?des q"
      using client_CreateDeployment_local [OF un(2) d'(1,2) d(4) d'(3,4), of loop identity now net rnd]
      by (auto simp: scaled_def with_replicas_def)
    have "\<exists>s. hpa_reconcileOne hc (\<lambda>_. t) metrics h w = snd (client_UpdateHPAStatus ?c (md_name (hpa_metadata h)) s v')"
      using False kind getDeployment_local [OF inv hc, of "hpa_target h"] d(1) ps(1) hc q(1)
      by (auto simp: hpa_reconcileOne_def hpa_target_def Let_def scaleDeployment_def)
    then obtain s where "hpa_reconcileOne hc (\<lambda>_. t) metrics h w = snd (client_UpdateHPAStatus ?c (md_name (hpa_metadata h)) s v')" ..
    with q show ?thesis
      unfolding v by (intro exI [of _ s] exI [of _ v'] exI [of _ q] conjI) simp_all
  qed
  then obtain s v q where v: "unhooked v" "live_pods v = live_pods w" "live_sets v = live_sets w"
    "live_deps v = (live_deps w)(hpa_target h \<mapsto> q)" "scaled d (hpa_verdict (hc_CooldownDown hc) t metrics ps h d) q"
    "hpa_reconcileOne hc (\<lambda>_. t) metrics h w = snd (client_UpdateHPAStatus ?c (md_name (hpa_metadata h)) s v)" by blast
  from client_UpdateHPAStatus_local [OF v(1) plain refl, of loop identity now net rnd s] v(2-6) ps(2)
  show ?thesis by (intro exI [of _ ps] exI [of _ q]) (simp add: snapshot_of_def)
qed

definition deps_servable :: "world \<Rightarrow> bool" where
  "deps_servable w \<longleftrightarrow> (\<forall>k d. live_deps w k = Some d \<longrightarrow> k \<noteq> [] \<and> 0 \<le> depspec_replicas (dep_spec d) \<and>
     podspec_containers (tmpl_spec (depspec_template (dep_spec d))) \<noteq> [])"

lemma hpa_fold_local:
  assumes "hc_Client hc = local_client loop identity now net rnd" "\<forall>h \<in> set hpas. scalable h" "distinct (map hpa_target hpas)"
    and "unhooked w" "deps_servable w"
  shows "\<exists>w'. fold (hpa_reconcileOne hc (\<lambda>_. t) metrics) hpas w = w' \<and> unhooked w' \<and> live_pods w' = live_pods w \<and>
    live_sets w' = live_sets w \<and>
    (\<forall>h \<in> set hpas. \<forall>d. live_deps w (hpa_target h) = Some d \<longrightarrow> (\<exists>ps q. snapshot_of w (\<lambda>_. True) ps \<and>
       live_deps w' (hpa_target h) = Some q \<and> scaled d (hpa_verdict (hc_CooldownDown hc) t metrics ps h d) q)) \<and>
    (\<forall>n. n \<notin> hpa_target ` set hpas \<longrightarrow> live_deps w' n = live_deps w n)"
  using assms(2-)
proof (induction hpas arbitrary: w)
  case Nil
  then show ?case by simp
next
  case (Cons h hpas)
  let ?n = "hpa_target h"
  have fresh: "?n \<notin> hpa_target ` set hpas" using Cons.prems(2) by simp
  have "\<exists>w1. hpa_reconcileOne hc (\<lambda>_. t) metrics h w = w1 \<and> unhooked w1 \<and> live_pods w1 = live_pods w \<and> live_sets w1 = live_sets w \<and>
      deps_servable w1 \<and> (\<forall>n. n \<noteq> ?n \<longrightarrow> live_deps w1 n = live_deps w n) \<and>
      (\<forall>d. live_deps w ?n = Some d \<longrightarrow> (\<exists>ps q. snapshot_of w (\<lambda>_. True) ps \<and> live_deps w1 ?n = Some q \<and>
         scaled d (hpa_verdict (hc_CooldownDown hc) t metrics ps h d) q))"
  proof (cases "live_deps w ?n")
    case None
    then have "hpa_reconcileOne hc (\<lambda>_. t) metrics h w = tick w"
      using getDeployment_local [OF Cons.prems(3) assms(1), of ?n] Cons.prems(1)
      by (simp add: hpa_reconcileOne_def hpa_target_def scalable_def)
    with None Cons.prems(3,4) show ?thesis by (simp add: deps_servable_def)
  next
    case (Some d)
    then have d: "podspec_containers (tmpl_spec (depspec_template (dep_spec d))) \<noteq> []" "0 \<le> depspec_replicas (dep_spec d)" "?n \<noteq> []"
      using Cons.prems(4) unfolding deps_servable_def by blast+
    have h: "scalable h" using Cons.prems(1) by simp
    obtain ps q w1 where w1: "hpa_reconcileOne hc (\<lambda>_. t) metrics h w = w1" "unhooked w1" "live_pods w1 = live_pods w"
      "live_sets w1 = live_sets w" "live_deps w1 = (live_deps w)(?n \<mapsto> q)" "snapshot_of w (\<lambda>_. True) ps"
      "scaled d (hpa_verdict (hc_CooldownDown hc) t metrics ps h d) q"
      using hpa_reconcileOne_local [OF Cons.prems(3) assms(1) h Some d, of t metrics] by blast
    have "int64_ok (depspec_replicas (dep_spec d))"
      using Some Cons.prems(3) GetDeployment_wf
      by (fastforce simp: unhooked_def live_deps_get wf_Deployment_def wf_DeploymentSpec_def)
    then have "deps_servable w1"
      using Cons.prems(4) w1(5,7) d verdict_bounds(1) [OF h d(2)] by (auto simp: deps_servable_def scaled_def)
    with w1 Some show ?thesis by auto
  qed
  then obtain w1 where w1: "hpa_reconcileOne hc (\<lambda>_. t) metrics h w = w1" "unhooked w1" "live_pods w1 = live_pods w"
    "live_sets w1 = live_sets w" "deps_servable w1" "\<forall>n. n \<noteq> ?n \<longrightarrow> live_deps w1 n = live_deps w n"
    "\<forall>d. live_deps w ?n = Some d \<longrightarrow> (\<exists>ps q. snapshot_of w (\<lambda>_. True) ps \<and> live_deps w1 ?n = Some q \<and>
       scaled d (hpa_verdict (hc_CooldownDown hc) t metrics ps h d) q)" by blast
  obtain w' where w': "fold (hpa_reconcileOne hc (\<lambda>_. t) metrics) hpas w1 = w'" "unhooked w'" "live_pods w' = live_pods w1"
    "live_sets w' = live_sets w1"
    "\<forall>h \<in> set hpas. \<forall>d. live_deps w1 (hpa_target h) = Some d \<longrightarrow> (\<exists>ps q. snapshot_of w1 (\<lambda>_. True) ps \<and>
       live_deps w' (hpa_target h) = Some q \<and> scaled d (hpa_verdict (hc_CooldownDown hc) t metrics ps h d) q)"
    "\<forall>n. n \<notin> hpa_target ` set hpas \<longrightarrow> live_deps w' n = live_deps w1 n"
    using Cons.IH [OF _ _ w1(2,5)] Cons.prems(1,2) by auto
  have snap: "snapshot_of w1 P ps = snapshot_of w P ps" for P ps by (simp add: snapshot_of_def w1(3))
  have other: "live_deps w1 (hpa_target y) = live_deps w (hpa_target y)" if "y \<in> set hpas" for y
    using w1(6) fresh that by (metis imageI)
  have own: "live_deps w' ?n = live_deps w1 ?n" using w'(6) fresh by blast
  have "fold (hpa_reconcileOne hc (\<lambda>_. t) metrics) (h # hpas) w = w'" using w1(1) w'(1) by simp
  moreover have "\<exists>ps q. snapshot_of w (\<lambda>_. True) ps \<and> live_deps w' (hpa_target y) = Some q \<and>
      scaled d (hpa_verdict (hc_CooldownDown hc) t metrics ps y d) q"
    if "y \<in> set (h # hpas)" "live_deps w (hpa_target y) = Some d" for y d
    using that w1(7) w'(5) other own snap by (cases "y = h") auto
  moreover have "live_deps w' n = live_deps w n" if "n \<notin> hpa_target ` set (h # hpas)" for n
    using that w'(6) w1(6) by simp
  ultimately show ?case using w'(2-4) w1(3,4) by (intro exI [of _ w']) simp
qed

lemma hpa_pass_local:
  assumes inv: "unhooked w" and deps: "deps_servable w"
    and hpas: "\<forall>k h. live_hpas w k = Some h \<longrightarrow> scalable h"
    and apart: "\<forall>k k' h h'. live_hpas w k = Some h \<longrightarrow> live_hpas w k' = Some h' \<longrightarrow> k \<noteq> k' \<longrightarrow> hpa_target h \<noteq> hpa_target h'"
    and apart_metrics: "\<forall>T req v. m = Some T \<longrightarrow> snd (T req v) = v"
    and hc: "hc = NewHPA (local_client loop identity now net rnd) m"
    and metrics: "metrics = (case fst (fetchMetrics hc (tick w)) of Inl _ \<Rightarrow> [] | Inr ms \<Rightarrow> ms)"
  shows "\<exists>w'. hpa_reconcileAll hc (\<lambda>_. t) w = (Inr (), w') \<and> unhooked w' \<and> live_pods w' = live_pods w \<and> live_sets w' = live_sets w \<and>
    (\<forall>k h d. live_hpas w k = Some h \<longrightarrow> live_deps w (hpa_target h) = Some d \<longrightarrow> (\<exists>ps q. snapshot_of w (\<lambda>_. True) ps \<and>
       live_deps w' (hpa_target h) = Some q \<and> scaled d (hpa_verdict (15 * second) t metrics ps h d) q)) \<and>
    (\<forall>n. (\<forall>k h. live_hpas w k = Some h \<longrightarrow> hpa_target h \<noteq> n) \<longrightarrow> live_deps w' n = live_deps w n)"
proof -
  let ?c = "local_client loop identity now net rnd"
  obtain hs where hs: "client_ListHPAs ?c w = (Inr hs, tick w)" "distinct (map (\<lambda>x. md_name (hpa_metadata x)) hs)"
    "\<forall>x. x \<in> set hs \<longleftrightarrow> live_hpas w (md_name (hpa_metadata x)) = Some x"
    using client_ListHPAs_local [OF inv] by blast
  have member: "h \<in> set hs \<longleftrightarrow> (\<exists>k. live_hpas w k = Some h)" for h
    using hs(3) live_hpas_name [OF inv] by metis
  have good: "\<forall>h \<in> set hs. scalable h" using hpas member by blast
  have "inj_on hpa_target (set hs)"
  proof (rule inj_onI)
    fix x y
    assume "x \<in> set hs" "y \<in> set hs" "hpa_target x = hpa_target y"
    with hs(3) apart have "md_name (hpa_metadata x) = md_name (hpa_metadata y)" by metis
    with hs(3) \<open>x \<in> set hs\<close> \<open>y \<in> set hs\<close> show "x = y" by (metis option.inject)
  qed
  then have dist: "distinct (map hpa_target hs)" using hs(2) by (simp add: distinct_map)
  have "snd (fetchMetrics hc (tick w)) = tick w"
  proof (cases m)
    case (Some T)
    obtain a v where a: "T \<lparr>req_method = ''GET'', req_path = ''/apis/metrics.mk.io/v1/pods'', req_query = [], req_auth = [],
        req_body = Malformed\<rparr> (tick w) = (a, v)" by (metis surj_pair)
    then have "v = tick w" using apart_metrics Some by (metis snd_conv)
    with a Some show ?thesis by (simp add: hc NewHPA_def fetchMetrics_def split: sum.split)
  qed (simp add: hc NewHPA_def fetchMetrics_def)
  then obtain r where fetch: "fetchMetrics hc (tick w) = (r, tick w)" by (metis prod.collapse)
  have client: "hc_Client hc = ?c" "hc_CooldownDown hc = 15 * second" by (simp_all add: hc NewHPA_def)
  have run: "hpa_reconcileAll hc (\<lambda>_. t) w = (Inr (), fold (hpa_reconcileOne hc (\<lambda>_. t) metrics) hs (tick w))"
    by (simp add: hpa_reconcileAll_def client hs(1) fetch metrics split: sum.split)
  have un: "unhooked (tick w)" "deps_servable (tick w)" using inv deps by (simp_all add: deps_servable_def)
  obtain w' where w': "fold (hpa_reconcileOne hc (\<lambda>_. t) metrics) hs (tick w) = w'" "unhooked w'" "live_pods w' = live_pods w"
    "live_sets w' = live_sets w"
    "\<forall>h \<in> set hs. \<forall>d. live_deps w (hpa_target h) = Some d \<longrightarrow> (\<exists>ps q. snapshot_of (tick w) (\<lambda>_. True) ps \<and>
       live_deps w' (hpa_target h) = Some q \<and> scaled d (hpa_verdict (15 * second) t metrics ps h d) q)"
    "\<forall>n. n \<notin> hpa_target ` set hs \<longrightarrow> live_deps w' n = live_deps w n"
    using hpa_fold_local [OF client(1) good dist un, of t metrics] by (auto simp: client)
  have snap: "snapshot_of (tick w) P ps = snapshot_of w P ps" for P ps by (simp add: snapshot_of_def)
  have "live_deps w' n = live_deps w n" if "\<forall>k h. live_hpas w k = Some h \<longrightarrow> hpa_target h \<noteq> n" for n
  proof -
    have "n \<notin> hpa_target ` set hs"
    proof
      assume "n \<in> hpa_target ` set hs"
      then obtain h where "h \<in> set hs" "n = hpa_target h" by blast
      with that member show False by metis
    qed
    with w'(6) show ?thesis by blast
  qed
  moreover have "\<exists>ps q. snapshot_of w (\<lambda>_. True) ps \<and> live_deps w' (hpa_target h) = Some q \<and>
      scaled d (hpa_verdict (15 * second) t metrics ps h d) q"
    if "live_hpas w k = Some h" "live_deps w (hpa_target h) = Some d" for k h d
  proof -
    have "h \<in> set hs" using member that(1) by blast
    with w'(5) that(2) show ?thesis by (simp add: snap)
  qed
  ultimately show ?thesis using run w'(1-4) by (intro exI [of _ w']) simp
qed

text \<open>From the metrics to the pods: the passes of the autoscaler, the deployment controller and the replica
  set controller, one after the other.\<close>

lemma autoscale_local:
  assumes inv: "unhooked w" and deps: "deps_servable w" "\<forall>k. live_deps w k \<noteq> None \<longrightarrow> plain k"
    and hpas: "\<forall>k h. live_hpas w k = Some h \<longrightarrow> scalable h \<and> plain (hpa_target h)"
    and apart: "\<forall>k k' h h'. live_hpas w k = Some h \<longrightarrow> live_hpas w k' = Some h' \<longrightarrow> k \<noteq> k' \<longrightarrow> hpa_target h \<noteq> hpa_target h'"
    and world: "\<forall>T req v. m = Some T \<longrightarrow> snd (T req v) = v"
    and metrics: "metrics = (case fst (fetchMetrics (NewHPA (local_client loop identity now net uid) m) (tick w)) of
      Inl _ \<Rightarrow> [] | Inr ms \<Rightarrow> ms)"
  shows "\<exists>w1 w2. hpa_reconcileAll (NewHPA (local_client loop identity now net uid) m) (\<lambda>_. t) w = (Inr (), w1) \<and>
    dep_reconcileAll (local_client loop identity now net uid) w1 = (Inr (), w2) \<and> live_pods w2 = live_pods w \<and>
    (\<forall>k h d. live_hpas w k = Some h \<longrightarrow> live_deps w (hpa_target h) = Some d \<longrightarrow> (\<exists>ps q. snapshot_of w (\<lambda>_. True) ps \<and>
       live_sets w2 (hpa_target h @ ''-rs'') = Some q \<and>
       rsspec_replicas (rs_spec q) = hpa_verdict (15 * second) t metrics ps h d \<and>
       (pass_ready rnd w2 \<longrightarrow> (\<exists>w3. rs_reconcileAll (local_client loop identity now net uid) rnd w2 = Some (Inr (), w3) \<and>
          card (living (live_pods w3) q) = nat (hpa_verdict (15 * second) t metrics ps h d)))))"
proof -
  let ?c = "local_client loop identity now net uid"
  have scal: "\<forall>k h. live_hpas w k = Some h \<longrightarrow> scalable h" using hpas by blast
  obtain w1 where w1: "hpa_reconcileAll (NewHPA ?c m) (\<lambda>_. t) w = (Inr (), w1)" "unhooked w1" "live_pods w1 = live_pods w"
    "\<forall>k h d. live_hpas w k = Some h \<longrightarrow> live_deps w (hpa_target h) = Some d \<longrightarrow> (\<exists>ps q. snapshot_of w (\<lambda>_. True) ps \<and>
       live_deps w1 (hpa_target h) = Some q \<and> scaled d (hpa_verdict (15 * second) t metrics ps h d) q)"
    "\<forall>n. (\<forall>k h. live_hpas w k = Some h \<longrightarrow> hpa_target h \<noteq> n) \<longrightarrow> live_deps w1 n = live_deps w n"
    using hpa_pass_local [OF inv deps(1) scal apart world refl metrics, of t] by (elim exE conjE) (rule that)
  have plain: "\<forall>k. live_deps w1 k \<noteq> None \<longrightarrow> plain k"
  proof (intro allI impI)
    fix k
    assume k: "live_deps w1 k \<noteq> None"
    show "plain k"
    proof (cases "\<exists>j h. live_hpas w j = Some h \<and> hpa_target h = k")
      case True
      with hpas show ?thesis by blast
    next
      case False
      then have "\<forall>j h. live_hpas w j = Some h \<longrightarrow> hpa_target h \<noteq> k" by blast
      with w1(5) have "live_deps w1 k = live_deps w k" by blast
      with deps(2) k show ?thesis by simp
    qed
  qed
  obtain w2 where w2: "dep_reconcileAll ?c w1 = (Inr (), w2)" "live_pods w2 = live_pods w1"
    "\<forall>k d. live_deps w1 k = Some d \<longrightarrow> (\<exists>q. live_sets w2 (k @ ''-rs'') = Some q \<and> follows (live_sets w1 (k @ ''-rs'')) d q)"
    "pass_ready rnd w2 \<longrightarrow> (\<exists>w3. rs_reconcileAll ?c rnd w2 = Some (Inr (), w3) \<and>
       (\<forall>k d. live_deps w1 k = Some d \<longrightarrow> (\<exists>q. live_sets w2 (k @ ''-rs'') = Some q \<and>
          card (living (live_pods w3) q) = nat (depspec_replicas (dep_spec d)))))"
    using rollout_local [where loop = loop and identity = identity and now = now and net = net and uid = uid and rnd = rnd, OF w1(2) plain] by (elim exE conjE) (rule that)
  have each: "\<exists>ps q. snapshot_of w (\<lambda>_. True) ps \<and> live_sets w2 (hpa_target h @ ''-rs'') = Some q \<and>
       rsspec_replicas (rs_spec q) = hpa_verdict (15 * second) t metrics ps h d \<and>
       (pass_ready rnd w2 \<longrightarrow> (\<exists>w3. rs_reconcileAll ?c rnd w2 = Some (Inr (), w3) \<and>
          card (living (live_pods w3) q) = nat (hpa_verdict (15 * second) t metrics ps h d)))"
    if h: "live_hpas w k = Some h" and d: "live_deps w (hpa_target h) = Some d" for k h d
  proof -
    obtain ps d1 where d1: "snapshot_of w (\<lambda>_. True) ps" "live_deps w1 (hpa_target h) = Some d1"
      "scaled d (hpa_verdict (15 * second) t metrics ps h d) d1"
      using w1(4) [rule_format, OF h d] by blast
    have count: "depspec_replicas (dep_spec d1) = hpa_verdict (15 * second) t metrics ps h d" using d1(3) by (simp add: scaled_def)
    obtain q where q: "live_sets w2 (hpa_target h @ ''-rs'') = Some q" "follows (live_sets w1 (hpa_target h @ ''-rs'')) d1 q"
      using w2(3) [rule_format, OF d1(2)] by blast
    have "rsspec_replicas (rs_spec q) = depspec_replicas (dep_spec d1)" using q(2) by (simp add: follows_def)
    moreover have "\<exists>w3. rs_reconcileAll ?c rnd w2 = Some (Inr (), w3) \<and>
        card (living (live_pods w3) q) = nat (depspec_replicas (dep_spec d1))" if "pass_ready rnd w2"
      using w2(4) that d1(2) q(1) by (metis option.inject)
    ultimately show ?thesis using d1(1) q(1) count by metis
  qed
  show ?thesis
    using w1(1,3) w2(1,2) each by (intro exI [of _ w1] exI [of _ w2] conjI allI impI) simp_all
qed

end
