(* ===== verification/Fleet.thy ===== *)
theory Fleet
  imports Autoscaler_Server Federation
begin

text \<open>
  The federation controller against several API servers of cmd/apiserver (default flags, healthy
  databases, no webhooks), one behind each base URL: a fleet is the world of every URL. The host's server
  may be a member itself; an unreachable URL answers no request.
\<close>

type_synonym fleet = "string \<Rightarrow> world"

definition at_url :: "world transport \<Rightarrow> string \<Rightarrow> fleet transport" where
  "at_url T u req f = (case T req (f u) of (r, w) \<Rightarrow> (r, f(u := w)))"

definition unreachable :: "fleet transport" where
  "unreachable req f = (Inl ''connection refused'', f)"

lemma do_out_at_url:
  "do_out (New (at_url T u)) m p b d z f = (case do_out (New T) m p b d z (f u) of (r, w) \<Rightarrow> (r, f(u := w)))"
  by (auto simp: do_out_def do_http_def New_def at_url_def Let_def split: prod.splits sum.splits target.splits)

lemma do_nil_at_url:
  "do_nil (New (at_url T u)) m p b f = (case do_nil (New T) m p b (f u) of (r, w) \<Rightarrow> (r, f(u := w)))"
  by (auto simp: do_nil_def do_http_def New_def at_url_def Let_def split: prod.splits sum.splits target.splits)

section \<open>One server\<close>

definition live_clusters :: "world \<Rightarrow> string \<Rightarrow> Cluster option" where
  "live_clusters w n = old_of (GetCluster no_faults (srv_st (w_sv w)) n)"

definition live_fds :: "world \<Rightarrow> string \<Rightarrow> FederatedDeployment option" where
  "live_fds w n = old_of (GetFederatedDeployment no_faults (srv_st (w_sv w)) n)"

lemma live_clusters_get: "live_clusters w n = Some x \<longleftrightarrow> GetCluster no_faults (srv_st (w_sv w)) n = Inr x"
  by (simp add: live_clusters_def old_of_def split: sum.splits)

lemma live_fds_get: "live_fds w n = Some x \<longleftrightarrow> GetFederatedDeployment no_faults (srv_st (w_sv w)) n = Inr x"
  by (simp add: live_fds_def old_of_def split: sum.splits)

lemma live_fds_table:
  "t_federated_deployments (srv_st (w_sv w')) = t_federated_deployments (srv_st (w_sv w)) \<Longrightarrow> live_fds w' = live_fds w"
  by (simp add: live_fds_def GetFederatedDeployment_def fun_eq_iff)

lemma live_fds_name: "unhooked w \<Longrightarrow> live_fds w k = Some x \<Longrightarrow> wf_FederatedDeployment x \<and> md_name (fd_metadata x) = k"
  using GetFederatedDeployment_wf by (auto simp: unhooked_def live_fds_get)

lemma live_clusters_name: "unhooked w \<Longrightarrow> live_clusters w k = Some x \<Longrightarrow> wf_Cluster x \<and> md_name (cl_metadata x) = k"
  using GetCluster_wf by (auto simp: unhooked_def live_clusters_get)

lemma tick_fleet [simp]: "live_clusters (tick w) = live_clusters w" "live_fds (tick w) = live_fds w"
  by (simp_all add: fun_eq_iff live_clusters_def live_fds_def)

lemma cleanPath_fleet:
  "cleanPath ''/apis/federation.mk.io/v1/clusters'' = ''/apis/federation.mk.io/v1/clusters''"
  "cleanPath ''/apis/federation.mk.io/v1/federateddeployments'' = ''/apis/federation.mk.io/v1/federateddeployments''"
  "plain n \<Longrightarrow> cleanPath (''/apis/federation.mk.io/v1/clusters/'' @ n @ ''/status'') =
     ''/apis/federation.mk.io/v1/clusters/'' @ n @ ''/status''"
  "plain n \<Longrightarrow> cleanPath (''/apis/federation.mk.io/v1/federateddeployments/'' @ n @ ''/status'') =
     ''/apis/federation.mk.io/v1/federateddeployments/'' @ n @ ''/status''"
  "cleanPath ''/healthz'' = ''/healthz''"
  using cleanPath_segs [of "[''apis'', ''federation.mk.io'', ''v1'', ''clusters'']"]
    cleanPath_segs [of "[''apis'', ''federation.mk.io'', ''v1'', ''federateddeployments'']"]
    cleanPath_segs [of "[''apis'', ''federation.mk.io'', ''v1'', ''clusters'', n, ''status'']"]
    cleanPath_segs [of "[''apis'', ''federation.mk.io'', ''v1'', ''federateddeployments'', n, ''status'']"]
    cleanPath_segs [of "[''healthz'']"] by (simp_all add: plain_def)

lemma routed_clusters: "routed ''/apis/federation.mk.io/v1/clusters''
    (guard cfg ev ''federation.mk.io'' ''clusters'' (handleClusters ev)) cfg ev"
  by (rule routedI, rule cleanPath_fleet) (simp_all add: mux_match_def routes_def registerM6Routes_def)

lemma routed_fds: "routed ''/apis/federation.mk.io/v1/federateddeployments''
    (guard cfg ev ''federation.mk.io'' ''federateddeployments'' (handleFedDeployments ev)) cfg ev"
  by (rule routedI, rule cleanPath_fleet) (simp_all add: mux_match_def routes_def registerM6Routes_def)

lemma routed_cluster_status: "plain n \<Longrightarrow> routed (''/apis/federation.mk.io/v1/clusters/'' @ n @ ''/status'')
    (guard cfg ev ''federation.mk.io'' ''clusters'' (handleClustersByName ev)) cfg ev"
  by (rule routedI [where p = "''/apis/federation.mk.io/v1/clusters/''"], erule cleanPath_fleet)
    (auto simp: mux_match_def routes_def registerM6Routes_def longer_def HasPrefix_def HasSuffix_def dest: plain_lit)

lemma routed_fd_status: "plain n \<Longrightarrow> routed (''/apis/federation.mk.io/v1/federateddeployments/'' @ n @ ''/status'')
    (guard cfg ev ''federation.mk.io'' ''federateddeployments'' (handleFedDeploymentsByName ev)) cfg ev"
  by (rule routedI [where p = "''/apis/federation.mk.io/v1/federateddeployments/''"], erule cleanPath_fleet)
    (auto simp: mux_match_def routes_def registerM6Routes_def longer_def HasPrefix_def HasSuffix_def dest: plain_lit)

lemma routed_healthz: "routed ''/healthz'' handleHealthz cfg ev"
  by (rule routedI, rule cleanPath_fleet) (simp_all add: mux_match_def routes_def registerM6Routes_def)

lemma healthz_local: "local_transport loop identity now net rnd (http_get ''/healthz'' []) w =
    (Inr \<lparr>resp_code = 200, resp_body = TextBody (Msg ''ok'')\<rparr>, tick w)"
proof -
  have "serve (default_config loop identity) (healthy_env now net rnd (w_n w)) (http_get ''/healthz'' []) (w_sv w) =
      (\<lparr>resp_code = 200, resp_body = TextBody (Msg ''ok'')\<rparr>, w_sv w)"
    using routed_healthz unfolding routed_def by (simp add: http_get_def handleHealthz_def)
  from local_world [OF this] show ?thesis by (simp add: local_transport_def tick_def)
qed

lemma client_ListClusters_local:
  assumes "unhooked w"
  shows "\<exists>xs. client_ListClusters (local_client loop identity now net rnd) w = (Inr xs, tick w) \<and>
    list_all wf_Cluster xs \<and> distinct (map (\<lambda>x. md_name (cl_metadata x)) xs) \<and>
    (\<forall>x. x \<in> set xs \<longleftrightarrow> live_clusters w (md_name (cl_metadata x)) = Some x)"
  unfolding client_ListClusters_def live_clusters_get using assms
  by (intro client_table_local [OF routed_clusters _ store_ok_cl _ Cluster_codec.list_roundtrip, where f = cl_of_row])
    (auto simp: unhooked_def handleClusters_def ListClusters_def GetCluster_def query_rows_def query_row_Inr cl_of_row_wf no_faults_simp)

lemma client_ListFederatedDeployments_local:
  assumes "unhooked w"
  shows "\<exists>xs. client_ListFederatedDeployments (local_client loop identity now net rnd) w = (Inr xs, tick w) \<and>
    list_all wf_FederatedDeployment xs \<and> distinct (map (\<lambda>x. md_name (fd_metadata x)) xs) \<and>
    (\<forall>x. x \<in> set xs \<longleftrightarrow> live_fds w (md_name (fd_metadata x)) = Some x)"
  unfolding client_ListFederatedDeployments_def live_fds_get using assms
  by (intro client_table_local [OF routed_fds _ store_ok_fd _ FederatedDeployment_codec.list_roundtrip, where f = fd_of_row])
    (auto simp: unhooked_def handleFedDeployments_def ListFederatedDeployments_def GetFederatedDeployment_def query_rows_def
      query_row_Inr fd_of_row_wf no_faults_simp)

section \<open>Statuses\<close>

lemma client_put_status_exact:
  assumes "routed path (guard (default_config loop identity) (healthy_env now net rnd (w_n w)) g s k)
      (default_config loop identity) (healthy_env now net rnd (w_n w))"
    and "\<And>req. req_method req = ''PUT'' \<Longrightarrow> req_path req = path \<Longrightarrow> k req (w_sv w) = put_status d z upd out req (w_sv w)"
    and "d j z = (x, True)" "upd x (srv_st (w_sv w)) = Inr st'"
  shows "do_nil (local_client loop identity now net rnd) ''PUT'' path (Some j) w =
    (Inr (), \<lparr>w_sv = (w_sv w)\<lparr>srv_st := st'\<rparr>, w_n = Suc (w_n w)\<rparr>)"
proof -
  let ?req = "\<lparr>req_method = ''PUT'', req_path = path, req_query = [], req_auth = [],
      req_body = (case Some j of None \<Rightarrow> Malformed | Some j \<Rightarrow> Doc j)\<rparr>"
  have "k ?req (w_sv w) = (\<lparr>resp_code = 200, resp_body = JsonBody (out st')\<rparr>, (w_sv w)\<lparr>srv_st := st'\<rparr>)"
    using assms(2) [of ?req] assms(3,4) by (simp add: put_status_def with_body_def Decode_def writeJSON_def)
  from local_call [OF assms(1) this] show ?thesis by (simp add: do_nil_def)
qed

lemma UpdateClusterStatus_tables: "UpdateClusterStatus no_faults now n x st = Inr st' \<Longrightarrow>
    t_admission_webhooks st' = t_admission_webhooks st \<and> t_pods st' = t_pods st \<and> t_replicasets st' = t_replicasets st \<and>
    t_deployments st' = t_deployments st \<and> t_federated_deployments st' = t_federated_deployments st"
  by (auto simp: UpdateClusterStatus_def Let_def sql_results split: option.splits if_splits)

lemma UpdateFederatedDeploymentStatus_tables: "UpdateFederatedDeploymentStatus no_faults now n x st = Inr st' \<Longrightarrow>
    t_admission_webhooks st' = t_admission_webhooks st \<and> t_pods st' = t_pods st \<and> t_replicasets st' = t_replicasets st \<and>
    t_deployments st' = t_deployments st"
  by (auto simp: UpdateFederatedDeploymentStatus_def Let_def sql_results split: option.splits if_splits)

text \<open>What no step of the federation controller touches: pods and replica sets.\<close>

definition undisturbed :: "world \<Rightarrow> world \<Rightarrow> bool" where
  "undisturbed w w' \<longleftrightarrow> unhooked w' \<and> live_pods w' = live_pods w \<and> live_sets w' = live_sets w"

lemma undisturbed_refl: "unhooked w \<Longrightarrow> undisturbed w w"
  by (simp add: undisturbed_def)

lemma undisturbed_tick: "unhooked w \<Longrightarrow> undisturbed w (tick w)"
  by (simp add: undisturbed_def)

lemma undisturbed_trans: "undisturbed w w' \<Longrightarrow> undisturbed w' w'' \<Longrightarrow> undisturbed w w''"
  by (simp add: undisturbed_def)

lemma client_UpdateClusterStatus_local:
  assumes inv: "unhooked w" and n: "plain n"
    and run: "snd (client_UpdateClusterStatus (local_client loop identity now net rnd) n s w) = w'"
  shows "undisturbed w w' \<and> live_deps w' = live_deps w \<and> live_fds w' = live_fds w"
proof -
  let ?path = "''/apis/federation.mk.io/v1/clusters/'' @ n @ ''/status''"
  have "TrimPrefix ?path ''/apis/federation.mk.io/v1/clusters/'' = n @ ''/status''" by (rule TrimPrefix_append)
  then have handler: "req_method req = ''PUT'' \<Longrightarrow> req_path req = ?path \<Longrightarrow> handleClustersByName (healthy_env now net rnd (w_n w)) req (w_sv w) =
      put_status dec_ClusterStatus zero_ClusterStatus (UpdateClusterStatus no_faults (now (w_n w)) n)
        (\<lambda>st. read_back enc_Cluster (GetCluster no_faults st n)) req (w_sv w)" for req
    by (simp add: handleClustersByName_def Let_def del: append.simps)
  obtain sv' where w': "w' = \<lparr>w_sv = sv', w_n = Suc (w_n w)\<rparr>" and "srv_st sv' = srv_st (w_sv w) \<or> (\<exists>t. wf_ClusterStatus t \<and>
      UpdateClusterStatus no_faults (now (w_n w)) n t (srv_st (w_sv w)) = Inr (srv_st sv'))"
    using client_put_status_local [where good = wf_ClusterStatus, OF routed_cluster_status [OF n] handler
        dec_ClusterStatus_wf [OF zero_ClusterStatus_wf] run [unfolded client_UpdateClusterStatus_def]] by blast
  then have "store_ok (srv_st sv')" and tables: "t_admission_webhooks (srv_st sv') = t_admission_webhooks (srv_st (w_sv w))"
    "t_pods (srv_st sv') = t_pods (srv_st (w_sv w))" "t_replicasets (srv_st sv') = t_replicasets (srv_st (w_sv w))"
    "t_deployments (srv_st sv') = t_deployments (srv_st (w_sv w))"
    "t_federated_deployments (srv_st sv') = t_federated_deployments (srv_st (w_sv w))"
    using inv UpdateClusterStatus_ok UpdateClusterStatus_tables by (auto simp: unhooked_def)
  then have "unhooked w'" using inv by (simp add: unhooked_def w')
  moreover have "live_pods w' = live_pods w" "live_sets w' = live_sets w" "live_deps w' = live_deps w" "live_fds w' = live_fds w"
    by (auto intro!: live_pods_table live_sets_table live_deps_table live_fds_table simp: w' tables)
  ultimately show ?thesis by (simp add: undisturbed_def)
qed

lemma client_UpdateFederatedDeploymentStatus_local:
  assumes inv: "unhooked w" and n: "plain n" and old: "live_fds w n = Some fd" and s: "wf_FederatedDeploymentStatus s"
  shows "\<exists>t w'. client_UpdateFederatedDeploymentStatus (local_client loop identity now net rnd) n s w = (Inr (), w') \<and>
    undisturbed w w' \<and> live_deps w' = live_deps w \<and>
    live_fds w' = (live_fds w)(n \<mapsto> fd\<lparr>fd_status := s\<lparr>fdstatus_lastUpdated := t\<rparr>\<rparr>)"
proof -
  let ?path = "''/apis/federation.mk.io/v1/federateddeployments/'' @ n @ ''/status''" and ?t = "now (w_n w)"
  have ok: "store_ok (srv_st (w_sv w))" using inv by (simp add: unhooked_def)
  have "TrimPrefix ?path ''/apis/federation.mk.io/v1/federateddeployments/'' = n @ ''/status''" by (rule TrimPrefix_append)
  then have handler: "req_method req = ''PUT'' \<Longrightarrow> req_path req = ?path \<Longrightarrow> handleFedDeploymentsByName (healthy_env now net rnd (w_n w)) req (w_sv w) =
      put_status dec_FederatedDeploymentStatus zero_FederatedDeploymentStatus (UpdateFederatedDeploymentStatus no_faults ?t n)
        (\<lambda>st. read_back enc_FederatedDeployment (GetFederatedDeployment no_faults st n)) req (w_sv w)" for req
    by (simp add: handleFedDeploymentsByName_def Let_def del: append.simps)
  have get: "GetFederatedDeployment no_faults (srv_st (w_sv w)) n = Inr fd" using old by (simp add: live_fds_get)
  then obtain st' where upd: "UpdateFederatedDeploymentStatus no_faults ?t n s (srv_st (w_sv w)) = Inr st'"
    using fd_store.upd_present unfolding is_ok_iff by blast
  let ?w' = "\<lparr>w_sv = (w_sv w)\<lparr>srv_st := st'\<rparr>, w_n = Suc (w_n w)\<rparr>"
  have run: "client_UpdateFederatedDeploymentStatus (local_client loop identity now net rnd) n s w = (Inr (), ?w')"
    unfolding client_UpdateFederatedDeploymentStatus_def
    by (rule client_put_status_exact [OF routed_fd_status [OF n] handler _ upd]) (use s in simp_all)
  have tables: "t_admission_webhooks st' = t_admission_webhooks (srv_st (w_sv w))"
    "t_pods st' = t_pods (srv_st (w_sv w))" "t_replicasets st' = t_replicasets (srv_st (w_sv w))"
    "t_deployments st' = t_deployments (srv_st (w_sv w))" using UpdateFederatedDeploymentStatus_tables [OF upd] by simp_all
  have "unhooked ?w'" using inv UpdateFederatedDeploymentStatus_ok [OF ok s upd] tables by (simp add: unhooked_def)
  moreover have "live_pods ?w' = live_pods w" "live_sets ?w' = live_sets w" "live_deps ?w' = live_deps w"
    by (auto intro!: live_pods_table live_sets_table live_deps_table simp: tables)
  moreover have "live_fds ?w' = (live_fds w)(n \<mapsto> fd\<lparr>fd_status := s\<lparr>fdstatus_lastUpdated := ?t\<rparr>\<rparr>)"
    using fd_store.upd_get [OF store_ok_fd_table [OF ok] s upd] get by (simp add: live_fds_def fun_eq_iff)
  ultimately show ?thesis using run
    by (intro exI [of _ ?t] exI [of _ ?w']) (simp add: undisturbed_def)
qed

section \<open>Probing the members\<close>

text \<open>The fleet of the URLs \<open>up\<close>: the others answer nobody.\<close>

definition members_of :: "world transport \<Rightarrow> (string \<Rightarrow> bool) \<Rightarrow> string \<Rightarrow> fleet transport" where
  "members_of T up u = (if up u then at_url T u else unreachable)"

definition calm :: "fleet \<Rightarrow> fleet \<Rightarrow> bool" where
  "calm f f' \<longleftrightarrow> (\<forall>u. undisturbed (f u) (f' u))"

lemma calm_refl: "\<forall>u. unhooked (f u) \<Longrightarrow> calm f f"
  by (simp add: calm_def undisturbed_refl)

lemma calm_trans: "calm f f' \<Longrightarrow> calm f' f'' \<Longrightarrow> calm f f''"
  unfolding calm_def by (blast intro: undisturbed_trans)

lemma calm_upd: "\<forall>u. unhooked (f u) \<Longrightarrow> undisturbed (f v) w \<Longrightarrow> calm f (f(v := w))"
  by (simp add: calm_def undisturbed_refl)

lemma calm_unhooked: "calm f f' \<Longrightarrow> \<forall>u. unhooked (f' u)"
  by (simp add: calm_def undisturbed_def)

text \<open>Probes and the statuses they write leave deployments and federated deployments alone.\<close>

definition idle :: "fleet \<Rightarrow> fleet \<Rightarrow> bool" where
  "idle f f' \<longleftrightarrow> calm f f' \<and> (\<forall>u. live_deps (f' u) = live_deps (f u) \<and> live_fds (f' u) = live_fds (f u))"

lemma idle_trans: "idle f f' \<Longrightarrow> idle f' f'' \<Longrightarrow> idle f f''"
  unfolding idle_def using calm_trans by auto

lemma idle_tick: "\<forall>u. unhooked (f u) \<Longrightarrow> idle f (f(v := tick (f v)))"
  by (simp add: idle_def calm_upd undisturbed_tick)

lemma probe_fleet:
  assumes "\<forall>u. unhooked (f u)"
  shows "\<exists>msg f'. probe (members_of (local_transport loop identity now net rnd) up) status_line u f = ((up u, msg), f') \<and> idle f f'"
  using assms idle_tick [OF assms, of u]
  by (cases "up u") (simp_all add: probe_def members_of_def at_url_def healthz_local unreachable_def idle_def calm_refl)

lemma cluster_status_fleet:
  assumes "\<forall>u. unhooked (f u)" "plain n"
  shows "idle f (snd (client_UpdateClusterStatus (New (at_url (local_transport loop identity now net rnd) host)) n s f))"
proof -
  let ?T = "local_transport loop identity now net rnd"
  obtain r w where w: "client_UpdateClusterStatus (New ?T) n s (f host) = (r, w)" by (metis surj_pair)
  then have "snd (client_UpdateClusterStatus (New (at_url ?T host)) n s f) = f(host := w)"
    by (simp add: client_UpdateClusterStatus_def do_nil_at_url)
  moreover have "undisturbed (f host) w \<and> live_deps w = live_deps (f host) \<and> live_fds w = live_fds (f host)"
    using client_UpdateClusterStatus_local [of "f host" n loop identity now net rnd s w] assms w by (simp add: local_client_New)
  ultimately show ?thesis using assms(1) by (auto simp: idle_def intro: calm_upd)
qed

lemma probe_all_fleet:
  assumes "\<forall>u. unhooked (f u)" "\<forall>cl \<in> set cls. plain (md_name (cl_metadata cl))"
  shows "\<exists>f'. probe_all (New (at_url (local_transport loop identity now net rnd) host))
      (members_of (local_transport loop identity now net rnd) up) status_line cls f =
    (map (\<lambda>cl. set_ready cl (up (clspec_server (cl_spec cl)))) cls, f') \<and> idle f f'"
  using assms
proof (induction cls arbitrary: f)
  case Nil
  then show ?case by (simp add: idle_def calm_refl)
next
  case (Cons cl cls)
  let ?T = "local_transport loop identity now net rnd" and ?u = "clspec_server (cl_spec cl)"
  obtain msg f1 where f1: "probe (members_of ?T up) status_line ?u f = ((up ?u, msg), f1)" "idle f f1"
    using probe_fleet [OF Cons.prems(1)] by blast
  define f2 where "f2 = snd (client_UpdateClusterStatus (New (at_url ?T host)) (md_name (cl_metadata cl))
    (zero_ClusterStatus\<lparr>clstatus_ready := up ?u, clstatus_message := msg\<rparr>) f1)"
  have un1: "\<forall>u. unhooked (f1 u)" using f1(2) calm_unhooked by (auto simp: idle_def)
  then have i2: "idle f1 f2" unfolding f2_def using Cons.prems(2) by (intro cluster_status_fleet) simp_all
  have un2: "\<forall>u. unhooked (f2 u)" using i2 calm_unhooked by (auto simp: idle_def)
  obtain f3 where f3: "probe_all (New (at_url ?T host)) (members_of ?T up) status_line cls f2 =
      (map (\<lambda>cl. set_ready cl (up (clspec_server (cl_spec cl)))) cls, f3)" "idle f2 f3"
    using Cons.IH [OF un2] Cons.prems(2) by auto
  have "idle f f3" using f1(2) i2 f3(2) by (blast intro: idle_trans)
  with f1(1) f3(1) show ?case by (simp add: f2_def)
qed

section \<open>Pushing to the members\<close>

definition pushable :: "FederatedDeployment \<Rightarrow> bool" where
  "pushable fd \<longleftrightarrow> wf_FederatedDeployment fd \<and> plain (md_name (fd_metadata fd)) \<and>
     0 \<le> depspec_replicas (fdspec_template (fd_spec fd)) \<and>
     podspec_containers (tmpl_spec (depspec_template (fdspec_template (fd_spec fd)))) \<noteq> []"

definition pushed :: "FederatedDeployment \<Rightarrow> Cluster \<Rightarrow> Deployment \<Rightarrow> bool" where
  "pushed fd cl q \<longleftrightarrow> dep_metadata q = dep_metadata (member_deployment fd cl) \<and> dep_spec q = fdspec_template (fd_spec fd)"

lemma create_fleet:
  assumes "\<forall>u. unhooked (f u)" "pushable fd"
  shows "\<exists>q w. client_CreateDeployment (New (at_url (local_transport loop identity now net rnd) u)) (member_deployment fd cl) f =
      (Inr q, f(u := w)) \<and> calm f (f(u := w)) \<and> live_deps w = (live_deps (f u))(md_name (fd_metadata fd) \<mapsto> q) \<and> pushed fd cl q \<and>
      live_fds w = live_fds (f u)"
proof -
  let ?d = "member_deployment fd cl" and ?n = "md_name (fd_metadata fd)"
  have d: "wf_Deployment ?d" "md_name (dep_metadata ?d) = ?n" "?n \<noteq> []" "0 \<le> depspec_replicas (dep_spec ?d)"
    "podspec_containers (tmpl_spec (depspec_template (dep_spec ?d))) \<noteq> []" "dep_spec ?d = fdspec_template (fd_spec fd)"
    using assms(2) member_deployment_wf [of fd cl] by (simp_all add: pushable_def member_deployment_def plain_def)
  have un: "unhooked (f u)" using assms(1) by simp
  obtain q w where w: "client_CreateDeployment (local_client loop identity now net rnd) ?d (f u) = (Inr q, w)" "unhooked w"
    "live_pods w = live_pods (f u)" "live_sets w = live_sets (f u)" "live_deps w = (live_deps (f u))(?n \<mapsto> q)"
    "dep_metadata q = dep_metadata ?d" "dep_spec q = dep_spec ?d"
    "t_federated_deployments (srv_st (w_sv w)) = t_federated_deployments (srv_st (w_sv (f u)))"
    using client_CreateDeployment_local [OF un d(1-5), of loop identity now net rnd] by (elim exE conjE) (rule that)
  have "calm f (f(u := w))" using assms(1) w(2-4) by (intro calm_upd) (simp_all add: undisturbed_def)
  moreover have "client_CreateDeployment (New (at_url (local_transport loop identity now net rnd) u)) ?d f = (Inr q, f(u := w))"
    using w(1) by (simp add: client_CreateDeployment_def do_out_at_url local_client_New)
  moreover have "live_fds w = live_fds (f u)" using w(8) by (rule live_fds_table)
  ultimately show ?thesis using w(5-7) d(6) by (intro exI [of _ q] exI [of _ w]) (simp add: pushed_def)
qed

definition reached :: "(string \<Rightarrow> bool) \<Rightarrow> Cluster list \<Rightarrow> string set" where
  "reached up cls = {u. up u \<and> (\<exists>cl \<in> set cls. clspec_server (cl_spec cl) = u)}"

lemma reached_simps [simp]:
  "reached up [] = {}"
  "reached up (cl # cls) = (if up (clspec_server (cl_spec cl)) then insert (clspec_server (cl_spec cl)) (reached up cls) else reached up cls)"
  by (auto simp: reached_def)

lemma push_all_fleet:
  assumes "\<forall>u. unhooked (f u)" "pushable fd" "distinct (map (\<lambda>cl. clspec_server (cl_spec cl)) cls)"
    and "\<forall>cl \<in> set cls. clstatus_ready (cl_status cl) \<longleftrightarrow> up (clspec_server (cl_spec cl))"
  shows "\<exists>f'. push_all (members_of (local_transport loop identity now net rnd) up) fd cls ready f =
      (ready + int (length (filter (\<lambda>cl. up (clspec_server (cl_spec cl))) cls)), f') \<and> calm f f' \<and>
    (\<forall>u. live_fds (f' u) = live_fds (f u)) \<and>
    (\<forall>cl \<in> set cls. up (clspec_server (cl_spec cl)) \<longrightarrow>
       (\<exists>q. live_deps (f' (clspec_server (cl_spec cl))) (md_name (fd_metadata fd)) = Some q \<and> pushed fd cl q)) \<and>
    (\<forall>u n. u \<notin> reached up cls \<or> n \<noteq> md_name (fd_metadata fd) \<longrightarrow> live_deps (f' u) n = live_deps (f u) n)"
  using assms
proof (induction cls arbitrary: f ready)
  case Nil
  then show ?case by (simp add: calm_refl)
next
  case (Cons cl cls)
  let ?T = "local_transport loop identity now net rnd" and ?u = "clspec_server (cl_spec cl)" and ?n = "md_name (fd_metadata fd)"
  have rest: "distinct (map (\<lambda>cl. clspec_server (cl_spec cl)) cls)"
    "\<forall>cl \<in> set cls. clstatus_ready (cl_status cl) \<longleftrightarrow> up (clspec_server (cl_spec cl))" using Cons.prems(3,4) by simp_all
  show ?case
  proof (cases "up ?u")
    case False
    with Cons.IH [OF Cons.prems(1,2) rest, of ready] Cons.prems(4) show ?thesis by simp
  next
    case True
    obtain q w where w: "client_CreateDeployment (New (at_url ?T ?u)) (member_deployment fd cl) f = (Inr q, f(?u := w))"
      "calm f (f(?u := w))" "live_deps w = (live_deps (f ?u))(?n \<mapsto> q)" "pushed fd cl q" "live_fds w = live_fds (f ?u)"
      using create_fleet [OF Cons.prems(1,2), of loop identity now net rnd ?u cl] by (elim exE conjE) (rule that)
    let ?f1 = "f(?u := w)"
    have un: "\<forall>u. unhooked (?f1 u)" by (rule calm_unhooked [OF w(2)])
    obtain f' where f': "push_all (members_of ?T up) fd cls (ready + 1) ?f1 =
        (ready + 1 + int (length (filter (\<lambda>cl. up (clspec_server (cl_spec cl))) cls)), f')" "calm ?f1 f'"
      "\<forall>u. live_fds (f' u) = live_fds (?f1 u)"
      "\<forall>cl \<in> set cls. up (clspec_server (cl_spec cl)) \<longrightarrow>
         (\<exists>q. live_deps (f' (clspec_server (cl_spec cl))) ?n = Some q \<and> pushed fd cl q)"
      "\<forall>u n. u \<notin> reached up cls \<or> n \<noteq> ?n \<longrightarrow> live_deps (f' u) n = live_deps (?f1 u) n"
      using Cons.IH [OF un Cons.prems(2) rest, of "ready + 1"] by (elim exE conjE) (rule that)
    have "?u \<notin> reached up cls" using Cons.prems(3) by (auto simp: reached_def image_iff)
    with f'(5) have "live_deps (f' ?u) ?n = live_deps (?f1 ?u) ?n" by blast
    then have own: "live_deps (f' ?u) ?n = Some q" using w(3) by simp
    have frame: "live_deps (f' u) n = live_deps (f u) n" if "u \<notin> reached up (cl # cls) \<or> n \<noteq> ?n" for u n
    proof -
      have "live_deps (f' u) n = live_deps (?f1 u) n" using f'(5) that True by auto
      moreover have "live_deps (?f1 u) n = live_deps (f u) n" using w(3) that True by auto
      ultimately show ?thesis by simp
    qed
    have run: "push_all (members_of ?T up) fd (cl # cls) ready f =
        (ready + int (length (filter (\<lambda>cl. up (clspec_server (cl_spec cl))) (cl # cls))), f')"
      using True Cons.prems(4) w(1) f'(1) by (simp add: members_of_def)
    have "calm f f'" using w(2) f'(2) by (rule calm_trans)
    moreover have "\<forall>u. live_fds (f' u) = live_fds (f u)" using f'(3) w(5) by simp
    moreover have "\<forall>c \<in> set (cl # cls). up (clspec_server (cl_spec c)) \<longrightarrow>
        (\<exists>q. live_deps (f' (clspec_server (cl_spec c))) ?n = Some q \<and> pushed fd c q)"
      using f'(4) own w(4) by simp
    ultimately show ?thesis using run frame by (intro exI [of _ f'] conjI) blast+
  qed
qed

section \<open>A pass of the federation controller\<close>

definition counted :: "(string \<Rightarrow> bool) \<Rightarrow> Cluster list \<Rightarrow> FederatedDeploymentStatus \<Rightarrow> bool" where
  "counted up cls s \<longleftrightarrow> fdstatus_clusterCount s = int (length cls) \<and>
     fdstatus_readyCount s = int (length (filter (\<lambda>cl. up (clspec_server (cl_spec cl))) cls))"

lemma selectClusters_filter:
  "selectClusters fd cls = filter (\<lambda>cl. fdspec_clusters (fd_spec fd) = [] \<or> md_name (cl_metadata cl) \<in> set (fdspec_clusters (fd_spec fd))) cls"
  by (simp add: selectClusters_def)

lemma selectClusters_distinct: "distinct (map g cls) \<Longrightarrow> distinct (map g (selectClusters fd cls))"
  by (simp add: selectClusters_filter distinct_map_filter)

lemma fd_status_fleet:
  assumes "\<forall>u. unhooked (f u)" "plain n" "live_fds (f host) n = Some fd" "wf_FederatedDeploymentStatus s"
  shows "\<exists>t w. snd (client_UpdateFederatedDeploymentStatus (New (at_url (local_transport loop identity now net rnd) host)) n s f) =
      f(host := w) \<and> calm f (f(host := w)) \<and> live_deps w = live_deps (f host) \<and>
    live_fds w = (live_fds (f host))(n \<mapsto> fd\<lparr>fd_status := s\<lparr>fdstatus_lastUpdated := t\<rparr>\<rparr>)"
proof -
  have un: "unhooked (f host)" using assms(1) by simp
  obtain t w where w: "client_UpdateFederatedDeploymentStatus (local_client loop identity now net rnd) n s (f host) = (Inr (), w)"
    "undisturbed (f host) w" "live_deps w = live_deps (f host)"
    "live_fds w = (live_fds (f host))(n \<mapsto> fd\<lparr>fd_status := s\<lparr>fdstatus_lastUpdated := t\<rparr>\<rparr>)"
    using client_UpdateFederatedDeploymentStatus_local [OF un assms(2-4), of loop identity now net rnd] by (elim exE conjE) (rule that)
  have "snd (client_UpdateFederatedDeploymentStatus (New (at_url (local_transport loop identity now net rnd) host)) n s f) = f(host := w)"
    using w(1) by (simp add: client_UpdateFederatedDeploymentStatus_def do_nil_at_url local_client_New)
  moreover have "calm f (f(host := w))" using assms(1) w(2) by (rule calm_upd)
  ultimately show ?thesis using w(3,4) by (intro exI [of _ t] exI [of _ w]) simp
qed

lemma reconcile_fd_fleet:
  assumes "\<forall>u. unhooked (f u)" "pushable fd" "distinct (map (\<lambda>cl. clspec_server (cl_spec cl)) cls)"
    and "\<forall>cl \<in> set cls. clstatus_ready (cl_status cl) \<longleftrightarrow> up (clspec_server (cl_spec cl))"
    and "int (length cls) < 2 ^ 63" "live_fds (f host) (md_name (fd_metadata fd)) = Some fd"
    and run: "reconcile_fd (New (at_url (local_transport loop identity now net rnd) host))
      (members_of (local_transport loop identity now net rnd) up) cls fd f = f'"
  shows "calm f f' \<and>
    (\<forall>cl \<in> set (selectClusters fd cls). up (clspec_server (cl_spec cl)) \<longrightarrow>
       (\<exists>q. live_deps (f' (clspec_server (cl_spec cl))) (md_name (fd_metadata fd)) = Some q \<and> pushed fd cl q)) \<and>
    (\<forall>u n. u \<notin> reached up (selectClusters fd cls) \<or> n \<noteq> md_name (fd_metadata fd) \<longrightarrow> live_deps (f' u) n = live_deps (f u) n) \<and>
    (\<exists>s. live_fds (f' host) = (live_fds (f host))(md_name (fd_metadata fd) \<mapsto> fd\<lparr>fd_status := s\<rparr>) \<and>
       counted up (selectClusters fd cls) s)"
proof -
  let ?T = "local_transport loop identity now net rnd" and ?n = "md_name (fd_metadata fd)"
  let ?cls = "selectClusters fd cls"
  let ?ready = "int (length (filter (\<lambda>cl. up (clspec_server (cl_spec cl))) ?cls))"
  let ?s = "zero_FederatedDeploymentStatus\<lparr>fdstatus_clusterCount := int (length ?cls), fdstatus_readyCount := ?ready\<rparr>"
  have dist: "distinct (map (\<lambda>cl. clspec_server (cl_spec cl)) ?cls)" using assms(3) by (rule selectClusters_distinct)
  have ready: "\<forall>cl \<in> set ?cls. clstatus_ready (cl_status cl) \<longleftrightarrow> up (clspec_server (cl_spec cl))"
    using assms(4) by (simp add: selectClusters_filter)
  obtain f1 where f1: "push_all (members_of ?T up) fd ?cls 0 f = (?ready, f1)" "calm f f1" "\<forall>u. live_fds (f1 u) = live_fds (f u)"
    "\<forall>cl \<in> set ?cls. up (clspec_server (cl_spec cl)) \<longrightarrow>
       (\<exists>q. live_deps (f1 (clspec_server (cl_spec cl))) ?n = Some q \<and> pushed fd cl q)"
    "\<forall>u n. u \<notin> reached up ?cls \<or> n \<noteq> ?n \<longrightarrow> live_deps (f1 u) n = live_deps (f u) n"
    using push_all_fleet [where ready = 0, OF assms(1,2) dist ready, of loop identity now net rnd]
    by (elim exE conjE) (rule that, simp_all)
  have len: "length ?cls \<le> length cls" by (simp add: selectClusters_filter)
  have "length (filter (\<lambda>cl. up (clspec_server (cl_spec cl))) ?cls) \<le> length ?cls" by (rule length_filter_le)
  with len have "length (filter (\<lambda>cl. up (clspec_server (cl_spec cl))) ?cls) \<le> length cls" by (rule le_trans [rotated])
  with len have s: "wf_FederatedDeploymentStatus ?s" using assms(5) by (simp add: wf_FederatedDeploymentStatus_def int64_ok_def)
  have un: "\<forall>u. unhooked (f1 u)" by (rule calm_unhooked [OF f1(2)])
  have plain: "plain ?n" using assms(2) by (simp add: pushable_def)
  have old: "live_fds (f1 host) ?n = Some fd" using f1(3) assms(6) by simp
  obtain t w where w: "snd (client_UpdateFederatedDeploymentStatus (New (at_url ?T host)) ?n ?s f1) = f1(host := w)"
    "calm f1 (f1(host := w))" "live_deps w = live_deps (f1 host)"
    "live_fds w = (live_fds (f1 host))(?n \<mapsto> fd\<lparr>fd_status := ?s\<lparr>fdstatus_lastUpdated := t\<rparr>\<rparr>)"
    using fd_status_fleet [OF un plain old s, of loop identity now net rnd] by (elim exE conjE) (rule that)
  have f': "f' = f1(host := w)" using run w(1) by (simp add: reconcile_fd_def Let_def f1(1))
  have deps: "live_deps (f' u) = live_deps (f1 u)" for u by (simp add: f' w(3))
  have "calm f f'" using f1(2) w(2) unfolding f' by (rule calm_trans)
  moreover have "live_fds (f' host) = (live_fds (f host))(?n \<mapsto> fd\<lparr>fd_status := ?s\<lparr>fdstatus_lastUpdated := t\<rparr>\<rparr>)"
    using w(4) f1(3) by (simp add: f')
  moreover have "counted up ?cls (?s\<lparr>fdstatus_lastUpdated := t\<rparr>)" by (simp add: counted_def)
  ultimately show ?thesis using f1(4,5) unfolding deps by blast
qed

lemma fds_fold_fleet:
  assumes "\<forall>u. unhooked (f u)" "distinct (map (\<lambda>cl. clspec_server (cl_spec cl)) cls)"
    and "\<forall>cl \<in> set cls. clstatus_ready (cl_status cl) \<longleftrightarrow> up (clspec_server (cl_spec cl))"
    and "int (length cls) < 2 ^ 63" "distinct (map (\<lambda>fd. md_name (fd_metadata fd)) fds)"
    and "\<forall>fd \<in> set fds. pushable fd \<and> live_fds (f host) (md_name (fd_metadata fd)) = Some fd"
    and "fold (reconcile_fd (New (at_url (local_transport loop identity now net rnd) host))
      (members_of (local_transport loop identity now net rnd) up) cls) fds f = f'"
  shows "calm f f' \<and>
    (\<forall>fd \<in> set fds. \<forall>cl \<in> set (selectClusters fd cls). up (clspec_server (cl_spec cl)) \<longrightarrow>
       (\<exists>q. live_deps (f' (clspec_server (cl_spec cl))) (md_name (fd_metadata fd)) = Some q \<and> pushed fd cl q)) \<and>
    (\<forall>u n. (\<forall>fd \<in> set fds. u \<notin> reached up (selectClusters fd cls) \<or> n \<noteq> md_name (fd_metadata fd)) \<longrightarrow>
       live_deps (f' u) n = live_deps (f u) n) \<and>
    (\<forall>fd \<in> set fds. \<exists>s. live_fds (f' host) (md_name (fd_metadata fd)) = Some (fd\<lparr>fd_status := s\<rparr>) \<and>
       counted up (selectClusters fd cls) s) \<and>
    (\<forall>n. n \<notin> (\<lambda>fd. md_name (fd_metadata fd)) ` set fds \<longrightarrow> live_fds (f' host) n = live_fds (f host) n)"
  using assms
proof (induction fds arbitrary: f)
  case Nil
  then show ?case by (simp add: calm_refl)
next
  case (Cons fd fds)
  let ?T = "local_transport loop identity now net rnd" and ?n = "md_name (fd_metadata fd)"
  define f1 where "f1 = reconcile_fd (New (at_url ?T host)) (members_of ?T up) cls fd f"
  have fd: "pushable fd" "live_fds (f host) ?n = Some fd" using Cons.prems(6) by simp_all
  obtain s where one: "calm f f1"
    "\<forall>cl \<in> set (selectClusters fd cls). up (clspec_server (cl_spec cl)) \<longrightarrow>
       (\<exists>q. live_deps (f1 (clspec_server (cl_spec cl))) ?n = Some q \<and> pushed fd cl q)"
    "\<forall>u n. u \<notin> reached up (selectClusters fd cls) \<or> n \<noteq> ?n \<longrightarrow> live_deps (f1 u) n = live_deps (f u) n"
    "live_fds (f1 host) = (live_fds (f host))(?n \<mapsto> fd\<lparr>fd_status := s\<rparr>)" "counted up (selectClusters fd cls) s"
    using reconcile_fd_fleet [OF Cons.prems(1) fd(1) Cons.prems(2-4) fd(2) f1_def [symmetric]] by (elim exE conjE) (rule that)
  have fresh: "\<forall>g \<in> set fds. md_name (fd_metadata g) \<noteq> ?n" using Cons.prems(5) by (force simp: image_iff)
  have un: "\<forall>u. unhooked (f1 u)" by (rule calm_unhooked [OF one(1)])
  have dist: "distinct (map (\<lambda>fd. md_name (fd_metadata fd)) fds)" using Cons.prems(5) by simp
  have good: "\<forall>g \<in> set fds. pushable g \<and> live_fds (f1 host) (md_name (fd_metadata g)) = Some g"
    using Cons.prems(6) fresh one(4) by simp
  have run: "fold (reconcile_fd (New (at_url ?T host)) (members_of ?T up) cls) fds f1 = f'" using Cons.prems(7) by (simp add: f1_def)
  note rest = Cons.IH [OF un Cons.prems(2-4) dist good run]
  have own: "live_deps (f' u) ?n = live_deps (f1 u) ?n" for u
    by (rule conjunct1 [OF conjunct2 [OF conjunct2 [OF rest]], rule_format]) (use fresh in auto)
  have calm: "calm f f'" using one(1) rest by (blast intro: calm_trans)
  have pushes: "\<forall>cl \<in> set (selectClusters g cls). up (clspec_server (cl_spec cl)) \<longrightarrow>
      (\<exists>q. live_deps (f' (clspec_server (cl_spec cl))) (md_name (fd_metadata g)) = Some q \<and> pushed g cl q)"
    if "g \<in> set (fd # fds)" for g
  proof (cases "g = fd")
    case True
    then show ?thesis using one(2) own by simp
  next
    case False
    with that rest show ?thesis by simp
  qed
  have frame: "live_deps (f' u) n = live_deps (f u) n"
    if "\<forall>g \<in> set (fd # fds). u \<notin> reached up (selectClusters g cls) \<or> n \<noteq> md_name (fd_metadata g)" for u n
    using that one(3) rest by simp
  have "?n \<notin> (\<lambda>fd. md_name (fd_metadata fd)) ` set fds" using Cons.prems(5) by simp
  then have kept: "live_fds (f' host) ?n = Some (fd\<lparr>fd_status := s\<rparr>)" using rest one(4) by simp
  have status: "\<exists>s. live_fds (f' host) (md_name (fd_metadata g)) = Some (g\<lparr>fd_status := s\<rparr>) \<and> counted up (selectClusters g cls) s"
    if "g \<in> set (fd # fds)" for g
    using that kept one(5) rest by auto
  have others: "live_fds (f' host) n = live_fds (f host) n" if "n \<notin> (\<lambda>fd. md_name (fd_metadata fd)) ` set (fd # fds)" for n
    using that rest one(4) by simp
  from calm pushes frame status others show ?case by (intro conjI) blast+
qed

text \<open>The clusters a federated deployment names; all of them when it names none.\<close>

definition targeted :: "FederatedDeployment \<Rightarrow> string \<Rightarrow> bool" where
  "targeted fd k \<longleftrightarrow> fdspec_clusters (fd_spec fd) = [] \<or> k \<in> set (fdspec_clusters (fd_spec fd))"

lemma set_ready_simps [simp]:
  "cl_metadata (set_ready cl ok) = cl_metadata cl" "cl_spec (set_ready cl ok) = cl_spec cl"
  "clstatus_ready (cl_status (set_ready cl ok)) = ok" "pushed fd (set_ready cl ok) q = pushed fd cl q"
  by (simp_all add: set_ready_def pushed_def member_deployment_def)

lemma count_names:
  assumes "distinct (map name xs)" "\<And>k x. live k = Some x \<longleftrightarrow> x \<in> set xs \<and> name x = k"
  shows "length (filter P xs) = card {k. \<exists>x. live k = Some x \<and> P x}"
proof -
  have "{k. \<exists>x. live k = Some x \<and> P x} = set (map name (filter P xs))" using assms(2) by auto
  moreover have "distinct (map name (filter P xs))" using assms(1) by (rule distinct_map_filter)
  ultimately show ?thesis using distinct_card by (metis length_map)
qed

lemma fleet_pass_local:
  assumes un: "\<forall>u. unhooked (f u)" and few: "int (card {k. live_clusters (f host) k \<noteq> None}) < 2 ^ 63"
    and named: "\<forall>k. live_clusters (f host) k \<noteq> None \<longrightarrow> plain k"
    and apart: "\<forall>k k' cl cl'. live_clusters (f host) k = Some cl \<longrightarrow> live_clusters (f host) k' = Some cl' \<longrightarrow> k \<noteq> k' \<longrightarrow>
      clspec_server (cl_spec cl) \<noteq> clspec_server (cl_spec cl')"
    and fds: "\<forall>k fd. live_fds (f host) k = Some fd \<longrightarrow> pushable fd"
  shows "\<exists>f'. fed_reconcile (New (at_url (local_transport loop identity now net rnd) host))
      (members_of (local_transport loop identity now net rnd) up) status_line f = (Inr (), f') \<and> calm f f' \<and>
    (\<forall>n fd k cl. live_fds (f host) n = Some fd \<longrightarrow> live_clusters (f host) k = Some cl \<longrightarrow> targeted fd k \<longrightarrow>
       up (clspec_server (cl_spec cl)) \<longrightarrow> (\<exists>q. live_deps (f' (clspec_server (cl_spec cl))) n = Some q \<and> pushed fd cl q)) \<and>
    (\<forall>u n. (\<forall>fd k cl. live_fds (f host) n = Some fd \<longrightarrow> live_clusters (f host) k = Some cl \<longrightarrow> targeted fd k \<longrightarrow>
       up u \<longrightarrow> clspec_server (cl_spec cl) \<noteq> u) \<longrightarrow> live_deps (f' u) n = live_deps (f u) n) \<and>
    (\<forall>n fd. live_fds (f host) n = Some fd \<longrightarrow> (\<exists>s. live_fds (f' host) n = Some (fd\<lparr>fd_status := s\<rparr>) \<and>
       fdstatus_clusterCount s = int (card {k. live_clusters (f host) k \<noteq> None \<and> targeted fd k}) \<and>
       fdstatus_readyCount s = int (card {k. \<exists>cl. live_clusters (f host) k = Some cl \<and> targeted fd k \<and> up (clspec_server (cl_spec cl))})))"
proof -
  let ?T = "local_transport loop identity now net rnd" and ?w = "f host"
  let ?c = "local_client loop identity now net rnd"
  have uh: "unhooked ?w" using un by simp
  obtain cls where cls: "client_ListClusters ?c ?w = (Inr cls, tick ?w)" "distinct (map (\<lambda>x. md_name (cl_metadata x)) cls)"
    "\<forall>x. x \<in> set cls \<longleftrightarrow> live_clusters ?w (md_name (cl_metadata x)) = Some x"
    using client_ListClusters_local [OF uh, of loop identity now net rnd] by (elim exE conjE) (rule that)
  have member: "live_clusters ?w k = Some cl \<longleftrightarrow> cl \<in> set cls \<and> md_name (cl_metadata cl) = k" for k cl
    using cls(3) live_clusters_name [OF uh] by metis
  note count = count_names [OF cls(2) member]
  define f1 where "f1 = f(host := tick ?w)"
  have i1: "idle f f1" unfolding f1_def using un by (rule idle_tick)
  have un1: "\<forall>u. unhooked (f1 u)" using i1 calm_unhooked by (auto simp: idle_def)
  have plain: "\<forall>cl \<in> set cls. plain (md_name (cl_metadata cl))" using cls(3) named by auto
  obtain f2 where f2: "probe_all (New (at_url ?T host)) (members_of ?T up) status_line cls f1 =
      (map (\<lambda>cl. set_ready cl (up (clspec_server (cl_spec cl)))) cls, f2)" "idle f1 f2"
    using probe_all_fleet [OF un1 plain, of loop identity now net rnd host up status_line] by (elim exE conjE) (rule that)
  let ?cls = "map (\<lambda>cl. set_ready cl (up (clspec_server (cl_spec cl)))) cls"
  have i2: "idle f f2" using i1 f2(2) by (rule idle_trans)
  have un2: "\<forall>u. unhooked (f2 u)" using i2 calm_unhooked by (auto simp: idle_def)
  have uh2: "unhooked (f2 host)" using un2 by simp
  obtain gs where gs: "client_ListFederatedDeployments ?c (f2 host) = (Inr gs, tick (f2 host))"
    "distinct (map (\<lambda>x. md_name (fd_metadata x)) gs)"
    "\<forall>x. x \<in> set gs \<longleftrightarrow> live_fds (f2 host) (md_name (fd_metadata x)) = Some x"
    using client_ListFederatedDeployments_local [OF uh2, of loop identity now net rnd] by (elim exE conjE) (rule that)
  define f3 where "f3 = f2(host := tick (f2 host))"
  have "idle f2 f3" unfolding f3_def using un2 by (rule idle_tick)
  with i2 have i3: "idle f f3" by (rule idle_trans)
  have un3: "\<forall>u. unhooked (f3 u)" using i3 calm_unhooked by (auto simp: idle_def)
  have same: "live_fds (f2 host) = live_fds ?w" "live_fds (f3 host) = live_fds ?w" "live_deps (f3 u) = live_deps (f u)" for u
    using i2 i3 by (auto simp: idle_def)
  have gmember: "live_fds ?w n = Some g \<longleftrightarrow> g \<in> set gs \<and> md_name (fd_metadata g) = n" for n g
    using gs(3) live_fds_name [OF uh] unfolding same by metis
  define f' where "f' = fold (reconcile_fd (New (at_url ?T host)) (members_of ?T up) ?cls) gs f3"
  have run: "fed_reconcile (New (at_url ?T host)) (members_of ?T up) status_line f = (Inr (), f')"
  proof -
    have "client_ListClusters (New (at_url ?T host)) f = (Inr cls, f1)"
      using cls(1) by (simp add: client_ListClusters_def do_out_at_url local_client_New f1_def)
    moreover have "client_ListFederatedDeployments (New (at_url ?T host)) f2 = (Inr gs, f3)"
      using gs(1) by (simp add: client_ListFederatedDeployments_def do_out_at_url local_client_New f3_def)
    ultimately show ?thesis using f2(1) by (simp add: fed_reconcile_def f'_def)
  qed
  have "inj_on (\<lambda>cl. clspec_server (cl_spec cl)) (set cls)"
  proof (rule inj_onI)
    fix x y
    assume "x \<in> set cls" "y \<in> set cls" and eq: "clspec_server (cl_spec x) = clspec_server (cl_spec y)"
    then have "live_clusters ?w (md_name (cl_metadata x)) = Some x" "live_clusters ?w (md_name (cl_metadata y)) = Some y"
      using member by blast+
    with apart eq show "x = y" by (metis option.inject)
  qed
  then have dist: "distinct (map (\<lambda>cl. clspec_server (cl_spec cl)) ?cls)"
    using cls(2) by (simp add: distinct_map o_def)
  have ready: "\<forall>cl \<in> set ?cls. clstatus_ready (cl_status cl) \<longleftrightarrow> up (clspec_server (cl_spec cl))" by auto
  have "length cls = card {k. live_clusters ?w k \<noteq> None}" using count [of "\<lambda>_. True"] by simp
  with few have small: "int (length ?cls) < 2 ^ 63" by simp
  have good: "\<forall>g \<in> set gs. pushable g \<and> live_fds (f3 host) (md_name (fd_metadata g)) = Some g"
    using gs(3) fds unfolding same by blast
  note all = fds_fold_fleet [OF un3 dist ready small gs(2) good f'_def [symmetric]]
  have select: "selectClusters g ?cls = map (\<lambda>cl. set_ready cl (up (clspec_server (cl_spec cl))))
      (filter (\<lambda>cl. targeted g (md_name (cl_metadata cl))) cls)" for g
    by (simp add: selectClusters_filter targeted_def filter_map o_def)
  have calm: "calm f f'" using all i3 by (auto simp: idle_def intro: calm_trans)
  have push: "\<exists>q. live_deps (f' (clspec_server (cl_spec cl))) n = Some q \<and> pushed fd cl q"
    if "live_fds ?w n = Some fd" "live_clusters ?w k = Some cl" "targeted fd k" "up (clspec_server (cl_spec cl))" for n fd k cl
  proof -
    have fd: "fd \<in> set gs" "md_name (fd_metadata fd) = n" using that(1) gmember by blast+
    have "set_ready cl (up (clspec_server (cl_spec cl))) \<in> set (selectClusters fd ?cls)"
      using that(2,3) member by (auto simp: select)
    with conjunct1 [OF conjunct2 [OF all]] fd that(4) show ?thesis by fastforce
  qed
  have frame: "live_deps (f' u) n = live_deps (f u) n"
    if free: "\<forall>fd k cl. live_fds ?w n = Some fd \<longrightarrow> live_clusters ?w k = Some cl \<longrightarrow> targeted fd k \<longrightarrow> up u \<longrightarrow>
      clspec_server (cl_spec cl) \<noteq> u" for u n
  proof -
    have "live_deps (f' u) n = live_deps (f3 u) n"
    proof (rule conjunct1 [OF conjunct2 [OF conjunct2 [OF all]], rule_format], rule disjCI)
      fix g
      assume "g \<in> set gs" "\<not> n \<noteq> md_name (fd_metadata g)"
      then have "live_fds ?w n = Some g" using gmember by blast
      with free member show "u \<notin> reached up (selectClusters g ?cls)" by (auto simp: reached_def select)
    qed
    then show ?thesis by (simp add: same)
  qed
  have status: "\<exists>s. live_fds (f' host) n = Some (fd\<lparr>fd_status := s\<rparr>) \<and>
      fdstatus_clusterCount s = int (card {k. live_clusters ?w k \<noteq> None \<and> targeted fd k}) \<and>
      fdstatus_readyCount s = int (card {k. \<exists>cl. live_clusters ?w k = Some cl \<and> targeted fd k \<and> up (clspec_server (cl_spec cl))})"
    if "live_fds ?w n = Some fd" for n fd
  proof -
    have fd: "fd \<in> set gs" "md_name (fd_metadata fd) = n" using that gmember by blast+
    obtain s where s: "live_fds (f' host) n = Some (fd\<lparr>fd_status := s\<rparr>)" "counted up (selectClusters fd ?cls) s"
      using all fd by blast
    have sets: "{k. \<exists>cl. live_clusters ?w k = Some cl \<and> targeted fd (md_name (cl_metadata cl))} = {k. live_clusters ?w k \<noteq> None \<and> targeted fd k}"
      "{k. \<exists>cl. live_clusters ?w k = Some cl \<and> targeted fd (md_name (cl_metadata cl)) \<and> up (clspec_server (cl_spec cl))} =
       {k. \<exists>cl. live_clusters ?w k = Some cl \<and> targeted fd k \<and> up (clspec_server (cl_spec cl))}"
      using member by auto
    have "length (selectClusters fd ?cls) = card {k. live_clusters ?w k \<noteq> None \<and> targeted fd k}"
      by (simp only: select length_map count sets)
    moreover have "length (filter (\<lambda>cl. up (clspec_server (cl_spec cl))) (selectClusters fd ?cls)) =
        card {k. \<exists>cl. live_clusters ?w k = Some cl \<and> targeted fd k \<and> up (clspec_server (cl_spec cl))}"
      by (simp only: select filter_map o_def set_ready_simps length_map filter_filter count sets)
    ultimately show ?thesis using s by (intro exI [of _ s]) (simp add: counted_def)
  qed
  from run calm push frame status show ?thesis by (intro exI [of _ f']) blast
qed

end
