(* ===== verification/Post_Race.thy ===== *)
theory Post_Race
  imports Cluster_IP
begin

text \<open>
  Concurrent POSTs of services (\<open>handleServices\<close> and \<open>clusterIPAlloc.alloc\<close>, cmd/apiserver/main.go). The
  handlers of one server run in parallel, and several replicas of the server share one database, each with
  an allocator of its own; the handler is cut at its accesses to shared state: look for the service, list
  the addresses in use, allocate (under the allocator's mutex), store.
\<close>

datatype post =
    Reading Service
  | Listing Service
  | Allocating Service "string list"
  | Storing Service
  | Stored Service
  | Exhausted Service
  | Failed Service

definition with_ip :: "string \<Rightarrow> Service \<Rightarrow> Service" where
  "with_ip ip x = x\<lparr>svc_spec := (svc_spec x)\<lparr>svcspec_clusterIP := ip\<rparr>\<rparr>"

lemma with_ip_simps [simp]:
  "svc_metadata (with_ip ip x) = svc_metadata x" "svcspec_clusterIP (svc_spec (with_ip ip x)) = ip"
  "svcspec_clusterIP (svc_spec x) = ip \<Longrightarrow> with_ip ip x = x" "wf_Service (with_ip ip x) = wf_Service x"
  by (simp_all add: with_ip_def wf_Service_def wf_ServiceSpec_def)

text \<open>One access of the handler, to the database and to the counter of its replica's allocator.\<close>

fun post_step :: "driver \<Rightarrow> time \<Rightarrow> bool \<Rightarrow> post \<Rightarrow> store \<Rightarrow> 8 word \<Rightarrow> post \<times> store \<times> 8 word" where
  "post_step drv now loop (Reading x) st next =
    (case GetService (at_site ''existing '' drv) st (md_name (svc_metadata x)) of
       Inr existing \<Rightarrow> (Storing (with_ip (svcspec_clusterIP (svc_spec existing)) x), st, next)
     | Inl _ \<Rightarrow> (if svcspec_clusterIP (svc_spec x) = [] then Listing x else Storing x, st, next))"
| "post_step drv now loop (Listing x) st next =
    (Allocating x (case ListClusterIPs drv st of Inr t \<Rightarrow> t | Inl _ \<Rightarrow> []), st, next)"
| "post_step drv now loop (Allocating x taken) st next =
    (let (ip, next) = alloc loop taken next in
     (if ip = [] then Exhausted x else Storing (with_ip ip x), st, next))"
| "post_step drv now loop (Storing x) st next =
    (case UpsertService drv now x st of Inl _ \<Rightarrow> (Failed x, st, next) | Inr st \<Rightarrow> (Stored x, st, next))"
| "post_step drv now loop p st next = (p, st, next)"

section \<open>Uninterrupted, the accesses are the handler\<close>

definition post_alone :: "driver \<Rightarrow> time \<Rightarrow> bool \<Rightarrow> Service \<Rightarrow> store \<Rightarrow> 8 word \<Rightarrow> post \<times> store \<times> 8 word" where
  "post_alone drv now loop x st next =
    ((\<lambda>(p, st, next). post_step drv now loop p st next) ^^ 4) (Reading x, st, next)"

lemma post_alone_unfold: "post_alone drv now loop x st next =
    (\<lambda>(p, st, next). post_step drv now loop p st next) ((\<lambda>(p, st, next). post_step drv now loop p st next)
      ((\<lambda>(p, st, next). post_step drv now loop p st next) (post_step drv now loop (Reading x) st next)))"
  by (simp add: post_alone_def numeral_eq_Suc)

text \<open>The service the handler works on, once the request is validated.\<close>

definition defaulted :: "Service \<Rightarrow> Service" where
  "defaulted svc =
    (let svc = (if svcspec_type (svc_spec svc) = []
                then svc\<lparr>svc_spec := (svc_spec svc)\<lparr>svcspec_type := ServiceTypeClusterIP\<rparr>\<rparr> else svc) in
     svc\<lparr>svc_apiVersion := ''v1'', svc_kind := ''Service''\<rparr>)"

lemma handleServices_steps:
  assumes "req_method req = ''POST''" "Decode dec_Service zero_Service (req_body req) = Some svc"
    and "md_name (svc_metadata svc) \<noteq> []" "svcspec_ports (svc_spec svc) \<noteq> []"
    and "handleServices cfg ev req sv = (r, sv')"
    and "post_alone (env_drv ev) (env_now ev) (cfg_loop cfg) (defaulted svc) (srv_st sv) (srv_next sv) = (p, st', next')"
  shows "srv_st sv' = st' \<and> srv_next sv' = next' \<and> (resp_code r = 201 \<longleftrightarrow> (\<exists>x. p = Stored x))"
  using assms
  by (auto simp: handleServices_def with_body_def choose_clusterIP_def post_alone_unfold Let_def store_then_def
      writeJSON_def http_error_def with_ip_def defaulted_def split: sum.splits if_splits prod.splits)

section \<open>The cycle of the allocator\<close>

lemma visits_append: "visits (m + n) b = visits m b @ visits n ((bump ^^ m) b)"
  by (induction m arbitrary: b) (simp_all add: funpow_swap1)

text \<open>The loop skips addresses in use, and stops at the first that is not.\<close>

lemma alloc_loop_run:
  "\<exists>d. snd (alloc_loop n taken b) = (bump ^^ d) b \<and>
    (fst (alloc_loop n taken b) = [] \<and> pool_ip ` set (visits d b) \<subseteq> set taken \<or>
     (\<exists>e. d = Suc e \<and> pool_ip ` set (visits e b) \<subseteq> set taken \<and> fst (alloc_loop n taken b) = pool_ip ((bump ^^ d) b) \<and>
       fst (alloc_loop n taken b) \<notin> set taken))"
proof (induction n arbitrary: b)
  case 0
  then show ?case by (intro exI [of _ 0]) simp
next
  case (Suc n)
  show ?case
  proof (cases "pool_ip (bump b) \<in> set taken")
    case False
    then show ?thesis by (intro exI [of _ "Suc 0"]) (auto simp: Let_def list_ex_iff)
  next
    case True
    obtain d where d: "snd (alloc_loop n taken (bump b)) = (bump ^^ d) (bump b)"
      "fst (alloc_loop n taken (bump b)) = [] \<and> pool_ip ` set (visits d (bump b)) \<subseteq> set taken \<or>
       (\<exists>e. d = Suc e \<and> pool_ip ` set (visits e (bump b)) \<subseteq> set taken \<and>
         fst (alloc_loop n taken (bump b)) = pool_ip ((bump ^^ d) (bump b)) \<and> fst (alloc_loop n taken (bump b)) \<notin> set taken)"
      using Suc.IH by blast
    have eq: "alloc_loop (Suc n) taken b = alloc_loop n taken (bump b)" using True by (auto simp: Let_def list_ex_iff)
    with d(1) have snd: "snd (alloc_loop (Suc n) taken b) = (bump ^^ Suc d) b" by (simp add: funpow_swap1)
    from d(2) show ?thesis
    proof (elim disjE exE conjE)
      assume "fst (alloc_loop n taken (bump b)) = []" "pool_ip ` set (visits d (bump b)) \<subseteq> set taken"
      then show ?thesis using eq snd True by (intro exI [of _ "Suc d"]) simp
    next
      fix e
      assume e: "d = Suc e" "pool_ip ` set (visits e (bump b)) \<subseteq> set taken"
        "fst (alloc_loop n taken (bump b)) = pool_ip ((bump ^^ d) (bump b))" "fst (alloc_loop n taken (bump b)) \<notin> set taken"
      then have "pool_ip ` set (visits d b) \<subseteq> set taken" using True by simp
      moreover have "fst (alloc_loop (Suc n) taken b) = pool_ip ((bump ^^ Suc d) b)" using e(3) eq by (simp add: funpow_swap1)
      ultimately show ?thesis using snd e(4) eq by (intro exI [of _ "Suc d"] conjI disjI2 exI [of _ d]) simp_all
    qed
  qed
qed

text \<open>What the addresses handed out since the start have to do with the counter: it went round less than
  once, over addresses in use at the start and addresses handed out.\<close>

definition went :: "8 word \<Rightarrow> string set \<Rightarrow> string set \<Rightarrow> 8 word \<Rightarrow> bool" where
  "went start used given now \<longleftrightarrow> (\<exists>k. now = (bump ^^ k) start \<and> pool_ip ` set (visits k start) \<subseteq> used \<union> given \<and>
     given \<subseteq> pool_ip ` set (visits k start))"

lemma visits_in_pool: "pool_ip ` set (visits k b) \<subseteq> Collect in_pool"
  using visits_pool unfolding in_pool_def by blast

lemma cycle_short:
  assumes "pool_ip ` set (visits k b) \<subseteq> A" "finite A" "card {ip \<in> A. in_pool ip} < 254"
  shows "k < 254"
proof (rule ccontr)
  assume "\<not> k < 254"
  define N :: nat where "N = 254"
  with \<open>\<not> k < 254\<close> obtain j where j: "k = N + j" by (auto simp: not_less le_iff_add)
  have "set (visits N b) \<subseteq> set (visits k b)" unfolding j visits_append by simp
  with assms(1) visits_in_pool [of N b] have sub: "pool_ip ` set (visits N b) \<subseteq> {ip \<in> A. in_pool ip}" by blast
  have "card (pool_ip ` set (visits N b)) = card (set (visits N b))"
    by (rule card_image) (simp add: inj_on_def pool_ip_inj)
  moreover have "card (set (visits N b)) = N" by (simp add: distinct_card distinct_visits N_def)
  moreover have "card (pool_ip ` set (visits N b)) \<le> card {ip \<in> A. in_pool ip}" using assms(2) sub by (intro card_mono) simp_all
  ultimately show False using assms(3) by (simp add: N_def)
qed

lemma alloc_went:
  assumes went: "went start used given now" and taken: "set taken \<subseteq> used \<union> given" "finite used" "finite given"
    and room: "card {ip \<in> used \<union> given. in_pool ip} < 254" and run: "alloc True taken now = (ip, now')"
  shows "if ip = [] then went start used given now' else ip \<notin> given \<and> ip \<notin> set taken \<and> went start used (insert ip given) now'"
proof -
  obtain k where k: "now = (bump ^^ k) start" "pool_ip ` set (visits k start) \<subseteq> used \<union> given"
    "given \<subseteq> pool_ip ` set (visits k start)" using went by (auto simp: went_def)
  have run': "alloc_loop 250 taken now = (ip, now')" using run by (simp add: alloc_def)
  from alloc_loop_run [of 250 taken now] obtain d where d: "now' = (bump ^^ d) now"
    "ip = [] \<and> pool_ip ` set (visits d now) \<subseteq> set taken \<or>
     (\<exists>e. d = Suc e \<and> pool_ip ` set (visits e now) \<subseteq> set taken \<and> ip = pool_ip ((bump ^^ d) now) \<and> ip \<notin> set taken)"
    unfolding run' by auto
  have now': "now' = (bump ^^ (k + d)) start" using d(1) k(1) by (metis add.commute comp_apply funpow_add)
  from d(2) show ?thesis
  proof (elim disjE exE conjE)
    assume "ip = []" "pool_ip ` set (visits d now) \<subseteq> set taken"
    with k taken(1) now' have "pool_ip ` set (visits (k + d) start) \<subseteq> used \<union> given" by (auto simp: visits_append)
    moreover have "given \<subseteq> pool_ip ` set (visits (k + d) start)" using k(3) by (auto simp: visits_append)
    ultimately show ?thesis using now' \<open>ip = []\<close> by (auto simp: went_def)
  next
    fix e
    assume e: "d = Suc e" "pool_ip ` set (visits e now) \<subseteq> set taken" "ip = pool_ip ((bump ^^ d) now)" "ip \<notin> set taken"
    have old: "pool_ip ` set (visits (k + e) start) \<subseteq> used \<union> given" using k e(2) taken(1) by (auto simp: visits_append)
    then have "k + e < 254" by (rule cycle_short) (use taken(2,3) room in simp_all)
    then have "distinct (visits (Suc (k + e)) start)" by (intro distinct_visits) simp
    moreover have all: "visits (Suc (k + e)) start = visits (k + e) start @ [(bump ^^ Suc (k + e)) start]"
      using visits_append [of "k + e" "Suc 0" start] by simp
    moreover have at: "ip = pool_ip ((bump ^^ Suc (k + e)) start)" using e(1,3) k(1)
      by (metis (no_types) add_Suc_right add.commute comp_apply funpow_add)
    ultimately have "ip \<notin> pool_ip ` set (visits (k + e) start)" unfolding all at by (simp add: image_iff pool_ip_inj)
    then have "ip \<notin> given" using k(3) by (auto simp: visits_append)
    moreover have "went start used (insert ip given) now'"
      unfolding went_def
    proof (intro exI conjI)
      show "now' = (bump ^^ Suc (k + e)) start" using now' e(1) by simp
      show "pool_ip ` set (visits (Suc (k + e)) start) \<subseteq> used \<union> insert ip given" using old at unfolding all by auto
      show "insert ip given \<subseteq> pool_ip ` set (visits (Suc (k + e)) start)"
        using k(3) at unfolding all by (auto simp: visits_append)
    qed
    ultimately show ?thesis using e(3,4) by simp
  qed
qed

section \<open>Interleavings\<close>

text \<open>The database, the counter of each replica's allocator, and the POSTs in flight with their replicas.\<close>

record race =
  rc_st :: store
  rc_next :: "nat \<Rightarrow> 8 word"
  rc_posts :: "(nat \<times> post) list"

inductive race_step :: "bool \<Rightarrow> race \<Rightarrow> race \<Rightarrow> bool" for loop where
  access: "i < length (rc_posts s) \<Longrightarrow> rc_posts s ! i = (r, p) \<Longrightarrow>
    post_step no_faults now loop p (rc_st s) (rc_next s r) = (p', st', next') \<Longrightarrow>
    race_step loop s \<lparr>rc_st = st', rc_next = (rc_next s)(r := next'), rc_posts = (rc_posts s)[i := (r, p')]\<rparr>"

inductive_cases race_stepE: "race_step loop s s'"

definition starting :: "store \<Rightarrow> (nat \<Rightarrow> 8 word) \<Rightarrow> (nat \<times> Service) list \<Rightarrow> race" where
  "starting st next posts = \<lparr>rc_st = st, rc_next = next, rc_posts = map (\<lambda>(r, x). (r, Reading x)) posts\<rparr>"

fun svc_of :: "post \<Rightarrow> Service" where
  "svc_of (Reading x) = x" | "svc_of (Listing x) = x" | "svc_of (Allocating x taken) = x" | "svc_of (Storing x) = x"
| "svc_of (Stored x) = x" | "svc_of (Exhausted x) = x" | "svc_of (Failed x) = x"

text \<open>The address a POST holds.\<close>

fun given :: "post \<Rightarrow> string option" where
  "given (Storing x) = Some (svcspec_clusterIP (svc_spec x))"
| "given (Stored x) = Some (svcspec_clusterIP (svc_spec x))"
| "given p = None"

fun is_stored :: "post \<Rightarrow> bool" where
  "is_stored (Stored x) = True" | "is_stored p = False"

definition given_set :: "(nat \<times> post) list \<Rightarrow> string set" where
  "given_set P = {a. \<exists>i < length P. given (snd (P ! i)) = Some a}"

definition ips_of :: "store \<Rightarrow> string set" where
  "ips_of st = {ip \<in> srow_cluster_ip ` set (t_services st). ip \<noteq> []}"

lemma ListClusterIPs_ips: "\<exists>T. ListClusterIPs no_faults st = Inr T \<and> set T = ips_of st"
  by (auto simp: ListClusterIPs_def query_rows_def no_faults_simp ips_of_def)

lemma UpsertService_ips:
  "GetService no_faults st (md_name (svc_metadata x)) = Inl ErrNotFound \<Longrightarrow> UpsertService no_faults now x st = Inr st' \<Longrightarrow>
   svcspec_clusterIP (svc_spec x) \<noteq> [] \<Longrightarrow> ips_of st' = insert (svcspec_clusterIP (svc_spec x)) (ips_of st)"
  by (auto simp: UpsertService_def ips_of_def Let_def sql_results split: if_splits)

lemma given_set_update:
  assumes "i < length P" "given (snd (P ! i)) = None \<or> given (snd (P ! i)) = given p'"
  shows "given_set (P[i := (r, p')]) = given_set P \<union> set_option (given p')"
proof
  show "given_set (P[i := (r, p')]) \<subseteq> given_set P \<union> set_option (given p')"
    using assms(1) by (auto simp: given_set_def nth_list_update split: if_splits)
  show "given_set P \<union> set_option (given p') \<subseteq> given_set (P[i := (r, p')])"
  proof
    fix a
    assume a: "a \<in> given_set P \<union> set_option (given p')"
    show "a \<in> given_set (P[i := (r, p')])"
    proof (cases "given p' = Some a")
      case True
      then show ?thesis using assms(1) by (auto simp: given_set_def intro!: exI [of _ i])
    next
      case False
      with a obtain j where j: "j < length P" "given (snd (P ! j)) = Some a" by (auto simp: given_set_def)
      with assms(2) False have "j \<noteq> i" by auto
      with j show ?thesis by (auto simp: given_set_def intro!: exI [of _ j])
    qed
  qed
qed

lemma given_set_finite: "finite (given_set P)"
proof -
  have "given_set P \<subseteq> (\<lambda>i. the (given (snd (P ! i)))) ` {..<length P}" by (force simp: given_set_def)
  then show ?thesis by (rule finite_subset) simp
qed

lemma given_set_card:
  assumes "i < length P" "given (snd (P ! i)) = None"
  shows "card (given_set P) < length P"
proof -
  have "given_set P \<subseteq> (\<lambda>i. the (given (snd (P ! i)))) ` ({..<length P} - {i})"
  proof
    fix a
    assume "a \<in> given_set P"
    then obtain j where j: "j < length P" "given (snd (P ! j)) = Some a" by (auto simp: given_set_def)
    then have "j \<noteq> i" using assms(2) by auto
    with j show "a \<in> (\<lambda>i. the (given (snd (P ! i)))) ` ({..<length P} - {i})" by force
  qed
  then have "card (given_set P) \<le> card ({..<length P} - {i})" by (meson surj_card_le finite_Diff finite_lessThan)
  also have "\<dots> < length P" using assms(1) by simp
  finally show ?thesis .
qed

section \<open>One server\<close>

text \<open>
  What holds while POSTs \<open>xs\<close> of new services without an address run on one server \<open>r\<close>: each is the
  post of its service; who holds an address holds it alone, and it was not in use at the start; and the
  addresses in use are those of the start and addresses held.
\<close>

definition post_ok :: "store \<Rightarrow> string set \<Rightarrow> string set \<Rightarrow> Service \<Rightarrow> post \<Rightarrow> bool" where
  "post_ok st used held x p \<longleftrightarrow> wf_Service (svc_of p) \<and> svc_metadata (svc_of p) = svc_metadata x \<and>
     (given p = None \<longrightarrow> svcspec_clusterIP (svc_spec (svc_of p)) = []) \<and> given p \<noteq> Some [] \<and>
     (case p of Allocating _ taken \<Rightarrow> used \<subseteq> set taken \<and> set taken \<subseteq> used \<union> held | Failed _ \<Rightarrow> False | _ \<Rightarrow> True) \<and>
     (if is_stored p then \<exists>s. GetService no_faults st (md_name (svc_metadata x)) = Inr s \<and> given p = Some (svcspec_clusterIP (svc_spec s))
      else GetService no_faults st (md_name (svc_metadata x)) = Inl ErrNotFound)"

definition race_ok :: "nat \<Rightarrow> 8 word \<Rightarrow> string set \<Rightarrow> Service list \<Rightarrow> race \<Rightarrow> bool" where
  "race_ok r start used xs s \<longleftrightarrow> svc_table_ok (rc_st s) \<and> length (rc_posts s) = length xs \<and>
     (\<forall>i < length xs. fst (rc_posts s ! i) = r \<and> post_ok (rc_st s) used (given_set (rc_posts s)) (xs ! i) (snd (rc_posts s ! i))) \<and>
     (\<forall>i < length xs. \<forall>j < length xs. i \<noteq> j \<longrightarrow> given (snd (rc_posts s ! i)) \<noteq> None \<longrightarrow>
        given (snd (rc_posts s ! i)) \<noteq> given (snd (rc_posts s ! j))) \<and>
     used \<subseteq> ips_of (rc_st s) \<and> ips_of (rc_st s) \<subseteq> used \<union> given_set (rc_posts s) \<and> given_set (rc_posts s) \<inter> used = {} \<and>
     went start used (given_set (rc_posts s)) (rc_next s r)"

lemma post_ok_mono: "post_ok st used held x p \<Longrightarrow> held \<subseteq> held' \<Longrightarrow> post_ok st used held' x p"
  by (auto simp: post_ok_def split: post.splits)

lemma post_ok_get: "post_ok st used held x p \<Longrightarrow> GetService no_faults st' (md_name (svc_metadata x)) =
    GetService no_faults st (md_name (svc_metadata x)) \<Longrightarrow> post_ok st' used held x p"
  by (auto simp: post_ok_def split: post.splits)

text \<open>An access of post \<open>i\<close> that keeps the others: what is to be shown of it.\<close>

lemma race_ok_update:
  assumes ok: "race_ok r start used xs s" and i: "i < length xs" and r: "rc_posts s ! i = (r, p)"
    and keeps: "given p = None \<or> given p = given p'"
    and held: "H = given_set (rc_posts s) \<union> set_option (given p')"
    and new: "\<forall>a. given p = None \<longrightarrow> given p' = Some a \<longrightarrow> a \<notin> given_set (rc_posts s) \<and> a \<notin> used"
    and post: "post_ok st' used H (xs ! i) p'" and tab: "svc_table_ok st'"
    and others: "\<And>j. j < length xs \<Longrightarrow> j \<noteq> i \<Longrightarrow> GetService no_faults st' (md_name (svc_metadata (xs ! j))) =
        GetService no_faults (rc_st s) (md_name (svc_metadata (xs ! j)))"
    and ips: "ips_of (rc_st s) \<subseteq> ips_of st'" "ips_of st' \<subseteq> used \<union> H" and went: "went start used H n"
  shows "race_ok r start used xs \<lparr>rc_st = st', rc_next = (rc_next s)(r := n), rc_posts = (rc_posts s)[i := (r, p')]\<rparr>"
proof -
  let ?P = "rc_posts s"
  have len: "length ?P = length xs" using ok by (simp add: race_ok_def)
  have H: "given_set (?P[i := (r, p')]) = H"
    using given_set_update [of i ?P p' r] i len r keeps held by simp
  have others_ok: "post_ok st' used H (xs ! j) (snd (?P ! j)) \<and> fst (?P ! j) = r" if "j < length xs" "j \<noteq> i" for j
  proof -
    have "post_ok (rc_st s) used (given_set ?P) (xs ! j) (snd (?P ! j))" "fst (?P ! j) = r"
      using ok that(1) by (auto simp: race_ok_def)
    then show ?thesis using others [OF that] held by (metis post_ok_get post_ok_mono Un_upper1)
  qed
  have all: "\<forall>j < length xs. fst (?P[i := (r, p')] ! j) = r \<and> post_ok st' used H (xs ! j) (snd (?P[i := (r, p')] ! j))"
    using others_ok post i len by (simp add: nth_list_update)
  have alone: "given p' \<noteq> given (snd (?P ! j))" if "j < length xs" "j \<noteq> i" "given p' \<noteq> None" for j
  proof (cases "given p = None")
    case True
    from that(3) obtain b where b: "given p' = Some b" by blast
    show ?thesis
    proof
      assume "given p' = given (snd (?P ! j))"
      then have "b \<in> given_set ?P" using b that(1) len by (auto simp: given_set_def)
      with new True b show False by blast
    qed
  next
    case False
    with keeps have eq: "given p = given p'" by blast
    with that(3) r have "given (snd (?P ! i)) \<noteq> None" by simp
    with ok i that(1,2) have "given (snd (?P ! i)) \<noteq> given (snd (?P ! j))" unfolding race_ok_def by blast
    then show ?thesis using r eq by simp
  qed
  have distinct: "given (snd (?P[i := (r, p')] ! j)) \<noteq> given (snd (?P[i := (r, p')] ! k))"
    if "j < length xs" "k < length xs" "j \<noteq> k" "given (snd (?P[i := (r, p')] ! j)) \<noteq> None" for j k
  proof (cases "j = i \<or> k = i")
    case True
    with that alone [of j] alone [of k] i len show ?thesis by (cases "j = i"; cases "given p' = None") (auto simp: nth_list_update)
  next
    case False
    then have same: "?P[i := (r, p')] ! j = ?P ! j" "?P[i := (r, p')] ! k = ?P ! k" by simp_all
    with that ok show ?thesis unfolding race_ok_def by simp
  qed
  have "given_set ?P \<inter> used = {}" using ok unfolding race_ok_def by blast
  moreover have "a \<notin> used" if "given p' = Some a" for a
  proof (cases "given p = None")
    case True
    with new that show ?thesis by blast
  next
    case False
    with keeps that have "given (snd (?P ! i)) = Some a" using r by simp
    then have "a \<in> given_set ?P" using i len by (auto simp: given_set_def)
    with ok show ?thesis unfolding race_ok_def by blast
  qed
  ultimately have "H \<inter> used = {}" using held by auto
  then show ?thesis
    using ok len all distinct tab ips went unfolding race_ok_def by (simp add: H) blast
qed

lemma race_ok_post:
  assumes "race_ok r start used xs s" "i < length xs" "rc_posts s ! i = (r', p)"
  shows "r' = r" "post_ok (rc_st s) used (given_set (rc_posts s)) (xs ! i) p"
proof -
  have "fst (rc_posts s ! i) = r \<and> post_ok (rc_st s) used (given_set (rc_posts s)) (xs ! i) (snd (rc_posts s ! i))"
    using assms(1,2) by (simp add: race_ok_def)
  then show "r' = r" "post_ok (rc_st s) used (given_set (rc_posts s)) (xs ! i) p" by (simp_all add: assms(3))
qed

lemma race_ok_quiet:
  assumes ok: "race_ok r start used xs s" and i: "i < length xs" "rc_posts s ! i = (r, p)" and given: "given p = given p'"
    and post: "post_ok (rc_st s) used (given_set (rc_posts s)) (xs ! i) p'"
  shows "race_ok r start used xs \<lparr>rc_st = rc_st s, rc_next = (rc_next s)(r := rc_next s r), rc_posts = (rc_posts s)[i := (r, p')]\<rparr>"
proof -
  have "length (rc_posts s) = length xs" using ok by (simp add: race_ok_def)
  then have "given_set (rc_posts s) = given_set (rc_posts s) \<union> set_option (given p')"
    using i given by (cases "given p'") (auto simp: given_set_def)
  then show ?thesis
    using ok post given by (intro race_ok_update [OF ok i, where H = "given_set (rc_posts s)"]) (simp_all add: race_ok_def)
qed

lemma race_ok_allocating:
  assumes ok: "race_ok r start used xs s" and i: "i < length xs" "rc_posts s ! i = (r, Allocating x taken)"
    and room: "card {ip \<in> used. in_pool ip} + length xs \<le> 254" "finite used" and run: "alloc True taken (rc_next s r) = (ip, n)"
  shows "race_ok r start used xs \<lparr>rc_st = rc_st s, rc_next = (rc_next s)(r := n),
    rc_posts = (rc_posts s)[i := (r, if ip = [] then Exhausted x else Storing (with_ip ip x))]\<rparr>"
proof -
  let ?P = "rc_posts s"
  have len: "length ?P = length xs" and went: "went start used (given_set ?P) (rc_next s r)"
    using ok by (simp_all add: race_ok_def)
  note post = race_ok_post(2) [OF ok i]
  have taken: "used \<subseteq> set taken" "set taken \<subseteq> used \<union> given_set ?P" using post by (simp_all add: post_ok_def)
  have "card {a \<in> used \<union> given_set ?P. in_pool a} \<le> card ({a \<in> used. in_pool a} \<union> given_set ?P)"
    using room(2) given_set_finite by (intro card_mono) auto
  also have "\<dots> \<le> card {a \<in> used. in_pool a} + card (given_set ?P)" by (rule card_Un_le)
  also have "\<dots> < 254" using room(1) given_set_card [of i ?P] i len by simp
  finally have "card {a \<in> used \<union> given_set ?P. in_pool a} < 254" .
  note alloc = alloc_went [OF went taken(2) room(2) given_set_finite this run]
  show ?thesis
  proof (cases "ip = []")
    case True
    then show ?thesis using ok post alloc i
      by (intro race_ok_update [OF ok i, where H = "given_set ?P"]) (simp_all add: race_ok_def post_ok_def)
  next
    case False
    then show ?thesis using ok post alloc i taken
      by (intro race_ok_update [OF ok i, where H = "insert ip (given_set ?P)"]) (auto simp: race_ok_def post_ok_def)
  qed
qed

lemma race_ok_storing:
  assumes ok: "race_ok r start used xs s" and i: "i < length xs" "rc_posts s ! i = (r, Storing x)"
    and names: "distinct (map (\<lambda>x. md_name (svc_metadata x)) xs)" and run: "UpsertService no_faults now x (rc_st s) = Inr st'"
  shows "race_ok r start used xs \<lparr>rc_st = st', rc_next = (rc_next s)(r := rc_next s r), rc_posts = (rc_posts s)[i := (r, Stored x)]\<rparr>"
proof -
  let ?P = "rc_posts s"
  have len: "length ?P = length xs" and tab: "svc_table_ok (rc_st s)" using ok by (simp_all add: race_ok_def)
  note post = race_ok_post(2) [OF ok i]
  have wf: "wf_Service x" and name: "svc_metadata x = svc_metadata (xs ! i)" and ip: "svcspec_clusterIP (svc_spec x) \<noteq> []"
    and new: "GetService no_faults (rc_st s) (md_name (svc_metadata x)) = Inl ErrNotFound"
    using post by (simp_all add: post_ok_def)
  note get = svc_store.put_get [OF tab wf run]
  have mem: "svcspec_clusterIP (svc_spec x) \<in> given_set ?P" using i len by (auto simp: given_set_def intro!: exI [of _ i])
  have ips: "ips_of st' = insert (svcspec_clusterIP (svc_spec x)) (ips_of (rc_st s))" by (rule UpsertService_ips [OF new run ip])
  show ?thesis
  proof (rule race_ok_update [OF ok i, where H = "given_set ?P"])
    show "post_ok st' used (given_set ?P) (xs ! i) (Stored x)"
      using post get [of "svc_key x"] new by (simp add: post_ok_def svc_key_def stored_svc_def name)
    show "svc_table_ok st'" by (rule svc_store.put_inv [OF tab wf run])
    show "GetService no_faults st' (md_name (svc_metadata (xs ! j))) = GetService no_faults (rc_st s) (md_name (svc_metadata (xs ! j)))"
      if "j < length xs" "j \<noteq> i" for j
      using that i names by (simp add: get svc_key_def name distinct_conv_nth)
  qed (use ok mem ips in \<open>auto simp: race_ok_def insert_absorb\<close>)
qed

lemma race_ok_step:
  assumes ok: "race_ok r start used xs s" and names: "distinct (map (\<lambda>x. md_name (svc_metadata x)) xs)"
    and room: "card {ip \<in> used. in_pool ip} + length xs \<le> 254" "finite used" and step: "race_step True s s'"
  shows "race_ok r start used xs s'"
  using step
proof (rule race_stepE)
  fix i r' p now p' st' next'
  assume s': "s' = \<lparr>rc_st = st', rc_next = (rc_next s)(r' := next'), rc_posts = (rc_posts s)[i := (r', p')]\<rparr>"
    and i: "i < length (rc_posts s)" "rc_posts s ! i = (r', p)"
    and run: "post_step no_faults now True p (rc_st s) (rc_next s r') = (p', st', next')"
  have il: "i < length xs" using ok i by (simp add: race_ok_def)
  note r' = race_ok_post(1) [OF ok il i(2)] and post = race_ok_post(2) [OF ok il i(2)]
  have at: "rc_posts s ! i = (r, p)" using i r' by simp
  have bounds: "used \<subseteq> ips_of (rc_st s)" "ips_of (rc_st s) \<subseteq> used \<union> given_set (rc_posts s)" using ok by (simp_all add: race_ok_def)
  show ?thesis
  proof (cases p)
    case (Allocating x taken)
    obtain ip n where "alloc True taken (rc_next s r) = (ip, n)" by (metis surj_pair)
    with race_ok_allocating [OF ok il _ room this] at Allocating run show ?thesis by (auto simp: s' r')
  next
    case (Storing x)
    obtain st1 where "UpsertService no_faults now x (rc_st s) = Inr st1" using svc_put_ok unfolding is_ok_iff by blast
    with race_ok_storing [OF ok il _ names this] at Storing run show ?thesis by (auto simp: s' r')
  next
    case (Reading x)
    have "p' = Listing x" "st' = rc_st s" "next' = rc_next s r" using run post by (auto simp: Reading post_ok_def r')
    with race_ok_quiet [OF ok il at, of "Listing x"] post show ?thesis by (simp add: s' r' Reading post_ok_def)
  next
    case (Listing x)
    obtain T where T: "ListClusterIPs no_faults (rc_st s) = Inr T" "set T = ips_of (rc_st s)" using ListClusterIPs_ips by blast
    then have "p' = Allocating x T" "st' = rc_st s" "next' = rc_next s r" using run by (auto simp: Listing r')
    with race_ok_quiet [OF ok il at, of "Allocating x T"] post T(2) bounds show ?thesis by (simp add: s' r' Listing post_ok_def)
  qed (use run race_ok_quiet [OF ok il at refl post] in \<open>auto simp: s' r'\<close>)
qed

text \<open>On one server no two POSTs of new services get the same address, however they interleave.\<close>

lemma starting_ok:
  assumes "svc_table_ok st" "list_all wf_Service xs" "list_all (\<lambda>x. svcspec_clusterIP (svc_spec x) = []) xs"
    and "list_all (\<lambda>x. GetService no_faults st (md_name (svc_metadata x)) = Inl ErrNotFound) xs"
  shows "race_ok r (next r) (ips_of st) xs (starting st next (map (Pair r) xs))"
proof -
  have "given_set (rc_posts (starting st next (map (Pair r) xs))) = {}" by (auto simp: given_set_def starting_def)
  moreover have "went (next r) (ips_of st) {} (next r)" unfolding went_def by (intro exI [of _ 0]) simp
  ultimately show ?thesis using assms by (simp add: race_ok_def starting_def post_ok_def list_all_length)
qed

lemma concurrent_posts:
  assumes tab: "svc_table_ok st" and xs: "list_all wf_Service xs" "list_all (\<lambda>x. svcspec_clusterIP (svc_spec x) = []) xs"
    and names: "list_all (\<lambda>x. GetService no_faults st (md_name (svc_metadata x)) = Inl ErrNotFound) xs"
      "distinct (map (\<lambda>x. md_name (svc_metadata x)) xs)"
    and room: "card {ip \<in> ips_of st. in_pool ip} + length xs \<le> 254"
    and run: "(race_step True)\<^sup>*\<^sup>* (starting st next (map (Pair r) xs)) s"
  shows "race_ok r (next r) (ips_of st) xs s"
  using run
proof induction
  case base
  show ?case by (rule starting_ok [OF tab xs names(1)])
next
  case (step s s')
  have "finite (ips_of st)" by (simp add: ips_of_def)
  with race_ok_step [OF step.IH names(2) room _ step.hyps(2)] show ?case by blast
qed

lemma race_ok_stored:
  assumes ok: "race_ok r start used xs s" and i: "i < length xs" "rc_posts s ! i = (r1, p)"
  shows "p \<noteq> Failed y \<and> (p = Stored x \<longrightarrow> (\<exists>sx. GetService no_faults (rc_st s) (md_name (svc_metadata (xs ! i))) = Inr sx \<and>
      svcspec_clusterIP (svc_spec sx) = svcspec_clusterIP (svc_spec x) \<and> svcspec_clusterIP (svc_spec x) \<notin> insert [] used))"
proof -
  have post: "post_ok (rc_st s) used (given_set (rc_posts s)) (xs ! i) p" by (rule race_ok_post(2) [OF ok i])
  have "svcspec_clusterIP (svc_spec x) \<in> given_set (rc_posts s)" if "p = Stored x"
    using that i ok by (auto simp: given_set_def race_ok_def intro!: exI [of _ i])
  moreover have "given_set (rc_posts s) \<inter> used = {}" using ok by (simp add: race_ok_def)
  ultimately have "svcspec_clusterIP (svc_spec x) \<notin> used" if "p = Stored x" using that by blast
  then show ?thesis using post by (auto simp: post_ok_def)
qed

lemma alloc_loop_first: "0 < i \<Longrightarrow> alloc_loop i [] now = (pool_ip (bump now), bump now)"
  by (cases i) (simp_all add: Let_def)

section \<open>Two servers\<close>

text \<open>
  Each replica has an allocator of its own, and lists the addresses in use before it takes one: two
  replicas whose counters agree, as they do after their start, hand out the same address.
\<close>

definition pair_race :: "nat \<Rightarrow> nat \<Rightarrow> store \<Rightarrow> (nat \<Rightarrow> 8 word) \<Rightarrow> post \<Rightarrow> post \<Rightarrow> race" where
  "pair_race r q st next p p2 = \<lparr>rc_st = st, rc_next = next, rc_posts = [(r, p), (q, p2)]\<rparr>"

lemma pair_steps:
  "post_step no_faults now True p st (next r) = (p', st', n) \<Longrightarrow>
     (race_step True)\<^sup>*\<^sup>* (pair_race r q st next p p2) (pair_race r q st' (next(r := n)) p' p2)"
  "post_step no_faults now True p2 st (next q) = (p', st', n) \<Longrightarrow>
     (race_step True)\<^sup>*\<^sup>* (pair_race r q st next p p2) (pair_race r q st' (next(q := n)) p p')"
  using race_step.access [of 0 "pair_race r q st next p p2" r p now True p' st' n]
    race_step.access [of 1 "pair_race r q st next p p2" q p2 now True p' st' n]
  by (auto simp: pair_race_def)

text \<open>Two POSTs that both list the addresses in use before either allocates.\<close>

lemma pair_run:
  assumes tab: "svc_table_ok st" and x: "wf_Service x" "svcspec_clusterIP (svc_spec x) = []" "svc_key x = a"
    and y: "wf_Service y" "svcspec_clusterIP (svc_spec y) = []" "svc_key y = b" and names: "a \<noteq> b"
      "GetService no_faults st a = Inl ErrNotFound" "GetService no_faults st b = Inl ErrNotFound"
    and list: "ListClusterIPs no_faults st = Inr T" and ip: "alloc True T (next r) = (ip, n)" "ip \<noteq> []"
    and ip2: "alloc True T ((next(r := n)) q) = (ip2, n2)" "ip2 \<noteq> []"
  shows "\<exists>s sx sy. (race_step True)\<^sup>*\<^sup>* (starting st next [(r, x), (q, y)]) s \<and>
    rc_posts s = [(r, Stored (with_ip ip x)), (q, Stored (with_ip ip2 y))] \<and>
    GetService no_faults (rc_st s) a = Inr sx \<and> GetService no_faults (rc_st s) b = Inr sy \<and>
    svcspec_clusterIP (svc_spec sx) = ip \<and> svcspec_clusterIP (svc_spec sy) = ip2"
proof -
  let ?x = "with_ip ip x" and ?y = "with_ip ip2 y"
  obtain st1 where st1: "UpsertService no_faults 0 ?x st = Inr st1" "svc_table_ok st1"
    "\<And>k. GetService no_faults st1 k = (if k = a then Inr (stored_svc 0 (old_of (GetService no_faults st k)) ?x) else GetService no_faults st k)"
    using svc_store.put_total [OF tab, of ?x 0] x by (auto simp: svc_key_def)
  obtain st2 where st2: "UpsertService no_faults 0 ?y st1 = Inr st2"
    "\<And>k. GetService no_faults st2 k = (if k = b then Inr (stored_svc 0 (old_of (GetService no_faults st1 k)) ?y) else GetService no_faults st1 k)"
    using svc_store.put_total [OF st1(2), of ?y 0] y by (auto simp: svc_key_def)
  have key: "md_name (svc_metadata x) = a" "md_name (svc_metadata y) = b" using x(3) y(3) by (simp_all add: svc_key_def)
  let ?R = "(race_step True)\<^sup>*\<^sup>*" and ?race = "pair_race r q"
  define m where "m = next(r := n)"
  define m2 where "m2 = m(q := n2)"
  have "?R (?race st next (Reading x) (Reading y)) (?race st next (Listing x) (Reading y))"
    using pair_steps(1) [of 0 "Reading x" st "next" r "Listing x" st "next r"] x names key by simp
  also have "?R \<dots> (?race st next (Listing x) (Listing y))"
    using pair_steps(2) [of 0 "Reading y" st "next" q "Listing y" st "next q"] y names key by simp
  also have "?R \<dots> (?race st next (Allocating x T) (Listing y))"
    using pair_steps(1) [of 0 "Listing x" st "next" r "Allocating x T" st "next r"] list by simp
  also have "?R \<dots> (?race st next (Allocating x T) (Allocating y T))"
    using pair_steps(2) [of 0 "Listing y" st "next" q "Allocating y T" st "next q"] list by simp
  also have "?R \<dots> (?race st m (Storing ?x) (Allocating y T))"
    using pair_steps(1) [of 0 "Allocating x T" st "next" r "Storing ?x" st n] ip by (simp add: m_def)
  also have "?R \<dots> (?race st m2 (Storing ?x) (Storing ?y))"
    using pair_steps(2) [of 0 "Allocating y T" st m q "Storing ?y" st n2] ip2 by (simp add: m_def m2_def)
  also have "?R \<dots> (?race st1 m2 (Stored ?x) (Storing ?y))"
    using pair_steps(1) [of 0 "Storing ?x" st m2 r "Stored ?x" st1 "m2 r"] st1(1) by simp
  also have "?R \<dots> (?race st2 m2 (Stored ?x) (Stored ?y))"
    using pair_steps(2) [of 0 "Storing ?y" st1 m2 q "Stored ?y" st2 "m2 q"] st2(1) by simp
  finally have "?R (starting st next [(r, x), (q, y)]) (?race st2 m2 (Stored ?x) (Stored ?y))"
    by (simp add: starting_def pair_race_def)
  then show ?thesis using st1(3) st2(2) names
    by (intro exI [of _ "?race st2 m2 (Stored ?x) (Stored ?y)"]) (simp add: pair_race_def stored_svc_def)
qed

end
