(* ===== verification/Mkctl.thy ===== *)
theory Mkctl
  imports Federation
begin

text \<open>
  cmd/mkctl/main.go: the command line. A run takes the arguments and the environment and ends with
  what it printed or with the message it died of. Files, the clock, the YAML package and the order
  in which the runtime ranges over a map are parameters; \<open>T url\<close> is the transport to the server
  \<open>url\<close>. The rows of a table are what the program writes to the tabwriter, cell by cell.
\<close>

section \<open>Environment and outcome\<close>

record 'y mkctl_env =
  me_getenv :: "string \<Rightarrow> string"
  me_ReadFile :: "string \<Rightarrow> string + 'y"
  me_clock :: "nat \<Rightarrow> time"
  me_range :: "strmap \<Rightarrow> strmap"
  me_kind :: "'y \<Rightarrow> string + string"
  me_Pod :: "'y \<Rightarrow> string + Pod"
  me_ReplicaSet :: "'y \<Rightarrow> string + ReplicaSet"
  me_Deployment :: "'y \<Rightarrow> string + Deployment"
  me_Service :: "'y \<Rightarrow> string + Service"
  me_Webhook :: "'y \<Rightarrow> string + AdmissionWebhook"
  me_HPA :: "'y \<Rightarrow> string + HPA"
  me_NetworkPolicy :: "'y \<Rightarrow> string + NetworkPolicy"
  me_Cluster :: "'y \<Rightarrow> string + Cluster"
  me_FederatedDeployment :: "'y \<Rightarrow> string + FederatedDeployment"

datatype printed = Line string | Table "string list list" | Indented json

text \<open>The messages of \<open>die\<close>, which exits with status 1.\<close>

datatype death =
    DieText string
  | DieQuoted string string
  | DieRead string
  | DieYaml string
  | CheckErr string string
  | CheckStatus string int payload
  | DieDecode

text \<open>\<open>Panicked\<close> is the nil pointer dereference of a request that could not be made.\<close>

datatype outcome = Done "printed list" | Died death | UsageExit | HelpExit | Panicked

definition exit_code :: "outcome \<Rightarrow> int" where
  "exit_code r = (case r of Done _ \<Rightarrow> 0 | Died _ \<Rightarrow> 1 | UsageExit \<Rightarrow> 2 | HelpExit \<Rightarrow> 0 | Panicked \<Rightarrow> 2)"

section \<open>Texts\<close>

definition itoa :: "int \<Rightarrow> string" where
  "itoa i = (if i < 0 then ''-'' @ decimal (nat (- i)) else decimal (nat i))"

text \<open>\<open>Duration.String\<close> on a whole number of seconds, and the text of \<open>now.Sub(t).Truncate(time.Second)\<close>.\<close>

definition seconds_String :: "int \<Rightarrow> string" where
  "seconds_String n =
    (let u = nat \<bar>n\<bar>; m = u div 60; h = m div 60 in
     (if n < 0 then ''-'' else []) @
     (if m > 0 then (if h > 0 then decimal h @ ''h'' else []) @ decimal (m mod 60) @ ''m'' else []) @
     decimal (u mod 60) @ ''s'')"

definition age_text :: "time \<Rightarrow> time \<Rightarrow> string" where
  "age_text now t = seconds_String (whole_seconds (time_Sub now t))"

fun commas :: "string list \<Rightarrow> string" where
  "commas [] = []"
| "commas [s] = s"
| "commas (s # ss) = s @ '','' @ commas ss"

text \<open>\<open>fmt\<close>'s \<open>%v\<close> of a list of strings.\<close>

fun spaces :: "string list \<Rightarrow> string" where
  "spaces [] = []"
| "spaces [s] = s"
| "spaces (s # ss) = s @ '' '' @ spaces ss"

definition strings_v :: "string list \<Rightarrow> string" where
  "strings_v ss = ''['' @ spaces ss @ '']''"

definition selector_text :: "(strmap \<Rightarrow> strmap) \<Rightarrow> strmap \<Rightarrow> string" where
  "selector_text rng m = fold (\<lambda>(k, v) sel. (if sel \<noteq> [] then sel @ '','' else sel) @ k @ ''='' @ v) (rng m) []"

section \<open>Requests\<close>

definition http_post :: "string \<Rightarrow> json \<Rightarrow> request" where
  "http_post path j = \<lparr>req_method = ''POST'', req_path = path, req_query = [], req_auth = [], req_body = Doc j\<rparr>"

definition http_delete :: "string \<Rightarrow> strmap \<Rightarrow> request" where
  "http_delete path query = \<lparr>req_method = ''DELETE'', req_path = path, req_query = query, req_auth = [], req_body = Malformed\<rparr>"

definition check :: "string + response \<Rightarrow> string \<Rightarrow> death + payload" where
  "check r op =
    (case r of Inl e \<Rightarrow> Inl (CheckErr op e)
     | Inr resp \<Rightarrow> (if resp_code resp \<ge> 300 then Inl (CheckStatus op (resp_code resp) (resp_body resp))
                   else Inr (resp_body resp)))"

text \<open>A request, \<open>check\<close> of its answer, and what is done with the body.\<close>

definition checked :: "'w transport \<Rightarrow> request \<Rightarrow> string \<Rightarrow> (payload \<Rightarrow> outcome) \<Rightarrow> 'w \<Rightarrow> outcome \<times> 'w" where
  "checked T req op k w =
    (let (r, w) = T req w in
     case check r op of Inl d \<Rightarrow> (Died d, w) | Inr p \<Rightarrow> (k p, w))"

text \<open>A request whose URL holds a name: \<open>bad\<close> is what an invalid URL leads to.\<close>

definition checked_at :: "'w transport \<Rightarrow> string \<Rightarrow> (string \<Rightarrow> strmap \<Rightarrow> request) \<Rightarrow> outcome \<Rightarrow> string \<Rightarrow> (payload \<Rightarrow> outcome)
    \<Rightarrow> 'w \<Rightarrow> outcome \<times> 'w" where
  "checked_at T url req bad op k w =
    (case parse_target url of
       BadUrl \<Rightarrow> (bad, w)
     | BadLine \<Rightarrow> (Died (CheckStatus op 400 (TextBody (Msg ''400 Bad Request''))), w)
     | Target path query \<Rightarrow> checked T (req path query) op k w)"

text \<open>\<open>_ = json.NewDecoder(resp.Body).Decode(&out)\<close>: what was decoded, whether or not it failed.\<close>

definition decode_quiet :: "'a dec \<Rightarrow> 'a \<Rightarrow> payload \<Rightarrow> 'a" where
  "decode_quiet d z p = (case p of JsonBody j \<Rightarrow> fst (d j z) | _ \<Rightarrow> z)"

definition parsed :: "string + 'a \<Rightarrow> 'w \<Rightarrow> ('a \<Rightarrow> outcome \<times> 'w) \<Rightarrow> outcome \<times> 'w" where
  "parsed r w k = (case r of Inl e \<Rightarrow> (Died (DieYaml e), w) | Inr x \<Rightarrow> k x)"

section \<open>mkctl apply\<close>

definition applyNetworkPolicy :: "'y mkctl_env \<Rightarrow> 'w transport \<Rightarrow> 'y \<Rightarrow> 'w \<Rightarrow> outcome \<times> 'w" where
  "applyNetworkPolicy me T data w =
    parsed (me_NetworkPolicy me data) w (\<lambda>x.
      if md_name (np_metadata x) = [] then (Died (DieText ''metadata.name required''), w)
      else checked T (http_post ''/apis/networking.mk.io/v1/networkpolicies'' (enc_NetworkPolicy x)) ''apply networkpolicy''
        (\<lambda>p. Done [Line (''networkpolicy/'' @ md_name (np_metadata x) @ '' applied'')]) w)"

definition applyCluster :: "'y mkctl_env \<Rightarrow> 'w transport \<Rightarrow> 'y \<Rightarrow> 'w \<Rightarrow> outcome \<times> 'w" where
  "applyCluster me T data w =
    parsed (me_Cluster me data) w (\<lambda>x.
      if md_name (cl_metadata x) = [] \<or> clspec_server (cl_spec x) = [] then (Died (DieText ''metadata.name and spec.server required''), w)
      else checked T (http_post ''/apis/federation.mk.io/v1/clusters'' (enc_Cluster x)) ''apply cluster''
        (\<lambda>p. Done [Line (''cluster/'' @ md_name (cl_metadata x) @ '' applied (server='' @ clspec_server (cl_spec x) @ '')'')]) w)"

definition applyFederatedDeployment :: "'y mkctl_env \<Rightarrow> 'w transport \<Rightarrow> 'y \<Rightarrow> 'w \<Rightarrow> outcome \<times> 'w" where
  "applyFederatedDeployment me T data w =
    parsed (me_FederatedDeployment me data) w (\<lambda>x.
      if md_name (fd_metadata x) = [] then (Died (DieText ''metadata.name required''), w)
      else checked T (http_post ''/apis/federation.mk.io/v1/federateddeployments'' (enc_FederatedDeployment x)) ''apply federateddeployment''
        (\<lambda>p. Done [Line (''federateddeployment/'' @ md_name (fd_metadata x) @ '' applied (clusters='' @ strings_v (fdspec_clusters (fd_spec x)) @ '')'')]) w)"

definition applyService :: "'y mkctl_env \<Rightarrow> 'w transport \<Rightarrow> 'y \<Rightarrow> 'w \<Rightarrow> outcome \<times> 'w" where
  "applyService me T data w =
    parsed (me_Service me data) w (\<lambda>x.
      if md_name (svc_metadata x) = [] then (Died (DieText ''metadata.name required''), w)
      else checked T (http_post ''/api/v1/services'' (enc_Service x)) ''apply service''
        (\<lambda>p. let out = decode_quiet dec_Service zero_Service p in Done [Line (''service/'' @ md_name (svc_metadata out) @ '' applied (clusterIP='' @ svcspec_clusterIP (svc_spec out) @ '')'')]) w)"

definition applyPod :: "'y mkctl_env \<Rightarrow> 'w transport \<Rightarrow> 'y \<Rightarrow> 'w \<Rightarrow> outcome \<times> 'w" where
  "applyPod me T data w =
    parsed (me_Pod me data) w (\<lambda>x.
      if md_name (pod_metadata x) = [] then (Died (DieText ''metadata.name required''), w)
      else let x = (if pod_kind x = [] then x\<lparr>pod_kind := ''Pod''\<rparr> else x) in
        checked T (http_post ''/api/v1/pods'' (enc_Pod x)) ''apply pod''
        (\<lambda>p. let out = decode_quiet dec_Pod zero_Pod p in
          Done [Line (''pod/'' @ md_name (pod_metadata out) @ '' applied (phase='' @ ps_phase (pod_status out) @ '')'')]) w)"

definition applyReplicaSet :: "'y mkctl_env \<Rightarrow> 'w transport \<Rightarrow> 'y \<Rightarrow> 'w \<Rightarrow> outcome \<times> 'w" where
  "applyReplicaSet me T data w =
    parsed (me_ReplicaSet me data) w (\<lambda>x.
      if md_name (rs_metadata x) = [] then (Died (DieText ''metadata.name required''), w)
      else checked T (http_post ''/apis/apps/v1/replicasets'' (enc_ReplicaSet x)) ''apply replicaset''
        (\<lambda>p. let out = decode_quiet dec_ReplicaSet zero_ReplicaSet p in Done [Line (''replicaset/'' @ md_name (rs_metadata out) @ '' applied (replicas='' @ itoa (rsspec_replicas (rs_spec out)) @ '')'')]) w)"

definition applyWebhook :: "'y mkctl_env \<Rightarrow> 'w transport \<Rightarrow> 'y \<Rightarrow> 'w \<Rightarrow> outcome \<times> 'w" where
  "applyWebhook me T data w =
    parsed (me_Webhook me data) w (\<lambda>x.
      if md_name (wh_metadata x) = [] then (Died (DieText ''metadata.name required''), w)
      else checked T (http_post ''/apis/admission.mk.io/v1/webhooks'' (enc_AdmissionWebhook x)) ''apply webhook''
        (\<lambda>p. Done [Line (''admissionwebhook/'' @ md_name (wh_metadata x) @ '' applied (type='' @ wh_type x @ '' url='' @ wh_URL x @ '')'')]) w)"

definition applyHPA :: "'y mkctl_env \<Rightarrow> 'w transport \<Rightarrow> 'y \<Rightarrow> 'w \<Rightarrow> outcome \<times> 'w" where
  "applyHPA me T data w =
    parsed (me_HPA me data) w (\<lambda>x.
      if md_name (hpa_metadata x) = [] then (Died (DieText ''metadata.name required''), w)
      else checked T (http_post ''/apis/autoscaling.mk.io/v1/horizontalpodautoscalers'' (enc_HPA x)) ''apply hpa''
        (\<lambda>p. let out = decode_quiet dec_HPA zero_HPA p in Done [Line (''hpa/'' @ md_name (hpa_metadata out) @ '' applied (target='' @ str_kind (hpaspec_scaleTargetRef (hpa_spec out)) @ ''/'' @
          str_name (hpaspec_scaleTargetRef (hpa_spec out)) @ '' min='' @ itoa (hpaspec_minReplicas (hpa_spec out)) @ '' max='' @
          itoa (hpaspec_maxReplicas (hpa_spec out)) @ '')'')]) w)"

definition applyDeployment :: "'y mkctl_env \<Rightarrow> 'w transport \<Rightarrow> 'y \<Rightarrow> 'w \<Rightarrow> outcome \<times> 'w" where
  "applyDeployment me T data w =
    parsed (me_Deployment me data) w (\<lambda>x.
      if md_name (dep_metadata x) = [] then (Died (DieText ''metadata.name required''), w)
      else checked T (http_post ''/apis/apps/v1/deployments'' (enc_Deployment x)) ''apply deployment''
        (\<lambda>p. let out = decode_quiet dec_Deployment zero_Deployment p in Done [Line (''deployment/'' @ md_name (dep_metadata out) @ '' applied (replicas='' @ itoa (depspec_replicas (dep_spec out)) @ '')'')]) w)"

text \<open>
  \<open>flag.FlagSet.Parse\<close> for a set with one string flag \<open>name\<close>: the value and the remaining arguments, or
  the exit of a bad flag or of a request for help.
\<close>

definition cut_eq :: "string \<Rightarrow> string \<times> string option" where
  "cut_eq s =
    (let n = takeWhile (\<lambda>c. c \<noteq> CHR ''='') s in (n, if n = s then None else Some (drop (Suc (length n)) s)))"

fun parse_flag :: "string \<Rightarrow> string \<Rightarrow> string list \<Rightarrow> outcome + (string \<times> string list)" where
  "parse_flag name val [] = Inr (val, [])"
| "parse_flag name val (s # args) =
    (if length s < 2 \<or> hd s \<noteq> CHR ''-'' then Inr (val, s # args)
     else if s = ''--'' then Inr (val, args)
     else
      (let body = drop (if s ! 1 = CHR ''-'' then 2 else 1) s in
       if body = [] \<or> hd body = CHR ''-'' \<or> hd body = CHR ''='' then Inl UsageExit
       else
        (let (n, v) = cut_eq body in
         if n \<noteq> name then Inl (if n = ''help'' \<or> n = ''h'' then HelpExit else UsageExit)
         else (case v of
             Some v \<Rightarrow> parse_flag name v args
           | None \<Rightarrow> (case args of [] \<Rightarrow> Inl UsageExit | v # args \<Rightarrow> parse_flag name v args)))))"

definition applyCmd :: "'y mkctl_env \<Rightarrow> 'w transport \<Rightarrow> string list \<Rightarrow> 'w \<Rightarrow> outcome \<times> 'w" where
  "applyCmd me T args w =
    (case parse_flag ''f'' [] args of
       Inl r \<Rightarrow> (r, w)
     | Inr (file, _) \<Rightarrow>
        (if file = [] then (UsageExit, w)
         else (case me_ReadFile me file of
             Inl e \<Rightarrow> (Died (DieRead e), w)
           | Inr data \<Rightarrow> parsed (me_kind me data) w (\<lambda>kind.
               if kind = [] \<or> kind = ''Pod'' then applyPod me T data w
               else if kind = ''ReplicaSet'' then applyReplicaSet me T data w
               else if kind = ''Deployment'' then applyDeployment me T data w
               else if kind = ''Service'' then applyService me T data w
               else if kind = ''AdmissionWebhook'' then applyWebhook me T data w
               else if kind = ''HorizontalPodAutoscaler'' then applyHPA me T data w
               else if kind = ''NetworkPolicy'' then applyNetworkPolicy me T data w
               else if kind = ''Cluster'' then applyCluster me T data w
               else if kind = ''FederatedDeployment'' then applyFederatedDeployment me T data w
               else (Died (DieQuoted ''unsupported kind'' kind), w)))))"

section \<open>mkctl get\<close>

definition get_items :: "'w transport \<Rightarrow> string \<Rightarrow> string \<Rightarrow> 'a dec \<Rightarrow> 'a \<Rightarrow> ('a list \<Rightarrow> string list list) \<Rightarrow> 'w
    \<Rightarrow> outcome \<times> 'w" where
  "get_items T path op d z table =
    checked T (http_get path []) op (\<lambda>p.
      case decode_payload (dec_items d z) [] p of Inl _ \<Rightarrow> Died DieDecode | Inr items \<Rightarrow> Done [Table (table items)])"

text \<open>\<open>containers[0].image\<close>, or nothing.\<close>

definition first_image :: "Container list \<Rightarrow> string" where
  "first_image cs = (case cs of [] \<Rightarrow> [] | c # _ \<Rightarrow> c_image c)"

definition getNetworkPolicies :: "'y mkctl_env \<Rightarrow> 'w transport \<Rightarrow> 'w \<Rightarrow> outcome \<times> 'w" where
  "getNetworkPolicies me T =
    get_items T ''/apis/networking.mk.io/v1/networkpolicies'' ''get networkpolicies'' dec_NetworkPolicy zero_NetworkPolicy (\<lambda>items.
      [''NAME'', ''SELECTOR'', ''INGRESS-RULES''] #
      map (\<lambda>x. [md_name (np_metadata x), nz (selector_text (me_range me) (npspec_podSelector (np_spec x))) ''<all>'',
        itoa (int (length (npspec_ingress (np_spec x))))]) items)"

definition getClusters :: "'y mkctl_env \<Rightarrow> 'w transport \<Rightarrow> 'w \<Rightarrow> outcome \<times> 'w" where
  "getClusters me T =
    get_items T ''/apis/federation.mk.io/v1/clusters'' ''get clusters'' dec_Cluster zero_Cluster (\<lambda>items.
      [''NAME'', ''SERVER'', ''REGION'', ''READY'', ''LAST-HEARTBEAT''] #
      map (\<lambda>x. [md_name (cl_metadata x), clspec_server (cl_spec x), nz (clspec_region (cl_spec x)) ''-'',
        (if clstatus_ready (cl_status x) then ''true'' else ''false''),
        (if IsZero (clstatus_lastHeartbeat (cl_status x)) then ''<never>''
         else age_text (me_clock me 0) (clstatus_lastHeartbeat (cl_status x)) @ '' ago'')]) items)"

definition getFederatedDeployments :: "'y mkctl_env \<Rightarrow> 'w transport \<Rightarrow> 'w \<Rightarrow> outcome \<times> 'w" where
  "getFederatedDeployments me T =
    get_items T ''/apis/federation.mk.io/v1/federateddeployments'' ''get federateddeployments'' dec_FederatedDeployment zero_FederatedDeployment (\<lambda>items.
      [''NAME'', ''REPLICAS'', ''CLUSTERS'', ''READY-CLUSTERS''] #
      map (\<lambda>x. [md_name (fd_metadata x), itoa (depspec_replicas (fdspec_template (fd_spec x))),
        (if length (fdspec_clusters (fd_spec x)) > 0 then strings_v (fdspec_clusters (fd_spec x)) else ''<all>''),
        itoa (fdstatus_readyCount (fd_status x)) @ ''/'' @ itoa (fdstatus_clusterCount (fd_status x))]) items)"

definition port_text :: "ServicePort \<Rightarrow> string" where
  "port_text p =
    (let tp = (if sp_targetPort p = 0 then sp_port p else sp_targetPort p);
         proto = (if sp_protocol p = [] then ''TCP'' else sp_protocol p) in
     itoa (sp_port p) @ ''->'' @ itoa tp @ ''/'' @ proto)"

definition getServices :: "'y mkctl_env \<Rightarrow> 'w transport \<Rightarrow> 'w \<Rightarrow> outcome \<times> 'w" where
  "getServices me T =
    get_items T ''/api/v1/services'' ''get services'' dec_Service zero_Service (\<lambda>items.
      [''NAME'', ''TYPE'', ''CLUSTER-IP'', ''PORT(S)'', ''SELECTOR'', ''AGE''] #
      map (\<lambda>x. [md_name (svc_metadata x), nz (svcspec_type (svc_spec x)) ''ClusterIP'', svcspec_clusterIP (svc_spec x),
        commas (map port_text (svcspec_ports (svc_spec x))), selector_text (me_range me) (svcspec_selector (svc_spec x)),
        age_text (me_clock me 0) (svcstatus_lastUpdated (svc_status x))]) items)"

definition getEndpoints :: "'y mkctl_env \<Rightarrow> 'w transport \<Rightarrow> 'w \<Rightarrow> outcome \<times> 'w" where
  "getEndpoints me T =
    get_items T ''/api/v1/endpoints'' ''get endpoints'' dec_Endpoints zero_Endpoints (\<lambda>items.
      [''NAME'', ''ENDPOINTS'', ''AGE''] #
      map (\<lambda>x. [md_name (ep_metadata x), nz (commas (map (\<lambda>a. ea_IP a @ '':'' @ itoa (ea_port a)) (ep_subsets x))) ''<none>'',
        age_text (me_clock me 0) (ep_lastUpdated x)]) items)"

definition pod_cells :: "'y mkctl_env \<Rightarrow> Pod \<Rightarrow> string list" where
  "pod_cells me x = [md_name (pod_metadata x), ps_phase (pod_status x), nz (ps_nodeName (pod_status x)) ''<none>'',
     first_image (podspec_containers (pod_spec x)), age_text (me_clock me 0) (ps_lastUpdated (pod_status x)),
     ps_message (pod_status x)]"

definition getPods :: "'y mkctl_env \<Rightarrow> 'w transport \<Rightarrow> 'w \<Rightarrow> outcome \<times> 'w" where
  "getPods me T =
    get_items T ''/api/v1/pods'' ''get pods'' dec_Pod zero_Pod (\<lambda>items.
      [''NAME'', ''PHASE'', ''NODE'', ''IMAGE'', ''AGE'', ''MESSAGE''] # map (pod_cells me) items)"

definition getReplicaSets :: "'y mkctl_env \<Rightarrow> 'w transport \<Rightarrow> 'w \<Rightarrow> outcome \<times> 'w" where
  "getReplicaSets me T =
    get_items T ''/apis/apps/v1/replicasets'' ''get replicasets'' dec_ReplicaSet zero_ReplicaSet (\<lambda>items.
      [''NAME'', ''DESIRED'', ''CURRENT'', ''READY'', ''IMAGE'', ''AGE''] #
      map (\<lambda>x. [md_name (rs_metadata x), itoa (rsspec_replicas (rs_spec x)), itoa (rsstatus_replicas (rs_status x)),
        itoa (rsstatus_readyReplicas (rs_status x)), first_image (podspec_containers (tmpl_spec (rsspec_template (rs_spec x)))),
        age_text (me_clock me 0) (rsstatus_lastUpdated (rs_status x))]) items)"

definition getDeployments :: "'y mkctl_env \<Rightarrow> 'w transport \<Rightarrow> 'w \<Rightarrow> outcome \<times> 'w" where
  "getDeployments me T =
    get_items T ''/apis/apps/v1/deployments'' ''get deployments'' dec_Deployment zero_Deployment (\<lambda>items.
      [''NAME'', ''DESIRED'', ''CURRENT'', ''READY'', ''IMAGE'', ''AGE''] #
      map (\<lambda>x. [md_name (dep_metadata x), itoa (depspec_replicas (dep_spec x)), itoa (depstatus_replicas (dep_status x)),
        itoa (depstatus_readyReplicas (dep_status x)), first_image (podspec_containers (tmpl_spec (depspec_template (dep_spec x)))),
        age_text (me_clock me 0) (depstatus_lastUpdated (dep_status x))]) items)"

definition getHPAs :: "'y mkctl_env \<Rightarrow> 'w transport \<Rightarrow> 'w \<Rightarrow> outcome \<times> 'w" where
  "getHPAs me T =
    get_items T ''/apis/autoscaling.mk.io/v1/horizontalpodautoscalers'' ''get hpa'' dec_HPA zero_HPA (\<lambda>items.
      [''NAME'', ''TARGET'', ''MIN'', ''MAX'', ''CURRENT'', ''DESIRED'', ''CPU%'', ''LAST-SCALE''] #
      map (\<lambda>(i, x). [md_name (hpa_metadata x),
        str_kind (hpaspec_scaleTargetRef (hpa_spec x)) @ ''/'' @ str_name (hpaspec_scaleTargetRef (hpa_spec x)),
        itoa (hpaspec_minReplicas (hpa_spec x)), itoa (hpaspec_maxReplicas (hpa_spec x)),
        itoa (hpastatus_currentReplicas (hpa_status x)), itoa (hpastatus_desiredReplicas (hpa_status x)),
        itoa (hpastatus_currentAverageValue (hpa_status x)),
        (if IsZero (hpastatus_lastScaleTime (hpa_status x)) then ''<never>''
         else age_text (me_clock me i) (hpastatus_lastScaleTime (hpa_status x)) @ '' ago'')]) (enumerate 0 items))"

definition getWebhooks :: "'y mkctl_env \<Rightarrow> 'w transport \<Rightarrow> 'w \<Rightarrow> outcome \<times> 'w" where
  "getWebhooks me T =
    get_items T ''/apis/admission.mk.io/v1/webhooks'' ''get webhooks'' dec_AdmissionWebhook zero_AdmissionWebhook (\<lambda>items.
      [''NAME'', ''TYPE'', ''RESOURCES'', ''URL'', ''FAILURE-POLICY''] #
      map (\<lambda>x. [md_name (wh_metadata x), wh_type x, commas (wh_resources x), wh_URL x, wh_failurePolicy x]) items)"

definition getCmd :: "'y mkctl_env \<Rightarrow> 'w transport \<Rightarrow> string list \<Rightarrow> 'w \<Rightarrow> outcome \<times> 'w" where
  "getCmd me T args w =
    (case args of [] \<Rightarrow> (Died (DieText ''usage: mkctl get pods|replicasets|deployments''), w)
     | r # _ \<Rightarrow>
        (if r \<in> {''pods'', ''pod''} then getPods me T w
         else if r \<in> {''replicasets'', ''rs''} then getReplicaSets me T w
         else if r \<in> {''deployments'', ''deploy'', ''deployment''} then getDeployments me T w
         else if r \<in> {''services'', ''svc'', ''service''} then getServices me T w
         else if r \<in> {''endpoints'', ''ep'', ''endpoint''} then getEndpoints me T w
         else if r \<in> {''hpa'', ''horizontalpodautoscalers''} then getHPAs me T w
         else if r \<in> {''webhooks'', ''admissionwebhooks''} then getWebhooks me T w
         else if r \<in> {''networkpolicies'', ''netpol'', ''networkpolicy''} then getNetworkPolicies me T w
         else if r \<in> {''clusters'', ''cluster''} then getClusters me T w
         else if r \<in> {''federateddeployments'', ''fd'', ''federateddeployment''} then getFederatedDeployments me T w
         else (Died (DieQuoted ''unknown resource'' r), w)))"

section \<open>mkctl describe, mkctl delete, and the command line\<close>

definition describeCmd :: "'w transport \<Rightarrow> string list \<Rightarrow> 'w \<Rightarrow> outcome \<times> 'w" where
  "describeCmd T args w =
    (if length args < 2 \<or> hd args \<noteq> ''pod'' then (Died (DieText ''usage: mkctl describe pod <name>''), w)
     else checked_at T (''/api/v1/pods/'' @ args ! 1) http_get (Died (CheckErr ''describe'' ''parse'')) ''describe'' (\<lambda>p.
       case decode_payload dec_Pod zero_Pod p of Inl _ \<Rightarrow> Died DieDecode | Inr x \<Rightarrow> Done [Indented (enc_Pod x)]) w)"

definition delete_path :: "string \<Rightarrow> string \<Rightarrow> string option" where
  "delete_path kind name =
    (if kind = ''pod'' then Some (''/api/v1/pods/'' @ name)
     else if kind \<in> {''rs'', ''replicaset'', ''replicasets''} then Some (''/apis/apps/v1/replicasets/'' @ name)
     else if kind \<in> {''deploy'', ''deployment'', ''deployments''} then Some (''/apis/apps/v1/deployments/'' @ name)
     else if kind \<in> {''svc'', ''service'', ''services''} then Some (''/api/v1/services/'' @ name)
     else None)"

definition deleteCmd :: "'w transport \<Rightarrow> string list \<Rightarrow> 'w \<Rightarrow> outcome \<times> 'w" where
  "deleteCmd T args w =
    (case args of
       kind # name # _ \<Rightarrow>
        (case delete_path kind name of
           None \<Rightarrow> (Died (DieQuoted ''unknown kind'' kind), w)
         | Some path \<Rightarrow> checked_at T path http_delete Panicked ''delete''
             (\<lambda>_. Done [Line (kind @ ''/'' @ name @ '' deleted'')]) w)
     | _ \<Rightarrow> (Died (DieText ''usage: mkctl delete pod|rs|deploy <name>''), w))"

definition envOr :: "'y mkctl_env \<Rightarrow> string \<Rightarrow> string \<Rightarrow> string" where
  "envOr me k d = (let v = me_getenv me k in if v \<noteq> [] then v else d)"

definition mkctl :: "'y mkctl_env \<Rightarrow> (string \<Rightarrow> 'w transport) \<Rightarrow> string list \<Rightarrow> 'w \<Rightarrow> outcome \<times> 'w" where
  "mkctl me T argv w =
    (case parse_flag ''server'' (envOr me ''MK_SERVER'' ''http://127.0.0.1:8080'') argv of
       Inl r \<Rightarrow> (r, w)
     | Inr (server, []) \<Rightarrow> (UsageExit, w)
     | Inr (server, cmd # rest) \<Rightarrow>
        (if cmd = ''apply'' then applyCmd me (T server) rest w
         else if cmd = ''get'' then getCmd me (T server) rest w
         else if cmd = ''describe'' then describeCmd (T server) rest w
         else if cmd = ''delete'' then deleteCmd (T server) rest w
         else (UsageExit, w)))"

section \<open>A run is honest\<close>

text \<open>
  A run sends one request at most, and only an answer below 300 makes it print a result.
\<close>

definition honest :: "'w transport \<Rightarrow> 'w \<Rightarrow> outcome \<times> 'w \<Rightarrow> bool" where
  "honest T w res \<longleftrightarrow>
    (case fst res of Done _ \<Rightarrow> \<exists>req r. T req w = (Inr r, snd res) \<and> resp_code r < 300
     | _ \<Rightarrow> snd res = w \<or> (\<exists>req r. T req w = (r, snd res)))"

lemma honest_stop [simp]: "honest T w (Died d, w)" "honest T w (UsageExit, w)" "honest T w (HelpExit, w)"
  by (simp_all add: honest_def)

lemma honest_checked [simp]: "honest T w (checked T req op k w)"
proof -
  obtain r w' where r: "T req w = (r, w')" by (cases "T req w")
  show ?thesis
  proof (cases "check r op")
    case (Inl d)
    with r show ?thesis by (auto simp: checked_def honest_def)
  next
    case (Inr p)
    then obtain resp where "r = Inr resp" "resp_code resp < 300"
      by (auto simp: check_def split: sum.splits if_splits)
    with r Inr show ?thesis by (auto simp: checked_def honest_def split: outcome.split)
  qed
qed

lemma honest_checked_at [simp]:
  "bad = Panicked \<or> bad = Died d \<Longrightarrow> honest T w (checked_at T url req bad op k w)"
  by (auto simp: checked_at_def split: target.split) (auto simp: honest_def)

lemma honest_parsed [simp]: "(\<And>x. r = Inr x \<Longrightarrow> honest T w (k x)) \<Longrightarrow> honest T w (parsed r w k)"
  by (cases r) (auto simp: parsed_def)

lemma honest_apply:
  "honest T w (applyNetworkPolicy me T y w)" "honest T w (applyCluster me T y w)"
  "honest T w (applyFederatedDeployment me T y w)" "honest T w (applyService me T y w)" "honest T w (applyPod me T y w)"
  "honest T w (applyReplicaSet me T y w)" "honest T w (applyWebhook me T y w)" "honest T w (applyHPA me T y w)"
  "honest T w (applyDeployment me T y w)"
  by (simp_all add: applyNetworkPolicy_def applyCluster_def applyFederatedDeployment_def applyService_def applyPod_def
      applyReplicaSet_def applyWebhook_def applyHPA_def applyDeployment_def Let_def)

lemma honest_get_items [simp]: "honest T w (get_items T path op d z table w)"
  by (simp add: get_items_def)

lemma honest_get:
  "honest T w (getNetworkPolicies me T w)" "honest T w (getClusters me T w)" "honest T w (getFederatedDeployments me T w)"
  "honest T w (getServices me T w)" "honest T w (getEndpoints me T w)" "honest T w (getPods me T w)"
  "honest T w (getReplicaSets me T w)" "honest T w (getDeployments me T w)" "honest T w (getHPAs me T w)"
  "honest T w (getWebhooks me T w)"
  by (simp_all only: getNetworkPolicies_def getClusters_def getFederatedDeployments_def getServices_def getEndpoints_def
      getPods_def getReplicaSets_def getDeployments_def getHPAs_def getWebhooks_def honest_get_items)

lemma parse_flag_stops: "parse_flag name val args = Inl r \<Longrightarrow> r = UsageExit \<or> r = HelpExit"
proof (induction args arbitrary: val rule: length_induct)
  case (1 args)
  show ?case
  proof (cases args)
    case Nil
    with 1(2) show ?thesis by simp
  next
    case (Cons s rest)
    let ?body = "drop (if s ! 1 = CHR ''-'' then 2 else 1) s"
    obtain n v where cut: "cut_eq ?body = (n, v)" by fastforce
    have IH: "parse_flag name val' args' = Inl r \<Longrightarrow> length args' < length args \<Longrightarrow> r = UsageExit \<or> r = HelpExit"
      for val' args' using 1(1) by blast
    note unfolded = 1(2) [unfolded Cons parse_flag.simps(2) Let_def cut prod.case]
    show ?thesis
    proof (cases v)
      case None
      with unfolded IH Cons show ?thesis by (cases rest) (auto simp del: parse_flag.simps split: if_splits)
    next
      case (Some u)
      with unfolded IH Cons show ?thesis by (auto simp del: parse_flag.simps split: if_splits)
    qed
  qed
qed

lemma honest_applyCmd: "honest T w (applyCmd me T args w)"
  using parse_flag_stops [of "''f''" "[]" args]
  by (auto simp: applyCmd_def honest_apply split: sum.split)

lemma honest_getCmd: "honest T w (getCmd me T args w)"
  by (simp add: getCmd_def honest_get split: list.split)

lemma honest_describeCmd: "honest T w (describeCmd T args w)"
  by (simp add: describeCmd_def)

lemma honest_deleteCmd: "honest T w (deleteCmd T args w)"
  by (simp add: deleteCmd_def split: list.split option.split)

lemma mkctl_honest: "\<exists>server. honest (T server) w (mkctl me T argv w)"
proof (cases "parse_flag ''server'' (envOr me ''MK_SERVER'' ''http://127.0.0.1:8080'') argv")
  case (Inl r)
  with parse_flag_stops [OF Inl] show ?thesis by (auto simp: mkctl_def)
next
  case (Inr p)
  obtain server rest where p: "p = (server, rest)" by (cases p)
  have "honest (T server) w (mkctl me T argv w)"
    using Inr by (simp add: mkctl_def p honest_applyCmd honest_getCmd honest_describeCmd honest_deleteCmd split: list.split)
  then show ?thesis ..
qed

end
