(* ===== verification/Mkctl_Server.thy ===== *)
theory Mkctl_Server
  imports Mkctl Pod_Lifecycle
begin

text \<open>
  cmd/mkctl against the API server of cmd/apiserver (default flags, healthy database, no webhooks):
  what \<open>apply\<close> does with a pod, and what \<open>get pods\<close> then shows.
\<close>

lemma post_pod_local:
  assumes inv: "unhooked w" and p: "wf_Pod p" "pod_name p \<noteq> []" "podspec_containers (pod_spec p) \<noteq> []"
    "live_pods w (pod_name p) = None"
    and q: "q = stored_pod (now (w_n w)) None (p\<lparr>pod_apiVersion := ''v1'', pod_kind := ''Pod''\<rparr>)"
  shows "\<exists>w'. local_transport loop identity now net rnd (http_post ''/api/v1/pods'' (enc_Pod p)) w =
      (Inr \<lparr>resp_code = 201, resp_body = JsonBody (enc_Pod q)\<rparr>, w') \<and> unhooked w' \<and>
    live_pods w' = (live_pods w)(pod_name p \<mapsto> q)"
proof -
  let ?cfg = "default_config loop identity" and ?ev = "healthy_env now net rnd"
  let ?req = "http_post ''/api/v1/pods'' (enc_Pod p)" and ?p = "p\<lparr>pod_apiVersion := ''v1'', pod_kind := ''Pod''\<rparr>"
  have wf: "wf_Pod ?p" using p(1) by simp
  obtain st' where create: "createPod (?ev (w_n w)) ?req (w_sv w) = writeJSON 201 (read_back enc_Pod
      (GetPod no_faults st' (pod_name p))) ((w_sv w)\<lparr>srv_st := st'\<rparr>)"
    and put: "UpsertPod no_faults (now (w_n w)) ?p (srv_st (w_sv w)) = Inr st'"
    using createPod_answer [of "w_sv w" p "?ev (w_n w)" ?req] inv p
    by (auto simp: unhooked_def pod_name_def http_post_def)
  let ?w' = "\<lparr>w_sv = (w_sv w)\<lparr>srv_st := st'\<rparr>, w_n = Suc (w_n w)\<rparr>"
  have live: "live_pods ?w' = (live_pods w)(pod_name p \<mapsto> q)"
    using live_pods_put [of w ?p "now (w_n w)" st' "Suc (w_n w)"] inv put wf p(4) q
    by (simp add: unhooked_def pod_name_def)
  then have "live_pods ?w' (pod_name p) = Some q" by simp
  then have "GetPod no_faults st' (pod_name p) = Inr q" by (simp add: live_pods_get)
  with create have "createPod (?ev (w_n w)) ?req (w_sv w) =
      (\<lparr>resp_code = 201, resp_body = JsonBody (enc_Pod q)\<rparr>, (w_sv w)\<lparr>srv_st := st'\<rparr>)"
    by (simp add: writeJSON_def read_back_def)
  then have "serve ?cfg (?ev (w_n w)) ?req (w_sv w) =
      (\<lparr>resp_code = 201, resp_body = JsonBody (enc_Pod q)\<rparr>, (w_sv w)\<lparr>srv_st := st'\<rparr>)"
    using routed_pods [of ?cfg "?ev (w_n w)"] by (simp add: routed_def guard_anonymous handlePods_def http_post_def)
  from local_world [OF this] have "local_transport loop identity now net rnd ?req w =
      (Inr \<lparr>resp_code = 201, resp_body = JsonBody (enc_Pod q)\<rparr>, ?w')"
    by (simp add: local_transport_def)
  moreover have "unhooked ?w'"
    using inv put UpsertPod_ok [OF _ wf put] UpsertPod_tables [OF put] by (simp add: unhooked_def)
  ultimately show ?thesis using live by blast
qed

lemma getPods_local:
  assumes "unhooked w"
  shows "\<exists>ps. getPods me (local_transport loop identity now net rnd) w =
      (Done [Table ([''NAME'', ''PHASE'', ''NODE'', ''IMAGE'', ''AGE'', ''MESSAGE''] # map (pod_cells me) ps)], tick w) \<and>
    snapshot_of w (\<lambda>_. True) ps"
proof -
  have ok: "store_ok (srv_st (w_sv w))" using assms by (simp add: unhooked_def)
  from ListPods_exact [OF ok] obtain ps where ps: "ListPods no_faults (srv_st (w_sv w)) [] = Inr ps" "list_all wf_Pod ps"
    "distinct (map pod_name ps)"
    "\<forall>p. p \<in> set ps \<longleftrightarrow> GetPod no_faults (srv_st (w_sv w)) (pod_name p) = Inr p \<and> of_phase [] p" by metis
  have "local_transport loop identity now net rnd (http_get ''/api/v1/pods'' []) w =
    (Inr \<lparr>resp_code = 200, resp_body = JsonBody (JObj [(''items'', enc_list enc_Pod ps)])\<rparr>, tick w)"
    by (rule list_request) (simp_all add: listPods_def http_get_def gget_def ps map_result_def)
  then have "getPods me (local_transport loop identity now net rnd) w =
      (Done [Table ([''NAME'', ''PHASE'', ''NODE'', ''IMAGE'', ''AGE'', ''MESSAGE''] # map (pod_cells me) ps)], tick w)"
    using read_items [OF ps(2)] by (simp add: getPods_def get_items_def checked_def check_def)
  moreover have "snapshot_of w (\<lambda>_. True) ps"
    by (rule snapshot_ofI [OF ok ps(2,3)]) (use ps(4) in \<open>simp add: of_phase_def\<close>)
  ultimately show ?thesis by blast
qed

text \<open>\<open>mkctl apply -f file\<close> with a new pod, then \<open>mkctl get pods\<close>.\<close>

lemma apply_then_get:
  assumes inv: "unhooked w" and read: "file \<noteq> []" "me_ReadFile me file = Inr data"
    and kind: "me_kind me data = Inr k" "k = [] \<or> k = ''Pod''" and yaml: "me_Pod me data = Inr p"
    and p: "wf_Pod p" "pod_name p \<noteq> []" "podspec_containers (pod_spec p) \<noteq> []" "live_pods w (pod_name p) = None"
    and env: "me_getenv me ''MK_SERVER'' = []" and T: "T ''http://127.0.0.1:8080'' = local_transport loop identity now net rnd"
  shows "\<exists>w' q rows. mkctl me T [''apply'', ''-f'', file] w =
      (Done [Line (''pod/'' @ pod_name p @ '' applied (phase='' @ ps_phase (pod_status q) @ '')'')], w') \<and>
    live_pods w' = (live_pods w)(pod_name p \<mapsto> q) \<and> pod_spec q = pod_spec p \<and> pod_metadata q = pod_metadata p \<and>
    ps_phase (pod_status q) = nz (ps_phase (pod_status p)) PhasePending \<and>
    mkctl me T [''get'', ''pods''] w' = (Done [Table rows], tick w') \<and> pod_cells me q \<in> set rows"
proof -
  let ?x = "if pod_kind p = [] then p\<lparr>pod_kind := ''Pod''\<rparr> else p"
  define q where "q = stored_pod (now (w_n w)) None (?x\<lparr>pod_apiVersion := ''v1'', pod_kind := ''Pod''\<rparr>)"
  have x: "wf_Pod ?x" "pod_name ?x = pod_name p" "podspec_containers (pod_spec ?x) \<noteq> []"
    using p by (auto simp: pod_name_def wf_Pod_def)
  have q: "pod_spec q = pod_spec p" "pod_metadata q = pod_metadata p"
    "ps_phase (pod_status q) = nz (ps_phase (pod_status p)) PhasePending" "pod_name q = pod_name p"
    by (auto simp: q_def stored_pod_def Let_def nz_def pod_name_def)
  obtain w' where post: "local_transport loop identity now net rnd (http_post ''/api/v1/pods'' (enc_Pod ?x)) w =
      (Inr \<lparr>resp_code = 201, resp_body = JsonBody (enc_Pod q)\<rparr>, w')"
    and w': "unhooked w'" "live_pods w' = (live_pods w)(pod_name p \<mapsto> q)"
    using post_pod_local [where now = now and w = w and p = ?x and q = q, OF inv x(1) _ x(3) _ q_def] p x(2) by metis
  have live: "live_pods w' (pod_name p) = Some q" by (simp add: w')
  then have "wf_Pod q" using w'(1) GetPod_wf [of "srv_st (w_sv w')"] by (auto simp: unhooked_def live_pods_get)
  then have out: "decode_quiet dec_Pod zero_Pod (JsonBody (enc_Pod q)) = q" by (simp add: decode_quiet_def)
  have name: "md_name (pod_metadata p) \<noteq> []" using p(2) by (simp add: pod_name_def)
  have "applyPod me (T ''http://127.0.0.1:8080'') data w =
      (Done [Line (''pod/'' @ pod_name p @ '' applied (phase='' @ ps_phase (pod_status q) @ '')'')], w')"
    using post out name q(4) by (simp add: applyPod_def parsed_def yaml T checked_def check_def Let_def pod_name_def)
  then have run: "mkctl me T [''apply'', ''-f'', file] w =
      (Done [Line (''pod/'' @ pod_name p @ '' applied (phase='' @ ps_phase (pod_status q) @ '')'')], w')"
    using kind read by (auto simp: mkctl_def envOr_def env applyCmd_def parsed_def cut_eq_def)
  obtain ps where ps: "getPods me (local_transport loop identity now net rnd) w' =
      (Done [Table ([''NAME'', ''PHASE'', ''NODE'', ''IMAGE'', ''AGE'', ''MESSAGE''] # map (pod_cells me) ps)], tick w')"
    "snapshot_of w' (\<lambda>_. True) ps" using getPods_local [OF w'(1)] by blast
  from ps(2) live have "q \<in> set ps" by (auto simp: snapshot_of_def)
  then have "pod_cells me q \<in> set ([''NAME'', ''PHASE'', ''NODE'', ''IMAGE'', ''AGE'', ''MESSAGE''] # map (pod_cells me) ps)"
    by auto
  moreover have "mkctl me T [''get'', ''pods''] w' = getPods me (local_transport loop identity now net rnd) w'"
    by (simp add: mkctl_def envOr_def env getCmd_def T)
  ultimately show ?thesis using run w'(2) q ps(1) by fastforce
qed

end
