(* ===== verification/Sidecar.thy ===== *)
theory Sidecar
  imports Prelude
begin

text \<open>
  cmd/mk-sidecar/main.go: the certificates of the mutual TLS sidecars and the decision on one
  connection. Cryptography is symbolic: a key pair is a number, a certificate records the key that
  signed it, and nobody signs with a key he does not have. The files of the host and the supply of
  fresh keys are the state. Of crypto/x509 this models what the program relies on: the check of
  \<open>CreateCertificate\<close> that the private key is the parent's, validity periods in whole seconds, the
  chain of one issuer, extended key usages, and names (ASCII, no wildcard, no final dot; addresses in
  canonical form). The copying of bytes
  is not modelled.
\<close>

section \<open>Certificates and the host\<close>

type_synonym key = nat

datatype eku = ServerAuth | ClientAuth

record certificate =
  x_CN :: string
  x_issuer :: string
  x_notBefore :: time
  x_notAfter :: time
  x_isCA :: bool
  x_certSign :: bool
  x_eku :: "eku list"
  x_dns :: "string list"
  x_ips :: "string list"
  x_key :: key
  x_signer :: key

datatype pem = CertPEM certificate | KeyPEM key | NotPEM

record host =
  h_files :: "string \<Rightarrow> pem option"
  h_fresh :: key

text \<open>The outside of one start: the clock, \<open>AddDate(1, 0, 0)\<close>, the random source and the file permissions.\<close>

record sidecar_env =
  se_tempDir :: string
  se_now :: time
  se_year :: "time \<Rightarrow> time"
  se_random :: "key \<Rightarrow> bool"
  se_writable :: "string \<Rightarrow> bool"

definition GenerateKey :: "sidecar_env \<Rightarrow> host \<Rightarrow> (string + key) \<times> host" where
  "GenerateKey env h =
    (if se_random env (h_fresh h) then (Inr (h_fresh h), h\<lparr>h_fresh := Suc (h_fresh h)\<rparr>) else (Inl ''rand'', h))"

definition WriteFile :: "sidecar_env \<Rightarrow> string \<Rightarrow> pem \<Rightarrow> host \<Rightarrow> host" where
  "WriteFile env path x h = (if se_writable env path then h\<lparr>h_files := (h_files h)(path \<mapsto> x)\<rparr> else h)"

definition whole :: "time \<Rightarrow> time" where
  "whole t = t div second * second"

text \<open>The parent \<open>None\<close> is the template itself, which has no public key yet.\<close>

definition CreateCertificate :: "certificate \<Rightarrow> certificate option \<Rightarrow> key \<Rightarrow> key \<Rightarrow> string + certificate" where
  "CreateCertificate tmpl parent pub priv =
    (let issued = (\<lambda>issuer. tmpl\<lparr>x_issuer := issuer, x_notBefore := whole (x_notBefore tmpl),
           x_notAfter := whole (x_notAfter tmpl), x_key := pub, x_signer := priv\<rparr>) in
     case parent of
       None \<Rightarrow> Inr (issued (x_CN tmpl))
     | Some ca \<Rightarrow> (if x_key ca \<noteq> priv then Inl ''x509: provided PrivateKey doesn't match parent's PublicKey''
                 else Inr (issued (x_CN ca))))"

section \<open>The certificates of a sidecar\<close>

definition ca_template :: "sidecar_env \<Rightarrow> certificate" where
  "ca_template env = \<lparr>x_CN = ''mk-sidecar-ca'', x_issuer = [], x_notBefore = se_now env - 60 * second,
     x_notAfter = se_year env (se_now env), x_isCA = True, x_certSign = True, x_eku = [], x_dns = [], x_ips = [],
     x_key = 0, x_signer = 0\<rparr>"

definition leaf_template :: "sidecar_env \<Rightarrow> string \<Rightarrow> certificate" where
  "leaf_template env cn = \<lparr>x_CN = cn, x_issuer = [], x_notBefore = se_now env - 60 * second,
     x_notAfter = se_now env + 30 * 24 * 3600 * second, x_isCA = False, x_certSign = False,
     x_eku = [ServerAuth, ClientAuth], x_dns = [cn, ''localhost''], x_ips = [''127.0.0.1''], x_key = 0, x_signer = 0\<rparr>"

definition loadOrCreateCA :: "sidecar_env \<Rightarrow> string \<Rightarrow> string \<Rightarrow> host \<Rightarrow> (string + (certificate \<times> key)) \<times> host" where
  "loadOrCreateCA env certPath keyPath h =
    (case (h_files h certPath, h_files h keyPath) of
       (Some (CertPEM cert), Some (KeyPEM key)) \<Rightarrow> (Inr (cert, key), h)
     | _ \<Rightarrow>
        (case GenerateKey env h of
           (Inl e, h) \<Rightarrow> (Inl e, h)
         | (Inr key, h) \<Rightarrow>
            (case CreateCertificate (ca_template env) None key key of
               Inl e \<Rightarrow> (Inl e, h)
             | Inr cert \<Rightarrow>
                (Inr (cert, key), WriteFile env keyPath (KeyPEM key) (WriteFile env certPath (CertPEM cert) h)))))"

definition mintLeaf :: "sidecar_env \<Rightarrow> certificate \<Rightarrow> key \<Rightarrow> string \<Rightarrow> host \<Rightarrow> (string + (certificate \<times> key)) \<times> host" where
  "mintLeaf env caCert caKey cn h =
    (case GenerateKey env h of
       (Inl e, h) \<Rightarrow> (Inl e, h)
     | (Inr key, h) \<Rightarrow>
        (case CreateCertificate (leaf_template env cn) (Some caCert) key caKey of
           Inl e \<Rightarrow> (Inl e, h) | Inr cert \<Rightarrow> (Inr (cert, key), h)))"

definition LoadX509KeyPair :: "host \<Rightarrow> string \<Rightarrow> string \<Rightarrow> string + (certificate \<times> key)" where
  "LoadX509KeyPair h certPath keyPath =
    (case (h_files h certPath, h_files h keyPath) of
       (Some (CertPEM cert), Some (KeyPEM key)) \<Rightarrow>
         (if x_key cert = key then Inr (cert, key) else Inl ''tls: private key does not match public key'')
     | _ \<Rightarrow> Inl ''tls: failed to find certificate or key'')"

definition ca_path :: "sidecar_env \<Rightarrow> string" where
  "ca_path env = se_tempDir env @ ''/mk-sidecar-ca.pem''"

definition ca_key_path :: "sidecar_env \<Rightarrow> string" where
  "ca_key_path env = se_tempDir env @ ''/mk-sidecar-ca.key''"

definition ensurePKI :: "sidecar_env \<Rightarrow> string \<Rightarrow> string \<Rightarrow> string \<Rightarrow> string \<Rightarrow> host
    \<Rightarrow> (string + (pem \<times> certificate \<times> key)) \<times> host" where
  "ensurePKI env caPath certPath keyPath sanName h =
    (if caPath \<noteq> [] \<and> certPath \<noteq> [] \<and> keyPath \<noteq> [] then
       (case h_files h caPath of
          None \<Rightarrow> (Inl ''open: no such file'', h)
        | Some caPEM \<Rightarrow>
           (case LoadX509KeyPair h certPath keyPath of
              Inl e \<Rightarrow> (Inl e, h) | Inr (leaf, key) \<Rightarrow> (Inr (caPEM, leaf, key), h)))
     else
       (case loadOrCreateCA env (ca_path env) (ca_key_path env) h of
          (Inl e, h) \<Rightarrow> (Inl e, h)
        | (Inr (caCert, caKey), h) \<Rightarrow>
           (case mintLeaf env caCert caKey sanName h of
              (Inl e, h) \<Rightarrow> (Inl e, h)
            | (Inr (leaf, key), h) \<Rightarrow> (Inr (CertPEM caCert, leaf, key), h))))"

text \<open>What \<open>main\<close> hands to the servers: the certificate of the pool, the leaf and its key.\<close>

record sidecar =
  sc_pool :: certificate
  sc_leaf :: certificate
  sc_key :: key

definition sidecar_main :: "sidecar_env \<Rightarrow> string \<Rightarrow> string \<Rightarrow> string \<Rightarrow> string \<Rightarrow> host \<Rightarrow> (string + sidecar) \<times> host" where
  "sidecar_main env caPath certPath keyPath serverName h =
    (case ensurePKI env caPath certPath keyPath serverName h of
       (Inl e, h) \<Rightarrow> (Inl e, h)
     | (Inr (caPEM, leaf, key), h) \<Rightarrow>
        (case caPEM of CertPEM ca \<Rightarrow> (Inr \<lparr>sc_pool = ca, sc_leaf = leaf, sc_key = key\<rparr>, h)
         | _ \<Rightarrow> (Inl ''sidecar: invalid CA PEM'', h)))"

section \<open>Connections\<close>

definition in_period :: "time \<Rightarrow> certificate \<Rightarrow> bool" where
  "in_period now c \<longleftrightarrow> x_notBefore c \<le> now \<and> now \<le> x_notAfter c"

definition has_usage :: "eku \<Rightarrow> certificate \<Rightarrow> bool" where
  "has_usage u c \<longleftrightarrow> x_eku c = [] \<or> u \<in> set (x_eku c)"

text \<open>Verification against a pool of one certificate: the certificate itself, or one it issued.\<close>

definition verify :: "time \<Rightarrow> certificate \<Rightarrow> eku \<Rightarrow> certificate \<Rightarrow> bool" where
  "verify now root u c \<longleftrightarrow> in_period now c \<and> has_usage u c \<and>
     (c = root \<or>
      x_signer c = x_key root \<and> x_issuer c = x_CN root \<and> x_isCA root \<and> x_certSign root \<and> in_period now root \<and> has_usage u root)"

text \<open>\<open>isIP name\<close>: \<open>net.ParseIP\<close> accepts the name. An address is only looked for among the addresses.\<close>

definition matches_name :: "(string \<Rightarrow> bool) \<Rightarrow> string \<Rightarrow> certificate \<Rightarrow> bool" where
  "matches_name isIP name c \<longleftrightarrow>
     (if isIP name then name \<in> set (x_ips c) else list_ex (\<lambda>d. ToLower d = ToLower name) (x_dns c))"

text \<open>
  The other end presents a certificate and signs with a key. \<open>Forwarded peer\<close>: the connection is
  joined to the upstream, \<open>peer\<close> being the common name in the log.
\<close>

record peer =
  peer_cert :: certificate
  peer_key :: key

datatype connection = HandshakeFailed | UpstreamDown | Forwarded string

definition server_conn :: "sidecar \<Rightarrow> time \<Rightarrow> bool \<Rightarrow> peer \<Rightarrow> connection" where
  "server_conn sc now upstream p =
    (if \<not> (verify now (sc_pool sc) ClientAuth (peer_cert p) \<and> x_key (peer_cert p) = peer_key p) then HandshakeFailed
     else if \<not> upstream then UpstreamDown
     else Forwarded (x_CN (peer_cert p)))"

text \<open>Without a \<open>ServerName\<close> the host of the upstream address is expected.\<close>

definition client_conn :: "(string \<Rightarrow> bool) \<Rightarrow> sidecar \<Rightarrow> string \<Rightarrow> string \<Rightarrow> time \<Rightarrow> peer \<Rightarrow> connection" where
  "client_conn isIP sc upstreamHost peerName now p =
    (if \<not> (verify now (sc_pool sc) ServerAuth (peer_cert p) \<and> matches_name isIP (nz peerName upstreamHost) (peer_cert p) \<and>
           x_key (peer_cert p) = peer_key p) then HandshakeFailed
     else Forwarded (x_CN (peer_cert p)))"

definition as_peer :: "sidecar \<Rightarrow> peer" where
  "as_peer sc = \<lparr>peer_cert = sc_leaf sc, peer_key = sc_key sc\<rparr>"

section \<open>A sidecar that issues its own leaf\<close>

lemma second_pos [simp]: "0 < second"
  by (simp add: second_def)

lemma whole_le: "whole t \<le> t" and whole_gt: "t < whole t + second"
proof -
  have "t = whole t + t mod second" by (simp add: whole_def)
  moreover have "0 \<le> t mod second" "t mod second < second" by simp_all
  ultimately show "whole t \<le> t" "t < whole t + second" by linarith+
qed

lemma loadOrCreateCA_existing:
  "h_files h cp = Some (CertPEM c) \<Longrightarrow> h_files h kp = Some (KeyPEM k) \<Longrightarrow> loadOrCreateCA env cp kp h = (Inr (c, k), h)"
  by (simp add: loadOrCreateCA_def)

text \<open>What a successful start leaves: a leaf of the pool's certificate, and the files as far as writable.\<close>

lemma start_auto:
  assumes "sidecar_main env [] c k san h = (Inr sc, h')"
  shows "x_key (sc_leaf sc) = sc_key sc" "x_signer (sc_leaf sc) = x_key (sc_pool sc)"
    "sc_leaf sc = (leaf_template env san)\<lparr>x_issuer := x_CN (sc_pool sc), x_notBefore := whole (se_now env - 60 * second),
       x_notAfter := whole (se_now env + 30 * 24 * 3600 * second), x_key := sc_key sc, x_signer := x_key (sc_pool sc)\<rparr>"
    "se_writable env (ca_path env) \<Longrightarrow> se_writable env (ca_key_path env) \<Longrightarrow>
      h_files h' (ca_path env) = Some (CertPEM (sc_pool sc)) \<and> (\<exists>key. h_files h' (ca_key_path env) = Some (KeyPEM key))"
proof -
  obtain ca key h1 where load: "loadOrCreateCA env (ca_path env) (ca_key_path env) h = (Inr (ca, key), h1)"
    using assms by (auto simp: sidecar_main_def ensurePKI_def split: prod.splits sum.splits)
  then obtain leaf lk where mint: "mintLeaf env ca key san h1 = (Inr (leaf, lk), h')"
    and sc: "sc = \<lparr>sc_pool = ca, sc_leaf = leaf, sc_key = lk\<rparr>"
    using assms by (auto simp: sidecar_main_def ensurePKI_def split: prod.splits sum.splits pem.splits)
  have leaf: "x_key ca = key" "leaf = (leaf_template env san)\<lparr>x_issuer := x_CN ca, x_notBefore := whole (se_now env - 60 * second),
      x_notAfter := whole (se_now env + 30 * 24 * 3600 * second), x_key := lk, x_signer := key\<rparr>"
    "h_files h' = h_files h1"
    using mint by (auto simp: mintLeaf_def GenerateKey_def CreateCertificate_def Let_def leaf_template_def split: if_splits)
  then show "x_key (sc_leaf sc) = sc_key sc" "x_signer (sc_leaf sc) = x_key (sc_pool sc)"
    "sc_leaf sc = (leaf_template env san)\<lparr>x_issuer := x_CN (sc_pool sc), x_notBefore := whole (se_now env - 60 * second),
       x_notAfter := whole (se_now env + 30 * 24 * 3600 * second), x_key := sc_key sc, x_signer := x_key (sc_pool sc)\<rparr>"
    by (simp_all add: sc)
  assume "se_writable env (ca_path env)" "se_writable env (ca_key_path env)"
  moreover have "ca_path env \<noteq> ca_key_path env" by (simp add: ca_path_def ca_key_path_def)
  ultimately have "h_files h1 (ca_path env) = Some (CertPEM ca) \<and> h_files h1 (ca_key_path env) = Some (KeyPEM key)"
    using load by (auto simp: loadOrCreateCA_def GenerateKey_def WriteFile_def split: option.splits pem.splits if_splits sum.splits)
  then show "h_files h' (ca_path env) = Some (CertPEM (sc_pool sc)) \<and> (\<exists>key. h_files h' (ca_key_path env) = Some (KeyPEM key))"
    by (simp add: sc leaf)
qed

lemma start_existing:
  assumes "sidecar_main env [] c k san h = (Inr sc, h')"
    and "h_files h (ca_path env) = Some (CertPEM ca)" "h_files h (ca_key_path env) = Some (KeyPEM key)"
  shows "sc_pool sc = ca" "h_files h' = h_files h"
  using assms by (auto simp: sidecar_main_def ensurePKI_def loadOrCreateCA_existing mintLeaf_def GenerateKey_def
      split: prod.splits sum.splits if_splits)

text \<open>Verification of such a leaf needs only the periods, once the pool's certificate is one of a CA.\<close>

lemma leaf_verifies:
  assumes "sidecar_main env [] c k san h = (Inr sc, h')"
    and "x_isCA (sc_pool sc)" "x_certSign (sc_pool sc)" "x_eku (sc_pool sc) = []" "in_period now (sc_pool sc)"
    and "se_now env \<le> now" "now \<le> se_now env + 30 * 24 * 3600 * second - second"
  shows "verify now (sc_pool sc) u (sc_leaf sc)" "\<not> isIP san \<Longrightarrow> matches_name isIP san (sc_leaf sc)"
proof -
  note leaf = start_auto(3) [OF assms(1)]
  have "in_period now (sc_leaf sc)"
    using assms(6,7) whole_le [of "se_now env - 60 * second"] whole_gt [of "se_now env + 30 * 24 * 3600 * second"] second_pos
    by (subst leaf) (simp add: in_period_def)
  moreover have "has_usage u (sc_leaf sc)" by (subst leaf) (cases u; simp add: has_usage_def leaf_template_def)
  moreover have "x_issuer (sc_leaf sc) = x_CN (sc_pool sc)" by (subst leaf) simp
  ultimately show "verify now (sc_pool sc) u (sc_leaf sc)"
    using assms(2-5) start_auto(2) [OF assms(1)] by (simp add: verify_def has_usage_def)
  show "\<not> isIP san \<Longrightarrow> matches_name isIP san (sc_leaf sc)"
    by (subst leaf) (simp add: matches_name_def leaf_template_def)
qed

section \<open>What the sidecars guarantee\<close>

text \<open>Two sidecars started one after the other on a host accept each other.\<close>

lemma siblings_connect:
  assumes A: "sidecar_main env1 [] c1 k1 san1 h = (Inr a, h1)" and B: "sidecar_main env2 [] c2 k2 san2 h1 = (Inr b, h2)"
    and shared: "se_tempDir env2 = se_tempDir env1" "se_writable env1 (ca_path env1)" "se_writable env1 (ca_key_path env1)"
    and ca: "x_isCA (sc_pool a)" "x_certSign (sc_pool a)" "x_eku (sc_pool a) = []" "in_period now (sc_pool a)"
    and periods: "se_now env1 \<le> now" "now \<le> se_now env1 + 30 * 24 * 3600 * second - second"
      "se_now env2 \<le> now" "now \<le> se_now env2 + 30 * 24 * 3600 * second - second"
    and name: "san1 \<noteq> []" "\<not> isIP san1"
  shows "server_conn a now True (as_peer b) = Forwarded san2 \<and>
    client_conn isIP b host san1 now (as_peer a) = Forwarded san1"
proof -
  obtain key where files: "h_files h1 (ca_path env1) = Some (CertPEM (sc_pool a))" "h_files h1 (ca_key_path env1) = Some (KeyPEM key)"
    using start_auto(4) [OF A shared(2,3)] by blast
  have paths: "ca_path env2 = ca_path env1" "ca_key_path env2 = ca_key_path env1"
    using shared(1) by (simp_all add: ca_path_def ca_key_path_def)
  have pool: "sc_pool b = sc_pool a"
    using start_existing(1) [OF B] files paths by simp
  note a = leaf_verifies [OF A ca periods(1,2)]
    and b = leaf_verifies [OF B, unfolded pool, OF ca periods(3,4)]
  have cn: "x_CN (sc_leaf a) = san1" "x_CN (sc_leaf b) = san2"
    using start_auto(3) [OF A] start_auto(3) [OF B] by (simp_all add: leaf_template_def)
  show ?thesis
    using a b start_auto(1) [OF A] start_auto(1) [OF B]
    using name by (simp add: server_conn_def client_conn_def as_peer_def pool cn nz_def)
qed

text \<open>Whoever gets through the server holds the key of a certificate that the CA issued, or the CA's own.\<close>

lemma server_conn_Forwarded:
  "server_conn sc now up p = Forwarded n \<Longrightarrow>
   up \<and> n = x_CN (peer_cert p) \<and> x_key (peer_cert p) = peer_key p \<and> in_period now (peer_cert p) \<and>
   (x_signer (peer_cert p) = x_key (sc_pool sc) \<or> peer_key p = x_key (sc_pool sc))"
  by (auto simp: server_conn_def verify_def split: if_splits)

text \<open>
  A CA found on disk is used as it is: a start succeeds and leaves the files alone, whatever the period of
  the certificate. Once it has expired no handshake succeeds.
\<close>

lemma start_with_ca:
  assumes "c = [] \<or> k = [] \<or> p = []" "h_files h (ca_path env) = Some (CertPEM ca)" "h_files h (ca_key_path env) = Some (KeyPEM (x_key ca))"
    and "se_random env (h_fresh h)"
  shows "\<exists>sc h'. sidecar_main env p c k san h = (Inr sc, h') \<and> sc_pool sc = ca \<and> h_files h' = h_files h"
  using assms
  by (auto simp: sidecar_main_def ensurePKI_def loadOrCreateCA_existing mintLeaf_def GenerateKey_def CreateCertificate_def Let_def)

lemma expired_pool_refuses:
  assumes "x_notAfter (sc_pool sc) < now"
  shows "server_conn sc now up p = HandshakeFailed \<and> client_conn isIP sc host name now p = HandshakeFailed"
  using assms by (auto simp: server_conn_def client_conn_def verify_def in_period_def)

end
