(* ===== verification/Dns.thy ===== *)
theory Dns
  imports Client
begin

text \<open>
  cmd/coredns-mini/main.go: the cache of service addresses and the answers of the DNS handler.
  \<open>net.ParseIP\<close> is the parameter \<open>parseIP\<close>; names are ASCII. The transport of DNS
  messages is the library's; the handler is a map from questions to answers.
\<close>

type_synonym cache = strmap

definition cache_lookup :: "cache \<Rightarrow> string \<Rightarrow> string option" where
  "cache_lookup c key = map_of c key"

definition cache_key :: "Service \<Rightarrow> string" where
  "cache_key s =
    (let ns = md_namespace (svc_metadata s); ns = (if ns = [] then ''default'' else ns) in
     md_name (svc_metadata s) @ ''.'' @ ns)"

definition cache_of :: "Service list \<Rightarrow> cache" where
  "cache_of svcs =
    fold (\<lambda>s m. if svcspec_clusterIP (svc_spec s) = [] then m else gset m (cache_key s) (svcspec_clusterIP (svc_spec s)))
      svcs []"

definition dns_refresh :: "'w Client \<Rightarrow> cache \<Rightarrow> 'w \<Rightarrow> (client_error + unit) \<times> cache \<times> 'w" where
  "dns_refresh cli c w =
    (case client_ListServices cli w of
       (Inl e, w) \<Rightarrow> (Inl e, c, w) | (Inr svcs, w) \<Rightarrow> (Inr (), cache_of svcs, w))"

definition refreshLoop :: "'w Client \<Rightarrow> (cache \<times> 'w) loop_event list \<Rightarrow> cache \<times> 'w \<Rightarrow> (cache \<times> 'w) option" where
  "refreshLoop cli = loop_run (\<lambda>_ s. Some (snd (dns_refresh cli (fst s) (snd s)))) 0"

definition TypeA :: int where "TypeA = 1"
definition TypeANY :: int where "TypeANY = 255"

record question =
  q_Name :: string
  q_Qtype :: int

record 'ip answer =
  a_Name :: string
  a_Ttl :: int
  a_A :: 'ip

text \<open>The key a question asks for; the empty key when the name has another form.\<close>

definition two_parts :: "string \<Rightarrow> string" where
  "two_parts s = (case Split s (CHR ''.'') of [a, b] \<Rightarrow> a @ ''.'' @ b | _ \<Rightarrow> [])"

definition key_of :: "string \<Rightarrow> string \<Rightarrow> string" where
  "key_of domain qname =
    (let name = ToLower qname; suffix1 = ''.svc.'' @ domain; suffix2 = ''.'' @ domain in
     if HasSuffix name suffix1 then two_parts (TrimSuffix name suffix1)
     else if HasSuffix name suffix2 then two_parts (TrimSuffix name suffix2)
     else [])"

definition answer_one :: "(string \<Rightarrow> 'ip) \<Rightarrow> string \<Rightarrow> cache \<Rightarrow> question \<Rightarrow> 'ip answer option" where
  "answer_one parseIP domain c q =
    (let key = key_of domain (q_Name q) in
     if key = [] then None
     else case cache_lookup c key of
       None \<Rightarrow> None
     | Some ip \<Rightarrow>
        (if q_Qtype q \<noteq> TypeA \<and> q_Qtype q \<noteq> TypeANY then None
         else Some \<lparr>a_Name = q_Name q, a_Ttl = 5, a_A = parseIP ip\<rparr>))"

definition dns_handler :: "(string \<Rightarrow> 'ip) \<Rightarrow> string \<Rightarrow> cache \<Rightarrow> question list \<Rightarrow> 'ip answer list" where
  "dns_handler parseIP domain c qs = List.map_filter (answer_one parseIP domain c) qs"

section \<open>The cache\<close>

lemma cache_of_snoc:
  "cache_of (svcs @ [s]) =
    (if svcspec_clusterIP (svc_spec s) = [] then cache_of svcs
     else gset (cache_of svcs) (cache_key s) (svcspec_clusterIP (svc_spec s)))"
  by (simp add: cache_of_def)

lemma cache_of_sound:
  "map_of (cache_of svcs) key = Some ip \<Longrightarrow>
   \<exists>s \<in> set svcs. cache_key s = key \<and> svcspec_clusterIP (svc_spec s) = ip \<and> ip \<noteq> []"
  by (induction svcs rule: rev_induct) (auto simp: cache_of_snoc split: if_splits, simp add: cache_of_def)

lemma cache_of_complete:
  "s \<in> set svcs \<Longrightarrow> svcspec_clusterIP (svc_spec s) \<noteq> [] \<Longrightarrow> \<exists>ip. map_of (cache_of svcs) (cache_key s) = Some ip"
  by (induction svcs rule: rev_induct) (auto simp: cache_of_snoc)

text \<open>With distinct keys every service with an address is found under its own key.\<close>

lemma cache_of_exact:
  "distinct (map cache_key svcs) \<Longrightarrow> s \<in> set svcs \<Longrightarrow> svcspec_clusterIP (svc_spec s) \<noteq> [] \<Longrightarrow>
   map_of (cache_of svcs) (cache_key s) = Some (svcspec_clusterIP (svc_spec s))"
proof (induction svcs rule: rev_induct)
  case Nil
  then show ?case by simp
next
  case (snoc t svcs)
  show ?case
  proof (cases "s = t")
    case True
    with snoc.prems show ?thesis by (simp add: cache_of_snoc)
  next
    case False
    with snoc.prems have s: "s \<in> set svcs" by simp
    from snoc.prems(1) have "cache_key t \<notin> cache_key ` set svcs" by simp
    with s have "cache_key s \<noteq> cache_key t" by (metis imageI)
    with snoc s show ?thesis by (simp add: cache_of_snoc)
  qed
qed

section \<open>The answers\<close>

lemma ToLower_append [simp]: "ToLower (s @ t) = ToLower s @ ToLower t"
  by (simp add: ToLower_def)

lemma two_parts_join:
  "CHR ''.'' \<notin> set a \<Longrightarrow> CHR ''.'' \<notin> set b \<Longrightarrow> two_parts (a @ ''.'' @ b) = a @ ''.'' @ b"
  by (simp add: two_parts_def Split_append_sep Split_no_sep)

lemma key_of_service:
  assumes "ToLower a = a" "ToLower b = b" "CHR ''.'' \<notin> set a" "CHR ''.'' \<notin> set b" "ToLower domain = domain"
  shows "key_of domain (a @ ''.'' @ b @ ''.svc.'' @ domain) = a @ ''.'' @ b"
proof -
  have low: "ToLower (a @ ''.'' @ b @ ''.svc.'' @ domain) = (a @ ''.'' @ b) @ (''.svc.'' @ domain)"
    using assms by (simp add: ToLower_def lower_char_def)
  note suffix = HasSuffix_append [of "a @ ''.'' @ b" "''.svc.'' @ domain"]
    TrimSuffix_append [of "a @ ''.'' @ b" "''.svc.'' @ domain"]
  show ?thesis
    by (simp only: key_of_def Let_def low suffix if_True two_parts_join [OF assms(3,4)])
qed

lemma dns_answers_service:
  assumes "distinct (map cache_key svcs)" "s \<in> set svcs" "svcspec_clusterIP (svc_spec s) \<noteq> []"
    and "md_name (svc_metadata s) = a" "nz (md_namespace (svc_metadata s)) ''default'' = b"
    and "ToLower a = a" "ToLower b = b" "CHR ''.'' \<notin> set a" "CHR ''.'' \<notin> set b" "ToLower domain = domain"
  shows "dns_handler parseIP domain (cache_of svcs) [\<lparr>q_Name = a @ ''.'' @ b @ ''.svc.'' @ domain, q_Qtype = TypeA\<rparr>] =
    [\<lparr>a_Name = a @ ''.'' @ b @ ''.svc.'' @ domain, a_Ttl = 5, a_A = parseIP (svcspec_clusterIP (svc_spec s))\<rparr>]"
proof -
  have key: "cache_key s = a @ ''.'' @ b" using assms(4,5) by (simp add: cache_key_def nz_def Let_def split: if_splits)
  have "key_of domain (a @ ''.'' @ b @ ''.svc.'' @ domain) = cache_key s"
    using key_of_service [OF assms(6-10)] by (simp only: key)
  moreover have "cache_key s \<noteq> []" by (simp add: key)
  ultimately show ?thesis
    using cache_of_exact [OF assms(1-3)]
    by (simp add: dns_handler_def answer_one_def cache_lookup_def map_filter_def TypeA_def del: append.simps)
qed

lemma dns_answers_sound:
  assumes "ans \<in> set (dns_handler parseIP domain (cache_of svcs) qs)"
  shows "\<exists>q \<in> set qs. \<exists>s \<in> set svcs. a_Name ans = q_Name q \<and> (q_Qtype q = TypeA \<or> q_Qtype q = TypeANY) \<and>
    key_of domain (q_Name q) = cache_key s \<and> a_A ans = parseIP (svcspec_clusterIP (svc_spec s)) \<and>
    svcspec_clusterIP (svc_spec s) \<noteq> []"
proof -
  from assms obtain q where q: "q \<in> set qs" "answer_one parseIP domain (cache_of svcs) q = Some ans"
    by (auto simp: dns_handler_def map_filter_def)
  then obtain ip where "map_of (cache_of svcs) (key_of domain (q_Name q)) = Some ip"
    "q_Qtype q = TypeA \<or> q_Qtype q = TypeANY" "ans = \<lparr>a_Name = q_Name q, a_Ttl = 5, a_A = parseIP ip\<rparr>"
    by (auto simp: answer_one_def cache_lookup_def Let_def split: if_splits option.splits)
  moreover from this(1) cache_of_sound obtain s where "s \<in> set svcs" "cache_key s = key_of domain (q_Name q)"
    "svcspec_clusterIP (svc_spec s) = ip" "ip \<noteq> []" by blast
  ultimately show ?thesis using q(1) by (intro bexI [of _ q] bexI [of _ s]) simp_all
qed

end
