(* ===== verification/Metrics_Server.thy ===== *)
theory Metrics_Server
  imports Hpa Federation
begin

text \<open>
  cmd/metrics-server/main.go: the cache of pod metrics scraped from the kubelets, and the endpoint
  that serves it; internal/operator/operator.go: the loop of an operator over its custom resources.
\<close>

definition TrimRight_slash :: "string \<Rightarrow> string" where
  "TrimRight_slash s = rev (dropWhile (\<lambda>c. c = CHR ''/'') (rev s))"

definition scrape_one :: "(string \<Rightarrow> 'w transport) \<Rightarrow> string \<Rightarrow> 'w \<Rightarrow> PodMetric list \<times> 'w" where
  "scrape_one kubelet k w =
    (case kubelet (TrimRight_slash k) (http_get ''/metrics/pods'' []) w of
       (Inl _, w) \<Rightarrow> ([], w)
     | (Inr r, w) \<Rightarrow>
        (if resp_code r \<noteq> 200 then ([], w)
         else (case decode_payload (dec_items dec_PodMetric zero_PodMetric) [] (resp_body r) of
                 Inl _ \<Rightarrow> ([], w) | Inr items \<Rightarrow> (items, w))))"

fun scrapeOnce :: "(string \<Rightarrow> 'w transport) \<Rightarrow> string list \<Rightarrow> 'w \<Rightarrow> PodMetric list \<times> 'w" where
  "scrapeOnce kubelet [] w = ([], w)"
| "scrapeOnce kubelet (k # ks) w =
    (let (items, w) = scrape_one kubelet k w; (rest, w) = scrapeOnce kubelet ks w in (items @ rest, w))"

definition handlePodMetrics :: "PodMetric list \<Rightarrow> response" where
  "handlePodMetrics cache = \<lparr>resp_code = 200, resp_body = JsonBody (JObj [(''items'', enc_list enc_PodMetric cache)])\<rparr>"

definition scrapeLoop :: "(string \<Rightarrow> 'w transport) \<Rightarrow> string list \<Rightarrow> (PodMetric list \<times> 'w) loop_event list
    \<Rightarrow> PodMetric list \<times> 'w \<Rightarrow> (PodMetric list \<times> 'w) option" where
  "scrapeLoop kubelet ks = loop_run (\<lambda>_ s. Some (scrapeOnce kubelet ks (snd s))) 0"

text \<open>What the autoscaler fetches from this endpoint is the cache.\<close>

lemma fetchMetrics_cache:
  assumes "list_all wf_PodMetric cache" "hc_Metrics hc = Some T"
    "T (http_get ''/apis/metrics.mk.io/v1/pods'' []) w = (Inr (handlePodMetrics cache), w')"
  shows "fetchMetrics hc w = (Inr cache, w')"
  using assms dec_items_read [OF PodMetric_codec.list_roundtrip [OF assms(1)]]
  by (simp add: fetchMetrics_def http_get_def handlePodMetrics_def decode_payload_def)

section \<open>Operators\<close>

text \<open>\<open>Reconciler.Reconcile\<close> is the operator's own code; its error is only logged.\<close>

definition operator_reconcileAll :: "'w Client \<Rightarrow> string \<Rightarrow> (CustomResource \<Rightarrow> 'w \<Rightarrow> (string + unit) \<times> 'w) \<Rightarrow> 'w \<Rightarrow> 'w" where
  "operator_reconcileAll c crdName reconcile w =
    (case client_ListCustomResources c crdName w of
       (Inl _, w) \<Rightarrow> w | (Inr crs, w) \<Rightarrow> fold (\<lambda>cr w. snd (reconcile cr w)) crs w)"

definition operator_Run :: "'w Client \<Rightarrow> string \<Rightarrow> (CustomResource \<Rightarrow> 'w \<Rightarrow> (string + unit) \<times> 'w) \<Rightarrow> 'w loop_event list \<Rightarrow> 'w
    \<Rightarrow> 'w option" where
  "operator_Run c crdName reconcile = loop_run (\<lambda>_ w. Some (operator_reconcileAll c crdName reconcile w)) 0"

end
