(* ===== verification/Webhooks.thy ===== *)
theory Webhooks
  imports Http
begin

text \<open>
  The webhooks of the repository: cmd/sample-webhook (a label mutator and a memory limit validator)
  and cmd/mk-sidecar-injector. A handler takes the body of the review request; a panic, which
  net/http answers by closing the connection, is \<open>None\<close>. \<open>jerr\<close> is the error text of encoding/json.
\<close>

definition writeResp :: "AdmissionReviewResponse \<Rightarrow> response option" where
  "writeResp resp = Some \<lparr>resp_code = 200, resp_body = JsonBody (enc_AdmissionReviewResponse resp)\<rparr>"

definition bad_request :: "response option" where
  "bad_request = Some \<lparr>resp_code = 400, resp_body = TextBody InvalidJson\<rparr>"

definition allow :: "AdmissionReviewRequest \<Rightarrow> AdmissionReviewResponse" where
  "allow req = zero_AdmissionReviewResponse\<lparr>aresp_UID := areq_UID req, aresp_allowed := True\<rparr>"

definition deny :: "AdmissionReviewRequest \<Rightarrow> string \<Rightarrow> AdmissionReviewResponse" where
  "deny req msg = zero_AdmissionReviewResponse\<lparr>aresp_UID := areq_UID req, aresp_message := msg\<rparr>"

text \<open>\<open>json.Unmarshal(req.Object, \<dots>)\<close>: the nil message is no JSON text.\<close>

definition unmarshal_raw :: "'a dec \<Rightarrow> 'a \<Rightarrow> json option \<Rightarrow> 'a option" where
  "unmarshal_raw d z raw =
    (case raw of None \<Rightarrow> None | Some j \<Rightarrow> (let (x, ok) = d j z in if ok then Some x else None))"

section \<open>cmd/sample-webhook\<close>

definition as_map :: "json option \<Rightarrow> (string \<times> json) list" where
  "as_map j = (case j of Some (JObj kvs) \<Rightarrow> gcopy [] kvs | _ \<Rightarrow> [])"

definition add_label :: "(string \<times> json) list \<Rightarrow> json" where
  "add_label obj =
    (let md = as_map (map_of obj ''metadata'');
         labels = as_map (map_of md ''labels'');
         labels = gset (gset labels ''mk-admitted'' (JStr ''true'')) ''mk-admitted-at'' (JStr ''webhook'') in
     JObj (gset obj ''metadata'' (JObj (gset md ''labels'' (JObj labels)))))"

text \<open>A null object is the nil map, and writing to it panics.\<close>

definition mutateAddLabel :: "body \<Rightarrow> response option" where
  "mutateAddLabel b =
    (case Decode dec_AdmissionReviewRequest zero_AdmissionReviewRequest b of
       None \<Rightarrow> bad_request
     | Some req \<Rightarrow>
        (case unmarshal_raw (dec_map dec_any JNull) [] (areq_object req) of
           None \<Rightarrow> bad_request
         | Some obj \<Rightarrow>
            (if areq_object req = Some JNull then None
             else writeResp ((allow req)\<lparr>aresp_patch := Some (add_label obj)\<rparr>))))"

definition lacks_limit :: "Container \<Rightarrow> bool" where
  "lacks_limit c \<longleftrightarrow> gget (rr_limits (c_resources c)) ''memory'' = []"

definition validateMemLimit :: "(json \<Rightarrow> string) \<Rightarrow> body \<Rightarrow> response option" where
  "validateMemLimit jerr b =
    (case Decode dec_AdmissionReviewRequest zero_AdmissionReviewRequest b of
       None \<Rightarrow> bad_request
     | Some req \<Rightarrow>
        (if areq_resource req \<noteq> ''pods'' then writeResp (allow req)
         else case unmarshal_raw dec_Pod zero_Pod (areq_object req) of
           None \<Rightarrow> writeResp (deny req (''cannot parse Pod: '' @ (case areq_object req of None \<Rightarrow> ''unexpected end of JSON input'' | Some j \<Rightarrow> jerr j)))
         | Some p \<Rightarrow>
            (case find lacks_limit (podspec_containers (pod_spec p)) of
               Some c \<Rightarrow> writeResp (deny req (''container '' @ c_name c @ '' missing resources.limits.memory''))
             | None \<Rightarrow> writeResp (allow req))))"

section \<open>cmd/mk-sidecar-injector\<close>

definition injectLabel :: string where "injectLabel = ''mk.io/inject-sidecar''"
definition sidecarImage :: string where "sidecarImage = ''mk-sidecar:dev''"

definition sidecar :: Container where
  "sidecar = zero_Container\<lparr>c_name := ''mk-sidecar'', c_image := sidecarImage,
     c_args := [''-mode=server'', ''-listen=:9443'', ''-upstream=127.0.0.1:8080''],
     c_ports := [\<lparr>cp_name = ''mtls'', cp_containerPort = 9443, cp_protocol = ''TCP''\<rparr>]\<rparr>"

definition with_sidecar :: "Pod \<Rightarrow> Pod" where
  "with_sidecar p =
    p\<lparr>pod_spec := (pod_spec p)\<lparr>podspec_containers := podspec_containers (pod_spec p) @ [sidecar]\<rparr>,
      pod_metadata := (pod_metadata p)\<lparr>md_labels := gset (md_labels (pod_metadata p)) ''mk.io/sidecar-injected'' ''true''\<rparr>\<rparr>"

definition has_sidecar :: "Pod \<Rightarrow> bool" where
  "has_sidecar p \<longleftrightarrow> list_ex (\<lambda>c. c_name c = ''mk-sidecar'') (podspec_containers (pod_spec p))"

definition opted_in :: "Pod \<Rightarrow> bool" where
  "opted_in p \<longleftrightarrow> gget (md_labels (pod_metadata p)) injectLabel = ''true''"

definition injectSidecar :: "(json \<Rightarrow> string) \<Rightarrow> body \<Rightarrow> response option" where
  "injectSidecar jerr b =
    (case Decode dec_AdmissionReviewRequest zero_AdmissionReviewRequest b of
       None \<Rightarrow> bad_request
     | Some req \<Rightarrow>
        (if areq_resource req \<noteq> ''pods'' then writeResp (allow req)
         else case unmarshal_raw dec_Pod zero_Pod (areq_object req) of
           None \<Rightarrow> writeResp (deny req (''cannot parse Pod: '' @ (case areq_object req of None \<Rightarrow> ''unexpected end of JSON input'' | Some j \<Rightarrow> jerr j)))
         | Some p \<Rightarrow>
            (if \<not> opted_in p then writeResp (allow req)
             else if has_sidecar p then writeResp (allow req)
             else writeResp ((allow req)\<lparr>aresp_patch := Some (enc_Pod (with_sidecar p))\<rparr>))))"

section \<open>The webhooks behind the admission pipeline\<close>

text \<open>The answer the pipeline sees of a webhook served at its URL.\<close>

definition reply_of :: "response option \<Rightarrow> reply" where
  "reply_of r = (case r of None \<Rightarrow> TransportError ''EOF''
     | Some r \<Rightarrow> Reply (resp_code r) (case resp_body r of JsonBody j \<Rightarrow> Some j | _ \<Rightarrow> None))"

definition served_by :: "(body \<Rightarrow> response option) \<Rightarrow> AdmissionReviewRequest \<Rightarrow> reply" where
  "served_by h req = reply_of (h (Doc (enc_AdmissionReviewRequest req)))"

lemma writeResp_read:
  "reply_of (writeResp r) = Reply 200 (Some (enc_AdmissionReviewResponse r))"
  by (simp add: writeResp_def reply_of_def)

lemma Decode_request:
  "areq_object req \<noteq> None \<Longrightarrow>
   Decode dec_AdmissionReviewRequest zero_AdmissionReviewRequest (Doc (enc_AdmissionReviewRequest req)) = Some req"
  by (simp add: Decode_def wf_AdmissionReviewRequest_def)

lemma unmarshal_raw_Pod: "wf_Pod p \<Longrightarrow> unmarshal_raw dec_Pod zero_Pod (Some (enc_Pod p)) = Some p"
  by (simp add: unmarshal_raw_def)

lemma with_sidecar_wf: "wf_Pod p \<Longrightarrow> wf_Pod (with_sidecar p)"
  by (simp add: with_sidecar_def wf_Pod_def wf_Metadata_def wf_PodSpec_def sidecar_def wf_Container_def
      zero_Container_def zero_ResourceRequirements_def wf_ResourceRequirements_def wf_ContainerPort_def int64_ok_def)

lemma with_sidecar_has: "has_sidecar (with_sidecar p)"
  by (simp add: with_sidecar_def has_sidecar_def sidecar_def)

definition answer_read :: "AdmissionReviewResponse \<Rightarrow> call_result" where
  "answer_read r = (if \<not> aresp_allowed r then Inr (None, nz (aresp_message r) ''denied'') else Inr (aresp_patch r, []))"

lemma call_answer:
  assumes "net (wh_URL h) = served_by f" "f (Doc (enc_AdmissionReviewRequest (review_request rnd h a obj))) = writeResp r"
  shows "call net rnd h a obj = answer_read r"
proof -
  have "net (wh_URL h) (review_request rnd h a obj) = Reply 200 (Some (enc_AdmissionReviewResponse r))"
    by (simp add: assms served_by_def writeResp_read)
  then show ?thesis
    by (simp add: call_def review_request_def Let_def answer_read_def wf_AdmissionReviewResponse_def)
qed

lemma review_request_simps [simp]:
  "areq_object (review_request rnd h a obj) = Some obj" "areq_resource (review_request rnd h a obj) = ra_resource a"
  by (simp_all add: review_request_def)

lemma injectSidecar_answer:
  "wf_Pod p \<Longrightarrow> areq_object req = Some (enc_Pod p) \<Longrightarrow> areq_resource req = ''pods'' \<Longrightarrow>
   injectSidecar jerr (Doc (enc_AdmissionReviewRequest req)) =
     writeResp ((allow req)\<lparr>aresp_patch := (if opted_in p \<and> \<not> has_sidecar p then Some (enc_Pod (with_sidecar p)) else None)\<rparr>)"
  by (simp add: injectSidecar_def Decode_request unmarshal_raw_Pod)
    (simp add: allow_def zero_AdmissionReviewResponse_def)

lemma validateMemLimit_answer:
  "wf_Pod p \<Longrightarrow> areq_object req = Some (enc_Pod p) \<Longrightarrow> areq_resource req = ''pods'' \<Longrightarrow>
   validateMemLimit jerr (Doc (enc_AdmissionReviewRequest req)) =
     (case find lacks_limit (podspec_containers (pod_spec p)) of
        Some c \<Rightarrow> writeResp (deny req (''container '' @ c_name c @ '' missing resources.limits.memory''))
      | None \<Rightarrow> writeResp (allow req))"
  by (simp add: validateMemLimit_def Decode_request unmarshal_raw_Pod)

lemma call_injector:
  assumes "wf_Pod p" "net (wh_URL h) = served_by (injectSidecar jerr)" "ra_resource a = ''pods''"
  shows "call net rnd h a (enc_Pod p) =
    Inr (if opted_in p \<and> \<not> has_sidecar p then Some (enc_Pod (with_sidecar p)) else None, [])"
  using call_answer [where net = net and h = h, OF assms(2) injectSidecar_answer [OF assms(1)]] assms(3)
  by (simp add: answer_read_def allow_def)

lemma validator_passes:
  assumes "wf_Pod p" "net (wh_URL h) = served_by (validateMemLimit jerr)" "ra_resource a = ''pods''"
  shows "passes net rnd a h (enc_Pod p) \<longleftrightarrow> list_all (\<lambda>c. \<not> lacks_limit c) (podspec_containers (pod_spec p))"
proof (cases "find lacks_limit (podspec_containers (pod_spec p))")
  case None
  then have "list_all (\<lambda>c. \<not> lacks_limit c) (podspec_containers (pod_spec p))"
    by (auto simp: find_None_iff list_all_iff)
  moreover have "call net rnd h a (enc_Pod p) = answer_read (allow (review_request rnd h a (enc_Pod p)))"
    by (rule call_answer [where net = net and h = h, OF assms(2)]) (simp add: validateMemLimit_answer [OF assms(1)] assms None)
  ultimately show ?thesis by (simp add: passes_def answer_read_def allow_def)
next
  case (Some c)
  then have "\<not> list_all (\<lambda>c. \<not> lacks_limit c) (podspec_containers (pod_spec p))"
    by (auto simp: find_Some_iff list_all_iff)
  moreover have "call net rnd h a (enc_Pod p) =
      answer_read (deny (review_request rnd h a (enc_Pod p)) (''container '' @ c_name c @ '' missing resources.limits.memory''))"
    by (rule call_answer [where net = net and h = h, OF assms(2)]) (simp add: validateMemLimit_answer [OF assms(1)] assms Some)
  ultimately show ?thesis
    by (simp add: passes_def answer_read_def deny_def nz_def zero_AdmissionReviewResponse_def)
qed

text \<open>The injector is idempotent: a second call leaves its own output alone.\<close>

lemma injector_idempotent:
  assumes "wf_Pod p" "net (wh_URL h) = served_by (injectSidecar jerr)" "ra_resource a = ''pods''"
  shows "patched net rnd a h (patched net rnd a h (enc_Pod p)) = patched net rnd a h (enc_Pod p)"
    and "passes net rnd a h (enc_Pod p)"
proof -
  have 1: "patched net rnd a h (enc_Pod q) = (if opted_in q \<and> \<not> has_sidecar q then enc_Pod (with_sidecar q) else enc_Pod q)"
    if "wf_Pod q" for q
    using call_injector [where net = net and h = h, OF that assms(2,3)] by (simp add: patched_def)
  show "patched net rnd a h (patched net rnd a h (enc_Pod p)) = patched net rnd a h (enc_Pod p)"
    using 1 [OF assms(1)] 1 [OF with_sidecar_wf [OF assms(1)]] with_sidecar_has by simp
  show "passes net rnd a h (enc_Pod p)"
    using call_injector [where net = net and h = h, OF assms] by (simp add: passes_def)
qed

end
