(* ===== verification/Samples.thy ===== *)
theory Samples
  imports Service_Server Fleet Post_Race Mkctl_Server Sidecar Dns Metrics_Server Webhooks
begin

text \<open>
  A small cluster on which the properties of the root theory are exercised: a pod \<open>web-0\<close> of the
  replica set \<open>web\<close>, a pod \<open>db\<close> already scheduled, the servers that hold them, an administrator
  with a token, and a runtime of echo stubs.
\<close>

definition box :: Container where
  "box = zero_Container\<lparr>c_name := ''main'', c_image := ''nginx''\<rparr>"

definition pod_web :: Pod where
  "pod_web = zero_Pod\<lparr>pod_apiVersion := ''v1'', pod_kind := ''Pod'',
     pod_metadata := zero_Metadata\<lparr>md_name := ''web-0'', md_labels := [(LabelReplicaSet, ''web''), (''app'', ''web'')]\<rparr>,
     pod_spec := \<lparr>podspec_containers = [box]\<rparr>\<rparr>"

definition pod_db :: Pod where
  "pod_db = pod_web\<lparr>pod_metadata := zero_Metadata\<lparr>md_name := ''db''\<rparr>,
     pod_status := zero_PodStatus\<lparr>ps_phase := PhaseScheduled, ps_nodeName := ''node-1''\<rparr>\<rparr>"

lemma box_wf [simp]: "wf_Container box"
  by (simp add: box_def wf_Container_def zero_Container_def wf_ResourceRequirements_def zero_ResourceRequirements_def)

lemma pod_web_wf [simp]: "wf_Pod pod_web" and pod_db_wf [simp]: "wf_Pod pod_db"
  by (simp_all add: pod_web_def pod_db_def wf_Pod_def wf_Metadata_def wf_PodSpec_def zero_Pod_def zero_PodStatus_def
      wf_PodStatus_def map_ok_def LabelReplicaSet_def zero_Metadata_def)

lemma pod_sample_simps [simp]:
  "md_name (pod_metadata pod_web) = ''web-0''" "md_name (pod_metadata pod_db) = ''db''"
  "podspec_containers (pod_spec pod_web) = [box]" "podspec_containers (pod_spec pod_db) = [box]"
  "ps_phase (pod_status pod_web) = []" "ps_phase (pod_status pod_db) = PhaseScheduled"
  "ps_nodeName (pod_status pod_db) = ''node-1''"
  "pod_apiVersion pod_web = ''v1''" "pod_kind pod_web = ''Pod''"
  "pod_apiVersion pod_db = ''v1''" "pod_kind pod_db = ''Pod''"
  by (simp_all add: pod_web_def pod_db_def zero_Pod_def zero_PodStatus_def)

definition put_pod :: "Pod \<Rightarrow> store \<Rightarrow> store" where
  "put_pod p st = (case UpsertPod no_faults 5 p st of Inr st \<Rightarrow> st | Inl _ \<Rightarrow> st)"

lemma put_pod_run: "UpsertPod no_faults 5 p st = Inr (put_pod p st)"
  using pod_put_ok [of 5 p st] by (auto simp: put_pod_def is_ok_iff)

lemma put_pod_ok: "store_ok st \<Longrightarrow> wf_Pod p \<Longrightarrow> store_ok (put_pod p st)"
  using UpsertPod_ok put_pod_run by blast

lemma put_pod_get: "store_ok st \<Longrightarrow> wf_Pod p \<Longrightarrow>
  GetPod no_faults (put_pod p st) n = (if n = md_name (pod_metadata p)
    then Inr (stored_pod 5 (old_of (GetPod no_faults st n)) p) else GetPod no_faults st n)"
  using pod_store.put_get [OF store_ok_pod_table _ put_pod_run] by (simp add: pod_key_def)

definition st_web :: store where "st_web = put_pod pod_web empty_store"
definition st_two :: store where "st_two = put_pod pod_db st_web"

definition server_of :: "store \<Rightarrow> server" where
  "server_of st = \<lparr>srv_st = st, srv_next = 1\<rparr>"

definition world_of :: "store \<Rightarrow> world" where
  "world_of st = \<lparr>w_sv = server_of st, w_n = 0\<rparr>"

lemma world_of_simps [simp]: "srv_st (server_of st) = st" "w_sv (world_of st) = server_of st"
  by (simp_all add: server_of_def world_of_def)

lemma server_of_update [simp]: "(server_of st)\<lparr>srv_st := st'\<rparr> = server_of st'"
  by (simp add: server_of_def)

lemma GetPod_empty [simp]: "GetPod no_faults empty_store n = Inl ErrNotFound"
  by (simp add: GetPod_def empty_store_def query_row_NotFound no_faults_simp)

lemma st_web_ok [simp]: "store_ok st_web"
  by (simp add: st_web_def put_pod_ok store_ok_empty)

lemma st_two_ok [simp]: "store_ok st_two"
  by (simp add: st_two_def put_pod_ok)

definition web_row :: Pod where "web_row = stored_pod 5 None pod_web"
definition db_row :: Pod where "db_row = stored_pod 5 None pod_db"

lemma row_simps [simp]:
  "ps_phase (pod_status web_row) = PhasePending" "ps_phase (pod_status db_row) = PhaseScheduled"
  "ps_nodeName (pod_status db_row) = ''node-1''" "pod_metadata web_row = pod_metadata pod_web"
  "pod_metadata db_row = pod_metadata pod_db" "pod_spec web_row = pod_spec pod_web" "pod_spec db_row = pod_spec pod_db"
  by (simp_all add: web_row_def db_row_def stored_pod_def Let_def phase_defs)

lemma live_samples:
  "live_pods (world_of empty_store) n = None"
  "live_pods (world_of st_web) n = (if n = ''web-0'' then Some web_row else None)"
  "live_pods (world_of st_two) n = (if n = ''db'' then Some db_row else if n = ''web-0'' then Some web_row else None)"
  by (simp_all add: live_pods_def st_two_def st_web_def put_pod_get store_ok_empty put_pod_ok web_row_def db_row_def)

lemma put_pod_hooks [simp]: "t_admission_webhooks (put_pod p st) = t_admission_webhooks st"
  using UpsertPod_tables [OF put_pod_run] by simp

lemma unhooked_samples [simp]:
  "unhooked (world_of empty_store)" "unhooked (world_of st_web)" "unhooked (world_of st_two)"
  by (simp_all add: unhooked_def store_ok_empty) (simp_all add: st_two_def st_web_def empty_store_def)

lemma plain_samples [simp]: "plain ''web-0''" "plain ''db''" "plain ''web''"
  by (simp_all add: plain_def)

lemma plain_names_two: "plain_names (world_of st_two)"
  by (simp add: plain_names_def live_samples)

text \<open>A pod whose name no URL can hold.\<close>

definition pod_odd :: Pod where
  "pod_odd = pod_web\<lparr>pod_metadata := zero_Metadata\<lparr>md_name := ''50%off''\<rparr>\<rparr>"

definition st_odd :: store where "st_odd = put_pod pod_odd empty_store"

lemma odd_pod:
  "unhooked (world_of st_odd)" "live_pods (world_of st_odd) ''50%off'' = Some (stored_pod 5 None pod_odd)"
  "ps_phase (pod_status (stored_pod 5 None pod_odd)) = PhasePending" "parse_target (status_path ''50%off'') = BadUrl"
proof -
  have wf: "wf_Pod pod_odd" using pod_web_wf by (simp add: pod_odd_def wf_Pod_def wf_Metadata_def map_ok_def zero_Metadata_def)
  then show "unhooked (world_of st_odd)"
    by (simp add: unhooked_def st_odd_def put_pod_ok store_ok_empty) (simp add: empty_store_def)
  show "live_pods (world_of st_odd) ''50%off'' = Some (stored_pod 5 None pod_odd)"
    using put_pod_get [OF store_ok_empty wf, of "''50%off''"] by (simp add: live_pods_def st_odd_def pod_odd_def)
  show "ps_phase (pod_status (stored_pod 5 None pod_odd)) = PhasePending"
    by (simp add: pod_odd_def stored_pod_def Let_def phase_defs)
  show "parse_target (status_path ''50%off'') = BadUrl"
    using status_path_bad [of "''50''" "CHR ''o''" "''ff''"] by (simp add: hex_value_def)
qed

section \<open>The outside\<close>

definition still :: "nat \<Rightarrow> time" where "still n = 5"
definition silent :: net where "silent url req = TransportError ''connection refused''"
definition no_uid :: "string \<Rightarrow> string" where "no_uid s = s"

definition env0 :: env where "env0 = healthy_env still silent no_uid 0"
definition config0 :: config where "config0 = default_config True ''apiserver-1''"

definition post_web :: request where
  "post_web = \<lparr>req_method = ''POST'', req_path = ''/api/v1/pods'', req_query = [], req_auth = [],
     req_body = Doc (enc_Pod pod_web)\<rparr>"

lemma createPod_web:
  assumes "t_admission_webhooks (srv_st sv) = []" "store_ok (srv_st sv)" "req_body req = Doc (enc_Pod pod_web)"
  shows "\<exists>r. createPod env0 req sv = (r, sv\<lparr>srv_st := put_pod pod_web (srv_st sv)\<rparr>) \<and> (\<forall>q. resp_body r \<noteq> RedirectTo q)"
proof -
  have same: "pod_web\<lparr>pod_apiVersion := ''v1'', pod_kind := ''Pod''\<rparr> = pod_web" by (simp add: pod_web_def)
  have "env_drv env0 = no_faults" "env_now env0 = 5" by (simp_all add: env0_def still_def)
  with createPod_effect [of sv pod_web env0 req] assms same put_pod_run [of pod_web "srv_st sv"]
  show ?thesis by auto
qed

lemma serve_post_web: "\<exists>r. serve config0 env0 post_web (server_of empty_store) = (r, server_of st_web)"
proof -
  have "\<exists>r. createPod env0 post_web (server_of empty_store) = (r, server_of st_web)"
    using createPod_web [of "server_of empty_store" post_web] store_ok_empty
    by (auto simp: post_web_def st_web_def server_of_def empty_store_def)
  then show ?thesis
    using routed_pods [of config0 env0]
    by (simp add: routed_def guard_anonymous handlePods_def config0_def post_web_def)
qed

lemma st_web_row: "t_pods st_web \<noteq> []"
proof
  assume "t_pods st_web = []"
  then have "GetPod no_faults st_web ''web-0'' = Inl ErrNotFound"
    by (simp add: GetPod_def query_row_NotFound no_faults_simp)
  then show False by (simp add: st_web_def put_pod_get store_ok_empty)
qed

text \<open>A guarded server with one administrator.\<close>

definition admin :: User where
  "admin = zero_User\<lparr>user_metadata := zero_Metadata\<lparr>md_name := ''root''\<rparr>, user_token := ''s3cret'',
     user_groups := [''system:masters'']\<rparr>"

definition st_admin :: store where
  "st_admin = empty_store\<lparr>t_users := [\<lparr>urow_name = ''root'', urow_token = ''s3cret'',
     urow_groups_json = enc_list JStr [''system:masters''], urow_created_at = 0\<rparr>]\<rparr>"

definition config_rbac :: config where
  "config_rbac = \<lparr>cfg_loop = True, cfg_rbac = True, cfg_anonymous = False, cfg_identity = ''apiserver-1''\<rparr>"

definition post_admin :: request where
  "post_admin = post_web\<lparr>req_auth := ''Bearer s3cret''\<rparr>"

lemma st_admin_user: "UpsertUser no_faults 0 admin empty_store = Inr st_admin"
  by (simp add: UpsertUser_def admin_def st_admin_def empty_store_def zero_User_def sql_upsert_def sql_has_def no_faults_simp)

lemma st_admin_ok [simp]: "store_ok st_admin"
  by (rule UpsertUser_ok [OF store_ok_empty _ st_admin_user])
    (simp add: admin_def zero_User_def wf_User_def wf_Metadata_def zero_Metadata_def)

lemma admin_authenticated:
  "\<exists>u. Authenticate no_faults False st_admin ''Bearer s3cret'' = Some u \<and> ''system:masters'' \<in> set (user_groups u)"
  by (simp add: Authenticate_def HasPrefix_def TrimSpace_def is_space_def GetUserByToken_def query_row_def
      st_admin_def no_faults_simp user_of_row_def unmarshal_def)

lemma empty_hooks: "t_admission_webhooks st_admin = []" "t_admission_webhooks empty_store = []"
  by (simp_all add: st_admin_def empty_store_def)

lemma serve_post_admin:
  "\<exists>r. serve config_rbac env0 post_admin (server_of st_admin) = (r, server_of (put_pod pod_web st_admin))"
proof -
  obtain u where u: "Authenticate no_faults False st_admin ''Bearer s3cret'' = Some u" "''system:masters'' \<in> set (user_groups u)"
    using admin_authenticated by blast
  have "permitted st_admin (authz_request u [] ''pods'' post_admin)"
    using u(2) by (simp add: permitted_def authz_request_def)
  then have "Authorize no_faults st_admin (authz_request u [] ''pods'' post_admin) = Allowed" by (simp add: Authorize_healthy)
  with u(1) have "guard config_rbac env0 [] ''pods'' (handlePods env0) post_admin (server_of st_admin) =
      handlePods env0 post_admin (server_of st_admin)"
    by (simp add: guard_def env0_def config_rbac_def post_admin_def)
  also have "\<dots> = createPod env0 post_admin (server_of st_admin)"
    by (simp add: handlePods_def post_admin_def post_web_def)
  finally have "serve config_rbac env0 post_admin (server_of st_admin) = createPod env0 post_admin (server_of st_admin)"
    using routed_pods [of config_rbac env0] by (simp add: routed_def post_admin_def post_web_def)
  moreover have "\<exists>r. createPod env0 post_admin (server_of st_admin) = (r, server_of (put_pod pod_web st_admin))"
    using createPod_web [of "server_of st_admin" post_admin] empty_hooks
    by (auto simp: post_admin_def post_web_def)
  ultimately show ?thesis by simp
qed

lemma put_pod_new: "t_pods st = [] \<Longrightarrow> store_ok st \<Longrightarrow> server_of (put_pod pod_web st) \<noteq> server_of st"
proof
  assume st: "t_pods st = []" "store_ok st" and "server_of (put_pod pod_web st) = server_of st"
  then have "put_pod pod_web st = st" by (simp add: server_of_def)
  moreover have "GetPod no_faults st ''web-0'' = Inl ErrNotFound"
    using st(1) by (simp add: GetPod_def query_row_NotFound no_faults_simp)
  ultimately show False using put_pod_get [OF st(2) pod_web_wf, of "''web-0''"] by simp
qed

section \<open>Replica sets and nodes\<close>

definition rs_web :: ReplicaSet where
  "rs_web = zero_ReplicaSet\<lparr>rs_metadata := zero_Metadata\<lparr>md_name := ''web''\<rparr>,
     rs_spec := \<lparr>rsspec_replicas = 2, rsspec_selector = [], rsspec_template =
       \<lparr>tmpl_metadata = zero_Metadata, tmpl_spec = \<lparr>podspec_containers = [box]\<rparr>\<rparr>\<rparr>\<rparr>"

definition bytes :: "nat \<Rightarrow> 8 word list" where
  "bytes i = (let b = of_nat i in [b, b, b, b, b])"

lemma rs_web_wf [simp]: "wf_ReplicaSet rs_web"
  by (simp add: rs_web_def wf_ReplicaSet_def wf_ReplicaSetSpec_def wf_PodTemplate_def wf_PodSpec_def wf_Metadata_def
      zero_Metadata_def zero_ReplicaSet_def zero_ReplicaSetStatus_def wf_ReplicaSetStatus_def map_ok_def int64_ok_def)

lemma rs_web_simps [simp]:
  "md_name (rs_metadata rs_web) = ''web''" "rsspec_replicas (rs_spec rs_web) = 2"
  "podspec_containers (tmpl_spec (rsspec_template (rs_spec rs_web))) = [box]"
  by (simp_all add: rs_web_def)

lemma digit_chars: "char_of (48 :: nat) = CHR ''0''" "char_of (49 :: nat) = CHR ''1''"
  "char_of (50 :: nat) = CHR ''2''" "char_of (51 :: nat) = CHR ''3''"
  by (simp_all add: char_of_def bit_iff_odd)

lemma web_suffixes: "randSuffix 5 (bytes 0) = ''00000''" "randSuffix 5 (bytes (Suc 0)) = ''01010''"
  by (simp_all add: randSuffix_def hex_string_def bytes_def Let_def hex_digit_def digit_chars)

lemma new_pod_name: "pod_name (buildPodFromTemplate rs b) = md_name (rs_metadata rs) @ ''-'' @ randSuffix 5 b"
  by (simp add: pod_name_def buildPodFromTemplate_def Let_def)

text \<open>A world whose only replica set asks for two pods, with names not taken.\<close>

lemma two_fresh:
  assumes "rsspec_replicas (rs_spec rs) = 2" "plain (md_name (rs_metadata rs))"
    and "live (md_name (rs_metadata rs) @ ''-00000'') = None" "live (md_name (rs_metadata rs) @ ''-01010'') = None"
  shows "fresh_for (\<lambda>_. bytes) live rs"
proof -
  have two: "{..<nat 2} = {0, Suc 0}" by auto
  show ?thesis
    unfolding fresh_for_def new_names_def assms(1) two
    using assms(3,4) buildPod_plain [OF assms(2), of "bytes 0"] buildPod_plain [OF assms(2), of "bytes (Suc 0)"]
    by (simp add: new_pod_name web_suffixes)
qed

lemma one_set_ready:
  assumes "unhooked w" "plain_names w" "\<And>k rs. live_sets w k = Some rs \<Longrightarrow> rs = q"
    and "servable q" "fresh_for rnd (live_pods w) q"
  shows "pass_ready rnd w"
  using assms live_sets_name [OF assms(1)] unfolding pass_ready_def by metis

definition put_set :: "ReplicaSet \<Rightarrow> store \<Rightarrow> store" where
  "put_set rs st = (case UpsertReplicaSet no_faults 5 rs st of Inr st \<Rightarrow> st | Inl _ \<Rightarrow> st)"

lemma put_set_run: "UpsertReplicaSet no_faults 5 rs st = Inr (put_set rs st)"
  using rs_put_ok [of 5 rs st] by (auto simp: put_set_def is_ok_iff)

lemma put_set_ok: "store_ok st \<Longrightarrow> wf_ReplicaSet rs \<Longrightarrow> store_ok (put_set rs st)"
  using UpsertReplicaSet_ok put_set_run by blast

lemma put_set_get: "store_ok st \<Longrightarrow> wf_ReplicaSet rs \<Longrightarrow>
  GetReplicaSet no_faults (put_set rs st) n = (if n = md_name (rs_metadata rs)
    then Inr (stored_rs 5 (old_of (GetReplicaSet no_faults st n)) rs) else GetReplicaSet no_faults st n)"
  using rs_store.put_get [OF store_ok_rs_table _ put_set_run] by (simp add: rs_key_def)

text \<open>The replica set \<open>web\<close> beside the pod \<open>web-0\<close>, and one that asks for minus one replica.\<close>

definition st_set :: store where "st_set = put_set rs_web st_web"

definition rs_negative :: ReplicaSet where
  "rs_negative = rs_web\<lparr>rs_spec := (rs_spec rs_web)\<lparr>rsspec_replicas := - 1\<rparr>\<rparr>"

definition st_negative :: store where "st_negative = put_set rs_negative empty_store"

lemma rs_negative_wf [simp]: "wf_ReplicaSet rs_negative"
  using rs_web_wf by (simp add: rs_negative_def wf_ReplicaSet_def wf_ReplicaSetSpec_def int64_ok_def)

lemma rs_negative_simps [simp]:
  "md_name (rs_metadata rs_negative) = ''web''" "rsspec_replicas (rs_spec rs_negative) = - 1"
  by (simp_all add: rs_negative_def)

lemma no_sets: "live_sets (world_of empty_store) n = None" "live_sets (world_of st_web) n = None"
  using UpsertPod_tables [OF put_pod_run, of pod_web empty_store]
  by (simp_all add: live_sets_def GetReplicaSet_def st_web_def empty_store_def query_row_NotFound no_faults_simp)

lemma live_set_samples:
  "live_sets (world_of st_set) n = (if n = ''web'' then Some (stored_rs 5 None rs_web) else None)"
  "live_sets (world_of st_negative) n = (if n = ''web'' then Some (stored_rs 5 None rs_negative) else None)"
  using no_sets by (simp_all add: live_sets_def st_set_def st_negative_def put_set_get store_ok_empty)

lemma st_set_pods: "live_pods (world_of st_set) = live_pods (world_of st_web)"
  using UpsertReplicaSet_tables [OF put_set_run, of rs_web st_web] by (intro live_pods_table) (simp add: st_set_def)

lemma unhooked_sets [simp]: "unhooked (world_of st_set)" "unhooked (world_of st_negative)"
  using UpsertReplicaSet_tables [OF put_set_run, of rs_web st_web]
    UpsertReplicaSet_tables [OF put_set_run, of rs_negative empty_store] unhooked_samples
  by (simp_all add: unhooked_def st_set_def st_negative_def put_set_ok store_ok_empty)

lemma st_set_ready: "pass_ready (\<lambda>_. bytes) (world_of st_set)"
proof (rule one_set_ready [where q = "stored_rs 5 None rs_web"])
  show "plain_names (world_of st_set)" by (simp add: plain_names_def st_set_pods live_samples)
  have "wf_ReplicaSet (stored_rs 5 None rs_web)" using live_sets_name [of "world_of st_set" "''web''"] by (simp add: live_set_samples)
  then show "servable (stored_rs 5 None rs_web)" by (simp add: servable_def stored_rs_def)
  show "fresh_for (\<lambda>_. bytes) (live_pods (world_of st_set)) (stored_rs 5 None rs_web)"
    by (rule two_fresh) (simp_all add: stored_rs_def st_set_pods live_samples)
qed (simp_all add: live_set_samples split: if_splits)

text \<open>A deployment \<open>web\<close> of two pods and nothing else.\<close>

definition dep_web :: Deployment where
  "dep_web = zero_Deployment\<lparr>dep_metadata := zero_Metadata\<lparr>md_name := ''web''\<rparr>,
     dep_spec := zero_DeploymentSpec\<lparr>depspec_replicas := 2, depspec_template :=
       \<lparr>tmpl_metadata = zero_Metadata, tmpl_spec = \<lparr>podspec_containers = [box]\<rparr>\<rparr>\<rparr>\<rparr>"

definition st_dep :: store where
  "st_dep = (case UpsertDeployment no_faults 5 dep_web empty_store of Inr st \<Rightarrow> st | Inl _ \<Rightarrow> empty_store)"

lemma dep_web_wf [simp]: "wf_Deployment dep_web"
  by (simp add: dep_web_def wf_Deployment_def wf_DeploymentSpec_def wf_PodTemplate_def wf_PodSpec_def wf_Metadata_def
      zero_Metadata_def zero_Deployment_def zero_DeploymentSpec_def zero_DeploymentStatus_def wf_DeploymentStatus_def map_ok_def int64_ok_def)

lemma st_dep_run: "UpsertDeployment no_faults 5 dep_web empty_store = Inr st_dep"
  using dep_put_ok [of 5 dep_web empty_store] by (auto simp: st_dep_def is_ok_iff)

lemma st_dep_tables: "t_pods st_dep = []" "t_replicasets st_dep = []" "t_admission_webhooks st_dep = []"
  using UpsertDeployment_tables [OF st_dep_run] by (simp_all add: empty_store_def)

lemma unhooked_dep [simp]: "unhooked (world_of st_dep)"
  using UpsertDeployment_ok [OF store_ok_empty dep_web_wf st_dep_run] by (simp add: unhooked_def st_dep_tables)

lemma live_dep_sample:
  "live_deps (world_of st_dep) n = (if n = ''web'' then Some (stored_dep 5 None dep_web) else None)"
  "live_pods (world_of st_dep) n = None" "live_sets (world_of st_dep) n = None"
proof -
  have "dep_table_ok empty_store" by (rule store_ok_dep_table [OF store_ok_empty])
  from dep_store.put_get [OF this dep_web_wf st_dep_run, of n]
  show "live_deps (world_of st_dep) n = (if n = ''web'' then Some (stored_dep 5 None dep_web) else None)"
    by (simp add: live_deps_def dep_key_def dep_web_def GetDeployment_def empty_store_def query_row_NotFound no_faults_simp)
qed (simp_all add: live_pods_def live_sets_def GetPod_def GetReplicaSet_def st_dep_tables query_row_NotFound no_faults_simp)

definition echo_host :: "world runtime" where
  "echo_host = \<lparr>rt_exec = (\<lambda>args w. ((None, [], []), w)), rt_sockets =
     \<lparr>sk_listen = (\<lambda>ip port w. (Inr (0, ip, 30000), w)), sk_close = (\<lambda>li w. w)\<rparr>, rt_docker = False\<rparr>"

text \<open>A host with docker, where every container starts.\<close>

definition docker_host :: "world runtime" where
  "docker_host = echo_host\<lparr>rt_docker := True\<rparr>"

lemma echo_host_ok: "local_runtime echo_host" "reliable echo_host" "ports_ok []"
  by (simp_all add: echo_host_def local_runtime_def reliable_def ports_ok_def int64_ok_def ln_port_def is_ok_def)

lemma docker_host_ok: "local_runtime docker_host" "reliable docker_host"
  by (simp_all add: docker_host_def echo_host_def local_runtime_def reliable_def int64_ok_def ln_port_def)

lemma node_1_safe [simp]: "query_safe ''node-1''"
  by (simp add: query_safe_def)

text \<open>A host on which every address can be bound, with nothing open, and with one listener.\<close>

definition host0 :: os where
  "host0 = \<lparr>os_open = [], os_next = 0, os_bindable = (\<lambda>ip port. True), os_pick = (\<lambda>n. 30000 + int n)\<rparr>"

definition host1 :: os where
  "host1 = host0\<lparr>os_open := [(0, ''127.20.0.2'', 80)], os_next := 1\<rparr>"

section \<open>A command line and a host of sidecars\<close>

text \<open>One manifest, already parsed: the pod \<open>web-0\<close>.\<close>

definition shell :: "Pod mkctl_env" where
  "shell = \<lparr>me_getenv = (\<lambda>_. []), me_ReadFile = (\<lambda>_. Inr pod_web), me_clock = (\<lambda>_. 9), me_range = (\<lambda>m. m),
     me_kind = (\<lambda>p. Inr (pod_kind p)), me_Pod = Inr, me_ReplicaSet = (\<lambda>_. Inl []), me_Deployment = (\<lambda>_. Inl []),
     me_Service = (\<lambda>_. Inl []), me_Webhook = (\<lambda>_. Inl []), me_HPA = (\<lambda>_. Inl []), me_NetworkPolicy = (\<lambda>_. Inl []),
     me_Cluster = (\<lambda>_. Inl []), me_FederatedDeployment = (\<lambda>_. Inl [])\<rparr>"

definition tls_env :: sidecar_env where
  "tls_env = \<lparr>se_tempDir = ''/tmp'', se_now = 100 * second, se_year = (\<lambda>t. t + 365 * 24 * 3600 * second),
     se_random = (\<lambda>_. True), se_writable = (\<lambda>_. True)\<rparr>"

definition blank_host :: host where
  "blank_host = \<lparr>h_files = (\<lambda>_. None), h_fresh = 7\<rparr>"

definition tls_ca :: certificate where
  "tls_ca = (ca_template tls_env)\<lparr>x_issuer := ''mk-sidecar-ca'', x_notBefore := 40 * second,
     x_notAfter := (100 + 365 * 24 * 3600) * second, x_key := 7, x_signer := 7\<rparr>"

definition tls_leaf :: "string \<Rightarrow> key \<Rightarrow> certificate" where
  "tls_leaf cn k = (leaf_template tls_env cn)\<lparr>x_issuer := ''mk-sidecar-ca'', x_notBefore := 40 * second,
     x_notAfter := (100 + 30 * 24 * 3600) * second, x_key := k, x_signer := 7\<rparr>"

definition used_host :: "key \<Rightarrow> host" where
  "used_host n = \<lparr>h_files = [ca_path tls_env \<mapsto> CertPEM tls_ca, ca_key_path tls_env \<mapsto> KeyPEM 7], h_fresh = n\<rparr>"

lemma whole_seconds_exact [simp]: "whole (n * second) = n * second"
  by (simp add: whole_def)

lemma tls_paths: "ca_path tls_env \<noteq> ca_key_path tls_env"
  by (simp add: ca_path_def ca_key_path_def)

lemma tls_mint: "mintLeaf tls_env tls_ca 7 cn h = (Inr (tls_leaf cn (h_fresh h), h_fresh h), h\<lparr>h_fresh := Suc (h_fresh h)\<rparr>)"
proof -
  have "100 * second - 60 * second = 40 * second" "100 * second + 30 * 24 * 3600 * second = (100 + 30 * 24 * 3600) * second"
    by (simp_all add: algebra_simps)
  then show ?thesis
    by (simp add: mintLeaf_def GenerateKey_def CreateCertificate_def tls_leaf_def leaf_template_def tls_ca_def ca_template_def
        tls_env_def)
qed

lemma tls_first: "sidecar_main tls_env [] [] [] cn blank_host =
    (Inr \<lparr>sc_pool = tls_ca, sc_leaf = tls_leaf cn 8, sc_key = 8\<rparr>, used_host 9)"
proof -
  have "100 * second - 60 * second = 40 * second"
    "100 * second + 365 * 24 * 3600 * second = (100 + 365 * 24 * 3600) * second"
    by (simp_all add: algebra_simps)
  then have "loadOrCreateCA tls_env (ca_path tls_env) (ca_key_path tls_env) blank_host = (Inr (tls_ca, 7), used_host 8)"
    by (simp add: loadOrCreateCA_def GenerateKey_def CreateCertificate_def WriteFile_def tls_ca_def ca_template_def
        blank_host_def used_host_def tls_env_def)
  then show ?thesis by (simp add: sidecar_main_def ensurePKI_def tls_mint) (simp add: used_host_def)
qed

lemma tls_next: "sidecar_main tls_env [] [] [] cn (used_host n) =
    (Inr \<lparr>sc_pool = tls_ca, sc_leaf = tls_leaf cn n, sc_key = n\<rparr>, used_host (Suc n))"
  using tls_paths
  by (simp add: sidecar_main_def ensurePKI_def loadOrCreateCA_existing [where c = tls_ca and k = 7] used_host_def tls_mint)

section \<open>Services and policies\<close>

definition svc_web :: Service where
  "svc_web = zero_Service\<lparr>svc_metadata := zero_Metadata\<lparr>md_name := ''web''\<rparr>,
     svc_spec := \<lparr>svcspec_selector = [(''app'', ''web'')],
       svcspec_ports = [\<lparr>sp_name = [], sp_port = 80, sp_targetPort = 8080, sp_protocol = []\<rparr>],
       svcspec_type = [], svcspec_clusterIP = []\<rparr>\<rparr>"

definition svc_live :: Service where
  "svc_live = svc_web\<lparr>svc_spec := (svc_spec svc_web)\<lparr>svcspec_clusterIP := ''127.20.0.2''\<rparr>\<rparr>"

lemma svc_web_wf [simp]: "wf_Service svc_web" "wf_Service svc_live"
  by (simp_all add: svc_web_def svc_live_def wf_Service_def wf_Metadata_def wf_ServiceSpec_def wf_ServicePort_def
      zero_Service_def zero_Metadata_def zero_ServiceStatus_def wf_ServiceStatus_def map_ok_def int64_ok_def)

lemma svc_web_simps [simp]:
  "md_name (svc_metadata svc_web) = ''web''" "svcspec_clusterIP (svc_spec svc_web) = []"
  "svcspec_ports (svc_spec svc_web) \<noteq> []" "md_name (svc_metadata svc_live) = ''web''"
  "md_namespace (svc_metadata svc_live) = []" "svcspec_clusterIP (svc_spec svc_live) = ''127.20.0.2''"
  by (simp_all add: svc_web_def svc_live_def zero_Metadata_def zero_Service_def)

definition post_svc :: request where
  "post_svc = \<lparr>req_method = ''POST'', req_path = ''/api/v1/services'', req_query = [], req_auth = [],
     req_body = Doc (enc_Service svc_web)\<rparr>"

definition running_web :: Pod where
  "running_web = pod_web\<lparr>pod_status := zero_PodStatus\<lparr>ps_phase := PhaseRunning, ps_nodeName := ''node-1'',
     ps_podIP := ''127.0.0.1'', ps_hostPort := 30000\<rparr>\<rparr>"

definition backend :: "int \<Rightarrow> EndpointAddress" where
  "backend port = \<lparr>ea_IP = ''127.0.0.1'', ea_port = port, ea_nodeName = ''node-1'', ea_podName = ''web-0''\<rparr>"

definition entry2 :: proxyEntry where
  "entry2 = \<lparr>pe_clusterIP = ''127.20.0.2'', pe_ln = (0, ''127.20.0.2'', 80), pe_backends = [backend 30000, backend 30001], pe_counter = 0\<rparr>"

definition proxy_open :: proxy where
  "proxy_open = \<lparr>px_entries = [((''web'', 80), entry2)], px_policies = [], px_pods = [running_web], px_netpolEnforce = False\<rparr>"

definition np_web :: NetworkPolicy where
  "np_web = zero_NetworkPolicy\<lparr>np_metadata := zero_Metadata\<lparr>md_name := ''only-front''\<rparr>,
     np_spec := \<lparr>npspec_podSelector = [(''app'', ''web'')],
       npspec_ingress = [\<lparr>npr_from = [\<lparr>npp_podSelector = [(''app'', ''front'')]\<rparr>], npr_ports = []\<rparr>],
       npspec_policyTypes = []\<rparr>\<rparr>"

definition hpa_web :: HPA where
  "hpa_web = zero_HPA\<lparr>hpa_metadata := zero_Metadata\<lparr>md_name := ''web''\<rparr>,
     hpa_spec := zero_HPASpec\<lparr>hpaspec_minReplicas := 1, hpaspec_maxReplicas := 10,
       hpaspec_metric := zero_HPAMetric\<lparr>hm_targetAverageValue := 50\<rparr>\<rparr>\<rparr>"

definition cluster_of :: "string \<Rightarrow> bool \<Rightarrow> Cluster" where
  "cluster_of n ready = zero_Cluster\<lparr>cl_metadata := zero_Metadata\<lparr>md_name := n\<rparr>,
     cl_spec := zero_ClusterSpec\<lparr>clspec_server := n\<rparr>, cl_status := zero_ClusterStatus\<lparr>clstatus_ready := ready\<rparr>\<rparr>"

definition hook_at :: "string \<Rightarrow> string \<Rightarrow> AdmissionWebhook" where
  "hook_at typ url = zero_AdmissionWebhook\<lparr>wh_metadata := zero_Metadata\<lparr>md_name := url\<rparr>, wh_type := typ,
     wh_URL := url, wh_resources := [''pods''], wh_failurePolicy := ''Fail''\<rparr>"

definition pods_args :: review_args where
  "pods_args = \<lparr>ra_resource = ''pods'', ra_kind = ''Pod'', ra_operation = ''CREATE'', ra_name = ''web-0'', ra_namespace = []\<rparr>"

definition no_text :: "json \<Rightarrow> string" where
  "no_text j = []"

definition webhooks :: net where
  "webhooks url = (if url = ''inject'' then served_by (injectSidecar no_text) else served_by (validateMemLimit no_text))"

lemma host1_proxying: "host_proxying (px_entries proxy_open) host1"
  by (simp add: host_proxying_def proxying_def serving_def listeners_of_def os_ok_def proxy_open_def entry2_def host1_def
      host0_def ln_port_def)

text \<open>Stub transports: one that always answers the replica set \<open>web\<close>, one that serves empty lists.\<close>

definition one_answer :: "unit transport" where
  "one_answer req w = (Inr \<lparr>resp_code = 200, resp_body = JsonBody (enc_ReplicaSet rs_web)\<rparr>, w)"

definition no_services :: "unit transport" where
  "no_services req w = (Inr \<lparr>resp_code = 200, resp_body = JsonBody (JObj [(''items'', JNull)])\<rparr>, w)"

section \<open>A service with a running pod, and an autoscaled deployment\<close>

lemma UpsertService_tables: "UpsertService no_faults now x st = Inr st' \<Longrightarrow>
    t_admission_webhooks st' = t_admission_webhooks st \<and> t_pods st' = t_pods st"
  by (auto simp: UpsertService_def Let_def sql_results split: sum.splits if_splits)

lemma UpsertHPA_tables: "UpsertHPA no_faults now x st = Inr st' \<Longrightarrow>
    t_admission_webhooks st' = t_admission_webhooks st \<and> t_pods st' = t_pods st \<and> t_deployments st' = t_deployments st \<and>
    t_replicasets st' = t_replicasets st"
  by (auto simp: UpsertHPA_def Let_def sql_results split: sum.splits if_splits)

lemma UpsertPod_other_tables: "UpsertPod no_faults now p st = Inr st' \<Longrightarrow>
    t_services st' = t_services st \<and> t_deployments st' = t_deployments st \<and> t_hpas st' = t_hpas st"
  by (auto simp: UpsertPod_def CreatePod_def Let_def sql_results split: sum.splits if_splits)

lemma running_web_wf [simp]: "wf_Pod running_web"
  using pod_web_wf by (simp add: running_web_def wf_Pod_def wf_PodStatus_def zero_PodStatus_def int64_ok_def)

lemma running_web_simps [simp]: "md_name (pod_metadata running_web) = ''web-0''"
  by (simp add: running_web_def)

definition st_svc :: store where
  "st_svc = (case UpsertService no_faults 5 svc_live (put_pod running_web empty_store) of Inr st \<Rightarrow> st | Inl _ \<Rightarrow> empty_store)"

lemma st_svc_run: "UpsertService no_faults 5 svc_live (put_pod running_web empty_store) = Inr st_svc"
  using svc_put_ok [of 5 svc_live "put_pod running_web empty_store"] by (auto simp: st_svc_def is_ok_iff)

lemma unhooked_svc [simp]: "unhooked (world_of st_svc)"
  using UpsertService_ok [OF put_pod_ok [OF store_ok_empty running_web_wf] svc_web_wf(2) st_svc_run] UpsertService_tables [OF st_svc_run]
  by (simp add: unhooked_def empty_store_def)

lemma live_svc_sample:
  "live_svcs (world_of st_svc) n = (if n = ''web'' then Some (stored_svc 5 None svc_live) else None)"
  "live_pods (world_of st_svc) n = (if n = ''web-0'' then Some (stored_pod 5 None running_web) else None)"
proof -
  note ok = put_pod_ok [OF store_ok_empty running_web_wf]
  have "t_services (put_pod running_web empty_store) = []"
    using UpsertPod_other_tables [OF put_pod_run, of running_web empty_store] by (simp add: empty_store_def)
  then have "GetService no_faults (put_pod running_web empty_store) n = Inl ErrNotFound"
    by (simp add: GetService_def query_row_NotFound no_faults_simp)
  with svc_store.put_get [OF store_ok_svc_table [OF ok] svc_web_wf(2) st_svc_run, of n]
  show "live_svcs (world_of st_svc) n = (if n = ''web'' then Some (stored_svc 5 None svc_live) else None)"
    by (cases "n = ''web''") (simp_all add: live_svcs_def svc_key_def)
  have "live_pods (world_of st_svc) = live_pods (world_of (put_pod running_web empty_store))"
    using UpsertService_tables [OF st_svc_run] by (intro live_pods_table) simp
  then show "live_pods (world_of st_svc) n = (if n = ''web-0'' then Some (stored_pod 5 None running_web) else None)"
    by (simp add: live_pods_def put_pod_get store_ok_empty)
qed

text \<open>The deployment \<open>web\<close> of two pods, of which one exists, and an autoscaler for it.\<close>

definition busy_web :: Pod where
  "busy_web = pod_web\<lparr>pod_metadata := zero_Metadata\<lparr>md_name := ''web-0'', md_labels := [(LabelReplicaSet, ''web-rs'')]\<rparr>\<rparr>"

definition hpa_live :: HPA where
  "hpa_live = hpa_web\<lparr>hpa_spec := (hpa_spec hpa_web)\<lparr>hpaspec_scaleTargetRef := \<lparr>str_kind = ''Deployment'', str_name = ''web''\<rparr>\<rparr>\<rparr>"

definition st_hpa :: store where
  "st_hpa = (case UpsertHPA no_faults 5 hpa_live (put_pod busy_web st_dep) of Inr st \<Rightarrow> st | Inl _ \<Rightarrow> empty_store)"

lemma busy_web_wf [simp]: "wf_Pod busy_web"
  using pod_web_wf by (simp add: busy_web_def wf_Pod_def wf_Metadata_def zero_Metadata_def map_ok_def LabelReplicaSet_def)

lemma busy_web_simps [simp]: "md_name (pod_metadata busy_web) = ''web-0''"
  by (simp add: busy_web_def zero_Metadata_def)

lemma hpa_live_wf [simp]: "wf_HPA hpa_live"
  by (simp add: hpa_live_def hpa_web_def wf_HPA_def wf_HPASpec_def wf_ScaleTargetRef_def wf_HPAMetric_def wf_HPAStatus_def
      wf_Metadata_def zero_HPA_def zero_HPASpec_def zero_HPAMetric_def zero_HPAStatus_def zero_Metadata_def map_ok_def int64_ok_def)

lemma hpa_live_simps [simp]: "md_name (hpa_metadata hpa_live) = ''web''"
  by (simp add: hpa_live_def hpa_web_def)

lemma st_hpa_run: "UpsertHPA no_faults 5 hpa_live (put_pod busy_web st_dep) = Inr st_hpa"
  using hpa_put_ok [of 5 hpa_live "put_pod busy_web st_dep"] by (auto simp: st_hpa_def is_ok_iff)

lemma st_dep_ok: "store_ok st_dep"
  by (rule UpsertDeployment_ok [OF store_ok_empty dep_web_wf st_dep_run])

lemma unhooked_hpa [simp]: "unhooked (world_of st_hpa)"
  using UpsertHPA_ok [OF put_pod_ok [OF st_dep_ok busy_web_wf] hpa_live_wf st_hpa_run] UpsertHPA_tables [OF st_hpa_run]
  by (simp add: unhooked_def st_dep_tables)

lemma live_hpa_sample:
  "live_hpas (world_of st_hpa) n = (if n = ''web'' then Some (stored_hpa None hpa_live) else None)"
  "live_pods (world_of st_hpa) n = (if n = ''web-0'' then Some (stored_pod 5 None busy_web) else None)"
  "live_deps (world_of st_hpa) n = (if n = ''web'' then Some (stored_dep 5 None dep_web) else None)"
proof -
  note ok = put_pod_ok [OF st_dep_ok busy_web_wf]
  have "t_hpas (put_pod busy_web st_dep) = []"
    using UpsertPod_other_tables [OF put_pod_run, of busy_web st_dep] UpsertDeployment_tables [OF st_dep_run]
    by (simp add: empty_store_def)
  then have "GetHPA no_faults (put_pod busy_web st_dep) n = Inl ErrNotFound"
    by (simp add: GetHPA_def query_row_NotFound no_faults_simp)
  with hpa_store.put_get [OF store_ok_hpa_table [OF ok] hpa_live_wf st_hpa_run, of n]
  show "live_hpas (world_of st_hpa) n = (if n = ''web'' then Some (stored_hpa None hpa_live) else None)"
    by (cases "n = ''web''") (simp_all add: live_hpas_def hpa_key_def)
  have "live_pods (world_of st_hpa) = live_pods (world_of (put_pod busy_web st_dep))"
    using UpsertHPA_tables [OF st_hpa_run] by (intro live_pods_table) simp
  moreover have "GetPod no_faults st_dep k = Inl ErrNotFound" for k
    by (simp add: GetPod_def st_dep_tables query_row_NotFound no_faults_simp)
  ultimately show "live_pods (world_of st_hpa) n = (if n = ''web-0'' then Some (stored_pod 5 None busy_web) else None)"
    by (simp add: live_pods_def put_pod_get st_dep_ok)
  have "live_deps (world_of st_hpa) = live_deps (world_of st_dep)"
    using UpsertHPA_tables [OF st_hpa_run] UpsertPod_other_tables [OF put_pod_run, of busy_web st_dep] by (intro live_deps_table) simp
  then show "live_deps (world_of st_hpa) n = (if n = ''web'' then Some (stored_dep 5 None dep_web) else None)"
    by (simp add: live_dep_sample)
qed

definition full_load :: "world transport" where
  "full_load req w = (Inr \<lparr>resp_code = 200, resp_body = JsonBody (JObj [(''items'', enc_list enc_PodMetric
     [\<lparr>pm_podName = ''web-0'', pm_nodeName = ''node-1'', pm_cpuPct = 100\<rparr>])])\<rparr>, w)"

lemma hpa_live_scalable: "scalable (stored_hpa None hpa_live)" "plain (hpa_target (stored_hpa None hpa_live))"
  and hpa_live_target: "hpa_target (stored_hpa None hpa_live) = ''web''"
proof -
  have "wf_HPA (stored_hpa None hpa_live)" "md_name (hpa_metadata (stored_hpa None hpa_live)) = ''web''"
    using live_hpas_name [OF unhooked_hpa, of "''web''" "stored_hpa None hpa_live"] by (simp_all add: live_hpa_sample)
  then show "scalable (stored_hpa None hpa_live)"
    by (simp add: scalable_def) (simp add: stored_hpa_def hpa_live_def hpa_web_def)
  show target: "hpa_target (stored_hpa None hpa_live) = ''web''" by (simp add: hpa_target_def stored_hpa_def hpa_live_def)
  then show "plain (hpa_target (stored_hpa None hpa_live))" by simp
qed

lemma st_hpa_snapshot: "snapshot_of (world_of st_hpa) (\<lambda>_. True) ps \<Longrightarrow> ps = [stored_pod 5 None busy_web]"
proof -
  assume snap: "snapshot_of (world_of st_hpa) (\<lambda>_. True) ps"
  then have "p \<in> set ps \<longleftrightarrow> live_pods (world_of st_hpa) (pod_name p) = Some p" for p unfolding snapshot_of_def by blast
  moreover have "pod_name (stored_pod 5 None busy_web) = ''web-0''" by (simp add: pod_name_def stored_pod_def Let_def)
  ultimately have "set ps = {stored_pod 5 None busy_web}"
    unfolding live_hpa_sample by (metis (no_types, lifting) option.inject option.discI singletonI singletonD subsetI subset_antisym)
  moreover have "distinct ps" using snap by (simp add: snapshot_of_def distinct_map)
  ultimately show ?thesis by (cases ps; cases "tl ps") auto
qed

text \<open>At full load, twice the target, two replicas become four.\<close>

lemma full_load_verdict:
  "hpa_verdict (15 * second) 7 [\<lparr>pm_podName = ''web-0'', pm_nodeName = ''node-1'', pm_cpuPct = 100\<rparr>]
     [stored_pod 5 None busy_web] (stored_hpa None hpa_live) (stored_dep 5 None dep_web) = 4"
proof -
  have ints: "f64 100 = 100" "f64 1 = 1" "f64 50 = 50" "f64 2 = 2" "f64 4 = 4"
    using f64_int [of 100] f64_int [of 1] f64_int [of 50] f64_int [of 2] f64_int [of 4] by simp_all
  have "hpa_owned (stored_dep 5 None dep_web) [stored_pod 5 None busy_web] = [stored_pod 5 None busy_web]"
    by (simp add: hpa_owned_def ownedPods_def stored_dep_def dep_web_def stored_pod_def Let_def busy_web_def zero_Metadata_def gget_def)
  moreover have "averageCPU [stored_pod 5 None busy_web] [\<lparr>pm_podName = ''web-0'', pm_nodeName = ''node-1'', pm_cpuPct = 100\<rparr>] = 100"
    by (simp add: averageCPU_def stored_pod_def Let_def ints)
  moreover have "desired_replicas 2 100 (stored_hpa None hpa_live) = 4"
    by (simp add: ints Ceil_def to_int64_def int64_ok_def desired_replicas_def raw_desired_def target_of_def stored_hpa_def hpa_live_def hpa_web_def)
  moreover have "depspec_replicas (dep_spec (stored_dep 5 None dep_web)) = 2" by (simp add: stored_dep_def dep_web_def)
  ultimately show ?thesis by (simp add: hpa_verdict_def)
qed

lemma full_load_metrics: "fst (fetchMetrics (NewHPA c (Some full_load)) w) =
    Inr [\<lparr>pm_podName = ''web-0'', pm_nodeName = ''node-1'', pm_cpuPct = 100\<rparr>]"
proof -
  have "wf_PodMetric \<lparr>pm_podName = ''web-0'', pm_nodeName = ''node-1'', pm_cpuPct = 100\<rparr>"
    using f64_int [of 100] by (simp add: wf_PodMetric_def wf_float_def float_bound_def)
  then have "list_all wf_PodMetric [\<lparr>pm_podName = ''web-0'', pm_nodeName = ''node-1'', pm_cpuPct = 100\<rparr>]" by simp
  from dec_items_read [OF PodMetric_codec.list_roundtrip [OF this]] show ?thesis
    by (simp add: fetchMetrics_def NewHPA_def full_load_def decode_payload_def)
qed

lemma running_web_endpoint: "endpoint_of (stored_svc 5 None svc_live) (stored_pod 5 None running_web) = Some (backend 30000)"
  by (simp add: endpoint_of_def stored_svc_def svc_live_def svc_web_def stored_pod_def running_web_def backend_def Let_def
      pod_web_def zero_Metadata_def zero_PodStatus_def selectorMatches_def gget_def LabelReplicaSet_def phase_defs)

section \<open>A federation\<close>

text \<open>The hub knows the clusters east and west and a federated deployment for all of them.\<close>

definition fd_web :: FederatedDeployment where
  "fd_web = zero_FederatedDeployment\<lparr>fd_metadata := zero_Metadata\<lparr>md_name := ''web''\<rparr>,
     fd_spec := zero_FederatedDeploymentSpec\<lparr>fdspec_template := dep_spec dep_web\<rparr>\<rparr>"

definition put_cluster :: "Cluster \<Rightarrow> store \<Rightarrow> store" where
  "put_cluster c st = (case UpsertCluster no_faults 5 c st of Inr st \<Rightarrow> st | Inl _ \<Rightarrow> st)"

lemma put_cluster_run: "UpsertCluster no_faults 5 c st = Inr (put_cluster c st)"
  using cl_put_ok [of 5 c st] by (auto simp: put_cluster_def is_ok_iff)

lemma put_cluster_ok: "store_ok st \<Longrightarrow> wf_Cluster c \<Longrightarrow> store_ok (put_cluster c st)"
  using UpsertCluster_ok put_cluster_run by blast

lemma put_cluster_get: "store_ok st \<Longrightarrow> wf_Cluster c \<Longrightarrow>
  GetCluster no_faults (put_cluster c st) n = (if n = md_name (cl_metadata c)
    then Inr (stored_cl (old_of (GetCluster no_faults st n)) c) else GetCluster no_faults st n)"
  using cl_store.put_get [OF store_ok_cl_table _ put_cluster_run] by (simp add: cl_key_def)

lemma cluster_of_wf [simp]: "wf_Cluster (cluster_of n r)" and cluster_of_simps [simp]: "md_name (cl_metadata (cluster_of n r)) = n"
  by (simp_all add: cluster_of_def wf_Cluster_def wf_Metadata_def wf_ClusterSpec_def wf_ClusterStatus_def zero_Cluster_def zero_Metadata_def
      zero_ClusterSpec_def zero_ClusterStatus_def map_ok_def)

lemma fd_web_wf [simp]: "wf_FederatedDeployment fd_web"
  using dep_web_wf by (simp add: fd_web_def wf_FederatedDeployment_def wf_FederatedDeploymentSpec_def wf_FederatedDeploymentStatus_def
      wf_Metadata_def zero_FederatedDeployment_def zero_FederatedDeploymentSpec_def zero_FederatedDeploymentStatus_def zero_Metadata_def
      map_ok_def wf_Deployment_def int64_ok_def)

definition st_two_clusters :: store where
  "st_two_clusters = put_cluster (cluster_of ''west'' True) (put_cluster (cluster_of ''east'' False) empty_store)"

definition st_hub :: store where
  "st_hub = (case UpsertFederatedDeployment no_faults 5 fd_web st_two_clusters of Inr st \<Rightarrow> st | Inl _ \<Rightarrow> empty_store)"

lemma st_two_clusters_ok: "store_ok st_two_clusters"
  by (simp add: st_two_clusters_def put_cluster_ok store_ok_empty)

lemma st_hub_run: "UpsertFederatedDeployment no_faults 5 fd_web st_two_clusters = Inr st_hub"
  using fd_put_ok [of 5 fd_web st_two_clusters] by (auto simp: st_hub_def is_ok_iff)

lemma UpsertCluster_tables: "UpsertCluster no_faults now x st = Inr st' \<Longrightarrow>
    t_admission_webhooks st' = t_admission_webhooks st \<and> t_federated_deployments st' = t_federated_deployments st"
  by (auto simp: UpsertCluster_def Let_def sql_results split: sum.splits if_splits)

lemma UpsertFederatedDeployment_tables: "UpsertFederatedDeployment no_faults now x st = Inr st' \<Longrightarrow>
    t_admission_webhooks st' = t_admission_webhooks st \<and> t_clusters st' = t_clusters st"
  by (auto simp: UpsertFederatedDeployment_def Let_def sql_results split: sum.splits if_splits)

lemma st_two_clusters_tables: "t_admission_webhooks st_two_clusters = []" "t_federated_deployments st_two_clusters = []"
  using UpsertCluster_tables [OF put_cluster_run, of "cluster_of ''west'' True" "put_cluster (cluster_of ''east'' False) empty_store"]
    UpsertCluster_tables [OF put_cluster_run, of "cluster_of ''east'' False" empty_store]
  by (simp_all add: st_two_clusters_def empty_store_def)

lemma unhooked_hub [simp]: "unhooked (world_of st_hub)"
  using UpsertFederatedDeployment_ok [OF st_two_clusters_ok fd_web_wf st_hub_run] UpsertFederatedDeployment_tables [OF st_hub_run]
  by (simp add: unhooked_def st_two_clusters_tables)

lemma live_hub_clusters: "live_clusters (world_of st_hub) k =
  (if k = ''west'' then Some (stored_cl None (cluster_of ''west'' True))
   else if k = ''east'' then Some (stored_cl None (cluster_of ''east'' False)) else None)"
proof -
  have "GetCluster no_faults st_hub k = GetCluster no_faults st_two_clusters k"
    using UpsertFederatedDeployment_tables [OF st_hub_run] by (simp add: GetCluster_def)
  moreover have "GetCluster no_faults empty_store j = Inl ErrNotFound" for j
    by (simp add: GetCluster_def empty_store_def query_row_NotFound no_faults_simp)
  ultimately show ?thesis
    by (simp add: live_clusters_def st_two_clusters_def put_cluster_get put_cluster_ok store_ok_empty stored_cl_def)
qed

lemma live_hub_fds: "live_fds (world_of st_hub) k = (if k = ''web'' then Some (stored_fd None fd_web) else None)"
proof -
  have "GetFederatedDeployment no_faults st_two_clusters j = Inl ErrNotFound" for j
    by (simp add: GetFederatedDeployment_def st_two_clusters_tables query_row_NotFound no_faults_simp)
  with fd_store.put_get [OF store_ok_fd_table [OF st_two_clusters_ok] fd_web_wf st_hub_run, of k] show ?thesis
    by (simp add: live_fds_def fd_key_def fd_web_def)
qed

lemma fd_web_pushable: "pushable (stored_fd None fd_web)"
proof -
  have "wf_FederatedDeployment (stored_fd None fd_web)"
    using live_fds_name [OF unhooked_hub, of "''web''"] by (simp add: live_hub_fds)
  then show ?thesis by (simp add: pushable_def) (simp add: stored_fd_def fd_web_def dep_web_def)
qed

definition fleet0 :: fleet where
  "fleet0 u = (if u = ''hub'' then world_of st_hub else world_of empty_store)"

lemma fleet0_unhooked: "\<forall>u. unhooked (fleet0 u)"
  by (simp add: fleet0_def)

lemma fleet0_simps [simp]: "fleet0 ''hub'' = world_of st_hub" "fleet0 ''west'' = world_of empty_store"
  by (simp_all add: fleet0_def)

lemma cluster_server [simp]: "clspec_server (cl_spec (stored_cl None (cluster_of n r))) = n"
  by (simp add: stored_cl_def cluster_of_def)

lemma fd_web_targets [simp]: "targeted (stored_fd None fd_web) k"
  by (simp add: targeted_def stored_fd_def fd_web_def zero_FederatedDeploymentSpec_def)

lemma hub_clusters: "{k. live_clusters (fleet0 ''hub'') k \<noteq> None} = {''east'', ''west''}"
  "{k. \<exists>cl. live_clusters (fleet0 ''hub'') k = Some cl \<and> clspec_server (cl_spec cl) \<noteq> ''west''} = {''east''}"
  by (auto simp: live_hub_clusters split: if_splits)

lemma hub_ready:
  "int (card {k. live_clusters (fleet0 ''hub'') k \<noteq> None}) < 2 ^ 63"
  "\<forall>k. live_clusters (fleet0 ''hub'') k \<noteq> None \<longrightarrow> plain k"
  "\<forall>k k' cl cl'. live_clusters (fleet0 ''hub'') k = Some cl \<longrightarrow> live_clusters (fleet0 ''hub'') k' = Some cl' \<longrightarrow> k \<noteq> k' \<longrightarrow>
     clspec_server (cl_spec cl) \<noteq> clspec_server (cl_spec cl')"
  "\<forall>k fd. live_fds (fleet0 ''hub'') k = Some fd \<longrightarrow> pushable fd"
  unfolding hub_clusters(1) by (auto simp: live_hub_clusters live_hub_fds fd_web_pushable plain_def split: if_splits)

section \<open>Two services at a time\<close>

definition svc_db :: Service where
  "svc_db = svc_web\<lparr>svc_metadata := zero_Metadata\<lparr>md_name := ''db''\<rparr>\<rparr>"

lemma svc_db_wf [simp]: "wf_Service svc_db"
  using svc_web_wf by (simp add: svc_db_def wf_Service_def wf_Metadata_def zero_Metadata_def map_ok_def)

lemma svc_db_simps [simp]: "md_name (svc_metadata svc_db) = ''db''" "svcspec_clusterIP (svc_spec svc_db) = []"
  by (simp_all add: svc_db_def)

lemma empty_services [simp]: "GetService no_faults empty_store n = Inl ErrNotFound" "ListClusterIPs no_faults empty_store = Inr []"
    "ips_of empty_store = {}"
  by (simp_all add: GetService_def ListClusterIPs_def ips_of_def empty_store_def query_row_NotFound query_rows_def no_faults_simp sql_order_def)

lemma first_addresses: "alloc True [] 1 = (''127.20.0.2'', 2)" "alloc True [] 2 = (''127.20.0.3'', 3)"
  by (simp_all add: alloc_def alloc_loop_first bump_def pool_ip_def decimal.simps digit_chars)

end
