(* ===== verification/Election.thy ===== *)
theory Election
  imports Lease
begin

text \<open>
  Several apiserver replicas contending for one lease (\<open>runLeaderElected\<close>, cmd/apiserver/main.go).
  A lease service is stated as an interface; the safety of leader election is proved from its
  laws, and the store's lease methods interpret it. The replicas share the clock of the database
  host; time never runs backwards.
\<close>

locale lease_service =
  fixes acquire :: "'f \<Rightarrow> time \<Rightarrow> 'i \<Rightarrow> 's \<Rightarrow> 'e + (bool \<times> 'i \<times> 's)"
    and current :: "'s \<Rightarrow> ('i \<times> time \<times> int) option"
    and valid :: "'i \<Rightarrow> int"
    and inv :: "'s \<Rightarrow> bool"
  assumes granted: "inv s \<Longrightarrow> acquire f now i s = Inr (True, h, s') \<Longrightarrow> current s' = Some (i, now, valid i)"
    and granted_free: "inv s \<Longrightarrow> acquire f now i s = Inr (True, h, s') \<Longrightarrow> current s = Some (j, t, d) \<Longrightarrow>
      j = i \<or> now - t > d"
    and refused: "inv s \<Longrightarrow> acquire f now i s = Inr (False, h, s') \<Longrightarrow> s' = s \<and> (\<exists>t d. current s = Some (h, t, d) \<and> h \<noteq> i)"
    and acquire_inv: "inv s \<Longrightarrow> acquire f now i s = Inr (ok, h, s') \<Longrightarrow> inv s'"
begin

text \<open>Whoever believes to lead holds the lease, or has not renewed it for its whole validity.\<close>

definition sound :: "time \<Rightarrow> 's \<Rightarrow> ('i \<Rightarrow> bool) \<Rightarrow> ('i \<Rightarrow> time) \<Rightarrow> bool" where
  "sound now s leading renewed \<longleftrightarrow>
     (\<forall>i. leading i \<longrightarrow> current s = Some (i, renewed i, valid i) \<or> now - renewed i > valid i)"

lemma sound_later: "sound now s l r \<Longrightarrow> now \<le> now' \<Longrightarrow> sound now' s l r"
  unfolding sound_def by (metis diff_right_mono order_less_le_trans)

lemma sound_granted:
  assumes "inv s" "sound now s l r" "acquire f now i s = Inr (True, h, s')"
  shows "sound now s' (l(i := True)) (r(i := now))"
  unfolding sound_def
proof (intro allI impI)
  fix j
  assume j: "(l(i := True)) j"
  show "current s' = Some (j, (r(i := now)) j, valid j) \<or> now - (r(i := now)) j > valid j"
  proof (cases "j = i")
    case True
    then show ?thesis using granted [OF assms(1,3)] by simp
  next
    case False
    with j assms(2) have "current s = Some (j, r j, valid j) \<or> now - r j > valid j"
      by (simp add: sound_def)
    with False show ?thesis using granted_free [OF assms(1,3), of j "r j" "valid j"] by auto
  qed
qed

lemma sound_stop: "sound now s l r \<Longrightarrow> sound now s (l(i := False)) r"
  by (auto simp: sound_def)

lemma unique_leader:
  assumes "sound now s l r" "l i" "l j" "now - r i \<le> valid i" "now - r j \<le> valid j"
  shows "i = j"
proof -
  from assms have "current s = Some (i, r i, valid i)" "current s = Some (j, r j, valid j)"
    unfolding sound_def by (metis linorder_not_less)+
  then show ?thesis by simp
qed

end

section \<open>The store as a lease service\<close>

text \<open>The lease as (holder, time of the renewal, validity in nanoseconds).\<close>

definition held_lease :: "string \<Rightarrow> store \<Rightarrow> (string \<times> time \<times> int) option" where
  "held_lease name st = map_option (\<lambda>(h, t, s). (h, t, s * second)) (current_lease name st)"

definition lease_ttl_ok :: "string \<Rightarrow> store \<Rightarrow> bool" where
  "lease_ttl_ok name st \<longleftrightarrow> (case current_lease name st of None \<Rightarrow> True | Some (h, t, s) \<Rightarrow> s \<ge> 0)"

definition validity :: "(string \<Rightarrow> nat) \<Rightarrow> string \<Rightarrow> int" where
  "validity ttl i = whole_seconds (int (ttl i)) * second"

lemma whole_seconds_nonneg: "0 \<le> whole_seconds (int n)"
  by (simp add: whole_seconds_def second_def)

lemma time_Sub_greater: "0 \<le> d \<Longrightarrow> time_Sub a b > d \<Longrightarrow> a - b > d"
  by (auto simp: time_Sub_def)

interpretation store_lease: lease_service
  "\<lambda>drv now i st. TryAcquireLease drv now name i (int (ttl i)) st"
  "held_lease name" "validity ttl" "lease_ttl_ok name" for name ttl
proof unfold_locales
  fix s :: store and f now i h s' ok j t d
  assume inv: "lease_ttl_ok name s"
  { assume acq: "TryAcquireLease f now name i (int (ttl i)) s = Inr (True, h, s')"
    show "held_lease name s' = Some (i, now, validity ttl i)"
      using TryAcquireLease_granted(3) [OF acq, of name] by (simp add: held_lease_def validity_def)
    assume "held_lease name s = Some (j, t, d)"
    then obtain n where cur: "current_lease name s = Some (j, t, n)" and d: "d = n * second"
      by (auto simp: held_lease_def)
    from inv cur have "0 \<le> d" by (simp add: lease_ttl_ok_def d second_def)
    with TryAcquireLease_granted(2) [OF acq] cur d show "j = i \<or> now - t > d"
      by (auto simp: lease_expired_def dest: time_Sub_greater) }
  { assume acq: "TryAcquireLease f now name i (int (ttl i)) s = Inr (False, h, s')"
    show "s' = s \<and> (\<exists>t d. held_lease name s = Some (h, t, d) \<and> h \<noteq> i)"
      using TryAcquireLease_refused [OF acq] by (auto simp: held_lease_def) }
  { assume acq: "TryAcquireLease f now name i (int (ttl i)) s = Inr (ok, h, s')"
    show "lease_ttl_ok name s'"
    proof (cases ok)
      case True
      then show ?thesis
        using TryAcquireLease_granted(3) [of f now name i "int (ttl i)" s h s' name] acq whole_seconds_nonneg
        by (simp add: lease_ttl_ok_def)
    next
      case False
      with acq have "s' = s" by (simp add: TryAcquireLease_refused(1))
      with inv show ?thesis by simp
    qed }
qed

section \<open>The replicas\<close>

text \<open>\<open>el_renewed\<close> records for the statements when a replica last renewed; the code does not read it.\<close>

record election =
  el_now :: time
  el_store :: store
  el_leading :: "string \<Rightarrow> bool"
  el_renewed :: "string \<Rightarrow> time"

definition renews :: "driver \<Rightarrow> time \<Rightarrow> string \<Rightarrow> string \<Rightarrow> int \<Rightarrow> store \<Rightarrow> bool" where
  "renews drv now name i ttl st \<longleftrightarrow>
     (case TryAcquireLease drv now name i ttl st of Inr (ok, _, _) \<Rightarrow> ok | Inl _ \<Rightarrow> False)"

definition replica_tick :: "string \<Rightarrow> (string \<Rightarrow> nat) \<Rightarrow> driver \<Rightarrow> time \<Rightarrow> string \<Rightarrow> election \<Rightarrow> election" where
  "replica_tick name ttl drv t i e =
    (let (l, st) = election_tick drv t name i (int (ttl i)) (el_leading e i) (el_store e) in
     \<lparr>el_now = t, el_store = st, el_leading = (el_leading e)(i := l),
      el_renewed = (if renews drv t name i (int (ttl i)) (el_store e) then (el_renewed e)(i := t) else el_renewed e)\<rparr>)"

inductive election_step :: "string \<Rightarrow> (string \<Rightarrow> nat) \<Rightarrow> election \<Rightarrow> election \<Rightarrow> bool" for name ttl where
  tick: "el_now e \<le> t \<Longrightarrow> election_step name ttl e (replica_tick name ttl drv t i e)"
| other_write: "el_now e \<le> t \<Longrightarrow> t_leases st = t_leases (el_store e) \<Longrightarrow>
    election_step name ttl e (e\<lparr>el_now := t, el_store := st\<rparr>)"
| restart: "election_step name ttl e (e\<lparr>el_leading := (el_leading e)(i := False)\<rparr>)"

definition election_start :: "time \<Rightarrow> election" where
  "election_start t = \<lparr>el_now = t, el_store = empty_store, el_leading = (\<lambda>_. False), el_renewed = (\<lambda>_. t)\<rparr>"

inductive elections :: "string \<Rightarrow> (string \<Rightarrow> nat) \<Rightarrow> election \<Rightarrow> bool" for name ttl where
  start: "elections name ttl (election_start t)"
| step: "elections name ttl e \<Longrightarrow> election_step name ttl e e' \<Longrightarrow> elections name ttl e'"

inductive_cases election_stepE: "election_step name ttl e e'"

definition election_sound :: "string \<Rightarrow> (string \<Rightarrow> nat) \<Rightarrow> election \<Rightarrow> bool" where
  "election_sound name ttl e \<longleftrightarrow> lease_ttl_ok name (el_store e) \<and>
     store_lease.sound name ttl (el_now e) (el_store e) (el_leading e) (el_renewed e)"

lemma replica_tick_sound:
  assumes "election_sound name ttl e" "el_now e \<le> t"
  shows "election_sound name ttl (replica_tick name ttl drv t i e)"
proof -
  let ?s = "el_store e"
  have inv: "lease_ttl_ok name ?s"
    and now: "store_lease.sound name ttl t ?s (el_leading e) (el_renewed e)"
    using assms store_lease.sound_later by (auto simp: election_sound_def)
  show ?thesis
  proof (cases "TryAcquireLease drv t name i (int (ttl i)) ?s")
    case (Inl err)
    with inv now show ?thesis
      by (simp add: election_sound_def replica_tick_def election_tick_def renews_def)
  next
    case (Inr r)
    then obtain ok h s' where acq: "TryAcquireLease drv t name i (int (ttl i)) ?s = Inr (ok, h, s')"
      by (cases r) auto
    have inv': "lease_ttl_ok name s'" by (rule store_lease.acquire_inv [where ttl = ttl, OF inv acq])
    show ?thesis
    proof (cases ok)
      case True
      with acq have "replica_tick name ttl drv t i e =
          \<lparr>el_now = t, el_store = s', el_leading = (el_leading e)(i := True), el_renewed = (el_renewed e)(i := t)\<rparr>"
        by (auto simp: replica_tick_def election_tick_def renews_def)
      with True acq inv' store_lease.sound_granted [OF inv now] show ?thesis
        by (simp add: election_sound_def)
    next
      case False
      with acq have "s' = ?s" by (simp add: TryAcquireLease_refused(1))
      with False acq have "replica_tick name ttl drv t i e =
          \<lparr>el_now = t, el_store = ?s, el_leading = (el_leading e)(i := False), el_renewed = el_renewed e\<rparr>"
        by (auto simp: replica_tick_def election_tick_def renews_def)
      with inv store_lease.sound_stop [OF now] show ?thesis
        by (simp add: election_sound_def)
    qed
  qed
qed

lemma same_leases:
  "t_leases st = t_leases st' \<Longrightarrow> current_lease name st = current_lease name st'"
  by (simp add: current_lease_def)

lemma election_step_sound:
  "election_step name ttl e e' \<Longrightarrow> election_sound name ttl e \<Longrightarrow> election_sound name ttl e'"
proof (erule election_stepE)
  fix t drv i
  assume "election_sound name ttl e" "el_now e \<le> t" "e' = replica_tick name ttl drv t i e"
  then show "election_sound name ttl e'" by (simp add: replica_tick_sound)
next
  fix t st
  assume e: "election_sound name ttl e" "el_now e \<le> t" "t_leases st = t_leases (el_store e)"
    "e' = e\<lparr>el_now := t, el_store := st\<rparr>"
  have cur: "current_lease name st = current_lease name (el_store e)"
    by (rule same_leases) (rule e(3))
  have "lease_ttl_ok name (el_store e)"
    and "store_lease.sound name ttl t (el_store e) (el_leading e) (el_renewed e)"
    using e(1,2) store_lease.sound_later by (auto simp: election_sound_def)
  then show "election_sound name ttl e'"
    by (simp add: e(4) election_sound_def lease_ttl_ok_def held_lease_def store_lease.sound_def cur)
next
  fix i
  assume "election_sound name ttl e" "e' = e\<lparr>el_leading := (el_leading e)(i := False)\<rparr>"
  then show "election_sound name ttl e'"
    by (simp add: election_sound_def store_lease.sound_stop)
qed

lemma elections_sound: "elections name ttl e \<Longrightarrow> election_sound name ttl e"
proof (induction rule: elections.induct)
  case (start t)
  show ?case
    by (simp add: election_sound_def election_start_def lease_ttl_ok_def current_lease_def empty_store_def
        store_lease.sound_def)
next
  case (step e e')
  then show ?case using election_step_sound by blast
qed

definition fresh :: "(string \<Rightarrow> nat) \<Rightarrow> election \<Rightarrow> string \<Rightarrow> bool" where
  "fresh ttl e i \<longleftrightarrow> el_now e - el_renewed e i \<le> validity ttl i"

lemma one_fresh_leader:
  "elections name ttl e \<Longrightarrow> el_leading e i \<Longrightarrow> el_leading e j \<Longrightarrow> fresh ttl e i \<Longrightarrow> fresh ttl e j \<Longrightarrow> i = j"
  using elections_sound store_lease.unique_leader unfolding election_sound_def fresh_def by metis

lemma fresh_leader_holds:
  "elections name ttl e \<Longrightarrow> el_leading e i \<Longrightarrow> fresh ttl e i \<Longrightarrow>
   GetLease no_faults (el_store e) name = Inr (i, el_renewed e i, whole_seconds (int (ttl i)))"
  using elections_sound [of name ttl e]
  by (auto simp: election_sound_def fresh_def store_lease.sound_def held_lease_def validity_def GetLease_current
      second_def split: option.splits)

text \<open>Without faults a replica leads after its tick exactly when the lease was free, its own or expired.\<close>

lemma election_tick_leads:
  "fst (election_tick no_faults t name i ttl l st) \<longleftrightarrow>
   (case current_lease name st of None \<Rightarrow> True | Some c \<Rightarrow> fst c = i \<or> lease_expired t c)"
  (is "_ \<longleftrightarrow> ?free")
proof -
  obtain ok h st' where "TryAcquireLease no_faults t name i ttl st = Inr (ok, h, st')" and "ok \<longleftrightarrow> ?free"
    using TryAcquireLease_no_faults by blast
  then show ?thesis by (simp add: election_tick_def)
qed

section \<open>Two leaders\<close>

text \<open>
  A replica that cannot reach the database keeps its flag: the loop's \<open>continue\<close> skips the test
  whether the lease was lost. \<open>locked drv\<close>: the transaction cannot be begun, or the lease not read.
\<close>

definition locked :: "driver \<Rightarrow> bool" where
  "locked drv \<longleftrightarrow> drv ''TryAcquireLease BEGIN'' \<noteq> None \<or> drv ''TryAcquireLease SELECT'' \<noteq> None"

text \<open>The ticks of one replica, each at its time and with the driver it meets.\<close>

definition ticks_of :: "string \<Rightarrow> (string \<Rightarrow> nat) \<Rightarrow> string \<Rightarrow> (time \<times> driver) list \<Rightarrow> election \<Rightarrow> election" where
  "ticks_of name ttl i ticks e = fold (\<lambda>(t, drv) e. replica_tick name ttl drv t i e) ticks e"

lemma locked_tick: "locked drv \<Longrightarrow> replica_tick name ttl drv t i e = e\<lparr>el_now := t\<rparr>"
  by (auto simp: locked_def replica_tick_def election_tick_def renews_def TryAcquireLease_def split: option.split)

lemma locked_ticks:
  "list_all (\<lambda>(t, drv). locked drv) ticks \<Longrightarrow> ticks_of name ttl i ticks e = e\<lparr>el_now := last (el_now e # map fst ticks)\<rparr>"
proof (induction ticks arbitrary: e)
  case Nil
  then show ?case by (simp add: ticks_of_def)
next
  case (Cons x ticks)
  obtain t drv where x: "x = (t, drv)" by (cases x)
  from Cons.prems x have "locked drv" "list_all (\<lambda>(t, drv). locked drv) ticks" by simp_all
  with Cons.IH [of "e\<lparr>el_now := t\<rparr>"] show ?case by (simp add: ticks_of_def x locked_tick)
qed

lemma ticks_reachable:
  "elections name ttl e \<Longrightarrow> sorted (el_now e # map fst ticks) \<Longrightarrow> elections name ttl (ticks_of name ttl i ticks e)"
proof (induction ticks arbitrary: e)
  case Nil
  then show ?case by (simp add: ticks_of_def)
next
  case (Cons x ticks)
  obtain t drv where x: "x = (t, drv)" by (cases x)
  let ?e = "replica_tick name ttl drv t i e"
  have now: "el_now ?e = t" by (simp add: replica_tick_def split: prod.splits)
  have "el_now e \<le> t" using Cons.prems(2) by (simp add: x)
  then have "elections name ttl ?e" by (rule elections.step [OF Cons.prems(1) election_step.tick])
  from Cons.IH [OF this] Cons.prems(2) show ?case by (simp add: ticks_of_def x now)
qed

text \<open>
  An outage that outlasts the lease: the leader \<open>a\<close> meets only locked databases, another replica \<open>b\<close> gets
  through after \<open>a\<close>'s lease has expired, and from then on both lead for as long as \<open>a\<close>'s outage goes on.
\<close>

lemma outage_two_leaders:
  assumes "elections name ttl e" "el_leading e a" "fresh ttl e a" "a \<noteq> b" "int (ttl a) < 2 ^ 63"
    and "list_all (\<lambda>(t, drv). locked drv) (before @ after)" "sorted (el_now e # map fst before @ t # map fst after)"
    and "t - el_renewed e a > validity ttl a"
    and e': "e' = ticks_of name ttl a after (replica_tick name ttl no_faults t b (ticks_of name ttl a before e))"
  shows "elections name ttl e' \<and> el_leading e' a \<and> el_leading e' b \<and> held_lease name (el_store e') = Some (b, t, validity ttl b)"
proof -
  let ?e1 = "ticks_of name ttl a before e"
  let ?e2 = "replica_tick name ttl no_faults t b ?e1"
  have locked: "list_all (\<lambda>(t, drv). locked drv) before" "list_all (\<lambda>(t, drv). locked drv) after"
    using assms(6) by simp_all
  have e1: "?e1 = e\<lparr>el_now := last (el_now e # map fst before)\<rparr>" by (rule locked_ticks [OF locked(1)])
  have s1: "sorted (el_now e # map fst before)" and s2: "sorted (t # map fst after)"
    using assms(7) by (auto simp: sorted_append)
  have "\<forall>x \<in> set (el_now e # map fst before). x \<le> t" using assms(7) by (auto simp: sorted_append)
  then have "last (el_now e # map fst before) \<le> t" using last_in_set [of "el_now e # map fst before"] by blast
  then have le: "el_now ?e1 \<le> t" by (simp add: e1)
  have cur: "current_lease name (el_store e) = Some (a, el_renewed e a, whole_seconds (int (ttl a)))"
    using fresh_leader_holds [OF assms(1-3)] by (auto simp: GetLease_current split: option.splits)
  have "int (ttl a) div second \<le> (2 ^ 63 - 1) div second"
    using assms(5) by (intro zdiv_mono1) (simp_all add: second_def)
  then have "validity ttl a < 2 ^ 63 - 1" by (simp add: validity_def whole_seconds_def second_def)
  then have "lease_expired t (a, el_renewed e a, whole_seconds (int (ttl a)))"
    using assms(8) by (simp add: lease_expired_def validity_def time_Sub_def)
  with TryAcquireLease_no_faults [of t name b "int (ttl b)" "el_store e"] cur obtain h st' where
    acq: "TryAcquireLease no_faults t name b (int (ttl b)) (el_store e) = Inr (True, h, st')" by auto
  then have e2: "?e2 = \<lparr>el_now = t, el_store = st', el_leading = (el_leading e)(b := True), el_renewed = (el_renewed e)(b := t)\<rparr>"
    by (auto simp: replica_tick_def election_tick_def renews_def e1)
  have e3: "e' = ?e2\<lparr>el_now := last (t # map fst after)\<rparr>"
    unfolding e' locked_ticks [OF locked(2)] by (simp add: e2)
  have "elections name ttl ?e2"
    by (rule elections.step [OF ticks_reachable [OF assms(1) s1] election_step.tick [OF le]])
  then have "elections name ttl e'" unfolding e' by (rule ticks_reachable) (use s2 e2 in simp)
  moreover have "held_lease name st' = Some (b, t, validity ttl b)"
    using TryAcquireLease_granted(3) [OF acq, of name] by (simp add: held_lease_def validity_def)
  ultimately show ?thesis using assms(2,4) by (simp add: e3 e2)
qed

text \<open>One such run.\<close>

definition split_brain :: election where
  "split_brain =
    (let ttl = (\<lambda>_. 10000000000);
         e1 = replica_tick ''cm'' ttl no_faults 0 ''a'' (election_start 0);
         e2 = replica_tick ''cm'' ttl no_faults 11000000000 ''b'' e1 in
     replica_tick ''cm'' ttl (\<lambda>_. Some ''database is locked'') 12000000000 ''a'' e2)"

lemma split_brain_reachable: "elections ''cm'' (\<lambda>_. 10000000000) split_brain"
proof -
  let ?ttl = "\<lambda>_. 10000000000 :: nat"
  have now: "el_now (replica_tick name ttl drv t i e) = t" for name ttl drv t i e
    by (simp add: replica_tick_def split: prod.splits)
  have "elections ''cm'' ?ttl (replica_tick ''cm'' ?ttl no_faults 0 ''a'' (election_start 0))"
    by (rule elections.step [OF elections.start [where t = 0]])
      (rule election_step.tick, simp add: election_start_def)
  then have "elections ''cm'' ?ttl (replica_tick ''cm'' ?ttl no_faults 11000000000 ''b''
      (replica_tick ''cm'' ?ttl no_faults 0 ''a'' (election_start 0)))"
    by (rule elections.step) (rule election_step.tick, simp add: now)
  then show ?thesis
    unfolding split_brain_def Let_def by (rule elections.step) (rule election_step.tick, simp add: now)
qed

lemma split_brain_leaders: "el_leading split_brain ''a'' \<and> el_leading split_brain ''b''"
  by (simp add: split_brain_def replica_tick_def election_tick_def renews_def TryAcquireLease_def election_start_def
      empty_store_def time_Sub_def whole_seconds_def second_def no_faults_simp sql_insert_def sql_exec_def
      sql_has_def sql_update_def)

end
