(* ===== verification/Cascade.thy ===== *)
theory Cascade
  imports Store_Contracts
begin

text \<open>
  Deletes that span two tables: a service with its endpoints, a custom resource definition with
  its custom resources.
\<close>

lemma sql_first_delete_covered: "(\<And>r. p r \<Longrightarrow> q r) \<Longrightarrow> sql_first p (sql_delete q T) = None"
  by (auto simp: sql_first_None_iff sql_delete_def)

lemma sql_first_delete_disjoint: "(\<And>r. p r \<Longrightarrow> \<not> q r) \<Longrightarrow> sql_first p (sql_delete q T) = sql_first p T"
  by (induction T) (auto simp: sql_delete_def)

lemma DeleteService_tables:
  "DeleteService no_faults s st = Inr st' \<Longrightarrow>
   t_services st' = sql_delete (\<lambda>r. srow_name r = s) (t_services st) \<and>
   t_endpoints st' = sql_delete (\<lambda>r. erow_name r = s) (t_endpoints st)"
  by (auto simp: DeleteService_def map_result_def no_faults_simp split: sum.splits option.splits if_splits)

lemma DeleteCRD_tables:
  "DeleteCRD no_faults c st = Inr st' \<Longrightarrow>
   t_crds st' = sql_delete (\<lambda>r. crow_name r = c) (t_crds st) \<and>
   t_custom_resources st' = sql_delete (\<lambda>r. xrow_crd_name r = c) (t_custom_resources st)"
  by (auto simp: DeleteCRD_def map_result_def no_faults_simp split: sum.splits option.splits if_splits)

lemma DeleteService_gets:
  assumes "DeleteService no_faults s st = Inr st'"
  shows "GetService no_faults st' n = (if n = s then Inl ErrNotFound else GetService no_faults st n)"
    and "GetEndpoints no_faults st' n = (if n = s then Inl ErrNotFound else GetEndpoints no_faults st n)"
  using DeleteService_tables [OF assms]
  by (simp_all add: GetService_def GetEndpoints_def query_row_def no_faults_simp sql_first_delete)

lemma DeleteCRD_gets:
  assumes "DeleteCRD no_faults c st = Inr st'"
  shows "GetCRD no_faults st' n = (if n = c then Inl ErrNotFound else GetCRD no_faults st n)"
    and "GetCustomResource no_faults st' d n = (if d = c then Inl ErrNotFound else GetCustomResource no_faults st d n)"
proof -
  note T = DeleteCRD_tables [OF assms]
  show "GetCRD no_faults st' n = (if n = c then Inl ErrNotFound else GetCRD no_faults st n)"
    using T by (simp add: GetCRD_def query_row_def no_faults_simp sql_first_delete)
  have "sql_first (\<lambda>r. xrow_key r = (d, n)) (t_custom_resources st') =
      (if d = c then None else sql_first (\<lambda>r. xrow_key r = (d, n)) (t_custom_resources st))"
    using T by (auto simp: xrow_key_def intro!: sql_first_delete_covered sql_first_delete_disjoint)
  then show "GetCustomResource no_faults st' d n = (if d = c then Inl ErrNotFound else GetCustomResource no_faults st d n)"
    by (simp add: GetCustomResource_def query_row_def no_faults_simp)
qed

end
