(* ===== verification/Controller_Manager.thy ===== *)
theory Controller_Manager
  imports Hpa Federation
begin

text \<open>
  The controllers run together: \<open>startControllers\<close> of cmd/apiserver/main.go in the replica that
  leads, and cmd/controller-manager/main.go. Each controller is a goroutine with a ticker of its own;
  a run is the sequence of their passes, in the order in which they happen, up to the end of the
  context. \<open>rnd i\<close> are the random bytes and \<open>now i\<close> the clock of the \<open>i\<close>-th pass.
\<close>

datatype controller = ReplicaSets | Deployments | Services | Autoscalers | Federations

datatype 'w manager_event = Pass controller | CtxDone | World "'w \<Rightarrow> 'w"

record 'w manager =
  mg_Client :: "'w Client"
  mg_hpa :: "'w hpa_controller"
  mg_members :: "string \<Rightarrow> 'w transport"
  mg_status_line :: "int \<Rightarrow> string"

definition NewManager :: "'w transport \<Rightarrow> 'w transport option \<Rightarrow> (string \<Rightarrow> 'w transport) \<Rightarrow> (int \<Rightarrow> string) \<Rightarrow> 'w manager" where
  "NewManager apiSelf metrics members status_line =
    \<lparr>mg_Client = New apiSelf, mg_hpa = NewHPA (New apiSelf) metrics, mg_members = members, mg_status_line = status_line\<rparr>"

definition controller_pass :: "'w manager \<Rightarrow> (nat \<Rightarrow> string \<Rightarrow> nat \<Rightarrow> 8 word list) \<Rightarrow> (nat \<Rightarrow> 'w \<Rightarrow> time) \<Rightarrow> controller \<Rightarrow> nat
    \<Rightarrow> 'w \<Rightarrow> 'w option" where
  "controller_pass m rnd now k i w =
    (case k of
       ReplicaSets \<Rightarrow> map_option snd (rs_reconcileAll (mg_Client m) (rnd i) w)
     | Deployments \<Rightarrow> Some (snd (dep_reconcileAll (mg_Client m) w))
     | Services \<Rightarrow> Some (snd (svc_reconcileAll (mg_Client m) w))
     | Autoscalers \<Rightarrow> Some (snd (hpa_reconcileAll (mg_hpa m) (now i) w))
     | Federations \<Rightarrow> Some (snd (fed_reconcile (mg_Client m) (mg_members m) (mg_status_line m) w)))"

fun startControllers :: "'w manager \<Rightarrow> (nat \<Rightarrow> string \<Rightarrow> nat \<Rightarrow> 8 word list) \<Rightarrow> (nat \<Rightarrow> 'w \<Rightarrow> time) \<Rightarrow> nat
    \<Rightarrow> 'w manager_event list \<Rightarrow> 'w \<Rightarrow> 'w option" where
  "startControllers m rnd now i [] w = Some w"
| "startControllers m rnd now i (CtxDone # es) w = Some w"
| "startControllers m rnd now i (World f # es) w = startControllers m rnd now i es (f w)"
| "startControllers m rnd now i (Pass k # es) w =
    (case controller_pass m rnd now k i w of None \<Rightarrow> None | Some w \<Rightarrow> startControllers m rnd now (Suc i) es w)"

text \<open>The standalone manager runs three of them.\<close>

definition controller_manager :: "'w transport \<Rightarrow> (nat \<Rightarrow> string \<Rightarrow> nat \<Rightarrow> 8 word list) \<Rightarrow> 'w manager_event list \<Rightarrow> 'w \<Rightarrow> 'w option" where
  "controller_manager api rnd es w =
    startControllers (NewManager api None (\<lambda>_. api) (\<lambda>_. [])) rnd (\<lambda>_ _. 0) 0
      (filter (\<lambda>e. case e of Pass k \<Rightarrow> k \<in> {ReplicaSets, Deployments, Services} | _ \<Rightarrow> True) es) w"

lemma pass_panics_iff:
  "controller_pass m rnd now k i w = None \<longleftrightarrow> k = ReplicaSets \<and> rs_reconcileAll (mg_Client m) (rnd i) w = None"
  by (cases k) (simp_all add: controller_pass_def)

lemma startControllers_append:
  "CtxDone \<notin> set es \<Longrightarrow> startControllers m rnd now i (es @ fs) w =
    (case startControllers m rnd now i es w of None \<Rightarrow> None
     | Some w \<Rightarrow> startControllers m rnd now (i + length (filter (\<lambda>e. case e of Pass _ \<Rightarrow> True | _ \<Rightarrow> False) es)) fs w)"
  by (induction m rnd now i es w rule: startControllers.induct) (auto split: option.split)

end
