(* ===== verification/Spec2Isabelle.thy ===== *)
theory Spec2Isabelle
  imports Samples Election Cascade Controller_Manager
begin

text \<open>
  \<^bold>\<open>A verification development for a Kubernetes-style orchestrator written in Go (src/mvp).\<close>

  \<^bold>\<open>The program.\<close> An API server (cmd/apiserver) keeps API objects (internal/api) in SQLite tables
  (internal/store), behind authentication and RBAC (internal/rbac), admission webhooks
  (internal/admission) and schemas of custom resources (internal/crd). Controllers
  (internal/controllers, internal/hpa, internal/federation, internal/operator) run in the replica
  that holds a lease and act through the HTTP client (internal/client); so do the scheduler, the
  kubelet, kube-proxy (with internal/netpol), the cluster DNS, the metrics server and the command line
  (cmd). cmd/mk-sidecar puts mutual TLS between two pods. The parts
  only share the API server's objects: whoever wants something changed writes an object, and another
  part lists the objects and acts.

  \<^bold>\<open>The theories\<close>, in the order they build on each other.

  \<^item> \<open>Prelude\<close>: errors, times, Go maps as sorted association lists (\<open>strmap\<close>), the functions of package
    strings the program calls. \<open>Json\<close>: \<open>encoding/json\<close> on parsed documents: decoders that merge
    into an existing value, encoders with omitted fields. \<open>Api_Core\<close>, \<open>Api_Ext\<close>: the structs of
    internal/api/types.go, each with zero value, well-formedness, encoder, decoder and the round
    trip of the two.
  \<^item> \<open>Sql\<close>: a table as a row list, with key lookups, upsert, update and delete; each statement can fail
    by the \<open>driver\<close> parameter. \<open>Object_Store\<close>: the interface of a table of named objects as a
    locale (what get, put and delete promise each other). \<open>Store_Types\<close>, \<open>Store_Core\<close>, \<open>Store_Ext\<close>:
    the rows and all operations of store.go and store_m6.go. \<open>Store_Contracts\<close> interprets the locale
    for fourteen tables; \<open>Store_Invariant\<close> is the invariant \<open>store_ok\<close> of the database and its
    preservation by every operation; \<open>Cascade\<close> the deletions that reach a second table.
  \<^item> \<open>Rbac\<close>, \<open>Netpol\<close>, \<open>Crd\<close>, \<open>Admission\<close>: the deciding packages, each with a specification that reads
    without the loops (\<open>permitted\<close>, \<open>selects\<close> and \<open>admits\<close>, \<open>conforms\<close>, \<open>chain\<close> and \<open>passes\<close>) and the
    equivalence of code and specification.
  \<^item> \<open>Lease\<close>, \<open>Election\<close>: the lease operations, one tick of \<open>runLeaderElected\<close>, and the runs of
    several replicas over one database as an inductive set with its invariant \<open>election_sound\<close>.
  \<^item> \<open>Http\<close>, \<open>Handlers\<close>, \<open>Apiserver\<close>: requests and answers, the guard, the address allocator, the mux, all
    handlers of main.go and m6.go; \<open>serve\<close> is the whole server. \<open>Apiserver\<close> proves what every request
    keeps, through one rule per kind of handler; \<open>Cluster_IP\<close> is the allocator's search, \<open>Post_Race\<close> the interleavings of several POSTs of
    services, on one server or on replicas that share the database.
  \<^item> \<open>Urls\<close>: \<open>net/url\<close> on the addresses the callers concatenate: escapes, query, fragment, and the addresses
    it refuses. \<open>Client\<close>: the client's methods over a transport parameter. \<open>Sockets\<close>: \<open>net.Listen\<close> and
    \<open>Close\<close> as a locale, and a host with a table of open listeners that interprets it. \<open>Loopback\<close>: the
    transport that hands the requests to \<open>serve\<close>, by which the parts below are run against the modelled
    server.
  \<^item> \<open>Controllers\<close>: the replica set, deployment and service controllers. \<open>Replicaset_Spec\<close>: the contract
    of a pod server as a locale, and the convergence of a pass in it; \<open>Replicaset_Server\<close>: the
    interpretation by client, HTTP, server and store together; \<open>Workload_Server\<close>: whole passes and the
    loop of the replica set controller, and the roll out of deployments, against that server. \<open>Merge\<close>
    shows that decoding an object over itself changes nothing, which re-applying a deployment needs.
  \<^item> \<open>Float64\<close>, \<open>Hpa\<close>: binary floating point with rounding to nearest even, and the autoscaler.
    \<open>Federation\<close>, \<open>Kube_Proxy\<close>, \<open>Scheduler\<close>, \<open>Kubelet\<close>, \<open>Dns\<close>, \<open>Metrics_Server\<close> (with
    internal/operator), \<open>Webhooks\<close> (cmd/sample-webhook, cmd/mk-sidecar-injector): the other parts.
    \<open>Pod_Lifecycle\<close> composes scheduler, kubelet and server; \<open>Service_Server\<close> the service controller,
    kube-proxy and server; \<open>Autoscaler_Server\<close> the autoscaler with the workload controllers and the
    server; \<open>Fleet\<close> the federation controller with one API server for every URL. \<open>Controller_Manager\<close>: \<open>startControllers\<close> and
    cmd/controller-manager, the passes of all controllers in any order.
  \<^item> \<open>Mkctl\<close>: the command line, each command from its arguments to what it prints; \<open>Mkctl_Server\<close> runs it
    against the server. \<open>Sidecar\<close>: certificates and handshakes with symbolic cryptography.
  \<^item> \<open>Samples\<close>: the objects and transports on which the properties are exercised.

  \<^bold>\<open>The state.\<close> \<open>store\<close> is the record of the tables; \<open>server\<close> adds the allocator's counter; \<open>world\<close> adds
  the number of requests so far, which indexes the environment of each request (clock, random
  identifiers). The other processes thread a state of type \<open>'w\<close> that only their transport touches.
  Go's \<open>error\<close> is the left of a sum, a panic is \<open>None\<close>, a nil map is the empty one, and \<open>int\<close> is the
  mathematical integer except where a width matters: the allocator's octet (8 bit), the proxy's and
  the load balancer's counters (64 bit), the integers JSON may hold (\<open>int64_ok\<close>).

  \<^bold>\<open>What is shown.\<close> C1 and C2: the server keeps its database well formed under every request, and only
  authenticated, permitted requests change it. C3 to C10: the parts composed with the server: replica sets
  converge and stay, deployments roll out, autoscalers set the number of pods, pods are bound, started and
  thus run, services lead to running pods, federated deployments reach their clusters. C11 to C13: leader
  election. C14 to C23: addresses, alone and under concurrent requests, authorization, network policies,
  admission and custom resources decide as specified. C24 and C26: codecs and storage; C25: names that
  make a URL invalid. C27 to C36: the controllers, the autoscaler's formula, the proxy and its listeners, DNS,
  the injector and the kubelet. C37 and C38:
  sidecars; C39 and C40: the command line.
  The specifications of C18, C20, C22 and C31 (\<open>permitted\<close>, \<open>selects\<close> and \<open>admits\<close>, \<open>conforms\<close>,
  \<open>reaches\<close>) use none of the functions they specify.
  C12, C15, C17, C25, C27, C28, C30 and C38 state behaviours one would not expect of such a system.

  \<^bold>\<open>Bounds.\<close> No definition needs fuel: the loops of the program run over lists, the allocator's loop over
  its 250 tries. The tick and sleep loops, which run until they are stopped, are recursions over the
  sequence of events (\<open>loop_run\<close>: a tick, the stop, a step of somebody else); they panic (\<open>None\<close>) when a
  pass does.

  \<^bold>\<open>Not modelled.\<close> Copying of bytes (\<open>biDir\<close>, the proxy's pipes), the flags, listeners and accept loops of
  the mains, the schema text and the DSN of SQLite, the alignment of \<open>mkctl\<close>'s tables. Texts of log lines and of error messages, which nothing reads, are constructors. Bytes of JSON texts: a body is a parsed
  document or one of the ways it can fail to be one. Parameters of the definitions stand for what is
  outside: the SQL driver's failures, the clock, random bytes, webhook servers, transports, the
  operating system's listeners and commands, \<open>net.ParseIP\<close>, \<open>fmt.Sscanf\<close>, the YAML package, the order of ranging over a map. Handlers run one at a time:
  the single SQLite connection orders the statements of concurrent requests, but their interleaving
  inside a handler is only modelled for POSTs of services, with the SELECT and the INSERT of \<open>UpsertService\<close>
  as one access and without the read-back of the answer. The base URLs the flags give are taken to be well
  formed, so only what is appended to them is parsed, and the mux matches the decoded path. Replicas and
  database read one clock that never runs backwards, and a tick of an election is not interrupted. A host
  compares listener addresses as they are written, and the port a connection comes from is a parameter of
  the proxy's decision. Times in the codecs are any instants and strings any bytes, where Go's encoder
  would refuse years beyond 9999 and replace bytes that are not UTF-8. \<open>float64\<close> is without its exponent
  range (the values here are percentages and replica counts).
\<close>
section \<open>The API server\<close>

text \<open>C1: every request keeps the database well formed: all seventeen tables stay free of duplicate
  keys with decodable columns; an answer of 400 or more leaves the database as it was, and a GET
  changes nothing at all.\<close>

theorem serve_invariant:
  assumes "store_ok (srv_st sv)" "serve cfg ev req sv = (resp, sv')"
  shows "store_ok (srv_st sv') \<and> (400 \<le> resp_code resp \<longrightarrow> srv_st sv' = srv_st sv) \<and>
    (req_method req = ''GET'' \<longrightarrow> sv' = sv)"
  using serve_step [of req sv cfg ev] assms by (simp add: step_ok_def)

theorem serve_invariant_witness:
  "\<exists>resp sv'. serve config0 env0 post_web (server_of empty_store) = (resp, sv') \<and> store_ok (srv_st sv') \<and>
     sv' \<noteq> server_of empty_store"
proof -
  obtain r where run: "serve config0 env0 post_web (server_of empty_store) = (r, server_of st_web)"
    using serve_post_web by blast
  from serve_invariant [OF _ run] store_ok_empty have "store_ok (srv_st (server_of st_web))" by simp
  moreover have "server_of st_web \<noteq> server_of empty_store"
    unfolding st_web_def by (rule put_pod_new) (simp_all add: store_ok_empty, simp add: empty_store_def)
  ultimately show ?thesis using run by blast
qed



section \<open>The parts together with the server\<close>

text \<open>C3: the replica set controller, its loop and both listings included, against the API server: after
  any positive number of ticks every stored replica set has exactly the living pods it asks for, no
  set has been changed but in its status, and every pod no set owns is as it was. (The first tick
  needs servable sets and random suffixes that do not collide; later ticks need nothing.)\<close>

theorem replicaset_loop_converges:
  assumes "pass_ready (rnd 0) w"
  shows "\<exists>w'. rs_Run (local_client loop identity now net uid) rnd (replicate (Suc n) Ticked) w = Some w' \<and>
    (\<forall>k rs. live_sets w' k = Some rs \<longrightarrow> card (living (live_pods w') rs) = nat (rsspec_replicas (rs_spec rs))) \<and>
    sets_spec w' = sets_spec w \<and>
    (\<forall>m p. (\<forall>k rs. live_sets w k = Some rs \<longrightarrow> \<not> owned_alive rs p) \<longrightarrow> live_pods w' m = Some p \<longleftrightarrow> live_pods w m = Some p)"
  using rs_Run_converges [where rnd = rnd, OF assms] unfolding settled_def by metis

theorem replicaset_loop_converges_witness:
  "\<exists>w' rs. rs_Run (local_client True [] still silent no_uid) (\<lambda>_ _. bytes) [Ticked, Ticked, Ticked] (world_of st_set) = Some w' \<and>
     live_sets w' ''web'' = Some rs \<and> card (living (live_pods w') rs) = 2"
proof -
  obtain w' where w': "rs_Run (local_client True [] still silent no_uid) (\<lambda>_ _. bytes) [Ticked, Ticked, Ticked] (world_of st_set) = Some w'"
    "\<forall>k rs. live_sets w' k = Some rs \<longrightarrow> card (living (live_pods w') rs) = nat (rsspec_replicas (rs_spec rs))"
    "sets_spec w' = sets_spec (world_of st_set)"
    using replicaset_loop_converges [where rnd = "\<lambda>_ _. bytes" and n = 2, OF st_set_ready, of True "[]" still silent no_uid]
    by (auto simp: numeral_eq_Suc)
  have "sets_spec (world_of st_set) ''web'' = Some (rs_metadata rs_web, rs_spec rs_web)"
    by (simp add: sets_spec_def live_set_samples stored_rs_def)
  then have "sets_spec w' ''web'' = Some (rs_metadata rs_web, rs_spec rs_web)" by (simp only: w'(3))
  then obtain rs where "live_sets w' ''web'' = Some rs" "rs_spec rs = rs_spec rs_web"
    by (auto simp: sets_spec_def)
  with w' show ?thesis by auto
qed

text \<open>C4: a roll out: one pass of the deployment controller gives every stored deployment its replica set,
  with the deployment's count and, where it is new, its template, and touches neither pods nor other
  replica sets; a pass of the replica set controller then brings each to the deployment's number of
  living pods.\<close>

theorem deployment_rolls_out:
  assumes "unhooked w" "\<forall>k. live_deps w k \<noteq> None \<longrightarrow> plain k"
  shows "\<exists>w1. dep_reconcileAll (local_client loop identity now net uid) w = (Inr (), w1) \<and> unhooked w1 \<and>
    live_pods w1 = live_pods w \<and>
    (\<forall>k d. live_deps w k = Some d \<longrightarrow> (\<exists>q. live_sets w1 (k @ ''-rs'') = Some q \<and> follows (live_sets w (k @ ''-rs'')) d q)) \<and>
    (\<forall>k. (\<forall>j. live_deps w j \<noteq> None \<longrightarrow> k \<noteq> j @ ''-rs'') \<longrightarrow> live_sets w1 k = live_sets w k) \<and>
    (pass_ready rnd w1 \<longrightarrow> (\<exists>w2. rs_reconcileAll (local_client loop identity now net uid) rnd w1 = Some (Inr (), w2) \<and>
       (\<forall>k d. live_deps w k = Some d \<longrightarrow> (\<exists>q. live_sets w1 (k @ ''-rs'') = Some q \<and>
          card (living (live_pods w2) q) = nat (depspec_replicas (dep_spec d))))))"
  by (rule rollout_local [OF assms])

theorem deployment_rolls_out_witness:
  "\<exists>w1 w2 q. dep_reconcileAll (local_client True [] still silent no_uid) (world_of st_dep) = (Inr (), w1) \<and>
     live_sets w1 ''web-rs'' = Some q \<and> podspec_containers (tmpl_spec (rsspec_template (rs_spec q))) = [box] \<and>
     rs_reconcileAll (local_client True [] still silent no_uid) (\<lambda>_. bytes) w1 = Some (Inr (), w2) \<and>
     card (living (live_pods w2) q) = 2"
proof -
  have plain: "\<forall>k. live_deps (world_of st_dep) k \<noteq> None \<longrightarrow> plain k" by (simp add: live_dep_sample split: if_splits)
  have dep: "live_deps (world_of st_dep) ''web'' = Some (stored_dep 5 None dep_web)" by (simp add: live_dep_sample)
  obtain w1 where w1: "dep_reconcileAll (local_client True [] still silent no_uid) (world_of st_dep) = (Inr (), w1)" "unhooked w1"
    "live_pods w1 = live_pods (world_of st_dep)"
    "\<forall>k d. live_deps (world_of st_dep) k = Some d \<longrightarrow>
      (\<exists>q. live_sets w1 (k @ ''-rs'') = Some q \<and> follows (live_sets (world_of st_dep) (k @ ''-rs'')) d q)"
    "\<forall>k. (\<forall>j. live_deps (world_of st_dep) j \<noteq> None \<longrightarrow> k \<noteq> j @ ''-rs'') \<longrightarrow> live_sets w1 k = live_sets (world_of st_dep) k"
    "pass_ready (\<lambda>_. bytes) w1 \<longrightarrow> (\<exists>w2. rs_reconcileAll (local_client True [] still silent no_uid) (\<lambda>_. bytes) w1 = Some (Inr (), w2) \<and>
      (\<forall>k d. live_deps (world_of st_dep) k = Some d \<longrightarrow> (\<exists>q. live_sets w1 (k @ ''-rs'') = Some q \<and>
          card (living (live_pods w2) q) = nat (depspec_replicas (dep_spec d)))))"
    using deployment_rolls_out [where rnd = "\<lambda>_. bytes" and loop = True and identity = "[]" and now = still and net = silent
      and uid = no_uid, OF unhooked_dep plain] by (elim exE conjE) (rule that)
  from w1(4) [rule_format, OF dep] obtain q where q: "live_sets w1 ''web-rs'' = Some q" "rs_spec q = rs_spec (replicaSet_of dep_web)"
    by (auto simp: follows_def live_dep_sample replicaSet_of_def Let_def stored_dep_def)
  have spec: "rsspec_replicas (rs_spec q) = 2" "podspec_containers (tmpl_spec (rsspec_template (rs_spec q))) = [box]"
    by (simp_all add: q(2) replicaSet_of_def Let_def dep_web_def)
  have named: "wf_ReplicaSet q" "md_name (rs_metadata q) = ''web-rs''" using live_sets_name [OF w1(2) q(1)] by simp_all
  have "pass_ready (\<lambda>_. bytes) w1"
  proof (rule one_set_ready [OF w1(2), of q])
    show "plain_names w1" by (simp add: plain_names_def w1(3) live_dep_sample)
    show "rs = q" if rs: "live_sets w1 k = Some rs" for k rs
    proof (rule ccontr)
      assume "rs \<noteq> q"
      then have "k \<noteq> ''web-rs''" using q(1) rs by auto
      then have "live_sets w1 k = live_sets (world_of st_dep) k"
        by (intro w1(5) [rule_format]) (simp add: live_dep_sample split: if_splits)
      then show False using rs by (simp add: live_dep_sample)
    qed
    show "servable q" by (simp add: servable_def named spec plain_def)
    show "fresh_for (\<lambda>_. bytes) (live_pods w1) q"
      by (rule two_fresh) (simp_all add: spec named plain_def w1(3) live_dep_sample)
  qed
  with w1(6) dep obtain w2 where "rs_reconcileAll (local_client True [] still silent no_uid) (\<lambda>_. bytes) w1 = Some (Inr (), w2)"
    "card (living (live_pods w2) q) = nat (depspec_replicas (dep_spec (stored_dep 5 None dep_web)))"
    using q(1) by force
  with w1(1) q(1) spec show ?thesis by (auto simp: stored_dep_def dep_web_def)
qed

text \<open>C5: autoscaling end to end: a pass of the autoscaler, whose metrics come from any server that leaves the
  cluster alone, then one of the deployment controller, give every autoscaled deployment's replica set
  exactly the count the autoscaler decides on from the listed pods and the metrics (its wish within the
  bounds of the autoscaler, and nothing smaller than before during the cooldown); a pass of the replica
  set controller then leaves that many living pods.\<close>

theorem autoscaler_scales_pods:
  assumes "unhooked w" "deps_servable w" "\<forall>k. live_deps w k \<noteq> None \<longrightarrow> plain k"
    and "\<forall>k h. live_hpas w k = Some h \<longrightarrow> scalable h \<and> plain (hpa_target h)"
    and "\<forall>k k' h h'. live_hpas w k = Some h \<longrightarrow> live_hpas w k' = Some h' \<longrightarrow> k \<noteq> k' \<longrightarrow> hpa_target h \<noteq> hpa_target h'"
    and "\<forall>T req v. m = Some T \<longrightarrow> snd (T req v) = v"
    and "metrics = (case fst (fetchMetrics (NewHPA (local_client loop identity now net uid) m) (tick w)) of
      Inl _ \<Rightarrow> [] | Inr ms \<Rightarrow> ms)"
  shows "\<exists>w1 w2. hpa_reconcileAll (NewHPA (local_client loop identity now net uid) m) (\<lambda>_. t) w = (Inr (), w1) \<and>
    dep_reconcileAll (local_client loop identity now net uid) w1 = (Inr (), w2) \<and> live_pods w2 = live_pods w \<and>
    (\<forall>k h d. live_hpas w k = Some h \<longrightarrow> live_deps w (hpa_target h) = Some d \<longrightarrow> (\<exists>ps q. snapshot_of w (\<lambda>_. True) ps \<and>
       live_sets w2 (hpa_target h @ ''-rs'') = Some q \<and>
       rsspec_replicas (rs_spec q) = hpa_verdict (15 * second) t metrics ps h d \<and>
       (pass_ready rnd w2 \<longrightarrow> (\<exists>w3. rs_reconcileAll (local_client loop identity now net uid) rnd w2 = Some (Inr (), w3) \<and>
          card (living (live_pods w3) q) = nat (hpa_verdict (15 * second) t metrics ps h d)))))"
  by (rule autoscale_local [OF assms])

theorem autoscaler_scales_pods_witness:
  "\<exists>w1 w2 q. hpa_reconcileAll (NewHPA (local_client True [] still silent no_uid) (Some full_load)) (\<lambda>_. 7) (world_of st_hpa) =
       (Inr (), w1) \<and>
     dep_reconcileAll (local_client True [] still silent no_uid) w1 = (Inr (), w2) \<and>
     live_sets w2 ''web-rs'' = Some q \<and> rsspec_replicas (rs_spec q) = 4"
proof -
  let ?w = "world_of st_hpa" and ?c = "local_client True [] still silent no_uid"
  let ?h = "stored_hpa None hpa_live" and ?d = "stored_dep 5 None dep_web" and ?p = "stored_pod 5 None busy_web"
  define ms where "ms = [\<lparr>pm_podName = ''web-0'', pm_nodeName = ''node-1'', pm_cpuPct = 100\<rparr>]"
  have hpa: "live_hpas ?w ''web'' = Some ?h" and dep: "live_deps ?w ''web'' = Some ?d" by (simp_all add: live_hpa_sample)
  have deps: "deps_servable ?w" "\<forall>k. live_deps ?w k \<noteq> None \<longrightarrow> plain k"
    by (auto simp: deps_servable_def live_hpa_sample stored_dep_def dep_web_def split: if_splits)
  have hpas: "\<forall>k h. live_hpas ?w k = Some h \<longrightarrow> scalable h \<and> plain (hpa_target h)"
    by (simp add: live_hpa_sample hpa_live_scalable)
  have apart: "\<forall>k k' h h'. live_hpas ?w k = Some h \<longrightarrow> live_hpas ?w k' = Some h' \<longrightarrow> k \<noteq> k' \<longrightarrow> hpa_target h \<noteq> hpa_target h'"
    by (simp add: live_hpa_sample)
  have world: "\<forall>T req v. Some full_load = Some T \<longrightarrow> snd (T req v) = (v :: world)" by (simp add: full_load_def)
  have metrics: "ms = (case fst (fetchMetrics (NewHPA ?c (Some full_load)) (tick ?w)) of Inl _ \<Rightarrow> [] | Inr ms \<Rightarrow> ms)"
    by (simp add: full_load_metrics ms_def)
  obtain w1 w2 where run: "hpa_reconcileAll (NewHPA ?c (Some full_load)) (\<lambda>_. 7) ?w = (Inr (), w1)"
    "dep_reconcileAll ?c w1 = (Inr (), w2)"
    and all: "\<forall>k h d. live_hpas ?w k = Some h \<longrightarrow> live_deps ?w (hpa_target h) = Some d \<longrightarrow>
      (\<exists>ps q. snapshot_of ?w (\<lambda>_. True) ps \<and> live_sets w2 (hpa_target h @ ''-rs'') = Some q \<and>
       rsspec_replicas (rs_spec q) = hpa_verdict (15 * second) 7 ms ps h d \<and>
       (pass_ready (\<lambda>_. bytes) w2 \<longrightarrow> (\<exists>w3. rs_reconcileAll ?c (\<lambda>_. bytes) w2 = Some (Inr (), w3) \<and>
          card (living (live_pods w3) q) = nat (hpa_verdict (15 * second) 7 ms ps h d))))"
    using autoscaler_scales_pods [OF unhooked_hpa deps hpas apart world metrics, of 7 "\<lambda>_. bytes"] by (elim exE conjE) (rule that)
  obtain ps q where q: "snapshot_of ?w (\<lambda>_. True) ps" "live_sets w2 ''web-rs'' = Some q"
    "rsspec_replicas (rs_spec q) = hpa_verdict (15 * second) 7 ms ps ?h ?d"
    using all [rule_format, OF hpa] dep by (auto simp: hpa_live_target)
  have "hpa_verdict (15 * second) 7 ms ps ?h ?d = 4"
    unfolding st_hpa_snapshot [OF q(1)] ms_def by (rule full_load_verdict)
  with run q show ?thesis by (intro exI [of _ w1] exI [of _ w2] exI [of _ q]) simp
qed

text \<open>C6: one pass of the scheduler against the API server binds every pending pod to its node and
  touches no other pod.\<close>

theorem scheduler_binds_pending:
  assumes "unhooked w" "plain_names w"
  shows "\<exists>w'. scheduleOnce (local_transport loop identity now net uid) node w = Some (Inr (), w') \<and> unhooked w' \<and>
    (\<forall>n. live_pods w n = None \<longrightarrow> live_pods w' n = None) \<and>
    (\<forall>n p. live_pods w n = Some p \<longrightarrow> ps_phase (pod_status p) \<noteq> PhasePending \<longrightarrow> live_pods w' n = Some p) \<and>
    (\<forall>n p. live_pods w n = Some p \<longrightarrow> ps_phase (pod_status p) = PhasePending \<longrightarrow>
       (\<exists>t. live_pods w' n = Some (with_status p (bound_status node) t)))"
  by (rule scheduleOnce_local [OF assms])

theorem scheduler_binds_pending_witness:
  "\<exists>w' t. scheduleOnce (local_transport True [] still silent no_uid) ''node-1'' (world_of st_two) = Some (Inr (), w') \<and>
     live_pods w' ''web-0'' = Some (with_status web_row (bound_status ''node-1'') t) \<and> live_pods w' ''db'' = Some db_row"
  using scheduler_binds_pending [OF unhooked_samples(3) plain_names_two, of True "[]" still silent no_uid "''node-1''"]
  by (auto simp: live_samples phase_defs)

text \<open>C7: one synchronisation of the kubelet against the API server reports exactly the scheduled pods
  of its node as running (on the loopback address under the stub runtime, without an address under docker)
  or failed, the pods with a container as running where the runtime's start never fails, and touches no
  other pod; the names of the pods and of the node are ones a URL takes as they are.\<close>

theorem kubelet_starts_scheduled:
  assumes "unhooked w" "plain_names w" "local_runtime rt" "ports_ok stubs" "node \<noteq> []" "query_safe node"
  shows "\<exists>stubs' w'. syncOnce (local_transport loop identity now net uid) rt node stubs w = Some (Inr (), stubs', w') \<and>
    unhooked w' \<and>
    (\<forall>n. (\<forall>p. live_pods w n = Some p \<longrightarrow> \<not> due node p) \<longrightarrow> live_pods w' n = live_pods w n) \<and>
    (\<forall>n p. live_pods w n = Some p \<longrightarrow> due node p \<longrightarrow>
       (\<exists>s t. reported rt p s \<and> live_pods w' n = Some (with_status p s t)))"
  by (rule syncOnce_local [OF assms])

theorem kubelet_starts_scheduled_witness:
  "\<exists>stubs' w' s t. syncOnce (local_transport True [] still silent no_uid) echo_host ''node-1'' [] (world_of st_two) =
       Some (Inr (), stubs', w') \<and>
     live_pods w' ''web-0'' = Some web_row \<and> live_pods w' ''db'' = Some (with_status db_row s t) \<and> ps_phase s = PhaseRunning"
proof -
  have due: "due ''node-1'' db_row" "\<not> due ''node-1'' web_row" by (simp_all add: due_def phase_defs)
  have node: "''node-1'' \<noteq> []" by simp
  obtain stubs' w' where run: "syncOnce (local_transport True [] still silent no_uid) echo_host ''node-1'' [] (world_of st_two) =
      Some (Inr (), stubs', w')"
    and other: "\<forall>n. (\<forall>p. live_pods (world_of st_two) n = Some p \<longrightarrow> \<not> due ''node-1'' p) \<longrightarrow>
      live_pods w' n = live_pods (world_of st_two) n"
    and started: "\<forall>n p. live_pods (world_of st_two) n = Some p \<longrightarrow> due ''node-1'' p \<longrightarrow>
      (\<exists>s t. reported echo_host p s \<and> live_pods w' n = Some (with_status p s t))"
    using kubelet_starts_scheduled [OF unhooked_samples(3) plain_names_two echo_host_ok(1,3) node node_1_safe,
      of True "[]" still silent no_uid] by blast
  from other due(2) have web: "live_pods w' ''web-0'' = Some web_row" by (simp add: live_samples)
  from started [rule_format, of "''db''" db_row] due(1) obtain s t where
    "reported echo_host db_row s" "live_pods w' ''db'' = Some (with_status db_row s t)"
    by (auto simp: live_samples)
  with run web echo_host_ok(2) show ?thesis by (auto simp: reported_def)
qed

text \<open>C8: the life of a pod, under either runtime: after one pass of the scheduler and one of that node's
  kubelet a pending pod with a container is bound to the node with its metadata and spec as before, and it is
  reported as running (on the loopback address when the kubelet runs echo stubs, without an address when it
  runs docker) or, when the runtime could not start it, as failed; where \<open>docker run\<close> succeeds, or the stub
  can listen, it is running. The names of the pods and of the node are ones a URL takes as they are (see C25).\<close>

theorem pending_pod_runs:
  assumes "unhooked w" "plain_names w" "local_runtime rt" "ports_ok stubs" "node \<noteq> []" "query_safe node"
    and "live_pods w n = Some p" "ps_phase (pod_status p) = PhasePending" "podspec_containers (pod_spec p) \<noteq> []"
  shows "\<exists>w1 stubs' w2 q. scheduleOnce (local_transport loop identity now net uid) node w = Some (Inr (), w1) \<and>
    syncOnce (local_transport loop identity now net uid) rt node stubs w1 = Some (Inr (), stubs', w2) \<and>
    live_pods w2 n = Some q \<and> ps_nodeName (pod_status q) = node \<and> pod_metadata q = pod_metadata p \<and> pod_spec q = pod_spec p \<and>
    (ps_phase (pod_status q) = PhaseRunning \<and> ps_podIP (pod_status q) = (if rt_docker rt then [] else ''127.0.0.1'') \<or>
      \<not> reliable rt \<and> ps_phase (pod_status q) = PhaseFailed)"
proof -
  let ?T = "local_transport loop identity now net uid"
  obtain w1 t where w1: "scheduleOnce ?T node w = Some (Inr (), w1)" "unhooked w1"
    "\<forall>n. live_pods w n = None \<longrightarrow> live_pods w1 n = None"
    "live_pods w1 n = Some (with_status p (bound_status node) t)"
    using scheduleOnce_local [OF assms(1,2), of loop identity now net uid node] assms(7,8) by metis
  let ?p = "with_status p (bound_status node) t"
  have "plain_names w1"
    using assms(2) w1(3) unfolding plain_names_def by (metis not_None_eq)
  from syncOnce_local [OF w1(2) this assms(3-6), of loop identity now net uid]
  obtain stubs' w2 where w2: "syncOnce ?T rt node stubs w1 = Some (Inr (), stubs', w2)"
    "\<forall>n p. live_pods w1 n = Some p \<longrightarrow> due node p \<longrightarrow> (\<exists>s t. reported rt p s \<and> live_pods w2 n = Some (with_status p s t))"
    by blast
  have "due node ?p" by (simp add: due_def with_status_def bound_status_def)
  with w2(2) w1(4) obtain s t' where s: "reported rt ?p s" "live_pods w2 n = Some (with_status ?p s t')" by blast
  have "podspec_containers (pod_spec ?p) \<noteq> []" using assms(9) by (simp add: with_status_def)
  with s(1) have "ps_nodeName s = node" "ps_phase s = PhaseRunning \<and> ps_podIP s = (if rt_docker rt then [] else ''127.0.0.1'') \<or>
      \<not> reliable rt \<and> ps_phase s = PhaseFailed"
    by (auto simp: reported_def with_status_def bound_status_def phase_defs)
  with s(2) w1(1) w2(1) show ?thesis
    by (intro exI [of _ w1] exI [of _ stubs'] exI [of _ w2] exI [of _ "with_status ?p s t'"]) (auto simp: with_status_def)
qed

theorem pending_pod_runs_witness:
  "\<exists>w1 stubs1 w2 q1 stubs2 w3 q2. scheduleOnce (local_transport True [] still silent no_uid) ''node-1'' (world_of st_web) = Some (Inr (), w1) \<and>
     syncOnce (local_transport True [] still silent no_uid) echo_host ''node-1'' [] w1 = Some (Inr (), stubs1, w2) \<and>
     live_pods w2 ''web-0'' = Some q1 \<and> ps_phase (pod_status q1) = PhaseRunning \<and> ps_podIP (pod_status q1) = ''127.0.0.1'' \<and>
     syncOnce (local_transport True [] still silent no_uid) docker_host ''node-1'' [] w1 = Some (Inr (), stubs2, w3) \<and>
     live_pods w3 ''web-0'' = Some q2 \<and> ps_phase (pod_status q2) = PhaseRunning \<and> ps_podIP (pod_status q2) = []"
proof -
  have names: "plain_names (world_of st_web)" by (simp add: plain_names_def live_samples)
  have pod: "live_pods (world_of st_web) ''web-0'' = Some web_row" "ps_phase (pod_status web_row) = PhasePending"
    "podspec_containers (pod_spec web_row) \<noteq> []" "''node-1'' \<noteq> []" by (simp_all add: live_samples)
  have rt: "\<not> rt_docker echo_host" "rt_docker docker_host" by (simp_all add: echo_host_def docker_host_def)
  note run = pending_pod_runs [OF unhooked_samples(2) names _ echo_host_ok(3) pod(4) node_1_safe pod(1-3), of _ True "[]" still silent no_uid]
  obtain w1 stubs1 w2 q1 where A: "scheduleOnce (local_transport True [] still silent no_uid) ''node-1'' (world_of st_web) = Some (Inr (), w1)"
    "syncOnce (local_transport True [] still silent no_uid) echo_host ''node-1'' [] w1 = Some (Inr (), stubs1, w2)"
    "live_pods w2 ''web-0'' = Some q1" "ps_phase (pod_status q1) = PhaseRunning" "ps_podIP (pod_status q1) = ''127.0.0.1''"
    using run [OF echo_host_ok(1)] echo_host_ok(2) rt(1) by auto
  obtain w1' stubs2 w3 q2 where B: "scheduleOnce (local_transport True [] still silent no_uid) ''node-1'' (world_of st_web) = Some (Inr (), w1')"
    "syncOnce (local_transport True [] still silent no_uid) docker_host ''node-1'' [] w1' = Some (Inr (), stubs2, w3)"
    "live_pods w3 ''web-0'' = Some q2" "ps_phase (pod_status q2) = PhaseRunning" "ps_podIP (pod_status q2) = []"
    using run [OF docker_host_ok(1)] docker_host_ok(2) rt(2) by auto
  have "w1' = w1" using A(1) B(1) by simp
  with A B show ?thesis by blast
qed

text \<open>C9: from pods to connections, on one host: a pass of the service controller and the first sync of a kube-proxy
  leave a listener open on the address and port of a stored service, provided that the host lets the proxy bind
  that address and no other service port asks for the same address or for any free port (0) on it (under the API
  server's default flags every service has the address 127.0.0.1, so their ports must differ). The names of the
  services are ones a URL takes as they are. The backends of the listener are exactly
  the endpoints of the running pods the service selects, and the first connection is dialled to one of
  them, unless enforcement is on and the policies the proxy read deny it; it is refused for want of
  endpoints only when there are none.\<close>

theorem service_reaches_running_pods:
  assumes "unhooked w" "\<forall>k. live_svcs w k \<noteq> None \<longrightarrow> plain k"
    and "live_svcs w s = Some svc" "svcspec_clusterIP (svc_spec svc) \<noteq> []" "sp \<in> set (svcspec_ports (svc_spec svc))"
    and "sp_port sp \<noteq> 0" "os_open os = []" "os_bindable os (svcspec_clusterIP (svc_spec svc)) (sp_port sp)"
    and "\<forall>n x. live_svcs w n = Some x \<longrightarrow> spares (s, sp_port sp) (svcspec_clusterIP (svc_spec svc)) x"
  shows "\<exists>w1 p w2 os' e. svc_reconcileAll (New (local_transport loop identity now net rnd)) w = (Inr (), w1) \<and>
    sync (New (hosted (local_transport loop identity now net rnd))) host_sockets (new_proxy enforce) (w1, os) = (Inr (), p, (w2, os')) \<and>
    map_of (px_entries p) (s, sp_port sp) = Some e \<and> pe_ln e \<in> set (os_open os') \<and>
    snd (pe_ln e) = (svcspec_clusterIP (svc_spec svc), sp_port sp) \<and>
    (\<forall>a. a \<in> set (pe_backends e) \<longleftrightarrow> (\<exists>n q. live_pods w n = Some q \<and> endpoint_of svc q = Some a)) \<and>
    snapshot_of w (\<lambda>_. True) (px_pods p) \<and> px_netpolEnforce p = enforce \<and>
    (\<forall>src. case pe_backends e of [] \<Rightarrow> handle p e src = Some (NoEndpoints, e)
       | a # _ \<Rightarrow> \<exists>v. handle p e src = Some (v, e\<lparr>pe_counter := 1\<rparr>) \<and> verdict_on p src a v)"
  by (rule service_path_local [OF assms])

theorem service_reaches_running_pods_witness:
  "\<exists>w1 p w2 os' e. svc_reconcileAll (New (local_transport True [] still silent no_uid)) (world_of st_svc) = (Inr (), w1) \<and>
     sync (New (hosted (local_transport True [] still silent no_uid))) host_sockets (new_proxy False) (w1, host0) = (Inr (), p, (w2, os')) \<and>
     map_of (px_entries p) (''web'', 80) = Some e \<and> pe_ln e \<in> set (os_open os') \<and> snd (pe_ln e) = (''127.20.0.2'', 80) \<and>
     fst (the (handle p e 40000)) = DialTo (backend 30000)"
proof -
  let ?sp = "\<lparr>sp_name = [], sp_port = 80, sp_targetPort = 8080, sp_protocol = []\<rparr>" and ?svc = "stored_svc 5 None svc_live"
  have svc: "live_svcs (world_of st_svc) ''web'' = Some ?svc" by (simp add: live_svc_sample)
  have plain: "\<forall>k. live_svcs (world_of st_svc) k \<noteq> None \<longrightarrow> plain k" by (simp add: live_svc_sample)
  have spec: "svcspec_clusterIP (svc_spec ?svc) \<noteq> []" "?sp \<in> set (svcspec_ports (svc_spec ?svc))" "sp_port ?sp \<noteq> 0"
    and ip: "svcspec_clusterIP (svc_spec ?svc) = ''127.20.0.2''"
    by (simp_all add: stored_svc_def svc_live_def svc_web_def)
  have host: "os_open host0 = []" "os_bindable host0 (svcspec_clusterIP (svc_spec ?svc)) (sp_port ?sp)"
    by (simp_all add: host0_def)
  have alone: "\<forall>n x. live_svcs (world_of st_svc) n = Some x \<longrightarrow>
      spares (''web'', sp_port ?sp) (svcspec_clusterIP (svc_spec ?svc)) x"
    by (simp add: live_svc_sample spares_def) (simp add: stored_svc_def svc_live_def svc_web_def)
  obtain w1 p w2 os' e where run: "svc_reconcileAll (New (local_transport True [] still silent no_uid)) (world_of st_svc) = (Inr (), w1)"
    "sync (New (hosted (local_transport True [] still silent no_uid))) host_sockets (new_proxy False) (w1, host0) = (Inr (), p, (w2, os'))"
    "map_of (px_entries p) (''web'', sp_port ?sp) = Some e" "pe_ln e \<in> set (os_open os')"
    "snd (pe_ln e) = (svcspec_clusterIP (svc_spec ?svc), sp_port ?sp)"
    "\<forall>a. a \<in> set (pe_backends e) \<longleftrightarrow> (\<exists>n q. live_pods (world_of st_svc) n = Some q \<and> endpoint_of ?svc q = Some a)"
    "px_netpolEnforce p = False"
    "\<forall>src. case pe_backends e of [] \<Rightarrow> handle p e src = Some (NoEndpoints, e)
       | a # _ \<Rightarrow> \<exists>v. handle p e src = Some (v, e\<lparr>pe_counter := 1\<rparr>) \<and> verdict_on p src a v"
    using service_reaches_running_pods [OF unhooked_svc plain svc spec host alone, of True "[]" still silent no_uid False]
    by (elim exE conjE) (rule that)
  have "set (pe_backends e) = {backend 30000}"
    using run(6) by (auto simp: live_svc_sample running_web_endpoint split: if_splits)
  then obtain rest where "pe_backends e = backend 30000 # rest" by (cases "pe_backends e") auto
  with run(8) [rule_format, of 40000] run(7) have "fst (the (handle p e 40000)) = DialTo (backend 30000)"
    by (auto simp: verdict_on_def)
  with run(1-5) ip show ?thesis
    by (intro exI [of _ w1] exI [of _ p] exI [of _ w2] exI [of _ os'] exI [of _ e]) simp
qed

text \<open>C10: one pass of the federation controller, against one API server behind each URL (the host's server may be
  one of them) of which some answer and some do not: whatever readiness was stored, every federated
  deployment arrives, with its template and labels, at exactly the clusters it targets that answer; no
  other deployment, pod or replica set of any server changes; and the status the host then stores counts
  the targets and, as ready, those that were reached.\<close>

theorem federation_deploys_to_reachable_members:
  assumes "\<forall>u. unhooked (f u)" "int (card {k. live_clusters (f host) k \<noteq> None}) < 2 ^ 63"
    and "\<forall>k. live_clusters (f host) k \<noteq> None \<longrightarrow> plain k"
    and "\<forall>k k' cl cl'. live_clusters (f host) k = Some cl \<longrightarrow> live_clusters (f host) k' = Some cl' \<longrightarrow> k \<noteq> k' \<longrightarrow>
      clspec_server (cl_spec cl) \<noteq> clspec_server (cl_spec cl')"
    and "\<forall>k fd. live_fds (f host) k = Some fd \<longrightarrow> pushable fd"
  shows "\<exists>f'. fed_reconcile (New (at_url (local_transport loop identity now net rnd) host))
      (members_of (local_transport loop identity now net rnd) up) status_line f = (Inr (), f') \<and> calm f f' \<and>
    (\<forall>n fd k cl. live_fds (f host) n = Some fd \<longrightarrow> live_clusters (f host) k = Some cl \<longrightarrow> targeted fd k \<longrightarrow>
       up (clspec_server (cl_spec cl)) \<longrightarrow> (\<exists>q. live_deps (f' (clspec_server (cl_spec cl))) n = Some q \<and> pushed fd cl q)) \<and>
    (\<forall>u n. (\<forall>fd k cl. live_fds (f host) n = Some fd \<longrightarrow> live_clusters (f host) k = Some cl \<longrightarrow> targeted fd k \<longrightarrow>
       up u \<longrightarrow> clspec_server (cl_spec cl) \<noteq> u) \<longrightarrow> live_deps (f' u) n = live_deps (f u) n) \<and>
    (\<forall>n fd. live_fds (f host) n = Some fd \<longrightarrow> (\<exists>s. live_fds (f' host) n = Some (fd\<lparr>fd_status := s\<rparr>) \<and>
       fdstatus_clusterCount s = int (card {k. live_clusters (f host) k \<noteq> None \<and> targeted fd k}) \<and>
       fdstatus_readyCount s = int (card {k. \<exists>cl. live_clusters (f host) k = Some cl \<and> targeted fd k \<and> up (clspec_server (cl_spec cl))})))"
  by (rule fleet_pass_local [OF assms])

theorem federation_deploys_to_reachable_members_witness:
  "\<exists>f' q fd. fed_reconcile (New (at_url (local_transport True [] still silent no_uid) ''hub''))
       (members_of (local_transport True [] still silent no_uid) (\<lambda>u. u \<noteq> ''west'')) (\<lambda>c. []) fleet0 = (Inr (), f') \<and>
     live_deps (f' ''east'') ''web'' = Some q \<and> depspec_replicas (dep_spec q) = 2 \<and> live_deps (f' ''west'') ''web'' = None \<and>
     live_fds (f' ''hub'') ''web'' = Some fd \<and> fdstatus_clusterCount (fd_status fd) = 2 \<and> fdstatus_readyCount (fd_status fd) = 1"
proof -
  let ?T = "local_transport True [] still silent no_uid" and ?up = "\<lambda>u. u \<noteq> ''west''"
  let ?east = "stored_cl None (cluster_of ''east'' False)" and ?fd = "stored_fd None fd_web"
  note pass = federation_deploys_to_reachable_members [OF fleet0_unhooked hub_ready, of True "[]" still silent no_uid ?up "\<lambda>c. []"]
  obtain f' where f': "fed_reconcile (New (at_url ?T ''hub'')) (members_of ?T ?up) (\<lambda>c. []) fleet0 = (Inr (), f')"
    and push: "\<forall>n fd k cl. live_fds (fleet0 ''hub'') n = Some fd \<longrightarrow> live_clusters (fleet0 ''hub'') k = Some cl \<longrightarrow> targeted fd k \<longrightarrow>
       ?up (clspec_server (cl_spec cl)) \<longrightarrow> (\<exists>q. live_deps (f' (clspec_server (cl_spec cl))) n = Some q \<and> pushed fd cl q)"
    and frame: "\<forall>u n. (\<forall>fd k cl. live_fds (fleet0 ''hub'') n = Some fd \<longrightarrow> live_clusters (fleet0 ''hub'') k = Some cl \<longrightarrow> targeted fd k \<longrightarrow>
       ?up u \<longrightarrow> clspec_server (cl_spec cl) \<noteq> u) \<longrightarrow> live_deps (f' u) n = live_deps (fleet0 u) n"
    and status: "\<forall>n fd. live_fds (fleet0 ''hub'') n = Some fd \<longrightarrow> (\<exists>s. live_fds (f' ''hub'') n = Some (fd\<lparr>fd_status := s\<rparr>) \<and>
       fdstatus_clusterCount s = int (card {k. live_clusters (fleet0 ''hub'') k \<noteq> None \<and> targeted fd k}) \<and>
       fdstatus_readyCount s = int (card {k. \<exists>cl. live_clusters (fleet0 ''hub'') k = Some cl \<and> targeted fd k \<and> ?up (clspec_server (cl_spec cl))}))"
    using pass by (elim exE conjE) (rule that)
  have fd: "live_fds (fleet0 ''hub'') ''web'' = Some ?fd" and east: "live_clusters (fleet0 ''hub'') ''east'' = Some ?east"
    by (simp_all add: live_hub_fds live_hub_clusters)
  obtain q where q: "live_deps (f' ''east'') ''web'' = Some q" "pushed ?fd ?east q"
    using push [rule_format, OF fd east] by auto
  have west: "live_deps (f' ''west'') ''web'' = None"
    using frame [rule_format, of "''web''" "''west''"] by (simp add: live_deps_def GetDeployment_def empty_store_def query_row_NotFound no_faults_simp)
  obtain s where s: "live_fds (f' ''hub'') ''web'' = Some (?fd\<lparr>fd_status := s\<rparr>)" "fdstatus_clusterCount s = 2" "fdstatus_readyCount s = 1"
    using status [rule_format, OF fd] by (auto simp only: fd_web_targets simp_thms hub_clusters) simp
  have "depspec_replicas (dep_spec q) = 2" using q(2) by (simp add: pushed_def stored_fd_def fd_web_def dep_web_def)
  with f' q(1) west s show ?thesis by (intro exI [of _ f'] exI [of _ q] exI [of _ "?fd\<lparr>fd_status := s\<rparr>"]) simp
qed

section \<open>Leader election\<close>

text \<open>C11: in every run of the apiserver replicas (whatever the database errors, restarts and other
  writes; all replicas read one clock, which never runs backwards, and a tick is not interrupted) at most one replica leads while its last renewal is within its TTL, and the lease row
  names it.\<close>

theorem one_leader_within_ttl:
  assumes "elections name ttl e" "el_leading e i" "fresh ttl e i"
  shows "GetLease no_faults (el_store e) name = Inr (i, el_renewed e i, whole_seconds (int (ttl i))) \<and>
    (\<forall>j. el_leading e j \<longrightarrow> fresh ttl e j \<longrightarrow> j = i)"
  using fresh_leader_holds [OF assms] one_fresh_leader [OF assms(1) _ assms(2) _ assms(3)] by blast

theorem one_leader_within_ttl_witness:
  "GetLease no_faults (el_store split_brain) ''cm'' = Inr (''b'', el_renewed split_brain ''b'', 10) \<and>
   \<not> fresh (\<lambda>_. 10000000000) split_brain ''a''"
proof -
  have fresh: "fresh (\<lambda>_. 10000000000) split_brain ''b''"
    by (simp add: split_brain_def replica_tick_def election_tick_def renews_def TryAcquireLease_def election_start_def
        empty_store_def time_Sub_def whole_seconds_def second_def no_faults_simp sql_insert_def sql_exec_def
        sql_has_def sql_update_def fresh_def validity_def)
  from one_leader_within_ttl [OF split_brain_reachable _ fresh] split_brain_leaders
  show ?thesis by (auto simp: whole_seconds_def second_def)
qed

text \<open>C12: the guarantee ends with the TTL, because a replica whose renewals fail goes on leading: when the
  leader's database stays locked until its lease has expired and another replica, which can reach the database,
  then takes the lease, both lead for as long as the first one's database stays locked. This holds from
  any reachable state with a leader inside its TTL, for any two replicas and any lengths of the outage.\<close>

theorem two_leaders_after_database_error:
  assumes "elections name ttl e" "el_leading e a" "fresh ttl e a" "a \<noteq> b" "int (ttl a) < 2 ^ 63"
    and "list_all (\<lambda>(t, drv). locked drv) (before @ after)" "sorted (el_now e # map fst before @ t # map fst after)"
    and "t - el_renewed e a > validity ttl a"
    and "e' = ticks_of name ttl a after (replica_tick name ttl no_faults t b (ticks_of name ttl a before e))"
  shows "elections name ttl e' \<and> el_leading e' a \<and> el_leading e' b \<and> held_lease name (el_store e') = Some (b, t, validity ttl b)"
  by (rule outage_two_leaders [OF assms])

theorem two_leaders_after_database_error_witness:
  "\<exists>e. elections ''cm'' (\<lambda>_. 10000000000) e \<and> el_now e = 12000000000 \<and> el_leading e ''a'' \<and> el_leading e ''b''"
proof -
  let ?ttl = "\<lambda>_. 10000000000 :: nat" and ?down = "\<lambda>_. Some ''database is locked'' :: string option"
  let ?e = "replica_tick ''cm'' ?ttl no_faults 0 ''a'' (election_start 0)"
  have reach: "elections ''cm'' ?ttl ?e"
    by (rule elections.step [OF elections.start [where t = 0]]) (rule election_step.tick, simp add: election_start_def)
  have e: "el_leading ?e ''a''" "el_now ?e = 0" "el_renewed ?e ''a'' = 0"
    by (simp_all add: replica_tick_def election_tick_def renews_def TryAcquireLease_def election_start_def
        empty_store_def no_faults_simp sql_insert_def sql_has_def)
  have val: "validity ?ttl i = 10000000000" for i by (simp add: validity_def whole_seconds_def second_def)
  have down: "locked ?down" by (simp add: locked_def)
  obtain e' where e': "e' = ticks_of ''cm'' ?ttl ''a'' [(12000000000, ?down)]
      (replica_tick ''cm'' ?ttl no_faults 11000000000 ''b'' (ticks_of ''cm'' ?ttl ''a'' [(5000000000, ?down)] ?e))" by blast
  have "elections ''cm'' ?ttl e' \<and> el_leading e' ''a'' \<and> el_leading e' ''b'' \<and>
      held_lease ''cm'' (el_store e') = Some (''b'', 11000000000, validity ?ttl ''b'')"
    by (rule two_leaders_after_database_error [OF reach e(1) _ _ _ _ _ _ e'])
      (simp_all add: e val fresh_def down)
  moreover have "el_now e' = 12000000000" by (simp add: e' ticks_of_def locked_tick [OF down])
  ultimately show ?thesis by blast
qed

text \<open>C13: without database errors a lease is granted exactly when it is free, held by the asker or
  expired; granting writes that row and no other.\<close>

theorem lease_granted_iff_available:
  "\<exists>ok h st'. TryAcquireLease no_faults now name i ttl st = Inr (ok, h, st') \<and>
     ok = (case current_lease name st of None \<Rightarrow> True | Some l \<Rightarrow> fst l = i \<or> lease_expired now l) \<and>
     current_lease n st' = (if ok \<and> n = name then Some (i, now, whole_seconds ttl) else current_lease n st) \<and>
     st'\<lparr>t_leases := t_leases st\<rparr> = st"
proof -
  obtain ok h st' where run: "TryAcquireLease no_faults now name i ttl st = Inr (ok, h, st')"
    and ok: "ok \<longleftrightarrow> (case current_lease name st of None \<Rightarrow> True | Some l \<Rightarrow> fst l = i \<or> lease_expired now l)"
    using TryAcquireLease_no_faults by blast
  show ?thesis
  proof (cases ok)
    case True
    with run ok TryAcquireLease_granted(3,4) [of no_faults now name i ttl st h st'] show ?thesis by auto
  next
    case False
    with run ok TryAcquireLease_refused(1) [of no_faults now name i ttl st h st'] show ?thesis by auto
  qed
qed

section \<open>Cluster IPs\<close>

text \<open>C14: posting a new service without an address answers 201 and stores it: when the API server runs with
  -cluster-ip-loopback-cidr, under an address of the pool that no stored service uses, as long as fewer than
  250 are taken; without the flag, which is the default, under 127.0.0.1.\<close>

theorem posted_service_gets_fresh_ip:
  assumes "env_drv ev = no_faults" "store_ok (srv_st sv)" "req_method req = ''POST''"
    and "Decode dec_Service zero_Service (req_body req) = Some svc"
    and "md_name (svc_metadata svc) \<noteq> []" "svcspec_ports (svc_spec svc) \<noteq> []" "svcspec_clusterIP (svc_spec svc) = []"
    and "GetService no_faults (srv_st sv) (md_name (svc_metadata svc)) = Inl ErrNotFound"
    and "ListClusterIPs no_faults (srv_st sv) = Inr taken" "cfg_loop cfg \<Longrightarrow> card {ip \<in> set taken. in_pool ip} < 250"
    and "handleServices cfg ev req sv = (r, sv')"
  shows "resp_code r = 201 \<and> (\<exists>s. GetService no_faults (srv_st sv') (md_name (svc_metadata svc)) = Inr s \<and>
    (if cfg_loop cfg then in_pool (svcspec_clusterIP (svc_spec s)) \<and> svcspec_clusterIP (svc_spec s) \<notin> set taken
     else svcspec_clusterIP (svc_spec s) = ''127.0.0.1''))"
  by (rule post_service [OF assms(1-6,8,7,9-11)])

theorem posted_service_gets_fresh_ip_witness:
  "\<exists>r sv' s r2 sv2 s2. handleServices config0 env0 post_svc (server_of empty_store) = (r, sv') \<and> resp_code r = 201 \<and>
     GetService no_faults (srv_st sv') ''web'' = Inr s \<and> in_pool (svcspec_clusterIP (svc_spec s)) \<and>
     handleServices (config0\<lparr>cfg_loop := False\<rparr>) env0 post_svc (server_of empty_store) = (r2, sv2) \<and>
     GetService no_faults (srv_st sv2) ''web'' = Inr s2 \<and> svcspec_clusterIP (svc_spec s2) = ''127.0.0.1''"
proof -
  have env: "env_drv env0 = no_faults" "cfg_loop config0" by (simp_all add: env0_def config0_def)
  have body: "Decode dec_Service zero_Service (req_body post_svc) = Some svc_web"
    by (simp add: post_svc_def Decode_def)
  have get: "GetService no_faults (srv_st (server_of empty_store)) (md_name (svc_metadata svc_web)) = Inl ErrNotFound"
    by (simp add: GetService_def empty_store_def query_row_NotFound no_faults_simp)
  have ips: "ListClusterIPs no_faults (srv_st (server_of empty_store)) = Inr []"
    by (simp add: ListClusterIPs_def empty_store_def query_rows_def no_faults_simp sql_order_def)
  obtain r sv' r2 sv2 where run: "handleServices config0 env0 post_svc (server_of empty_store) = (r, sv')"
    "handleServices (config0\<lparr>cfg_loop := False\<rparr>) env0 post_svc (server_of empty_store) = (r2, sv2)" by (metis surj_pair)
  have start: "store_ok (srv_st (server_of empty_store))" "req_method post_svc = ''POST''"
    by (simp_all add: store_ok_empty post_svc_def)
  from posted_service_gets_fresh_ip [OF env(1) start body _ _ _ get ips _ run(1)] run(1) env(2)
    posted_service_gets_fresh_ip [OF env(1) start body _ _ _ get ips _ run(2)] run(2)
  show ?thesis by auto
qed

text \<open>C15: the allocator tries 250 of the 254 addresses of its cycle: with those taken it reports an
  exhausted pool although an address is free.\<close>

theorem allocator_gives_up_early:
  "\<exists>taken ip. length taken = 250 \<and> fst (alloc True taken 1) = [] \<and> in_pool ip \<and> ip \<notin> set taken"
  by (rule alloc_gives_up)

section \<open>Authorization and policies\<close>

text \<open>C16: whatever order their accesses to the database and the allocator take, POSTs of new services without an
  address on one server that runs with -cluster-ip-loopback-cidr get addresses that no other of them and no service of the start has, as long as
  the pool has room for all of them, and none of them fails but for an exhausted pool.\<close>

theorem concurrent_posts_get_distinct_ips:
  assumes "svc_table_ok st" "list_all wf_Service xs" "list_all (\<lambda>x. svcspec_clusterIP (svc_spec x) = []) xs"
    and "list_all (\<lambda>x. GetService no_faults st (md_name (svc_metadata x)) = Inl ErrNotFound) xs"
    and "distinct (map (\<lambda>x. md_name (svc_metadata x)) xs)" "card {ip \<in> ips_of st. in_pool ip} + length xs \<le> 254"
    and "(race_step True)\<^sup>*\<^sup>* (starting st next (map (Pair r) xs)) s"
  shows "(\<forall>i < length xs. \<forall>j < length xs. \<forall>x y. i \<noteq> j \<longrightarrow> rc_posts s ! i = (r, Stored x) \<longrightarrow> rc_posts s ! j = (r, Stored y) \<longrightarrow>
      svcspec_clusterIP (svc_spec x) \<noteq> svcspec_clusterIP (svc_spec y)) \<and>
    (\<forall>i < length xs. \<forall>r' p. rc_posts s ! i = (r', p) \<longrightarrow> r' = r \<and> (\<forall>x. p \<noteq> Failed x) \<and>
      (\<forall>x. p = Stored x \<longrightarrow> (\<exists>sx. GetService no_faults (rc_st s) (md_name (svc_metadata (xs ! i))) = Inr sx \<and>
        svcspec_clusterIP (svc_spec sx) = svcspec_clusterIP (svc_spec x) \<and> svcspec_clusterIP (svc_spec x) \<notin> insert [] (ips_of st))))"
proof -
  note ok = concurrent_posts [OF assms]
  have "svcspec_clusterIP (svc_spec x) \<noteq> svcspec_clusterIP (svc_spec y)" if "i < length xs" "j < length xs" "i \<noteq> j"
    "rc_posts s ! i = (r, Stored x)" "rc_posts s ! j = (r, Stored y)" for i j x y
  proof -
    have "given (snd (rc_posts s ! i)) \<noteq> None \<longrightarrow> given (snd (rc_posts s ! i)) \<noteq> given (snd (rc_posts s ! j))"
      using ok that(1-3) unfolding race_ok_def by blast
    with that(4,5) show ?thesis by simp
  qed
  moreover note race_ok_post(1) [OF ok] race_ok_stored [OF ok]
  ultimately show ?thesis by blast
qed

theorem concurrent_posts_get_distinct_ips_witness:
  "\<exists>s. (race_step True)\<^sup>*\<^sup>* (starting empty_store (\<lambda>_. 1) [(0, svc_web), (0, svc_db)]) s \<and>
     rc_posts s = [(0, Stored (with_ip ''127.20.0.2'' svc_web)), (0, Stored (with_ip ''127.20.0.3'' svc_db))] \<and>
     (''127.20.0.2'' :: string) \<noteq> ''127.20.0.3''"
proof -
  have tab: "svc_table_ok empty_store" by (rule store_ok_svc_table [OF store_ok_empty])
  obtain s where s: "(race_step True)\<^sup>*\<^sup>* (starting empty_store (\<lambda>_. 1) [(0, svc_web), (0, svc_db)]) s"
    "rc_posts s = [(0, Stored (with_ip ''127.20.0.2'' svc_web)), (0, Stored (with_ip ''127.20.0.3'' svc_db))]"
    using pair_run [OF tab, of svc_web "''web''" svc_db "''db''" "[]" "\<lambda>_. 1" 0 "''127.20.0.2''" 2 0 "''127.20.0.3''" 3]
    by (auto simp: svc_key_def first_addresses)
  have "(race_step True)\<^sup>*\<^sup>* (starting empty_store (\<lambda>_. 1) (map (Pair 0) [svc_web, svc_db])) s" using s(1) by simp
  note spec = concurrent_posts_get_distinct_ips [OF tab _ _ _ _ _ this]
  have "svcspec_clusterIP (svc_spec (with_ip ''127.20.0.2'' svc_web)) \<noteq> svcspec_clusterIP (svc_spec (with_ip ''127.20.0.3'' svc_db))"
    by (rule conjunct1 [OF spec, rule_format, of 0 "Suc 0"]) (simp_all add: s(2))
  with s show ?thesis by (intro exI [of _ s]) simp
qed

text \<open>C17: but each replica has an allocator of its own: two replicas with -cluster-ip-loopback-cidr over one database whose counters agree, as
  they do after their start, can give two services posted at the same time the same address.\<close>

theorem replicas_share_cluster_ip:
  assumes "svc_table_ok st" "wf_Service x" "svcspec_clusterIP (svc_spec x) = []" "wf_Service y" "svcspec_clusterIP (svc_spec y) = []"
    and "svc_key x \<noteq> svc_key y" "GetService no_faults st (svc_key x) = Inl ErrNotFound" "GetService no_faults st (svc_key y) = Inl ErrNotFound"
    and "ListClusterIPs no_faults st = Inr taken" "next 0 = next 1" "alloc True taken (next 0) = (ip, n)" "ip \<noteq> []"
  shows "\<exists>s sx sy. (race_step True)\<^sup>*\<^sup>* (starting st next [(0, x), (1, y)]) s \<and>
    rc_posts s = [(0, Stored (with_ip ip x)), (1, Stored (with_ip ip y))] \<and>
    GetService no_faults (rc_st s) (svc_key x) = Inr sx \<and> GetService no_faults (rc_st s) (svc_key y) = Inr sy \<and>
    svcspec_clusterIP (svc_spec sx) = ip \<and> svcspec_clusterIP (svc_spec sy) = ip"
proof -
  have other: "alloc True taken ((next(0 := n)) 1) = (ip, n)" using assms(10,11) by simp
  show ?thesis
    by (rule pair_run [of st x "svc_key x" y "svc_key y" taken "next" 0 ip n 1 ip n, OF assms(1-3) refl assms(4,5) refl assms(6-9,11,12) other assms(12)])
qed

theorem replicas_share_cluster_ip_witness:
  "\<exists>s sx sy. (race_step True)\<^sup>*\<^sup>* (starting empty_store (\<lambda>_. 1) [(0, svc_web), (1, svc_db)]) s \<and>
     GetService no_faults (rc_st s) ''web'' = Inr sx \<and> GetService no_faults (rc_st s) ''db'' = Inr sy \<and>
     svcspec_clusterIP (svc_spec sx) = ''127.20.0.2'' \<and> svcspec_clusterIP (svc_spec sy) = ''127.20.0.2''"
  using replicas_share_cluster_ip [OF store_ok_svc_table [OF store_ok_empty], of svc_web svc_db "[]" "\<lambda>_. 1" "''127.20.0.2''" 2]
  by (auto simp: svc_key_def first_addresses)

text \<open>C18: on a healthy database the authorizer allows exactly what the RBAC specification permits (a user of
  system:masters, or one to whom a cluster role binding, or a role binding in the request's namespace, gives a
  role with a rule that lists the verb, the API group and the resource or their wildcards) and denies the
  rest.\<close>

theorem authorizer_decides_rbac:
  "(Authorize no_faults st req = Allowed) = permitted st req \<and> IsDenied (Authorize no_faults st req) = (\<not> permitted st req)"
  by (simp add: Authorize_healthy Authorize_healthy_denied)

text \<open>C19: database errors never grant: whatever fails, a request that is allowed is permitted.\<close>

theorem faults_never_grant:
  assumes "Authorize drv st req = Allowed"
  shows "permitted st req"
  using Authorize_fault [OF assms] by (simp add: Authorize_healthy)

theorem faults_never_grant_witness:
  "permitted empty_store \<lparr>rq_user = Some admin, rq_verb = ''delete'', rq_apiGroup = [], rq_resource = ''pods'', rq_namespace = []\<rparr>"
  by (rule faults_never_grant [where drv = "\<lambda>_. Some ''database is locked''"])
    (simp add: Authorize_def admin_def)

text \<open>C20: the network policy evaluator lets a connection to a pod through exactly when no policy selects
  the pod or some selecting policy has a rule that admits the source and the port.\<close>

theorem netpol_decides_policies:
  "dec_allowed (Evaluate ps src (Some d) port) \<longleftrightarrow>
     (\<forall>p. Some p \<in> set ps \<longrightarrow> \<not> selects p d) \<or> (\<exists>p. Some p \<in> set ps \<and> selects p d \<and> admits p (src_labels src) port)"
  by (rule Evaluate_allowed_iff)

theorem netpol_decides_policies_witness:
  "\<not> dec_allowed (Evaluate [Some np_web] None (Some running_web) 80) \<and>
   dec_allowed (Evaluate [Some np_web] None (Some pod_db) 80)"
  using netpol_decides_policies [of "[Some np_web]" None running_web 80]
    netpol_decides_policies [of "[Some np_web]" None pod_db 80]
  by (simp add: selects_def admits_def src_labels_def np_web_def running_web_def pod_web_def pod_db_def gget_def
      LabelReplicaSet_def zero_Metadata_def)

section \<open>Admission and custom resources\<close>

text \<open>C21: the admission pipeline accepts an object, with result \<open>j\<close>, exactly when the mutating hooks of the
  resource let it pass one after the other, each on the output of the one before, and every
  validating hook lets \<open>j\<close> pass.\<close>

theorem admission_accepts_iff:
  "Review drv net rnd st a obj = (j, None) \<longleftrightarrow>
   (\<exists>hooks. ListWebhooks drv st = Inr hooks \<and>
      chain net rnd a (filter (runs WebhookTypeMutating a) hooks) obj = Some j \<and>
      (\<forall>h \<in> set hooks. runs WebhookTypeValidating a h \<longrightarrow> passes net rnd a h j))"
  by (rule Review_accepts_iff)

theorem admission_accepts_iff_witness:
  "Review no_faults silent no_uid empty_store pods_args (enc_Pod pod_web) = (enc_Pod pod_web, None)"
  using admission_accepts_iff [of no_faults silent no_uid empty_store pods_args "enc_Pod pod_web" "enc_Pod pod_web"]
  by (simp add: ListWebhooks_def empty_store_def query_rows_def no_faults_simp sql_order_def)

text \<open>C22: a custom resource's spec is accepted exactly when it conforms to the schema: every required property
  is there, and every property the schema describes has a value of its type (strings, numbers, booleans,
  objects or arrays; an integer is any number, and a type of another name has every value).\<close>

theorem validator_checks_schema: "(ValidateSpec schema spec = None) = conforms schema spec"
  by (rule ValidateSpec_None)

text \<open>C23: the path of a custom resource parses to the group, version, plural and name it was built of.\<close>

theorem cr_path_roundtrip:
  assumes "segment g" "segment v" "segment p" "segment n"
  shows "ParsePath (cr_path g v p) = Inr (g, v, p, []) \<and> ParsePath (cr_path g v p @ ''/'' @ n) = Inr (g, v, p, n)"
  using ParsePath_cr_path [OF assms(1-3)] ParsePath_cr_name [OF assms] by blast

theorem cr_path_roundtrip_witness:
  "ParsePath ''/apis/mk.io/v1/databases/main'' = Inr (''mk.io'', ''v1'', ''databases'', ''main'')"
  using cr_path_roundtrip [of "''mk.io''" "''v1''" "''databases''" "''main''"]
  by (simp add: segment_def cr_path_def PathPrefix_def)

section \<open>Codecs\<close>

text \<open>C24: encoding a well-formed pod and decoding it into a fresh one gives the pod back, and whatever
  document is decoded, the result is well formed.\<close>

theorem pod_codec_roundtrip:
  assumes "wf_Pod p"
  shows "dec_Pod (enc_Pod p) zero_Pod = (p, True) \<and> wf_Pod (fst (dec_Pod j p))"
  using assms by (simp add: dec_Pod_wf)

theorem pod_codec_roundtrip_witness: "dec_Pod (enc_Pod pod_web) zero_Pod = (pod_web, True)"
  using pod_codec_roundtrip [OF pod_web_wf] by blast

section \<open>Names in URLs\<close>



section \<open>Storage\<close>

text \<open>C26: a status written through the status subresource survives every later upsert of the pod.\<close>

theorem pod_status_survives_upsert:
  assumes "pod_table_ok st" "wf_PodStatus s" "UpdateStatus no_faults t1 n s st = Inr st1"
    and "wf_Pod p" "md_name (pod_metadata p) = n" "UpsertPod no_faults t2 p st1 = Inr st2"
  shows "\<exists>q. GetPod no_faults st2 n = Inr q \<and> (pod_status q)\<lparr>ps_lastUpdated := t\<rparr> = s\<lparr>ps_lastUpdated := t\<rparr>"
proof -
  have inv1: "pod_table_ok st1" by (rule pod_store.upd_inv [OF assms(1-3)])
  obtain old where old: "GetPod no_faults st n = Inr old"
    using assms(3) pod_store.upd_missing [of st n t1 s] pod_store.get_error [of st n]
    by (cases "GetPod no_faults st n") auto
  have "GetPod no_faults st1 n = Inr (old\<lparr>pod_status := s\<lparr>ps_lastUpdated := t1\<rparr>\<rparr>)"
    using pod_store.upd_get [OF assms(1-3)] old by simp
  then show ?thesis
    using pod_store.put_then_get [OF inv1 assms(4,6)] assms(5)
    by (simp add: pod_key_def stored_pod_def Let_def)
qed

theorem pod_status_survives_upsert_witness:
  "\<exists>st1 st2 q. UpdateStatus no_faults 6 ''web-0'' (bound_status ''node-1'') st_web = Inr st1 \<and>
     UpsertPod no_faults 7 pod_web st1 = Inr st2 \<and> GetPod no_faults st2 ''web-0'' = Inr q \<and>
     ps_phase (pod_status q) = PhaseScheduled"
proof -
  have tab: "pod_table_ok st_web" using st_web_ok by (rule store_ok_pod_table)
  have "GetPod no_faults st_web ''web-0'' = Inr web_row"
    using live_samples(2) [of "''web-0''"] by (simp add: live_pods_get)
  then obtain st1 where st1: "UpdateStatus no_faults 6 ''web-0'' (bound_status ''node-1'') st_web = Inr st1"
    using pod_store.upd_present unfolding is_ok_iff by blast
  obtain st2 where st2: "UpsertPod no_faults 7 pod_web st1 = Inr st2"
    using pod_put_ok unfolding is_ok_iff by blast
  from pod_status_survives_upsert [OF tab bound_status_wf st1 pod_web_wf _ st2, of 0] obtain q where
    "GetPod no_faults st2 ''web-0'' = Inr q"
    "(pod_status q)\<lparr>ps_lastUpdated := 0\<rparr> = (bound_status ''node-1'')\<lparr>ps_lastUpdated := 0\<rparr>" by auto
  moreover from arg_cong [OF this(2), of ps_phase] have "ps_phase (pod_status q) = PhaseScheduled"
    by (simp add: bound_status_def)
  ultimately show ?thesis using st1 st2 by auto
qed

section \<open>Controllers\<close>

text \<open>C27: a pass of the replica set controller panics exactly when some stored replica set asks for a
  negative number of replicas.\<close>

theorem replicaset_pass_panics_iff_negative:
  assumes "unhooked w"
  shows "(rs_reconcileAll (local_client loop identity now net uid) rnd w = None) =
    (\<exists>k rs. live_sets w k = Some rs \<and> rsspec_replicas (rs_spec rs) < 0)"
  by (rule rs_pass_None [OF assms])

theorem replicaset_pass_panics_iff_negative_witness:
  "rs_reconcileAll (local_client True [] still silent no_uid) (\<lambda>_. bytes) (world_of st_negative) = None"
  using replicaset_pass_panics_iff_negative [OF unhooked_sets(2), of True "[]" still silent no_uid "\<lambda>_. bytes"]
  by (simp add: live_set_samples stored_rs_def)

text \<open>C28: a deployment's template is only looked at when the replica counts differ: with the same name
  and count, any two deployments have the same effect on an existing replica set.\<close>

theorem deployment_template_ignored:
  assumes "client_GetReplicaSet c (md_name (dep_metadata d) @ ''-rs'') w = (Inr rs, w1)"
    and "rsspec_replicas (rs_spec rs) = depspec_replicas (dep_spec d)"
    and "md_name (dep_metadata d') = md_name (dep_metadata d)"
    and "depspec_replicas (dep_spec d') = depspec_replicas (dep_spec d)"
  shows "dep_reconcileOne c d' w = dep_reconcileOne c d w"
  using assms by (simp add: dep_reconcileOne_def propagate_status_def split: sum.split prod.split)

theorem deployment_template_ignored_witness:
  "dep_reconcileOne (New one_answer) (with_replicas (zero_Deployment\<lparr>dep_spec := zero_DeploymentSpec\<lparr>depspec_template :=
       \<lparr>tmpl_metadata = zero_Metadata, tmpl_spec = \<lparr>podspec_containers = [box]\<rparr>\<rparr>\<rparr>\<rparr>) 2) () =
   dep_reconcileOne (New one_answer) (with_replicas zero_Deployment 2) ()"
proof (rule deployment_template_ignored)
  show "client_GetReplicaSet (New one_answer) (md_name (dep_metadata (with_replicas zero_Deployment 2)) @ ''-rs'') () =
      (Inr rs_web, ())"
    by (simp add: client_GetReplicaSet_def do_out_def do_http_safe with_replicas_def zero_Deployment_def zero_Metadata_def New_def one_answer_def decode_payload_def)
qed (simp_all add: with_replicas_def)

text \<open>C29: the endpoints of a service are exactly the running pods its non-empty selector matches that
  have an address and a port, one for each, sorted by address and port.\<close>

theorem endpoints_exact:
  "(a \<in> set (ep_subsets (endpoints_of svc pods)) \<longleftrightarrow>
     (\<exists>p \<in> set pods. ps_phase (pod_status p) = PhaseRunning \<and> svcspec_selector (svc_spec svc) \<noteq> [] \<and>
        (\<forall>(k, v) \<in> set (svcspec_selector (svc_spec svc)). gget (md_labels (pod_metadata p)) k = v) \<and>
        ea_IP a = ps_podIP (pod_status p) \<and> ea_IP a \<noteq> [] \<and>
        ea_port a = (if ps_hostPort (pod_status p) = 0 then targetPort_of svc else ps_hostPort (pod_status p)) \<and>
        ea_port a \<noteq> 0 \<and> ea_nodeName a = ps_nodeName (pod_status p) \<and> ea_podName a = md_name (pod_metadata p))) \<and>
   length (ep_subsets (endpoints_of svc pods)) = length (filter (\<lambda>p. endpoint_of svc p \<noteq> None) pods) \<and>
   sorted (map endpoint_key (ep_subsets (endpoints_of svc pods)))"
  by (simp only: endpoints_of_set endpoint_of_Some endpoints_of_length endpoints_of_sorted simp_thms)

theorem endpoints_exact_witness: "backend 30000 \<in> set (ep_subsets (endpoints_of svc_web [running_web, pod_db]))"
  using endpoints_exact [of "backend 30000" svc_web "[running_web, pod_db]"]
  by (simp add: backend_def running_web_def svc_web_def pod_web_def zero_PodStatus_def gget_def LabelReplicaSet_def)

section \<open>Autoscaling\<close>

text \<open>C30: the autoscaler's wish is its documented formula, ceil(currentAvg / targetAvg * current), up to
  one replica of rounding; and the rounding is observable: 25 replicas at 14 percent of a target of
  50 percent are 8, where the formula says 7.\<close>

theorem hpa_formula_within_one:
  assumes "0 < current" "current < 2 ^ 31" "0 < target" "target < 2 ^ 31" "0 < avg" "avg \<le> 100000"
  shows "\<bar>raw_desired current avg target minr - \<lceil>of_int current * avg / of_int target\<rceil>\<bar> \<le> 1 \<and>
    raw_desired 25 14 50 1 = 8 \<and> \<lceil>of_int 25 * (14 :: rat) / of_int 50\<rceil> = 7"
  using raw_desired_formula [OF assms] rounding_overshoots by blast

theorem hpa_formula_within_one_witness: "\<bar>raw_desired 3 80 50 1 - 5\<bar> \<le> 1"
  using hpa_formula_within_one [of 3 50 80 1] ceiling_unique [of 5 "24 / 5 :: rat"] by simp

section \<open>Service networking\<close>



text \<open>C32: round robin: successive connections through a listener of a service with endpoints go to the
  endpoints in turn, starting at the counter, each of them dialled or, with enforcement on, refused by the policies,
  and none panics, while the counter stays below 2 to the 63. The pods in the proxy's cache have names of their own,
  as the API server stores them.\<close>

theorem proxy_round_robin:
  assumes "distinct (map (\<lambda>q. md_name (pod_metadata q)) (px_pods p))" "pe_backends e \<noteq> []"
    and "uint (pe_counter e) + int (length ports) \<le> 2 ^ 63"
  shows "\<exists>vs. connections p e ports = Some vs \<and> length vs = length ports \<and>
    (\<forall>k < length ports. verdict_on p (ports ! k)
       (pe_backends e ! nat ((uint (pe_counter e) + int k) mod int (length (pe_backends e)))) (vs ! k))"
  using connections_round_robin [OF assms] by (simp add: turn_def)

theorem proxy_round_robin_witness:
  "connections proxy_open entry2 [1, 2, 3] = Some [DialTo (backend 30000), DialTo (backend 30001), DialTo (backend 30000)]"
proof -
  have "distinct (map (\<lambda>q. md_name (pod_metadata q)) (px_pods proxy_open))" "pe_backends entry2 \<noteq> []"
    "uint (pe_counter entry2) + int (length [1 :: int, 2, 3]) \<le> 2 ^ 63" by (simp_all add: proxy_open_def entry2_def)
  from proxy_round_robin [OF this] obtain vs where vs: "connections proxy_open entry2 [1, 2, 3] = Some vs" "length vs = 3"
    "\<forall>k < 3. verdict_on proxy_open ([1, 2, 3] ! k)
       (pe_backends entry2 ! nat ((uint (pe_counter entry2) + int k) mod int (length (pe_backends entry2)))) (vs ! k)"
    by auto
  from vs(2) obtain a b c where abc: "vs = [a, b, c]" by (auto simp: length_Suc_conv eval_nat_numeral)
  show ?thesis
    using vs(1) vs(3) [rule_format, of 0] vs(3) [rule_format, of 1] vs(3) [rule_format, of 2]
    by (simp add: abc verdict_on_def proxy_open_def entry2_def)
qed

text \<open>C33: kube-proxy on a host keeps one open listener for each of its entries, bound to the entry's address and
  port, and no other: after a successful sync this holds again, all of them are for ports of listed services that
  have an address (a listener that is not any more is closed), a listener that is still wanted stays open with its
  counter, and a wanted port is served afterwards when the host could bind its address before the sync and no other
  service of the list claims the same address and port, or any free port (0) on it.\<close>

theorem proxy_sync_follows_services:
  assumes "host_proxying (px_entries p) os" "sync (New (hosted T)) host_sockets p (w, os) = (Inr (), p', (w', os'))"
  shows "host_proxying (px_entries p') os' \<and> (\<exists>svcs w1. client_ListServices (New T) w = (Inr svcs, w1) \<and>
    (\<forall>key e. map_of (px_entries p') key = Some e \<longrightarrow> wanted svcs key) \<and>
    (\<forall>key e. map_of (px_entries p) key = Some e \<longrightarrow> wanted svcs key \<longrightarrow>
       (\<exists>e'. map_of (px_entries p') key = Some e' \<and> pe_ln e' = pe_ln e \<and> pe_counter e' = pe_counter e)) \<and>
    (\<forall>svc sp. svc \<in> set svcs \<longrightarrow> svcspec_clusterIP (svc_spec svc) \<noteq> [] \<longrightarrow> sp \<in> set (svcspec_ports (svc_spec svc)) \<longrightarrow>
       sp_port sp \<noteq> 0 \<longrightarrow> can_bind (svcspec_clusterIP (svc_spec svc)) (sp_port sp) os \<longrightarrow>
       (\<forall>s \<in> set svcs. spares (md_name (svc_metadata svc), sp_port sp) (svcspec_clusterIP (svc_spec svc)) s) \<longrightarrow>
       map_of (px_entries p') (md_name (svc_metadata svc), sp_port sp) \<noteq> None))"
  by (rule sync_on_host [OF assms])

theorem proxy_sync_follows_services_witness:
  "\<exists>p' os'. sync (New (hosted no_services)) host_sockets proxy_open ((), host1) = (Inr (), p', ((), os')) \<and>
     os_open host1 \<noteq> [] \<and> os_open os' = []"
proof -
  have items: "decode_payload (dec_items d z) [] (JsonBody (JObj [(''items'', JNull)])) = Inr []" for d :: "'a dec" and z
    by (simp add: decode_payload_def dec_items_read dec_list_def)
  have lists: "client_ListServices (New no_services) () = (Inr [], ())"
    "client_ListNetworkPolicies (New no_services) () = (Inr [], ())" "client_ListPods (New no_services) () = (Inr [], ())"
    by (simp_all add: client_ListServices_def client_ListNetworkPolicies_def client_ListPods_def do_out_def do_http_safe
        New_def no_services_def items)
  then have "client_ListServices (New (hosted no_services)) ((), host1) = (Inr [], ((), host1))"
    "client_ListNetworkPolicies (New (hosted no_services)) ((), host1) = (Inr [], ((), host1))"
    "client_ListPods (New (hosted no_services)) ((), host1) = (Inr [], ((), host1))"
    by (simp_all add: client_ListServices_def client_ListNetworkPolicies_def client_ListPods_def do_out_hosted split: prod.splits)
  then obtain p' u os' where run: "sync (New (hosted no_services)) host_sockets proxy_open ((), host1) = (Inr (), p', (u, os'))"
    by (cases "close_stale host_sockets {} (px_entries proxy_open) ((), host1)") (auto simp: sync_def Let_def)
  from proxy_sync_follows_services [OF host1_proxying run] lists(1) have kept: "host_proxying (px_entries p') os'"
    and none: "map_of (px_entries p') (a, b) = None" for a b
    by (auto simp: wanted_def)
  have "px_entries p' = []"
  proof (cases "px_entries p'")
    case (Cons x xs)
    with none [of "fst (fst x)" "snd (fst x)"] show ?thesis by simp
  qed simp
  with kept have "os_open os' = []" by (simp add: host_proxying_def proxying_def serving_def listeners_of_def)
  with run show ?thesis by (auto simp: host1_def)
qed

text \<open>C34: a lower-case query for the name of a service with an address gets one answer, that address, from
  the cache refreshed from a listing without duplicate names.\<close>

theorem dns_resolves_service:
  assumes "distinct (map cache_key svcs)" "s \<in> set svcs" "svcspec_clusterIP (svc_spec s) \<noteq> []"
    and "md_name (svc_metadata s) = a" "nz (md_namespace (svc_metadata s)) ''default'' = b"
    and "ToLower a = a" "ToLower b = b" "CHR ''.'' \<notin> set a" "CHR ''.'' \<notin> set b" "ToLower domain = domain"
  shows "dns_handler parseIP domain (cache_of svcs) [\<lparr>q_Name = a @ ''.'' @ b @ ''.svc.'' @ domain, q_Qtype = TypeA\<rparr>] =
    [\<lparr>a_Name = a @ ''.'' @ b @ ''.svc.'' @ domain, a_Ttl = 5, a_A = parseIP (svcspec_clusterIP (svc_spec s))\<rparr>]"
  by (rule dns_answers_service [OF assms])

theorem dns_resolves_service_witness:
  "dns_handler (\<lambda>t. t) ''cluster.local.'' (cache_of [svc_live]) [\<lparr>q_Name = ''web.default.svc.cluster.local.'', q_Qtype = TypeA\<rparr>] =
   [\<lparr>a_Name = ''web.default.svc.cluster.local.'', a_Ttl = 5, a_A = ''127.20.0.2''\<rparr>]"
  using dns_resolves_service [of "[svc_live]" svc_live "''web''" "''default''" "''cluster.local.''" "\<lambda>t. t"]
  by (simp add: nz_def ToLower_def lower_char_def)

section \<open>Webhooks and nodes\<close>

text \<open>C35: behind the admission pipeline the sidecar injector adds its container to the pods that opted in,
  once: applied to its own output it changes nothing, and it never rejects a well-formed pod.\<close>

theorem injector_adds_sidecar_once:
  assumes "wf_Pod p" "net (wh_URL h) = served_by (injectSidecar jerr)" "ra_resource a = ''pods''"
  shows "passes net rnd a h (enc_Pod p) \<and>
    patched net rnd a h (enc_Pod p) = (if opted_in p \<and> \<not> has_sidecar p then enc_Pod (with_sidecar p) else enc_Pod p) \<and>
    patched net rnd a h (patched net rnd a h (enc_Pod p)) = patched net rnd a h (enc_Pod p)"
  using injector_idempotent [where net = net and h = h, OF assms] call_injector [where net = net and h = h, OF assms]
  by (simp add: patched_def)

theorem injector_adds_sidecar_once_witness:
  "patched webhooks no_uid pods_args (hook_at WebhookTypeMutating ''inject'')
     (enc_Pod (pod_web\<lparr>pod_metadata := (pod_metadata pod_web)\<lparr>md_labels := [(injectLabel, ''true'')]\<rparr>\<rparr>)) =
   enc_Pod (with_sidecar (pod_web\<lparr>pod_metadata := (pod_metadata pod_web)\<lparr>md_labels := [(injectLabel, ''true'')]\<rparr>\<rparr>))"
proof -
  let ?p = "pod_web\<lparr>pod_metadata := (pod_metadata pod_web)\<lparr>md_labels := [(injectLabel, ''true'')]\<rparr>\<rparr>"
  have wf: "wf_Pod ?p" using pod_web_wf by (simp add: wf_Pod_def wf_Metadata_def map_ok_def)
  have net: "webhooks (wh_URL (hook_at WebhookTypeMutating ''inject'')) = served_by (injectSidecar no_text)"
    by (simp add: webhooks_def hook_at_def fun_eq_iff)
  have "ra_resource pods_args = ''pods''" by (simp add: pods_args_def)
  from injector_adds_sidecar_once [where net = webhooks and h = "hook_at WebhookTypeMutating ''inject''", OF wf net this, of no_uid]
  show ?thesis by (simp add: opted_in_def has_sidecar_def gget_def box_def)
qed

text \<open>C36: on a host where the kubelet has one open listener for each stub server and no other, it has so after a
  pass that lists the pods of its node: the stub servers of listed pods keep their listener and port, and
  the server of a pod that is not listed any more is gone and its listener closed. The pass itself may panic, where a
  status cannot be written (C25).\<close>

theorem kubelet_reaps_gone_pods:
  assumes "os_ok os" "serving (\<lambda>s. set (os_open (snd s))) stubs (w, os)"
    and "syncOnce (hosted T) (host_runtime ex docker) node stubs (w, os) = Some (Inr (), stubs', w', os')"
  shows "\<exists>pods w1. get_pods T ''nodeName'' node w = (Inr pods, w1) \<and> os_ok os' \<and>
    serving (\<lambda>s. set (os_open (snd s))) stubs' (w', os') \<and>
    (\<forall>n li. map_of stubs' n = Some li \<longrightarrow> (\<exists>p \<in> set pods. md_name (pod_metadata p) = n)) \<and>
    (\<forall>n li p. map_of stubs n = Some li \<longrightarrow> p \<in> set pods \<longrightarrow> md_name (pod_metadata p) = n \<longrightarrow> map_of stubs' n = Some li)"
  by (rule syncOnce_serving [OF assms])

theorem kubelet_reaps_gone_pods_witness:
  "\<exists>stubs' os'. syncOnce (hosted no_services) (host_runtime (\<lambda>_ w. ((None, [], []), w)) False) ''node-1''
       [(''old'', (0, ''127.0.0.1'', 30000))] ((), host0\<lparr>os_open := [(0, ''127.0.0.1'', 30000)], os_next := 1\<rparr>) =
     Some (Inr (), stubs', (), os') \<and> os_open os' = []"
proof -
  let ?os = "host0\<lparr>os_open := [(0, ''127.0.0.1'', 30000)], os_next := 1\<rparr>" and ?rt = "host_runtime (\<lambda>_ w. ((None, [], []), w)) False"
  have get: "get_pods no_services ''nodeName'' ''node-1'' () = (Inr [], ())"
    using parse_target_pair [of "''/api/v1/pods''" "''nodeName''" "''node-1''"]
    by (simp add: get_pods_def query_safe_def no_services_def decode_payload_def dec_items_read dec_list_def)
  then have "get_pods (hosted no_services) ''nodeName'' ''node-1'' ((), ?os) = (Inr [], ((), ?os))"
    by (auto simp: get_pods_def hosted_def split: target.splits prod.splits sum.splits)
  then obtain stubs' u os' where run: "syncOnce (hosted no_services) ?rt ''node-1'' [(''old'', (0, ''127.0.0.1'', 30000))] ((), ?os) =
      Some (Inr (), stubs', u, os')"
    by (cases "reap ?rt {} ([(''old'', (0, ''127.0.0.1'', 30000))], (), ?os)") (auto simp: syncOnce_def)
  have "os_ok ?os" "serving (\<lambda>s. set (os_open (snd s))) [(''old'', (0, ''127.0.0.1'', 30000))] ((), ?os)"
    by (simp_all add: os_ok_def serving_def)
  from kubelet_reaps_gone_pods [OF this run] get
  have srv: "serving (\<lambda>s. set (os_open (snd s))) stubs' (u, os')" and none: "map_of stubs' n \<noteq> Some (a, b, i)" for n a b i
    by auto
  have "stubs' = []"
  proof (cases stubs')
    case (Cons x xs)
    with none [of "fst x" "fst (snd x)" "fst (snd (snd x))" "snd (snd (snd x))"] show ?thesis by simp
  qed simp
  with srv have "os_open os' = []" by (simp add: serving_def)
  with run show ?thesis by auto
qed

section \<open>Sidecars\<close>

text \<open>C37: two sidecars started one after the other on a host, with names (not
  addresses) of their own and no certificates given, accept each other in both directions, as long as their leaves and the CA's certificate are
  in their periods; each end learns the other's name.\<close>

theorem sidecars_accept_each_other:
  assumes "sidecar_main env1 [] c1 k1 san1 h = (Inr a, h1)" "sidecar_main env2 [] c2 k2 san2 h1 = (Inr b, h2)"
    and "se_tempDir env2 = se_tempDir env1" "se_writable env1 (ca_path env1)" "se_writable env1 (ca_key_path env1)"
    and "x_isCA (sc_pool a)" "x_certSign (sc_pool a)" "x_eku (sc_pool a) = []" "in_period now (sc_pool a)"
    and "se_now env1 \<le> now" "now \<le> se_now env1 + 30 * 24 * 3600 * second - second"
    and "se_now env2 \<le> now" "now \<le> se_now env2 + 30 * 24 * 3600 * second - second"
    and "san1 \<noteq> []" "\<not> isIP san1"
  shows "server_conn a now True (as_peer b) = Forwarded san2 \<and>
    client_conn isIP b host san1 now (as_peer a) = Forwarded san1"
  by (rule siblings_connect [where isIP = isIP, OF assms])

theorem sidecars_accept_each_other_witness:
  "\<exists>a h1 b h2. sidecar_main tls_env [] [] [] ''web'' blank_host = (Inr a, h1) \<and>
     sidecar_main tls_env [] [] [] ''db'' h1 = (Inr b, h2) \<and>
     server_conn a (200 * second) True (as_peer b) = Forwarded ''db'' \<and>
     client_conn (\<lambda>_. False) b ''10.0.0.2'' ''web'' (200 * second) (as_peer a) = Forwarded ''web''"
proof -
  note runs = tls_first [of "''web''"] tls_next [of "''db''" 9]
  have "server_conn \<lparr>sc_pool = tls_ca, sc_leaf = tls_leaf ''web'' 8, sc_key = 8\<rparr> (200 * second) True
        (as_peer \<lparr>sc_pool = tls_ca, sc_leaf = tls_leaf ''db'' 9, sc_key = 9\<rparr>) = Forwarded ''db'' \<and>
      client_conn (\<lambda>_. False) \<lparr>sc_pool = tls_ca, sc_leaf = tls_leaf ''db'' 9, sc_key = 9\<rparr> ''10.0.0.2'' ''web'' (200 * second)
        (as_peer \<lparr>sc_pool = tls_ca, sc_leaf = tls_leaf ''web'' 8, sc_key = 8\<rparr>) = Forwarded ''web''"
    by (rule sidecars_accept_each_other [OF runs])
      (simp_all add: tls_env_def tls_ca_def ca_template_def in_period_def second_def)
  with runs show ?thesis by blast
qed

text \<open>C38: a CA certificate found on disk with its key is used as it is: once it has expired, every start that does
  not name a certificate, a key and a pool of its own succeeds all the same (given a source of random bytes), leaves
  the files alone, and yields a sidecar that refuses every connection from then on, in both directions.\<close>

theorem expired_ca_refuses_all:
  assumes "c = [] \<or> k = [] \<or> p = []"
    and "h_files h (ca_path env) = Some (CertPEM ca)" "h_files h (ca_key_path env) = Some (KeyPEM (x_key ca))"
    and "se_random env (h_fresh h)" "x_notAfter ca < se_now env"
  shows "\<exists>sc h'. sidecar_main env p c k san h = (Inr sc, h') \<and> h_files h' = h_files h \<and>
    (\<forall>now up peer isIP host name. se_now env \<le> now \<longrightarrow>
       server_conn sc now up peer = HandshakeFailed \<and> client_conn isIP sc host name now peer = HandshakeFailed)"
proof -
  obtain sc h' where start: "sidecar_main env p c k san h = (Inr sc, h')" "sc_pool sc = ca" "h_files h' = h_files h"
    using start_with_ca [OF assms(1-4)] by blast
  then show ?thesis using assms(5) by (intro exI conjI allI impI) (assumption | rule expired_pool_refuses [THEN conjunct1] expired_pool_refuses [THEN conjunct2] | simp)+
qed

theorem expired_ca_refuses_all_witness:
  "\<exists>sc h'. sidecar_main (tls_env\<lparr>se_now := (100 + 366 * 24 * 3600) * second\<rparr>) [] [] [] ''db'' (used_host 9) = (Inr sc, h') \<and>
     server_conn sc ((100 + 366 * 24 * 3600) * second) True (as_peer sc) = HandshakeFailed"
proof -
  let ?env = "tls_env\<lparr>se_now := (100 + 366 * 24 * 3600) * second\<rparr>"
  have files: "h_files (used_host 9) (ca_path ?env) = Some (CertPEM tls_ca)"
    "h_files (used_host 9) (ca_key_path ?env) = Some (KeyPEM (x_key tls_ca))"
    by (simp_all add: used_host_def ca_path_def ca_key_path_def tls_ca_def ca_template_def)
  have late: "x_notAfter tls_ca < se_now ?env" and rnd: "se_random ?env (h_fresh (used_host 9))"
    by (simp_all add: tls_ca_def ca_template_def second_def tls_env_def)
  from expired_ca_refuses_all [OF disjI1 [OF refl] files rnd late, of "[]" "[]" "''db''"] show ?thesis by fastforce
qed

section \<open>The command line\<close>

text \<open>C39: \<open>mkctl apply -f file\<close> with a new pod stores it as pending and says so, and \<open>mkctl get pods\<close>
  then shows its row.\<close>

theorem mkctl_apply_then_get:
  assumes "unhooked w" "file \<noteq> []" "me_ReadFile me file = Inr data"
    and "me_kind me data = Inr k" "k = [] \<or> k = ''Pod''" "me_Pod me data = Inr p"
    and "wf_Pod p" "pod_name p \<noteq> []" "podspec_containers (pod_spec p) \<noteq> []" "live_pods w (pod_name p) = None"
    and "me_getenv me ''MK_SERVER'' = []" "T ''http://127.0.0.1:8080'' = local_transport loop identity now net rnd"
  shows "\<exists>w' q rows. mkctl me T [''apply'', ''-f'', file] w =
      (Done [Line (''pod/'' @ pod_name p @ '' applied (phase='' @ ps_phase (pod_status q) @ '')'')], w') \<and>
    live_pods w' = (live_pods w)(pod_name p \<mapsto> q) \<and> pod_spec q = pod_spec p \<and> pod_metadata q = pod_metadata p \<and>
    ps_phase (pod_status q) = nz (ps_phase (pod_status p)) PhasePending \<and>
    mkctl me T [''get'', ''pods''] w' = (Done [Table rows], tick w') \<and> pod_cells me q \<in> set rows"
  by (rule apply_then_get [where T = T and me = me and w = w, OF assms])

theorem mkctl_apply_then_get_witness:
  "\<exists>w' q rows. mkctl shell (\<lambda>_. local_transport True [] still silent no_uid) [''apply'', ''-f'', ''pod.yaml''] (world_of empty_store) =
      (Done [Line ''pod/web-0 applied (phase=Pending)''], w') \<and>
    mkctl shell (\<lambda>_. local_transport True [] still silent no_uid) [''get'', ''pods''] w' = (Done [Table rows], tick w') \<and>
    pod_cells shell q \<in> set rows \<and> take 2 (pod_cells shell q) = [''web-0'', ''Pending'']"
proof -
  have name: "pod_name pod_web = ''web-0''" by (simp add: pod_name_def)
  have path: "''pod.yaml'' \<noteq> []" by simp
  have sh: "me_ReadFile shell ''pod.yaml'' = Inr pod_web" "me_kind shell pod_web = Inr ''Pod''" "me_Pod shell pod_web = Inr pod_web"
    "me_getenv shell ''MK_SERVER'' = []" by (simp_all add: shell_def)
  have pod: "pod_name pod_web \<noteq> []" "podspec_containers (pod_spec pod_web) \<noteq> []"
    "live_pods (world_of empty_store) (pod_name pod_web) = None" by (simp_all add: name live_samples)
  have T: "(\<lambda>_. local_transport True [] still silent no_uid) ''http://127.0.0.1:8080'' = local_transport True [] still silent no_uid"
    by simp
  from mkctl_apply_then_get [where me = shell and T = "\<lambda>_. local_transport True [] still silent no_uid",
      OF unhooked_samples(1) path sh(1,2) disjI2 [OF refl] sh(3) pod_web_wf pod sh(4) T]
  obtain w' q rows where run: "mkctl shell (\<lambda>_. local_transport True [] still silent no_uid) [''apply'', ''-f'', ''pod.yaml'']
      (world_of empty_store) = (Done [Line (''pod/'' @ pod_name pod_web @ '' applied (phase='' @ ps_phase (pod_status q) @ '')'')], w')"
    and q: "pod_spec q = pod_spec pod_web" "pod_metadata q = pod_metadata pod_web"
      "ps_phase (pod_status q) = nz (ps_phase (pod_status pod_web)) PhasePending"
    and shown: "mkctl shell (\<lambda>_. local_transport True [] still silent no_uid) [''get'', ''pods''] w' = (Done [Table rows], tick w')"
      "pod_cells shell q \<in> set rows" by (elim exE conjE) (rule that)
  have "ps_phase (pod_status q) = ''Pending''" by (simp add: q nz_def PhasePending_def)
  moreover have "take 2 (pod_cells shell q) = [''web-0'', ps_phase (pod_status q)]"
    by (simp add: pod_cells_def q)
  ultimately show ?thesis using run shown by (auto simp: name)
qed

text \<open>C40: whatever the command, the server and the answer: \<open>mkctl\<close> sends at most one request, and it
  prints a result and exits with 0 only after an answer below 300.\<close>

theorem mkctl_reports_truthfully:
  "\<exists>server. honest (T server) w (mkctl me T argv w)"
  by (rule mkctl_honest)

end
